(* ===== verification/Fred_Prelude.thy ===== *)
theory Fred_Prelude
  imports Main "HOL-Library.Word" "HOL-Library.Char_ord" "HOL-Library.List_Lexorder"
    "HOL-Library.Product_Lexorder"
begin

text \<open>
  Shared vocabulary of the development: the effect type of a C++ function that runs against a
  database context and may throw, the indexed loop over a vector, the string functions of the
  C and boost libraries that the sources call, and the lemma collections the component theories
  draw on.
\<close>

named_theorems op_simps "symbolic execution of operations"
named_theorems op_inv "inversion of operations that returned normally"

type_synonym u16 = "16 word"
type_synonym u32 = "32 word"

section \<open>Operations: state passing with exceptions\<close>

text \<open>
  A C++ function that takes \<^verbatim>\<open>LibFred::OperationContext&\<close> reads and writes the database
  behind the context, and either returns or throws. The changes made before a throw stay in the
  context (they are discarded only when the transaction is rolled back), so an operation always
  returns a state.
\<close>

type_synonym ('db, 'e, 'a) op = "'db \<Rightarrow> ('e + 'a) \<times> 'db"

definition returnE :: "'a \<Rightarrow> ('db, 'e, 'a) op" where
  "returnE x = (\<lambda>s. (Inr x, s))"

definition throwE :: "'e \<Rightarrow> ('db, 'e, 'a) op" where
  "throwE e = (\<lambda>s. (Inl e, s))"

definition bindE :: "('db, 'e, 'a) op \<Rightarrow> ('a \<Rightarrow> ('db, 'e, 'b) op) \<Rightarrow> ('db, 'e, 'b) op" where
  "bindE m f = (\<lambda>s. case m s of (Inl e, s') \<Rightarrow> (Inl e, s') | (Inr x, s') \<Rightarrow> f x s')"

definition catchE :: "('db, 'e, 'a) op \<Rightarrow> ('e \<Rightarrow> ('db, 'e, 'a) op) \<Rightarrow> ('db, 'e, 'a) op" where
  "catchE m h = (\<lambda>s. case m s of (Inl e, s') \<Rightarrow> h e s' | (Inr x, s') \<Rightarrow> (Inr x, s'))"

text \<open>\<^verbatim>\<open>if (cond) { throw e; }\<close> in front of the rest of a function body.\<close>

definition throw_if :: "bool \<Rightarrow> 'e \<Rightarrow> ('db, 'e, 'a) op \<Rightarrow> ('db, 'e, 'a) op" where
  "throw_if b e m = (if b then throwE e else m)"

definition whenE :: "bool \<Rightarrow> ('db, 'e, unit) op \<Rightarrow> ('db, 'e, unit) op" where
  "whenE b m = (if b then m else returnE ())"

text \<open>A computation that may throw and does not touch the database.\<close>

definition liftE :: "'e + 'a \<Rightarrow> ('db, 'e, 'a) op" where
  "liftE r = (\<lambda>s. (r, s))"

lemma liftE_run [op_simps]: "liftE r s = (r, s)"
  by (simp add: liftE_def)

lemma liftE_Inr [op_inv]: "liftE r s = (Inr y, s') \<longleftrightarrow> r = Inr y \<and> s' = s"
  by (auto simp: liftE_def)

lemma returnE_run [op_simps]: "returnE x s = (Inr x, s)"
  by (simp add: returnE_def)

lemma throwE_run [op_simps]: "throwE e s = (Inl e, s)"
  by (simp add: throwE_def)

lemma bindE_run_Inr [op_simps]: "m s = (Inr x, s') \<Longrightarrow> bindE m f s = f x s'"
  by (simp add: bindE_def)

lemma bindE_run_Inl [op_simps]: "m s = (Inl e, s') \<Longrightarrow> bindE m f s = (Inl e, s')"
  by (simp add: bindE_def)

lemma catchE_run_Inr [op_simps]: "m s = (Inr x, s') \<Longrightarrow> catchE m h s = (Inr x, s')"
  by (simp add: catchE_def)

lemma catchE_run_Inl [op_simps]: "m s = (Inl e, s') \<Longrightarrow> catchE m h s = h e s'"
  by (simp add: catchE_def)

lemma throw_if_run [op_simps]: "throw_if b e m s = (if b then (Inl e, s) else m s)"
  by (simp add: throw_if_def throwE_def)

lemma whenE_run [op_simps]: "whenE b m s = (if b then m s else (Inr (), s))"
  by (simp add: whenE_def returnE_def)

lemma returnE_Inr [op_inv]: "returnE x s = (Inr y, s') \<longleftrightarrow> y = x \<and> s' = s"
  by (auto simp: returnE_def)

lemma throwE_Inr [op_inv]: "throwE e s = (Inr y, s') \<longleftrightarrow> False"
  by (simp add: throwE_def)

lemma bindE_Inr [op_inv]:
  "bindE m f s = (Inr y, s') \<longleftrightarrow> (\<exists>x t. m s = (Inr x, t) \<and> f x t = (Inr y, s'))"
  by (auto simp: bindE_def split: prod.splits sum.splits)

lemma throw_if_Inr [op_inv]: "throw_if b e m s = (Inr y, s') \<longleftrightarrow> \<not> b \<and> m s = (Inr y, s')"
  by (auto simp: throw_if_def throwE_def)

lemma whenE_Inr [op_inv]:
  "whenE b m s = (Inr y, s') \<longleftrightarrow> (if b then m s = (Inr (), s') else s' = s)"
  by (auto simp: whenE_def returnE_def)

lemma catchE_Inr:
  "catchE m h s = (Inr y, s') \<longleftrightarrow>
     m s = (Inr y, s') \<or> (\<exists>e t. m s = (Inl e, t) \<and> h e t = (Inr y, s'))"
  by (auto simp: catchE_def split: prod.splits sum.splits)

text \<open>The handlers of the sources only translate or rethrow: they never return normally.\<close>

definition rethrows :: "('e \<Rightarrow> ('db, 'e, 'a) op) \<Rightarrow> bool" where
  "rethrows h \<longleftrightarrow> (\<forall>e s y s'. h e s \<noteq> (Inr y, s'))"

lemma catchE_rethrows: "rethrows h \<Longrightarrow> catchE m h s = (Inr y, s') \<longleftrightarrow> m s = (Inr y, s')"
  by (auto simp: catchE_Inr rethrows_def)

lemma bindE_return_right: "bindE m returnE = m"
  by (rule ext) (auto simp: bindE_def returnE_def split: prod.splits sum.splits)

lemma bindE_returnE [op_simps]: "bindE (returnE x) f = f x"
  by (rule ext) (simp add: bindE_def returnE_def)

lemma bindE_assoc: "bindE (bindE m f) g = bindE m (\<lambda>x. bindE (f x) g)"
  by (rule ext) (auto simp: bindE_def split: prod.splits sum.splits)

lemma bindE_throw_if: "bindE (throw_if b e m) f = throw_if b e (bindE m f)"
  by (rule ext) (simp add: throw_if_def bindE_def throwE_def)

text \<open>An operation that only reads: it returns \<open>x\<close> and leaves the database as it is.\<close>

definition reads :: "('db, 'e, 'a) op \<Rightarrow> 'db \<Rightarrow> 'a \<Rightarrow> bool" where
  "reads m s x \<longleftrightarrow> m s = (Inr x, s)"

lemma bindE_reads [op_simps]: "reads m s x \<Longrightarrow> bindE m f s = f x s"
  by (simp add: reads_def bindE_def)

section \<open>The indexed loop over a vector\<close>

text \<open>
  \<^verbatim>\<open>unsigned short idx = 0; for (it = v.begin(); it != v.end(); ++it, ++idx) { body }\<close>:
  the index is 16 bits wide and wraps; \<open>acc\<close> holds the variables the body assigns.
\<close>

fun for_vector :: "('a \<Rightarrow> u16 \<Rightarrow> 'acc \<Rightarrow> ('db, 'e, 'acc) op) \<Rightarrow> 'a list \<Rightarrow> u16 \<Rightarrow> 'acc \<Rightarrow>
    ('db, 'e, 'acc) op" where
  "for_vector body [] idx acc = returnE acc"
| "for_vector body (x # xs) idx acc =
     bindE (body x idx acc) (\<lambda>acc'. for_vector body xs (idx + 1) acc')"

section \<open>Characters and strings\<close>

text \<open>
  \<^verbatim>\<open>tolower\<close>, \<^verbatim>\<open>toupper\<close> and \<^verbatim>\<open>isspace\<close> in the C locale, which the
  server runs under: only ASCII letters change case and the white space is the six ASCII
  characters. \<^verbatim>\<open>std::string\<close> compares as unsigned bytes, which is the order of
  \<^verbatim>\<open>Char_ord\<close> and \<^verbatim>\<open>List_Lexorder\<close>.
\<close>

definition is_upper :: "char \<Rightarrow> bool" where
  "is_upper c \<longleftrightarrow> 65 \<le> (of_char c :: nat) \<and> (of_char c :: nat) \<le> 90"

definition is_lower :: "char \<Rightarrow> bool" where
  "is_lower c \<longleftrightarrow> 97 \<le> (of_char c :: nat) \<and> (of_char c :: nat) \<le> 122"

definition to_lower_char :: "char \<Rightarrow> char" where
  "to_lower_char c = (if is_upper c then char_of ((of_char c :: nat) + 32) else c)"

definition to_upper_char :: "char \<Rightarrow> char" where
  "to_upper_char c = (if is_lower c then char_of ((of_char c :: nat) - 32) else c)"

definition to_lower_copy :: "string \<Rightarrow> string" where
  "to_lower_copy = map to_lower_char"

definition to_upper_copy :: "string \<Rightarrow> string" where
  "to_upper_copy = map to_upper_char"

definition is_space :: "char \<Rightarrow> bool" where
  "is_space c \<longleftrightarrow> (of_char c :: nat) \<in> {9, 10, 11, 12, 13, 32}"

lemma of_char_less_256 [simp]: "(of_char c :: nat) < 256"
  by (metis of_char_mod_256 mod_less_divisor zero_less_numeral)

lemma of_char_to_lower:
  "(of_char (to_lower_char c) :: nat) = (if is_upper c then of_char c + 32 else of_char c)"
  by (simp add: to_lower_char_def is_upper_def)

lemma of_char_to_upper:
  "(of_char (to_upper_char c) :: nat) = (if is_lower c then of_char c - 32 else of_char c)"
  using of_char_less_256 [of c] by (auto simp: to_upper_char_def is_lower_def)

text \<open>Upper-casing and lower-casing identify the same characters.\<close>

lemma case_folding_codes:
  "(if 97 \<le> x \<and> x \<le> 122 then x - 32 else x) = (if 97 \<le> y \<and> y \<le> 122 then y - 32 else y) \<longleftrightarrow>
   (if 65 \<le> x \<and> x \<le> 90 then x + 32 else x) = (if 65 \<le> y \<and> y \<le> 90 then y + 32 else (y :: nat))"
  by (cases "97 \<le> x \<and> x \<le> 122"; cases "97 \<le> y \<and> y \<le> 122"; auto split: if_splits)

lemma to_upper_eq_iff_to_lower_eq:
  "to_upper_char a = to_upper_char b \<longleftrightarrow> to_lower_char a = to_lower_char b"
proof -
  have "(of_char (to_upper_char a) :: nat) = of_char (to_upper_char b) \<longleftrightarrow>
        (of_char (to_lower_char a) :: nat) = of_char (to_lower_char b)"
    unfolding of_char_to_lower of_char_to_upper is_upper_def is_lower_def
    by (rule case_folding_codes)
  then show ?thesis by simp
qed

lemma to_upper_copy_eq_iff:
  "to_upper_copy a = to_upper_copy b \<longleftrightarrow> to_lower_copy a = to_lower_copy b"
  unfolding to_upper_copy_def to_lower_copy_def
  by (induction a arbitrary: b; case_tac b) (auto simp: to_upper_eq_iff_to_lower_eq)

lemma to_lower_char_idem [simp]: "to_lower_char (to_lower_char c) = to_lower_char c"
proof -
  have "(of_char (to_lower_char (to_lower_char c)) :: nat) = of_char (to_lower_char c)"
    unfolding of_char_to_lower is_upper_def by auto
  then show ?thesis by simp
qed

lemma to_lower_copy_idem [simp]: "to_lower_copy (to_lower_copy s) = to_lower_copy s"
  by (simp add: to_lower_copy_def)

lemma length_to_lower_copy [simp]: "length (to_lower_copy s) = length s"
  by (simp add: to_lower_copy_def)

lemma length_to_upper_copy [simp]: "length (to_upper_copy s) = length s"
  by (simp add: to_upper_copy_def)

end
