(* ===== verification/Std_Containers.thy ===== *)
theory Std_Containers
  imports Fred_Prelude
begin

text \<open>
  The ordered containers of the C++ standard library as the sources use them:
  \<^verbatim>\<open>std::set<K, Compare>\<close> is a list of keys and \<^verbatim>\<open>std::map<K, V, Compare>\<close> a
  list of pairs, both kept in the order of the comparison function. Two keys are the same to the
  container when neither is less than the other. The library requires the comparison to be a
  strict weak order; the locale \<open>strict_weak_order\<close> states that requirement, the facts
  about lookups rest on it, and every comparison function of the sources is an interpretation.
\<close>

definition equivalent :: "('k \<Rightarrow> 'k \<Rightarrow> bool) \<Rightarrow> 'k \<Rightarrow> 'k \<Rightarrow> bool" where
  "equivalent lt x y \<longleftrightarrow> \<not> lt x y \<and> \<not> lt y x"

fun set_insert :: "('k \<Rightarrow> 'k \<Rightarrow> bool) \<Rightarrow> 'k \<Rightarrow> 'k list \<Rightarrow> 'k list" where
  "set_insert lt x [] = [x]"
| "set_insert lt x (y # ys) =
     (if lt x y then x # y # ys
      else if lt y x then y # set_insert lt x ys
      else y # ys)"

definition set_count :: "('k \<Rightarrow> 'k \<Rightarrow> bool) \<Rightarrow> 'k list \<Rightarrow> 'k \<Rightarrow> nat" where
  "set_count lt ys x = length (filter (equivalent lt x) ys)"

fun map_insert :: "('k \<Rightarrow> 'k \<Rightarrow> bool) \<Rightarrow> 'k \<Rightarrow> 'v \<Rightarrow> ('k \<times> 'v) list \<Rightarrow> ('k \<times> 'v) list" where
  "map_insert lt k v [] = [(k, v)]"
| "map_insert lt k v ((k', v') # m) =
     (if lt k k' then (k, v) # (k', v') # m
      else if lt k' k then (k', v') # map_insert lt k v m
      else (k', v') # m)"

fun map_find :: "('k \<Rightarrow> 'k \<Rightarrow> bool) \<Rightarrow> 'k \<Rightarrow> ('k \<times> 'v) list \<Rightarrow> 'v option" where
  "map_find lt k [] = None"
| "map_find lt k ((k', v) # m) = (if equivalent lt k k' then Some v else map_find lt k m)"

text \<open>\<^verbatim>\<open>m[k] = v\<close>\<close>

fun map_assign :: "('k \<Rightarrow> 'k \<Rightarrow> bool) \<Rightarrow> 'k \<Rightarrow> 'v \<Rightarrow> ('k \<times> 'v) list \<Rightarrow> ('k \<times> 'v) list" where
  "map_assign lt k v [] = [(k, v)]"
| "map_assign lt k v ((k', v') # m) =
     (if lt k k' then (k, v) # (k', v') # m
      else if lt k' k then (k', v') # map_assign lt k v m
      else (k', v) # m)"

text \<open>\<^verbatim>\<open>m.erase(it)\<close>, where \<open>it\<close> points to the element with the key \<open>k\<close>\<close>

fun map_erase :: "('k \<Rightarrow> 'k \<Rightarrow> bool) \<Rightarrow> 'k \<Rightarrow> ('k \<times> 'v) list \<Rightarrow> ('k \<times> 'v) list" where
  "map_erase lt k [] = []"
| "map_erase lt k ((k', v) # m) = (if equivalent lt k k' then m else (k', v) # map_erase lt k m)"

text \<open>
  An iterator of a map is the key of the element it points to, or \<open>None\<close> at the end. It stays
  valid when other elements are inserted or erased, as the library promises; \<open>map_next\<close> is
  \<^verbatim>\<open>++it\<close>.
\<close>

definition map_begin :: "('k \<times> 'v) list \<Rightarrow> 'k option" where
  "map_begin m = (case m of [] \<Rightarrow> None | (k, _) # _ \<Rightarrow> Some k)"

definition map_next :: "('k \<Rightarrow> 'k \<Rightarrow> bool) \<Rightarrow> 'k \<Rightarrow> ('k \<times> 'v) list \<Rightarrow> 'k option" where
  "map_next lt k m = map_begin (filter (\<lambda>(k', _). lt k k') m)"

section \<open>What the library requires of a comparison\<close>

locale strict_weak_order =
  fixes lt :: "'k \<Rightarrow> 'k \<Rightarrow> bool"
  assumes less_irrefl: "\<not> lt x x"
    and less_trans: "lt x y \<Longrightarrow> lt y z \<Longrightarrow> lt x z"
    and less_split: "lt x z \<Longrightarrow> lt x y \<or> lt y z"
begin

lemma equivalent_refl: "equivalent lt x x"
  by (simp add: equivalent_def less_irrefl)

lemma equivalent_sym: "equivalent lt x y \<Longrightarrow> equivalent lt y x"
  by (simp add: equivalent_def)

lemma equivalent_trans: "equivalent lt x y \<Longrightarrow> equivalent lt y z \<Longrightarrow> equivalent lt x z"
  unfolding equivalent_def using less_split by blast

lemma less_equivalent_right: "lt x y \<Longrightarrow> equivalent lt y z \<Longrightarrow> lt x z"
  unfolding equivalent_def using less_split by blast

lemma less_equivalent_left: "lt y z \<Longrightarrow> equivalent lt x y \<Longrightarrow> lt x z"
  unfolding equivalent_def using less_split by blast

lemma set_insert_subset: "set (set_insert lt x ys) \<subseteq> insert x (set ys)"
  by (induction ys) auto

lemma sorted_set_insert: "sorted_wrt lt ys \<Longrightarrow> sorted_wrt lt (set_insert lt x ys)"
proof (induction ys)
  case (Cons y ys)
  have "\<forall>z \<in> set (set_insert lt x ys). lt y z" if "lt y x"
    using Cons.prems that set_insert_subset [of x ys] by auto
  with Cons show ?case by (auto intro: less_trans)
qed simp

lemma set_insert_contains:
  "(\<exists>z \<in> set (set_insert lt x ys). equivalent lt w z) \<longleftrightarrow>
     equivalent lt w x \<or> (\<exists>z \<in> set ys. equivalent lt w z)"
proof (induction ys)
  case Nil
  then show ?case by simp
next
  case (Cons y ys)
  have "equivalent lt w x \<longleftrightarrow> equivalent lt w y" if "\<not> lt x y" "\<not> lt y x"
    using that equivalent_trans equivalent_sym unfolding equivalent_def by blast
  with Cons show ?case by auto
qed

lemma sorted_set_count:
  assumes "sorted_wrt lt ys"
  shows "set_count lt ys x = (if \<exists>y \<in> set ys. equivalent lt x y then 1 else 0)"
  using assms
proof (induction ys)
  case Nil
  then show ?case by (simp add: set_count_def)
next
  case (Cons y ys)
  have none: "\<not> equivalent lt x z" if "equivalent lt x y" "z \<in> set ys" for z
  proof -
    have "lt y z" using Cons.prems that by simp
    then have "lt x z" using \<open>equivalent lt x y\<close> by (rule less_equivalent_left)
    then show ?thesis by (simp add: equivalent_def)
  qed
  have "set_count lt (y # ys) x =
      (if equivalent lt x y then Suc (set_count lt ys x) else set_count lt ys x)"
    by (simp add: set_count_def)
  with Cons none show ?case by auto
qed

lemma map_find_equivalent: "equivalent lt x y \<Longrightarrow> map_find lt x m = map_find lt y m"
proof (induction m)
  case (Cons p m)
  have "equivalent lt x (fst p) \<longleftrightarrow> equivalent lt y (fst p)"
    using Cons.prems equivalent_trans equivalent_sym by blast
  with Cons show ?case by (cases p) simp
qed simp

lemma map_find_insert_same: "map_find lt k m = None \<Longrightarrow> map_find lt k (map_insert lt k v m) = Some v"
proof (induction m)
  case (Cons p m)
  then show ?case
    by (cases p) (auto simp: less_irrefl equivalent_def split: if_splits)
qed (simp add: equivalent_refl)

lemma map_find_insert_other:
  "\<not> equivalent lt k' k \<Longrightarrow> map_find lt k' (map_insert lt k v m) = map_find lt k' m"
proof (induction m)
  case (Cons p m)
  then show ?case by (cases p) auto
qed simp

lemma map_find_assign:
  "map_find lt k' (map_assign lt k v m) = (if equivalent lt k' k then Some v else map_find lt k' m)"
proof (induction m)
  case (Cons p m)
  obtain a b where p: "p = (a, b)" by (cases p)
  have "equivalent lt k' k \<longleftrightarrow> equivalent lt k' a" if "\<not> lt k a" "\<not> lt a k"
    using that equivalent_trans equivalent_sym unfolding equivalent_def by blast
  moreover have "\<not> equivalent lt k' a" if "equivalent lt k' k" "lt a k"
    using that less_equivalent_right equivalent_sym unfolding equivalent_def by blast
  ultimately show ?case using Cons by (auto simp: p)
qed simp

lemma map_assign_keys: "fst ` set (map_assign lt k v m) \<subseteq> insert k (fst ` set m)"
  by (induction m) (force split: if_splits)+

lemma sorted_map_assign: "sorted_wrt lt (map fst m) \<Longrightarrow> sorted_wrt lt (map fst (map_assign lt k v m))"
proof (induction m)
  case (Cons p m)
  obtain a b where p: "p = (a, b)" by (cases p)
  have m: "\<forall>z \<in> fst ` set m. lt a z" "sorted_wrt lt (map fst m)"
    using Cons.prems by (auto simp: p)
  have below: "\<forall>z \<in> fst ` set m. lt k z" if "lt k a"
    using m(1) that by (blast intro: less_trans)
  have above: "\<forall>z \<in> fst ` set (map_assign lt k v m). lt a z" if "lt a k"
    using m(1) that map_assign_keys [of k v m] by blast
  show ?case
    using m below above Cons.IH [OF m(2)] by (simp add: p)
qed simp

lemma map_find_absent: "\<forall>z \<in> fst ` set m. \<not> equivalent lt k z \<Longrightarrow> map_find lt k m = None"
  by (induction m) auto

lemma map_insert_keys: "fst ` set (map_insert lt k v m) \<subseteq> insert k (fst ` set m)"
  by (induction m) (force split: if_splits)+

lemma sorted_map_insert: "sorted_wrt lt (map fst m) \<Longrightarrow> sorted_wrt lt (map fst (map_insert lt k v m))"
proof (induction m)
  case (Cons p m)
  obtain a b where p: "p = (a, b)" by (cases p)
  have m: "\<forall>z \<in> fst ` set m. lt a z" "sorted_wrt lt (map fst m)"
    using Cons.prems by (auto simp: p)
  have below: "\<forall>z \<in> fst ` set m. lt k z" if "lt k a"
    using m(1) that by (blast intro: less_trans)
  have above: "\<forall>z \<in> fst ` set (map_insert lt k v m). lt a z" if "lt a k"
    using m(1) that map_insert_keys [of k v m] by blast
  show ?case
    using m below above Cons.IH [OF m(2)] by (simp add: p)
qed simp

lemma map_insert_present:
  "sorted_wrt lt (map fst m) \<Longrightarrow> map_find lt k m \<noteq> None \<Longrightarrow> map_insert lt k v m = m"
proof (induction m)
  case (Cons p m)
  obtain a b where p: "p = (a, b)" by (cases p)
  show ?case
  proof (cases "equivalent lt k a")
    case True
    then show ?thesis by (simp add: p equivalent_def)
  next
    case False
    then have found: "map_find lt k m \<noteq> None" using Cons.prems(2) by (simp add: p)
    obtain z where z: "z \<in> fst ` set m" "equivalent lt k z" using map_find_absent [of m k] found by blast
    have "lt a z" using Cons.prems(1) z(1) by (auto simp: p)
    then have above: "lt a k" by (rule less_equivalent_right [OF _ equivalent_sym [OF z(2)]])
    then have "\<not> lt k a" using less_trans [of a k a] less_irrefl [of a] by blast
    moreover have "map_insert lt k v m = m"
      using Cons.IH found Cons.prems(1) by (simp add: p)
    ultimately show ?thesis
      using above by (simp add: p)
  qed
qed simp

lemma map_erase_absent: "\<forall>z \<in> fst ` set m. \<not> equivalent lt k z \<Longrightarrow> map_erase lt k m = m"
  by (induction m) auto

lemma map_find_append:
  "map_find lt k (m @ n) = (case map_find lt k m of Some v \<Rightarrow> Some v | None \<Rightarrow> map_find lt k n)"
  by (induction m) auto

lemma map_erase_append:
  "map_erase lt k (m @ n) = (if map_find lt k m = None then m @ map_erase lt k n else map_erase lt k m @ n)"
  by (induction m) auto

lemma map_erase_keys: "fst ` set (map_erase lt k m) \<subseteq> fst ` set m"
  by (induction m) (force split: if_splits)+

lemma sorted_map_erase: "sorted_wrt lt (map fst m) \<Longrightarrow> sorted_wrt lt (map fst (map_erase lt k m))"
proof (induction m)
  case (Cons p m)
  obtain a b where p: "p = (a, b)" by (cases p)
  have m: "\<forall>z \<in> fst ` set m. lt a z" "sorted_wrt lt (map fst m)"
    using Cons.prems by (auto simp: p)
  then have "\<forall>z \<in> fst ` set (map_erase lt k m). lt a z"
    using map_erase_keys [of k m] by blast
  then show ?case using m Cons.IH by (simp add: p)
qed simp

end

section \<open>Comparisons by a key\<close>

text \<open>
  The comparison functions of the sources all compare a tuple of fields lexicographically, that
  is, they compare the values of a key function into a linear order.
\<close>

locale keyed_order =
  fixes lt :: "'k \<Rightarrow> 'k \<Rightarrow> bool"
    and key :: "'k \<Rightarrow> 'q :: linorder"
  assumes less_key: "lt x y \<longleftrightarrow> key x < key y"

sublocale keyed_order \<subseteq> strict_weak_order
  by unfold_locales (auto simp: less_key)

context keyed_order
begin

lemma equivalent_key: "equivalent lt x y \<longleftrightarrow> key x = key y"
  by (auto simp: equivalent_def less_key)

lemma set_insert_keys: "key ` set (set_insert lt x ys) = insert (key x) (key ` set ys)"
proof (induction ys)
  case (Cons y ys)
  have "key x = key y" if "\<not> lt x y" "\<not> lt y x"
    using that by (simp add: less_key)
  with Cons show ?case by auto
qed simp

lemma sorted_keys_distinct: "sorted_wrt lt ys \<Longrightarrow> distinct (map key ys)"
  by (induction ys) (auto simp: less_key)

text \<open>The size of a container filled from a vector is the number of different keys.\<close>

lemma sorted_fold_insert: "sorted_wrt lt acc \<Longrightarrow> sorted_wrt lt (fold (set_insert lt) xs acc)"
  by (induction xs arbitrary: acc) (auto intro: sorted_set_insert)

lemma fold_insert_keys:
  "key ` set (fold (set_insert lt) xs acc) = key ` set xs \<union> key ` set acc"
  by (induction xs arbitrary: acc) (auto simp: set_insert_keys)

lemma fold_insert_length:
  "length (fold (set_insert lt) xs []) = card (key ` set xs)"
proof -
  let ?ys = "fold (set_insert lt) xs []"
  have "length ?ys = length (map key ?ys)" by simp
  also have "\<dots> = card (set (map key ?ys))"
    by (rule distinct_card [symmetric]) (simp add: sorted_keys_distinct sorted_fold_insert)
  also have "\<dots> = card (key ` set xs)"
    by (simp add: fold_insert_keys)
  finally show ?thesis .
qed

lemma fold_insert_count:
  "0 < set_count lt (fold (set_insert lt) xs []) x \<longleftrightarrow> key x \<in> key ` set xs"
proof -
  have "(\<exists>y \<in> set (fold (set_insert lt) xs []). equivalent lt x y) \<longleftrightarrow>
      key x \<in> key ` set (fold (set_insert lt) xs [])"
    by (auto simp: equivalent_key)
  then show ?thesis
    by (simp add: sorted_set_count sorted_fold_insert fold_insert_keys)
qed

end

section \<open>The plain string order\<close>

text \<open>\<^verbatim>\<open>std::less<std::string>\<close>, the comparison of a container that names none.\<close>

definition string_less :: "string \<Rightarrow> string \<Rightarrow> bool" where
  "string_less a b \<longleftrightarrow> a < b"

interpretation plain_string: keyed_order string_less "\<lambda>s. s"
  by unfold_locales (simp add: string_less_def)

end
