(* ===== verification/Epp_Result.thy ===== *)
theory Epp_Result
  imports Std_Containers
begin

text \<open>
  The result vocabulary of an EPP response: result codes (\<^verbatim>\<open>epp_result_code.hh\<close>),
  parameters (\<^verbatim>\<open>param.hh\<close>), reasons (\<^verbatim>\<open>reason.hh\<close>), extended errors
  (\<^verbatim>\<open>epp_extended_error.hh\<close>, \<^verbatim>\<open>.cc\<close>), failed results
  (\<^verbatim>\<open>epp_result_failure.hh\<close>, \<^verbatim>\<open>.cc\<close>) and failed responses
  (\<^verbatim>\<open>epp_response_failure.hh\<close>). The enumerators of \<^verbatim>\<open>Param\<close> and
  \<^verbatim>\<open>Reason\<close> carry the name of their enumeration, as their uses in the sources do.
  \<^verbatim>\<open>std::set<EppExtendedError>\<close> is a set: the interpretation \<open>extended_error\<close>
  below shows that the comparison identifies equal errors only.
\<close>

section \<open>Enumerations\<close>

datatype Param =
    Param_poll_msg_id
  | Param_contact_handle
  | Param_contact_cc
  | Param_nsset_handle
  | Param_nsset_tech
  | Param_nsset_dns_name
  | Param_nsset_dns_addr
  | Param_nsset_dns_name_add
  | Param_nsset_dns_name_rem
  | Param_nsset_tech_add
  | Param_nsset_tech_rem
  | Param_domain_fqdn
  | Param_domain_registrant
  | Param_domain_nsset
  | Param_domain_keyset
  | Param_domain_period
  | Param_domain_admin
  | Param_domain_tmpcontact
  | Param_domain_ext_val_date
  | Param_domain_ext_val_date_missing
  | Param_domain_cur_exp_date
  | Param_domain_admin_add
  | Param_domain_admin_rem
  | Param_keyset_handle
  | Param_keyset_tech
  | Param_keyset_dsrecord
  | Param_keyset_dsrecord_add
  | Param_keyset_dsrecord_rem
  | Param_keyset_tech_add
  | Param_keyset_tech_rem
  | Param_registrar_autor
  | Param_keyset_dnskey
  | Param_keyset_dnskey_add
  | Param_keyset_dnskey_rem

datatype Reason =
    Reason_bad_format_contact_handle
  | Reason_bad_format_nsset_handle
  | Reason_bad_format_fqdn
  | Reason_not_applicable_domain
  | Reason_invalid_handle
  | Reason_existing
  | Reason_protected_period
  | Reason_bad_ip_address
  | Reason_bad_dns_name
  | Reason_duplicated_dns_address
  | Reason_ip_glue_not_allowed
  | Reason_period_range
  | Reason_period_policy
  | Reason_country_notexist
  | Reason_msgid_notexist
  | Reason_valexpdate_not_used
  | Reason_valexpdate_not_valid
  | Reason_can_not_remove_tech
  | Reason_technical_contact_already_assigned
  | Reason_technical_contact_not_registered
  | Reason_admin_exist
  | Reason_admin_notexist
  | Reason_nsset_notexist
  | Reason_registrant_notexist
  | Reason_dns_name_exist
  | Reason_dns_name_notexist
  | Reason_curexpdate_not_expdate
  | Reason_blacklisted_domain
  | Reason_xml_validity_error
  | Reason_duplicated_contact
  | Reason_bad_format_keyset_handle
  | Reason_keyset_notexist
  | Reason_unauthorized_registrar
  | Reason_techadmin_limit
  | Reason_dsrecord_limit
  | Reason_dnskey_limit
  | Reason_no_dnskey
  | Reason_dnskey_bad_flags
  | Reason_dnskey_bad_protocol
  | Reason_dnskey_bad_alg
  | Reason_dnskey_bad_key_len
  | Reason_dnskey_bad_key_char
  | Reason_dnskey_exist
  | Reason_dnskey_notexist
  | Reason_duplicated_dnskey
  | Reason_no_dnskey_dsrecord
  | Reason_duplicated_dns_name
  | Reason_admin_not_assigned
  | Reason_tmpcontacts_obsolete
  | Reason_period_too_short

datatype Success =
    command_completed_successfully
  | command_completed_successfully_action_pending
  | command_completed_successfully_no_messages
  | command_completed_successfully_ack_to_dequeue
  | command_completed_successfully_ending_session

datatype Failure =
    unknown_command
  | command_syntax_error
  | command_use_error
  | required_parameter_missing
  | parameter_value_range_error
  | parameter_value_syntax_error
  | unimplemented_protocol_version
  | unimplemented_command
  | unimplemented_option
  | unimplemented_extension
  | billing_failure
  | object_is_not_eligible_for_renewal
  | object_is_not_eligible_for_transfer
  | authentication_error
  | authorization_error
  | invalid_authorization_information
  | object_pending_transfer
  | object_not_pending_transfer
  | object_exists
  | object_does_not_exist
  | object_status_prohibits_operation
  | object_association_prohibits_operation
  | parameter_value_policy_error
  | unimplemented_object_service
  | data_management_policy_violation
  | command_failed
  | command_failed_server_closing_connection
  | authentication_error_server_closing_connection
  | session_limit_exceeded_server_closing_connection

text \<open>The numeric value of an enumerator of \<^verbatim>\<open>Param\<close>: its position.\<close>

primrec param_value :: "Param \<Rightarrow> nat" where
  "param_value Param_poll_msg_id = 0"
| "param_value Param_contact_handle = 1"
| "param_value Param_contact_cc = 2"
| "param_value Param_nsset_handle = 3"
| "param_value Param_nsset_tech = 4"
| "param_value Param_nsset_dns_name = 5"
| "param_value Param_nsset_dns_addr = 6"
| "param_value Param_nsset_dns_name_add = 7"
| "param_value Param_nsset_dns_name_rem = 8"
| "param_value Param_nsset_tech_add = 9"
| "param_value Param_nsset_tech_rem = 10"
| "param_value Param_domain_fqdn = 11"
| "param_value Param_domain_registrant = 12"
| "param_value Param_domain_nsset = 13"
| "param_value Param_domain_keyset = 14"
| "param_value Param_domain_period = 15"
| "param_value Param_domain_admin = 16"
| "param_value Param_domain_tmpcontact = 17"
| "param_value Param_domain_ext_val_date = 18"
| "param_value Param_domain_ext_val_date_missing = 19"
| "param_value Param_domain_cur_exp_date = 20"
| "param_value Param_domain_admin_add = 21"
| "param_value Param_domain_admin_rem = 22"
| "param_value Param_keyset_handle = 23"
| "param_value Param_keyset_tech = 24"
| "param_value Param_keyset_dsrecord = 25"
| "param_value Param_keyset_dsrecord_add = 26"
| "param_value Param_keyset_dsrecord_rem = 27"
| "param_value Param_keyset_tech_add = 28"
| "param_value Param_keyset_tech_rem = 29"
| "param_value Param_registrar_autor = 30"
| "param_value Param_keyset_dnskey = 31"
| "param_value Param_keyset_dnskey_add = 32"
| "param_value Param_keyset_dnskey_rem = 33"

primrec reason_value :: "Reason \<Rightarrow> nat" where
  "reason_value Reason_bad_format_contact_handle = 1"
| "reason_value Reason_bad_format_nsset_handle = 2"
| "reason_value Reason_bad_format_fqdn = 3"
| "reason_value Reason_not_applicable_domain = 4"
| "reason_value Reason_invalid_handle = 5"
| "reason_value Reason_existing = 6"
| "reason_value Reason_protected_period = 7"
| "reason_value Reason_bad_ip_address = 8"
| "reason_value Reason_bad_dns_name = 9"
| "reason_value Reason_duplicated_dns_address = 10"
| "reason_value Reason_ip_glue_not_allowed = 11"
| "reason_value Reason_period_range = 14"
| "reason_value Reason_period_policy = 15"
| "reason_value Reason_country_notexist = 16"
| "reason_value Reason_msgid_notexist = 17"
| "reason_value Reason_valexpdate_not_used = 18"
| "reason_value Reason_valexpdate_not_valid = 19"
| "reason_value Reason_can_not_remove_tech = 23"
| "reason_value Reason_technical_contact_already_assigned = 24"
| "reason_value Reason_technical_contact_not_registered = 25"
| "reason_value Reason_admin_exist = 26"
| "reason_value Reason_admin_notexist = 27"
| "reason_value Reason_nsset_notexist = 28"
| "reason_value Reason_registrant_notexist = 29"
| "reason_value Reason_dns_name_exist = 30"
| "reason_value Reason_dns_name_notexist = 31"
| "reason_value Reason_curexpdate_not_expdate = 32"
| "reason_value Reason_blacklisted_domain = 36"
| "reason_value Reason_xml_validity_error = 37"
| "reason_value Reason_duplicated_contact = 38"
| "reason_value Reason_bad_format_keyset_handle = 39"
| "reason_value Reason_keyset_notexist = 40"
| "reason_value Reason_unauthorized_registrar = 48"
| "reason_value Reason_techadmin_limit = 49"
| "reason_value Reason_dsrecord_limit = 50"
| "reason_value Reason_dnskey_limit = 51"
| "reason_value Reason_no_dnskey = 53"
| "reason_value Reason_dnskey_bad_flags = 54"
| "reason_value Reason_dnskey_bad_protocol = 55"
| "reason_value Reason_dnskey_bad_alg = 56"
| "reason_value Reason_dnskey_bad_key_len = 57"
| "reason_value Reason_dnskey_bad_key_char = 58"
| "reason_value Reason_dnskey_exist = 59"
| "reason_value Reason_dnskey_notexist = 60"
| "reason_value Reason_duplicated_dnskey = 61"
| "reason_value Reason_no_dnskey_dsrecord = 62"
| "reason_value Reason_duplicated_dns_name = 63"
| "reason_value Reason_admin_not_assigned = 64"
| "reason_value Reason_tmpcontacts_obsolete = 65"
| "reason_value Reason_period_too_short = 66"

primrec success_value :: "Success \<Rightarrow> nat" where
  "success_value command_completed_successfully = 1000"
| "success_value command_completed_successfully_action_pending = 1001"
| "success_value command_completed_successfully_no_messages = 1300"
| "success_value command_completed_successfully_ack_to_dequeue = 1301"
| "success_value command_completed_successfully_ending_session = 1500"

primrec failure_value :: "Failure \<Rightarrow> nat" where
  "failure_value unknown_command = 2000"
| "failure_value command_syntax_error = 2001"
| "failure_value command_use_error = 2002"
| "failure_value required_parameter_missing = 2003"
| "failure_value parameter_value_range_error = 2004"
| "failure_value parameter_value_syntax_error = 2005"
| "failure_value unimplemented_protocol_version = 2100"
| "failure_value unimplemented_command = 2101"
| "failure_value unimplemented_option = 2102"
| "failure_value unimplemented_extension = 2103"
| "failure_value billing_failure = 2104"
| "failure_value object_is_not_eligible_for_renewal = 2105"
| "failure_value object_is_not_eligible_for_transfer = 2106"
| "failure_value authentication_error = 2200"
| "failure_value authorization_error = 2201"
| "failure_value invalid_authorization_information = 2202"
| "failure_value object_pending_transfer = 2300"
| "failure_value object_not_pending_transfer = 2301"
| "failure_value object_exists = 2302"
| "failure_value object_does_not_exist = 2303"
| "failure_value object_status_prohibits_operation = 2304"
| "failure_value object_association_prohibits_operation = 2305"
| "failure_value parameter_value_policy_error = 2306"
| "failure_value unimplemented_object_service = 2307"
| "failure_value data_management_policy_violation = 2308"
| "failure_value command_failed = 2400"
| "failure_value command_failed_server_closing_connection = 2500"
| "failure_value authentication_error_server_closing_connection = 2501"
| "failure_value session_limit_exceeded_server_closing_connection = 2502"

definition all_params :: "Param list" where
  "all_params = [Param_poll_msg_id,
     Param_contact_handle,
     Param_contact_cc,
     Param_nsset_handle,
     Param_nsset_tech,
     Param_nsset_dns_name,
     Param_nsset_dns_addr,
     Param_nsset_dns_name_add,
     Param_nsset_dns_name_rem,
     Param_nsset_tech_add,
     Param_nsset_tech_rem,
     Param_domain_fqdn,
     Param_domain_registrant,
     Param_domain_nsset,
     Param_domain_keyset,
     Param_domain_period,
     Param_domain_admin,
     Param_domain_tmpcontact,
     Param_domain_ext_val_date,
     Param_domain_ext_val_date_missing,
     Param_domain_cur_exp_date,
     Param_domain_admin_add,
     Param_domain_admin_rem,
     Param_keyset_handle,
     Param_keyset_tech,
     Param_keyset_dsrecord,
     Param_keyset_dsrecord_add,
     Param_keyset_dsrecord_rem,
     Param_keyset_tech_add,
     Param_keyset_tech_rem,
     Param_registrar_autor,
     Param_keyset_dnskey,
     Param_keyset_dnskey_add,
     Param_keyset_dnskey_rem]"

definition all_reasons :: "Reason list" where
  "all_reasons = [Reason_bad_format_contact_handle,
     Reason_bad_format_nsset_handle,
     Reason_bad_format_fqdn,
     Reason_not_applicable_domain,
     Reason_invalid_handle,
     Reason_existing,
     Reason_protected_period,
     Reason_bad_ip_address,
     Reason_bad_dns_name,
     Reason_duplicated_dns_address,
     Reason_ip_glue_not_allowed,
     Reason_period_range,
     Reason_period_policy,
     Reason_country_notexist,
     Reason_msgid_notexist,
     Reason_valexpdate_not_used,
     Reason_valexpdate_not_valid,
     Reason_can_not_remove_tech,
     Reason_technical_contact_already_assigned,
     Reason_technical_contact_not_registered,
     Reason_admin_exist,
     Reason_admin_notexist,
     Reason_nsset_notexist,
     Reason_registrant_notexist,
     Reason_dns_name_exist,
     Reason_dns_name_notexist,
     Reason_curexpdate_not_expdate,
     Reason_blacklisted_domain,
     Reason_xml_validity_error,
     Reason_duplicated_contact,
     Reason_bad_format_keyset_handle,
     Reason_keyset_notexist,
     Reason_unauthorized_registrar,
     Reason_techadmin_limit,
     Reason_dsrecord_limit,
     Reason_dnskey_limit,
     Reason_no_dnskey,
     Reason_dnskey_bad_flags,
     Reason_dnskey_bad_protocol,
     Reason_dnskey_bad_alg,
     Reason_dnskey_bad_key_len,
     Reason_dnskey_bad_key_char,
     Reason_dnskey_exist,
     Reason_dnskey_notexist,
     Reason_duplicated_dnskey,
     Reason_no_dnskey_dsrecord,
     Reason_duplicated_dns_name,
     Reason_admin_not_assigned,
     Reason_tmpcontacts_obsolete,
     Reason_period_too_short]"

lemma set_all_params: "p \<in> set all_params"
  by (cases p) (simp_all add: all_params_def)

lemma set_all_reasons: "r \<in> set all_reasons"
  by (cases r) (simp_all add: all_reasons_def)

lemma find_param_value: "find (\<lambda>q. param_value q = param_value p) all_params = Some p"
  by (cases p) (simp_all add: all_params_def)

lemma find_reason_value: "find (\<lambda>q. reason_value q = reason_value r) all_reasons = Some r"
  by (cases r) (simp_all add: all_reasons_def)

lemma param_value_inject [simp]: "param_value p = param_value q \<longleftrightarrow> p = q"
  by (metis find_param_value option.inject)

lemma reason_value_inject [simp]: "reason_value r = reason_value q \<longleftrightarrow> r = q"
  by (metis find_reason_value option.inject)

text \<open>
  \<^verbatim>\<open>to_description_db_id\<close> and \<^verbatim>\<open>from_description_db_id<Reason>\<close>: the key of
  a reason in the table \<^verbatim>\<open>enum_reason\<close>. The cast of an unsigned number that is the
  value of no enumerator fails \<^verbatim>\<open>Reason::is_valid\<close>; \<open>None\<close> is the exception
  \<^verbatim>\<open>UnknownLocalizedDescriptionId\<close>.
\<close>

definition to_description_db_id :: "Reason \<Rightarrow> nat" where
  "to_description_db_id r = reason_value r"

definition from_description_db_id :: "nat \<Rightarrow> Reason option" where
  "from_description_db_id n = find (\<lambda>r. reason_value r = n) all_reasons"

section \<open>Extended errors\<close>

record EppExtendedError =
  err_param :: Param
  err_position :: u16
  err_reason :: Reason

definition position_of_scalar_parameter :: u16 where
  "position_of_scalar_parameter = 0"

definition position_of_first_element_of_vector_parameter :: u16 where
  "position_of_first_element_of_vector_parameter = 1"

definition of_scalar_parameter :: "Param \<Rightarrow> Reason \<Rightarrow> EppExtendedError" where
  "of_scalar_parameter p r =
     \<lparr>err_param = p, err_position = position_of_scalar_parameter, err_reason = r\<rparr>"

definition of_vector_parameter :: "Param \<Rightarrow> u16 \<Rightarrow> Reason \<Rightarrow> EppExtendedError" where
  "of_vector_parameter p index r =
     \<lparr>err_param = p, err_position = position_of_first_element_of_vector_parameter + index, err_reason = r\<rparr>"

definition extended_error_less :: "EppExtendedError \<Rightarrow> EppExtendedError \<Rightarrow> bool" where
  "extended_error_less lhs rhs \<longleftrightarrow>
     param_value (err_param lhs) < param_value (err_param rhs) \<or>
     (err_param lhs = err_param rhs \<and> err_position lhs < err_position rhs) \<or>
     (err_param lhs = err_param rhs \<and> err_position lhs = err_position rhs \<and>
      reason_value (err_reason lhs) < reason_value (err_reason rhs))"

definition extended_error_key :: "EppExtendedError \<Rightarrow> nat \<times> u16 \<times> nat" where
  "extended_error_key e = (param_value (err_param e), err_position e, reason_value (err_reason e))"

interpretation extended_error: keyed_order extended_error_less extended_error_key
  by unfold_locales (auto simp: extended_error_less_def extended_error_key_def)

lemma extended_error_key_inject [simp]:
  "extended_error_key a = extended_error_key b \<longleftrightarrow> a = b"
  by (cases a; cases b) (simp add: extended_error_key_def)

lemma extended_error_equivalent: "equivalent extended_error_less a b \<longleftrightarrow> a = b"
  by (simp add: extended_error.equivalent_key)

lemma extended_error_inject [simp]:
  "of_scalar_parameter p r = of_scalar_parameter q s \<longleftrightarrow> p = q \<and> r = s"
  "of_vector_parameter p i r = of_vector_parameter q j s \<longleftrightarrow> p = q \<and> i = j \<and> r = s"
  by (auto simp: of_scalar_parameter_def of_vector_parameter_def)

lemma extended_error_fields [simp]:
  "err_param (of_scalar_parameter p r) = p" "err_reason (of_scalar_parameter p r) = r"
  "err_param (of_vector_parameter p i r) = p" "err_reason (of_vector_parameter p i r) = r"
  by (simp_all add: of_scalar_parameter_def of_vector_parameter_def)

section \<open>Failed results\<close>

record EppResultFailure =
  epp_result_code :: Failure
  extended_errors :: "EppExtendedError set option"

definition result_failure :: "Failure \<Rightarrow> EppResultFailure" where
  "result_failure c = \<lparr>epp_result_code = c, extended_errors = None\<rparr>"

definition add_unspecified_error :: "EppResultFailure \<Rightarrow> EppResultFailure" where
  "add_unspecified_error f =
     (if extended_errors f = None then f\<lparr>extended_errors := Some {}\<rparr> else f)"

definition add_extended_error :: "EppExtendedError \<Rightarrow> EppResultFailure \<Rightarrow> EppResultFailure" where
  "add_extended_error e f =
     (let g = (if extended_errors f = None then f\<lparr>extended_errors := Some {}\<rparr> else f)
      in g\<lparr>extended_errors := map_option (insert e) (extended_errors g)\<rparr>)"

definition add_extended_errors :: "EppExtendedError set \<Rightarrow> EppResultFailure \<Rightarrow> EppResultFailure" where
  "add_extended_errors es f =
     (let g = (if extended_errors f = None then f\<lparr>extended_errors := Some {}\<rparr> else f)
      in g\<lparr>extended_errors := map_option (\<lambda>s. s \<union> es) (extended_errors g)\<rparr>)"

definition failure_empty :: "EppResultFailure \<Rightarrow> bool" where
  "failure_empty f \<longleftrightarrow> extended_errors f = None"

definition result_failure_less :: "EppResultFailure \<Rightarrow> EppResultFailure \<Rightarrow> bool" where
  "result_failure_less lhs rhs \<longleftrightarrow>
     failure_value (epp_result_code lhs) < failure_value (epp_result_code rhs)"

definition has_extended_error :: "EppResultFailure \<Rightarrow> EppExtendedError \<Rightarrow> bool" where
  "has_extended_error f e \<longleftrightarrow>
     (case extended_errors f of None \<Rightarrow> False | Some es \<Rightarrow> e \<in> es)"

definition has_extended_error_with_param_reason ::
  "EppResultFailure \<Rightarrow> Param \<Rightarrow> Reason \<Rightarrow> bool" where
  "has_extended_error_with_param_reason f p r = has_extended_error f (of_scalar_parameter p r)"

definition has_extended_error_with_param_index_reason ::
  "EppResultFailure \<Rightarrow> Param \<Rightarrow> u16 \<Rightarrow> Reason \<Rightarrow> bool" where
  "has_extended_error_with_param_index_reason f p index r =
     has_extended_error f (of_vector_parameter p index r)"

definition extended_errors_with_param_reason ::
  "EppResultFailure \<Rightarrow> Param \<Rightarrow> Reason \<Rightarrow> EppExtendedError set" where
  "extended_errors_with_param_reason f p r =
     (case extended_errors f of
        None \<Rightarrow> {}
      | Some es \<Rightarrow> {e \<in> es. err_param e = p \<and> err_reason e = r})"

text \<open>A failed response is the vector of its results; the constructors give it at least one.\<close>

type_synonym EppResponseFailure = "EppResultFailure list"

definition response_failure :: "EppResultFailure \<Rightarrow> EppResponseFailure" where
  "response_failure r = [r]"

definition response_add :: "EppResultFailure \<Rightarrow> EppResponseFailure \<Rightarrow> EppResponseFailure" where
  "response_add r rs = rs @ [r]"

definition epp_result :: "EppResponseFailure \<Rightarrow> EppResultFailure option" where
  "epp_result rs = (case rs of [] \<Rightarrow> None | r # _ \<Rightarrow> Some r)"

section \<open>The errors of a failed result as a set\<close>

definition errors_of :: "EppResultFailure \<Rightarrow> EppExtendedError set" where
  "errors_of f = (case extended_errors f of None \<Rightarrow> {} | Some es \<Rightarrow> es)"

lemma result_failure_simps [simp]:
  "epp_result_code (result_failure c) = c" "extended_errors (result_failure c) = None"
  "errors_of (result_failure c) = {}" "failure_empty (result_failure c)"
  by (simp_all add: result_failure_def errors_of_def failure_empty_def)

lemma errors_of_add [simp]:
  "errors_of (add_extended_error e f) = insert e (errors_of f)"
  "errors_of (add_extended_errors es f) = errors_of f \<union> es"
  "errors_of (add_unspecified_error f) = errors_of f"
  by (cases "extended_errors f";
      simp add: errors_of_def add_extended_error_def add_extended_errors_def
        add_unspecified_error_def)+

lemma failure_empty_add [simp]:
  "\<not> failure_empty (add_extended_error e f)"
  "\<not> failure_empty (add_extended_errors es f)"
  "\<not> failure_empty (add_unspecified_error f)"
  by (auto simp: failure_empty_def add_extended_error_def add_extended_errors_def
      add_unspecified_error_def Let_def)

lemma epp_result_code_add [simp]:
  "epp_result_code (add_extended_error e f) = epp_result_code f"
  "epp_result_code (add_extended_errors es f) = epp_result_code f"
  "epp_result_code (add_unspecified_error f) = epp_result_code f"
  by (simp_all add: add_extended_error_def add_extended_errors_def add_unspecified_error_def Let_def)

lemma result_failure_eqI:
  "epp_result_code f = epp_result_code g \<Longrightarrow> errors_of f = errors_of g \<Longrightarrow>
   failure_empty f = failure_empty g \<Longrightarrow> f = (g :: EppResultFailure)"
  by (cases f; cases g) (auto simp: errors_of_def failure_empty_def split: option.splits)

lemma errors_of_empty: "failure_empty f \<Longrightarrow> errors_of f = {}"
  by (simp add: failure_empty_def errors_of_def)

lemma has_extended_error_iff: "has_extended_error f e \<longleftrightarrow> e \<in> errors_of f"
  by (auto simp: has_extended_error_def errors_of_def split: option.splits)

lemma has_param_reason_iff [simp]:
  "has_extended_error_with_param_reason f p r \<longleftrightarrow> of_scalar_parameter p r \<in> errors_of f"
  by (simp add: has_extended_error_with_param_reason_def has_extended_error_iff)

lemma has_param_index_reason_iff [simp]:
  "has_extended_error_with_param_index_reason f p i r \<longleftrightarrow> of_vector_parameter p i r \<in> errors_of f"
  by (simp add: has_extended_error_with_param_index_reason_def has_extended_error_iff)

lemma extended_errors_with_param_reason_eq:
  "extended_errors_with_param_reason f p r = {e \<in> errors_of f. err_param e = p \<and> err_reason e = r}"
  by (simp add: extended_errors_with_param_reason_def errors_of_def split: option.splits)

end
