(* ===== verification/Epp_Session.thy ===== *)
theory Epp_Session
  imports Epp_Result
begin

text \<open>
  What every EPP command of \<^verbatim>\<open>src/src/backend/epp\<close> works with: the session data
  (\<^verbatim>\<open>session_data.hh\<close>, \<^verbatim>\<open>.cc\<close>), the exceptions that travel through it, and
  the part of LibFred that all object types share. LibFred is not part of the repository: its
  operations are the fields of the record \<open>libfred\<close>, an argument of every command, over an
  arbitrary type of database states. Its data types below hold what the sources read.
\<close>

type_synonym u64 = "64 word"

text \<open>The order of the containers whose keys are of type \<^verbatim>\<open>unsigned long long\<close>.\<close>

definition u64_less :: "u64 \<Rightarrow> u64 \<Rightarrow> bool" where
  "u64_less a b \<longleftrightarrow> a < b"

interpretation u64_less: keyed_order u64_less "\<lambda>n. n"
  by unfold_locales (simp add: u64_less_def)

text \<open>Points in time are passed on unchanged: the number of microseconds stands for one.\<close>

type_synonym ptime = int

section \<open>Session\<close>

datatype SessionLang = SessionLang_en | SessionLang_cs

record SessionData =
  registrar_id :: u64
  lang :: SessionLang
  server_transaction_handle :: string
  logd_request_id :: "u64 option"

definition is_session_registrar_valid :: "SessionData \<Rightarrow> bool" where
  "is_session_registrar_valid sd \<longleftrightarrow> registrar_id sd \<noteq> 0"

section \<open>Exceptions\<close>

text \<open>
  The exception classes of LibFred that the sources catch by name, with the flags they test;
  every other exception of LibFred is \<open>OtherLibfredException\<close>.
\<close>

datatype libfred_exception =
    InfoRegistrarByIdException (unknown_registrar_id: bool)
  | InfoKeysetByHandleException (unknown_handle: bool)
  | InfoNssetByHandleException (unknown_handle: bool)
  | InfoDomainByFqdnException (unknown_fqdn: bool)
  | InfoContactByHandleException (unknown_handle: bool)
  | CreateContactException (forbidden_company_name_setting: bool) (unknown_registrar_handle: bool)
      (unknown_ssntype: bool) (invalid_contact_handle: bool) (unknown_country: bool)
  | UpdateContactException (forbidden_company_name_setting: bool) (unknown_registrar_handle: bool)
      (unknown_ssntype: bool) (unknown_contact_handle: bool) (unknown_country: bool)
  | DeleteContactByHandleException (unknown_contact_handle: bool) (object_linked_to_contact_handle: bool)
  | CancelObjectStateRequestIdException (state_not_found: bool) (object_id_not_found: bool)
  | CreateKeysetException
  | UpdateKeysetException
  | DeleteKeysetByHandleException (unknown_keyset_handle: bool) (object_linked_to_keyset_handle: bool)
  | CreateNssetException (unknown_registrar_handle: bool) (invalid_nsset_handle: bool)
  | UpdateNssetException (unknown_registrar_handle: bool) (unknown_nsset_handle: bool)
  | DeleteNssetByHandleException (unknown_nsset_handle: bool) (object_linked_to_nsset_handle: bool)
  | CreateDomainException
  | RenewDomainException
  | UpdateDomainException (unknown_domain_fqdn: bool)
  | DeleteDomainByFqdnException
  | ZoneException (unknown_zone_in_fqdn: "string option")
  | UnknownKeysetId
  | UnknownNssetId
  | UnknownDomainId
  | UnknownContactId
  | ExceptionUnknownContactId
  | ExceptionUnknownTestsuiteHandle
  | ExceptionUnknownCheckHandle
  | UnknownObject
  | IncorrectAuthInfoPw
  | NewRegistrarIsAlreadySponsoring
  | OtherLibfredException

text \<open>
  \<open>StdException\<close> stands for the exceptions derived from \<^verbatim>\<open>std::exception\<close> that the
  code throws itself, by their message, and \<open>NonStdException\<close> for anything else a
  \<^verbatim>\<open>catch (...)\<close> sees.
\<close>

datatype exn =
    EppFailure EppResponseFailure
  | LibfredException libfred_exception
  | StdException string
  | BillingFailure
  | NonStdException

text \<open>\<^verbatim>\<open>throw EppResponseFailure(EppResultFailure(code))\<close> and its variants.\<close>

definition epp_failure :: "EppResultFailure \<Rightarrow> exn" where
  "epp_failure r = EppFailure (response_failure r)"

abbreviation fail_with :: "Failure \<Rightarrow> exn" where
  "fail_with c \<equiv> epp_failure (result_failure c)"

lemma epp_failure_inject [simp]: "epp_failure r = epp_failure q \<longleftrightarrow> r = q"
  by (simp add: epp_failure_def response_failure_def)

lemma epp_failure_distinct [simp]:
  "epp_failure r \<noteq> LibfredException x" "LibfredException x \<noteq> epp_failure r"
  "epp_failure r \<noteq> StdException m" "StdException m \<noteq> epp_failure r"
  "epp_failure r \<noteq> BillingFailure" "BillingFailure \<noteq> epp_failure r"
  "epp_failure r \<noteq> NonStdException" "NonStdException \<noteq> epp_failure r"
  by (simp_all add: epp_failure_def)

lemma case_exn_epp_failure [simp]:
  "(case epp_failure r of EppFailure rs \<Rightarrow> f rs | LibfredException x \<Rightarrow> g x | StdException m \<Rightarrow> h m
      | BillingFailure \<Rightarrow> b | NonStdException \<Rightarrow> n) = f [r]"
  by (simp add: epp_failure_def response_failure_def)

section \<open>LibFred: data\<close>

datatype Object_State =
    Object_State_expired
  | Object_State_outzone
  | Object_State_not_validated
  | Object_State_linked
  | Object_State_delete_candidate
  | Object_State_server_delete_prohibited
  | Object_State_server_renew_prohibited
  | Object_State_server_transfer_prohibited
  | Object_State_server_update_prohibited
  | Object_State_server_registrant_change_prohibited
  | Object_State_server_outzone_manual
  | Object_State_server_inzone_manual
  | Object_State_server_blocked
  | Object_State_conditionally_identified_contact
  | Object_State_identified_contact
  | Object_State_validated_contact
  | Object_State_mojeid_contact
  | Object_State_server_contact_name_change_prohibited
  | Object_State_server_contact_organization_change_prohibited
  | Object_State_server_contact_ident_change_prohibited
  | Object_State_server_contact_permanent_address_change_prohibited
  | Object_State_contact_in_manual_verification
  | Object_State_contact_passed_manual_verification
  | Object_State_contact_failed_manual_verification
  | Object_State_other

record ObjectStateData =
  state_name :: string
  is_external :: bool

record InfoRegistrarData =
  registrar_handle :: string
  registrar_system :: "bool option"
  registrar_is_internal :: bool

datatype SyntaxValidity = syntax_valid | syntax_invalid

datatype Registrability = registered | in_protection_period | available

datatype PollMessageType =
    transfer_keyset_message | update_keyset_message
  | transfer_nsset_message | update_nsset_message
  | transfer_domain_message | update_domain_message | delete_domain_message
  | transfer_contact_message | update_contact_message | delete_contact_message

text \<open>\<^verbatim>\<open>session_registrar.system.get_value_or(false)\<close>\<close>

definition is_system :: "InfoRegistrarData \<Rightarrow> bool" where
  "is_system r = (case registrar_system r of None \<Rightarrow> False | Some b \<Rightarrow> b)"

section \<open>LibFred: operations\<close>

record 'db libfred =
  InfoRegistrarById :: "u64 \<Rightarrow> ('db, exn, InfoRegistrarData) op"
  LockObjectStateRequestLock :: "u64 \<Rightarrow> ('db, exn, unit) op"
  PerformObjectStateRequest :: "u64 \<Rightarrow> ('db, exn, unit) op"
  GetObjectStates :: "u64 \<Rightarrow> ('db, exn, ObjectStateData list) op"
  ObjectStatesInfo_presents :: "ObjectStateData list \<Rightarrow> Object_State \<Rightarrow> bool"
  object_state_from_db_handle :: "string \<Rightarrow> exn + Object_State"
  CheckAuthinfo :: "u64 \<Rightarrow> string \<Rightarrow> ('db, exn, nat) op"
  Contact_get_handle_registrability :: "string \<Rightarrow> ('db, exn, Registrability) op"
  CreatePollMessage :: "PollMessageType \<Rightarrow> u64 \<Rightarrow> ('db, exn, unit) op"

section \<open>The states of an object\<close>

text \<open>
  The loop of every \<^verbatim>\<open>get_info_*_output\<close>: the external states, converted to the status
  values of the type of object. A name or a state without a counterpart makes it throw.
\<close>

fun external_states ::
  "(Object_State \<Rightarrow> exn + 'v) \<Rightarrow> (string \<Rightarrow> exn + Object_State) \<Rightarrow> ObjectStateData list \<Rightarrow> 'v set \<Rightarrow>
     exn + 'v set" where
  "external_states from_fred from_db_handle [] acc = Inr acc"
| "external_states from_fred from_db_handle (d # ds) acc =
     (if is_external d
      then (case from_db_handle (state_name d) of
              Inl e \<Rightarrow> Inl e
            | Inr s \<Rightarrow>
                (case from_fred s of
                   Inl e \<Rightarrow> Inl e
                 | Inr v \<Rightarrow> external_states from_fred from_db_handle ds (insert v acc)))
      else external_states from_fred from_db_handle ds acc)"

lemma external_states_Inr:
  "external_states from_fred from_db_handle ds acc = Inr S \<Longrightarrow>
   S = acc \<union> {v. \<exists>d \<in> set ds. is_external d \<and>
     (\<exists>s. from_db_handle (state_name d) = Inr s \<and> from_fred s = Inr v)}"
proof (induction ds arbitrary: acc)
  case (Cons d ds)
  show ?case
  proof (cases "is_external d")
    case True
    with Cons.prems obtain s v where "from_db_handle (state_name d) = Inr s"
        "from_fred s = Inr v" "external_states from_fred from_db_handle ds (insert v acc) = Inr S"
      by (auto split: sum.splits)
    with True Cons.IH [of "insert v acc"] show ?thesis by auto
  next
    case False
    with Cons show ?thesis by auto
  qed
qed simp

section \<open>Authorization by password\<close>

text \<open>\<^verbatim>\<open>Password\<close> (\<^verbatim>\<open>password.hh\<close>, \<^verbatim>\<open>.cc\<close>) wraps one string.\<close>

datatype Password = Password (password_value: string)

definition authorization_required ::
  "('db, 'x) libfred_scheme \<Rightarrow> u64 \<Rightarrow> Password \<Rightarrow> ('db, exn, unit) op" where
  "authorization_required L object_id password =
     bindE (CheckAuthinfo L object_id (password_value password)) (\<lambda>n.
       let is_authorized = 0 < n in
       throw_if (\<not> is_authorized) (fail_with invalid_authorization_information)
       (returnE ()))"

section \<open>The guard every command starts with\<close>

text \<open>
  Every command first refuses a session without a registrar, before it touches the database.
  The locale states that contract of a command as a function of the session; its interpretations
  are the commands of the object types.
\<close>

locale session_guarded =
  fixes command :: "SessionData \<Rightarrow> ('db, exn, 'r) op"
  assumes refuses: "\<not> is_session_registrar_valid sd \<Longrightarrow>
    command sd db = (Inl (fail_with authentication_error_server_closing_connection), db)"
begin

lemma success_has_session:
  "command sd db = (Inr r, db') \<Longrightarrow> registrar_id sd \<noteq> 0"
  using refuses [of sd db] by (cases "is_session_registrar_valid sd")
    (auto simp: is_session_registrar_valid_def)

lemma change_has_session:
  "snd (command sd db) \<noteq> db \<Longrightarrow> registrar_id sd \<noteq> 0"
  using refuses [of sd db] by (cases "is_session_registrar_valid sd")
    (auto simp: is_session_registrar_valid_def)

end

definition with_session :: "SessionData \<Rightarrow> ('db, exn, 'r) op \<Rightarrow> ('db, exn, 'r) op" where
  "with_session sd m =
     throw_if (\<not> is_session_registrar_valid sd)
       (fail_with authentication_error_server_closing_connection) m"

lemma with_session_refuses:
  "\<not> is_session_registrar_valid sd \<Longrightarrow>
   with_session sd m db = (Inl (fail_with authentication_error_server_closing_connection), db)"
  by (simp add: with_session_def op_simps)

lemma with_session_valid [op_simps]:
  "is_session_registrar_valid sd \<Longrightarrow> with_session sd m db = m db"
  by (simp add: with_session_def op_simps)

lemma with_session_Inr [op_inv]:
  "with_session sd m db = (Inr r, db') \<longleftrightarrow> is_session_registrar_valid sd \<and> m db = (Inr r, db')"
  by (auto simp: with_session_def op_inv)

end
