(* ===== verification/Epp_Localized.thy ===== *)
theory Epp_Localized
  imports Epp_Session
begin

text \<open>
  What stands between a command and the client: a command runs in a database transaction of its
  own, its result and its failures are described in the language of the session, and a
  notification may be queued (\<^verbatim>\<open>localization.hh\<close>, \<^verbatim>\<open>.cc\<close>,
  \<^verbatim>\<open>epp_*_localized.cc\<close>, \<^verbatim>\<open>impl/conditionally_enqueue_notification.cc\<close>, and
  the common shape of the functions \<^verbatim>\<open>*_localized\<close>). The text of log records is not
  modelled.
\<close>

section \<open>The database\<close>

text \<open>
  \<^verbatim>\<open>LibFred::OperationContextCreator\<close> opens a transaction and its destructor rolls it back
  unless \<^verbatim>\<open>commit_transaction\<close> was called. Opening and committing are operations of
  LibFred and may throw. The queries are those of \<^verbatim>\<open>localization.hh\<close>, \<^verbatim>\<open>.cc\<close>:
  a column of \<^verbatim>\<open>enum_error\<close> and of \<^verbatim>\<open>enum_reason\<close> by id, the pairs of id and
  column of \<^verbatim>\<open>enum_reason\<close> for an array of ids, and the descriptions of a state in a
  language.
\<close>

datatype notified_event = notified_created | notified_updated | notified_transferred | notified_deleted
  | notified_renewed

record 'db database =
  OperationContextCreator :: "'db \<Rightarrow> exn + unit"
  commit_transaction :: "'db \<Rightarrow> exn + 'db"
  select_enum_error :: "string \<Rightarrow> nat \<Rightarrow> ('db, exn, string list) op"
  select_enum_reason :: "string \<Rightarrow> nat \<Rightarrow> ('db, exn, string list) op"
  select_enum_reasons :: "string \<Rightarrow> string \<Rightarrow> ('db, exn, (nat \<times> string) list) op"
  object_state_to_db_handle :: "Object_State \<Rightarrow> string"
  select_object_state_description :: "string \<Rightarrow> string \<Rightarrow> ('db, exn, string list) op"
  enqueue_notification :: "notified_event \<Rightarrow> u64 \<Rightarrow> u64 \<Rightarrow> string \<Rightarrow> ('db, exn, unit) op"

section \<open>Transactions\<close>

text \<open>
  Inside a context the state is a pair: the stored database and the data the transaction works
  on. \<open>outside\<close> is code that opens contexts of its own while this one is alive.
\<close>

type_synonym 'db operation_context = "'db \<times> 'db"

definition on_working :: "('db, 'e, 'a) op \<Rightarrow> ('db operation_context, 'e, 'a) op" where
  "on_working m = (\<lambda>(stored, working). case m working of (r, working') \<Rightarrow> (r, (stored, working')))"

definition commit :: "('db, 'x) database_scheme \<Rightarrow> ('db operation_context, exn, unit) op" where
  "commit D = (\<lambda>(stored, working).
     case commit_transaction D working of
       Inl e \<Rightarrow> (Inl e, (stored, working))
     | Inr db \<Rightarrow> (Inr (), (db, db)))"

definition outside :: "('db, 'e, 'a) op \<Rightarrow> ('db operation_context, 'e, 'a) op" where
  "outside m = (\<lambda>(stored, working). case m stored of (r, stored') \<Rightarrow> (r, (stored', working)))"

definition with_context :: "('db, 'x) database_scheme \<Rightarrow> ('db operation_context, exn, 'a) op \<Rightarrow> ('db, exn, 'a) op" where
  "with_context D body = (\<lambda>db.
     case OperationContextCreator D db of
       Inl e \<Rightarrow> (Inl e, db)
     | Inr _ \<Rightarrow> (case body (db, db) of (r, (stored, working)) \<Rightarrow> (r, stored)))"

section \<open>Descriptions\<close>

text \<open>
  The exceptions of \<^verbatim>\<open>exception.hh\<close> are derived from \<^verbatim>\<open>std::exception\<close>.
\<close>

abbreviation MissingLocalizedDescription :: exn where
  "MissingLocalizedDescription \<equiv> StdException ''MissingLocalizedDescription''"

abbreviation UnknownLocalizedDescriptionId :: exn where
  "UnknownLocalizedDescriptionId \<equiv> StdException ''UnknownLocalizedDescriptionId''"

definition session_lang_to_db_handle :: "SessionLang \<Rightarrow> string" where
  "session_lang_to_db_handle l = (case l of SessionLang_en \<Rightarrow> ''en'' | SessionLang_cs \<Rightarrow> ''cs'')"

definition get_reason_description_localized_column_name :: "SessionLang \<Rightarrow> string" where
  "get_reason_description_localized_column_name l =
     (case l of SessionLang_en \<Rightarrow> ''reason'' | SessionLang_cs \<Rightarrow> ''reason_cs'')"

definition get_result_description_localized_column_name :: "SessionLang \<Rightarrow> string" where
  "get_result_description_localized_column_name l =
     (case l of SessionLang_en \<Rightarrow> ''status'' | SessionLang_cs \<Rightarrow> ''status_cs'')"

text \<open>The rows of a query that expects one row.\<close>

definition single_row :: "string list \<Rightarrow> exn + string" where
  "single_row rows =
     (if length rows < 1 then Inl MissingLocalizedDescription
      else if 1 < length rows then Inl (StdException ''0 or 1 row expected'')
      else Inr (hd rows))"

definition get_reason_description_localized ::
  "('db, 'x) database_scheme \<Rightarrow> Reason \<Rightarrow> SessionLang \<Rightarrow> ('db, exn, string) op" where
  "get_reason_description_localized D r l =
     (let column_name = get_reason_description_localized_column_name l in
      bindE (select_enum_reason D column_name (to_description_db_id r)) (\<lambda>rows. liftE (single_row rows)))"

text \<open>The template, for the number of a result code.\<close>

definition get_epp_result_description_localized ::
  "('db, 'x) database_scheme \<Rightarrow> nat \<Rightarrow> SessionLang \<Rightarrow> ('db, exn, string) op" where
  "get_epp_result_description_localized D code l =
     (let column_name = get_result_description_localized_column_name l in
      bindE (select_enum_error D column_name code) (\<lambda>rows. liftE (single_row rows)))"

record EppResponseSuccessLocalized =
  success_code :: Success
  success_description :: string

definition response_success_localized ::
  "('db, 'x) database_scheme \<Rightarrow> Success \<Rightarrow> SessionLang \<Rightarrow> ('db, exn, EppResponseSuccessLocalized) op" where
  "response_success_localized D c l =
     bindE (get_epp_result_description_localized D (success_value c) l) (\<lambda>description.
       returnE \<lparr>success_code = c, success_description = description\<rparr>)"

section \<open>States and reasons in the language of the session\<close>

text \<open>The descriptions are a map from status values to texts; the bytes of the Czech text are UTF-8.\<close>

record 'v ObjectStatesLocalized =
  descriptions :: "'v \<rightharpoonup> string"
  success_state_localized_description :: string

definition success_state_description :: "SessionLang \<Rightarrow> string" where
  "success_state_description l =
     (case l of
        SessionLang_en \<Rightarrow> ''Object is without restrictions''
      | SessionLang_cs \<Rightarrow> ''Objekt je bez omezen'' @ [CHR 0xC3, CHR 0xAD])"

text \<open>The template over the status values of an object type, given in the order of their set.\<close>

fun localize_states_loop ::
  "('db, 'x) database_scheme \<Rightarrow> ('v \<Rightarrow> Object_State) \<Rightarrow> 'v list \<Rightarrow> SessionLang \<Rightarrow> ('v \<rightharpoonup> string) \<Rightarrow>
     ('db, exn, 'v \<rightharpoonup> string) op" where
  "localize_states_loop D to_fred_object_state [] l acc = returnE acc"
| "localize_states_loop D to_fred_object_state (v # vs) l acc =
     bindE (select_object_state_description D (object_state_to_db_handle D (to_fred_object_state v))
              (session_lang_to_db_handle l)) (\<lambda>rows.
     bindE (liftE (single_row rows)) (\<lambda>description.
     localize_states_loop D to_fred_object_state vs l (acc(v \<mapsto> description))))"

definition localize_object_states ::
  "('db, 'x) database_scheme \<Rightarrow> ('v \<Rightarrow> Object_State) \<Rightarrow> 'v list \<Rightarrow> SessionLang \<Rightarrow>
     ('db, exn, 'v ObjectStatesLocalized) op" where
  "localize_object_states D to_fred_object_state status_values l =
     bindE (localize_states_loop D to_fred_object_state status_values l Map.empty) (\<lambda>ds.
       returnE \<lparr>descriptions = ds, success_state_localized_description = success_state_description l\<rparr>)"

fun digits :: "nat \<Rightarrow> string" where
  "digits n = (if n < 10 then [char_of (48 + n)] else digits (n div 10) @ [char_of (48 + n mod 10)])"

declare digits.simps [simp del]

fun join :: "string \<Rightarrow> string list \<Rightarrow> string" where
  "join sep [] = []"
| "join sep [s] = s"
| "join sep (s # t # ss) = s @ sep @ join sep (t # ss)"

text \<open>A set of ids is a list in their order.\<close>

definition convert_values_to_pg_array :: "nat list \<Rightarrow> string" where
  "convert_values_to_pg_array ids = ''{'' @ join '','' (map digits ids) @ ''}''"

definition convert_reasons_to_reasons_descriptions_db_ids ::
  "('o \<Rightarrow> Reason) \<Rightarrow> (string \<times> 'o option) list \<Rightarrow> nat list" where
  "convert_reasons_to_reasons_descriptions_db_ids to_reason reasons =
     fold (\<lambda>(h, r) ids. case r of
             None \<Rightarrow> ids
           | Some v \<Rightarrow> set_insert (<) (to_description_db_id (to_reason v)) ids) reasons []"

fun collect_descriptions ::
  "(Reason \<Rightarrow> 'o option) \<Rightarrow> (nat \<times> string) list \<Rightarrow> ('o \<rightharpoonup> string) \<Rightarrow> exn + ('o \<rightharpoonup> string)" where
  "collect_descriptions from_reason [] acc = Inr acc"
| "collect_descriptions from_reason ((n, text) # rows) acc =
     (case from_description_db_id n of
        None \<Rightarrow> Inl UnknownLocalizedDescriptionId
      | Some r \<Rightarrow>
          (case from_reason r of
             None \<Rightarrow> Inl MissingLocalizedDescription
           | Some v \<Rightarrow> collect_descriptions from_reason rows (acc(v \<mapsto> text))))"

definition get_reasons_descriptions_localized ::
  "('db, 'x) database_scheme \<Rightarrow> (Reason \<Rightarrow> 'o option) \<Rightarrow> nat list \<Rightarrow> SessionLang \<Rightarrow>
     ('db, exn, 'o \<rightharpoonup> string) op" where
  "get_reasons_descriptions_localized D from_reason reasons_ids l =
     (if reasons_ids = [] then returnE Map.empty
      else
        bindE (select_enum_reasons D (get_reason_description_localized_column_name l)
                 (convert_values_to_pg_array reasons_ids)) (\<lambda>rows.
        throw_if (length rows < length reasons_ids) MissingLocalizedDescription (
        liftE (collect_descriptions from_reason rows Map.empty))))"

fun decorate_results ::
  "('o \<rightharpoonup> string) \<Rightarrow> (string \<times> 'o option) list \<Rightarrow> (string \<times> ('o \<times> string) option) list \<Rightarrow>
     exn + (string \<times> ('o \<times> string) option) list" where
  "decorate_results ds [] acc = Inr acc"
| "decorate_results ds ((h, r) # results) acc =
     (case r of
        None \<Rightarrow> decorate_results ds results (map_insert string_less h None acc)
      | Some v \<Rightarrow>
          (case ds v of
             None \<Rightarrow> Inl (StdException ''out_of_range'')
           | Some text \<Rightarrow> decorate_results ds results (map_insert string_less h (Some (v, text)) acc)))"

definition localize_check_results ::
  "('db, 'x) database_scheme \<Rightarrow> ('o \<Rightarrow> Reason) \<Rightarrow> (Reason \<Rightarrow> 'o option) \<Rightarrow> (string \<times> 'o option) list \<Rightarrow>
     SessionLang \<Rightarrow> ('db, exn, (string \<times> ('o \<times> string) option) list) op" where
  "localize_check_results D to_reason from_reason check_results l =
     bindE (get_reasons_descriptions_localized D from_reason
              (convert_reasons_to_reasons_descriptions_db_ids to_reason check_results) l) (\<lambda>ds.
     liftE (decorate_results ds check_results []))"

section \<open>Failures in the language of the session\<close>

record EppExtendedErrorLocalized =
  localized_error :: EppExtendedError
  reason_description :: string

definition extended_error_localized ::
  "('db, 'x) database_scheme \<Rightarrow> EppExtendedError \<Rightarrow> SessionLang \<Rightarrow> ('db, exn, EppExtendedErrorLocalized) op" where
  "extended_error_localized D e l =
     bindE (get_reason_description_localized D (err_reason e) l) (\<lambda>description.
       returnE \<lparr>localized_error = e, reason_description = description\<rparr>)"

definition extended_error_localized_less ::
  "EppExtendedErrorLocalized \<Rightarrow> EppExtendedErrorLocalized \<Rightarrow> bool" where
  "extended_error_localized_less lhs rhs = extended_error_less (localized_error lhs) (localized_error rhs)"

interpretation extended_error_localized: keyed_order extended_error_localized_less
    "\<lambda>e. extended_error_key (localized_error e)"
  by unfold_locales (simp add: extended_error_localized_less_def extended_error.less_key)

text \<open>
  The order in which a \<^verbatim>\<open>std::set<EppExtendedError>\<close> is traversed: the order of its
  comparison, as an instance of the library's linear orders.
\<close>

instantiation EppExtendedError_ext :: (linorder) linorder
begin

definition less_eq_EppExtendedError_ext ::
  "'a EppExtendedError_scheme \<Rightarrow> 'a EppExtendedError_scheme \<Rightarrow> bool" where
  "less_eq_EppExtendedError_ext a b \<longleftrightarrow>
     (param_value (err_param a), err_position a, reason_value (err_reason a), EppExtendedError.more a) \<le>
     (param_value (err_param b), err_position b, reason_value (err_reason b), EppExtendedError.more b)"

definition less_EppExtendedError_ext ::
  "'a EppExtendedError_scheme \<Rightarrow> 'a EppExtendedError_scheme \<Rightarrow> bool" where
  "less_EppExtendedError_ext a b \<longleftrightarrow>
     (param_value (err_param a), err_position a, reason_value (err_reason a), EppExtendedError.more a) <
     (param_value (err_param b), err_position b, reason_value (err_reason b), EppExtendedError.more b)"

instance
proof
  fix a b c :: "'a EppExtendedError_scheme"
  show "a < b \<longleftrightarrow> a \<le> b \<and> \<not> b \<le> a"
    unfolding less_EppExtendedError_ext_def less_eq_EppExtendedError_ext_def by (rule less_le_not_le)
  show "a \<le> a" by (simp add: less_eq_EppExtendedError_ext_def)
  show "a \<le> b \<Longrightarrow> b \<le> c \<Longrightarrow> a \<le> c"
    unfolding less_eq_EppExtendedError_ext_def by (rule order_trans)
  show "a \<le> b \<Longrightarrow> b \<le> a \<Longrightarrow> a = b"
    unfolding less_eq_EppExtendedError_ext_def by (drule (1) antisym) (cases a; cases b; simp)
  show "a \<le> b \<or> b \<le> a"
    unfolding less_eq_EppExtendedError_ext_def by (rule linear)
qed

end

lemma extended_error_order: "extended_error_less a b \<longleftrightarrow> a < b"
  unfolding extended_error.less_key by (auto simp: extended_error_key_def less_EppExtendedError_ext_def)

fun localize_errors ::
  "('db, 'x) database_scheme \<Rightarrow> EppExtendedError list \<Rightarrow> SessionLang \<Rightarrow> EppExtendedErrorLocalized set \<Rightarrow>
     ('db, exn, EppExtendedErrorLocalized set) op" where
  "localize_errors D [] l acc = returnE acc"
| "localize_errors D (e # es) l acc =
     bindE (extended_error_localized D e l) (\<lambda>x. localize_errors D es l (insert x acc))"

record EppResultFailureLocalized =
  localized_result :: EppResultFailure
  failure_description :: string
  localized_extended_errors :: "EppExtendedErrorLocalized set option"

definition result_failure_localized ::
  "('db, 'x) database_scheme \<Rightarrow> EppResultFailure \<Rightarrow> SessionLang \<Rightarrow> ('db, exn, EppResultFailureLocalized) op" where
  "result_failure_localized D f l =
     bindE (get_epp_result_description_localized D (failure_value (epp_result_code f)) l) (\<lambda>description.
       case extended_errors f of
         None \<Rightarrow> returnE \<lparr>localized_result = f, failure_description = description,
                          localized_extended_errors = None\<rparr>
       | Some es \<Rightarrow>
           bindE (localize_errors D (sorted_list_of_set es) l {}) (\<lambda>les.
             returnE \<lparr>localized_result = f, failure_description = description,
                      localized_extended_errors = Some les\<rparr>))"

type_synonym EppResponseFailureLocalized = "EppResultFailureLocalized list"

fun response_failure_localized ::
  "('db, 'x) database_scheme \<Rightarrow> EppResponseFailure \<Rightarrow> SessionLang \<Rightarrow>
     ('db, exn, EppResponseFailureLocalized) op" where
  "response_failure_localized D [] l = returnE []"
| "response_failure_localized D (f # fs) l =
     bindE (result_failure_localized D f l) (\<lambda>x.
     bindE (response_failure_localized D fs l) (\<lambda>xs. returnE (x # xs)))"

section \<open>Notifications\<close>

record NotificationData =
  client_transaction_handle :: string
  epp_notification_disabled :: bool
  dont_notify_client_transaction_handles_with_this_prefix :: string

definition starts_with :: "string \<Rightarrow> string \<Rightarrow> bool" where
  "starts_with s prefix \<longleftrightarrow> take (length prefix) s = prefix"

text \<open>The body of the inner \<^verbatim>\<open>try\<close> block, then the function.\<close>

definition enqueue_unless_avoided ::
  "('db, 'x) libfred_scheme \<Rightarrow> ('db, 'y) database_scheme \<Rightarrow> notified_event \<Rightarrow> u64 \<Rightarrow> SessionData \<Rightarrow>
     NotificationData \<Rightarrow> ('db operation_context, exn, unit) op" where
  "enqueue_unless_avoided L D event object_history_id_post_change session notification_data =
     whenE (\<not> epp_notification_disabled notification_data)
       (let client_transaction_handle_starts_with_given_prefix =
              starts_with (client_transaction_handle notification_data)
                (dont_notify_client_transaction_handles_with_this_prefix notification_data) in
        bindE (on_working (InfoRegistrarById L (registrar_id session))) (\<lambda>session_registrar.
        let is_system_registrar = is_system session_registrar;
            do_not_notify = (client_transaction_handle_starts_with_given_prefix \<and> is_system_registrar) in
        if do_not_notify then returnE ()
        else
          bindE (on_working (enqueue_notification D event (registrar_id session)
                   object_history_id_post_change (server_transaction_handle session))) (\<lambda>_.
          commit D)))"

definition conditionally_enqueue_notification ::
  "('db, 'x) libfred_scheme \<Rightarrow> ('db, 'y) database_scheme \<Rightarrow> notified_event \<Rightarrow> u64 \<Rightarrow> SessionData \<Rightarrow>
     NotificationData \<Rightarrow> ('db, exn, unit) op" where
  "conditionally_enqueue_notification L D event object_history_id_post_change session notification_data =
     catchE
       (with_context D
          (catchE
             (enqueue_unless_avoided L D event object_history_id_post_change session notification_data)
             (\<lambda>_. returnE ())))
       (\<lambda>_. returnE ())"

section \<open>The shape of a localized command\<close>

text \<open>
  What leaves a function \<^verbatim>\<open>*_localized\<close>: the localized failure, or an exception thrown
  while the failure was being localized.
\<close>

datatype thrown = FailureLocalized EppResponseFailureLocalized | Escaped exn

text \<open>
  The three handlers: an \<^verbatim>\<open>EppResponseFailure\<close> is localized as it is; every other
  exception, derived from \<^verbatim>\<open>std::exception\<close> or not, as \<open>command_failed\<close>. Each opens
  a context of its own, which it does not commit.
\<close>

definition throw_localized ::
  "('db, 'x) database_scheme \<Rightarrow> SessionLang \<Rightarrow> exn \<Rightarrow> ('db, thrown, 'a) op" where
  "throw_localized D l e = (\<lambda>db.
     let response = (case e of
           EppFailure rs \<Rightarrow> rs
         | _ \<Rightarrow> response_failure (result_failure command_failed)) in
     case with_context D (on_working (response_failure_localized D response l)) db of
       (Inl e', db') \<Rightarrow> (Inl (Escaped e'), db')
     | (Inr localized, db') \<Rightarrow> (Inl (FailureLocalized localized), db'))"

definition try_localized ::
  "('db, 'x) database_scheme \<Rightarrow> SessionLang \<Rightarrow> ('db, exn, 'a) op \<Rightarrow> ('db, thrown, 'a) op" where
  "try_localized D l m = (\<lambda>db.
     case m db of
       (Inr x, db') \<Rightarrow> (Inr x, db')
     | (Inl e, db') \<Rightarrow> throw_localized D l e db')"

section \<open>What a transaction guarantees\<close>

lemma on_working_run [op_simps]: "m w = (r, w') \<Longrightarrow> on_working m (s, w) = (r, (s, w'))"
  by (simp add: on_working_def)

lemma on_working_Inr [op_inv]:
  "on_working m c = (Inr x, c') \<longleftrightarrow> (\<exists>w'. m (snd c) = (Inr x, w') \<and> c' = (fst c, w'))"
  by (cases c) (auto simp: on_working_def split: prod.splits)

lemma on_working_Inl:
  "on_working m c = (Inl e, c') \<Longrightarrow> fst c' = fst c"
  by (cases c) (auto simp: on_working_def split: prod.splits)

lemma commit_Inr [op_inv]:
  "commit D c = (Inr u, c') \<longleftrightarrow> (\<exists>db. commit_transaction D (snd c) = Inr db \<and> c' = (db, db))"
  by (cases c) (auto simp: commit_def split: sum.splits)

lemma commit_Inl: "commit D c = (Inl e, c') \<Longrightarrow> c' = c"
  by (cases c) (auto simp: commit_def split: sum.splits)

lemma outside_Inr [op_inv]:
  "outside m c = (Inr x, c') \<longleftrightarrow> (\<exists>s'. m (fst c) = (Inr x, s') \<and> c' = (s', snd c))"
  by (cases c) (auto simp: outside_def split: prod.splits)

lemma bindE_Inl:
  "bindE m f s = (Inl e, s') \<longleftrightarrow>
     m s = (Inl e, s') \<or> (\<exists>x t. m s = (Inr x, t) \<and> f x t = (Inl e, s'))"
  by (auto simp: bindE_def split: prod.splits sum.splits)

lemma with_context_Inr [op_inv]:
  "with_context D body db = (Inr x, db') \<longleftrightarrow>
     (\<exists>u w. OperationContextCreator D db = Inr u \<and> body (db, db) = (Inr x, (db', w)))"
  by (auto simp: with_context_def split: prod.splits sum.splits)

lemma with_context_Inl:
  "with_context D body db = (Inl e, db') \<longleftrightarrow>
     (OperationContextCreator D db = Inl e \<and> db' = db) \<or>
     (\<exists>u w. OperationContextCreator D db = Inr u \<and> body (db, db) = (Inl e, (db', w)))"
  by (auto simp: with_context_def split: prod.splits sum.splits)

text \<open>A context that is never committed leaves the stored database as it is.\<close>

lemma with_context_uncommitted: "snd (with_context D (on_working m) db) = db"
  by (auto simp: with_context_def on_working_def split: sum.split prod.split)

lemma throw_localized_stored: "\<exists>t. throw_localized D l e db = (Inl t, db)"
proof -
  let ?r = "case e of EppFailure rs \<Rightarrow> rs | _ \<Rightarrow> response_failure (result_failure command_failed)"
  obtain r db' where r: "with_context D (on_working (response_failure_localized D ?r l)) db = (r, db')"
    by fastforce
  moreover have "db' = db"
    using with_context_uncommitted [of D "response_failure_localized D ?r l" db] r by simp
  ultimately show ?thesis
    unfolding throw_localized_def Let_def by (cases r) auto
qed

lemma try_localized_Inr:
  fixes m :: "('db, exn, 'a) op"
  shows "try_localized D l m db = (Inr x, db') \<longleftrightarrow> m db = (Inr x, db')"
proof (cases "m db")
  case (Pair r db1)
  show ?thesis
  proof (cases r)
    case (Inl e)
    obtain t where "(throw_localized D l e :: ('db, thrown, 'a) op) db1 = (Inl t, db1)"
      by (metis throw_localized_stored)
    with Pair Inl show ?thesis by (simp add: try_localized_def)
  qed (simp add: try_localized_def Pair)
qed

lemma try_localized_Inl:
  fixes m :: "('db, exn, 'a) op"
  assumes run: "try_localized D l m db = (Inl t, db')"
  shows "\<exists>e. m db = (Inl e, db') \<and> (throw_localized D l e :: ('db, thrown, 'a) op) db' = (Inl t, db')"
proof (cases "m db")
  case (Pair r db1)
  show ?thesis
  proof (cases r)
    case (Inl e)
    obtain t' where "(throw_localized D l e :: ('db, thrown, 'a) op) db1 = (Inl t', db1)"
      by (metis throw_localized_stored)
    with Pair Inl run show ?thesis by (simp add: try_localized_def)
  next
    case (Inr x)
    with Pair run show ?thesis by (simp add: try_localized_def)
  qed
qed

lemma try_localized_stored:
  fixes m :: "('db, exn, 'a) op"
  assumes "snd (m db) = db"
  shows "snd (try_localized D l m db) = db"
proof (cases "m db")
  case (Pair r db1)
  with assms have m: "m db = (r, db)" by simp
  show ?thesis
  proof (cases r)
    case (Inl e)
    obtain t where "(throw_localized D l e :: ('db, thrown, 'a) op) db = (Inl t, db)"
      by (metis throw_localized_stored)
    with m Inl show ?thesis by (simp add: try_localized_def)
  qed (simp add: try_localized_def m)
qed

text \<open>Steps that all work inside the transaction are one step inside it.\<close>

lemma bindE_on_working: "bindE (on_working m) (\<lambda>x. on_working (f x)) = on_working (bindE m f)"
  by (rule ext) (auto simp: on_working_def bindE_def split: prod.split sum.split)

lemma returnE_on_working: "returnE x = on_working (returnE x)"
  by (rule ext) (auto simp: on_working_def returnE_def)

text \<open>Nothing done outside the transaction.\<close>

lemma outside_nothing: "bindE (outside (returnE ())) f = f ()"
  by (rule ext) (auto simp: bindE_def outside_def returnE_def)

section \<open>Notifications do not disturb\<close>

lemma conditionally_enqueue_notification_returns:
  "\<exists>db'. conditionally_enqueue_notification L D event hist session nd db = (Inr (), db')"
  unfolding conditionally_enqueue_notification_def catchE_def returnE_def
  by (auto split: prod.split sum.split)

definition notification_due ::
  "('db, 'x) libfred_scheme \<Rightarrow> SessionData \<Rightarrow> NotificationData \<Rightarrow> 'db \<Rightarrow> bool" where
  "notification_due L session nd db \<longleftrightarrow>
     \<not> epp_notification_disabled nd \<and>
     (\<exists>r w. InfoRegistrarById L (registrar_id session) db = (Inr r, w) \<and>
        \<not> (starts_with (client_transaction_handle nd)
              (dont_notify_client_transaction_handles_with_this_prefix nd) \<and> is_system r))"

text \<open>
  The only change a call can store is that of a queued notification, and it stores it only when
  notification is due.
\<close>

lemma conditionally_enqueue_notification_change:
  assumes "conditionally_enqueue_notification L D event hist session nd db = (Inr (), db')" and "db' \<noteq> db"
  shows "notification_due L session nd db \<and>
    (\<exists>r w1 w2. InfoRegistrarById L (registrar_id session) db = (Inr r, w1) \<and>
       enqueue_notification D event (registrar_id session) hist (server_transaction_handle session) w1 = (Inr (), w2) \<and>
       commit_transaction D w2 = Inr db')"
proof -
  let ?body = "enqueue_unless_avoided L D event hist session nd"
  have threw: "fst c' = db" if "?body (db, db) = (Inl e, c')" for e c'
    using that unfolding enqueue_unless_avoided_def
    by (auto simp: whenE_def Let_def bindE_Inl op_inv op_simps split: if_splits
        dest!: on_working_Inl commit_Inl)
  obtain w where "catchE ?body (\<lambda>_. returnE ()) (db, db) = (Inr (), (db', w))"
    using assms unfolding conditionally_enqueue_notification_def catchE_Inr [of "with_context D _"]
    by (auto simp: op_inv with_context_Inl catchE_def returnE_def split: prod.splits sum.splits)
  then have "?body (db, db) = (Inr (), (db', w))"
    using threw assms(2) by (force simp: catchE_Inr op_inv)
  then show ?thesis
    using assms(2) unfolding notification_due_def enqueue_unless_avoided_def
    by (auto simp: op_inv Let_def split: if_splits)
qed

section \<open>Commands that change the database\<close>

text \<open>
  The contract of a function \<^verbatim>\<open>*_localized\<close> of a command that changes the database: run
  the command in a transaction, describe the result, commit, notify, respond.
\<close>

locale localized_update =
  fixes D :: "('db, 'x) database_scheme"
    and l :: SessionLang
    and core :: "('db, exn, 'r) op"
    and notify :: "'r \<Rightarrow> ('db, exn, unit) op"
    and respond :: "EppResponseSuccessLocalized \<Rightarrow> 'r \<Rightarrow> 'q"
    and command :: "('db, thrown, 'q) op"
  assumes shape: "command = try_localized D l (with_context D (
      bindE (on_working core) (\<lambda>r.
      bindE (on_working (response_success_localized D command_completed_successfully l)) (\<lambda>response.
      bindE (commit D) (\<lambda>_.
      bindE (outside (notify r)) (\<lambda>_.
      returnE (respond response r)))))))"
    and notify_returns: "\<exists>db'. notify r db = (Inr (), db')"
begin

text \<open>A command that succeeds has stored what the inner command did, and then the notification.\<close>

lemma success_stored:
  "command db = (Inr q, db') \<Longrightarrow>
   \<exists>r response w1 w2 stored. core db = (Inr r, w1) \<and>
     response_success_localized D command_completed_successfully l w1 = (Inr response, w2) \<and>
     commit_transaction D w2 = Inr stored \<and> notify r stored = (Inr (), db') \<and> q = respond response r"
  unfolding shape try_localized_Inr by (auto simp: op_inv)

text \<open>A command that fails leaves the stored database as it was.\<close>

lemma failure_rolled_back:
  assumes "command db = (Inl t, db')"
  shows "db' = db"
proof -
  have quiet: "outside (notify r) c \<noteq> (Inl e, c')" for r c e and c' :: "'db operation_context"
    using notify_returns [of r "fst c"] by (cases c) (auto simp: outside_def)
  obtain e where "with_context D (
      bindE (on_working core) (\<lambda>r.
      bindE (on_working (response_success_localized D command_completed_successfully l)) (\<lambda>response.
      bindE (commit D) (\<lambda>_.
      bindE (outside (notify r)) (\<lambda>_.
      returnE (respond response r)))))) db = (Inl e, db')"
    using try_localized_Inl [OF assms [unfolded shape]] by blast
  then show ?thesis
    unfolding with_context_Inl
    by (auto simp: bindE_Inl op_inv op_simps quiet dest!: on_working_Inl commit_Inl)
qed

text \<open>A failure of the inner command reaches the client, described in its language.\<close>

lemma failure_reported:
  assumes "OperationContextCreator D db = Inr u" and "core db = (Inl (EppFailure rs), w)"
    and "response_failure_localized D rs l db = (Inr localized, w')"
  shows "command db = (Inl (FailureLocalized localized), db)"
  using assms unfolding shape
  by (simp add: try_localized_def with_context_def throw_localized_def op_simps)

text \<open>Nothing after the commit can turn a success into a failure.\<close>

lemma committed_succeeds:
  assumes "OperationContextCreator D db = Inr u" and "core db = (Inr r, w1)"
    and "response_success_localized D command_completed_successfully l w1 = (Inr response, w2)"
    and "commit_transaction D w2 = Inr stored"
  shows "\<exists>db'. command db = (Inr (respond response r), db')"
proof -
  obtain db' where "notify r stored = (Inr (), db')" using notify_returns by blast
  with assms have "command db = (Inr (respond response r), db')"
    unfolding shape by (simp add: try_localized_def with_context_def commit_def outside_def op_simps)
  then show ?thesis by blast
qed

end

end
