(* ===== verification/Sample_Base.thy ===== *)
theory Sample_Base
  imports Epp_Localized
begin

text \<open>
  A small registry on which the commands can be run: an instance of LibFred's operations and of
  the database, whose state is the list of changes made so far. It shows that what the theorems
  require of LibFred can be met, and their witnesses evaluate the commands on it. This theory
  holds what the objects share.
\<close>

type_synonym changes = "string list"

definition change :: "string \<Rightarrow> 'a \<Rightarrow> (changes, exn, 'a) op" where
  "change what x = (\<lambda>db. (Inr x, what # db))"

text \<open>Registrar 1 is the system registrar, 2 and 3 are others.\<close>

definition sample_registrar :: "u64 \<Rightarrow> InfoRegistrarData" where
  "sample_registrar reg =
     (if reg = 1 then \<lparr>registrar_handle = ''SYS'', registrar_system = Some True, registrar_is_internal = True\<rparr>
      else if reg = 2 then \<lparr>registrar_handle = ''REG-A'', registrar_system = None, registrar_is_internal = False\<rparr>
      else \<lparr>registrar_handle = ''REG-B'', registrar_system = None, registrar_is_internal = False\<rparr>)"

definition sample_contacts :: "string \<Rightarrow> Registrability" where
  "sample_contacts h = (if take 1 h \<in> {''C'', ''c''} then registered else available)"

definition sample_syntax :: "string \<Rightarrow> SyntaxValidity" where
  "sample_syntax h = (if h = [] then syntax_invalid else syntax_valid)"

definition sample_from_db_handle :: "string \<Rightarrow> exn + Object_State" where
  "sample_from_db_handle n =
     (if n = ''linked'' then Inr Object_State_linked
      else if n = ''serverTransferProhibited'' then Inr Object_State_server_transfer_prohibited
      else Inl (StdException ''unknown state''))"

definition sample_database :: "changes database" where
  "sample_database = \<lparr>
     OperationContextCreator = (\<lambda>_. Inr ()),
     commit_transaction = Inr,
     select_enum_error = (\<lambda>column n. returnE [column]),
     select_enum_reason = (\<lambda>column n. returnE [column]),
     select_enum_reasons = (\<lambda>column ids. returnE [(6, column)]),
     object_state_to_db_handle = (\<lambda>_. ''linked''),
     select_object_state_description = (\<lambda>n l. returnE [n]),
     enqueue_notification = (\<lambda>ev reg hist tr. change ''notify'' ())\<rparr>"

definition sample_session :: "u64 \<Rightarrow> SessionData" where
  "sample_session reg = \<lparr>registrar_id = reg, lang = SessionLang_en,
     server_transaction_handle = ''svtr'', logd_request_id = None\<rparr>"

definition sample_notification :: NotificationData where
  "sample_notification = \<lparr>client_transaction_handle = ''cltr'', epp_notification_disabled = False,
     dont_notify_client_transaction_handles_with_this_prefix = ''auto''\<rparr>"

lemma sample_session_valid: "is_session_registrar_valid (sample_session 1)"
  "is_session_registrar_valid (sample_session 2)" "is_session_registrar_valid (sample_session 3)"
  by (simp_all add: is_session_registrar_valid_def sample_session_def)

lemma sample_failure_localized:
  "response_failure_localized sample_database [result_failure c] SessionLang_en db =
     (Inr [\<lparr>localized_result = result_failure c, failure_description = ''status'',
            localized_extended_errors = None\<rparr>], db)"
  by (simp add: result_failure_localized_def sample_database_def op_simps single_row_def
      get_epp_result_description_localized_def get_result_description_localized_column_name_def Let_def)

end
