(* ===== verification/Keyset_Key.thy ===== *)
theory Keyset_Key
  imports Epp_Session
begin

text \<open>
  DNSKEY records of a keyset: \<^verbatim>\<open>src/src/backend/epp/keyset/dns_key.hh\<close> and
  \<^verbatim>\<open>dns_key.cc\<close>. The constructor drops white space from the key, the comparison orders
  the four fields lexicographically, \<open>check_key\<close> scans the base64 text, and
  \<open>AlgValidator\<close> remembers what LibFred said of an algorithm.
\<close>

section \<open>The record, its constructor and its order\<close>

record DnsKey =
  get_flags :: u16
  get_protocol :: u16
  get_alg :: u16
  get_key :: string

definition remove_spaces :: "string \<Rightarrow> string" where
  "remove_spaces s = filter (\<lambda>c. \<not> is_space c) s"

definition DnsKey_of :: "u16 \<Rightarrow> u16 \<Rightarrow> u16 \<Rightarrow> string \<Rightarrow> DnsKey" where
  "DnsKey_of flags protocol alg key =
     \<lparr>get_flags = flags, get_protocol = protocol, get_alg = alg, get_key = remove_spaces key\<rparr>"

definition dns_key_less :: "DnsKey \<Rightarrow> DnsKey \<Rightarrow> bool" where
  "dns_key_less a b \<longleftrightarrow>
     get_flags a < get_flags b \<or>
     (get_flags a = get_flags b \<and> get_protocol a < get_protocol b) \<or>
     (get_flags a = get_flags b \<and> get_protocol a = get_protocol b \<and> get_alg a < get_alg b) \<or>
     (get_flags a = get_flags b \<and> get_protocol a = get_protocol b \<and> get_alg a = get_alg b \<and>
      get_key a < get_key b)"

definition dns_key_eq :: "DnsKey \<Rightarrow> DnsKey \<Rightarrow> bool" where
  "dns_key_eq a b \<longleftrightarrow> \<not> (dns_key_less a b \<or> dns_key_less b a)"

definition dns_key_fields :: "DnsKey \<Rightarrow> u16 \<times> u16 \<times> u16 \<times> string" where
  "dns_key_fields k = (get_flags k, get_protocol k, get_alg k, get_key k)"

interpretation dns_key: keyed_order dns_key_less dns_key_fields
  by unfold_locales (auto simp: dns_key_less_def dns_key_fields_def)

lemma dns_key_fields_inject [simp]: "dns_key_fields a = dns_key_fields b \<longleftrightarrow> a = b"
  by (cases a; cases b) (simp add: dns_key_fields_def)

lemma dns_key_equivalent: "equivalent dns_key_less a b \<longleftrightarrow> a = b"
  by (simp add: dns_key.equivalent_key)

lemma remove_spaces_idem [simp]: "remove_spaces (remove_spaces s) = remove_spaces s"
  by (simp add: remove_spaces_def)

section \<open>Flags and protocol\<close>

definition is_flags_correct :: "DnsKey \<Rightarrow> bool" where
  "is_flags_correct k \<longleftrightarrow> get_flags k = 0 \<or> get_flags k = 256 \<or> get_flags k = 257"

definition is_protocol_correct :: "DnsKey \<Rightarrow> bool" where
  "is_protocol_correct k \<longleftrightarrow> get_protocol k = 3"

section \<open>Algorithms\<close>

datatype AlgorithmUsability = usable | not_usable

text \<open>
  The parameter is \<^verbatim>\<open>LibFred::DnsSec::get_algorithm_usability\<close>; the second component of
  the result is the validator's memory after the call.
\<close>

definition is_alg_correct ::
  "(u16 \<Rightarrow> ('db, exn, AlgorithmUsability) op) \<Rightarrow> (u16 \<rightharpoonup> bool) \<Rightarrow> DnsKey \<Rightarrow>
     ('db, exn, bool \<times> (u16 \<rightharpoonup> bool)) op" where
  "is_alg_correct get_algorithm_usability alg_correctness k =
     (let alg = get_alg k in
      case alg_correctness alg of
        Some b \<Rightarrow> returnE (b, alg_correctness)
      | None \<Rightarrow>
          bindE (get_algorithm_usability alg) (\<lambda>u.
            let alg_is_correct = (u = usable) in
            returnE (alg_is_correct, alg_correctness(alg \<mapsto> alg_is_correct))))"

text \<open>What the memory of a validator may hold when LibFred's answers are \<open>usability\<close>.\<close>

definition alg_memory_ok :: "(u16 \<Rightarrow> AlgorithmUsability) \<Rightarrow> (u16 \<rightharpoonup> bool) \<Rightarrow> bool" where
  "alg_memory_ok usability m \<longleftrightarrow> (\<forall>a b. m a = Some b \<longrightarrow> b = (usability a = usable))"

lemma alg_memory_ok_empty [simp]: "alg_memory_ok usability Map.empty"
  by (simp add: alg_memory_ok_def)

lemma is_alg_correct_run:
  assumes "\<And>a. reads (q a) db (usability a)" and "alg_memory_ok usability m"
  obtains m' where "is_alg_correct q m k db = (Inr (usability (get_alg k) = usable, m'), db)"
    and "alg_memory_ok usability m'"
proof (cases "m (get_alg k)")
  case None
  then have "is_alg_correct q m k db =
      (Inr (usability (get_alg k) = usable, m(get_alg k \<mapsto> (usability (get_alg k) = usable))), db)"
    using assms(1) [of "get_alg k"] by (simp add: is_alg_correct_def op_simps Let_def)
  then show ?thesis
  proof (rule that)
    show "alg_memory_ok usability (m(get_alg k \<mapsto> (usability (get_alg k) = usable)))"
      using assms(2) by (auto simp: alg_memory_ok_def)
  qed
next
  case (Some b)
  with assms(2) have "b = (usability (get_alg k) = usable)"
    by (auto simp: alg_memory_ok_def)
  with Some show ?thesis
    using assms(2) by (intro that) (simp_all add: is_alg_correct_def op_simps)
qed

section \<open>The base64 text of the key\<close>

definition is_base64_data_character :: "char \<Rightarrow> bool" where
  "is_base64_data_character c \<longleftrightarrow>
     c \<in> set ''0123456789ABCDEFGHIJKLMNOPQRSTUVWXYZabcdefghijklmnopqrstuvwxyz+/''"

definition is_base64_pad_character :: "char \<Rightarrow> bool" where
  "is_base64_pad_character c \<longleftrightarrow> c = CHR ''=''"

definition is_base64_insignificant_allowed_character :: "char \<Rightarrow> bool" where
  "is_base64_insignificant_allowed_character c = is_space c"

datatype CheckKeyResult = CheckKey_ok | CheckKey_bad_char | CheckKey_bad_length

fun check_key_loop :: "string \<Rightarrow> u32 \<Rightarrow> u32 \<Rightarrow> CheckKeyResult" where
  "check_key_loop [] len pads = (if len mod 4 = 0 then CheckKey_ok else CheckKey_bad_length)"
| "check_key_loop (c # cs) len pads =
     (if is_base64_insignificant_allowed_character c then check_key_loop cs len pads
      else let no_pad_character_yet = (pads = 0) in
        if no_pad_character_yet \<and> is_base64_data_character c then check_key_loop cs (len + 1) pads
        else if is_base64_pad_character c then
          (if 2 \<le> pads then CheckKey_bad_char else check_key_loop cs (len + 1) (pads + 1))
        else CheckKey_bad_char)"

definition check_key :: "DnsKey \<Rightarrow> CheckKeyResult" where
  "check_key k = check_key_loop (get_key k) 0 0"

text \<open>
  The shape of base64 text: data characters, then at most two pads, white space ignored. When
  some pads were read already, no data character may follow.
\<close>

definition base64_shape :: "nat \<Rightarrow> string \<Rightarrow> bool" where
  "base64_shape pads s \<longleftrightarrow>
     (\<exists>d p. remove_spaces s = d @ replicate p (CHR ''='') \<and>
       list_all is_base64_data_character d \<and> pads + p \<le> 2 \<and> (0 < pads \<longrightarrow> d = []))"

lemma character_classes:
  "is_base64_data_character c \<Longrightarrow> \<not> is_space c"
  "is_base64_data_character c \<Longrightarrow> c \<noteq> CHR ''=''"
  "\<not> is_space (CHR ''='')"
  by (auto simp: is_base64_data_character_def is_space_def)

lemma base64_shape_Nil: "base64_shape pads [] \<longleftrightarrow> pads \<le> 2"
  by (auto simp: base64_shape_def remove_spaces_def)

lemma base64_shape_space: "is_space c \<Longrightarrow> base64_shape pads (c # cs) = base64_shape pads cs"
  by (simp add: base64_shape_def remove_spaces_def)

lemma base64_shape_data:
  assumes "is_base64_data_character c"
  shows "base64_shape pads (c # cs) \<longleftrightarrow> pads = 0 \<and> base64_shape 0 cs"
proof
  assume "base64_shape pads (c # cs)"
  then obtain d p where *: "c # remove_spaces cs = d @ replicate p (CHR ''='')"
      "list_all is_base64_data_character d" "pads + p \<le> 2" "0 < pads \<longrightarrow> d = []"
    using character_classes(1) [OF assms] by (auto simp: base64_shape_def remove_spaces_def)
  from *(1) have "d \<noteq> []" using character_classes(2) [OF assms] by (cases p) auto
  then obtain d' where d': "d = c # d'" using *(1) by (cases d) auto
  with * show "pads = 0 \<and> base64_shape 0 cs"
    unfolding base64_shape_def by (auto intro!: exI [of _ d'] exI [of _ p])
next
  assume r: "pads = 0 \<and> base64_shape 0 cs"
  then obtain d p where *: "remove_spaces cs = d @ replicate p (CHR ''='')"
      "list_all is_base64_data_character d" "p \<le> 2"
    by (auto simp: base64_shape_def)
  then show "base64_shape pads (c # cs)"
    unfolding base64_shape_def using assms r character_classes(1) [OF assms]
    by (intro exI [of _ "c # d"] exI [of _ p]) (auto simp: remove_spaces_def)
qed

lemma base64_shape_pad:
  "base64_shape pads (CHR ''='' # cs) \<longleftrightarrow> pads < 2 \<and> base64_shape (Suc pads) cs"
proof
  assume "base64_shape pads (CHR ''='' # cs)"
  then obtain d p where *: "CHR ''='' # remove_spaces cs = d @ replicate p (CHR ''='')"
      "list_all is_base64_data_character d" "pads + p \<le> 2"
    by (auto simp: base64_shape_def remove_spaces_def character_classes)
  from * have "d = []"
    by (cases d) (auto dest: character_classes(2))
  with * show "pads < 2 \<and> base64_shape (Suc pads) cs"
    by (cases p) (auto simp: base64_shape_def)
next
  assume "pads < 2 \<and> base64_shape (Suc pads) cs"
  then obtain p where "remove_spaces cs = replicate p (CHR ''='')" "Suc pads + p \<le> 2"
    by (auto simp: base64_shape_def)
  then show "base64_shape pads (CHR ''='' # cs)"
    unfolding base64_shape_def
    by (intro exI [of _ "[]"] exI [of _ "Suc p"]) (simp add: remove_spaces_def character_classes)
qed

lemma base64_shape_other:
  "\<not> is_space c \<Longrightarrow> \<not> is_base64_data_character c \<Longrightarrow> c \<noteq> CHR ''='' \<Longrightarrow> \<not> base64_shape pads (c # cs)"
  by (auto simp: base64_shape_def remove_spaces_def Cons_eq_append_conv Cons_replicate_eq)

lemma pads_step: "unat (pads :: u32) < 2 \<Longrightarrow> unat (pads + 1) = Suc (unat pads)"
  by (simp add: unat_word_ariths)

lemma check_key_loop_shape:
  "unat pads \<le> 2 \<Longrightarrow> check_key_loop s len pads = CheckKey_bad_char \<longleftrightarrow> \<not> base64_shape (unat pads) s"
proof (induction s len pads rule: check_key_loop.induct)
  case (1 len pads)
  then show ?case by (simp add: base64_shape_Nil)
next
  case (2 c cs len pads)
  consider (space) "is_space c" | (data) "\<not> is_space c" "is_base64_data_character c"
    | (pad) "c = CHR ''=''" | (other) "\<not> is_space c" "\<not> is_base64_data_character c" "c \<noteq> CHR ''=''"
    by blast
  then show ?case
  proof cases
    case space
    with 2 show ?thesis
      by (simp add: base64_shape_space is_base64_insignificant_allowed_character_def)
  next
    case data
    from data(2) have "c \<noteq> CHR ''=''" by (rule character_classes)
    with data 2 show ?thesis
      by (auto simp: base64_shape_data is_base64_insignificant_allowed_character_def
          is_base64_pad_character_def unat_eq_0)
  next
    case pad
    have nd: "\<not> is_base64_data_character (CHR ''='')"
      by (simp add: is_base64_data_character_def)
    have le: "2 \<le> pads \<longleftrightarrow> \<not> unat pads < 2"
      by (simp add: word_le_nat_alt not_less)
    show ?thesis
    proof (cases "unat pads < 2")
      case True
      with 2 pad nd le pads_step [OF True] show ?thesis
        by (simp add: base64_shape_pad is_base64_insignificant_allowed_character_def
            is_base64_pad_character_def character_classes)
    next
      case False
      with pad nd le show ?thesis
        by (simp add: base64_shape_pad is_base64_insignificant_allowed_character_def
            is_base64_pad_character_def character_classes)
    qed
  next
    case other
    then show ?thesis
      by (simp add: base64_shape_other is_base64_insignificant_allowed_character_def
          is_base64_pad_character_def)
  qed
qed

text \<open>The 32-bit counter wraps, but 4 divides its range.\<close>

lemma word_mod_4: "(w :: u32) mod 4 = 0 \<longleftrightarrow> unat w mod 4 = 0"
proof -
  have "unat (w mod 4) = unat w mod 4" by (simp add: unat_mod_distrib)
  then show ?thesis by (metis unat_eq_0)
qed

lemma counter_mod_4: "unat (w + 1 :: u32) mod 4 = (unat w + 1) mod 4"
proof -
  have "unat (w + 1) = (unat w + 1) mod 2 ^ 32"
    by (simp add: unat_word_ariths)
  moreover have "(4 :: nat) dvd 2 ^ 32" by simp
  ultimately show ?thesis by (simp only: mod_mod_cancel)
qed

lemma check_key_loop_length:
  "check_key_loop s len pads \<noteq> CheckKey_bad_char \<Longrightarrow>
   check_key_loop s len pads = CheckKey_ok \<longleftrightarrow> (unat len + length (remove_spaces s)) mod 4 = 0"
proof (induction s len pads rule: check_key_loop.induct)
  case (1 len pads)
  then show ?case by (simp add: word_mod_4 remove_spaces_def)
next
  case (2 c cs len pads)
  have step: "(unat (len + 1) + n) mod 4 = (unat len + Suc n) mod 4" for n
  proof -
    have "(unat (len + 1) + n) mod 4 = (unat (len + 1) mod 4 + n) mod 4"
      by (simp only: mod_add_left_eq)
    also have "\<dots> = (unat len + 1 + n) mod 4"
      by (simp only: counter_mod_4 mod_add_left_eq)
    finally show ?thesis by simp
  qed
  from 2 show ?case
    by (auto simp: Let_def step remove_spaces_def is_base64_insignificant_allowed_character_def
        split: if_splits)
qed

lemma check_key_ok_iff:
  "check_key k = CheckKey_ok \<longleftrightarrow> base64_shape 0 (get_key k) \<and> length (remove_spaces (get_key k)) mod 4 = 0"
  using check_key_loop_shape [of 0 "get_key k" 0] check_key_loop_length [of "get_key k" 0 0]
  by (auto simp: check_key_def)

lemma check_key_bad_char_iff: "check_key k = CheckKey_bad_char \<longleftrightarrow> \<not> base64_shape 0 (get_key k)"
  using check_key_loop_shape [of 0 "get_key k" 0] by (simp add: check_key_def)

end
