(* ===== verification/Unique_Scan.thy ===== *)
theory Unique_Scan
  imports Epp_Session
begin

text \<open>
  The checks of technical contacts and DNS keys all run the same loop over a vector: a map from
  the elements seen so far to the index of their first occurrence; a repeated element gets a
  ``duplicate'' error and a copy of the errors of its first occurrence, a new one is examined.
  The locale states what one turn of such a loop does, and its lemmas say what the whole loop
  reports. The loops of the keyset commands are instances of it.
\<close>

section \<open>First occurrences\<close>

fun first_pos :: "'q \<Rightarrow> 'q list \<Rightarrow> nat option" where
  "first_pos q [] = None"
| "first_pos q (y # ys) = (if q = y then Some 0 else map_option Suc (first_pos q ys))"

lemma first_pos_None: "first_pos q ys = None \<longleftrightarrow> q \<notin> set ys"
  by (induction ys) auto

lemma first_pos_Some: "first_pos q ys = Some j \<Longrightarrow> j < length ys \<and> ys ! j = q"
  by (induction ys arbitrary: j) (auto split: if_splits)

lemma first_pos_append:
  "first_pos q (ys @ zs) =
     (case first_pos q ys of Some j \<Rightarrow> Some j | None \<Rightarrow> map_option (\<lambda>j. length ys + j) (first_pos q zs))"
  by (induction ys; cases "first_pos q zs") (auto split: option.splits)

lemma first_pos_nth: "i < length ys \<Longrightarrow> \<exists>j \<le> i. first_pos (ys ! i) ys = Some j"
proof (induction ys arbitrary: i)
  case (Cons y ys)
  show ?case
  proof (cases i)
    case (Suc k)
    with Cons obtain j where "j \<le> k" "first_pos (ys ! k) ys = Some j" by auto
    with Suc show ?thesis by auto
  qed auto
qed simp

lemma distinct_first_pos:
  "distinct ys \<longleftrightarrow> (\<forall>i < length ys. first_pos (ys ! i) ys = Some i)"
proof
  assume d: "distinct ys"
  show "\<forall>i < length ys. first_pos (ys ! i) ys = Some i"
  proof (intro allI impI)
    fix i assume i: "i < length ys"
    then obtain j where "j \<le> i" "first_pos (ys ! i) ys = Some j"
      using first_pos_nth by blast
    with d i first_pos_Some [of "ys ! i" ys j] show "first_pos (ys ! i) ys = Some i"
      by (simp add: nth_eq_iff_index_eq)
  qed
next
  assume "\<forall>i < length ys. first_pos (ys ! i) ys = Some i"
  then show "distinct ys"
    unfolding distinct_conv_nth by (metis option.inject)
qed

section \<open>One turn of the loop\<close>

definition add_reasons :: "Param \<Rightarrow> u16 \<Rightarrow> Reason list \<Rightarrow> EppResultFailure \<Rightarrow> EppResultFailure" where
  "add_reasons p i rs f = fold (\<lambda>r. add_extended_error (of_vector_parameter p i r)) rs f"

definition copy_reasons ::
  "Param \<Rightarrow> u16 \<Rightarrow> u16 \<Rightarrow> Reason list \<Rightarrow> EppResultFailure \<Rightarrow> EppResultFailure" where
  "copy_reasons p i0 i rs f =
     fold (\<lambda>r g. if has_extended_error_with_param_index_reason g p i0 r
                 then add_extended_error (of_vector_parameter p i r) g else g) rs f"

lemma errors_of_add_reasons [simp]:
  "errors_of (add_reasons p i rs f) = errors_of f \<union> of_vector_parameter p i ` set rs"
  unfolding add_reasons_def by (induction rs arbitrary: f) auto

lemma failure_empty_add_reasons [simp]:
  "failure_empty (add_reasons p i rs f) \<longleftrightarrow> failure_empty f \<and> rs = []"
  unfolding add_reasons_def
proof (induction rs arbitrary: f)
  case (Cons r rs)
  then show ?case by simp
qed simp

lemma epp_result_code_add_reasons [simp]:
  "epp_result_code (add_reasons p i rs f) = epp_result_code f"
  unfolding add_reasons_def by (induction rs arbitrary: f) auto

lemma errors_of_copy_reasons:
  assumes "i0 \<noteq> i"
  shows "errors_of (copy_reasons p i0 i rs f) =
    errors_of f \<union> of_vector_parameter p i ` {r \<in> set rs. of_vector_parameter p i0 r \<in> errors_of f}"
  unfolding copy_reasons_def using assms
  by (induction rs arbitrary: f) auto

lemma epp_result_code_copy_reasons [simp]:
  "epp_result_code (copy_reasons p i0 i rs f) = epp_result_code f"
  unfolding copy_reasons_def by (induction rs arbitrary: f) auto

lemma failure_empty_copy_reasons: "\<not> failure_empty f \<Longrightarrow> \<not> failure_empty (copy_reasons p i0 i rs f)"
  unfolding copy_reasons_def by (induction rs arbitrary: f) auto

section \<open>What the loop reports for a vector\<close>

text \<open>
  For the element at index \<open>i\<close>: the ``duplicate'' error when an element with the same key
  stands before it, and the reasons against the first element with its key.
\<close>

definition scan_at :: "('a \<Rightarrow> 'q) \<Rightarrow> Param \<Rightarrow> (u16 \<Rightarrow> EppExtendedError) \<Rightarrow> ('a \<Rightarrow> Reason list) \<Rightarrow>
    'a list \<Rightarrow> nat \<Rightarrow> EppExtendedError set" where
  "scan_at key p dup R ys i =
     (case first_pos (key (ys ! i)) (map key ys) of
        None \<Rightarrow> {}
      | Some j \<Rightarrow> (if j < i then {dup (word_of_nat i)} else {}) \<union>
          of_vector_parameter p (word_of_nat i) ` set (R (ys ! j)))"

definition scan_errors :: "('a \<Rightarrow> 'q) \<Rightarrow> Param \<Rightarrow> (u16 \<Rightarrow> EppExtendedError) \<Rightarrow> ('a \<Rightarrow> Reason list) \<Rightarrow>
    'a list \<Rightarrow> EppExtendedError set" where
  "scan_errors key p dup R ys = (\<Union>i<length ys. scan_at key p dup R ys i)"

definition scan_ok :: "('a \<Rightarrow> 'q) \<Rightarrow> ('a \<Rightarrow> Reason list) \<Rightarrow> 'a list \<Rightarrow> bool" where
  "scan_ok key R ys \<longleftrightarrow> distinct (map key ys) \<and> (\<forall>y \<in> set ys. R y = [])"

lemma scan_ok_errors: "scan_ok key R ys \<Longrightarrow> scan_errors key p dup R ys = {}"
  using distinct_first_pos [of "map key ys"]
  by (auto simp: scan_ok_def scan_errors_def scan_at_def)

section \<open>What a check adds\<close>

text \<open>
  A check adds errors on its own parameter only, the limit error exactly when the vector is too
  long, and nothing exactly when the vector is in order.
\<close>

definition check_adds ::
  "Param \<Rightarrow> Reason \<Rightarrow> bool \<Rightarrow> bool \<Rightarrow> EppResultFailure \<Rightarrow> EppResultFailure \<Rightarrow> bool" where
  "check_adds p limit too_long fine f f' \<longleftrightarrow>
     (\<exists>X. errors_of f' = errors_of f \<union> X \<and> (\<forall>e \<in> X. err_param e = p) \<and>
        (of_scalar_parameter p limit \<in> X \<longleftrightarrow> too_long)) \<and>
     epp_result_code f' = epp_result_code f \<and>
     (failure_empty f' \<longleftrightarrow> failure_empty f \<and> fine)"

lemma check_addsE:
  assumes "check_adds p limit too_long fine f f'"
  obtains X where "errors_of f' = errors_of f \<union> X" and "\<And>e. e \<in> X \<Longrightarrow> err_param e = p"
    and "of_scalar_parameter p limit \<in> X \<longleftrightarrow> too_long"
  using assms unfolding check_adds_def by blast

lemma check_adds_empty:
  "check_adds p limit too_long fine f f' \<Longrightarrow> failure_empty f' \<longleftrightarrow> failure_empty f \<and> fine"
  unfolding check_adds_def by blast

lemma check_adds_none: "fine \<Longrightarrow> \<not> too_long \<Longrightarrow> check_adds p limit too_long fine f f"
  unfolding check_adds_def by (intro conjI exI [of _ "{}"]) simp_all

lemma check_adds_limit:
  "too_long \<Longrightarrow> \<not> fine \<Longrightarrow>
   check_adds p limit too_long fine f (add_extended_error (of_scalar_parameter p limit) f)"
  unfolding check_adds_def by (intro conjI exI [of _ "{of_scalar_parameter p limit}"]) simp_all

section \<open>The loop\<close>

locale unique_scan = keyed_order lt key
  for lt :: "'a \<Rightarrow> 'a \<Rightarrow> bool" and key :: "'a \<Rightarrow> 'q :: linorder" +
  fixes body :: "'a \<Rightarrow> u16 \<Rightarrow> 'acc \<Rightarrow> ('db, exn, 'acc) op"
    and db :: 'db
    and inv :: "'acc \<Rightarrow> bool"
    and umap :: "'acc \<Rightarrow> ('a \<times> u16) list"
    and errs :: "'acc \<Rightarrow> EppResultFailure"
    and okf :: "'acc \<Rightarrow> bool"
    and p :: Param
    and dup :: "u16 \<Rightarrow> EppExtendedError"
    and copied :: "Reason list"
    and R :: "'a \<Rightarrow> Reason list"
  assumes repeated: "inv a \<Longrightarrow> map_find lt x (umap a) = Some i0 \<Longrightarrow> i0 \<noteq> i \<Longrightarrow>
      \<exists>a'. body x i a db = (Inr a', db) \<and> inv a' \<and> umap a' = umap a \<and>
        errs a' = copy_reasons p i0 i copied (add_extended_error (dup i) (errs a)) \<and> \<not> okf a'"
    and fresh: "inv a \<Longrightarrow> map_find lt x (umap a) = None \<Longrightarrow>
      \<exists>a'. body x i a db = (Inr a', db) \<and> inv a' \<and> umap a' = map_insert lt x i (umap a) \<and>
        errs a' = add_reasons p i (R x) (errs a) \<and> okf a' = (okf a \<and> R x = [])"
    and R_copied: "set (R x) \<subseteq> set copied"
    and dup_other: "r \<in> set copied \<Longrightarrow> dup i \<noteq> of_vector_parameter p j r"
begin

lemma scan_errors_Nil: "scan_errors key p dup R [] = {}"
  by (simp add: scan_errors_def)

lemma scan_errors_snoc:
  "scan_errors key p dup R (ys @ [x]) = scan_errors key p dup R ys \<union>
     (case first_pos (key x) (map key ys) of
        Some j \<Rightarrow> insert (dup (word_of_nat (length ys)))
          (of_vector_parameter p (word_of_nat (length ys)) ` set (R (ys ! j)))
      | None \<Rightarrow> of_vector_parameter p (word_of_nat (length ys)) ` set (R x))"
proof -
  have old: "scan_at key p dup R (ys @ [x]) i = scan_at key p dup R ys i" if i: "i < length ys" for i
  proof -
    obtain j where j: "j \<le> i" "first_pos (key (ys ! i)) (map key ys) = Some j"
      using first_pos_nth [of i "map key ys"] i by auto
    then show ?thesis using i by (simp add: scan_at_def nth_append first_pos_append)
  qed
  have new: "scan_at key p dup R (ys @ [x]) (length ys) =
     (case first_pos (key x) (map key ys) of
        Some j \<Rightarrow> insert (dup (word_of_nat (length ys)))
          (of_vector_parameter p (word_of_nat (length ys)) ` set (R (ys ! j)))
      | None \<Rightarrow> of_vector_parameter p (word_of_nat (length ys)) ` set (R x))"
    by (auto simp: scan_at_def nth_append first_pos_append dest: first_pos_Some split: option.splits)
  have "scan_errors key p dup R (ys @ [x]) = (\<Union>i<length ys. scan_at key p dup R (ys @ [x]) i) \<union> scan_at key p dup R (ys @ [x]) (length ys)"
    by (simp add: scan_errors_def lessThan_Suc Un_commute)
  also have "(\<Union>i<length ys. scan_at key p dup R (ys @ [x]) i) = scan_errors key p dup R ys"
    by (simp add: scan_errors_def old)
  finally show ?thesis by (simp only: new)
qed

lemma scan_ok_snoc:
  "scan_ok key R (ys @ [x]) \<longleftrightarrow>
     scan_ok key R ys \<and> first_pos (key x) (map key ys) = None \<and> R x = []"
  by (auto simp: scan_ok_def first_pos_None)

text \<open>The invariant after the elements \<open>ys\<close>, from errors \<open>f\<close> and flag \<open>b\<close>.\<close>

definition after :: "EppResultFailure \<Rightarrow> bool \<Rightarrow> 'a list \<Rightarrow> 'acc \<Rightarrow> bool" where
  "after f b ys a \<longleftrightarrow> inv a \<and>
     (\<forall>x. map_find lt x (umap a) = map_option word_of_nat (first_pos (key x) (map key ys))) \<and>
     errors_of (errs a) = errors_of f \<union> scan_errors key p dup R ys \<and>
     epp_result_code (errs a) = epp_result_code f \<and>
     (failure_empty (errs a) \<longleftrightarrow> failure_empty f \<and> scan_ok key R ys) \<and>
     (okf a \<longleftrightarrow> b \<and> scan_ok key R ys)"

definition untouched :: "EppResultFailure \<Rightarrow> bool" where
  "untouched f \<longleftrightarrow> (\<forall>i. \<forall>r \<in> set copied. of_vector_parameter p i r \<notin> errors_of f)"

lemma untouchedI: "(\<And>e. e \<in> errors_of f \<Longrightarrow> err_param e \<noteq> p) \<Longrightarrow> untouched f"
  unfolding untouched_def by (metis extended_error_fields(3))

lemma word_of_nat_inject: "i < 2 ^ 16 \<Longrightarrow> j < 2 ^ 16 \<Longrightarrow> (word_of_nat i :: u16) = word_of_nat j \<longleftrightarrow> i = j"
  by (simp add: word_of_nat_eq_iff take_bit_eq_mod)

lemma first_errors:
  assumes "untouched f" and "first_pos q (map key ys) = Some j" and "length ys < 2 ^ 16"
    and "r \<in> set copied"
  shows "of_vector_parameter p (word_of_nat j) r \<in> errors_of f \<union> scan_errors key p dup R ys \<longleftrightarrow> r \<in> set (R (ys ! j))"
proof -
  have j: "j < length ys" "key (ys ! j) = q"
    using first_pos_Some [OF assms(2)] by auto
  have "of_vector_parameter p (word_of_nat j) r \<in> scan_errors key p dup R ys \<longleftrightarrow> r \<in> set (R (ys ! j))"
  proof
    assume "of_vector_parameter p (word_of_nat j) r \<in> scan_errors key p dup R ys"
    then obtain i k where i: "i < length ys" "first_pos (key (ys ! i)) (map key ys) = Some k"
        "of_vector_parameter p (word_of_nat j) r = dup (word_of_nat i) \<or>
         ((word_of_nat i :: u16) = word_of_nat j \<and> r \<in> set (R (ys ! k)))"
      by (auto simp: scan_errors_def scan_at_def split: option.splits if_splits)
    with dup_other [OF assms(4)] have "r \<in> set (R (ys ! k))" "(word_of_nat i :: u16) = word_of_nat j"
      by metis+
    moreover have "i = j" using calculation(2) i(1) j(1) assms(3) by (simp add: word_of_nat_inject)
    ultimately show "r \<in> set (R (ys ! j))" using i(2) j assms(2) by simp
  next
    assume "r \<in> set (R (ys ! j))"
    with j assms(2) show "of_vector_parameter p (word_of_nat j) r \<in> scan_errors key p dup R ys"
      by (auto simp: scan_errors_def scan_at_def intro!: bexI [of _ j])
  qed
  then show ?thesis
    using assms(1,4) by (auto simp: untouched_def)
qed

lemma turn:
  assumes "after f b ys a" and "untouched f" and "length ys < 2 ^ 16 - 1"
  shows "\<exists>a'. body x (word_of_nat (length ys)) a db = (Inr a', db) \<and> after f b (ys @ [x]) a'"
proof (cases "first_pos (key x) (map key ys)")
  case None
  then have "map_find lt x (umap a) = None" using assms(1) by (simp add: after_def)
  moreover have "inv a" using assms(1) by (simp add: after_def)
  ultimately obtain a' where a': "body x (word_of_nat (length ys)) a db = (Inr a', db)" "inv a'"
      "umap a' = map_insert lt x (word_of_nat (length ys)) (umap a)"
      "errs a' = add_reasons p (word_of_nat (length ys)) (R x) (errs a)"
      "okf a' = (okf a \<and> R x = [])"
    using fresh by blast
  have "map_find lt z (umap a') = map_option word_of_nat (first_pos (key z) (map key (ys @ [x])))" for z
  proof (cases "key z = key x")
    case True
    then have "map_find lt z (umap a') = map_find lt x (umap a')"
      by (intro map_find_equivalent) (simp add: equivalent_key)
    with True None a'(3) \<open>map_find lt x (umap a) = None\<close> show ?thesis
      by (simp add: map_find_insert_same first_pos_append)
  next
    case False
    with a'(3) assms(1) show ?thesis
      by (simp add: map_find_insert_other equivalent_key after_def first_pos_append split: option.split)
  qed
  with a' assms(1) None show ?thesis
    by (auto simp: after_def scan_errors_snoc scan_ok_snoc)
next
  case (Some j)
  have j: "j < length ys" using first_pos_Some [OF Some] by simp
  then have neq: "(word_of_nat j :: u16) \<noteq> word_of_nat (length ys)"
    using assms(3) by (simp add: word_of_nat_inject)
  have "map_find lt x (umap a) = Some (word_of_nat j)" "inv a"
    using assms(1) Some by (simp_all add: after_def)
  then obtain a' where a': "body x (word_of_nat (length ys)) a db = (Inr a', db)" "inv a'"
      "umap a' = umap a" "\<not> okf a'"
      "errs a' = copy_reasons p (word_of_nat j) (word_of_nat (length ys)) copied
         (add_extended_error (dup (word_of_nat (length ys))) (errs a))"
    using repeated neq by blast
  have "r \<in> set copied \<and> of_vector_parameter p (word_of_nat j) r \<in>
      insert (dup (word_of_nat (length ys))) (errors_of (errs a)) \<longleftrightarrow> r \<in> set (R (ys ! j))" for r
  proof (cases "r \<in> set copied")
    case True
    then have "dup (word_of_nat (length ys)) \<noteq> of_vector_parameter p (word_of_nat j) r"
      by (rule dup_other)
    with True first_errors [OF assms(2) Some _ True] assms(1,3) show ?thesis
      by (auto simp: after_def)
  next
    case False
    then show ?thesis using R_copied [of "ys ! j"] by blast
  qed
  then have "{r \<in> set copied. of_vector_parameter p (word_of_nat j) r \<in>
      insert (dup (word_of_nat (length ys))) (errors_of (errs a))} = set (R (ys ! j))"
    by blast
  then have "errors_of (errs a') = errors_of f \<union> scan_errors key p dup R (ys @ [x])"
    using a'(5) assms(1) Some neq
    by (simp add: errors_of_copy_reasons scan_errors_snoc after_def Un_assoc)
  moreover have "\<not> failure_empty (errs a')"
    using a'(5) by (simp add: failure_empty_copy_reasons)
  moreover have "first_pos (key z) (map key (ys @ [x])) = first_pos (key z) (map key ys)" for z
    using Some by (auto simp: first_pos_append split: option.split)
  ultimately show ?thesis
    using a' assms(1) Some by (auto simp: after_def scan_ok_snoc)
qed

lemma run:
  assumes "after f b ys a" and "untouched f" and "length ys + length xs < 2 ^ 16"
  shows "\<exists>a'. for_vector body xs (word_of_nat (length ys)) a db = (Inr a', db) \<and> after f b (ys @ xs) a'"
  using assms
proof (induction xs arbitrary: ys a)
  case Nil
  then show ?case by (simp add: op_simps)
next
  case (Cons x xs)
  then obtain a' where a': "body x (word_of_nat (length ys)) a db = (Inr a', db)" "after f b (ys @ [x]) a'"
    using turn [of f b ys a x] by auto
  have "\<exists>a''. for_vector body xs (word_of_nat (length (ys @ [x]))) a' db = (Inr a'', db) \<and>
      after f b ((ys @ [x]) @ xs) a''"
    using a'(2) Cons.prems by (intro Cons.IH) auto
  with a'(1) show ?case by (simp add: op_simps add.commute)
qed

text \<open>The result of the whole loop, started with an empty map.\<close>

lemma result:
  assumes "inv a" and "umap a = []" and "untouched (errs a)" and "length xs < 2 ^ 16"
  shows "\<exists>a'. for_vector body xs 0 a db = (Inr a', db) \<and>
    errors_of (errs a') = errors_of (errs a) \<union> scan_errors key p dup R xs \<and>
    epp_result_code (errs a') = epp_result_code (errs a) \<and>
    (failure_empty (errs a') \<longleftrightarrow> failure_empty (errs a) \<and> scan_ok key R xs) \<and>
    (okf a' \<longleftrightarrow> okf a \<and> scan_ok key R xs)"
proof -
  have "after (errs a) (okf a) [] a"
    using assms(1,2) by (simp add: after_def scan_errors_Nil scan_ok_def)
  then obtain a' where "for_vector body xs 0 a db = (Inr a', db)" "after (errs a) (okf a) xs a'"
    using run [of "errs a" "okf a" "[]" a xs] assms(3,4) by auto
  then show ?thesis
    unfolding after_def by blast
qed

lemma scan_errors_param:
  assumes "\<And>i. err_param (dup i) = p" and "\<And>i. err_reason (dup i) \<noteq> limit" and "limit \<notin> set copied"
    and "e \<in> scan_errors key p dup R xs"
  shows "err_param e = p" and "err_reason e \<noteq> limit"
  using assms R_copied
  by (fastforce simp: scan_errors_def scan_at_def split: option.splits if_splits)+

lemma result_adds:
  assumes "inv a" and "umap a = []" and "untouched (errs a)" and "length xs < 2 ^ 16"
    and "\<And>i. err_param (dup i) = p" and "\<And>i. err_reason (dup i) \<noteq> limit" and "limit \<notin> set copied"
  shows "\<exists>a'. for_vector body xs 0 a db = (Inr a', db) \<and>
    check_adds p limit False (scan_ok key R xs) (errs a) (errs a') \<and> (okf a' \<longleftrightarrow> okf a \<and> scan_ok key R xs)"
proof -
  obtain a' where a': "for_vector body xs 0 a db = (Inr a', db)"
      "errors_of (errs a') = errors_of (errs a) \<union> scan_errors key p dup R xs"
      "epp_result_code (errs a') = epp_result_code (errs a)"
      "failure_empty (errs a') \<longleftrightarrow> failure_empty (errs a) \<and> scan_ok key R xs"
      "okf a' \<longleftrightarrow> okf a \<and> scan_ok key R xs"
    using result [OF assms(1-4)] by blast
  have "of_scalar_parameter p limit \<notin> scan_errors key p dup R xs"
    using scan_errors_param(2) [OF assms(5-7), of "of_scalar_parameter p limit" xs] by auto
  then have "check_adds p limit False (scan_ok key R xs) (errs a) (errs a')"
    unfolding check_adds_def using a' scan_errors_param(1) [OF assms(5-7)] by blast
  with a' show ?thesis by blast
qed

end

end
