(* ===== verification/Keyset_Base.thy ===== *)
theory Keyset_Base
  imports Keyset_Key Unique_Scan
begin

text \<open>
  What the keyset commands share: limits (\<^verbatim>\<open>keyset/impl/limits.hh\<close>), input and output
  data, DS records (\<^verbatim>\<open>keyset/ds_record.hh\<close>), status values
  (\<^verbatim>\<open>keyset/status_value.hh\<close>), and LibFred's operations on keysets, which extend the
  record of the operations all object types share.
\<close>

section \<open>Limits\<close>

definition min_number_of_tech_contacts :: nat where "min_number_of_tech_contacts = 1"
definition max_number_of_tech_contacts :: nat where "max_number_of_tech_contacts = 10"
definition min_number_of_dns_keys :: nat where "min_number_of_dns_keys = 1"
definition max_number_of_dns_keys :: nat where "max_number_of_dns_keys = 10"
definition min_number_of_ds_records :: nat where "min_number_of_ds_records = 0"
definition max_number_of_ds_records :: nat where "max_number_of_ds_records = 0"

lemmas keyset_limits =
  min_number_of_tech_contacts_def max_number_of_tech_contacts_def
  min_number_of_dns_keys_def max_number_of_dns_keys_def

section \<open>Data\<close>

record DsRecord =
  key_tag :: int
  ds_alg :: int
  digest_type :: int
  digest :: string
  max_sig_life :: int

text \<open>The constructor value-initializes every field and ignores its arguments.\<close>

definition DsRecord_of :: "int \<Rightarrow> int \<Rightarrow> int \<Rightarrow> string \<Rightarrow> int \<Rightarrow> DsRecord" where
  "DsRecord_of tag alg dtype dig life =
     \<lparr>key_tag = 0, ds_alg = 0, digest_type = 0, digest = [], max_sig_life = 0\<rparr>"

record CreateKeysetInputData =
  keyset_handle :: string
  tech_contacts :: "string list"
  ds_records :: "DsRecord list"
  dns_keys :: "DnsKey list"

record UpdateKeysetInputData =
  upd_keyset_handle :: string
  upd_authinfopw :: "string option"
  tech_contacts_add :: "string list"
  tech_contacts_rem :: "string list"
  ds_records_add :: "DsRecord list"
  ds_records_rem :: "DsRecord list"
  dns_keys_add :: "DnsKey list"
  dns_keys_rem :: "DnsKey list"

record CreateKeysetResult =
  created_id :: u64
  create_history_id :: u64
  crdate :: ptime

record UpdateKeysetResult =
  updated_id :: u64
  update_history_id :: u64

datatype KeysetStatusValue =
    KeysetStatus_linked
  | KeysetStatus_server_delete_prohibited
  | KeysetStatus_server_transfer_prohibited
  | KeysetStatus_server_update_prohibited
  | KeysetStatus_delete_candidate

fun to_status_value_name :: "KeysetStatusValue \<Rightarrow> string" where
  "to_status_value_name KeysetStatus_delete_candidate = ''deleteCandidate''"
| "to_status_value_name KeysetStatus_linked = ''linked''"
| "to_status_value_name KeysetStatus_server_delete_prohibited = ''serverDeleteProhibited''"
| "to_status_value_name KeysetStatus_server_transfer_prohibited = ''serverTransferProhibited''"
| "to_status_value_name KeysetStatus_server_update_prohibited = ''serverUpdateProhibited''"

definition keyset_status_of_object_state :: "Object_State \<Rightarrow> exn + KeysetStatusValue" where
  "keyset_status_of_object_state v =
     (case v of
        Object_State_delete_candidate \<Rightarrow> Inr KeysetStatus_delete_candidate
      | Object_State_linked \<Rightarrow> Inr KeysetStatus_linked
      | Object_State_server_delete_prohibited \<Rightarrow> Inr KeysetStatus_server_delete_prohibited
      | Object_State_server_transfer_prohibited \<Rightarrow> Inr KeysetStatus_server_transfer_prohibited
      | Object_State_server_update_prohibited \<Rightarrow> Inr KeysetStatus_server_update_prohibited
      | _ \<Rightarrow> Inl (StdException ''value not convertible to Epp::Keyset::StatusValue::Enum''))"

definition keyset_status_to_object_state :: "KeysetStatusValue \<Rightarrow> Object_State" where
  "keyset_status_to_object_state v =
     (case v of
        KeysetStatus_delete_candidate \<Rightarrow> Object_State_delete_candidate
      | KeysetStatus_linked \<Rightarrow> Object_State_linked
      | KeysetStatus_server_delete_prohibited \<Rightarrow> Object_State_server_delete_prohibited
      | KeysetStatus_server_transfer_prohibited \<Rightarrow> Object_State_server_transfer_prohibited
      | KeysetStatus_server_update_prohibited \<Rightarrow> Object_State_server_update_prohibited)"

text \<open>The enumerators in their order, which is the order of \<^verbatim>\<open>std::set<StatusValue::Enum>\<close>.\<close>

definition keyset_status_values :: "KeysetStatusValue list" where
  "keyset_status_values =
     [KeysetStatus_linked, KeysetStatus_server_delete_prohibited,
      KeysetStatus_server_transfer_prohibited, KeysetStatus_server_update_prohibited,
      KeysetStatus_delete_candidate]"

lemma set_keyset_status_values: "v \<in> set keyset_status_values"
  by (cases v) (simp_all add: keyset_status_values_def)

lemma keyset_status_roundtrip:
  "keyset_status_of_object_state s = Inr v \<longleftrightarrow> s = keyset_status_to_object_state v"
  by (cases s; cases v) (simp_all add: keyset_status_of_object_state_def keyset_status_to_object_state_def)

section \<open>LibFred's view of a keyset\<close>

record FredDnsKey =
  fred_flags :: u16
  fred_protocol :: u16
  fred_alg :: u16
  fred_key :: string

text \<open>The technical contacts are given by their handles.\<close>

record InfoKeysetData =
  ks_id :: u64
  ks_historyid :: u64
  ks_handle :: string
  ks_roid :: string
  ks_sponsoring_registrar_handle :: string
  ks_create_registrar_handle :: string
  ks_update_registrar_handle :: "string option"
  ks_creation_time :: ptime
  ks_update_time :: "ptime option"
  ks_transfer_time :: "ptime option"
  ks_dns_keys :: "FredDnsKey list"
  ks_tech_contacts :: "string list"

text \<open>
  The lock flag of \<open>InfoKeysetByHandle\<close> is \<^verbatim>\<open>set_lock()\<close>. \<open>CreateKeyset\<close> takes
  the handle, the registrar, the keys, the contacts and the log request; its result holds the
  object id, the history id and the creation time.
\<close>

record 'db libfred_keyset = "'db libfred" +
  Keyset_get_handle_syntax_validity :: "string \<Rightarrow> ('db, exn, SyntaxValidity) op"
  Keyset_get_handle_registrability :: "string \<Rightarrow> ('db, exn, Registrability) op"
  get_algorithm_usability :: "u16 \<Rightarrow> ('db, exn, AlgorithmUsability) op"
  InfoKeysetByHandle :: "bool \<Rightarrow> string \<Rightarrow> ('db, exn, InfoKeysetData) op"
  CreateKeyset :: "string \<Rightarrow> string \<Rightarrow> FredDnsKey list \<Rightarrow> string list \<Rightarrow> u64 option \<Rightarrow>
    ('db, exn, u64 \<times> u64 \<times> ptime) op"
  UpdateKeyset :: "string \<Rightarrow> string \<Rightarrow> string option \<Rightarrow> string list \<Rightarrow> string list \<Rightarrow>
    FredDnsKey list \<Rightarrow> FredDnsKey list \<Rightarrow> u64 option \<Rightarrow> ('db, exn, u64) op"
  DeleteKeysetByHandle :: "string \<Rightarrow> ('db, exn, unit) op"
  TransferKeyset :: "u64 \<Rightarrow> string \<Rightarrow> string \<Rightarrow> u64 option \<Rightarrow> ('db, exn, u64) op"

definition to_fred :: "DnsKey list \<Rightarrow> FredDnsKey list" where
  "to_fred ks = map (\<lambda>k. \<lparr>fred_flags = get_flags k, fred_protocol = get_protocol k,
     fred_alg = get_alg k, fred_key = get_key k\<rparr>) ks"

definition dns_key_of_fred :: "FredDnsKey \<Rightarrow> DnsKey" where
  "dns_key_of_fred k = DnsKey_of (fred_flags k) (fred_protocol k) (fred_alg k) (fred_key k)"

section \<open>What a single DNS key must satisfy\<close>

text \<open>
  The reasons against a key, in the order in which both commands examine it. \<open>usability\<close> is
  LibFred's answer about algorithms.
\<close>

definition key_reasons :: "(u16 \<Rightarrow> AlgorithmUsability) \<Rightarrow> DnsKey \<Rightarrow> Reason list" where
  "key_reasons usability k =
     (if is_flags_correct k then [] else [Reason_dnskey_bad_flags]) @
     (if is_protocol_correct k then [] else [Reason_dnskey_bad_protocol]) @
     (if usability (get_alg k) = usable then [] else [Reason_dnskey_bad_alg]) @
     (case check_key k of
        CheckKey_ok \<Rightarrow> []
      | CheckKey_bad_char \<Rightarrow> [Reason_dnskey_bad_key_char]
      | CheckKey_bad_length \<Rightarrow> [Reason_dnskey_bad_key_len])"

lemma key_reasons_Nil:
  "key_reasons usability k = [] \<longleftrightarrow>
     is_flags_correct k \<and> is_protocol_correct k \<and> usability (get_alg k) = usable \<and>
     check_key k = CheckKey_ok"
  by (auto simp: key_reasons_def split: CheckKeyResult.splits)

lemma key_reasons_subset:
  "set (key_reasons usability k) \<subseteq> {Reason_dnskey_bad_flags, Reason_dnskey_bad_protocol,
     Reason_dnskey_bad_alg, Reason_dnskey_bad_key_char, Reason_dnskey_bad_key_len}"
  by (auto simp: key_reasons_def split: CheckKeyResult.splits)

end
