(* ===== verification/Keyset_Create.thy ===== *)
theory Keyset_Create
  imports Keyset_Base
begin

text \<open>
  The command \<^verbatim>\<open>create_keyset\<close> (\<^verbatim>\<open>keyset/create_keyset.cc\<close>): its four checks,
  which collect errors by result code, the selection of the failure to throw, and the creation
  itself. The references to \<^verbatim>\<open>EppResultFailure\<close> that a check updates are arguments and
  results of its model.
\<close>

section \<open>The checks\<close>

definition check_keyset_handle ::
  "('db, 'x) libfred_keyset_scheme \<Rightarrow> string \<Rightarrow> EppResultFailure \<Rightarrow> EppResultFailure \<Rightarrow>
     EppResultFailure \<Rightarrow>
     ('db, exn, bool \<times> EppResultFailure \<times> EppResultFailure \<times> EppResultFailure) op" where
  "check_keyset_handle L h existing_objects policy_errors syntax_errors =
     bindE (Keyset_get_handle_syntax_validity L h) (\<lambda>validity.
       case validity of
         syntax_valid \<Rightarrow>
           bindE (Keyset_get_handle_registrability L h) (\<lambda>registrability.
             case registrability of
               registered \<Rightarrow>
                 returnE (False,
                   add_extended_error (of_scalar_parameter Param_keyset_handle Reason_existing)
                     existing_objects,
                   policy_errors, syntax_errors)
             | in_protection_period \<Rightarrow>
                 returnE (False, existing_objects,
                   add_extended_error (of_scalar_parameter Param_keyset_handle Reason_protected_period)
                     policy_errors,
                   syntax_errors)
             | available \<Rightarrow> returnE (True, existing_objects, policy_errors, syntax_errors))
       | syntax_invalid \<Rightarrow>
           returnE (False, existing_objects, policy_errors,
             add_extended_error (of_scalar_parameter Param_keyset_handle Reason_bad_format_keyset_handle)
               syntax_errors))"

text \<open>One turn of the loop over the technical contacts.\<close>

definition check_tech_contacts_step ::
  "('db, 'x) libfred_keyset_scheme \<Rightarrow> string \<Rightarrow> u16 \<Rightarrow>
     (string \<times> u16) list \<times> EppResultFailure \<times> bool \<Rightarrow>
     ('db, exn, (string \<times> u16) list \<times> EppResultFailure \<times> bool) op" where
  "check_tech_contacts_step L h idx acc =
     (case acc of (unique_handles, policy_errors, existing_tech_contacts) \<Rightarrow>
        case map_find string_less h unique_handles of
          Some first \<Rightarrow>
            let policy_errors = add_extended_error
                  (of_vector_parameter Param_keyset_tech idx Reason_duplicated_contact) policy_errors;
                policy_errors =
                  (if has_extended_error_with_param_index_reason policy_errors
                        Param_keyset_tech first Reason_technical_contact_not_registered
                   then add_extended_error
                     (of_vector_parameter Param_keyset_tech idx Reason_technical_contact_not_registered)
                     policy_errors
                   else policy_errors)
            in returnE (unique_handles, policy_errors, False)
        | None \<Rightarrow>
            let unique_handles = map_insert string_less h idx unique_handles in
            bindE (Contact_get_handle_registrability L h) (\<lambda>registrability.
              case registrability of
                registered \<Rightarrow> returnE (unique_handles, policy_errors, existing_tech_contacts)
              | _ \<Rightarrow>
                  returnE (unique_handles,
                    add_extended_error
                      (of_vector_parameter Param_keyset_tech idx Reason_technical_contact_not_registered)
                      policy_errors,
                    False)))"

definition check_tech_contacts ::
  "('db, 'x) libfred_keyset_scheme \<Rightarrow> string list \<Rightarrow> EppResultFailure \<Rightarrow> EppResultFailure \<Rightarrow>
     ('db, exn, bool \<times> EppResultFailure \<times> EppResultFailure) op" where
  "check_tech_contacts L contacts missing_parameters policy_errors =
     (if length contacts < min_number_of_tech_contacts then
        returnE (False,
          add_extended_error
            (of_scalar_parameter Param_keyset_tech Reason_technical_contact_not_registered)
            missing_parameters,
          policy_errors)
      else if max_number_of_tech_contacts < length contacts then
        returnE (False, missing_parameters,
          add_extended_error (of_scalar_parameter Param_keyset_tech Reason_techadmin_limit)
            policy_errors)
      else
        bindE (for_vector (check_tech_contacts_step L) contacts 0 ([], policy_errors, True))
          (\<lambda>(unique_handles, policy_errors, existing_tech_contacts).
             returnE (existing_tech_contacts, missing_parameters, policy_errors)))"

text \<open>The specialization \<^verbatim>\<open>check_ds_records<0, 0>\<close>: no DS record is allowed.\<close>

definition check_ds_records :: "DsRecord list \<Rightarrow> EppResultFailure \<Rightarrow> bool \<times> EppResultFailure" where
  "check_ds_records records policy_errors =
     (if records = [] then (True, policy_errors)
      else (False,
        add_extended_error (of_scalar_parameter Param_keyset_dsrecord Reason_dsrecord_limit)
          policy_errors))"

text \<open>
  The examination of a key seen for the first time, for the parameter the errors are reported
  on: it is the same code in \<^verbatim>\<open>create_keyset.cc\<close> and \<^verbatim>\<open>update_keyset.cc\<close>.
\<close>

definition check_new_dns_key ::
  "('db, 'x) libfred_keyset_scheme \<Rightarrow> Param \<Rightarrow> DnsKey \<Rightarrow> u16 \<Rightarrow> (u16 \<rightharpoonup> bool) \<Rightarrow>
     EppResultFailure \<Rightarrow> bool \<Rightarrow> ('db, exn, (u16 \<rightharpoonup> bool) \<times> EppResultFailure \<times> bool) op" where
  "check_new_dns_key L p k idx alg_validator policy_errors correct =
     (let (policy_errors, correct) =
            (if \<not> is_flags_correct k
             then (add_extended_error (of_vector_parameter p idx Reason_dnskey_bad_flags) policy_errors, False)
             else (policy_errors, correct));
          (policy_errors, correct) =
            (if \<not> is_protocol_correct k
             then (add_extended_error (of_vector_parameter p idx Reason_dnskey_bad_protocol) policy_errors, False)
             else (policy_errors, correct))
      in bindE (is_alg_correct (get_algorithm_usability L) alg_validator k) (\<lambda>(alg_ok, alg_validator).
        let (policy_errors, correct) =
              (if \<not> alg_ok
               then (add_extended_error (of_vector_parameter p idx Reason_dnskey_bad_alg) policy_errors, False)
               else (policy_errors, correct))
        in case check_key k of
             CheckKey_ok \<Rightarrow> returnE (alg_validator, policy_errors, correct)
           | CheckKey_bad_char \<Rightarrow>
               returnE (alg_validator,
                 add_extended_error (of_vector_parameter p idx Reason_dnskey_bad_key_char) policy_errors,
                 False)
           | CheckKey_bad_length \<Rightarrow>
               returnE (alg_validator,
                 add_extended_error (of_vector_parameter p idx Reason_dnskey_bad_key_len) policy_errors,
                 False)))"

definition copied_key_reasons :: "Reason list" where
  "copied_key_reasons =
     [Reason_dnskey_bad_flags, Reason_dnskey_bad_protocol, Reason_dnskey_bad_alg,
      Reason_dnskey_bad_key_char, Reason_dnskey_bad_key_len]"

text \<open>One turn of the loop over the DNS keys.\<close>

definition check_dns_keys_step ::
  "('db, 'x) libfred_keyset_scheme \<Rightarrow> DnsKey \<Rightarrow> u16 \<Rightarrow>
     (u16 \<rightharpoonup> bool) \<times> (DnsKey \<times> u16) list \<times> EppResultFailure \<times> bool \<Rightarrow>
     ('db, exn, (u16 \<rightharpoonup> bool) \<times> (DnsKey \<times> u16) list \<times> EppResultFailure \<times> bool) op" where
  "check_dns_keys_step L k idx acc =
     (case acc of (alg_validator, unique_dns_keys, policy_errors, correct) \<Rightarrow>
        case map_find dns_key_less k unique_dns_keys of
          Some first \<Rightarrow>
            let policy_errors = add_extended_error
                  (of_scalar_parameter Param_keyset_dnskey Reason_duplicated_dnskey) policy_errors;
                policy_errors = fold (\<lambda>reason policy_errors.
                  if has_extended_error_with_param_index_reason policy_errors
                       Param_keyset_dnskey first reason
                  then add_extended_error (of_vector_parameter Param_keyset_dnskey idx reason) policy_errors
                  else policy_errors) copied_key_reasons policy_errors
            in returnE (alg_validator, unique_dns_keys, policy_errors, False)
        | None \<Rightarrow>
            let unique_dns_keys = map_insert dns_key_less k idx unique_dns_keys in
            bindE (check_new_dns_key L Param_keyset_dnskey k idx alg_validator policy_errors correct)
              (\<lambda>(alg_validator, policy_errors, correct).
                returnE (alg_validator, unique_dns_keys, policy_errors, correct)))"

definition check_dns_keys ::
  "('db, 'x) libfred_keyset_scheme \<Rightarrow> DnsKey list \<Rightarrow> EppResultFailure \<Rightarrow> EppResultFailure \<Rightarrow>
     ('db, exn, bool \<times> EppResultFailure \<times> EppResultFailure) op" where
  "check_dns_keys L keys missing_parameters policy_errors =
     (if length keys < min_number_of_dns_keys then
        returnE (False,
          add_extended_error (of_scalar_parameter Param_keyset_dnskey Reason_no_dnskey)
            missing_parameters,
          policy_errors)
      else if max_number_of_dns_keys < length keys then
        returnE (False, missing_parameters,
          add_extended_error (of_scalar_parameter Param_keyset_dnskey Reason_dnskey_limit)
            policy_errors)
      else
        bindE (for_vector (check_dns_keys_step L) keys 0 (Map.empty, [], policy_errors, True))
          (\<lambda>(alg_validator, unique_dns_keys, policy_errors, correct).
             returnE (correct, missing_parameters, policy_errors)))"

section \<open>The failure to throw\<close>

definition limit_exceeded :: "EppResultFailure \<Rightarrow> bool" where
  "limit_exceeded policy_errors \<longleftrightarrow>
     has_extended_error_with_param_reason policy_errors Param_keyset_dsrecord Reason_dsrecord_limit \<or>
     has_extended_error_with_param_reason policy_errors Param_keyset_tech Reason_techadmin_limit \<or>
     has_extended_error_with_param_reason policy_errors Param_keyset_dnskey Reason_dnskey_limit"

text \<open>
  A sequence of
  \<^verbatim>\<open>policy_errors_to_throw.add_extended_errors(extended_errors_with_param_reason(policy_errors, p, r))\<close>.
\<close>

definition select_errors ::
  "EppResultFailure \<Rightarrow> (Param \<times> Reason) list \<Rightarrow> EppResultFailure \<Rightarrow> EppResultFailure" where
  "select_errors policy_errors prs to_throw =
     fold (\<lambda>(p, r). add_extended_errors (extended_errors_with_param_reason policy_errors p r))
       prs to_throw"

definition throw_create_errors ::
  "EppResultFailure \<Rightarrow> EppResultFailure \<Rightarrow> EppResultFailure \<Rightarrow> EppResultFailure \<Rightarrow>
     ('db, exn, unit) op" where
  "throw_create_errors existing_objects missing_parameters policy_errors syntax_errors =
     (if \<not> failure_empty existing_objects \<or> \<not> failure_empty missing_parameters \<or>
         \<not> failure_empty policy_errors \<or> \<not> failure_empty syntax_errors
      then
        throw_if (\<not> failure_empty missing_parameters) (fail_with required_parameter_missing) (
        throw_if (limit_exceeded policy_errors) (fail_with parameter_value_policy_error) (
        throw_if (\<not> failure_empty syntax_errors) (epp_failure syntax_errors) (
        throw_if (\<not> failure_empty existing_objects) (epp_failure existing_objects) (
        let to_throw = select_errors policy_errors
              [(Param_keyset_handle, Reason_protected_period)]
              (result_failure parameter_value_policy_error) in
        throw_if (\<not> failure_empty to_throw) (epp_failure to_throw) (
        let to_throw = select_errors policy_errors
              [(Param_keyset_tech, Reason_technical_contact_not_registered),
               (Param_keyset_tech, Reason_duplicated_contact),
               (Param_keyset_dnskey, Reason_duplicated_dnskey),
               (Param_keyset_dnskey, Reason_dnskey_bad_flags),
               (Param_keyset_dnskey, Reason_dnskey_bad_protocol),
               (Param_keyset_dnskey, Reason_dnskey_bad_alg),
               (Param_keyset_dnskey, Reason_dnskey_bad_key_char),
               (Param_keyset_dnskey, Reason_dnskey_bad_key_len)]
              to_throw in
        throw_if (\<not> failure_empty to_throw) (epp_failure to_throw) (
        throwE (epp_failure (add_extended_errors
          (case extended_errors policy_errors of None \<Rightarrow> {} | Some es \<Rightarrow> es)
          (result_failure command_failed)))))))))
      else returnE ())"

section \<open>The command\<close>

definition create_keyset ::
  "('db, 'x) libfred_keyset_scheme \<Rightarrow> CreateKeysetInputData \<Rightarrow> SessionData \<Rightarrow>
     ('db, exn, CreateKeysetResult) op" where
  "create_keyset L data session =
     with_session session (
     let existing_objects = result_failure object_exists;
         missing_parameters = result_failure required_parameter_missing;
         policy_errors = result_failure parameter_value_policy_error;
         syntax_errors = result_failure parameter_value_syntax_error in
     bindE (check_keyset_handle L (keyset_handle data) existing_objects policy_errors syntax_errors)
       (\<lambda>(_, existing_objects, policy_errors, syntax_errors).
     bindE (check_tech_contacts L (tech_contacts data) missing_parameters policy_errors)
       (\<lambda>(_, missing_parameters, policy_errors).
     let (_, policy_errors) = check_ds_records (ds_records data) policy_errors in
     bindE (check_dns_keys L (dns_keys data) missing_parameters policy_errors)
       (\<lambda>(_, missing_parameters, policy_errors).
     bindE (throw_create_errors existing_objects missing_parameters policy_errors syntax_errors) (\<lambda>_.
     catchE
       (bindE (InfoRegistrarById L (registrar_id session)) (\<lambda>registrar.
        bindE (CreateKeyset L (keyset_handle data) (registrar_handle registrar)
                 (to_fred (dns_keys data)) (tech_contacts data) (logd_request_id session))
          (\<lambda>(object_id, history_id, creation_time).
             returnE \<lparr>created_id = object_id, create_history_id = history_id, crdate = creation_time\<rparr>)))
       throwE)))))"

section \<open>What the queries of LibFred answer\<close>

text \<open>
  The four queries the checks ask LibFred only read: on the database \<open>db\<close> they answer what
  the functions say and leave it as it is.
\<close>

definition keyset_queries ::
  "('db, 'x) libfred_keyset_scheme \<Rightarrow> 'db \<Rightarrow> (string \<Rightarrow> SyntaxValidity) \<Rightarrow>
     (string \<Rightarrow> Registrability) \<Rightarrow> (string \<Rightarrow> Registrability) \<Rightarrow> (u16 \<Rightarrow> AlgorithmUsability) \<Rightarrow> bool" where
  "keyset_queries L db syntax keysets contacts usability \<longleftrightarrow>
     (\<forall>h. reads (Keyset_get_handle_syntax_validity L h) db (syntax h)) \<and>
     (\<forall>h. reads (Keyset_get_handle_registrability L h) db (keysets h)) \<and>
     (\<forall>h. reads (Contact_get_handle_registrability L h) db (contacts h)) \<and>
     (\<forall>a. reads (get_algorithm_usability L a) db (usability a))"

lemma keyset_queriesD:
  assumes "keyset_queries L db syntax keysets contacts usability"
  shows "reads (Keyset_get_handle_syntax_validity L h) db (syntax h)"
    and "reads (Keyset_get_handle_registrability L h) db (keysets h)"
    and "reads (Contact_get_handle_registrability L h) db (contacts h)"
    and "reads (get_algorithm_usability L a) db (usability a)"
  using assms by (simp_all add: keyset_queries_def)

section \<open>Technical contacts\<close>

definition contact_reasons :: "(string \<Rightarrow> Registrability) \<Rightarrow> string \<Rightarrow> Reason list" where
  "contact_reasons contacts h =
     (if contacts h = registered then [] else [Reason_technical_contact_not_registered])"

lemma tech_scan:
  assumes "\<And>h. reads (Contact_get_handle_registrability L h) db (contacts h)"
  shows "unique_scan string_less (\<lambda>h. h) (check_tech_contacts_step L) db (\<lambda>_. True)
    fst (\<lambda>a. fst (snd a)) (\<lambda>a. snd (snd a)) Param_keyset_tech
    (\<lambda>i. of_vector_parameter Param_keyset_tech i Reason_duplicated_contact)
    [Reason_technical_contact_not_registered] (contact_reasons contacts)"
proof unfold_locales
  fix a :: "(string \<times> u16) list \<times> EppResultFailure \<times> bool" and x i i0
  obtain m f b where a: "a = (m, f, b)" by (cases a)
  show "\<exists>a'. check_tech_contacts_step L x i a db = (Inr a', db) \<and> True \<and> fst a' = fst a \<and>
      fst (snd a') = copy_reasons Param_keyset_tech i0 i [Reason_technical_contact_not_registered]
        (add_extended_error (of_vector_parameter Param_keyset_tech i Reason_duplicated_contact)
          (fst (snd a))) \<and> \<not> snd (snd a')"
    if "map_find string_less x (fst a) = Some i0" "i0 \<noteq> i"
    using that by (simp add: a check_tech_contacts_step_def op_simps copy_reasons_def Let_def)
  show "\<exists>a'. check_tech_contacts_step L x i a db = (Inr a', db) \<and> True \<and>
      fst a' = map_insert string_less x i (fst a) \<and>
      fst (snd a') = add_reasons Param_keyset_tech i (contact_reasons contacts x) (fst (snd a)) \<and>
      snd (snd a') = (snd (snd a) \<and> contact_reasons contacts x = [])"
    if "map_find string_less x (fst a) = None"
    using that assms [of x]
    by (simp add: a check_tech_contacts_step_def op_simps add_reasons_def contact_reasons_def Let_def
        split: Registrability.split)
qed (auto simp: contact_reasons_def)

definition tech_contacts_ok :: "(string \<Rightarrow> Registrability) \<Rightarrow> string list \<Rightarrow> bool" where
  "tech_contacts_ok contacts hs \<longleftrightarrow>
     1 \<le> length hs \<and> length hs \<le> 10 \<and> distinct hs \<and> (\<forall>h \<in> set hs. contacts h = registered)"

lemma check_tech_contacts_run:
  assumes q: "\<And>h. reads (Contact_get_handle_registrability L h) db (contacts h)"
    and clean: "\<And>e. e \<in> errors_of f \<Longrightarrow> err_param e \<noteq> Param_keyset_tech"
  shows "\<exists>b f'. check_tech_contacts L hs m f db =
      (Inr (b, if hs = [] then add_extended_error
         (of_scalar_parameter Param_keyset_tech Reason_technical_contact_not_registered) m else m, f'), db) \<and>
    (b \<longleftrightarrow> tech_contacts_ok contacts hs) \<and>
    check_adds Param_keyset_tech Reason_techadmin_limit (10 < length hs)
      (hs = [] \<or> tech_contacts_ok contacts hs) f f'"
proof (cases "hs = [] \<or> 10 < length hs")
  case True
  then show ?thesis
    by (cases "hs = []") (auto simp: check_tech_contacts_def keyset_limits op_simps tech_contacts_ok_def
        intro!: check_adds_limit check_adds_none)
next
  case False
  note scan = tech_scan [OF q]
  have ok: "scan_ok (\<lambda>h. h) (contact_reasons contacts) hs \<longleftrightarrow> tech_contacts_ok contacts hs"
    using False unfolding scan_ok_def
    by (auto simp: tech_contacts_ok_def contact_reasons_def Suc_le_eq split: if_splits)
  have "\<exists>a'. for_vector (check_tech_contacts_step L) hs 0 ([], f, True) db = (Inr a', db) \<and>
      check_adds Param_keyset_tech Reason_techadmin_limit False (tech_contacts_ok contacts hs) f (fst (snd a')) \<and>
      (snd (snd a') \<longleftrightarrow> tech_contacts_ok contacts hs)"
    using unique_scan.result_adds [OF scan, of "([], f, True)" hs Reason_techadmin_limit]
      unique_scan.untouchedI [OF scan clean] False by (simp add: ok)
  then obtain u f' b where
      "for_vector (check_tech_contacts_step L) hs 0 ([], f, True) db = (Inr (u, f', b), db)"
      "check_adds Param_keyset_tech Reason_techadmin_limit False (tech_contacts_ok contacts hs) f f'"
      "b \<longleftrightarrow> tech_contacts_ok contacts hs"
    by (metis prod.collapse)
  with False show ?thesis
    by (auto simp: check_tech_contacts_def keyset_limits op_simps Suc_le_eq)
qed

section \<open>DNS keys\<close>

lemma check_new_dns_key_run:
  assumes "\<And>a. reads (get_algorithm_usability L a) db (usability a)" and "alg_memory_ok usability m"
  shows "\<exists>m'. alg_memory_ok usability m' \<and>
    check_new_dns_key L p k i m f b db =
      (Inr (m', add_reasons p i (key_reasons usability k) f, b \<and> key_reasons usability k = []), db)"
proof -
  obtain m' where "is_alg_correct (get_algorithm_usability L) m k db =
      (Inr (usability (get_alg k) = usable, m'), db)" "alg_memory_ok usability m'"
    using is_alg_correct_run [OF assms] by blast
  then show ?thesis
    by (intro exI [of _ m'])
      (simp add: check_new_dns_key_def op_simps add_reasons_def key_reasons_def Let_def
        split: CheckKeyResult.split)
qed

lemma key_scan:
  assumes "\<And>a. reads (get_algorithm_usability L a) db (usability a)"
  shows "unique_scan dns_key_less dns_key_fields (check_dns_keys_step L) db
    (\<lambda>a. alg_memory_ok usability (fst a)) (\<lambda>a. fst (snd a)) (\<lambda>a. fst (snd (snd a)))
    (\<lambda>a. snd (snd (snd a))) Param_keyset_dnskey
    (\<lambda>i. of_scalar_parameter Param_keyset_dnskey Reason_duplicated_dnskey)
    copied_key_reasons (key_reasons usability)"
proof unfold_locales
  fix a :: "(u16 \<rightharpoonup> bool) \<times> (DnsKey \<times> u16) list \<times> EppResultFailure \<times> bool" and x i i0
  obtain m u f b where a: "a = (m, u, f, b)" by (cases a)
  assume "alg_memory_ok usability (fst a)"
  then have m: "alg_memory_ok usability m" by (simp add: a)
  show "\<exists>a'. check_dns_keys_step L x i a db = (Inr a', db) \<and> alg_memory_ok usability (fst a') \<and>
      fst (snd a') = fst (snd a) \<and>
      fst (snd (snd a')) = copy_reasons Param_keyset_dnskey i0 i copied_key_reasons
        (add_extended_error (of_scalar_parameter Param_keyset_dnskey Reason_duplicated_dnskey)
          (fst (snd (snd a)))) \<and> \<not> snd (snd (snd a'))"
    if "map_find dns_key_less x (fst (snd a)) = Some i0" "i0 \<noteq> i"
    using that m by (simp add: a check_dns_keys_step_def op_simps copy_reasons_def Let_def)
  show "\<exists>a'. check_dns_keys_step L x i a db = (Inr a', db) \<and> alg_memory_ok usability (fst a') \<and>
      fst (snd a') = map_insert dns_key_less x i (fst (snd a)) \<and>
      fst (snd (snd a')) = add_reasons Param_keyset_dnskey i (key_reasons usability x) (fst (snd (snd a))) \<and>
      snd (snd (snd a')) = (snd (snd (snd a)) \<and> key_reasons usability x = [])"
    if "map_find dns_key_less x (fst (snd a)) = None"
    using that check_new_dns_key_run [OF assms m, of Param_keyset_dnskey x i f b]
    by (auto simp: a check_dns_keys_step_def op_simps Let_def)
next
  fix x show "set (key_reasons usability x) \<subseteq> set copied_key_reasons"
    using key_reasons_subset [of usability x] by (auto simp: copied_key_reasons_def)
qed (auto simp: copied_key_reasons_def dest: arg_cong [of _ _ err_reason])

definition dns_keys_ok :: "(u16 \<Rightarrow> AlgorithmUsability) \<Rightarrow> DnsKey list \<Rightarrow> bool" where
  "dns_keys_ok usability ks \<longleftrightarrow>
     1 \<le> length ks \<and> length ks \<le> 10 \<and> distinct ks \<and>
     (\<forall>k \<in> set ks. is_flags_correct k \<and> is_protocol_correct k \<and> usability (get_alg k) = usable \<and>
        check_key k = CheckKey_ok)"

lemma check_dns_keys_run:
  assumes q: "\<And>a. reads (get_algorithm_usability L a) db (usability a)"
    and clean: "\<And>e. e \<in> errors_of f \<Longrightarrow> err_param e \<noteq> Param_keyset_dnskey"
  shows "\<exists>b f'. check_dns_keys L ks m f db =
      (Inr (b, if ks = [] then add_extended_error
         (of_scalar_parameter Param_keyset_dnskey Reason_no_dnskey) m else m, f'), db) \<and>
    (b \<longleftrightarrow> dns_keys_ok usability ks) \<and>
    check_adds Param_keyset_dnskey Reason_dnskey_limit (10 < length ks)
      (ks = [] \<or> dns_keys_ok usability ks) f f'"
proof (cases "ks = [] \<or> 10 < length ks")
  case True
  then show ?thesis
    by (cases "ks = []") (auto simp: check_dns_keys_def keyset_limits op_simps dns_keys_ok_def
        intro!: check_adds_limit check_adds_none)
next
  case False
  note scan = key_scan [OF q]
  have inj: "distinct (map dns_key_fields ks) \<longleftrightarrow> distinct ks"
    by (auto simp: distinct_map inj_on_def)
  have ok: "scan_ok dns_key_fields (key_reasons usability) ks \<longleftrightarrow> dns_keys_ok usability ks"
    using False unfolding scan_ok_def inj key_reasons_Nil
    by (auto simp: dns_keys_ok_def Suc_le_eq)
  have "\<exists>a'. for_vector (check_dns_keys_step L) ks 0 (Map.empty, [], f, True) db = (Inr a', db) \<and>
      check_adds Param_keyset_dnskey Reason_dnskey_limit False (dns_keys_ok usability ks) f
        (fst (snd (snd a'))) \<and>
      (snd (snd (snd a')) \<longleftrightarrow> dns_keys_ok usability ks)"
    using unique_scan.result_adds [OF scan, of "(Map.empty, [], f, True)" ks Reason_dnskey_limit]
      unique_scan.untouchedI [OF scan clean] False by (simp add: ok copied_key_reasons_def)
  then obtain v u f' b where
      "for_vector (check_dns_keys_step L) ks 0 (Map.empty, [], f, True) db = (Inr (v, u, f', b), db)"
      "check_adds Param_keyset_dnskey Reason_dnskey_limit False (dns_keys_ok usability ks) f f'"
      "b \<longleftrightarrow> dns_keys_ok usability ks"
    by (metis prod.collapse)
  with False show ?thesis
    by (auto simp: check_dns_keys_def keyset_limits op_simps Suc_le_eq)
qed

section \<open>The verdict of the command\<close>

text \<open>
  Which failure the command throws for its input, \<open>None\<close> when it goes on to create the keyset.
\<close>

definition create_keyset_verdict ::
  "(string \<Rightarrow> SyntaxValidity) \<Rightarrow> (string \<Rightarrow> Registrability) \<Rightarrow> (string \<Rightarrow> Registrability) \<Rightarrow>
     (u16 \<Rightarrow> AlgorithmUsability) \<Rightarrow> CreateKeysetInputData \<Rightarrow> EppResultFailure option" where
  "create_keyset_verdict syntax keysets contacts usability data =
     (let h = keyset_handle data; hs = tech_contacts data; ks = dns_keys data in
      if hs = [] \<or> ks = [] then Some (result_failure required_parameter_missing)
      else if ds_records data \<noteq> [] \<or> 10 < length hs \<or> 10 < length ks
      then Some (result_failure parameter_value_policy_error)
      else if syntax h = syntax_invalid
      then Some (add_extended_error (of_scalar_parameter Param_keyset_handle Reason_bad_format_keyset_handle)
             (result_failure parameter_value_syntax_error))
      else if keysets h = registered
      then Some (add_extended_error (of_scalar_parameter Param_keyset_handle Reason_existing)
             (result_failure object_exists))
      else if keysets h = in_protection_period
      then Some (add_extended_error (of_scalar_parameter Param_keyset_handle Reason_protected_period)
             (result_failure parameter_value_policy_error))
      else if tech_contacts_ok contacts hs \<and> dns_keys_ok usability ks then None
      else Some (add_unspecified_error (result_failure parameter_value_policy_error)))"

definition keyset_creation ::
  "('db, 'x) libfred_keyset_scheme \<Rightarrow> CreateKeysetInputData \<Rightarrow> SessionData \<Rightarrow>
     ('db, exn, CreateKeysetResult) op" where
  "keyset_creation L data session =
     bindE (InfoRegistrarById L (registrar_id session)) (\<lambda>registrar.
     bindE (CreateKeyset L (keyset_handle data) (registrar_handle registrar)
              (to_fred (dns_keys data)) (tech_contacts data) (logd_request_id session))
       (\<lambda>(object_id, history_id, creation_time).
          returnE \<lparr>created_id = object_id, create_history_id = history_id, crdate = creation_time\<rparr>))"

lemma catchE_throwE [simp]: "catchE m throwE = m"
  by (rule ext) (auto simp: catchE_def throwE_def split: prod.splits sum.splits)

lemma select_errors_simps [simp]:
  "select_errors f [] t = t"
  "select_errors f ((p, r) # prs) t =
     select_errors f prs (add_extended_errors (extended_errors_with_param_reason f p r) t)"
  by (simp_all add: select_errors_def)

text \<open>
  The selection, when nothing is missing, no limit is exceeded and the handle is in order:
  whatever the policy errors on contacts and keys are, the first selection already stops.
\<close>

lemma throw_create_errors_run:
  assumes "\<And>e. e \<in> errors_of policy \<and> err_param e = Param_keyset_handle \<longleftrightarrow> e \<in> H"
    and "H \<subseteq> {of_scalar_parameter Param_keyset_handle Reason_protected_period}"
  shows "throw_create_errors existing missing policy syntax db =
    (if \<not> failure_empty missing then (Inl (fail_with required_parameter_missing), db)
     else if limit_exceeded policy then (Inl (fail_with parameter_value_policy_error), db)
     else if \<not> failure_empty syntax then (Inl (epp_failure syntax), db)
     else if \<not> failure_empty existing then (Inl (epp_failure existing), db)
     else if \<not> failure_empty policy
     then (Inl (epp_failure (add_extended_errors H (result_failure parameter_value_policy_error))), db)
     else (Inr (), db))"
proof -
  have H: "extended_errors_with_param_reason policy Param_keyset_handle Reason_protected_period = H"
    using assms by (auto simp: extended_errors_with_param_reason_eq)
  have "\<not> limit_exceeded policy" if "failure_empty policy"
    using errors_of_empty [OF that] by (simp add: limit_exceeded_def)
  then show ?thesis
    by (auto simp: throw_create_errors_def op_simps H Let_def)
qed

lemma add_extended_errors_singleton:
  "add_extended_errors {} (result_failure c) = add_unspecified_error (result_failure c)"
  "add_extended_errors {e} (result_failure c) = add_extended_error e (result_failure c)"
  by (rule result_failure_eqI; simp)+

lemma check_keyset_handle_run:
  assumes "keyset_queries L db syntax keysets contacts usability"
  shows "check_keyset_handle L h E P S db =
    (Inr (syntax h = syntax_valid \<and> keysets h = available,
       if syntax h = syntax_valid \<and> keysets h = registered
       then add_extended_error (of_scalar_parameter Param_keyset_handle Reason_existing) E else E,
       if syntax h = syntax_valid \<and> keysets h = in_protection_period
       then add_extended_error (of_scalar_parameter Param_keyset_handle Reason_protected_period) P else P,
       if syntax h = syntax_invalid
       then add_extended_error (of_scalar_parameter Param_keyset_handle Reason_bad_format_keyset_handle) S
       else S), db)"
  using keyset_queriesD(1,2) [OF assms, of h]
  by (auto simp: check_keyset_handle_def op_simps split: SyntaxValidity.split Registrability.split)

lemma check_ds_records_adds:
  "check_adds Param_keyset_dsrecord Reason_dsrecord_limit (rs \<noteq> []) (rs = []) f (snd (check_ds_records rs f))"
  by (cases "rs = []") (auto simp: check_ds_records_def intro!: check_adds_none check_adds_limit)

lemma create_keyset_by_verdict:
  assumes q: "keyset_queries L db syntax keysets contacts usability"
    and session: "is_session_registrar_valid session"
  shows "create_keyset L data session db =
    (case create_keyset_verdict syntax keysets contacts usability data of
       Some f \<Rightarrow> (Inl (epp_failure f), db)
     | None \<Rightarrow> keyset_creation L data session db)"
proof -
  let ?h = "keyset_handle data" and ?hs = "tech_contacts data" and ?ks = "dns_keys data"
  let ?E0 = "result_failure object_exists" and ?M0 = "result_failure required_parameter_missing"
  let ?P0 = "result_failure parameter_value_policy_error" and ?S0 = "result_failure parameter_value_syntax_error"
  define E where "E = (if syntax ?h = syntax_valid \<and> keysets ?h = registered
    then add_extended_error (of_scalar_parameter Param_keyset_handle Reason_existing) ?E0 else ?E0)"
  define P1 where "P1 = (if syntax ?h = syntax_valid \<and> keysets ?h = in_protection_period
    then add_extended_error (of_scalar_parameter Param_keyset_handle Reason_protected_period) ?P0 else ?P0)"
  define S where "S = (if syntax ?h = syntax_invalid
    then add_extended_error (of_scalar_parameter Param_keyset_handle Reason_bad_format_keyset_handle) ?S0 else ?S0)"
  obtain b1 where r1: "check_keyset_handle L ?h ?E0 ?P0 ?S0 db = (Inr (b1, E, P1, S), db)"
    using check_keyset_handle_run [OF q] by (simp add: E_def P1_def S_def)
  have P1: "err_param e = Param_keyset_handle" if "e \<in> errors_of P1" for e
    using that by (auto simp: P1_def split: if_splits)
  define M1 where "M1 = (if ?hs = [] then add_extended_error
    (of_scalar_parameter Param_keyset_tech Reason_technical_contact_not_registered) ?M0 else ?M0)"
  obtain b2 P2 where r2: "check_tech_contacts L ?hs ?M0 P1 db = (Inr (b2, M1, P2), db)"
      and P2: "check_adds Param_keyset_tech Reason_techadmin_limit (10 < length ?hs)
        (?hs = [] \<or> tech_contacts_ok contacts ?hs) P1 P2"
    using check_tech_contacts_run [OF keyset_queriesD(3) [OF q], of P1 ?hs ?M0] P1
    unfolding M1_def by force
  obtain X2 where X2: "errors_of P2 = errors_of P1 \<union> X2" "\<And>e. e \<in> X2 \<Longrightarrow> err_param e = Param_keyset_tech"
      "of_scalar_parameter Param_keyset_tech Reason_techadmin_limit \<in> X2 \<longleftrightarrow> 10 < length ?hs"
    using check_addsE [OF P2] by blast
  define P3 where "P3 = snd (check_ds_records (ds_records data) P2)"
  have P3: "check_adds Param_keyset_dsrecord Reason_dsrecord_limit (ds_records data \<noteq> [])
      (ds_records data = []) P2 P3"
    unfolding P3_def by (rule check_ds_records_adds)
  obtain X3 where X3: "errors_of P3 = errors_of P2 \<union> X3" "\<And>e. e \<in> X3 \<Longrightarrow> err_param e = Param_keyset_dsrecord"
      "of_scalar_parameter Param_keyset_dsrecord Reason_dsrecord_limit \<in> X3 \<longleftrightarrow> ds_records data \<noteq> []"
    using check_addsE [OF P3] by blast
  define M where "M = (if ?ks = [] then add_extended_error
    (of_scalar_parameter Param_keyset_dnskey Reason_no_dnskey) M1 else M1)"
  have clean: "err_param e \<noteq> Param_keyset_dnskey" if "e \<in> errors_of P3" for e
    using that P1 X2(1,2) X3(1,2) by force
  obtain b4 P where r4: "check_dns_keys L ?ks M1 P3 db = (Inr (b4, M, P), db)"
      and P: "check_adds Param_keyset_dnskey Reason_dnskey_limit (10 < length ?ks)
        (?ks = [] \<or> dns_keys_ok usability ?ks) P3 P"
    using check_dns_keys_run [OF keyset_queriesD(4) [OF q] clean, where ks = ?ks and m = M1]
    unfolding M_def by blast
  obtain X4 where X4: "errors_of P = errors_of P3 \<union> X4" "\<And>e. e \<in> X4 \<Longrightarrow> err_param e = Param_keyset_dnskey"
      "of_scalar_parameter Param_keyset_dnskey Reason_dnskey_limit \<in> X4 \<longleftrightarrow> 10 < length ?ks"
    using check_addsE [OF P] by blast
  have errs: "errors_of P = errors_of P1 \<union> X2 \<union> X3 \<union> X4"
    using X2(1) X3(1) X4(1) by simp
  have H: "e \<in> errors_of P \<and> err_param e = Param_keyset_handle \<longleftrightarrow> e \<in> errors_of P1" for e
    using P1 [of e] X2(2) [of e] X3(2) [of e] X4(2) [of e] unfolding errs by auto
  have lim: "limit_exceeded P \<longleftrightarrow> ds_records data \<noteq> [] \<or> 10 < length ?hs \<or> 10 < length ?ks"
  proof -
    have "of_scalar_parameter p r \<in> errors_of P \<longleftrightarrow>
        of_scalar_parameter p r \<in> (if p = Param_keyset_tech then X2
          else if p = Param_keyset_dsrecord then X3 else if p = Param_keyset_dnskey then X4 else errors_of P1)"
      for p r
      using P1 [of "of_scalar_parameter p r"] X2(2) [of "of_scalar_parameter p r"]
        X3(2) [of "of_scalar_parameter p r"] X4(2) [of "of_scalar_parameter p r"] unfolding errs by auto
    then show ?thesis
      by (simp add: limit_exceeded_def X2(3) X3(3) X4(3))
  qed
  have emp: "failure_empty P \<longleftrightarrow> failure_empty P1 \<and> (?hs = [] \<or> tech_contacts_ok contacts ?hs) \<and>
      ds_records data = [] \<and> (?ks = [] \<or> dns_keys_ok usability ?ks)"
    using check_adds_empty [OF P2] check_adds_empty [OF P3] check_adds_empty [OF P] by simp
  have P1sub: "errors_of P1 \<subseteq> {of_scalar_parameter Param_keyset_handle Reason_protected_period}"
    by (simp add: P1_def)
  have "create_keyset L data session db =
      bindE (throw_create_errors E M P S) (\<lambda>_. keyset_creation L data session) db"
    using session r1 r2 r4 P3_def
    by (simp add: create_keyset_def keyset_creation_def op_simps Let_def case_prod_beta)
  also have "\<dots> = (case create_keyset_verdict syntax keysets contacts usability data of
       Some f \<Rightarrow> (Inl (epp_failure f), db) | None \<Rightarrow> keyset_creation L data session db)"
    unfolding bindE_def throw_create_errors_run [OF H P1sub] lim emp create_keyset_verdict_def
    by (cases "syntax ?h")
      (auto simp: M_def M1_def E_def S_def P1_def Let_def add_extended_errors_singleton)
  finally show ?thesis .
qed

interpretation create_keyset: session_guarded "create_keyset L data" for L data
  by unfold_locales (simp add: create_keyset_def with_session_refuses)

end
