(* ===== verification/Keyset_Update.thy ===== *)
theory Keyset_Update
  imports Keyset_Create
begin

text \<open>
  The command \<^verbatim>\<open>update_keyset\<close> (\<^verbatim>\<open>keyset/update_keyset.cc\<close>). Handles are
  compared without regard to case here, through \<^verbatim>\<open>strncasecmp\<close>; the contacts and keys to
  add and to remove are examined against those the keyset has.
\<close>

section \<open>Handles compared without regard to case\<close>

text \<open>
  \<^verbatim>\<open>strncasecmp\<close> of the C library on the bytes of \<^verbatim>\<open>c_str()\<close>: it stops at the
  terminating zero, also at one inside the string.
\<close>

definition NUL :: char where
  "NUL = CHR 0x00"

fun strncasecmp :: "string \<Rightarrow> string \<Rightarrow> nat \<Rightarrow> int" where
  "strncasecmp a b 0 = 0"
| "strncasecmp a b (Suc n) =
     (let ca = (case a of [] \<Rightarrow> NUL | c # _ \<Rightarrow> c);
          cb = (case b of [] \<Rightarrow> NUL | c # _ \<Rightarrow> c);
          la = int (of_char (to_lower_char ca)); lb = int (of_char (to_lower_char cb))
      in if la \<noteq> lb then la - lb
         else if ca = NUL then 0
         else strncasecmp (tl a) (tl b) n)"

definition CompareIgnoringCase :: "string \<Rightarrow> string \<Rightarrow> bool" where
  "CompareIgnoringCase lhs rhs =
     (let lhs_is_shorter = length lhs < length rhs;
          size = (if lhs_is_shorter then length lhs else length rhs);
          cmp_result = strncasecmp lhs rhs size
      in cmp_result < 0 \<or> (cmp_result = 0 \<and> lhs_is_shorter))"

definition ignore_case_key :: "string \<Rightarrow> string \<times> nat" where
  "ignore_case_key s = (to_lower_copy (takeWhile (\<lambda>c. c \<noteq> NUL) s), length s)"

lemma of_char_zero: "of_char c = (0 :: nat) \<longleftrightarrow> c = NUL"
proof -
  have "(of_char NUL :: nat) = 0" by (simp add: NUL_def)
  then show ?thesis by (metis of_char_eqI)
qed

lemma to_lower_NUL: "to_lower_char c = NUL \<longleftrightarrow> c = NUL"
proof -
  have "(of_char (to_lower_char c) :: nat) = 0 \<longleftrightarrow> (of_char c :: nat) = 0"
    by (simp add: of_char_to_lower is_upper_def)
  then show ?thesis by (simp only: of_char_zero)
qed

lemma NUL_least: "\<not> c < NUL" "NUL < c \<longleftrightarrow> c \<noteq> NUL"
  using of_char_zero [of c] of_char_zero [of NUL] by (auto simp: less_char_def)

lemma strncasecmp_Cons:
  "strncasecmp (x # a) (y # b) (Suc n) =
     (if to_lower_char x = to_lower_char y then (if x = NUL then 0 else strncasecmp a b n)
      else int (of_char (to_lower_char x)) - int (of_char (to_lower_char y)))"
  by (simp add: Let_def)

lemma CompareIgnoringCase_Cons:
  "CompareIgnoringCase (x # a) (y # b) \<longleftrightarrow>
     (if to_lower_char x = to_lower_char y
      then (if x = NUL then length a < length b else CompareIgnoringCase a b)
      else to_lower_char x < to_lower_char y)"
proof -
  have size: "(if length (x # a) < length (y # b) then length (x # a) else length (y # b)) =
      Suc (if length a < length b then length a else length b)"
    by simp
  have neg: "int (of_char (to_lower_char x)) - int (of_char (to_lower_char y)) < 0 \<longleftrightarrow>
      to_lower_char x < to_lower_char y"
    by (simp add: less_char_def)
  have zero: "int (of_char (to_lower_char x)) - int (of_char (to_lower_char y)) \<noteq> 0"
    if "to_lower_char x \<noteq> to_lower_char y"
    using that by simp
  show ?thesis
    unfolding CompareIgnoringCase_def Let_def size strncasecmp_Cons
    using neg zero by (cases "to_lower_char x = to_lower_char y"; cases "x = NUL") simp_all
qed

lemma CompareIgnoringCase_key:
  "CompareIgnoringCase a b \<longleftrightarrow> ignore_case_key a < ignore_case_key b"
proof (induction a b rule: list_induct2')
  case (3 y b)
  have "[] < to_lower_copy (takeWhile (\<lambda>c. c \<noteq> NUL) (y # b)) \<or>
      [] = to_lower_copy (takeWhile (\<lambda>c. c \<noteq> NUL) (y # b))"
    by (cases "to_lower_copy (takeWhile (\<lambda>c. c \<noteq> NUL) (y # b))") simp_all
  then show ?case
    by (auto simp: CompareIgnoringCase_def ignore_case_key_def to_lower_copy_def)
next
  case (4 x a y b)
  have "x = NUL \<longleftrightarrow> y = NUL" if "to_lower_char x = to_lower_char y"
    using that to_lower_NUL [of x] to_lower_NUL [of y] by metis
  with 4 show ?case
    using to_lower_NUL [of x] to_lower_NUL [of y] NUL_least [of "to_lower_char x"]
      NUL_least [of "to_lower_char y"]
    by (cases "to_lower_char x = to_lower_char y"; cases "x = NUL"; cases "y = NUL")
      (auto simp: CompareIgnoringCase_Cons ignore_case_key_def to_lower_copy_def)
qed (simp_all add: CompareIgnoringCase_def ignore_case_key_def to_lower_copy_def)

interpretation ignoring_case: keyed_order CompareIgnoringCase ignore_case_key
  by unfold_locales (rule CompareIgnoringCase_key)

lemma ignore_case_key_plain:
  assumes "NUL \<notin> set a" and "NUL \<notin> set b"
  shows "ignore_case_key a = ignore_case_key b \<longleftrightarrow> to_lower_copy a = to_lower_copy b"
proof -
  have w: "takeWhile (\<lambda>c. c \<noteq> NUL) s = s" if "NUL \<notin> set s" for s
    using that by (auto simp: takeWhile_eq_all_conv)
  show ?thesis
    unfolding ignore_case_key_def w [OF assms(1)] w [OF assms(2)]
    by (auto dest: arg_cong [of _ _ length])
qed

section \<open>The keyset and the registrar\<close>

definition update_check_keyset_handle ::
  "('db, 'x) libfred_keyset_scheme \<Rightarrow> string \<Rightarrow> u64 \<Rightarrow> ('db, exn, InfoKeysetData \<times> string) op" where
  "update_check_keyset_handle L h reg_id =
     catchE
       (bindE (InfoRegistrarById L reg_id) (\<lambda>session_registrar.
        bindE (InfoKeysetByHandle L True h) (\<lambda>keyset_data.
        let is_sponsoring_registrar =
              (ks_sponsoring_registrar_handle keyset_data = registrar_handle session_registrar);
            is_system_registrar = is_system session_registrar;
            is_registrar_authorized = (is_system_registrar \<or> is_sponsoring_registrar) in
        throw_if (\<not> is_registrar_authorized) (fail_with authorization_error) (
        bindE (whenE (\<not> is_system_registrar)
          (bindE (LockObjectStateRequestLock L (ks_id keyset_data)) (\<lambda>_.
           bindE (PerformObjectStateRequest L (ks_id keyset_data)) (\<lambda>_.
           bindE (GetObjectStates L (ks_id keyset_data)) (\<lambda>keyset_states.
           throw_if (ObjectStatesInfo_presents L keyset_states Object_State_server_update_prohibited \<or>
                     ObjectStatesInfo_presents L keyset_states Object_State_delete_candidate)
             (fail_with object_status_prohibits_operation) (returnE ()))))))
          (\<lambda>_. returnE (keyset_data, registrar_handle session_registrar))))))
       (\<lambda>e. case e of
          LibfredException (InfoKeysetByHandleException unknown) \<Rightarrow>
            if unknown then throwE (fail_with object_does_not_exist) else throwE e
        | _ \<Rightarrow> throwE e)"

section \<open>Technical contacts to add and to remove\<close>

definition get_handles_of_tech_contacts :: "string list \<Rightarrow> string list" where
  "get_handles_of_tech_contacts contacts = fold (set_insert CompareIgnoringCase) contacts []"

definition copy_error ::
  "Param \<Rightarrow> Reason \<Rightarrow> u16 \<Rightarrow> u16 \<Rightarrow> EppResultFailure \<Rightarrow> bool \<times> EppResultFailure" where
  "copy_error p r src_idx dst_idx errors =
     (if has_extended_error_with_param_index_reason errors p src_idx r
      then (True, add_extended_error (of_vector_parameter p dst_idx r) errors)
      else (False, errors))"

definition tech_contacts_add_step ::
  "('db, 'x) libfred_keyset_scheme \<Rightarrow> string list \<Rightarrow> string \<Rightarrow> u16 \<Rightarrow>
     (string \<times> u16) list \<times> EppResultFailure \<times> bool \<Rightarrow>
     ('db, exn, (string \<times> u16) list \<times> EppResultFailure \<times> bool) op" where
  "tech_contacts_add_step L current_tech_contacts h idx acc =
     (case acc of (unique_handles, policy_errors, check_result) \<Rightarrow>
        case map_find CompareIgnoringCase h unique_handles of
          Some first \<Rightarrow>
            let policy_errors = add_extended_error
                  (of_vector_parameter Param_keyset_tech_add idx Reason_duplicated_contact) policy_errors;
                policy_errors =
                  (if has_extended_error_with_param_index_reason policy_errors
                        Param_keyset_tech_add first Reason_technical_contact_not_registered
                   then add_extended_error
                     (of_vector_parameter Param_keyset_tech_add idx Reason_technical_contact_not_registered)
                     policy_errors
                   else policy_errors);
                policy_errors =
                  (if has_extended_error_with_param_index_reason policy_errors
                        Param_keyset_tech_add first Reason_technical_contact_already_assigned
                   then add_extended_error
                     (of_vector_parameter Param_keyset_tech_add idx Reason_technical_contact_already_assigned)
                     policy_errors
                   else policy_errors)
            in returnE (unique_handles, policy_errors, False)
        | None \<Rightarrow>
            let unique_handles = map_insert CompareIgnoringCase h idx unique_handles in
            if 0 < set_count CompareIgnoringCase current_tech_contacts h
            then returnE (unique_handles,
              add_extended_error
                (of_vector_parameter Param_keyset_tech_add idx Reason_technical_contact_already_assigned)
                policy_errors,
              False)
            else bindE (Contact_get_handle_registrability L h) (\<lambda>registrability.
              case registrability of
                registered \<Rightarrow> returnE (unique_handles, policy_errors, check_result)
              | _ \<Rightarrow>
                  returnE (unique_handles,
                    add_extended_error
                      (of_vector_parameter Param_keyset_tech_add idx Reason_technical_contact_not_registered)
                      policy_errors,
                    False)))"

definition tech_contacts_rem_step ::
  "string list \<Rightarrow> string \<Rightarrow> u16 \<Rightarrow> (string \<times> u16) list \<times> EppResultFailure \<times> bool \<Rightarrow>
     ('db, exn, (string \<times> u16) list \<times> EppResultFailure \<times> bool) op" where
  "tech_contacts_rem_step current_tech_contacts h idx acc =
     (case acc of (unique_handles, policy_errors, check_result) \<Rightarrow>
        case map_find CompareIgnoringCase h unique_handles of
          Some first \<Rightarrow>
            let policy_errors = add_extended_error
                  (of_vector_parameter Param_keyset_tech_rem idx Reason_duplicated_contact) policy_errors;
                policy_errors =
                  (if has_extended_error_with_param_index_reason policy_errors
                        Param_keyset_tech_rem first Reason_technical_contact_not_registered
                   then add_extended_error
                     (of_vector_parameter Param_keyset_tech_rem idx Reason_technical_contact_not_registered)
                     policy_errors
                   else policy_errors)
            in returnE (unique_handles, policy_errors, False)
        | None \<Rightarrow>
            let unique_handles = map_insert CompareIgnoringCase h idx unique_handles in
            if set_count CompareIgnoringCase current_tech_contacts h = 0
            then returnE (unique_handles,
              add_extended_error
                (of_vector_parameter Param_keyset_tech_rem idx Reason_technical_contact_not_registered)
                policy_errors,
              False)
            else returnE (unique_handles, policy_errors, check_result))"

text \<open>\<^verbatim>\<open>const unsigned short n = size + size - size\<close>: 64-bit arithmetic, cut to 16 bits.\<close>

definition resulting_number :: "nat \<Rightarrow> nat \<Rightarrow> nat \<Rightarrow> u16" where
  "resulting_number current added removed = word_of_int (int current + int added - int removed)"

definition update_check_tech_contacts ::
  "('db, 'x) libfred_keyset_scheme \<Rightarrow> string list \<Rightarrow> string list \<Rightarrow> InfoKeysetData \<Rightarrow>
     EppResultFailure \<Rightarrow> ('db, exn, bool \<times> EppResultFailure) op" where
  "update_check_tech_contacts L add rem keyset_data policy_errors =
     (if add = [] \<and> rem = [] then returnE (True, policy_errors)
      else
        let (policy_errors, check_result) =
              (if max_number_of_tech_contacts < length add
               then (add_extended_error (of_scalar_parameter Param_keyset_tech_add Reason_techadmin_limit)
                       policy_errors, False)
               else (policy_errors, True));
            current_tech_contacts = get_handles_of_tech_contacts (ks_tech_contacts keyset_data);
            (policy_errors, check_result) =
              (if length current_tech_contacts < length rem
               then (add_extended_error (of_scalar_parameter Param_keyset_tech_rem Reason_can_not_remove_tech)
                       policy_errors, False)
               else (policy_errors, check_result))
        in if \<not> check_result then returnE (False, policy_errors)
        else
          bindE (for_vector (tech_contacts_add_step L current_tech_contacts) add 0
                   ([], policy_errors, check_result))
            (\<lambda>(_, policy_errors, check_result).
          bindE (for_vector (tech_contacts_rem_step current_tech_contacts) rem 0
                   ([], policy_errors, check_result))
            (\<lambda>(_, policy_errors, check_result).
          if \<not> check_result then returnE (False, policy_errors)
          else
            let number_of_tech_contacts =
                  resulting_number (length current_tech_contacts) (length add) (length rem) in
            if unat number_of_tech_contacts < min_number_of_tech_contacts
            then returnE (False,
              add_extended_error (of_scalar_parameter Param_keyset_tech Reason_techadmin_limit) policy_errors)
            else if max_number_of_tech_contacts < unat number_of_tech_contacts
            then returnE (False,
              add_extended_error (of_scalar_parameter Param_keyset_tech Reason_techadmin_limit) policy_errors)
            else returnE (True, policy_errors))))"

section \<open>DS records and DNS keys to add and to remove\<close>

definition update_check_ds_records ::
  "DsRecord list \<Rightarrow> DsRecord list \<Rightarrow> EppResultFailure \<Rightarrow> bool \<times> EppResultFailure" where
  "update_check_ds_records add rem policy_errors =
     (if add = [] \<and> rem = [] then (True, policy_errors)
      else (False,
        add_extended_error (of_scalar_parameter Param_keyset_dsrecord Reason_dsrecord_limit)
          policy_errors))"

definition get_dns_keys :: "FredDnsKey list \<Rightarrow> DnsKey list" where
  "get_dns_keys keys = fold (\<lambda>k. set_insert dns_key_less (dns_key_of_fred k)) keys []"

definition dns_keys_add_step ::
  "('db, 'x) libfred_keyset_scheme \<Rightarrow> DnsKey list \<Rightarrow> DnsKey \<Rightarrow> u16 \<Rightarrow>
     (u16 \<rightharpoonup> bool) \<times> (DnsKey \<times> u16) list \<times> EppResultFailure \<times> bool \<Rightarrow>
     ('db, exn, (u16 \<rightharpoonup> bool) \<times> (DnsKey \<times> u16) list \<times> EppResultFailure \<times> bool) op" where
  "dns_keys_add_step L current_dns_keys k idx acc =
     (case acc of (alg_validator, unique_dns_keys, policy_errors, check_result) \<Rightarrow>
        case map_find dns_key_less k unique_dns_keys of
          Some first \<Rightarrow>
            let policy_errors = add_extended_error
                  (of_vector_parameter Param_keyset_dnskey_add idx Reason_duplicated_dnskey) policy_errors;
                (_, policy_errors) = copy_error Param_keyset_dnskey_add Reason_dnskey_exist first idx policy_errors;
                (_, policy_errors) = copy_error Param_keyset_dnskey_add Reason_dnskey_bad_flags first idx policy_errors;
                (_, policy_errors) = copy_error Param_keyset_dnskey_add Reason_dnskey_bad_protocol first idx policy_errors;
                (_, policy_errors) = copy_error Param_keyset_dnskey_add Reason_dnskey_bad_alg first idx policy_errors;
                (_, policy_errors) = copy_error Param_keyset_dnskey_add Reason_dnskey_bad_key_char first idx policy_errors;
                (_, policy_errors) = copy_error Param_keyset_dnskey_add Reason_dnskey_bad_key_len first idx policy_errors
            in returnE (alg_validator, unique_dns_keys, policy_errors, False)
        | None \<Rightarrow>
            let unique_dns_keys = map_insert dns_key_less k idx unique_dns_keys in
            if 0 < set_count dns_key_less current_dns_keys k
            then returnE (alg_validator, unique_dns_keys,
              add_extended_error (of_vector_parameter Param_keyset_dnskey_add idx Reason_dnskey_exist)
                policy_errors,
              False)
            else
              bindE (check_new_dns_key L Param_keyset_dnskey_add k idx alg_validator policy_errors check_result)
                (\<lambda>(alg_validator, policy_errors, check_result).
                  returnE (alg_validator, unique_dns_keys, policy_errors, check_result)))"

definition dns_keys_rem_step ::
  "DnsKey list \<Rightarrow> DnsKey \<Rightarrow> u16 \<Rightarrow> (DnsKey \<times> u16) list \<times> EppResultFailure \<times> bool \<Rightarrow>
     ('db, exn, (DnsKey \<times> u16) list \<times> EppResultFailure \<times> bool) op" where
  "dns_keys_rem_step current_dns_keys k idx acc =
     (case acc of (unique_dns_keys, policy_errors, check_result) \<Rightarrow>
        case map_find dns_key_less k unique_dns_keys of
          Some first \<Rightarrow>
            let policy_errors = add_extended_error
                  (of_vector_parameter Param_keyset_dnskey_rem idx Reason_duplicated_dnskey) policy_errors;
                (_, policy_errors) = copy_error Param_keyset_dnskey_rem Reason_dnskey_notexist first idx policy_errors
            in returnE (unique_dns_keys, policy_errors, False)
        | None \<Rightarrow>
            let unique_dns_keys = map_insert dns_key_less k idx unique_dns_keys in
            if set_count dns_key_less current_dns_keys k = 0
            then returnE (unique_dns_keys,
              add_extended_error (of_vector_parameter Param_keyset_dnskey_rem idx Reason_dnskey_notexist)
                policy_errors,
              False)
            else returnE (unique_dns_keys, policy_errors, check_result))"

definition update_check_dns_keys ::
  "('db, 'x) libfred_keyset_scheme \<Rightarrow> DnsKey list \<Rightarrow> DnsKey list \<Rightarrow> InfoKeysetData \<Rightarrow>
     EppResultFailure \<Rightarrow> ('db, exn, bool \<times> EppResultFailure) op" where
  "update_check_dns_keys L add rem keyset_data policy_errors =
     (if add = [] \<and> rem = [] then returnE (True, policy_errors)
      else
        let (policy_errors, check_result) =
              (if max_number_of_dns_keys < length add
               then (add_extended_error (of_scalar_parameter Param_keyset_dnskey Reason_dnskey_limit)
                       policy_errors, False)
               else (policy_errors, True));
            current_dns_keys = get_dns_keys (ks_dns_keys keyset_data);
            (policy_errors, check_result) =
              (if length current_dns_keys < length rem
               then (add_extended_error (of_scalar_parameter Param_keyset_dnskey Reason_no_dnskey_dsrecord)
                       policy_errors, False)
               else (policy_errors, check_result))
        in if \<not> check_result then returnE (False, policy_errors)
        else
          bindE (for_vector (dns_keys_add_step L current_dns_keys) add 0
                   (Map.empty, [], policy_errors, check_result))
            (\<lambda>(_, _, policy_errors, check_result).
          bindE (for_vector (dns_keys_rem_step current_dns_keys) rem 0
                   ([], policy_errors, check_result))
            (\<lambda>(_, policy_errors, check_result).
          if \<not> check_result then returnE (False, policy_errors)
          else if length current_dns_keys + length add < length rem
          then returnE (False,
            add_extended_error (of_scalar_parameter Param_keyset_dnskey Reason_no_dnskey_dsrecord) policy_errors)
          else
            let number_of_dns_keys =
                  resulting_number (length current_dns_keys) (length add) (length rem) in
            if unat number_of_dns_keys < min_number_of_dns_keys
            then returnE (False,
              add_extended_error (of_scalar_parameter Param_keyset_dnskey Reason_no_dnskey_dsrecord) policy_errors)
            else if max_number_of_dns_keys < unat number_of_dns_keys
            then returnE (False,
              add_extended_error (of_scalar_parameter Param_keyset_dnskey Reason_dnskey_limit) policy_errors)
            else returnE (True, policy_errors))))"

section \<open>The failure to throw\<close>

text \<open>
  The errors are selected group by group into the same failure, which is thrown as soon as it is
  not empty. When no group throws, the command goes on.
\<close>

fun throw_groups ::
  "EppResultFailure \<Rightarrow> (Param \<times> Reason) list list \<Rightarrow> EppResultFailure \<Rightarrow> ('db, exn, unit) op" where
  "throw_groups policy_errors [] to_throw = returnE ()"
| "throw_groups policy_errors (g # gs) to_throw =
     (let to_throw = select_errors policy_errors g to_throw in
      throw_if (\<not> failure_empty to_throw) (epp_failure to_throw)
        (throw_groups policy_errors gs to_throw))"

definition update_error_groups :: "(Param \<times> Reason) list list" where
  "update_error_groups =
     [[(Param_keyset_tech_add, Reason_technical_contact_not_registered),
       (Param_keyset_tech_add, Reason_duplicated_contact),
       (Param_keyset_tech_add, Reason_technical_contact_already_assigned)],
      [(Param_keyset_tech_rem, Reason_technical_contact_not_registered),
       (Param_keyset_tech_rem, Reason_duplicated_contact)],
      [(Param_keyset_dnskey_add, Reason_duplicated_dnskey)],
      [(Param_keyset_dnskey_add, Reason_dnskey_bad_flags)],
      [(Param_keyset_dnskey_add, Reason_dnskey_bad_protocol)],
      [(Param_keyset_dnskey_add, Reason_dnskey_bad_alg)],
      [(Param_keyset_dnskey_add, Reason_dnskey_bad_key_char)],
      [(Param_keyset_dnskey_add, Reason_dnskey_bad_key_len)],
      [(Param_keyset_dnskey_add, Reason_dnskey_exist)],
      [(Param_keyset_dnskey_rem, Reason_duplicated_dnskey)],
      [(Param_keyset_dnskey_rem, Reason_dnskey_notexist)],
      [(Param_keyset_dnskey, Reason_no_dnskey_dsrecord)],
      [(Param_keyset_tech_rem, Reason_can_not_remove_tech)]]"

definition throw_update_errors :: "EppResultFailure \<Rightarrow> ('db, exn, unit) op" where
  "throw_update_errors policy_errors =
     whenE (\<not> failure_empty policy_errors)
       (throw_if (limit_exceeded policy_errors) (fail_with parameter_value_policy_error)
         (throw_groups policy_errors update_error_groups
           (result_failure parameter_value_policy_error)))"

section \<open>The command\<close>

definition update_keyset ::
  "('db, 'x) libfred_keyset_scheme \<Rightarrow> UpdateKeysetInputData \<Rightarrow> SessionData \<Rightarrow>
     ('db, exn, UpdateKeysetResult) op" where
  "update_keyset L data session =
     with_session session (
     bindE (update_check_keyset_handle L (upd_keyset_handle data) (registrar_id session))
       (\<lambda>(keyset_data, session_registrar_handle).
     let is_sponsoring_registrar =
           (ks_sponsoring_registrar_handle keyset_data = session_registrar_handle);
         policy_errors = result_failure parameter_value_policy_error in
     bindE (update_check_tech_contacts L (tech_contacts_add data) (tech_contacts_rem data)
              keyset_data policy_errors) (\<lambda>(_, policy_errors).
     let (_, policy_errors) =
           update_check_ds_records (ds_records_add data) (ds_records_rem data) policy_errors in
     bindE (update_check_dns_keys L (dns_keys_add data) (dns_keys_rem data)
              keyset_data policy_errors) (\<lambda>(_, policy_errors).
     bindE (throw_update_errors policy_errors) (\<lambda>_.
     catchE
       (bindE (UpdateKeyset L (upd_keyset_handle data) session_registrar_handle
                 (upd_authinfopw data) (tech_contacts_add data) (tech_contacts_rem data)
                 (to_fred (dns_keys_add data)) (to_fred (dns_keys_rem data)) (logd_request_id session))
          (\<lambda>new_history_id.
        bindE (whenE (tech_contacts_rem data \<noteq> [])
          (bindE (InfoKeysetByHandle L False (upd_keyset_handle data)) (\<lambda>keyset_data.
             throw_if (length (ks_tech_contacts keyset_data) < min_number_of_tech_contacts)
               (epp_failure (add_extended_error
                  (of_scalar_parameter Param_keyset_tech_rem Reason_can_not_remove_tech)
                  (result_failure parameter_value_policy_error)))
               (returnE ())))) (\<lambda>_.
        bindE (whenE (\<not> is_sponsoring_registrar)
          (CreatePollMessage L update_keyset_message new_history_id)) (\<lambda>_.
        returnE \<lparr>updated_id = ks_id keyset_data, update_history_id = new_history_id\<rparr>))))
       throwE)))))"

interpretation update_keyset: session_guarded "update_keyset L data" for L data
  by unfold_locales (simp add: update_keyset_def with_session_refuses)

end
