(* ===== verification/Keyset_Update_Spec.thy ===== *)
theory Keyset_Update_Spec
  imports Keyset_Update
begin

text \<open>
  What \<^verbatim>\<open>update_keyset\<close> decides: when its checks of contacts and keys pass, which errors they
  report, and which failure the command throws.
\<close>

section \<open>Contacts\<close>

definition current_handles :: "InfoKeysetData \<Rightarrow> (string \<times> nat) set" where
  "current_handles d = ignore_case_key ` set (ks_tech_contacts d)"

lemma current_handles_count:
  "0 < set_count CompareIgnoringCase (get_handles_of_tech_contacts (ks_tech_contacts d)) h \<longleftrightarrow>
     ignore_case_key h \<in> current_handles d"
  unfolding get_handles_of_tech_contacts_def current_handles_def
  by (rule ignoring_case.fold_insert_count)

lemma current_handles_size:
  "length (get_handles_of_tech_contacts (ks_tech_contacts d)) = card (current_handles d)"
  unfolding get_handles_of_tech_contacts_def current_handles_def
  by (rule ignoring_case.fold_insert_length)

definition tech_add_reasons :: "(string \<Rightarrow> Registrability) \<Rightarrow> InfoKeysetData \<Rightarrow> string \<Rightarrow> Reason list" where
  "tech_add_reasons contacts d h =
     (if ignore_case_key h \<in> current_handles d then [Reason_technical_contact_already_assigned]
      else contact_reasons contacts h)"

definition tech_rem_reasons :: "InfoKeysetData \<Rightarrow> string \<Rightarrow> Reason list" where
  "tech_rem_reasons d h =
     (if ignore_case_key h \<in> current_handles d then []
      else [Reason_technical_contact_not_registered])"

abbreviation tech_add_dup :: "u16 \<Rightarrow> EppExtendedError" where
  "tech_add_dup i \<equiv> of_vector_parameter Param_keyset_tech_add i Reason_duplicated_contact"

abbreviation tech_rem_dup :: "u16 \<Rightarrow> EppExtendedError" where
  "tech_rem_dup i \<equiv> of_vector_parameter Param_keyset_tech_rem i Reason_duplicated_contact"

lemma tech_add_scan:
  assumes "\<And>h. reads (Contact_get_handle_registrability L h) db (contacts h)"
  shows "unique_scan CompareIgnoringCase ignore_case_key
    (tech_contacts_add_step L (get_handles_of_tech_contacts (ks_tech_contacts d))) db (\<lambda>_. True)
    fst (\<lambda>a. fst (snd a)) (\<lambda>a. snd (snd a)) Param_keyset_tech_add tech_add_dup
    [Reason_technical_contact_not_registered, Reason_technical_contact_already_assigned]
    (tech_add_reasons contacts d)"
proof unfold_locales
  let ?step = "tech_contacts_add_step L (get_handles_of_tech_contacts (ks_tech_contacts d))"
  fix a :: "(string \<times> u16) list \<times> EppResultFailure \<times> bool" and x i i0
  obtain m f b where a: "a = (m, f, b)" by (cases a)
  show "\<exists>a'. ?step x i a db = (Inr a', db) \<and> True \<and> fst a' = fst a \<and>
      fst (snd a') = copy_reasons Param_keyset_tech_add i0 i
        [Reason_technical_contact_not_registered, Reason_technical_contact_already_assigned]
        (add_extended_error (tech_add_dup i) (fst (snd a))) \<and> \<not> snd (snd a')"
    if "map_find CompareIgnoringCase x (fst a) = Some i0" "i0 \<noteq> i"
    using that by (simp add: a tech_contacts_add_step_def op_simps copy_reasons_def Let_def)
  show "\<exists>a'. ?step x i a db = (Inr a', db) \<and> True \<and>
      fst a' = map_insert CompareIgnoringCase x i (fst a) \<and>
      fst (snd a') = add_reasons Param_keyset_tech_add i (tech_add_reasons contacts d x) (fst (snd a)) \<and>
      snd (snd a') = (snd (snd a) \<and> tech_add_reasons contacts d x = [])"
    if "map_find CompareIgnoringCase x (fst a) = None"
    using that assms [of x] current_handles_count [of d x]
    by (simp add: a tech_contacts_add_step_def op_simps add_reasons_def tech_add_reasons_def
        contact_reasons_def Let_def split: Registrability.split)
qed (auto simp: tech_add_reasons_def contact_reasons_def)

interpretation tech_rem: unique_scan CompareIgnoringCase ignore_case_key
    "tech_contacts_rem_step (get_handles_of_tech_contacts (ks_tech_contacts d))" db "\<lambda>_. True"
    fst "\<lambda>a. fst (snd a)" "\<lambda>a. snd (snd a)" Param_keyset_tech_rem tech_rem_dup
    "[Reason_technical_contact_not_registered]" "tech_rem_reasons d" for d db
proof unfold_locales
  let ?step = "tech_contacts_rem_step (get_handles_of_tech_contacts (ks_tech_contacts d))"
  fix a :: "(string \<times> u16) list \<times> EppResultFailure \<times> bool" and x i i0
  obtain m f b where a: "a = (m, f, b)" by (cases a)
  show "\<exists>a'. ?step x i a db = (Inr a', db) \<and> True \<and> fst a' = fst a \<and>
      fst (snd a') = copy_reasons Param_keyset_tech_rem i0 i [Reason_technical_contact_not_registered]
        (add_extended_error (tech_rem_dup i) (fst (snd a))) \<and> \<not> snd (snd a')"
    if "map_find CompareIgnoringCase x (fst a) = Some i0" "i0 \<noteq> i"
    using that by (simp add: a tech_contacts_rem_step_def op_simps copy_reasons_def Let_def)
  show "\<exists>a'. ?step x i a db = (Inr a', db) \<and> True \<and>
      fst a' = map_insert CompareIgnoringCase x i (fst a) \<and>
      fst (snd a') = add_reasons Param_keyset_tech_rem i (tech_rem_reasons d x) (fst (snd a)) \<and>
      snd (snd a') = (snd (snd a) \<and> tech_rem_reasons d x = [])"
    if "map_find CompareIgnoringCase x (fst a) = None"
    using that current_handles_count [of d x]
    by (auto simp: a tech_contacts_rem_step_def op_simps add_reasons_def tech_rem_reasons_def Let_def)
qed (auto simp: tech_rem_reasons_def)

lemma unat_resulting_number:
  "r \<le> c + a \<Longrightarrow> unat (resulting_number c a r) = (c + a - r) mod 65536"
proof -
  assume "r \<le> c + a"
  then have "int c + int a - int r = int (c + a - r)" by simp
  then have "resulting_number c a r = word_of_nat (c + a - r)"
    unfolding resulting_number_def by (metis of_int_of_nat_eq)
  then show ?thesis by (simp add: unat_of_nat)
qed

text \<open>
  The requirements on contacts to add and to remove, for a keyset \<open>d\<close>: the vectors are not too
  long, every contact to add is registered, not assigned and not repeated, every contact to
  remove is assigned and not repeated, and the resulting number is in the limits (the number is
  computed in 16 bits).
\<close>

definition tech_vectors_short :: "InfoKeysetData \<Rightarrow> string list \<Rightarrow> string list \<Rightarrow> bool" where
  "tech_vectors_short d add rem \<longleftrightarrow> length add \<le> 10 \<and> length rem \<le> card (current_handles d)"

definition tech_members_ok ::
  "(string \<Rightarrow> Registrability) \<Rightarrow> InfoKeysetData \<Rightarrow> string list \<Rightarrow> string list \<Rightarrow> bool" where
  "tech_members_ok contacts d add rem \<longleftrightarrow>
     distinct (map ignore_case_key add) \<and>
     (\<forall>h \<in> set add. ignore_case_key h \<notin> current_handles d \<and> contacts h = registered) \<and>
     distinct (map ignore_case_key rem) \<and> (\<forall>h \<in> set rem. ignore_case_key h \<in> current_handles d)"

definition number_in_limits :: "nat \<Rightarrow> nat \<Rightarrow> nat \<Rightarrow> bool" where
  "number_in_limits c a r \<longleftrightarrow> (c + a - r) mod 65536 \<in> {1..10}"

definition tech_update_ok ::
  "(string \<Rightarrow> Registrability) \<Rightarrow> InfoKeysetData \<Rightarrow> string list \<Rightarrow> string list \<Rightarrow> bool" where
  "tech_update_ok contacts d add rem \<longleftrightarrow>
     add = [] \<and> rem = [] \<or>
     tech_vectors_short d add rem \<and> tech_members_ok contacts d add rem \<and>
     number_in_limits (card (current_handles d)) (length add) (length rem)"

definition tech_add_errors ::
  "(string \<Rightarrow> Registrability) \<Rightarrow> InfoKeysetData \<Rightarrow> string list \<Rightarrow> string list \<Rightarrow> EppExtendedError set" where
  "tech_add_errors contacts d add rem =
     (if tech_vectors_short d add rem
      then scan_errors ignore_case_key Param_keyset_tech_add tech_add_dup (tech_add_reasons contacts d) add
      else {})"

lemma tech_members_scan:
  "tech_members_ok contacts d add rem \<longleftrightarrow>
     scan_ok ignore_case_key (tech_add_reasons contacts d) add \<and>
     scan_ok ignore_case_key (tech_rem_reasons d) rem"
  by (auto simp: tech_members_ok_def scan_ok_def tech_add_reasons_def tech_rem_reasons_def
      contact_reasons_def split: if_splits)

lemma tech_limits:
  "tech_vectors_short d add rem \<Longrightarrow>
   (unat (resulting_number (card (current_handles d)) (length add) (length rem)) < min_number_of_tech_contacts \<or>
    max_number_of_tech_contacts < unat (resulting_number (card (current_handles d)) (length add) (length rem)))
   \<longleftrightarrow> \<not> number_in_limits (card (current_handles d)) (length add) (length rem)"
  by (subst (1 2) unat_resulting_number)
    (auto simp: tech_vectors_short_def number_in_limits_def keyset_limits)

section \<open>The loops over contacts\<close>

text \<open>
  What a step of the checks does to the collected errors: it adds the errors \<open>X\<close>, keeps the
  result code, and leaves the collection empty exactly when it was empty and \<open>fine\<close> holds.
\<close>

definition adds :: "EppExtendedError set \<Rightarrow> bool \<Rightarrow> EppResultFailure \<Rightarrow> EppResultFailure \<Rightarrow> bool" where
  "adds X fine f f' \<longleftrightarrow>
     errors_of f' = errors_of f \<union> X \<and> epp_result_code f' = epp_result_code f \<and>
     (failure_empty f' \<longleftrightarrow> failure_empty f \<and> fine)"

lemma adds_refl: "adds {} True f f"
  by (simp add: adds_def)

lemma adds_error: "adds {e} False f (add_extended_error e f)"
  by (simp add: adds_def)

lemma adds_trans: "adds X b f g \<Longrightarrow> adds Y c g h \<Longrightarrow> adds (X \<union> Y) (b \<and> c) f h"
  by (auto simp: adds_def)

lemma tech_loops:
  assumes q: "\<And>h. reads (Contact_get_handle_registrability L h) db (contacts h)"
    and clean: "\<And>e. e \<in> errors_of f \<Longrightarrow> err_param e \<notin> {Param_keyset_tech_add, Param_keyset_tech_rem}"
    and len: "length add < 2 ^ 16" "length rem < 2 ^ 16"
  obtains u v f1 f2 where
    "for_vector (tech_contacts_add_step L (get_handles_of_tech_contacts (ks_tech_contacts d))) add 0
       ([], f, True) db = (Inr (u, f1, scan_ok ignore_case_key (tech_add_reasons contacts d) add), db)"
    "for_vector (tech_contacts_rem_step (get_handles_of_tech_contacts (ks_tech_contacts d))) rem 0
       ([], f1, scan_ok ignore_case_key (tech_add_reasons contacts d) add) db =
       (Inr (v, f2, tech_members_ok contacts d add rem), db)"
    "adds (scan_errors ignore_case_key Param_keyset_tech_add tech_add_dup (tech_add_reasons contacts d) add \<union>
           scan_errors ignore_case_key Param_keyset_tech_rem tech_rem_dup (tech_rem_reasons d) rem)
       (tech_members_ok contacts d add rem) f f2"
proof -
  note scan = tech_add_scan [OF q, of d]
  let ?A = "scan_errors ignore_case_key Param_keyset_tech_add tech_add_dup (tech_add_reasons contacts d) add"
  obtain u f1 where r1: "for_vector (tech_contacts_add_step L (get_handles_of_tech_contacts (ks_tech_contacts d)))
      add 0 ([], f, True) db = (Inr (u, f1, scan_ok ignore_case_key (tech_add_reasons contacts d) add), db)"
      and a1: "adds ?A (scan_ok ignore_case_key (tech_add_reasons contacts d) add) f f1"
    using unique_scan.result [OF scan, of "([], f, True)" add] unique_scan.untouchedI [OF scan, of f] clean len(1)
    unfolding adds_def by force
  have "err_param e \<noteq> Param_keyset_tech_rem" if "e \<in> errors_of f1" for e
    using that a1 clean [of e] unique_scan.scan_errors_param(1) [OF scan, of Reason_techadmin_limit e add]
    by (auto simp: adds_def)
  then have "tech_rem.untouched f1" by (rule tech_rem.untouchedI)
  then obtain v f2 where r2: "for_vector (tech_contacts_rem_step (get_handles_of_tech_contacts (ks_tech_contacts d)))
      rem 0 ([], f1, scan_ok ignore_case_key (tech_add_reasons contacts d) add) db =
      (Inr (v, f2, tech_members_ok contacts d add rem), db)"
      and a2: "adds (scan_errors ignore_case_key Param_keyset_tech_rem tech_rem_dup (tech_rem_reasons d) rem)
        (scan_ok ignore_case_key (tech_rem_reasons d) rem) f1 f2"
    using tech_rem.result [of "([], f1, scan_ok ignore_case_key (tech_add_reasons contacts d) add)" rem d db] len(2)
    unfolding adds_def tech_members_scan by force
  from r1 r2 adds_trans [OF a1 a2] show ?thesis
    by (intro that) (simp_all add: tech_members_scan)
qed

definition tech_add_pairs :: "(Param \<times> Reason) set" where
  "tech_add_pairs = {Param_keyset_tech_add} \<times>
     {Reason_technical_contact_not_registered, Reason_duplicated_contact,
      Reason_technical_contact_already_assigned}"

lemma scan_errors_pair:
  assumes "e \<in> scan_errors key p dup R ys"
  shows "(\<exists>i. e = dup i) \<or> (\<exists>i y r. y \<in> set ys \<and> r \<in> set (R y) \<and> e = of_vector_parameter p i r)"
proof -
  from assms obtain i j where "first_pos (key (ys ! i)) (map key ys) = Some j"
      and e: "e = dup (word_of_nat i) \<or> (\<exists>r \<in> set (R (ys ! j)). e = of_vector_parameter p (word_of_nat i) r)"
    by (auto simp: scan_errors_def scan_at_def split: option.splits if_splits)
  then have "j < length ys" using first_pos_Some [of "key (ys ! i)" "map key ys" j] by simp
  with e show ?thesis by (metis nth_mem)
qed

lemma tech_add_errors_pairs:
  "e \<in> scan_errors ignore_case_key Param_keyset_tech_add tech_add_dup (tech_add_reasons contacts d) add \<Longrightarrow>
   (err_param e, err_reason e) \<in> tech_add_pairs"
  by (auto dest!: scan_errors_pair simp: tech_add_pairs_def tech_add_reasons_def contact_reasons_def
      split: if_splits)

lemma tech_rem_errors_pairs:
  "e \<in> scan_errors ignore_case_key Param_keyset_tech_rem tech_rem_dup (tech_rem_reasons d) rem \<Longrightarrow>
   err_param e = Param_keyset_tech_rem"
  by (auto dest!: scan_errors_pair)

definition tech_number_wrong ::
  "(string \<Rightarrow> Registrability) \<Rightarrow> InfoKeysetData \<Rightarrow> string list \<Rightarrow> string list \<Rightarrow> bool" where
  "tech_number_wrong contacts d add rem \<longleftrightarrow>
     (add \<noteq> [] \<or> rem \<noteq> []) \<and> tech_vectors_short d add rem \<and> tech_members_ok contacts d add rem \<and>
     \<not> number_in_limits (card (current_handles d)) (length add) (length rem)"

text \<open>The errors \<open>X\<close> that the check of the contacts reports.\<close>

definition tech_report ::
  "(string \<Rightarrow> Registrability) \<Rightarrow> InfoKeysetData \<Rightarrow> string list \<Rightarrow> string list \<Rightarrow> EppExtendedError set \<Rightarrow> bool" where
  "tech_report contacts d add rem X \<longleftrightarrow>
     (\<forall>e \<in> X. err_param e \<in> {Param_keyset_tech, Param_keyset_tech_add, Param_keyset_tech_rem}) \<and>
     (of_scalar_parameter Param_keyset_tech Reason_techadmin_limit \<in> X \<longleftrightarrow>
        tech_number_wrong contacts d add rem) \<and>
     {e \<in> X. (err_param e, err_reason e) \<in> tech_add_pairs} = tech_add_errors contacts d add rem"

lemma update_check_tech_contacts_run:
  assumes q: "\<And>h. reads (Contact_get_handle_registrability L h) db (contacts h)"
    and clean: "\<And>e. e \<in> errors_of f \<Longrightarrow> err_param e \<notin> {Param_keyset_tech_add, Param_keyset_tech_rem}"
    and len: "length rem < 2 ^ 16"
  shows "\<exists>f' X. update_check_tech_contacts L add rem d f db =
      (Inr (tech_update_ok contacts d add rem, f'), db) \<and>
    adds X (tech_update_ok contacts d add rem) f f' \<and> tech_report contacts d add rem X"
proof -
  consider (nothing) "add = [] \<and> rem = []"
    | (long) "\<not> (add = [] \<and> rem = [])" "\<not> tech_vectors_short d add rem"
    | (short) "\<not> (add = [] \<and> rem = [])" "tech_vectors_short d add rem"
    by blast
  then show ?thesis
  proof cases
    case nothing
    then have e: "add = []" "rem = []" by simp_all
    have "tech_report contacts d [] [] {}"
      by (simp add: tech_report_def tech_number_wrong_def tech_add_errors_def scan_errors_def)
    with e adds_refl show ?thesis
      by (auto simp: update_check_tech_contacts_def op_simps tech_update_ok_def)
  next
    case long
    let ?a = "of_scalar_parameter Param_keyset_tech_add Reason_techadmin_limit"
    let ?r = "of_scalar_parameter Param_keyset_tech_rem Reason_can_not_remove_tech"
    let ?X = "(if 10 < length add then {?a} else {}) \<union>
      (if card (current_handles d) < length rem then {?r} else {})"
    have rep: "tech_report contacts d add rem ?X"
      using long(2) by (auto simp: tech_report_def tech_number_wrong_def tech_add_errors_def tech_add_pairs_def)
    define f' where "f' = (let g = (if 10 < length add then add_extended_error ?a f else f)
      in if card (current_handles d) < length rem then add_extended_error ?r g else g)"
    have "adds ?X False f f'"
      using long(2) by (auto simp: f'_def adds_def tech_vectors_short_def Let_def)
    moreover have "\<not> tech_update_ok contacts d add rem"
      using long by (auto simp: tech_update_ok_def)
    moreover have "update_check_tech_contacts L add rem d f db = (Inr (False, f'), db)"
      using long by (auto simp: update_check_tech_contacts_def op_simps current_handles_size keyset_limits
          tech_vectors_short_def f'_def Let_def)
    ultimately show ?thesis using rep by auto
  next
    case short
    have la: "length add < 2 ^ 16" using short(2) by (simp add: tech_vectors_short_def)
    let ?A = "scan_errors ignore_case_key Param_keyset_tech_add tech_add_dup (tech_add_reasons contacts d) add"
    let ?B = "scan_errors ignore_case_key Param_keyset_tech_rem tech_rem_dup (tech_rem_reasons d) rem"
    let ?l = "of_scalar_parameter Param_keyset_tech Reason_techadmin_limit"
    let ?wrong = "tech_number_wrong contacts d add rem"
    obtain u v f1 f2 where r: "for_vector (tech_contacts_add_step L (get_handles_of_tech_contacts (ks_tech_contacts d))) add 0
         ([], f, True) db = (Inr (u, f1, scan_ok ignore_case_key (tech_add_reasons contacts d) add), db)"
       "for_vector (tech_contacts_rem_step (get_handles_of_tech_contacts (ks_tech_contacts d))) rem 0
         ([], f1, scan_ok ignore_case_key (tech_add_reasons contacts d) add) db =
         (Inr (v, f2, tech_members_ok contacts d add rem), db)"
       and a: "adds (?A \<union> ?B) (tech_members_ok contacts d add rem) f f2"
      using tech_loops [OF q clean la len] by metis
    define f' where "f' = (if ?wrong then add_extended_error ?l f2 else f2)"
    let ?X = "?A \<union> ?B \<union> (if ?wrong then {?l} else {})"
    have "adds ?X (tech_update_ok contacts d add rem) f f'"
      using a short by (auto simp: f'_def adds_def tech_update_ok_def tech_number_wrong_def)
    moreover have "tech_report contacts d add rem ?X"
      using short(2) unfolding tech_report_def tech_add_errors_def
      by (auto dest: tech_add_errors_pairs tech_rem_errors_pairs simp: tech_add_pairs_def)
    moreover have "update_check_tech_contacts L add rem d f db =
        (Inr (tech_update_ok contacts d add rem, f'), db)"
      using short r tech_limits [OF short(2)]
      by (auto simp: update_check_tech_contacts_def op_simps current_handles_size tech_vectors_short_def
          keyset_limits f'_def tech_number_wrong_def tech_update_ok_def Let_def)
    ultimately show ?thesis by blast
  qed
qed

section \<open>Keys\<close>

definition current_keys :: "InfoKeysetData \<Rightarrow> DnsKey set" where
  "current_keys d = dns_key_of_fred ` set (ks_dns_keys d)"

lemma get_dns_keys_fold:
  "get_dns_keys ks = fold (set_insert dns_key_less) (map dns_key_of_fred ks) []"
  by (simp add: get_dns_keys_def fold_map comp_def)

lemma current_keys_count:
  "0 < set_count dns_key_less (get_dns_keys (ks_dns_keys d)) k \<longleftrightarrow> k \<in> current_keys d"
  unfolding get_dns_keys_fold dns_key.fold_insert_count current_keys_def
  by (auto simp: image_iff)

lemma current_keys_size: "length (get_dns_keys (ks_dns_keys d)) = card (current_keys d)"
proof -
  have "inj dns_key_fields" by (simp add: inj_def)
  then have "card (dns_key_fields ` X) = card X" for X
    by (intro card_image) (auto intro: inj_on_subset)
  then show ?thesis
    unfolding get_dns_keys_fold dns_key.fold_insert_length current_keys_def by simp
qed

definition key_add_reasons :: "(u16 \<Rightarrow> AlgorithmUsability) \<Rightarrow> InfoKeysetData \<Rightarrow> DnsKey \<Rightarrow> Reason list" where
  "key_add_reasons usability d k =
     (if k \<in> current_keys d then [Reason_dnskey_exist] else key_reasons usability k)"

definition key_rem_reasons :: "InfoKeysetData \<Rightarrow> DnsKey \<Rightarrow> Reason list" where
  "key_rem_reasons d k = (if k \<in> current_keys d then [] else [Reason_dnskey_notexist])"

abbreviation key_add_dup :: "u16 \<Rightarrow> EppExtendedError" where
  "key_add_dup i \<equiv> of_vector_parameter Param_keyset_dnskey_add i Reason_duplicated_dnskey"

abbreviation key_rem_dup :: "u16 \<Rightarrow> EppExtendedError" where
  "key_rem_dup i \<equiv> of_vector_parameter Param_keyset_dnskey_rem i Reason_duplicated_dnskey"

lemma copy_error_reasons: "snd (copy_error p r i0 i f) = copy_reasons p i0 i [r] f"
  by (simp add: copy_error_def copy_reasons_def)

lemma copy_reasons_append:
  "copy_reasons p i0 i rs (copy_reasons p i0 i qs f) = copy_reasons p i0 i (qs @ rs) f"
  by (simp add: copy_reasons_def)

lemma key_add_scan:
  assumes "\<And>a. reads (get_algorithm_usability L a) db (usability a)"
  shows "unique_scan dns_key_less dns_key_fields
    (dns_keys_add_step L (get_dns_keys (ks_dns_keys d))) db
    (\<lambda>a. alg_memory_ok usability (fst a)) (\<lambda>a. fst (snd a)) (\<lambda>a. fst (snd (snd a)))
    (\<lambda>a. snd (snd (snd a))) Param_keyset_dnskey_add key_add_dup
    (Reason_dnskey_exist # copied_key_reasons) (key_add_reasons usability d)"
proof unfold_locales
  let ?step = "dns_keys_add_step L (get_dns_keys (ks_dns_keys d))"
  fix a :: "(u16 \<rightharpoonup> bool) \<times> (DnsKey \<times> u16) list \<times> EppResultFailure \<times> bool" and x i i0
  obtain m u f b where a: "a = (m, u, f, b)" by (cases a)
  assume "alg_memory_ok usability (fst a)"
  then have m: "alg_memory_ok usability m" by (simp add: a)
  show "\<exists>a'. ?step x i a db = (Inr a', db) \<and> alg_memory_ok usability (fst a') \<and>
      fst (snd a') = fst (snd a) \<and>
      fst (snd (snd a')) = copy_reasons Param_keyset_dnskey_add i0 i (Reason_dnskey_exist # copied_key_reasons)
        (add_extended_error (key_add_dup i) (fst (snd (snd a)))) \<and> \<not> snd (snd (snd a'))"
    if "map_find dns_key_less x (fst (snd a)) = Some i0" "i0 \<noteq> i"
    using that m
    by (simp add: a dns_keys_add_step_def op_simps Let_def case_prod_beta copy_error_reasons
        copy_reasons_append copied_key_reasons_def)
  show "\<exists>a'. ?step x i a db = (Inr a', db) \<and> alg_memory_ok usability (fst a') \<and>
      fst (snd a') = map_insert dns_key_less x i (fst (snd a)) \<and>
      fst (snd (snd a')) = add_reasons Param_keyset_dnskey_add i (key_add_reasons usability d x) (fst (snd (snd a))) \<and>
      snd (snd (snd a')) = (snd (snd (snd a)) \<and> key_add_reasons usability d x = [])"
    if "map_find dns_key_less x (fst (snd a)) = None"
  proof (cases "x \<in> current_keys d")
    case True
    with that m current_keys_count [of d x] show ?thesis
      by (simp add: a dns_keys_add_step_def op_simps Let_def key_add_reasons_def add_reasons_def)
  next
    case False
    with that check_new_dns_key_run [OF assms m, of Param_keyset_dnskey_add x i f b] current_keys_count [of d x]
    show ?thesis
      by (auto simp: a dns_keys_add_step_def op_simps Let_def key_add_reasons_def)
  qed
next
  fix x show "set (key_add_reasons usability d x) \<subseteq> set (Reason_dnskey_exist # copied_key_reasons)"
    using key_reasons_subset [of usability x] by (auto simp: key_add_reasons_def copied_key_reasons_def)
qed (auto simp: copied_key_reasons_def)

interpretation key_rem: unique_scan dns_key_less dns_key_fields
    "dns_keys_rem_step (get_dns_keys (ks_dns_keys d))" db "\<lambda>_. True"
    fst "\<lambda>a. fst (snd a)" "\<lambda>a. snd (snd a)" Param_keyset_dnskey_rem key_rem_dup
    "[Reason_dnskey_notexist]" "key_rem_reasons d" for d db
proof unfold_locales
  let ?step = "dns_keys_rem_step (get_dns_keys (ks_dns_keys d))"
  fix a :: "(DnsKey \<times> u16) list \<times> EppResultFailure \<times> bool" and x i i0
  obtain m f b where a: "a = (m, f, b)" by (cases a)
  show "\<exists>a'. ?step x i a db = (Inr a', db) \<and> True \<and> fst a' = fst a \<and>
      fst (snd a') = copy_reasons Param_keyset_dnskey_rem i0 i [Reason_dnskey_notexist]
        (add_extended_error (key_rem_dup i) (fst (snd a))) \<and> \<not> snd (snd a')"
    if "map_find dns_key_less x (fst a) = Some i0" "i0 \<noteq> i"
    using that by (simp add: a dns_keys_rem_step_def op_simps Let_def case_prod_beta copy_error_reasons)
  show "\<exists>a'. ?step x i a db = (Inr a', db) \<and> True \<and>
      fst a' = map_insert dns_key_less x i (fst a) \<and>
      fst (snd a') = add_reasons Param_keyset_dnskey_rem i (key_rem_reasons d x) (fst (snd a)) \<and>
      snd (snd a') = (snd (snd a) \<and> key_rem_reasons d x = [])"
    if "map_find dns_key_less x (fst a) = None"
    using that current_keys_count [of d x]
    by (auto simp: a dns_keys_rem_step_def op_simps add_reasons_def key_rem_reasons_def Let_def)
qed (auto simp: key_rem_reasons_def)

definition key_vectors_short :: "InfoKeysetData \<Rightarrow> DnsKey list \<Rightarrow> DnsKey list \<Rightarrow> bool" where
  "key_vectors_short d add rem \<longleftrightarrow> length add \<le> 10 \<and> length rem \<le> card (current_keys d)"

definition key_members_ok ::
  "(u16 \<Rightarrow> AlgorithmUsability) \<Rightarrow> InfoKeysetData \<Rightarrow> DnsKey list \<Rightarrow> DnsKey list \<Rightarrow> bool" where
  "key_members_ok usability d add rem \<longleftrightarrow>
     distinct add \<and>
     (\<forall>k \<in> set add. k \<notin> current_keys d \<and> is_flags_correct k \<and> is_protocol_correct k \<and>
        usability (get_alg k) = usable \<and> check_key k = CheckKey_ok) \<and>
     distinct rem \<and> (\<forall>k \<in> set rem. k \<in> current_keys d)"

definition key_update_ok ::
  "(u16 \<Rightarrow> AlgorithmUsability) \<Rightarrow> InfoKeysetData \<Rightarrow> DnsKey list \<Rightarrow> DnsKey list \<Rightarrow> bool" where
  "key_update_ok usability d add rem \<longleftrightarrow>
     add = [] \<and> rem = [] \<or>
     key_vectors_short d add rem \<and> key_members_ok usability d add rem \<and>
     number_in_limits (card (current_keys d)) (length add) (length rem)"

definition key_limit_exceeded ::
  "(u16 \<Rightarrow> AlgorithmUsability) \<Rightarrow> InfoKeysetData \<Rightarrow> DnsKey list \<Rightarrow> DnsKey list \<Rightarrow> bool" where
  "key_limit_exceeded usability d add rem \<longleftrightarrow>
     10 < length add \<or>
     (add \<noteq> [] \<or> rem \<noteq> []) \<and> key_vectors_short d add rem \<and> key_members_ok usability d add rem \<and>
     10 < (card (current_keys d) + length add - length rem) mod 65536"

lemma key_members_scan:
  "key_members_ok usability d add rem \<longleftrightarrow>
     scan_ok dns_key_fields (key_add_reasons usability d) add \<and>
     scan_ok dns_key_fields (key_rem_reasons d) rem"
proof -
  have "distinct (map dns_key_fields ks) \<longleftrightarrow> distinct ks" for ks
    by (auto simp: distinct_map inj_on_def)
  then show ?thesis
    by (auto simp: key_members_ok_def scan_ok_def key_add_reasons_def key_rem_reasons_def key_reasons_Nil
        split: if_splits)
qed

lemma key_loops:
  assumes q: "\<And>a. reads (get_algorithm_usability L a) db (usability a)"
    and clean: "\<And>e. e \<in> errors_of f \<Longrightarrow> err_param e \<notin> {Param_keyset_dnskey_add, Param_keyset_dnskey_rem}"
    and len: "length add < 2 ^ 16" "length rem < 2 ^ 16"
  obtains w u v f1 f2 where
    "for_vector (dns_keys_add_step L (get_dns_keys (ks_dns_keys d))) add 0
       (Map.empty, [], f, True) db =
       (Inr (w, u, f1, scan_ok dns_key_fields (key_add_reasons usability d) add), db)"
    "for_vector (dns_keys_rem_step (get_dns_keys (ks_dns_keys d))) rem 0
       ([], f1, scan_ok dns_key_fields (key_add_reasons usability d) add) db =
       (Inr (v, f2, key_members_ok usability d add rem), db)"
    "adds (scan_errors dns_key_fields Param_keyset_dnskey_add key_add_dup (key_add_reasons usability d) add \<union>
           scan_errors dns_key_fields Param_keyset_dnskey_rem key_rem_dup (key_rem_reasons d) rem)
       (key_members_ok usability d add rem) f f2"
proof -
  note scan = key_add_scan [OF q, of d]
  let ?A = "scan_errors dns_key_fields Param_keyset_dnskey_add key_add_dup (key_add_reasons usability d) add"
  obtain w u f1 where r1: "for_vector (dns_keys_add_step L (get_dns_keys (ks_dns_keys d)))
      add 0 (Map.empty, [], f, True) db =
      (Inr (w, u, f1, scan_ok dns_key_fields (key_add_reasons usability d) add), db)"
      and a1: "adds ?A (scan_ok dns_key_fields (key_add_reasons usability d) add) f f1"
    using unique_scan.result [OF scan, of "(Map.empty, [], f, True)" add]
      unique_scan.untouchedI [OF scan, of f] clean len(1)
    unfolding adds_def by force
  have "err_param e \<noteq> Param_keyset_dnskey_rem" if "e \<in> errors_of f1" for e
    using that a1 clean [of e]
    by (auto simp: adds_def dest!: scan_errors_pair)
  then have "key_rem.untouched f1" by (rule key_rem.untouchedI)
  then obtain v f2 where r2: "for_vector (dns_keys_rem_step (get_dns_keys (ks_dns_keys d)))
      rem 0 ([], f1, scan_ok dns_key_fields (key_add_reasons usability d) add) db =
      (Inr (v, f2, key_members_ok usability d add rem), db)"
      and a2: "adds (scan_errors dns_key_fields Param_keyset_dnskey_rem key_rem_dup (key_rem_reasons d) rem)
        (scan_ok dns_key_fields (key_rem_reasons d) rem) f1 f2"
    using key_rem.result [of "([], f1, scan_ok dns_key_fields (key_add_reasons usability d) add)" rem d db] len(2)
    unfolding adds_def key_members_scan by force
  from r1 r2 adds_trans [OF a1 a2] show ?thesis
    by (intro that) (simp_all add: key_members_scan)
qed

text \<open>The errors \<open>X\<close> that the check of the keys reports.\<close>

definition key_report ::
  "(u16 \<Rightarrow> AlgorithmUsability) \<Rightarrow> InfoKeysetData \<Rightarrow> DnsKey list \<Rightarrow> DnsKey list \<Rightarrow> EppExtendedError set \<Rightarrow> bool" where
  "key_report usability d add rem X \<longleftrightarrow>
     (\<forall>e \<in> X. err_param e \<in> {Param_keyset_dnskey, Param_keyset_dnskey_add, Param_keyset_dnskey_rem}) \<and>
     (of_scalar_parameter Param_keyset_dnskey Reason_dnskey_limit \<in> X \<longleftrightarrow>
        key_limit_exceeded usability d add rem)"

lemma update_check_dns_keys_run:
  assumes q: "\<And>a. reads (get_algorithm_usability L a) db (usability a)"
    and clean: "\<And>e. e \<in> errors_of f \<Longrightarrow> err_param e \<notin> {Param_keyset_dnskey_add, Param_keyset_dnskey_rem}"
    and len: "length rem < 2 ^ 16"
  shows "\<exists>f' X. update_check_dns_keys L add rem d f db =
      (Inr (key_update_ok usability d add rem, f'), db) \<and>
    adds X (key_update_ok usability d add rem) f f' \<and> key_report usability d add rem X"
proof -
  let ?l = "of_scalar_parameter Param_keyset_dnskey Reason_dnskey_limit"
  let ?n = "of_scalar_parameter Param_keyset_dnskey Reason_no_dnskey_dsrecord"
  consider (nothing) "add = [] \<and> rem = []"
    | (long) "\<not> (add = [] \<and> rem = [])" "\<not> key_vectors_short d add rem"
    | (short) "\<not> (add = [] \<and> rem = [])" "key_vectors_short d add rem"
    by blast
  then show ?thesis
  proof cases
    case nothing
    then have e: "add = []" "rem = []" by simp_all
    have "key_report usability d [] [] {}"
      by (simp add: key_report_def key_limit_exceeded_def)
    with e adds_refl show ?thesis
      by (auto simp: update_check_dns_keys_def op_simps key_update_ok_def)
  next
    case long
    let ?X = "(if 10 < length add then {?l} else {}) \<union>
      (if card (current_keys d) < length rem then {?n} else {})"
    have rep: "key_report usability d add rem ?X"
      using long(2) by (auto simp: key_report_def key_limit_exceeded_def)
    define f' where "f' = (let g = (if 10 < length add then add_extended_error ?l f else f)
      in if card (current_keys d) < length rem then add_extended_error ?n g else g)"
    have "adds ?X False f f'"
      using long(2) by (auto simp: f'_def adds_def key_vectors_short_def Let_def)
    moreover have "\<not> key_update_ok usability d add rem"
      using long by (auto simp: key_update_ok_def)
    moreover have "update_check_dns_keys L add rem d f db = (Inr (False, f'), db)"
      using long by (auto simp: update_check_dns_keys_def op_simps current_keys_size keyset_limits
          key_vectors_short_def f'_def Let_def)
    ultimately show ?thesis using rep by auto
  next
    case short
    have la: "length add < 2 ^ 16" using short(2) by (simp add: key_vectors_short_def)
    let ?A = "scan_errors dns_key_fields Param_keyset_dnskey_add key_add_dup (key_add_reasons usability d) add"
    let ?B = "scan_errors dns_key_fields Param_keyset_dnskey_rem key_rem_dup (key_rem_reasons d) rem"
    let ?m = "key_members_ok usability d add rem"
    let ?c = "(card (current_keys d) + length add - length rem) mod 65536"
    obtain w u v f1 f2 where r: "for_vector (dns_keys_add_step L (get_dns_keys (ks_dns_keys d))) add 0
         (Map.empty, [], f, True) db =
         (Inr (w, u, f1, scan_ok dns_key_fields (key_add_reasons usability d) add), db)"
       "for_vector (dns_keys_rem_step (get_dns_keys (ks_dns_keys d))) rem 0
         ([], f1, scan_ok dns_key_fields (key_add_reasons usability d) add) db = (Inr (v, f2, ?m), db)"
       and a: "adds (?A \<union> ?B) ?m f f2"
      using key_loops [OF q clean la len] by metis
    define f' where "f' = (if ?m \<and> ?c < 1 then add_extended_error ?n f2
      else if ?m \<and> 10 < ?c then add_extended_error ?l f2 else f2)"
    let ?X = "?A \<union> ?B \<union> (if ?m \<and> ?c < 1 then {?n} else if ?m \<and> 10 < ?c then {?l} else {})"
    have "adds ?X (key_update_ok usability d add rem) f f'"
      using a short by (auto simp: f'_def adds_def key_update_ok_def number_in_limits_def)
    moreover have "key_report usability d add rem ?X"
    proof -
      have "?l \<notin> ?A \<union> ?B" by (auto dest!: scan_errors_pair dest: arg_cong [of _ _ err_param])
      moreover have "10 < ?c \<Longrightarrow> \<not> ?c < 1" by simp
      ultimately show ?thesis
        using short unfolding key_report_def key_limit_exceeded_def key_vectors_short_def
        by (auto dest!: scan_errors_pair)
    qed
    moreover have "update_check_dns_keys L add rem d f db =
        (Inr (key_update_ok usability d add rem, f'), db)"
      using short r unat_resulting_number [of "length rem" "card (current_keys d)" "length add"]
      by (auto simp: update_check_dns_keys_def op_simps current_keys_size key_vectors_short_def
          keyset_limits f'_def key_update_ok_def number_in_limits_def Let_def)
    ultimately show ?thesis by blast
  qed
qed

section \<open>The failure thrown\<close>

text \<open>
  The first group of reasons is that of the contacts to add. Selecting it engages the set of
  errors even when it selects none, so no later group is ever reached.
\<close>

lemma throw_update_errors_run:
  "throw_update_errors policy db =
    (if failure_empty policy then (Inr (), db)
     else if limit_exceeded policy then (Inl (fail_with parameter_value_policy_error), db)
     else (Inl (epp_failure (add_extended_errors
        {e \<in> errors_of policy. (err_param e, err_reason e) \<in> tech_add_pairs}
        (result_failure parameter_value_policy_error))), db))"
proof -
  let ?P0 = "result_failure parameter_value_policy_error"
  let ?g = "hd update_error_groups"
  have groups: "update_error_groups = ?g # tl update_error_groups"
    by (simp add: update_error_groups_def)
  have sel: "select_errors policy ?g ?P0 = add_extended_errors
      {e \<in> errors_of policy. (err_param e, err_reason e) \<in> tech_add_pairs} ?P0"
    by (rule result_failure_eqI)
      (auto simp: update_error_groups_def tech_add_pairs_def extended_errors_with_param_reason_eq)
  have "throw_groups policy update_error_groups ?P0 db =
      (Inl (epp_failure (select_errors policy ?g ?P0)), db)"
    by (subst groups) (simp add: op_simps sel Let_def)
  then show ?thesis
    by (simp add: throw_update_errors_def op_simps sel)
qed

section \<open>The verdict of the command\<close>

text \<open>
  Which failure the command throws for a keyset \<open>d\<close> that the registrar may update,
  \<open>None\<close> when it goes on to update the keyset.
\<close>

definition update_keyset_verdict ::
  "(string \<Rightarrow> Registrability) \<Rightarrow> (u16 \<Rightarrow> AlgorithmUsability) \<Rightarrow> InfoKeysetData \<Rightarrow>
     UpdateKeysetInputData \<Rightarrow> EppResultFailure option" where
  "update_keyset_verdict contacts usability d data =
     (let tadd = tech_contacts_add data; trem = tech_contacts_rem data;
          kadd = dns_keys_add data; krem = dns_keys_rem data in
      if ds_records_add data \<noteq> [] \<or> ds_records_rem data \<noteq> [] \<or>
         tech_number_wrong contacts d tadd trem \<or> key_limit_exceeded usability d kadd krem
      then Some (result_failure parameter_value_policy_error)
      else if tech_update_ok contacts d tadd trem \<and> key_update_ok usability d kadd krem then None
      else Some (add_extended_errors (tech_add_errors contacts d tadd trem)
             (result_failure parameter_value_policy_error)))"

definition keyset_modification ::
  "('db, 'x) libfred_keyset_scheme \<Rightarrow> UpdateKeysetInputData \<Rightarrow> SessionData \<Rightarrow> InfoKeysetData \<Rightarrow>
     string \<Rightarrow> ('db, exn, UpdateKeysetResult) op" where
  "keyset_modification L data session d registrar =
     bindE (UpdateKeyset L (upd_keyset_handle data) registrar
              (upd_authinfopw data) (tech_contacts_add data) (tech_contacts_rem data)
              (to_fred (dns_keys_add data)) (to_fred (dns_keys_rem data)) (logd_request_id session))
       (\<lambda>new_history_id.
     bindE (whenE (tech_contacts_rem data \<noteq> [])
       (bindE (InfoKeysetByHandle L False (upd_keyset_handle data)) (\<lambda>now.
          throw_if (length (ks_tech_contacts now) < min_number_of_tech_contacts)
            (epp_failure (add_extended_error
               (of_scalar_parameter Param_keyset_tech_rem Reason_can_not_remove_tech)
               (result_failure parameter_value_policy_error)))
            (returnE ())))) (\<lambda>_.
     bindE (whenE (ks_sponsoring_registrar_handle d \<noteq> registrar)
       (CreatePollMessage L update_keyset_message new_history_id)) (\<lambda>_.
     returnE \<lparr>updated_id = ks_id d, update_history_id = new_history_id\<rparr>)))"

lemma update_check_ds_records_adds:
  "check_adds Param_keyset_dsrecord Reason_dsrecord_limit (\<not> (as = [] \<and> rs = [])) (as = [] \<and> rs = [])
     f (snd (update_check_ds_records as rs f))"
  by (cases "as = [] \<and> rs = []")
    (auto simp: update_check_ds_records_def intro!: check_adds_none check_adds_limit)

lemma update_keyset_by_verdict:
  assumes h: "update_check_keyset_handle L (upd_keyset_handle data) (registrar_id session) db =
      (Inr (d, registrar), db')"
    and q: "keyset_queries L db' syntax keysets contacts usability"
    and session: "is_session_registrar_valid session"
    and len: "length (tech_contacts_rem data) < 2 ^ 16" "length (dns_keys_rem data) < 2 ^ 16"
  shows "update_keyset L data session db =
    (case update_keyset_verdict contacts usability d data of
       Some f \<Rightarrow> (Inl (epp_failure f), db')
     | None \<Rightarrow> keyset_modification L data session d registrar db')"
proof -
  let ?tadd = "tech_contacts_add data" and ?trem = "tech_contacts_rem data"
  let ?kadd = "dns_keys_add data" and ?krem = "dns_keys_rem data"
  let ?P0 = "result_failure parameter_value_policy_error"
  let ?ds = "ds_records_add data = [] \<and> ds_records_rem data = []"
  obtain P1 X1 where r1: "update_check_tech_contacts L ?tadd ?trem d ?P0 db' =
        (Inr (tech_update_ok contacts d ?tadd ?trem, P1), db')"
      and a1: "adds X1 (tech_update_ok contacts d ?tadd ?trem) ?P0 P1"
      and x1: "tech_report contacts d ?tadd ?trem X1"
    using update_check_tech_contacts_run [OF keyset_queriesD(3) [OF q] _ len(1), of ?P0 ?tadd d] by auto
  define P2 where "P2 = snd (update_check_ds_records (ds_records_add data) (ds_records_rem data) P1)"
  have c2: "check_adds Param_keyset_dsrecord Reason_dsrecord_limit (\<not> ?ds) ?ds P1 P2"
    unfolding P2_def by (rule update_check_ds_records_adds)
  obtain X2 where x2: "errors_of P2 = errors_of P1 \<union> X2" "\<And>e. e \<in> X2 \<Longrightarrow> err_param e = Param_keyset_dsrecord"
      "of_scalar_parameter Param_keyset_dsrecord Reason_dsrecord_limit \<in> X2 \<longleftrightarrow> \<not> ?ds"
    using check_addsE [OF c2] by blast
  have p1: "errors_of P1 = X1" using a1 by (simp add: adds_def)
  have t1: "err_param e \<in> {Param_keyset_tech, Param_keyset_tech_add, Param_keyset_tech_rem}" if "e \<in> X1" for e
    using that x1 by (simp add: tech_report_def)
  have clean: "err_param e \<notin> {Param_keyset_dnskey_add, Param_keyset_dnskey_rem}" if "e \<in> errors_of P2" for e
    using that x2(1,2) t1 [of e] p1 by force
  obtain P X3 where r3: "update_check_dns_keys L ?kadd ?krem d P2 db' =
        (Inr (key_update_ok usability d ?kadd ?krem, P), db')"
      and a3: "adds X3 (key_update_ok usability d ?kadd ?krem) P2 P"
      and x3: "key_report usability d ?kadd ?krem X3"
    using update_check_dns_keys_run [OF keyset_queriesD(4) [OF q] clean len(2), where add = ?kadd and d = d] by blast
  have t3: "err_param e \<in> {Param_keyset_dnskey, Param_keyset_dnskey_add, Param_keyset_dnskey_rem}" if "e \<in> X3" for e
    using that x3 by (simp add: key_report_def)
  have errs: "errors_of P = X1 \<union> X2 \<union> X3"
    using a3 x2(1) p1 by (simp add: adds_def)
  have emp: "failure_empty P \<longleftrightarrow> tech_update_ok contacts d ?tadd ?trem \<and> ?ds \<and> key_update_ok usability d ?kadd ?krem"
    using a1 a3 check_adds_empty [OF c2] by (simp add: adds_def conj_assoc)
  have sel: "{e \<in> errors_of P. (err_param e, err_reason e) \<in> tech_add_pairs} = tech_add_errors contacts d ?tadd ?trem"
  proof -
    have "(err_param e, err_reason e) \<notin> tech_add_pairs" if "e \<in> X2 \<union> X3" for e
      using that x2(2) [of e] t3 [of e] by (auto simp: tech_add_pairs_def)
    then have "{e \<in> errors_of P. (err_param e, err_reason e) \<in> tech_add_pairs} =
        {e \<in> X1. (err_param e, err_reason e) \<in> tech_add_pairs}"
      unfolding errs by blast
    then show ?thesis using x1 by (simp add: tech_report_def)
  qed
  have lim: "limit_exceeded P \<longleftrightarrow> \<not> ?ds \<or> tech_number_wrong contacts d ?tadd ?trem \<or> key_limit_exceeded usability d ?kadd ?krem"
  proof -
    have "of_scalar_parameter Param_keyset_dsrecord r \<in> errors_of P \<longleftrightarrow> of_scalar_parameter Param_keyset_dsrecord r \<in> X2"
      "of_scalar_parameter Param_keyset_tech r \<in> errors_of P \<longleftrightarrow> of_scalar_parameter Param_keyset_tech r \<in> X1"
      "of_scalar_parameter Param_keyset_dnskey r \<in> errors_of P \<longleftrightarrow> of_scalar_parameter Param_keyset_dnskey r \<in> X3" for r
      using t1 [of "of_scalar_parameter Param_keyset_dsrecord r"] t3 [of "of_scalar_parameter Param_keyset_dsrecord r"]
        x2(2) [of "of_scalar_parameter Param_keyset_tech r"] t3 [of "of_scalar_parameter Param_keyset_tech r"]
        t1 [of "of_scalar_parameter Param_keyset_dnskey r"] x2(2) [of "of_scalar_parameter Param_keyset_dnskey r"]
      unfolding errs by auto
    then show ?thesis
      using x1 x2(3) x3 by (simp add: limit_exceeded_def tech_report_def key_report_def)
  qed
  have "update_keyset L data session db =
      bindE (throw_update_errors P) (\<lambda>_. keyset_modification L data session d registrar) db'"
    using session h r1 r3 P2_def
    by (simp add: update_keyset_def keyset_modification_def op_simps Let_def case_prod_beta)
  also have "\<dots> = (case update_keyset_verdict contacts usability d data of
       Some f \<Rightarrow> (Inl (epp_failure f), db')
     | None \<Rightarrow> keyset_modification L data session d registrar db')"
  proof -
    have no: "tech_update_ok contacts d ?tadd ?trem \<Longrightarrow> \<not> tech_number_wrong contacts d ?tadd ?trem"
      "key_update_ok usability d ?kadd ?krem \<Longrightarrow> \<not> key_limit_exceeded usability d ?kadd ?krem"
      by (auto simp: tech_update_ok_def tech_number_wrong_def key_update_ok_def key_limit_exceeded_def
          number_in_limits_def key_vectors_short_def)
    show ?thesis
      unfolding bindE_def throw_update_errors_run sel lim emp update_keyset_verdict_def Let_def
      using no by auto
  qed
  finally show ?thesis .
qed

section \<open>The resulting numbers\<close>

text \<open>The checks make the computed number that of the members the update leaves.\<close>

lemma resulting_card:
  assumes "finite C" and "distinct add" and "set add \<inter> C = {}" and "distinct rem" and "set rem \<subseteq> C"
  shows "card (C \<union> set add - set rem) = card C + length add - length rem"
proof -
  have "card (C \<union> set add) = card C + length add"
    using assms(1-3) by (subst card_Un_disjoint) (auto simp: distinct_card)
  moreover have "card (C \<union> set add - set rem) = card (C \<union> set add) - card (set rem)"
    using assms(5) by (intro card_Diff_subset) auto
  ultimately show ?thesis using assms(4) by (simp add: distinct_card)
qed

lemma finite_current: "finite (current_handles d)" "finite (current_keys d)"
  by (simp_all add: current_handles_def current_keys_def)

lemma small_number: "number_in_limits c a r \<Longrightarrow> c < 2 ^ 15 \<Longrightarrow> a \<le> 10 \<Longrightarrow> c + a - r \<in> {1..10}"
  by (simp add: number_in_limits_def)

lemma tech_update_number:
  assumes "tech_update_ok contacts d add rem" and "card (current_handles d) < 2 ^ 15"
    and "add \<noteq> [] \<or> rem \<noteq> []"
  shows "tech_members_ok contacts d add rem \<and>
    card (current_handles d \<union> ignore_case_key ` set add - ignore_case_key ` set rem) \<in> {1..10}"
proof -
  have ok: "tech_members_ok contacts d add rem" "tech_vectors_short d add rem"
      "number_in_limits (card (current_handles d)) (length add) (length rem)"
    using assms(1,3) by (auto simp: tech_update_ok_def)
  have "card (current_handles d \<union> set (map ignore_case_key add) - set (map ignore_case_key rem)) =
      card (current_handles d) + length (map ignore_case_key add) - length (map ignore_case_key rem)"
    using ok(1) by (intro resulting_card) (auto simp: tech_members_ok_def finite_current)
  with small_number [OF ok(3) assms(2)] ok show ?thesis
    by (simp add: tech_vectors_short_def)
qed

lemma key_update_number:
  assumes "key_update_ok usability d add rem" and "card (current_keys d) < 2 ^ 15"
    and "add \<noteq> [] \<or> rem \<noteq> []"
  shows "key_members_ok usability d add rem \<and>
    card (current_keys d \<union> set add - set rem) \<in> {1..10}"
proof -
  have ok: "key_members_ok usability d add rem" "key_vectors_short d add rem"
      "number_in_limits (card (current_keys d)) (length add) (length rem)"
    using assms(1,3) by (auto simp: key_update_ok_def)
  have "card (current_keys d \<union> set add - set rem) = card (current_keys d) + length add - length rem"
    using ok(1) by (intro resulting_card) (auto simp: key_members_ok_def finite_current)
  with small_number [OF ok(3) assms(2)] ok show ?thesis
    by (simp add: key_vectors_short_def)
qed

section \<open>Who may update\<close>

lemma update_check_keyset_handle_returns:
  assumes "update_check_keyset_handle L h reg_id db = (Inr (d, registrar), db')"
  shows "\<exists>r db1 db2. InfoRegistrarById L reg_id db = (Inr r, db1) \<and>
    InfoKeysetByHandle L True h db1 = (Inr d, db2) \<and> registrar = registrar_handle r \<and>
    (is_system r \<and> db' = db2 \<or>
     ks_sponsoring_registrar_handle d = registrar \<and>
     (\<exists>db3 db4 states. LockObjectStateRequestLock L (ks_id d) db2 = (Inr (), db3) \<and>
        PerformObjectStateRequest L (ks_id d) db3 = (Inr (), db4) \<and>
        GetObjectStates L (ks_id d) db4 = (Inr states, db') \<and>
        \<not> ObjectStatesInfo_presents L states Object_State_server_update_prohibited \<and>
        \<not> ObjectStatesInfo_presents L states Object_State_delete_candidate))"
proof -
  have handler: "rethrows (\<lambda>e. case e of
          LibfredException (InfoKeysetByHandleException unknown) \<Rightarrow>
            if unknown then throwE (fail_with object_does_not_exist) else throwE e
        | _ \<Rightarrow> throwE e)"
    by (auto simp: rethrows_def throwE_def split: exn.split libfred_exception.split)
  show ?thesis
    using assms unfolding update_check_keyset_handle_def catchE_rethrows [OF handler]
    by (auto simp: op_inv Let_def split: if_splits)
qed

end
