(* ===== verification/Availability.thy ===== *)
theory Availability
  imports Epp_Session
begin

text \<open>
  The loop of the commands \<^verbatim>\<open>check_*\<close>: for each of the requested names ask whether something
  obstructs its registration and enter the answer in a map. The locale states the shape of the
  loop; the commands on keysets, nssets, domains and contacts are its interpretations.
\<close>

locale availability_loop =
  fixes ask :: "string \<Rightarrow> ('db, exn, 'o) op"
    and loop :: "string list \<Rightarrow> (string \<times> 'o) list \<Rightarrow> ('db, exn, (string \<times> 'o) list) op"
  assumes loop_Nil: "loop [] result = returnE result"
    and loop_Cons: "loop (h # hs) result = bindE (ask h) (\<lambda>x. loop hs (map_assign string_less h x result))"
begin

text \<open>When the questions only read, the map gets the answers for the requested names and no other.\<close>

lemma loop_run:
  assumes "\<And>h. reads (ask h) db (answer h)"
  shows "\<exists>result'. loop hs result db = (Inr result', db) \<and>
    (\<forall>h. map_find string_less h result' =
      (if h \<in> set hs then Some (answer h) else map_find string_less h result))"
proof (induction hs arbitrary: result)
  case (Cons h hs)
  obtain result' where "loop hs (map_assign string_less h (answer h) result) db = (Inr result', db)"
      "\<forall>h'. map_find string_less h' result' =
        (if h' \<in> set hs then Some (answer h')
         else map_find string_less h' (map_assign string_less h (answer h) result))"
    using Cons.IH by blast
  then show ?case
    by (auto simp: loop_Cons bindE_reads [OF assms] plain_string.map_find_assign plain_string.equivalent_key)
qed (simp add: loop_Nil op_simps)

end

end
