(* ===== verification/Keyset_Commands.thy ===== *)
theory Keyset_Commands
  imports Keyset_Update Availability
begin

text \<open>
  The remaining keyset commands: \<^verbatim>\<open>delete_keyset\<close>, \<^verbatim>\<open>transfer_keyset\<close>,
  \<^verbatim>\<open>info_keyset\<close> and \<^verbatim>\<open>check_keyset\<close> (\<^verbatim>\<open>keyset/*.cc\<close>),
  with the output data of \<^verbatim>\<open>keyset/impl/keyset_output.cc\<close>.
\<close>

section \<open>Unknown handles\<close>

text \<open>
  \<^verbatim>\<open>catch (const LibFred::InfoKeysetByHandle::Exception& e)\<close>: a handle that is not known
  becomes the failure \<open>object_does_not_exist\<close>, everything else goes on.
\<close>

definition translate_unknown_keyset :: "exn \<Rightarrow> ('db, exn, 'a) op" where
  "translate_unknown_keyset e =
     (case e of
        LibfredException (InfoKeysetByHandleException unknown) \<Rightarrow>
          if unknown then throwE (fail_with object_does_not_exist) else throwE e
      | _ \<Rightarrow> throwE e)"

lemma rethrows_translate_unknown_keyset [simp]: "rethrows translate_unknown_keyset"
  by (auto simp: rethrows_def translate_unknown_keyset_def throwE_def
      split: exn.split libfred_exception.split)

section \<open>Deletion\<close>

text \<open>The loop that collects \<^verbatim>\<open>std::set<LibFred::Object_State::Enum>\<close>.\<close>

fun collect_states ::
  "(string \<Rightarrow> exn + Object_State) \<Rightarrow> ObjectStateData list \<Rightarrow> Object_State set \<Rightarrow> exn + Object_State set" where
  "collect_states from_db_handle [] acc = Inr acc"
| "collect_states from_db_handle (d # ds) acc =
     (case from_db_handle (state_name d) of
        Inl e \<Rightarrow> Inl e
      | Inr s \<Rightarrow> collect_states from_db_handle ds (insert s acc))"

definition translate_delete_keyset :: "exn \<Rightarrow> ('db, exn, 'a) op" where
  "translate_delete_keyset e =
     (case e of
        LibfredException (InfoKeysetByHandleException unknown) \<Rightarrow>
          if unknown then throwE (fail_with object_does_not_exist) else throwE e
      | LibfredException (DeleteKeysetByHandleException unknown linked) \<Rightarrow>
          if unknown then throwE e
          else if linked then throwE (fail_with object_association_prohibits_operation)
          else throwE e
      | _ \<Rightarrow> throwE e)"

lemma rethrows_translate_delete_keyset [simp]: "rethrows translate_delete_keyset"
  by (auto simp: rethrows_def translate_delete_keyset_def throwE_def
      split: exn.split libfred_exception.split)

definition delete_keyset ::
  "('db, 'x) libfred_keyset_scheme \<Rightarrow> string \<Rightarrow> SessionData \<Rightarrow> ('db, exn, u64) op" where
  "delete_keyset L h session =
     with_session session (
     catchE
       (bindE (InfoKeysetByHandle L True h) (\<lambda>keyset_data.
        bindE (InfoRegistrarById L (registrar_id session)) (\<lambda>session_registrar.
        let is_sponsoring_registrar =
              (ks_sponsoring_registrar_handle keyset_data = registrar_handle session_registrar);
            is_system_registrar = is_system session_registrar;
            is_registrar_authorized = (is_system_registrar \<or> is_sponsoring_registrar) in
        throw_if (\<not> is_registrar_authorized)
          (epp_failure (add_extended_error
             (of_scalar_parameter Param_registrar_autor Reason_unauthorized_registrar)
             (result_failure authorization_error))) (
        bindE (LockObjectStateRequestLock L (ks_id keyset_data)) (\<lambda>_.
        bindE (PerformObjectStateRequest L (ks_id keyset_data)) (\<lambda>_.
        bindE (GetObjectStates L (ks_id keyset_data)) (\<lambda>states_data.
        bindE (liftE (collect_states (object_state_from_db_handle L) states_data {})) (\<lambda>keyset_states.
        throw_if (\<not> is_system_registrar \<and>
                  (Object_State_server_update_prohibited \<in> keyset_states \<or>
                   Object_State_server_delete_prohibited \<in> keyset_states \<or>
                   Object_State_delete_candidate \<in> keyset_states))
          (fail_with object_status_prohibits_operation) (
        throw_if (Object_State_linked \<in> keyset_states)
          (fail_with object_association_prohibits_operation) (
        bindE (DeleteKeysetByHandle L h) (\<lambda>_.
        returnE (ks_historyid keyset_data))))))))))))
       translate_delete_keyset)"

section \<open>Transfer\<close>

definition translate_transfer_keyset :: "exn \<Rightarrow> ('db, exn, 'a) op" where
  "translate_transfer_keyset e =
     (case e of
        LibfredException (InfoKeysetByHandleException unknown) \<Rightarrow>
          if unknown then throwE (fail_with object_does_not_exist) else throwE e
      | LibfredException UnknownKeysetId \<Rightarrow> throwE (fail_with object_does_not_exist)
      | LibfredException IncorrectAuthInfoPw \<Rightarrow> throwE (fail_with invalid_authorization_information)
      | LibfredException NewRegistrarIsAlreadySponsoring \<Rightarrow>
          throwE (fail_with object_is_not_eligible_for_transfer)
      | _ \<Rightarrow> throwE e)"

lemma rethrows_translate_transfer_keyset [simp]: "rethrows translate_transfer_keyset"
  by (auto simp: rethrows_def translate_transfer_keyset_def throwE_def
      split: exn.split libfred_exception.split)

definition transfer_keyset ::
  "('db, 'x) libfred_keyset_scheme \<Rightarrow> string \<Rightarrow> string \<Rightarrow> SessionData \<Rightarrow> ('db, exn, u64) op" where
  "transfer_keyset L h authinfopw session =
     with_session session (
     catchE
       (bindE (InfoKeysetByHandle L True h) (\<lambda>keyset_data_before_transfer.
        bindE (InfoRegistrarById L (registrar_id session)) (\<lambda>session_registrar.
        let is_sponsoring_registrar =
              (ks_sponsoring_registrar_handle keyset_data_before_transfer = registrar_handle session_registrar) in
        throw_if is_sponsoring_registrar (fail_with object_is_not_eligible_for_transfer) (
        let is_system_registrar = is_system session_registrar in
        bindE (whenE (\<not> is_system_registrar)
          (bindE (LockObjectStateRequestLock L (ks_id keyset_data_before_transfer)) (\<lambda>_.
           bindE (PerformObjectStateRequest L (ks_id keyset_data_before_transfer)) (\<lambda>_.
           bindE (GetObjectStates L (ks_id keyset_data_before_transfer)) (\<lambda>states.
           throw_if (ObjectStatesInfo_presents L states Object_State_server_transfer_prohibited \<or>
                     ObjectStatesInfo_presents L states Object_State_delete_candidate)
             (fail_with object_status_prohibits_operation) (returnE ())))))) (\<lambda>_.
        bindE (TransferKeyset L (ks_id keyset_data_before_transfer) (registrar_handle session_registrar)
                 authinfopw (logd_request_id session)) (\<lambda>post_transfer_history_id.
        bindE (CreatePollMessage L transfer_keyset_message post_transfer_history_id) (\<lambda>_.
        returnE post_transfer_history_id)))))))
       translate_transfer_keyset)"

section \<open>Information\<close>

text \<open>
  The containers \<^verbatim>\<open>std::set\<close> of the output hold values of types whose comparison
  identifies equal values only; they are sets here. The comparison of DNS keys is shown to be of
  that kind by the interpretation \<open>dns_key\<close>.
\<close>

record InfoKeysetOutputData =
  out_handle :: string
  out_roid :: string
  out_sponsoring_registrar_handle :: string
  out_creating_registrar_handle :: string
  out_last_update_registrar_handle :: "string option"
  out_states :: "KeysetStatusValue set"
  out_crdate :: ptime
  out_last_update :: "ptime option"
  out_last_transfer :: "ptime option"
  out_ds_records :: "DsRecord set"
  out_dns_keys :: "DnsKey set"
  out_tech_contacts :: "string set"

definition get_info_keyset_output ::
  "(string \<Rightarrow> exn + Object_State) \<Rightarrow> InfoKeysetData \<Rightarrow> ObjectStateData list \<Rightarrow> exn + InfoKeysetOutputData" where
  "get_info_keyset_output from_db_handle data object_state_data =
     (case external_states keyset_status_of_object_state from_db_handle object_state_data {} of
        Inl e \<Rightarrow> Inl e
      | Inr states \<Rightarrow> Inr \<lparr>
          out_handle = ks_handle data,
          out_roid = ks_roid data,
          out_sponsoring_registrar_handle = ks_sponsoring_registrar_handle data,
          out_creating_registrar_handle = ks_create_registrar_handle data,
          out_last_update_registrar_handle = ks_update_registrar_handle data,
          out_states = states,
          out_crdate = ks_creation_time data,
          out_last_update = ks_update_time data,
          out_last_transfer = ks_transfer_time data,
          out_ds_records = {},
          out_dns_keys = fold (\<lambda>k. insert (dns_key_of_fred k)) (ks_dns_keys data) {},
          out_tech_contacts = fold insert (ks_tech_contacts data) {}\<rparr>)"

definition info_keyset ::
  "('db, 'x) libfred_keyset_scheme \<Rightarrow> string \<Rightarrow> Password \<Rightarrow> SessionData \<Rightarrow>
     ('db, exn, InfoKeysetOutputData) op" where
  "info_keyset L h authinfopw session =
     with_session session (
     catchE
       (bindE (InfoKeysetByHandle L False h) (\<lambda>info_keyset_data.
        bindE (GetObjectStates L (ks_id info_keyset_data)) (\<lambda>keyset_states_data.
        bindE (whenE (password_value authinfopw \<noteq> [])
                 (authorization_required L (ks_id info_keyset_data) authinfopw)) (\<lambda>_.
        liftE (get_info_keyset_output (object_state_from_db_handle L) info_keyset_data keyset_states_data)))))
       translate_unknown_keyset)"

section \<open>Availability\<close>

datatype KeysetHandleRegistrationObstruction =
    Keyset_invalid_handle
  | Keyset_protected_handle
  | Keyset_registered_handle

definition keyset_obstruction_to_reason :: "KeysetHandleRegistrationObstruction \<Rightarrow> Reason" where
  "keyset_obstruction_to_reason v =
     (case v of
        Keyset_invalid_handle \<Rightarrow> Reason_invalid_handle
      | Keyset_registered_handle \<Rightarrow> Reason_existing
      | Keyset_protected_handle \<Rightarrow> Reason_protected_period)"

text \<open>\<open>None\<close> is the exception \<^verbatim>\<open>MissingLocalizedDescription\<close>.\<close>

definition keyset_obstruction_from_reason :: "Reason \<Rightarrow> KeysetHandleRegistrationObstruction option" where
  "keyset_obstruction_from_reason r =
     (case r of
        Reason_invalid_handle \<Rightarrow> Some Keyset_invalid_handle
      | Reason_existing \<Rightarrow> Some Keyset_registered_handle
      | Reason_protected_period \<Rightarrow> Some Keyset_protected_handle
      | _ \<Rightarrow> None)"

definition validity_to_check_result :: "SyntaxValidity \<Rightarrow> KeysetHandleRegistrationObstruction option" where
  "validity_to_check_result validity =
     (case validity of
        syntax_invalid \<Rightarrow> Some Keyset_invalid_handle
      | syntax_valid \<Rightarrow> None)"

definition keyset_handle_state_to_check_result ::
  "SyntaxValidity \<Rightarrow> Registrability \<Rightarrow> KeysetHandleRegistrationObstruction option" where
  "keyset_handle_state_to_check_result validity registrability =
     (case registrability of
        registered \<Rightarrow> Some Keyset_registered_handle
      | in_protection_period \<Rightarrow> Some Keyset_protected_handle
      | available \<Rightarrow> validity_to_check_result validity)"

text \<open>
  The loop over the set of handles, in its order; the two questions of one turn are asked from
  left to right.
\<close>

fun check_keyset_loop ::
  "('db, 'x) libfred_keyset_scheme \<Rightarrow> string list \<Rightarrow>
     (string \<times> KeysetHandleRegistrationObstruction option) list \<Rightarrow>
     ('db, exn, (string \<times> KeysetHandleRegistrationObstruction option) list) op" where
  "check_keyset_loop L [] result = returnE result"
| "check_keyset_loop L (h # hs) result =
     bindE (Keyset_get_handle_syntax_validity L h) (\<lambda>validity.
     bindE (Keyset_get_handle_registrability L h) (\<lambda>registrability.
     check_keyset_loop L hs (map_assign string_less h
       (keyset_handle_state_to_check_result validity registrability) result)))"

definition check_keyset ::
  "('db, 'x) libfred_keyset_scheme \<Rightarrow> string list \<Rightarrow> SessionData \<Rightarrow>
     ('db, exn, (string \<times> KeysetHandleRegistrationObstruction option) list) op" where
  "check_keyset L keyset_handles session =
     with_session session (check_keyset_loop L keyset_handles [])"

section \<open>The guard\<close>

interpretation delete_keyset: session_guarded "delete_keyset L h" for L h
  by unfold_locales (simp add: delete_keyset_def with_session_refuses)

interpretation transfer_keyset: session_guarded "transfer_keyset L h pw" for L h pw
  by unfold_locales (simp add: transfer_keyset_def with_session_refuses)

interpretation info_keyset: session_guarded "info_keyset L h pw" for L h pw
  by unfold_locales (simp add: info_keyset_def with_session_refuses)

interpretation check_keyset: session_guarded "check_keyset L hs" for L hs
  by unfold_locales (simp add: check_keyset_def with_session_refuses)

section \<open>What the commands guarantee\<close>

text \<open>The states are those the names in the database stand for.\<close>

lemma collect_states_Inr:
  "collect_states from_db_handle ds acc = Inr S \<Longrightarrow>
   Inr ` (S - acc) \<subseteq> (\<lambda>d. from_db_handle (state_name d)) ` set ds \<and>
   (\<lambda>d. from_db_handle (state_name d)) ` set ds \<subseteq> Inr ` S \<and> acc \<subseteq> S"
proof (induction ds arbitrary: acc)
  case (Cons d ds)
  then obtain s where s: "from_db_handle (state_name d) = Inr s"
      "collect_states from_db_handle ds (insert s acc) = Inr S"
    by (auto split: sum.splits)
  from Cons.IH [OF s(2)] s(1) show ?case by auto
qed auto

lemma collect_states_member:
  "collect_states from_db_handle ds {} = Inr S \<Longrightarrow>
   s \<in> S \<longleftrightarrow> (\<exists>d \<in> set ds. from_db_handle (state_name d) = Inr s)"
  using collect_states_Inr [of from_db_handle ds "{}" S] by (fastforce simp: image_iff)

definition delete_permitted ::
  "('db, 'x) libfred_keyset_scheme \<Rightarrow> InfoRegistrarData \<Rightarrow> InfoKeysetData \<Rightarrow> ObjectStateData list \<Rightarrow> bool" where
  "delete_permitted L r d states \<longleftrightarrow>
     (is_system r \<or> ks_sponsoring_registrar_handle d = registrar_handle r) \<and>
     (\<forall>s \<in> set states. object_state_from_db_handle L (state_name s) \<noteq> Inr Object_State_linked) \<and>
     (is_system r \<or>
       (\<forall>s \<in> set states. object_state_from_db_handle L (state_name s) \<notin>
          Inr ` {Object_State_server_update_prohibited, Object_State_server_delete_prohibited,
                 Object_State_delete_candidate}))"

lemma delete_keyset_returns:
  assumes "delete_keyset L h session db = (Inr history_id, db')"
  shows "\<exists>d r states db1 db2 db3 db4 db5.
    InfoKeysetByHandle L True h db = (Inr d, db1) \<and>
    InfoRegistrarById L (registrar_id session) db1 = (Inr r, db2) \<and>
    LockObjectStateRequestLock L (ks_id d) db2 = (Inr (), db3) \<and>
    PerformObjectStateRequest L (ks_id d) db3 = (Inr (), db4) \<and>
    GetObjectStates L (ks_id d) db4 = (Inr states, db5) \<and>
    delete_permitted L r d states \<and>
    DeleteKeysetByHandle L h db5 = (Inr (), db') \<and> history_id = ks_historyid d"
proof -
  from assms obtain d r states S db1 db2 db3 db4 db5 where run:
    "InfoKeysetByHandle L True h db = (Inr d, db1)"
    "InfoRegistrarById L (registrar_id session) db1 = (Inr r, db2)"
    "LockObjectStateRequestLock L (ks_id d) db2 = (Inr (), db3)"
    "PerformObjectStateRequest L (ks_id d) db3 = (Inr (), db4)"
    "GetObjectStates L (ks_id d) db4 = (Inr states, db5)"
    "DeleteKeysetByHandle L h db5 = (Inr (), db')" "history_id = ks_historyid d"
    and S: "collect_states (object_state_from_db_handle L) states {} = Inr S"
    and auth: "is_system r \<or> ks_sponsoring_registrar_handle d = registrar_handle r"
      "Object_State_linked \<notin> S"
      "is_system r \<or> S \<inter> {Object_State_server_update_prohibited, Object_State_server_delete_prohibited,
         Object_State_delete_candidate} = {}"
    unfolding delete_keyset_def by (auto simp: op_inv catchE_rethrows Let_def)
  have "delete_permitted L r d states"
    using auth collect_states_member [OF S] unfolding delete_permitted_def by fastforce
  with run show ?thesis by blast
qed

lemma transfer_keyset_returns:
  assumes "transfer_keyset L h pw session db = (Inr history_id, db')"
  shows "\<exists>d r db1 db2 db3 db4.
    InfoKeysetByHandle L True h db = (Inr d, db1) \<and>
    InfoRegistrarById L (registrar_id session) db1 = (Inr r, db2) \<and>
    ks_sponsoring_registrar_handle d \<noteq> registrar_handle r \<and>
    (is_system r \<and> db3 = db2 \<or>
     (\<exists>dba dbb states. LockObjectStateRequestLock L (ks_id d) db2 = (Inr (), dba) \<and>
        PerformObjectStateRequest L (ks_id d) dba = (Inr (), dbb) \<and>
        GetObjectStates L (ks_id d) dbb = (Inr states, db3) \<and>
        \<not> ObjectStatesInfo_presents L states Object_State_server_transfer_prohibited \<and>
        \<not> ObjectStatesInfo_presents L states Object_State_delete_candidate)) \<and>
    TransferKeyset L (ks_id d) (registrar_handle r) pw (logd_request_id session) db3 = (Inr history_id, db4) \<and>
    CreatePollMessage L transfer_keyset_message history_id db4 = (Inr (), db')"
  using assms unfolding transfer_keyset_def
  by (auto simp: op_inv catchE_rethrows Let_def split: if_splits)

lemma info_keyset_returns:
  assumes "info_keyset L h pw session db = (Inr out, db')"
  shows "\<exists>d states db1 db2.
    InfoKeysetByHandle L False h db = (Inr d, db1) \<and>
    GetObjectStates L (ks_id d) db1 = (Inr states, db2) \<and>
    (password_value pw = [] \<and> db' = db2 \<or>
     (\<exists>n. CheckAuthinfo L (ks_id d) (password_value pw) db2 = (Inr n, db') \<and> 0 < n)) \<and>
    get_info_keyset_output (object_state_from_db_handle L) d states = Inr out"
  using assms unfolding info_keyset_def authorization_required_def
  by (auto simp: op_inv catchE_rethrows Let_def split: if_splits)

text \<open>The output: every external state is translated, and the sets hold the members of the vectors.\<close>

lemma get_info_keyset_output_Inr:
  assumes "get_info_keyset_output from_db_handle d states = Inr out"
  shows "out_handle out = ks_handle d"
    and "out_dns_keys out = dns_key_of_fred ` set (ks_dns_keys d)"
    and "out_tech_contacts out = set (ks_tech_contacts d)"
    and "out_states out = {v. \<exists>x \<in> set states. is_external x \<and>
      (\<exists>s. from_db_handle (state_name x) = Inr s \<and> keyset_status_of_object_state s = Inr v)}"
proof -
  have ins: "fold (\<lambda>x. insert (f x)) xs A = f ` set xs \<union> A" for f :: "'p \<Rightarrow> 'q" and xs A
    by (induction xs arbitrary: A) auto
  from assms obtain S where S: "external_states keyset_status_of_object_state from_db_handle states {} = Inr S"
    by (auto simp: get_info_keyset_output_def split: sum.splits)
  with assms ins [of "\<lambda>x. x" "ks_tech_contacts d" "{}"] ins [of dns_key_of_fred "ks_dns_keys d" "{}"]
  show "out_handle out = ks_handle d" "out_dns_keys out = dns_key_of_fred ` set (ks_dns_keys d)"
    "out_tech_contacts out = set (ks_tech_contacts d)"
    by (auto simp: get_info_keyset_output_def)
  show "out_states out = {v. \<exists>x \<in> set states. is_external x \<and>
      (\<exists>s. from_db_handle (state_name x) = Inr s \<and> keyset_status_of_object_state s = Inr v)}"
  proof -
    have "out_states out = S"
      using assms unfolding get_info_keyset_output_def S by auto
    then show ?thesis using external_states_Inr [OF S] by simp
  qed
qed

text \<open>The answer of \<^verbatim>\<open>check_keyset\<close>, for the requested handles and no other.\<close>

interpretation check_keyset_loop: availability_loop
    "\<lambda>h. bindE (Keyset_get_handle_syntax_validity L h) (\<lambda>validity.
       bindE (Keyset_get_handle_registrability L h) (\<lambda>registrability.
       returnE (keyset_handle_state_to_check_result validity registrability)))"
    "check_keyset_loop L" for L
  by unfold_locales (simp_all add: bindE_assoc bindE_returnE)

lemma check_keyset_run:
  assumes "keyset_queries L db syntax keysets contacts usability" and "is_session_registrar_valid session"
  shows "\<exists>result. check_keyset L hs session db = (Inr result, db) \<and>
    (\<forall>h. map_find string_less h result =
      (if h \<in> set hs then Some (keyset_handle_state_to_check_result (syntax h) (keysets h)) else None))"
proof -
  have "reads (bindE (Keyset_get_handle_syntax_validity L h) (\<lambda>validity.
      bindE (Keyset_get_handle_registrability L h) (\<lambda>registrability.
      returnE (keyset_handle_state_to_check_result validity registrability)))) db
    (keyset_handle_state_to_check_result (syntax h) (keysets h))" for h
    using keyset_queriesD(1,2) [OF assms(1), of h] by (simp add: reads_def op_simps)
  from check_keyset_loop.loop_run [OF this, of hs "[]"] show ?thesis
    unfolding check_keyset_def with_session_valid [OF assms(2)] map_find.simps .
qed

lemma obstruction_None_iff:
  "keyset_handle_state_to_check_result v r = None \<longleftrightarrow> v = syntax_valid \<and> r = available"
  by (cases v; cases r) (simp_all add: keyset_handle_state_to_check_result_def validity_to_check_result_def)

lemma keyset_obstruction_roundtrip:
  "keyset_obstruction_from_reason (keyset_obstruction_to_reason v) = Some v"
  by (cases v) (simp_all add: keyset_obstruction_from_reason_def keyset_obstruction_to_reason_def)

end
