(* ===== verification/Keyset_Localized.thy ===== *)
theory Keyset_Localized
  imports Keyset_Update_Spec Keyset_Commands Epp_Localized
begin

text \<open>
  The entry points of the keyset commands, \<^verbatim>\<open>keyset/*_keyset_localized.cc\<close>: each runs
  its command in a transaction and answers in the language of the session. The four commands
  that change the database interpret the contract \<open>localized_update\<close>.
\<close>

section \<open>Commands that change the database\<close>

record CreateKeysetLocalizedResponse =
  create_response :: EppResponseSuccessLocalized
  create_response_crdate :: ptime

definition create_keyset_localized ::
  "('db, 'x) libfred_keyset_scheme \<Rightarrow> ('db, 'y) database_scheme \<Rightarrow> CreateKeysetInputData \<Rightarrow>
     SessionData \<Rightarrow> NotificationData \<Rightarrow> ('db, thrown, CreateKeysetLocalizedResponse) op" where
  "create_keyset_localized L D data session notification_data =
     try_localized D (lang session) (with_context D (
       bindE (on_working (create_keyset L data session)) (\<lambda>result.
       bindE (on_working (response_success_localized D command_completed_successfully (lang session)))
         (\<lambda>epp_response_success_localized.
       bindE (commit D) (\<lambda>_.
       bindE (outside (conditionally_enqueue_notification L D notified_created
                (create_history_id result) session notification_data)) (\<lambda>_.
       returnE \<lparr>create_response = epp_response_success_localized,
                create_response_crdate = crdate result\<rparr>))))))"

definition update_keyset_localized ::
  "('db, 'x) libfred_keyset_scheme \<Rightarrow> ('db, 'y) database_scheme \<Rightarrow> UpdateKeysetInputData \<Rightarrow>
     SessionData \<Rightarrow> NotificationData \<Rightarrow> ('db, thrown, EppResponseSuccessLocalized) op" where
  "update_keyset_localized L D data session notification_data =
     try_localized D (lang session) (with_context D (
       bindE (on_working (update_keyset L data session)) (\<lambda>update_keyset_result.
       bindE (on_working (response_success_localized D command_completed_successfully (lang session)))
         (\<lambda>epp_response_success_localized.
       bindE (commit D) (\<lambda>_.
       bindE (outside (conditionally_enqueue_notification L D notified_updated
                (update_history_id update_keyset_result) session notification_data)) (\<lambda>_.
       returnE epp_response_success_localized))))))"

definition delete_keyset_localized ::
  "('db, 'x) libfred_keyset_scheme \<Rightarrow> ('db, 'y) database_scheme \<Rightarrow> string \<Rightarrow>
     SessionData \<Rightarrow> NotificationData \<Rightarrow> ('db, thrown, EppResponseSuccessLocalized) op" where
  "delete_keyset_localized L D h session notification_data =
     try_localized D (lang session) (with_context D (
       bindE (on_working (delete_keyset L h session)) (\<lambda>last_history_id_before_delete.
       bindE (on_working (response_success_localized D command_completed_successfully (lang session)))
         (\<lambda>epp_response_success_localized.
       bindE (commit D) (\<lambda>_.
       bindE (outside (conditionally_enqueue_notification L D notified_deleted
                last_history_id_before_delete session notification_data)) (\<lambda>_.
       returnE epp_response_success_localized))))))"

definition transfer_keyset_localized ::
  "('db, 'x) libfred_keyset_scheme \<Rightarrow> ('db, 'y) database_scheme \<Rightarrow> string \<Rightarrow> string \<Rightarrow>
     SessionData \<Rightarrow> NotificationData \<Rightarrow> ('db, thrown, EppResponseSuccessLocalized) op" where
  "transfer_keyset_localized L D h authinfopw session notification_data =
     try_localized D (lang session) (with_context D (
       bindE (on_working (transfer_keyset L h authinfopw session)) (\<lambda>post_transfer_history_id.
       bindE (on_working (response_success_localized D command_completed_successfully (lang session)))
         (\<lambda>epp_response_success_localized.
       bindE (commit D) (\<lambda>_.
       bindE (outside (conditionally_enqueue_notification L D notified_transferred
                post_transfer_history_id session notification_data)) (\<lambda>_.
       returnE epp_response_success_localized))))))"

section \<open>Commands that only read\<close>

record InfoKeysetLocalizedOutputData =
  loc_handle :: string
  loc_roid :: string
  loc_sponsoring_registrar_handle :: string
  loc_creating_registrar_handle :: string
  loc_last_update_registrar_handle :: "string option"
  localized_external_states :: "KeysetStatusValue ObjectStatesLocalized"
  loc_crdate :: ptime
  loc_last_update :: "ptime option"
  loc_last_transfer :: "ptime option"
  loc_ds_records :: "DsRecord set"
  loc_dns_keys :: "DnsKey set"
  loc_tech_contacts :: "string set"

definition info_keyset_localized ::
  "('db, 'x) libfred_keyset_scheme \<Rightarrow> ('db, 'y) database_scheme \<Rightarrow> string \<Rightarrow> Password \<Rightarrow>
     SessionData \<Rightarrow>
     ('db, thrown, EppResponseSuccessLocalized \<times> InfoKeysetLocalizedOutputData) op" where
  "info_keyset_localized L D h authinfopw session =
     try_localized D (lang session) (with_context D (
       bindE (on_working (info_keyset L h authinfopw session)) (\<lambda>info_keyset_data.
       bindE (on_working (localize_object_states D keyset_status_to_object_state
                (filter (\<lambda>v. v \<in> out_states info_keyset_data) keyset_status_values) (lang session)))
         (\<lambda>states.
       let output = \<lparr>
             loc_handle = out_handle info_keyset_data,
             loc_roid = out_roid info_keyset_data,
             loc_sponsoring_registrar_handle = out_sponsoring_registrar_handle info_keyset_data,
             loc_creating_registrar_handle = out_creating_registrar_handle info_keyset_data,
             loc_last_update_registrar_handle = out_last_update_registrar_handle info_keyset_data,
             localized_external_states = states,
             loc_crdate = out_crdate info_keyset_data,
             loc_last_update = out_last_update info_keyset_data,
             loc_last_transfer = out_last_transfer info_keyset_data,
             loc_ds_records = out_ds_records info_keyset_data,
             loc_dns_keys = out_dns_keys info_keyset_data,
             loc_tech_contacts = out_tech_contacts info_keyset_data\<rparr> in
       bindE (on_working (response_success_localized D command_completed_successfully (lang session)))
         (\<lambda>epp_response_success_localized.
       bindE (commit D) (\<lambda>_.
       returnE (epp_response_success_localized, output)))))))"

definition check_keyset_localized ::
  "('db, 'x) libfred_keyset_scheme \<Rightarrow> ('db, 'y) database_scheme \<Rightarrow> string list \<Rightarrow> SessionData \<Rightarrow>
     ('db, thrown, EppResponseSuccessLocalized \<times>
        (string \<times> (KeysetHandleRegistrationObstruction \<times> string) option) list) op" where
  "check_keyset_localized L D keyset_handles session =
     try_localized D (lang session) (with_context D (
       bindE (on_working (check_keyset L keyset_handles session)) (\<lambda>check_keyset_results.
       bindE (on_working (response_success_localized D command_completed_successfully (lang session)))
         (\<lambda>epp_response_success_localized.
       bindE (on_working (localize_check_results D keyset_obstruction_to_reason
                keyset_obstruction_from_reason check_keyset_results (lang session))) (\<lambda>results.
       returnE (epp_response_success_localized, results))))))"

section \<open>The contract\<close>

interpretation create_keyset_localized: localized_update D "lang session" "create_keyset L data session"
    "\<lambda>r. conditionally_enqueue_notification L D notified_created (create_history_id r) session nd"
    "\<lambda>response r. \<lparr>create_response = response, create_response_crdate = crdate r\<rparr>"
    "create_keyset_localized L D data session nd" for L D data session nd
  by unfold_locales
    (simp_all only: create_keyset_localized_def conditionally_enqueue_notification_returns)

interpretation update_keyset_localized: localized_update D "lang session" "update_keyset L data session"
    "\<lambda>r. conditionally_enqueue_notification L D notified_updated (update_history_id r) session nd"
    "\<lambda>response _. response" "update_keyset_localized L D data session nd" for L D data session nd
  by unfold_locales
    (simp_all only: update_keyset_localized_def conditionally_enqueue_notification_returns)

interpretation delete_keyset_localized: localized_update D "lang session" "delete_keyset L h session"
    "\<lambda>r. conditionally_enqueue_notification L D notified_deleted r session nd"
    "\<lambda>response _. response" "delete_keyset_localized L D h session nd" for L D h session nd
  by unfold_locales
    (simp_all only: delete_keyset_localized_def conditionally_enqueue_notification_returns)

interpretation transfer_keyset_localized: localized_update D "lang session" "transfer_keyset L h pw session"
    "\<lambda>r. conditionally_enqueue_notification L D notified_transferred r session nd"
    "\<lambda>response _. response" "transfer_keyset_localized L D h pw session nd" for L D h pw session nd
  by unfold_locales
    (simp_all only: transfer_keyset_localized_def conditionally_enqueue_notification_returns)

end
