(* ===== verification/Keyset_Sample.thy ===== *)
theory Keyset_Sample
  imports Sample_Base Keyset_Localized
begin

text \<open>
  The operations of LibFred on keysets in the registry of \<open>Sample_Base\<close>, on which the
  witnesses of the keyset properties run the commands.
\<close>

definition sample_fred_key :: FredDnsKey where
  "sample_fred_key = \<lparr>fred_flags = 257, fred_protocol = 3, fred_alg = 5, fred_key = ''AwEA''\<rparr>"

text \<open>The keyset \<^verbatim>\<open>KEY1\<close> of the registrar 2, with one contact and one key.\<close>

definition sample_keyset :: InfoKeysetData where
  "sample_keyset = \<lparr>ks_id = 7, ks_historyid = 70, ks_handle = ''KEY1'', ks_roid = ''K7'',
     ks_sponsoring_registrar_handle = ''REG-A'', ks_create_registrar_handle = ''REG-A'',
     ks_update_registrar_handle = None, ks_creation_time = 0, ks_update_time = None,
     ks_transfer_time = None, ks_dns_keys = [sample_fred_key], ks_tech_contacts = [''C1'']\<rparr>"

definition sample_keysets :: "string \<Rightarrow> Registrability" where
  "sample_keysets h = (if h = ''KEY1'' then registered else if h = ''OLD'' then in_protection_period else available)"

definition sample_usability :: "u16 \<Rightarrow> AlgorithmUsability" where
  "sample_usability a = (if a = 5 then usable else not_usable)"

text \<open>The states of every object are given: \<^verbatim>\<open>st\<close>.\<close>

definition sample :: "ObjectStateData list \<Rightarrow> changes libfred_keyset" where
  "sample st = \<lparr>
     InfoRegistrarById = (\<lambda>reg. returnE (sample_registrar reg)),
     LockObjectStateRequestLock = (\<lambda>_. returnE ()),
     PerformObjectStateRequest = (\<lambda>_. returnE ()),
     GetObjectStates = (\<lambda>_. returnE st),
     ObjectStatesInfo_presents = (\<lambda>ds s. list_ex (\<lambda>d. sample_from_db_handle (state_name d) = Inr s) ds),
     object_state_from_db_handle = sample_from_db_handle,
     CheckAuthinfo = (\<lambda>_ pw. returnE (if pw = ''secret'' then 1 else 0)),
     Contact_get_handle_registrability = (\<lambda>h. returnE (sample_contacts h)),
     CreatePollMessage = (\<lambda>_ _. change ''poll'' ()),
     Keyset_get_handle_syntax_validity = (\<lambda>h. returnE (sample_syntax h)),
     Keyset_get_handle_registrability = (\<lambda>h. returnE (sample_keysets h)),
     get_algorithm_usability = (\<lambda>a. returnE (sample_usability a)),
     InfoKeysetByHandle = (\<lambda>lock h.
       if h = ''KEY1'' then returnE sample_keyset
       else throwE (LibfredException (InfoKeysetByHandleException True))),
     CreateKeyset = (\<lambda>h reg ks hs log. change (''create '' @ h) (8, 80, 0)),
     UpdateKeyset = (\<lambda>h reg pw ta tr ka kr log. change (''update '' @ h) 71),
     DeleteKeysetByHandle = (\<lambda>h. change (''delete '' @ h) ()),
     TransferKeyset = (\<lambda>i reg pw log.
       if pw = ''secret'' then change ''transfer'' 72 else throwE (LibfredException IncorrectAuthInfoPw))\<rparr>"

definition sample_key :: "u16 \<Rightarrow> DnsKey" where
  "sample_key flags = DnsKey_of flags 3 5 ''AwEA''"

definition sample_create :: CreateKeysetInputData where
  "sample_create = \<lparr>keyset_handle = ''KEY2'', tech_contacts = [''C1'', ''C2''], ds_records = [],
     dns_keys = [sample_key 257]\<rparr>"

definition sample_update :: "string list \<Rightarrow> string list \<Rightarrow> DnsKey list \<Rightarrow> UpdateKeysetInputData" where
  "sample_update tadd trem kadd = \<lparr>upd_keyset_handle = ''KEY1'', upd_authinfopw = None,
     tech_contacts_add = tadd, tech_contacts_rem = trem, ds_records_add = [], ds_records_rem = [],
     dns_keys_add = kadd, dns_keys_rem = []\<rparr>"

lemma sample_queries:
  "keyset_queries (sample st) db sample_syntax sample_keysets sample_contacts sample_usability"
  by (simp add: keyset_queries_def sample_def reads_def returnE_def)

lemmas sample_run = sample_def sample_session_def sample_registrar_def sample_keyset_def change_def
  op_simps Let_def is_system_def is_session_registrar_valid_def

lemma sample_check_key: "check_key (sample_key f) = CheckKey_ok"
  by (simp add: sample_key_def DnsKey_of_def remove_spaces_def is_space_def check_key_def
      is_base64_insignificant_allowed_character_def is_base64_data_character_def Let_def)

lemma sample_keys_ok: "dns_keys_ok sample_usability [sample_key 257]"
  using sample_check_key
  by (simp add: dns_keys_ok_def is_flags_correct_def is_protocol_correct_def sample_usability_def)
    (simp add: sample_key_def DnsKey_of_def)

lemma sample_create_accepted:
  "create_keyset_verdict sample_syntax sample_keysets sample_contacts sample_usability sample_create = None"
  using sample_keys_ok
  by (simp add: create_keyset_verdict_def sample_create_def sample_syntax_def sample_keysets_def
      tech_contacts_ok_def sample_contacts_def Let_def)

lemma sample_create_run:
  "create_keyset (sample st) sample_create (sample_session 2) db =
     (Inr \<lparr>created_id = 8, create_history_id = 80, crdate = 0\<rparr>, ''create KEY2'' # db)"
proof -
  have "keyset_creation (sample st) sample_create (sample_session 2) db =
      (Inr \<lparr>created_id = 8, create_history_id = 80, crdate = 0\<rparr>, ''create KEY2'' # db)"
    by (simp add: keyset_creation_def sample_run sample_create_def)
  then show ?thesis
    using create_keyset_by_verdict [OF sample_queries sample_session_valid(2), of st sample_create db]
    by (simp add: sample_create_accepted)
qed

lemma sample_delete_run:
  "delete_keyset (sample []) ''KEY1'' (sample_session 2) db = (Inr 70, ''delete KEY1'' # db)"
  by (simp add: delete_keyset_def sample_run)

lemma sample_transfer_run:
  "transfer_keyset (sample []) ''KEY1'' ''secret'' (sample_session 3) db = (Inr 72, ''poll'' # ''transfer'' # db)"
  by (simp add: transfer_keyset_def sample_run)

lemma sample_handle_run:
  "update_check_keyset_handle (sample []) ''KEY1'' 2 db = (Inr (sample_keyset, ''REG-A''), db)"
  by (simp add: update_check_keyset_handle_def sample_run)

text \<open>The updates below all concern \<^verbatim>\<open>KEY1\<close> and are made by its registrar.\<close>

lemma sample_update_handle:
  "update_check_keyset_handle (sample []) (upd_keyset_handle (sample_update tadd trem kadd))
     (registrar_id (sample_session 2)) db = (Inr (sample_keyset, ''REG-A''), db)"
  by (simp add: sample_update_def sample_session_def sample_handle_run)

lemma sample_current:
  "current_handles sample_keyset = {ignore_case_key ''C1''}"
  "current_keys sample_keyset = {sample_key 257}"
  by (simp_all add: current_handles_def current_keys_def sample_keyset_def sample_fred_key_def
      dns_key_of_fred_def sample_key_def)

lemma sample_current_small:
  "card (current_handles sample_keyset) < 2 ^ 15" "card (current_keys sample_keyset) < 2 ^ 15"
  by (simp_all add: sample_current)

lemma sample_key_inject: "sample_key f = sample_key g \<longleftrightarrow> f = g"
  by (simp add: sample_key_def DnsKey_of_def)

lemma sample_update_accepted:
  "update_keyset_verdict sample_contacts sample_usability sample_keyset (sample_update [''C2''] [] [sample_key 256]) = None"
proof -
  have "ignore_case_key ''C2'' \<noteq> ignore_case_key ''C1''"
    by (simp add: ignore_case_key_def to_lower_copy_def to_lower_char_def is_upper_def NUL_def)
  then have "tech_update_ok sample_contacts sample_keyset [''C2''] []"
    by (simp add: tech_update_ok_def tech_vectors_short_def tech_members_ok_def number_in_limits_def
        sample_current sample_contacts_def)
  moreover have "key_update_ok sample_usability sample_keyset [sample_key 256] []"
    using sample_check_key [of 256]
    by (simp add: key_update_ok_def key_vectors_short_def key_members_ok_def number_in_limits_def
        sample_current sample_key_inject)
      (simp add: sample_key_def DnsKey_of_def is_flags_correct_def is_protocol_correct_def sample_usability_def)
  moreover have "\<not> tech_number_wrong sample_contacts sample_keyset [''C2''] []"
    "\<not> key_limit_exceeded sample_usability sample_keyset [sample_key 256] []"
    by (simp_all add: tech_number_wrong_def number_in_limits_def key_limit_exceeded_def sample_current)
  ultimately show ?thesis
    by (simp add: update_keyset_verdict_def sample_update_def)
qed

lemma sample_update_run:
  "update_keyset (sample []) (sample_update [''C2''] [] [sample_key 256]) (sample_session 2) db =
     (Inr \<lparr>updated_id = 7, update_history_id = 71\<rparr>, ''update KEY1'' # db)"
proof -
  have "keyset_modification (sample []) (sample_update [''C2''] [] [sample_key 256]) (sample_session 2)
      sample_keyset ''REG-A'' db = (Inr \<lparr>updated_id = 7, update_history_id = 71\<rparr>, ''update KEY1'' # db)"
    by (simp add: keyset_modification_def sample_update_def sample_run)
  then show ?thesis
    using update_keyset_by_verdict [OF sample_update_handle sample_queries sample_session_valid(2),
        of "[''C2'']" "[]" "[sample_key 256]" db]
    by (simp add: sample_update_accepted) (simp add: sample_update_def)
qed

lemma sample_transfer_refused:
  "transfer_keyset (sample []) ''KEY1'' ''wrong'' (sample_session 3) db =
     (Inl (EppFailure [result_failure invalid_authorization_information]), db)"
  by (simp add: transfer_keyset_def sample_run translate_transfer_keyset_def epp_failure_def response_failure_def)


end
