(* ===== verification/Keyset_Properties.thy ===== *)
theory Keyset_Properties
  imports Keyset_Sample
begin

text \<open>
  The properties of the keyset component: what each command decides, whom it admits, what it
  reports, and what its localized entry point stores. The witnesses run the commands on the
  registry of \<open>Keyset_Sample\<close>.
\<close>

section \<open>Creation\<close>

text \<open>C1: for every input, \<^verbatim>\<open>create_keyset\<close> either throws exactly the failure of
  \<open>create_keyset_verdict\<close> and leaves the database as it is, or, when the verdict is
  \<open>None\<close>, does exactly the creation. The queries of LibFred are only required to answer and to
  leave the database alone.\<close>

theorem create_keyset_outcome:
  assumes "keyset_queries L db syntax keysets contacts usability"
    and "is_session_registrar_valid session"
  shows "create_keyset L data session db =
    (case create_keyset_verdict syntax keysets contacts usability data of
       Some f \<Rightarrow> (Inl (epp_failure f), db)
     | None \<Rightarrow> keyset_creation L data session db)"
  using assms by (rule create_keyset_by_verdict)

theorem create_keyset_outcome_witness:
  "create_keyset (sample []) sample_create (sample_session 2) [] =
     keyset_creation (sample []) sample_create (sample_session 2) [] \<and>
   create_keyset (sample []) (sample_create\<lparr>keyset_handle := ''KEY1''\<rparr>) (sample_session 2) [] =
     (Inl (epp_failure (add_extended_error (of_scalar_parameter Param_keyset_handle Reason_existing)
        (result_failure object_exists))), [])"
proof -
  have "create_keyset_verdict sample_syntax sample_keysets sample_contacts sample_usability
      (sample_create\<lparr>keyset_handle := ''KEY1''\<rparr>) =
      Some (add_extended_error (of_scalar_parameter Param_keyset_handle Reason_existing)
        (result_failure object_exists))"
    by (simp add: create_keyset_verdict_def sample_create_def sample_syntax_def sample_keysets_def Let_def)
  then show ?thesis
    using create_keyset_outcome [OF sample_queries sample_session_valid(2), of "[]" sample_create "[]"]
      create_keyset_outcome [OF sample_queries sample_session_valid(2), of "[]"
        "sample_create\<lparr>keyset_handle := ''KEY1''\<rparr>" "[]"]
    by (simp add: sample_create_accepted)
qed

text \<open>A keyset is created only with an available handle of valid syntax, 1 to 10 different
  registered technical contacts, 1 to 10 different correct DNS keys and no DS record, and what
  the command did to the database is LibFred's creation with exactly these data.\<close>

lemma create_keyset_sound:
  assumes "keyset_queries L db syntax keysets contacts usability"
    and "create_keyset L data session db = (Inr r, db')"
  shows "registrar_id session \<noteq> 0 \<and>
    syntax (keyset_handle data) = syntax_valid \<and> keysets (keyset_handle data) = available \<and>
    ds_records data = [] \<and> tech_contacts_ok contacts (tech_contacts data) \<and>
    dns_keys_ok usability (dns_keys data) \<and>
    (\<exists>reg db1. InfoRegistrarById L (registrar_id session) db = (Inr reg, db1) \<and>
      CreateKeyset L (keyset_handle data) (registrar_handle reg) (to_fred (dns_keys data))
        (tech_contacts data) (logd_request_id session) db1 =
        (Inr (created_id r, create_history_id r, crdate r), db'))"
proof -
  have reg: "registrar_id session \<noteq> 0"
    using create_keyset.success_has_session [OF assms(2)] .
  then have s: "is_session_registrar_valid session" by (simp add: is_session_registrar_valid_def)
  from create_keyset_by_verdict [OF assms(1) s, of data] assms(2)
  have v: "create_keyset_verdict syntax keysets contacts usability data = None"
    and c: "keyset_creation L data session db = (Inr r, db')"
    by (auto split: option.splits)
  from v have "syntax (keyset_handle data) = syntax_valid" "keysets (keyset_handle data) = available"
      "ds_records data = []" "tech_contacts_ok contacts (tech_contacts data)"
      "dns_keys_ok usability (dns_keys data)"
    by (cases "syntax (keyset_handle data)"; cases "keysets (keyset_handle data)";
        auto simp: create_keyset_verdict_def Let_def split: if_splits)+
  with reg c show ?thesis
    by (auto simp: keyset_creation_def op_inv)
qed

text \<open>When the handle is in order and the numbers of contacts and keys are, but some contact
  is not registered or repeated, or some key is wrong or repeated, the failure that reaches the
  client names no error at all: its set of extended errors is present and empty.\<close>

lemma create_keyset_details_lost:
  assumes "keyset_queries L db syntax keysets contacts usability"
    and "is_session_registrar_valid session"
    and "tech_contacts data \<noteq> []" and "dns_keys data \<noteq> []" and "ds_records data = []"
    and "length (tech_contacts data) \<le> 10" and "length (dns_keys data) \<le> 10"
    and "syntax (keyset_handle data) = syntax_valid" and "keysets (keyset_handle data) = available"
    and "\<not> (tech_contacts_ok contacts (tech_contacts data) \<and> dns_keys_ok usability (dns_keys data))"
  shows "\<exists>f. create_keyset L data session db = (Inl (EppFailure [f]), db) \<and>
    epp_result_code f = parameter_value_policy_error \<and> extended_errors f = Some {}"
proof -
  have "create_keyset_verdict syntax keysets contacts usability data =
      Some (add_unspecified_error (result_failure parameter_value_policy_error))"
    using assms(3-10) by (auto simp: create_keyset_verdict_def Let_def)
  then show ?thesis
    using create_keyset_by_verdict [OF assms(1,2), of data]
    by (simp add: epp_failure_def response_failure_def add_unspecified_error_def)
qed

section \<open>Update\<close>

text \<open>C2: when the registrar may update the keyset \<open>d\<close>, \<^verbatim>\<open>update_keyset\<close> either
  throws exactly the failure of \<open>update_keyset_verdict\<close> without a further change, or does exactly
  the modification.\<close>

theorem update_keyset_outcome:
  assumes "update_check_keyset_handle L (upd_keyset_handle data) (registrar_id session) db =
      (Inr (d, registrar), db')"
    and "keyset_queries L db' syntax keysets contacts usability"
    and "is_session_registrar_valid session"
    and "length (tech_contacts_rem data) < 2 ^ 16" and "length (dns_keys_rem data) < 2 ^ 16"
  shows "update_keyset L data session db =
    (case update_keyset_verdict contacts usability d data of
       Some f \<Rightarrow> (Inl (epp_failure f), db')
     | None \<Rightarrow> keyset_modification L data session d registrar db')"
  using assms by (rule update_keyset_by_verdict)

theorem update_keyset_outcome_witness:
  "update_keyset (sample []) (sample_update [] [''C1''] []) (sample_session 2) [] = (Inl (fail_with parameter_value_policy_error), [])"
proof -
  let ?data = "sample_update [] [''C1''] []"
  have "update_keyset_verdict sample_contacts sample_usability sample_keyset ?data =
      Some (result_failure parameter_value_policy_error)"
    by (simp add: update_keyset_verdict_def sample_update_def tech_number_wrong_def tech_vectors_short_def
        tech_members_ok_def number_in_limits_def sample_current Let_def)
  with update_keyset_outcome [OF sample_update_handle sample_queries sample_session_valid(2),
      of "[]" "[''C1'']" "[]" "[]"]
  show ?thesis by (simp add: sample_update_def)
qed

text \<open>C3: after an update that changes contacts or keys, the contacts of the keyset without the
  removed and with the added ones number 1 to 10, counted without regard to case, and so do its
  keys; every added contact is registered, every added key correct, and nothing is added that the
  keyset has or removed that it has not.\<close>

theorem update_keyset_sound:
  assumes "update_check_keyset_handle L (upd_keyset_handle data) (registrar_id session) db =
      (Inr (d, registrar), db1)"
    and "keyset_queries L db1 syntax keysets contacts usability"
    and "update_keyset L data session db = (Inr r, db')"
    and "length (tech_contacts_rem data) < 2 ^ 16" and "length (dns_keys_rem data) < 2 ^ 16"
    and "card (current_handles d) < 2 ^ 15" and "card (current_keys d) < 2 ^ 15"
  shows "(tech_contacts_add data \<noteq> [] \<or> tech_contacts_rem data \<noteq> [] \<longrightarrow>
      tech_members_ok contacts d (tech_contacts_add data) (tech_contacts_rem data) \<and>
      card (current_handles d \<union> ignore_case_key ` set (tech_contacts_add data)
        - ignore_case_key ` set (tech_contacts_rem data)) \<in> {1..10}) \<and>
    (dns_keys_add data \<noteq> [] \<or> dns_keys_rem data \<noteq> [] \<longrightarrow>
      key_members_ok usability d (dns_keys_add data) (dns_keys_rem data) \<and>
      card (current_keys d \<union> set (dns_keys_add data) - set (dns_keys_rem data)) \<in> {1..10}) \<and>
    ds_records_add data = [] \<and> ds_records_rem data = []"
proof -
  have s: "is_session_registrar_valid session"
    using update_keyset.success_has_session [OF assms(3)] by (simp add: is_session_registrar_valid_def)
  have v: "update_keyset_verdict contacts usability d data = None"
    using update_keyset_by_verdict [OF assms(1,2) s assms(4,5)] assms(3) by (auto split: option.splits)
  then have t: "tech_update_ok contacts d (tech_contacts_add data) (tech_contacts_rem data)"
    and k: "key_update_ok usability d (dns_keys_add data) (dns_keys_rem data)"
    and ds: "ds_records_add data = [] \<and> ds_records_rem data = []"
    by (auto simp: update_keyset_verdict_def Let_def split: if_splits)
  with tech_update_number [OF t assms(6)] key_update_number [OF k assms(7)]
  show ?thesis by blast
qed

theorem update_keyset_sound_witness:
  "card (current_handles sample_keyset \<union> ignore_case_key ` set [''C2'']) \<in> {1..10} \<and>
   update_keyset (sample []) (sample_update [''C2''] [] [sample_key 256]) (sample_session 2) [] =
     (Inr \<lparr>updated_id = 7, update_history_id = 71\<rparr>, [''update KEY1''])"
  using update_keyset_sound [OF sample_update_handle sample_queries sample_update_run [of "[]"]]
    sample_update_run [of "[]"] sample_current_small
  by (auto simp: sample_update_def)

text \<open>Only the sponsoring registrar and the system registrar update a keyset, and the former
  only while no state prohibits it.\<close>

lemma update_keyset_authorized:
  assumes "update_keyset L data session db = (Inr r, db')"
  shows "\<exists>reg d db1 db2. InfoRegistrarById L (registrar_id session) db = (Inr reg, db1) \<and>
    InfoKeysetByHandle L True (upd_keyset_handle data) db1 = (Inr d, db2) \<and> updated_id r = ks_id d \<and>
    (is_system reg \<or>
     ks_sponsoring_registrar_handle d = registrar_handle reg \<and>
     (\<exists>db3 db4 db5 states. LockObjectStateRequestLock L (ks_id d) db2 = (Inr (), db3) \<and>
        PerformObjectStateRequest L (ks_id d) db3 = (Inr (), db4) \<and>
        GetObjectStates L (ks_id d) db4 = (Inr states, db5) \<and>
        \<not> ObjectStatesInfo_presents L states Object_State_server_update_prohibited \<and>
        \<not> ObjectStatesInfo_presents L states Object_State_delete_candidate))"
proof -
  obtain d registrar db1 where
      h: "update_check_keyset_handle L (upd_keyset_handle data) (registrar_id session) db = (Inr (d, registrar), db1)"
    and i: "updated_id r = ks_id d"
    using assms unfolding update_keyset_def by (auto simp: op_inv Let_def case_prod_beta)
  from update_check_keyset_handle_returns [OF h] i show ?thesis by blast
qed

text \<open>When no contact is to be added, whatever is wrong with the contacts to remove or with
  the keys, the failure thrown, unless it is that of a limit, names no error: its set of
  extended errors is present and empty.\<close>

lemma update_keyset_details_lost:
  assumes "update_check_keyset_handle L (upd_keyset_handle data) (registrar_id session) db =
      (Inr (d, registrar), db1)"
    and "keyset_queries L db1 syntax keysets contacts usability"
    and "is_session_registrar_valid session"
    and "length (tech_contacts_rem data) < 2 ^ 16" and "length (dns_keys_rem data) < 2 ^ 16"
    and "tech_contacts_add data = []" and "ds_records_add data = []" and "ds_records_rem data = []"
    and "\<not> tech_number_wrong contacts d [] (tech_contacts_rem data)"
    and "\<not> key_limit_exceeded usability d (dns_keys_add data) (dns_keys_rem data)"
    and "\<not> (tech_update_ok contacts d [] (tech_contacts_rem data) \<and>
      key_update_ok usability d (dns_keys_add data) (dns_keys_rem data))"
  shows "\<exists>f. update_keyset L data session db = (Inl (EppFailure [f]), db1) \<and>
    epp_result_code f = parameter_value_policy_error \<and> extended_errors f = Some {}"
proof -
  have "tech_add_errors contacts d [] (tech_contacts_rem data) = {}"
    by (simp add: tech_add_errors_def scan_errors_def)
  then have "update_keyset_verdict contacts usability d data =
      Some (add_unspecified_error (result_failure parameter_value_policy_error))"
    using assms(6-11) by (auto simp: update_keyset_verdict_def Let_def add_extended_errors_singleton)
  then show ?thesis
    using update_keyset_by_verdict [OF assms(1-5)]
    by (simp add: epp_failure_def response_failure_def add_unspecified_error_def)
qed

text \<open>Two handles of registered contacts that differ in case only pass the check of
  \<^verbatim>\<open>create_keyset\<close> and fail that of \<^verbatim>\<open>update_keyset\<close>: the former compares
  handles as strings, the latter without regard to case.\<close>

lemma contact_case_divergence:
  assumes "keyset_queries L db syntax keysets contacts usability"
    and "contacts h = registered" and "contacts h' = registered"
    and "h \<noteq> h'" and "to_lower_copy h = to_lower_copy h'" and "NUL \<notin> set h" and "NUL \<notin> set h'"
  shows "(\<exists>m p. check_tech_contacts L [h, h'] (result_failure required_parameter_missing)
      (result_failure parameter_value_policy_error) db = (Inr (True, m, p), db)) \<and>
    (\<exists>p. update_check_tech_contacts L [h, h'] [] d (result_failure parameter_value_policy_error) db =
      (Inr (False, p), db))"
proof
  have "tech_contacts_ok contacts [h, h']"
    using assms(2-4) by (simp add: tech_contacts_ok_def)
  then show "\<exists>m p. check_tech_contacts L [h, h'] (result_failure required_parameter_missing)
      (result_failure parameter_value_policy_error) db = (Inr (True, m, p), db)"
    using check_tech_contacts_run [OF keyset_queriesD(3) [OF assms(1)],
        of "result_failure parameter_value_policy_error" "[h, h']" "result_failure required_parameter_missing"]
    by auto
  have "ignore_case_key h = ignore_case_key h'"
    using assms(5) ignore_case_key_plain [OF assms(6,7)] by simp
  then have "\<not> tech_update_ok contacts d [h, h'] []"
    by (simp add: tech_update_ok_def tech_members_ok_def)
  then show "\<exists>p. update_check_tech_contacts L [h, h'] [] d (result_failure parameter_value_policy_error) db =
      (Inr (False, p), db)"
    using update_check_tech_contacts_run [OF keyset_queriesD(3) [OF assms(1)],
        of "result_failure parameter_value_policy_error" "[]" "[h, h']" d]
    by auto
qed

text \<open>The comparison of handles in \<^verbatim>\<open>update_keyset\<close> is a strict weak order, as
  \<^verbatim>\<open>std::set\<close> and \<^verbatim>\<open>std::map\<close> require, and two handles without a zero byte are the
  same to a container exactly when they are equal up to case.\<close>

lemma CompareIgnoringCase_order:
  "\<not> CompareIgnoringCase a a \<and>
   (CompareIgnoringCase a b \<and> CompareIgnoringCase b c \<longrightarrow> CompareIgnoringCase a c) \<and>
   (CompareIgnoringCase a c \<longrightarrow> CompareIgnoringCase a b \<or> CompareIgnoringCase b c) \<and>
   (NUL \<notin> set a \<and> NUL \<notin> set b \<longrightarrow>
      (equivalent CompareIgnoringCase a b \<longleftrightarrow> to_lower_copy a = to_lower_copy b))"
  using ignoring_case.less_irrefl [of a] ignoring_case.less_trans [of a b c] ignoring_case.less_split [of a c b]
    ignoring_case.equivalent_key [of a b] ignore_case_key_plain [of a b]
  by blast

section \<open>Keys\<close>

text \<open>C4: the text of a DNS key is accepted exactly when, white space apart, it is a sequence of
  base64 characters followed by at most two pads, of a length divisible by four; the counters
  are 32 bits wide and the statement holds for text of any length. (Empty text is accepted.)\<close>

theorem check_key_decides:
  "check_key k = CheckKey_ok \<longleftrightarrow>
     (\<exists>d p. remove_spaces (get_key k) = d @ replicate p (CHR ''='') \<and>
        list_all is_base64_data_character d \<and> p \<le> 2 \<and> (length d + p) mod 4 = 0)"
proof -
  have "length (remove_spaces (get_key k)) = length d + p"
    if "remove_spaces (get_key k) = d @ replicate p (CHR ''='')" for d p
    using that by simp
  then show ?thesis
    unfolding check_key_ok_iff base64_shape_def by (metis add_0 less_numeral_extra(3))
qed

text \<open>The comparison of DNS keys orders them totally and identifies equal keys only, so that
  the containers of keys are sets of keys and \<^verbatim>\<open>operator==\<close> is equality.\<close>

lemma dns_key_order:
  "(dns_key_less a b \<or> a = b \<or> dns_key_less b a) \<and> \<not> (dns_key_less a b \<and> dns_key_less b a) \<and>
   (dns_key_eq a b \<longleftrightarrow> a = b) \<and>
   (dns_key_less a b \<and> dns_key_less b c \<longrightarrow> dns_key_less a c)"
proof -
  have "\<not> (dns_key_less a b \<and> dns_key_less b a)"
    using dns_key.less_trans [of a b a] dns_key.less_irrefl [of a] by blast
  with dns_key_equivalent [of a b] dns_key.less_trans [of a b c] show ?thesis
    unfolding equivalent_def dns_key_eq_def by blast
qed

text \<open>The memory of \<^verbatim>\<open>AlgValidator\<close> is transparent: as long as it holds answers of
  LibFred only, a call returns LibFred's answer for the algorithm, leaves the database alone and
  keeps the memory that way.\<close>

lemma alg_validator_transparent:
  assumes "\<And>a. reads (q a) db (usability a)" and "alg_memory_ok usability m"
  shows "\<exists>m'. is_alg_correct q m k db = (Inr (usability (get_alg k) = usable, m'), db) \<and>
    alg_memory_ok usability m' \<and> m' (get_alg k) = Some (usability (get_alg k) = usable)"
proof (cases "m (get_alg k)")
  case None
  then have "is_alg_correct q m k db =
      (Inr (usability (get_alg k) = usable, m(get_alg k \<mapsto> (usability (get_alg k) = usable))), db)"
    using assms(1) [of "get_alg k"] by (simp add: is_alg_correct_def op_simps Let_def)
  with assms(2) show ?thesis by (auto simp: alg_memory_ok_def)
next
  case (Some b)
  with assms(2) show ?thesis
    by (auto simp: is_alg_correct_def op_simps Let_def alg_memory_ok_def)
qed

section \<open>Deletion, transfer, information, availability\<close>

text \<open>A keyset is deleted only by its registrar or the system registrar, never while it is
  linked, and by its registrar never while a state prohibits it; the states are examined after
  the pending state requests are performed, and the command returns the last history id of the
  keyset.\<close>

lemma delete_keyset_permitted:
  assumes "delete_keyset L h session db = (Inr history_id, db')"
  shows "\<exists>d r states db1 db2 db3 db4 db5.
    InfoKeysetByHandle L True h db = (Inr d, db1) \<and>
    InfoRegistrarById L (registrar_id session) db1 = (Inr r, db2) \<and>
    LockObjectStateRequestLock L (ks_id d) db2 = (Inr (), db3) \<and>
    PerformObjectStateRequest L (ks_id d) db3 = (Inr (), db4) \<and>
    GetObjectStates L (ks_id d) db4 = (Inr states, db5) \<and>
    delete_permitted L r d states \<and>
    DeleteKeysetByHandle L h db5 = (Inr (), db') \<and> history_id = ks_historyid d"
  using assms by (rule delete_keyset_returns)

text \<open>A keyset is transferred only to another registrar and only with the password LibFred
  accepts, for an ordinary registrar never while a state prohibits it, and a poll message about
  it is created in the same transaction.\<close>

lemma transfer_keyset_permitted:
  assumes "transfer_keyset L h pw session db = (Inr history_id, db')"
  shows "\<exists>d r db1 db2 db3 db4.
    InfoKeysetByHandle L True h db = (Inr d, db1) \<and>
    InfoRegistrarById L (registrar_id session) db1 = (Inr r, db2) \<and>
    ks_sponsoring_registrar_handle d \<noteq> registrar_handle r \<and>
    (is_system r \<and> db3 = db2 \<or>
     (\<exists>dba dbb states. LockObjectStateRequestLock L (ks_id d) db2 = (Inr (), dba) \<and>
        PerformObjectStateRequest L (ks_id d) dba = (Inr (), dbb) \<and>
        GetObjectStates L (ks_id d) dbb = (Inr states, db3) \<and>
        \<not> ObjectStatesInfo_presents L states Object_State_server_transfer_prohibited \<and>
        \<not> ObjectStatesInfo_presents L states Object_State_delete_candidate)) \<and>
    TransferKeyset L (ks_id d) (registrar_handle r) pw (logd_request_id session) db3 = (Inr history_id, db4) \<and>
    CreatePollMessage L transfer_keyset_message history_id db4 = (Inr (), db')"
  using assms by (rule transfer_keyset_returns)

text \<open>The exceptions of LibFred during a transfer become the failures of the protocol: an
  unknown keyset, a wrong password, a registrar that sponsors the keyset already.\<close>

lemma transfer_keyset_errors:
  assumes "is_session_registrar_valid session"
    and "InfoKeysetByHandle L True h db = (Inr d, db1)"
    and "InfoRegistrarById L (registrar_id session) db1 = (Inr r, db2)" and "is_system r"
    and "ks_sponsoring_registrar_handle d \<noteq> registrar_handle r"
    and "TransferKeyset L (ks_id d) (registrar_handle r) pw (logd_request_id session) db2 = (Inl (LibfredException x), db3)"
  shows "transfer_keyset L h pw session db =
    (Inl (case x of UnknownKeysetId \<Rightarrow> fail_with object_does_not_exist
          | IncorrectAuthInfoPw \<Rightarrow> fail_with invalid_authorization_information
          | NewRegistrarIsAlreadySponsoring \<Rightarrow> fail_with object_is_not_eligible_for_transfer
          | InfoKeysetByHandleException True \<Rightarrow> fail_with object_does_not_exist
          | _ \<Rightarrow> LibfredException x), db3)"
  using assms
  by (simp add: transfer_keyset_def op_simps Let_def translate_transfer_keyset_def
      split: libfred_exception.split bool.split)

text \<open>Information on a keyset is given without a password or with one LibFred accepts; the
  answer holds the keys and contacts of the keyset, and as its states exactly the external
  states of the object that a keyset knows.\<close>

lemma info_keyset_answer:
  assumes "info_keyset L h pw session db = (Inr out, db')"
  shows "\<exists>d states db1 db2.
    InfoKeysetByHandle L False h db = (Inr d, db1) \<and>
    GetObjectStates L (ks_id d) db1 = (Inr states, db2) \<and>
    (password_value pw = [] \<and> db' = db2 \<or>
     (\<exists>n. CheckAuthinfo L (ks_id d) (password_value pw) db2 = (Inr n, db') \<and> 0 < n)) \<and>
    out_handle out = ks_handle d \<and>
    out_dns_keys out = dns_key_of_fred ` set (ks_dns_keys d) \<and>
    out_tech_contacts out = set (ks_tech_contacts d) \<and>
    out_states out = {v. \<exists>x \<in> set states. is_external x \<and>
      object_state_from_db_handle L (state_name x) = Inr (keyset_status_to_object_state v)}"
proof -
  obtain d states db1 db2 where run: "InfoKeysetByHandle L False h db = (Inr d, db1)"
      "GetObjectStates L (ks_id d) db1 = (Inr states, db2)"
      "password_value pw = [] \<and> db' = db2 \<or>
        (\<exists>n. CheckAuthinfo L (ks_id d) (password_value pw) db2 = (Inr n, db') \<and> 0 < n)"
    and out: "get_info_keyset_output (object_state_from_db_handle L) d states = Inr out"
    using info_keyset_returns [OF assms] by blast
  from get_info_keyset_output_Inr [OF out] run show ?thesis
    by (auto simp: keyset_status_roundtrip)
qed

text \<open>\<^verbatim>\<open>check_keyset\<close> answers for the requested handles and no other, changes nothing,
  and reports no obstruction for a handle exactly when the check of \<^verbatim>\<open>create_keyset\<close>
  accepts that handle.\<close>

lemma check_keyset_agrees_with_create:
  assumes "keyset_queries L db syntax keysets contacts usability" and "is_session_registrar_valid session"
  shows "\<exists>result. check_keyset L hs session db = (Inr result, db) \<and>
    (\<forall>h. map_find string_less h result \<noteq> None \<longleftrightarrow> h \<in> set hs) \<and>
    (\<forall>h. map_find string_less h result = Some None \<longleftrightarrow>
      h \<in> set hs \<and> (\<exists>rest. check_keyset_handle L h e p s db = (Inr (True, rest), db)))"
proof -
  obtain result where r: "check_keyset L hs session db = (Inr result, db)"
      "\<And>h. map_find string_less h result =
        (if h \<in> set hs then Some (keyset_handle_state_to_check_result (syntax h) (keysets h)) else None)"
    using check_keyset_run [OF assms] by blast
  have "(\<exists>rest. check_keyset_handle L h e p s db = (Inr (True, rest), db)) \<longleftrightarrow>
      syntax h = syntax_valid \<and> keysets h = available" for h
    unfolding check_keyset_handle_run [OF assms(1)] by auto
  with r show ?thesis by (auto simp: obstruction_None_iff)
qed

section \<open>The session\<close>

section \<open>The localized commands\<close>

text \<open>A localized creation that succeeds has stored exactly what the command did and the
  committed notification, if one was due; after the commit nothing makes it fail.\<close>

lemma create_keyset_stored:
  assumes "create_keyset_localized L D data session nd db = (Inr q, db')"
  shows "\<exists>r response w1 w2 stored. create_keyset L data session db = (Inr r, w1) \<and>
    response_success_localized D command_completed_successfully (lang session) w1 = (Inr response, w2) \<and>
    commit_transaction D w2 = Inr stored \<and>
    q = \<lparr>create_response = response, create_response_crdate = crdate r\<rparr> \<and>
    (db' = stored \<or> notification_due L session nd stored \<and>
      (\<exists>reg n1 n2. InfoRegistrarById L (registrar_id session) stored = (Inr reg, n1) \<and>
         enqueue_notification D notified_created (registrar_id session) (create_history_id r)
           (server_transaction_handle session) n1 = (Inr (), n2) \<and>
         commit_transaction D n2 = Inr db'))"
proof -
  obtain r response w1 w2 stored where run: "create_keyset L data session db = (Inr r, w1)"
      "response_success_localized D command_completed_successfully (lang session) w1 = (Inr response, w2)"
      "commit_transaction D w2 = Inr stored"
      "q = \<lparr>create_response = response, create_response_crdate = crdate r\<rparr>"
    and n: "conditionally_enqueue_notification L D notified_created (create_history_id r) session nd stored =
      (Inr (), db')"
    using create_keyset_localized.success_stored [OF assms] by blast
  from conditionally_enqueue_notification_change [OF n] run show ?thesis by blast
qed

text \<open>A failure of the inner command reaches the client: a deletion of an unknown keyset is
  answered with the description of \<open>object_does_not_exist\<close> in the language of the session.\<close>

lemma delete_unknown_keyset_reported:
  assumes "is_session_registrar_valid session" and "OperationContextCreator D db = Inr u"
    and "InfoKeysetByHandle L True h db = (Inl (LibfredException (InfoKeysetByHandleException True)), w)"
    and "response_failure_localized D [result_failure object_does_not_exist] (lang session) db = (Inr localized, w')"
  shows "delete_keyset_localized L D h session nd db = (Inl (FailureLocalized localized), db)"
proof -
  have "delete_keyset L h session db = (Inl (EppFailure [result_failure object_does_not_exist]), w)"
    using assms(1,3)
    by (simp add: delete_keyset_def op_simps translate_delete_keyset_def epp_failure_def response_failure_def)
  with assms(2,4) show ?thesis by (intro delete_keyset_localized.failure_reported)
qed

text \<open>The localized availability check stores nothing, whatever happens.\<close>

lemma check_keyset_localized_stores_nothing:
  "snd (check_keyset_localized L D hs session db) = db"
proof -
  let ?m = "bindE (check_keyset L hs session) (\<lambda>results.
     bindE (response_success_localized D command_completed_successfully (lang session)) (\<lambda>response.
     bindE (localize_check_results D keyset_obstruction_to_reason keyset_obstruction_from_reason results (lang session))
       (\<lambda>localized. returnE (response, localized))))"
  have "check_keyset_localized L D hs session = try_localized D (lang session) (with_context D (on_working ?m))"
    unfolding check_keyset_localized_def by (subst returnE_on_working) (simp only: bindE_on_working)
  moreover have "snd (with_context D (on_working ?m) db) = db" by (rule with_context_uncommitted)
  ultimately show ?thesis using try_localized_stored by metis
qed

text \<open>Queueing a notification never fails, and changes the stored database only when a
  notification is due and then by exactly the queued notification.\<close>

lemma notification_harmless:
  "\<exists>db'. conditionally_enqueue_notification L D event hist session nd db = (Inr (), db') \<and>
    (db' = db \<or> notification_due L session nd db \<and>
      (\<exists>reg w1 w2. InfoRegistrarById L (registrar_id session) db = (Inr reg, w1) \<and>
         enqueue_notification D event (registrar_id session) hist (server_transaction_handle session) w1 = (Inr (), w2) \<and>
         commit_transaction D w2 = Inr db'))"
proof -
  obtain db' where run: "conditionally_enqueue_notification L D event hist session nd db = (Inr (), db')"
    by (metis conditionally_enqueue_notification_returns)
  with conditionally_enqueue_notification_change [OF run] show ?thesis by blast
qed

end
