(* ===== verification/Indexed_Check.thy ===== *)
theory Indexed_Check
  imports Epp_Session
begin

text \<open>
  The loops of the nsset commands: a vector is traversed by a \<^verbatim>\<open>std::size_t\<close> index, what
  was seen is remembered in containers, and what is wrong with an element is added to the errors
  under its position, converted by \<^verbatim>\<open>boost::numeric_cast<unsigned short>\<close>, which throws
  when the position does not fit. The locale \<open>indexed_check\<close> states what one turn does; its
  result is the set of all errors and the moment at which the collection stays empty.
\<close>

fun for_indexed :: "('a \<Rightarrow> nat \<Rightarrow> 'acc \<Rightarrow> ('db, 'e, 'acc) op) \<Rightarrow> 'a list \<Rightarrow> nat \<Rightarrow> 'acc \<Rightarrow>
    ('db, 'e, 'acc) op" where
  "for_indexed body [] i acc = returnE acc"
| "for_indexed body (x # xs) i acc =
     bindE (body x i acc) (\<lambda>acc'. for_indexed body xs (Suc i) acc')"

definition numeric_cast_u16 :: "nat \<Rightarrow> exn + u16" where
  "numeric_cast_u16 n =
     (if n < 2 ^ 16 then Inr (word_of_nat n) else Inl (StdException ''bad_numeric_cast''))"

text \<open>\<^verbatim>\<open>errors.add_extended_error(of_vector_parameter(p, numeric_cast<unsigned short>(i), r))\<close>\<close>

definition add_error_at ::
  "Param \<Rightarrow> nat \<Rightarrow> Reason \<Rightarrow> EppResultFailure \<Rightarrow> ('db, exn, EppResultFailure) op" where
  "add_error_at p i r errors =
     bindE (liftE (numeric_cast_u16 i)) (\<lambda>idx.
       returnE (add_extended_error (of_vector_parameter p idx r) errors))"

definition error_at :: "Param \<Rightarrow> nat \<Rightarrow> Reason \<Rightarrow> EppExtendedError" where
  "error_at p i r = of_vector_parameter p (word_of_nat i) r"

lemma add_error_at_run [op_simps]:
  "i < 2 ^ 16 \<Longrightarrow> add_error_at p i r f db = (Inr (add_extended_error (error_at p i r) f), db)"
  by (simp add: add_error_at_def numeric_cast_u16_def error_at_def op_simps)

lemma add_error_at_throws:
  "2 ^ 16 \<le> i \<Longrightarrow> add_error_at p i r f db = (Inl (StdException ''bad_numeric_cast''), db)"
  by (simp add: add_error_at_def numeric_cast_u16_def op_simps)

text \<open>\<^verbatim>\<open>if (cond) { add the error }\<close>\<close>

definition add_error_if ::
  "bool \<Rightarrow> Param \<Rightarrow> nat \<Rightarrow> Reason \<Rightarrow> EppResultFailure \<Rightarrow> ('db, exn, EppResultFailure) op" where
  "add_error_if b p i r errors = (if b then add_error_at p i r errors else returnE errors)"

lemma add_error_if_run [op_simps]:
  "i < 2 ^ 16 \<Longrightarrow> add_error_if b p i r f db =
     (Inr (if b then add_extended_error (error_at p i r) f else f), db)"
  by (simp add: add_error_if_def op_simps)

section \<open>What a step adds\<close>

text \<open>\<open>f'\<close> is \<open>f\<close> with the errors \<open>X\<close> added one by one.\<close>

definition extends :: "EppExtendedError set \<Rightarrow> EppResultFailure \<Rightarrow> EppResultFailure \<Rightarrow> bool" where
  "extends X f f' \<longleftrightarrow>
     errors_of f' = errors_of f \<union> X \<and> epp_result_code f' = epp_result_code f \<and>
     (failure_empty f' \<longleftrightarrow> failure_empty f \<and> X = {})"

lemma extends_refl: "extends {} f f"
  by (simp add: extends_def)

lemma extends_add: "extends {e} f (add_extended_error e f)"
  by (simp add: extends_def)

lemma extends_if: "extends (if b then {e} else {}) f (if b then add_extended_error e f else f)"
  by (simp add: extends_def)

lemma extends_trans: "extends X f g \<Longrightarrow> extends Y g h \<Longrightarrow> extends (X \<union> Y) f h"
  by (auto simp: extends_def)

lemma extends_result_failure:
  "extends X (result_failure c) f \<Longrightarrow>
   f = (if X = {} then result_failure c else add_extended_errors X (result_failure c))"
  by (rule result_failure_eqI) (auto simp: extends_def)

section \<open>The loop\<close>

fun collected :: "('a \<Rightarrow> nat \<Rightarrow> 's \<Rightarrow> EppExtendedError set) \<Rightarrow> ('a \<Rightarrow> 's \<Rightarrow> 's) \<Rightarrow> 'a list \<Rightarrow> nat \<Rightarrow> 's \<Rightarrow>
    EppExtendedError set" where
  "collected errs upd [] i s = {}"
| "collected errs upd (x # xs) i s = errs x i s \<union> collected errs upd xs (Suc i) (upd x s)"

fun all_pre :: "('a \<Rightarrow> nat \<Rightarrow> 's \<Rightarrow> bool) \<Rightarrow> ('a \<Rightarrow> 's \<Rightarrow> 's) \<Rightarrow> 'a list \<Rightarrow> nat \<Rightarrow> 's \<Rightarrow> bool" where
  "all_pre pre upd [] i s \<longleftrightarrow> True"
| "all_pre pre upd (x # xs) i s \<longleftrightarrow> pre x i s \<and> all_pre pre upd xs (Suc i) (upd x s)"

text \<open>What is reported, by position: the state at a turn is made by the elements before it.\<close>

lemma collected_nth:
  "e \<in> collected errs upd xs i s \<longleftrightarrow>
   (\<exists>k < length xs. e \<in> errs (xs ! k) (i + k) (fold upd (take k xs) s))"
proof (induction xs arbitrary: i s)
  case (Cons x xs)
  have "(\<exists>k < Suc (length xs). P k) \<longleftrightarrow> P 0 \<or> (\<exists>k < length xs. P (Suc k))" for P
    by (auto simp: less_Suc_eq_0_disj)
  then show ?case by (simp add: Cons.IH)
qed simp

locale indexed_check =
  fixes body :: "'a \<Rightarrow> nat \<Rightarrow> 's \<times> EppResultFailure \<Rightarrow> ('db, exn, 's \<times> EppResultFailure) op"
    and db :: 'db
    and pre :: "'a \<Rightarrow> nat \<Rightarrow> 's \<Rightarrow> bool"
    and errs :: "'a \<Rightarrow> nat \<Rightarrow> 's \<Rightarrow> EppExtendedError set"
    and upd :: "'a \<Rightarrow> 's \<Rightarrow> 's"
  assumes turn: "pre x i s \<Longrightarrow>
    \<exists>f'. body x i (s, f) db = (Inr (upd x s, f'), db) \<and> extends (errs x i s) f f'"
begin

lemma run:
  "all_pre pre upd xs i s \<Longrightarrow>
   \<exists>f'. for_indexed body xs i (s, f) db = (Inr (fold upd xs s, f'), db) \<and>
     extends (collected errs upd xs i s) f f'"
proof (induction xs arbitrary: i s f)
  case Nil
  then show ?case by (simp add: op_simps extends_refl)
next
  case (Cons x xs)
  then obtain f1 where 1: "body x i (s, f) db = (Inr (upd x s, f1), db)" "extends (errs x i s) f f1"
    using turn by fastforce
  obtain f2 where 2: "for_indexed body xs (Suc i) (upd x s, f1) db = (Inr (fold upd xs (upd x s), f2), db)"
      "extends (collected errs upd xs (Suc i) (upd x s)) f1 f2"
    using Cons by fastforce
  from 1 2 extends_trans [OF 1(2) 2(2)] show ?case by (simp add: op_simps)
qed

end

lemma all_pre_index: "i + length xs \<le> n \<Longrightarrow> all_pre (\<lambda>x i s. i < n) upd xs i s"
  by (induction xs arbitrary: i s) auto

section \<open>Loops that look for repeated elements\<close>

text \<open>
  An element that \<open>bad\<close> says is wrong is reported for that; a name that was remembered
  before is reported as repeated. \<open>keep\<close> says which elements are remembered.
\<close>

definition remember :: "('a \<Rightarrow> bool) \<Rightarrow> ('a \<Rightarrow> 'k) \<Rightarrow> 'a \<Rightarrow> 'k set \<Rightarrow> 'k set" where
  "remember keep name x S = (if keep x then insert (name x) S else S)"

lemma collected_empty:
  assumes "\<And>x i S. errs x i S = {} \<longleftrightarrow> fine x \<and> (keep x \<longrightarrow> name x \<notin> S)" and "\<And>x. fine x \<Longrightarrow> keep x"
  shows "collected errs (remember keep name) xs i S = {} \<longleftrightarrow>
    (\<forall>x \<in> set xs. fine x) \<and> distinct (map name xs) \<and> name ` set xs \<inter> S = {}"
proof (induction xs arbitrary: i S)
  case (Cons x xs)
  then show ?case using assms by (auto simp: remember_def)
qed simp

lemma fold_remember: "fold (remember keep name) xs S = S \<union> name ` {x \<in> set xs. keep x}"
  by (induction xs arbitrary: S) (auto simp: remember_def)

lemma set_take_nth: "x \<in> set (take k xs) \<longleftrightarrow> (\<exists>j < k. j < length xs \<and> x = xs ! j)"
  by (auto simp: in_set_conv_nth)

end
