(* ===== verification/Nsset_Base.thy ===== *)
theory Nsset_Base
  imports Indexed_Check
begin

text \<open>
  What the nsset commands share: limits (\<^verbatim>\<open>nsset/impl/limits.hh\<close>), input, output and
  configuration data, status values, LibFred's operations on nssets, and the functions of
  \<^verbatim>\<open>nsset/impl/nsset.hh\<close>, \<^verbatim>\<open>.cc\<close> on hosts and their addresses.
\<close>

section \<open>Limits and data\<close>

definition max_nsset_tech_contacts :: nat where "max_nsset_tech_contacts = 10"
definition max_nsset_tech_check_level :: int where "max_nsset_tech_check_level = 10"
definition min_nsset_tech_check_level :: int where "min_nsset_tech_check_level = 0"

lemmas nsset_limits =
  max_nsset_tech_contacts_def max_nsset_tech_check_level_def min_nsset_tech_check_level_def

text \<open>
  \<^verbatim>\<open>short\<close> is a word read by \<open>sint\<close>. An address is a version 4 or a version 6
  address with its scope; the sources only compare addresses and pass them on.
\<close>

type_synonym i16 = "16 word"

datatype IpAddress = Address_v4 "32 word" | Address_v6 "128 word" u64

record DnsHostInput =
  host_fqdn :: string
  host_inet_addr :: "IpAddress option list"

record DnsHostOutput =
  out_fqdn :: string
  out_inet_addr :: "IpAddress list"

record CreateNssetInputData =
  nsset_handle :: string
  nsset_tech_contacts :: "string list"
  nsset_dns_hosts :: "DnsHostInput list"
  nsset_tech_check_level :: "i16 option"

record CreateNssetConfigData =
  rifd_epp_operations_charging :: bool
  default_tech_check_level :: u32
  min_hosts :: u32
  max_hosts :: u32

record CreateNssetResult =
  created_nsset_id :: u64
  nsset_create_history_id :: u64
  nsset_crdate :: ptime

record UpdateNssetInputData =
  upd_nsset_handle :: string
  upd_nsset_authinfopw :: "string option"
  dns_hosts_add :: "DnsHostInput list"
  dns_hosts_rem :: "DnsHostInput list"
  nsset_tech_contacts_add :: "string list"
  nsset_tech_contacts_rem :: "string list"
  upd_tech_check_level :: "i16 option"

record UpdateNssetConfigData =
  upd_rifd_epp_operations_charging :: bool
  upd_min_hosts :: u32
  upd_max_hosts :: u32

section \<open>Status values\<close>

datatype NssetStatusValue =
    NssetStatus_linked
  | NssetStatus_server_delete_prohibited
  | NssetStatus_server_transfer_prohibited
  | NssetStatus_server_update_prohibited
  | NssetStatus_delete_candidate

definition nsset_status_of_object_state :: "Object_State \<Rightarrow> exn + NssetStatusValue" where
  "nsset_status_of_object_state v =
     (case v of
        Object_State_delete_candidate \<Rightarrow> Inr NssetStatus_delete_candidate
      | Object_State_linked \<Rightarrow> Inr NssetStatus_linked
      | Object_State_server_delete_prohibited \<Rightarrow> Inr NssetStatus_server_delete_prohibited
      | Object_State_server_transfer_prohibited \<Rightarrow> Inr NssetStatus_server_transfer_prohibited
      | Object_State_server_update_prohibited \<Rightarrow> Inr NssetStatus_server_update_prohibited
      | _ \<Rightarrow> Inl (StdException ''value not convertible to Epp::Nsset::StatusValue::Enum''))"

definition nsset_status_to_object_state :: "NssetStatusValue \<Rightarrow> Object_State" where
  "nsset_status_to_object_state v =
     (case v of
        NssetStatus_delete_candidate \<Rightarrow> Object_State_delete_candidate
      | NssetStatus_linked \<Rightarrow> Object_State_linked
      | NssetStatus_server_delete_prohibited \<Rightarrow> Object_State_server_delete_prohibited
      | NssetStatus_server_transfer_prohibited \<Rightarrow> Object_State_server_transfer_prohibited
      | NssetStatus_server_update_prohibited \<Rightarrow> Object_State_server_update_prohibited)"

definition nsset_status_values :: "NssetStatusValue list" where
  "nsset_status_values =
     [NssetStatus_linked, NssetStatus_server_delete_prohibited,
      NssetStatus_server_transfer_prohibited, NssetStatus_server_update_prohibited,
      NssetStatus_delete_candidate]"

lemma set_nsset_status_values: "v \<in> set nsset_status_values"
  by (cases v) (simp_all add: nsset_status_values_def)

lemma nsset_status_roundtrip:
  "nsset_status_of_object_state s = Inr v \<longleftrightarrow> s = nsset_status_to_object_state v"
  by (cases s; cases v) (simp_all add: nsset_status_of_object_state_def nsset_status_to_object_state_def)

section \<open>LibFred's view of an nsset\<close>

record FredDnsHost =
  fred_fqdn :: string
  fred_inet_addr :: "IpAddress list"

record InfoNssetData =
  ns_id :: u64
  ns_historyid :: u64
  ns_handle :: string
  ns_roid :: string
  ns_sponsoring_registrar_handle :: string
  ns_create_registrar_handle :: string
  ns_update_registrar_handle :: "string option"
  ns_creation_time :: ptime
  ns_update_time :: "ptime option"
  ns_transfer_time :: "ptime option"
  ns_dns_hosts :: "FredDnsHost list"
  ns_tech_contacts :: "string list"
  ns_tech_check_level :: "i16 option"

text \<open>
  \<open>default_InfoNssetData\<close> is what its default constructor makes. \<open>select_prohibited\<close> is the
  column of the query of \<^verbatim>\<open>is_prohibited_ip_addr\<close>, each value converted to
  \<^verbatim>\<open>bool\<close>.
\<close>

record 'db libfred_nsset = "'db libfred" +
  Nsset_get_handle_syntax_validity :: "string \<Rightarrow> ('db, exn, SyntaxValidity) op"
  Nsset_get_handle_registrability :: "string \<Rightarrow> ('db, exn, Registrability) op"
  is_rfc1123_compliant_host_name :: "string \<Rightarrow> bool"
  rem_trailing_dot :: "string \<Rightarrow> string"
  find_zone_in_fqdn :: "string \<Rightarrow> ('db, exn, unit) op"
  select_prohibited :: "IpAddress \<Rightarrow> ('db, exn, bool list) op"
  default_InfoNssetData :: InfoNssetData
  InfoNssetByHandle :: "bool \<Rightarrow> string \<Rightarrow> ('db, exn, InfoNssetData) op"
  CreateNsset :: "string \<Rightarrow> string \<Rightarrow> i16 \<Rightarrow> FredDnsHost list \<Rightarrow> string list \<Rightarrow> u64 option \<Rightarrow>
    ('db, exn, u64 \<times> u64 \<times> ptime) op"
  UpdateNsset :: "string \<Rightarrow> string \<Rightarrow> string option \<Rightarrow> FredDnsHost list \<Rightarrow> string list \<Rightarrow>
    string list \<Rightarrow> string list \<Rightarrow> i16 option \<Rightarrow> u64 option \<Rightarrow> ('db, exn, u64) op"
  DeleteNssetByHandle :: "string \<Rightarrow> ('db, exn, unit) op"
  TransferNsset :: "u64 \<Rightarrow> string \<Rightarrow> string \<Rightarrow> u64 option \<Rightarrow> ('db, exn, u64) op"

section \<open>Hosts and addresses\<close>

definition is_prohibited_ip_addr ::
  "('db, 'x) libfred_nsset_scheme \<Rightarrow> IpAddress option \<Rightarrow> ('db, exn, bool) op" where
  "is_prohibited_ip_addr L ipaddr =
     (case ipaddr of
        None \<Rightarrow> returnE True
      | Some a \<Rightarrow>
          bindE (select_prohibited L a) (\<lambda>ip_check.
          throw_if (1 < length ip_check) (StdException ''wrong sql query'') (
          if length ip_check = 1 \<and> hd ip_check then returnE True
          else returnE False)))"

definition make_ipaddrs :: "IpAddress option list \<Rightarrow> IpAddress list" where
  "make_ipaddrs data = concat (map (\<lambda>a. case a of None \<Rightarrow> [] | Some ip \<Rightarrow> [ip]) data)"

definition make_optional_ipaddrs :: "IpAddress list \<Rightarrow> IpAddress option list" where
  "make_optional_ipaddrs data = map Some data"

definition make_fred_dns_hosts :: "DnsHostInput list \<Rightarrow> FredDnsHost list" where
  "make_fred_dns_hosts data =
     map (\<lambda>host. \<lparr>fred_fqdn = host_fqdn host, fred_inet_addr = make_ipaddrs (host_inet_addr host)\<rparr>) data"

definition make_epp_dnshosts_output :: "FredDnsHost list \<Rightarrow> DnsHostOutput list" where
  "make_epp_dnshosts_output data =
     map (\<lambda>h. \<lparr>out_fqdn = fred_fqdn h, out_inet_addr = fred_inet_addr h\<rparr>) data"

text \<open>The loop that reports every address of a host outside the zones of the registry.\<close>

fun report_glue ::
  "'a list \<Rightarrow> nat \<Rightarrow> EppResultFailure \<Rightarrow> ('db, exn, EppResultFailure) op" where
  "report_glue [] position errors = returnE errors"
| "report_glue (a # as) position errors =
     bindE (add_error_at Param_nsset_dns_addr position Reason_ip_glue_not_allowed errors) (\<lambda>errors.
       report_glue as (Suc position) errors)"

definition check_disallowed_glue_ipaddrs ::
  "('db, 'x) libfred_nsset_scheme \<Rightarrow> DnsHostInput \<Rightarrow> nat \<Rightarrow> EppResultFailure \<Rightarrow>
     ('db, exn, EppResultFailure) op" where
  "check_disallowed_glue_ipaddrs L nsdata current_nsset_ipaddr_position errors =
     (if 0 < length (host_inet_addr nsdata)
      then
        let lower_dnshost_fqdn = to_lower_copy (host_fqdn nsdata) in
        catchE
          (bindE (find_zone_in_fqdn L (rem_trailing_dot L lower_dnshost_fqdn)) (\<lambda>_. returnE errors))
          (\<lambda>e. case e of
             LibfredException (ZoneException unknown_zone) \<Rightarrow>
               if unknown_zone = Some (rem_trailing_dot L lower_dnshost_fqdn)
               then report_glue (host_inet_addr nsdata) current_nsset_ipaddr_position errors
               else throwE e
           | _ \<Rightarrow> throwE e)
      else returnE errors)"

section \<open>What the questions about hosts answer\<close>

text \<open>
  The questions asked of LibFred only read: contacts are registered or not, an address is
  prohibited or not, the zone of a host is one of the registry's or is reported as unknown.
\<close>

definition nsset_queries ::
  "('db, 'x) libfred_nsset_scheme \<Rightarrow> 'db \<Rightarrow> (string \<Rightarrow> SyntaxValidity) \<Rightarrow> (string \<Rightarrow> Registrability) \<Rightarrow>
     (string \<Rightarrow> Registrability) \<Rightarrow> (IpAddress \<Rightarrow> bool) \<Rightarrow> (string \<Rightarrow> bool) \<Rightarrow> bool" where
  "nsset_queries L db syntax nssets contacts prohibited in_zone \<longleftrightarrow>
     (\<forall>h. reads (Nsset_get_handle_syntax_validity L h) db (syntax h)) \<and>
     (\<forall>h. reads (Nsset_get_handle_registrability L h) db (nssets h)) \<and>
     (\<forall>h. reads (Contact_get_handle_registrability L h) db (contacts h)) \<and>
     (\<forall>a. reads (select_prohibited L a) db [prohibited a]) \<and>
     (\<forall>n. find_zone_in_fqdn L n db =
        (if in_zone n then Inr () else Inl (LibfredException (ZoneException (Some n))), db))"

lemma nsset_queriesD:
  assumes "nsset_queries L db syntax nssets contacts prohibited in_zone"
  shows "reads (Nsset_get_handle_syntax_validity L h) db (syntax h)"
    and "reads (Nsset_get_handle_registrability L h) db (nssets h)"
    and "reads (Contact_get_handle_registrability L h) db (contacts h)"
    and "reads (select_prohibited L a) db [prohibited a]"
    and "find_zone_in_fqdn L n db =
      (if in_zone n then Inr () else Inl (LibfredException (ZoneException (Some n))), db)"
  using assms by (simp_all add: nsset_queries_def)

definition ip_prohibited :: "(IpAddress \<Rightarrow> bool) \<Rightarrow> IpAddress option \<Rightarrow> bool" where
  "ip_prohibited prohibited ip = (case ip of None \<Rightarrow> True | Some a \<Rightarrow> prohibited a)"

lemma is_prohibited_ip_addr_run:
  assumes "nsset_queries L db syntax nssets contacts prohibited in_zone"
  shows "is_prohibited_ip_addr L ip db = (Inr (ip_prohibited prohibited ip), db)"
proof (cases ip)
  case (Some a)
  then show ?thesis
    using nsset_queriesD(4) [OF assms, of a]
    by (simp add: is_prohibited_ip_addr_def ip_prohibited_def op_simps)
qed (simp add: is_prohibited_ip_addr_def ip_prohibited_def op_simps)

definition host_in_zone :: "('db, 'x) libfred_nsset_scheme \<Rightarrow> (string \<Rightarrow> bool) \<Rightarrow> DnsHostInput \<Rightarrow> bool" where
  "host_in_zone L in_zone host = in_zone (rem_trailing_dot L (to_lower_copy (host_fqdn host)))"

definition glue_errors :: "nat \<Rightarrow> nat \<Rightarrow> EppExtendedError set" where
  "glue_errors position n = (\<lambda>j. error_at Param_nsset_dns_addr (position + j) Reason_ip_glue_not_allowed) ` {..<n}"

lemma report_glue_run:
  "position + length as \<le> 2 ^ 16 \<Longrightarrow>
   \<exists>f'. report_glue as position f db = (Inr f', db) \<and> extends (glue_errors position (length as)) f f'"
proof (induction as arbitrary: position f)
  case Nil
  then show ?case by (simp add: op_simps glue_errors_def extends_refl)
next
  case (Cons a as)
  let ?e = "error_at Param_nsset_dns_addr position Reason_ip_glue_not_allowed"
  have split: "glue_errors position (length (a # as)) = {?e} \<union> glue_errors (Suc position) (length as)"
    by (auto simp: glue_errors_def lessThan_Suc_eq_insert_0 image_image)
  obtain f' where run: "report_glue as (Suc position) (add_extended_error ?e f) db = (Inr f', db)"
      and ext: "extends (glue_errors (Suc position) (length as)) (add_extended_error ?e f) f'"
    using Cons.IH [of "Suc position" "add_extended_error ?e f"] Cons.prems by auto
  have "add_error_at Param_nsset_dns_addr position Reason_ip_glue_not_allowed f db =
      (Inr (add_extended_error ?e f), db)"
    using Cons.prems by (intro add_error_at_run) simp
  then have "report_glue (a # as) position f db = (Inr f', db)"
    using run by (simp add: bindE_run_Inr)
  moreover have "extends (glue_errors position (length (a # as))) f f'"
    unfolding split using ext by (rule extends_trans [OF extends_add])
  ultimately show ?case by blast
qed

lemma check_disallowed_glue_ipaddrs_run:
  assumes "nsset_queries L db syntax nssets contacts prohibited in_zone"
    and "position + length (host_inet_addr host) \<le> 2 ^ 16"
  shows "\<exists>f'. check_disallowed_glue_ipaddrs L host position f db = (Inr f', db) \<and>
    extends (if host_in_zone L in_zone host then {} else glue_errors position (length (host_inet_addr host))) f f'"
proof (cases "0 < length (host_inet_addr host) \<and> \<not> host_in_zone L in_zone host")
  case True
  obtain f' where "report_glue (host_inet_addr host) position f db = (Inr f', db)"
      "extends (glue_errors position (length (host_inet_addr host))) f f'"
    using report_glue_run [OF assms(2), of f db] by auto
  with True nsset_queriesD(5) [OF assms(1)] show ?thesis
    by (simp add: check_disallowed_glue_ipaddrs_def host_in_zone_def op_simps Let_def)
next
  case False
  then have "glue_errors position (length (host_inet_addr host)) = {} \<or> host_in_zone L in_zone host"
    by (auto simp: glue_errors_def)
  with False nsset_queriesD(5) [OF assms(1)] show ?thesis
    by (auto simp: check_disallowed_glue_ipaddrs_def host_in_zone_def op_simps Let_def extends_refl)
qed

text \<open>Addresses that are all given survive the conversion to LibFred's hosts.\<close>

lemma make_ipaddrs_roundtrip: "make_ipaddrs (make_optional_ipaddrs ips) = ips"
  by (induction ips) (simp_all add: make_ipaddrs_def make_optional_ipaddrs_def)

lemma make_optional_roundtrip:
  "None \<notin> set as \<Longrightarrow> make_optional_ipaddrs (make_ipaddrs as) = as"
proof (induction as)
  case (Cons a as)
  then obtain ip where "a = Some ip" by (cases a) auto
  with Cons show ?case by (simp add: make_ipaddrs_def make_optional_ipaddrs_def)
qed (simp add: make_ipaddrs_def make_optional_ipaddrs_def)

end
