(* ===== verification/Nsset_Create.thy ===== *)
theory Nsset_Create
  imports Nsset_Base
begin

text \<open>
  The command \<^verbatim>\<open>create_nsset\<close> (\<^verbatim>\<open>nsset/create_nsset.cc\<close>). Its checks throw one
  after another; the loops over contacts and hosts collect errors, which are all reported.
\<close>

section \<open>The checks\<close>

text \<open>One turn of the loop over technical contacts; the state is \<^verbatim>\<open>tech_contact_duplicity\<close>.\<close>

definition nsset_tech_step ::
  "('db, 'x) libfred_nsset_scheme \<Rightarrow> string \<Rightarrow> nat \<Rightarrow> string set \<times> EppResultFailure \<Rightarrow>
     ('db, exn, string set \<times> EppResultFailure) op" where
  "nsset_tech_step L h i acc =
     (case acc of (tech_contact_duplicity, errors) \<Rightarrow>
        bindE (Contact_get_handle_registrability L h) (\<lambda>registrability.
        if registrability \<noteq> registered
        then bindE (add_error_at Param_nsset_tech i Reason_technical_contact_not_registered errors)
               (\<lambda>errors. returnE (tech_contact_duplicity, errors))
        else
          let upper = to_upper_copy h;
              inserted = (upper \<notin> tech_contact_duplicity);
              tech_contact_duplicity = insert upper tech_contact_duplicity in
          if inserted = False
          then bindE (add_error_at Param_nsset_tech i Reason_duplicated_contact errors)
                 (\<lambda>errors. returnE (tech_contact_duplicity, errors))
          else returnE (tech_contact_duplicity, errors)))"

text \<open>
  One turn of the loop over the addresses of a host; the index is the position of the address
  among all addresses, and the state \<^verbatim>\<open>dns_host_ip_duplicity\<close>.
\<close>

definition nsset_addr_step ::
  "('db, 'x) libfred_nsset_scheme \<Rightarrow> IpAddress option \<Rightarrow> nat \<Rightarrow> IpAddress set \<times> EppResultFailure \<Rightarrow>
     ('db, exn, IpAddress set \<times> EppResultFailure) op" where
  "nsset_addr_step L dnshostipaddr nsset_ipaddr_position acc =
     (case acc of (dns_host_ip_duplicity, errors) \<Rightarrow>
        bindE (is_prohibited_ip_addr L dnshostipaddr) (\<lambda>prohibited.
        if prohibited
        then bindE (add_error_at Param_nsset_dns_addr nsset_ipaddr_position Reason_bad_ip_address errors)
               (\<lambda>errors. returnE (dns_host_ip_duplicity, errors))
        else
          (case dnshostipaddr of
             None \<Rightarrow> returnE (dns_host_ip_duplicity, errors)
           | Some a \<Rightarrow>
               let inserted = (a \<notin> dns_host_ip_duplicity);
                   dns_host_ip_duplicity = insert a dns_host_ip_duplicity in
               if inserted = False
               then bindE (add_error_at Param_nsset_dns_addr nsset_ipaddr_position
                             Reason_duplicated_dns_address errors)
                      (\<lambda>errors. returnE (dns_host_ip_duplicity, errors))
               else returnE (dns_host_ip_duplicity, errors))))"

text \<open>
  One turn of the loop over the hosts; the state is \<^verbatim>\<open>nsset_ipaddr_position\<close> and
  \<^verbatim>\<open>dns_host_fqdn_duplicity\<close>.
\<close>

definition nsset_host_step ::
  "('db, 'x) libfred_nsset_scheme \<Rightarrow> DnsHostInput \<Rightarrow> nat \<Rightarrow> (nat \<times> string set) \<times> EppResultFailure \<Rightarrow>
     ('db, exn, (nat \<times> string set) \<times> EppResultFailure) op" where
  "nsset_host_step L host i acc =
     (case acc of ((nsset_ipaddr_position, dns_host_fqdn_duplicity), errors) \<Rightarrow>
        let lower_dnshost_fqdn = to_lower_copy (host_fqdn host) in
        bindE
          (if \<not> is_rfc1123_compliant_host_name L (host_fqdn host)
           then bindE (add_error_at Param_nsset_dns_name i Reason_bad_dns_name errors)
                  (\<lambda>errors. returnE (dns_host_fqdn_duplicity, errors))
           else
             let inserted = (lower_dnshost_fqdn \<notin> dns_host_fqdn_duplicity);
                 dns_host_fqdn_duplicity = insert lower_dnshost_fqdn dns_host_fqdn_duplicity in
             if inserted = False
             then bindE (add_error_at Param_nsset_dns_name i Reason_duplicated_dns_name errors)
                    (\<lambda>errors. returnE (dns_host_fqdn_duplicity, errors))
             else returnE (dns_host_fqdn_duplicity, errors))
          (\<lambda>(dns_host_fqdn_duplicity, errors).
        bindE (check_disallowed_glue_ipaddrs L host nsset_ipaddr_position errors) (\<lambda>errors.
        bindE (for_indexed (nsset_addr_step L) (host_inet_addr host) nsset_ipaddr_position ({}, errors))
          (\<lambda>(_, errors).
        returnE ((nsset_ipaddr_position + length (host_inet_addr host), dns_host_fqdn_duplicity), errors)))))"

section \<open>The command\<close>

text \<open>\<^verbatim>\<open>boost::numeric_cast<short>\<close> of an \<^verbatim>\<open>unsigned int\<close>.\<close>

definition numeric_cast_i16 :: "u32 \<Rightarrow> exn + i16" where
  "numeric_cast_i16 n =
     (if unat n < 2 ^ 15 then Inr (word_of_nat (unat n)) else Inl (StdException ''bad_numeric_cast''))"

definition translate_create_nsset :: "exn \<Rightarrow> ('db, exn, 'a) op" where
  "translate_create_nsset e =
     (case e of
        LibfredException (CreateNssetException unknown_registrar invalid_handle) \<Rightarrow>
          if unknown_registrar then throwE e
          else if invalid_handle then throwE (fail_with object_exists)
          else throwE e
      | _ \<Rightarrow> throwE e)"

lemma rethrows_translate_create_nsset [simp]: "rethrows translate_create_nsset"
  by (auto simp: rethrows_def translate_create_nsset_def throwE_def
      split: exn.split libfred_exception.split)

definition create_nsset ::
  "('db, 'x) libfred_nsset_scheme \<Rightarrow> CreateNssetInputData \<Rightarrow> CreateNssetConfigData \<Rightarrow> SessionData \<Rightarrow>
     ('db, exn, CreateNssetResult) op" where
  "create_nsset L data config session =
     with_session session (
     throw_if (nsset_tech_contacts data = []) (fail_with required_parameter_missing) (
     throw_if (max_nsset_tech_contacts < length (nsset_tech_contacts data))
       (fail_with parameter_value_policy_error) (
     throw_if (nsset_dns_hosts data = []) (fail_with required_parameter_missing) (
     throw_if (length (nsset_dns_hosts data) < unat (min_hosts config))
       (fail_with parameter_value_policy_error) (
     throw_if (unat (max_hosts config) < length (nsset_dns_hosts data))
       (fail_with parameter_value_policy_error) (
     bindE (Nsset_get_handle_syntax_validity L (nsset_handle data)) (\<lambda>validity.
     throw_if (validity \<noteq> syntax_valid)
       (epp_failure (add_extended_error
          (of_scalar_parameter Param_nsset_handle Reason_bad_format_nsset_handle)
          (result_failure parameter_value_syntax_error))) (
     bindE (Nsset_get_handle_registrability L (nsset_handle data)) (\<lambda>in_registry.
     throw_if (in_registry = registered) (fail_with object_exists) (
     throw_if (in_registry = in_protection_period)
       (epp_failure (add_extended_error
          (of_scalar_parameter Param_nsset_handle Reason_protected_period)
          (result_failure parameter_value_policy_error))) (
     bindE (for_indexed (nsset_tech_step L) (nsset_tech_contacts data) 0
              ({}, result_failure parameter_value_policy_error)) (\<lambda>(_, errors).
     throw_if (\<not> failure_empty errors) (epp_failure errors) (
     bindE (for_indexed (nsset_host_step L) (nsset_dns_hosts data) 0
              ((0, {}), result_failure parameter_value_policy_error)) (\<lambda>(_, errors).
     throw_if (\<not> failure_empty errors) (epp_failure errors) (
     bindE (case nsset_tech_check_level data of
              Some level \<Rightarrow> returnE level
            | None \<Rightarrow> liftE (numeric_cast_i16 (default_tech_check_level config))) (\<lambda>level.
     throw_if (max_nsset_tech_check_level < sint level \<or> sint level < min_nsset_tech_check_level)
       (fail_with parameter_value_range_error) (
     catchE
       (bindE (InfoRegistrarById L (registrar_id session)) (\<lambda>registrar.
        bindE (CreateNsset L (nsset_handle data) (registrar_handle registrar) level
                 (make_fred_dns_hosts (nsset_dns_hosts data)) (nsset_tech_contacts data)
                 (logd_request_id session))
          (\<lambda>(object_id, history_id, creation_time).
             returnE \<lparr>created_nsset_id = object_id, nsset_create_history_id = history_id,
                      nsset_crdate = creation_time\<rparr>)))
       translate_create_nsset)))))))))))))))))"

interpretation create_nsset: session_guarded "create_nsset L data config" for L data config
  by unfold_locales (simp add: create_nsset_def with_session_refuses)

section \<open>The loops\<close>

definition tech_errs :: "(string \<Rightarrow> Registrability) \<Rightarrow> string \<Rightarrow> nat \<Rightarrow> string set \<Rightarrow> EppExtendedError set" where
  "tech_errs contacts h i S =
     (if contacts h \<noteq> registered then {error_at Param_nsset_tech i Reason_technical_contact_not_registered}
      else if to_upper_copy h \<in> S then {error_at Param_nsset_tech i Reason_duplicated_contact} else {})"

lemma tech_loop:
  assumes "nsset_queries L db syntax nssets contacts prohibited in_zone"
  shows "indexed_check (nsset_tech_step L) db (\<lambda>x i s. i < 2 ^ 16) (tech_errs contacts)
    (remember (\<lambda>h. contacts h = registered) to_upper_copy)"
proof unfold_locales
  fix h i f and S :: "string set"
  assume "i < (2 :: nat) ^ 16"
  then show "\<exists>f'. nsset_tech_step L h i (S, f) db =
      (Inr (remember (\<lambda>h. contacts h = registered) to_upper_copy h S, f'), db) \<and> extends (tech_errs contacts h i S) f f'"
    using nsset_queriesD(3) [OF assms, of h]
    by (auto simp: nsset_tech_step_def op_simps tech_errs_def remember_def Let_def insert_absorb
        extends_refl extends_add)
qed

definition addr_errs :: "(IpAddress \<Rightarrow> bool) \<Rightarrow> IpAddress option \<Rightarrow> nat \<Rightarrow> IpAddress set \<Rightarrow> EppExtendedError set" where
  "addr_errs prohibited ip i S =
     (if ip_prohibited prohibited ip then {error_at Param_nsset_dns_addr i Reason_bad_ip_address}
      else if the ip \<in> S then {error_at Param_nsset_dns_addr i Reason_duplicated_dns_address} else {})"

lemma addr_loop:
  assumes "nsset_queries L db syntax nssets contacts prohibited in_zone"
  shows "indexed_check (nsset_addr_step L) db (\<lambda>x i s. i < 2 ^ 16) (addr_errs prohibited)
    (remember (\<lambda>ip. \<not> ip_prohibited prohibited ip) the)"
proof unfold_locales
  fix ip i f and S :: "IpAddress set"
  assume "i < (2 :: nat) ^ 16"
  then show "\<exists>f'. nsset_addr_step L ip i (S, f) db =
      (Inr (remember (\<lambda>ip. \<not> ip_prohibited prohibited ip) the ip S, f'), db) \<and> extends (addr_errs prohibited ip i S) f f'"
    using is_prohibited_ip_addr_run [OF assms, of ip]
    by (cases ip) (auto simp: nsset_addr_step_def op_simps addr_errs_def remember_def Let_def insert_absorb
        ip_prohibited_def extends_refl extends_add)
qed

text \<open>What is wrong with a host at index \<open>i\<close> whose addresses start at a position.\<close>

definition host_errs ::
  "('db, 'x) libfred_nsset_scheme \<Rightarrow> (IpAddress \<Rightarrow> bool) \<Rightarrow> (string \<Rightarrow> bool) \<Rightarrow> DnsHostInput \<Rightarrow> nat \<Rightarrow>
     nat \<times> string set \<Rightarrow> EppExtendedError set" where
  "host_errs L prohibited in_zone host i s =
     (if \<not> is_rfc1123_compliant_host_name L (host_fqdn host)
      then {error_at Param_nsset_dns_name i Reason_bad_dns_name}
      else if to_lower_copy (host_fqdn host) \<in> snd s
      then {error_at Param_nsset_dns_name i Reason_duplicated_dns_name} else {}) \<union>
     (if host_in_zone L in_zone host then {} else glue_errors (fst s) (length (host_inet_addr host))) \<union>
     collected (addr_errs prohibited) (remember (\<lambda>ip. \<not> ip_prohibited prohibited ip) the)
       (host_inet_addr host) (fst s) {}"

definition host_next :: "('db, 'x) libfred_nsset_scheme \<Rightarrow> DnsHostInput \<Rightarrow> nat \<times> string set \<Rightarrow> nat \<times> string set" where
  "host_next L host s =
     (fst s + length (host_inet_addr host),
      remember (\<lambda>h. is_rfc1123_compliant_host_name L (host_fqdn h)) (\<lambda>h. to_lower_copy (host_fqdn h)) host (snd s))"

lemma host_loop:
  assumes "nsset_queries L db syntax nssets contacts prohibited in_zone"
  shows "indexed_check (nsset_host_step L) db
    (\<lambda>host i s. i < 2 ^ 16 \<and> fst s + length (host_inet_addr host) \<le> 2 ^ 16)
    (host_errs L prohibited in_zone) (host_next L)"
proof unfold_locales
  fix host :: DnsHostInput and f and i :: nat and s :: "nat \<times> string set"
  assume pre: "i < 2 ^ 16 \<and> fst s + length (host_inet_addr host) \<le> 2 ^ 16"
  obtain pos S where s: "s = (pos, S)" by (cases s)
  let ?n = "if \<not> is_rfc1123_compliant_host_name L (host_fqdn host)
      then {error_at Param_nsset_dns_name i Reason_bad_dns_name}
      else if to_lower_copy (host_fqdn host) \<in> S
      then {error_at Param_nsset_dns_name i Reason_duplicated_dns_name} else {}"
  let ?f1 = "if \<not> is_rfc1123_compliant_host_name L (host_fqdn host)
      then add_extended_error (error_at Param_nsset_dns_name i Reason_bad_dns_name) f
      else if to_lower_copy (host_fqdn host) \<in> S
      then add_extended_error (error_at Param_nsset_dns_name i Reason_duplicated_dns_name) f else f"
  have e1: "extends ?n f ?f1" by (simp add: extends_refl extends_add)
  obtain f2 where r2: "check_disallowed_glue_ipaddrs L host pos ?f1 db = (Inr f2, db)"
      and e2: "extends (if host_in_zone L in_zone host then {} else glue_errors pos (length (host_inet_addr host))) ?f1 f2"
    using check_disallowed_glue_ipaddrs_run [OF assms, of pos host ?f1] pre by (auto simp: s)
  have "all_pre (\<lambda>x i s. i < 2 ^ 16) (remember (\<lambda>ip. \<not> ip_prohibited prohibited ip) the) (host_inet_addr host) pos {}"
    using pre by (intro all_pre_index) (simp add: s)
  then obtain S3 f3 where r3: "for_indexed (nsset_addr_step L) (host_inet_addr host) pos ({}, f2) db = (Inr (S3, f3), db)"
      and e3: "extends (collected (addr_errs prohibited) (remember (\<lambda>ip. \<not> ip_prohibited prohibited ip) the)
        (host_inet_addr host) pos {}) f2 f3"
    using indexed_check.run [OF addr_loop [OF assms], of "host_inet_addr host" pos "{}" f2] by blast
  have "nsset_host_step L host i (s, f) db = (Inr (host_next L host s, f3), db)"
    using pre r2 r3
    by (auto simp: s nsset_host_step_def op_simps host_next_def remember_def Let_def insert_absorb split: if_splits)
  moreover have "extends (host_errs L prohibited in_zone host i s) f f3"
    unfolding host_errs_def s fst_conv snd_conv by (rule extends_trans [OF extends_trans [OF e1 e2] e3])
  ultimately show "\<exists>f'. nsset_host_step L host i (s, f) db = (Inr (host_next L host s, f'), db) \<and>
      extends (host_errs L prohibited in_zone host i s) f f'"
    by blast
qed

section \<open>When there is nothing to report\<close>

definition nsset_tech_ok :: "(string \<Rightarrow> Registrability) \<Rightarrow> string list \<Rightarrow> bool" where
  "nsset_tech_ok contacts hs \<longleftrightarrow>
     (\<forall>h \<in> set hs. contacts h = registered) \<and> distinct (map to_upper_copy hs)"

definition host_ok ::
  "('db, 'x) libfred_nsset_scheme \<Rightarrow> (IpAddress \<Rightarrow> bool) \<Rightarrow> (string \<Rightarrow> bool) \<Rightarrow> DnsHostInput \<Rightarrow> bool" where
  "host_ok L prohibited in_zone host \<longleftrightarrow>
     is_rfc1123_compliant_host_name L (host_fqdn host) \<and>
     (host_inet_addr host \<noteq> [] \<longrightarrow> host_in_zone L in_zone host) \<and>
     (\<forall>ip \<in> set (host_inet_addr host). \<not> ip_prohibited prohibited ip) \<and> distinct (host_inet_addr host)"

definition nsset_hosts_ok ::
  "('db, 'x) libfred_nsset_scheme \<Rightarrow> (IpAddress \<Rightarrow> bool) \<Rightarrow> (string \<Rightarrow> bool) \<Rightarrow> DnsHostInput list \<Rightarrow> bool" where
  "nsset_hosts_ok L prohibited in_zone hosts \<longleftrightarrow>
     (\<forall>host \<in> set hosts. host_ok L prohibited in_zone host) \<and>
     distinct (map (\<lambda>host. to_lower_copy (host_fqdn host)) hosts)"

lemma tech_collected_empty:
  "collected (tech_errs contacts) (remember (\<lambda>h. contacts h = registered) to_upper_copy) hs i {} = {} \<longleftrightarrow>
   nsset_tech_ok contacts hs"
proof -
  have "tech_errs contacts h i S = {} \<longleftrightarrow> contacts h = registered \<and> (contacts h = registered \<longrightarrow> to_upper_copy h \<notin> S)"
    for h i S
    by (auto simp: tech_errs_def)
  then show ?thesis
    using collected_empty [of "tech_errs contacts" "\<lambda>h. contacts h = registered" "\<lambda>h. contacts h = registered"
        to_upper_copy hs i "{}"]
    by (simp add: nsset_tech_ok_def)
qed

lemma addr_collected_empty:
  "collected (addr_errs prohibited) (remember (\<lambda>ip. \<not> ip_prohibited prohibited ip) the) ips i {} = {} \<longleftrightarrow>
   (\<forall>ip \<in> set ips. \<not> ip_prohibited prohibited ip) \<and> distinct ips"
proof -
  have "addr_errs prohibited ip i S = {} \<longleftrightarrow>
      \<not> ip_prohibited prohibited ip \<and> (\<not> ip_prohibited prohibited ip \<longrightarrow> the ip \<notin> S)" for ip i S
    by (auto simp: addr_errs_def)
  then have "collected (addr_errs prohibited) (remember (\<lambda>ip. \<not> ip_prohibited prohibited ip) the) ips i {} = {} \<longleftrightarrow>
      (\<forall>ip \<in> set ips. \<not> ip_prohibited prohibited ip) \<and> distinct (map the ips)"
    using collected_empty [of "addr_errs prohibited" "\<lambda>ip. \<not> ip_prohibited prohibited ip"
        "\<lambda>ip. \<not> ip_prohibited prohibited ip" the ips i "{}"]
    by simp
  moreover have "distinct (map the ips) \<longleftrightarrow> distinct ips" if "\<forall>ip \<in> set ips. \<not> ip_prohibited prohibited ip"
  proof -
    have "\<exists>a. ip = Some a" if "ip \<in> set ips" for ip
    proof -
      have "\<not> ip_prohibited prohibited ip"
        using that \<open>\<forall>ip \<in> set ips. \<not> ip_prohibited prohibited ip\<close> by blast
      then show ?thesis by (auto simp: ip_prohibited_def split: option.splits)
    qed
    then have "inj_on the (set ips)"
      by (intro inj_onI) (metis option.sel)
    then show ?thesis by (simp add: distinct_map)
  qed
  ultimately show ?thesis by blast
qed

lemma host_errs_empty:
  "host_errs L prohibited in_zone host i s = {} \<longleftrightarrow>
   host_ok L prohibited in_zone host \<and> to_lower_copy (host_fqdn host) \<notin> snd s"
proof -
  have "glue_errors (fst s) (length (host_inet_addr host)) = {} \<longleftrightarrow> host_inet_addr host = []"
    by (auto simp: glue_errors_def)
  then show ?thesis
    unfolding host_errs_def Un_empty addr_collected_empty host_ok_def by auto
qed

lemma host_collected_empty:
  "collected (host_errs L prohibited in_zone) (host_next L) hosts i (pos, S) = {} \<longleftrightarrow>
   (\<forall>host \<in> set hosts. host_ok L prohibited in_zone host) \<and>
   distinct (map (\<lambda>host. to_lower_copy (host_fqdn host)) hosts) \<and>
   (\<lambda>host. to_lower_copy (host_fqdn host)) ` set hosts \<inter> S = {}"
proof (induction hosts arbitrary: i pos S)
  case (Cons host hosts)
  let ?name = "\<lambda>host. to_lower_copy (host_fqdn host)"
  show ?case
  proof (cases "host_ok L prohibited in_zone host \<and> ?name host \<notin> S")
    case True
    then have "host_next L host (pos, S) = (pos + length (host_inet_addr host), insert (?name host) S)"
      by (simp add: host_next_def remember_def host_ok_def)
    with True have "collected (host_errs L prohibited in_zone) (host_next L) (host # hosts) i (pos, S) = {} \<longleftrightarrow>
        (\<forall>host \<in> set hosts. host_ok L prohibited in_zone host) \<and> distinct (map ?name hosts) \<and>
        ?name ` set hosts \<inter> insert (?name host) S = {}"
      using host_errs_empty [of L prohibited in_zone host i "(pos, S)"] Cons.IH by simp
    with True show ?thesis by auto
  next
    case False
    then show ?thesis using host_errs_empty [of L prohibited in_zone host i "(pos, S)"] by auto
  qed
qed simp

text \<open>The number of addresses of all hosts, which bounds the positions reported.\<close>

definition total_addrs :: "DnsHostInput list \<Rightarrow> nat" where
  "total_addrs hosts = sum_list (map (\<lambda>host. length (host_inet_addr host)) hosts)"

lemma host_positions:
  "i + length hosts \<le> 2 ^ 16 \<Longrightarrow> pos + total_addrs hosts \<le> 2 ^ 16 \<Longrightarrow>
   all_pre (\<lambda>host i s. i < 2 ^ 16 \<and> fst s + length (host_inet_addr host) \<le> 2 ^ 16) (host_next L) hosts i (pos, S)"
  by (induction hosts arbitrary: i pos S) (auto simp: total_addrs_def host_next_def)

section \<open>The verdict of the command\<close>

definition tech_level :: "CreateNssetInputData \<Rightarrow> CreateNssetConfigData \<Rightarrow> exn + i16" where
  "tech_level data config =
     (case nsset_tech_check_level data of
        Some level \<Rightarrow> Inr level
      | None \<Rightarrow> numeric_cast_i16 (default_tech_check_level config))"

definition create_nsset_verdict ::
  "('db, 'x) libfred_nsset_scheme \<Rightarrow> (string \<Rightarrow> SyntaxValidity) \<Rightarrow> (string \<Rightarrow> Registrability) \<Rightarrow>
     (string \<Rightarrow> Registrability) \<Rightarrow> (IpAddress \<Rightarrow> bool) \<Rightarrow> (string \<Rightarrow> bool) \<Rightarrow>
     CreateNssetInputData \<Rightarrow> CreateNssetConfigData \<Rightarrow> exn + i16" where
  "create_nsset_verdict L syntax nssets contacts prohibited in_zone data config =
     (let h = nsset_handle data; hs = nsset_tech_contacts data; hosts = nsset_dns_hosts data;
          policy = result_failure parameter_value_policy_error;
          tech = collected (tech_errs contacts) (remember (\<lambda>h. contacts h = registered) to_upper_copy) hs 0 {};
          names = collected (host_errs L prohibited in_zone) (host_next L) hosts 0 (0, {}) in
      if hs = [] then Inl (fail_with required_parameter_missing)
      else if 10 < length hs then Inl (epp_failure policy)
      else if hosts = [] then Inl (fail_with required_parameter_missing)
      else if length hosts < unat (min_hosts config) \<or> unat (max_hosts config) < length hosts
      then Inl (epp_failure policy)
      else if syntax h = syntax_invalid
      then Inl (epp_failure (add_extended_error
             (of_scalar_parameter Param_nsset_handle Reason_bad_format_nsset_handle)
             (result_failure parameter_value_syntax_error)))
      else if nssets h = registered then Inl (fail_with object_exists)
      else if nssets h = in_protection_period
      then Inl (epp_failure (add_extended_error
             (of_scalar_parameter Param_nsset_handle Reason_protected_period) policy))
      else if tech \<noteq> {} then Inl (epp_failure (add_extended_errors tech policy))
      else if names \<noteq> {} then Inl (epp_failure (add_extended_errors names policy))
      else (case tech_level data config of
              Inl e \<Rightarrow> Inl e
            | Inr level \<Rightarrow>
                if 10 < sint level \<or> sint level < 0 then Inl (fail_with parameter_value_range_error)
                else Inr level))"

definition nsset_creation ::
  "('db, 'x) libfred_nsset_scheme \<Rightarrow> CreateNssetInputData \<Rightarrow> i16 \<Rightarrow> SessionData \<Rightarrow>
     ('db, exn, CreateNssetResult) op" where
  "nsset_creation L data level session =
     catchE
       (bindE (InfoRegistrarById L (registrar_id session)) (\<lambda>registrar.
        bindE (CreateNsset L (nsset_handle data) (registrar_handle registrar) level
                 (make_fred_dns_hosts (nsset_dns_hosts data)) (nsset_tech_contacts data)
                 (logd_request_id session))
          (\<lambda>(object_id, history_id, creation_time).
             returnE \<lparr>created_nsset_id = object_id, nsset_create_history_id = history_id,
                      nsset_crdate = creation_time\<rparr>)))
       translate_create_nsset"

lemma create_nsset_by_verdict:
  assumes q: "nsset_queries L db syntax nssets contacts prohibited in_zone"
    and session: "is_session_registrar_valid session"
    and len: "length (nsset_dns_hosts data) \<le> 2 ^ 16" "total_addrs (nsset_dns_hosts data) \<le> 2 ^ 16"
  shows "create_nsset L data config session db =
    (case create_nsset_verdict L syntax nssets contacts prohibited in_zone data config of
       Inl e \<Rightarrow> (Inl e, db)
     | Inr level \<Rightarrow> nsset_creation L data level session db)"
proof (cases "nsset_tech_contacts data = [] \<or> 10 < length (nsset_tech_contacts data)")
  case True
  then show ?thesis
    using session by (auto simp: create_nsset_def op_simps create_nsset_verdict_def nsset_limits Let_def)
next
  case False
  let ?h = "nsset_handle data" and ?P0 = "result_failure parameter_value_policy_error"
  let ?T = "collected (tech_errs contacts) (remember (\<lambda>h. contacts h = registered) to_upper_copy)
    (nsset_tech_contacts data) 0 {}"
  let ?H = "collected (host_errs L prohibited in_zone) (host_next L) (nsset_dns_hosts data) 0 (0, {})"
  obtain S f1 where t: "for_indexed (nsset_tech_step L) (nsset_tech_contacts data) 0 ({}, ?P0) db = (Inr (S, f1), db)"
      and f1: "f1 = (if ?T = {} then ?P0 else add_extended_errors ?T ?P0)"
    using indexed_check.run [OF tech_loop [OF q], of "nsset_tech_contacts data" 0 "{}" ?P0]
      all_pre_index [of 0 "nsset_tech_contacts data" "2 ^ 16"] extends_result_failure False by force
  obtain s2 f2 where r2: "for_indexed (nsset_host_step L) (nsset_dns_hosts data) 0 ((0, {}), ?P0) db = (Inr (s2, f2), db)"
      and f2: "f2 = (if ?H = {} then ?P0 else add_extended_errors ?H ?P0)"
    using indexed_check.run [OF host_loop [OF q], of "nsset_dns_hosts data" 0 "(0, {})" ?P0]
      host_positions [of 0 "nsset_dns_hosts data" 0 L "{}"] len extends_result_failure by force
  have empty: "failure_empty f1 \<longleftrightarrow> ?T = {}" "failure_empty f2 \<longleftrightarrow> ?H = {}"
    by (simp_all add: f1 f2)
  have level: "(case nsset_tech_check_level data of Some level \<Rightarrow> returnE level
      | None \<Rightarrow> liftE (numeric_cast_i16 (default_tech_check_level config))) = liftE (tech_level data config)"
    by (auto simp: tech_level_def liftE_def returnE_def split: option.split)
  have "create_nsset L data config session db =
      throw_if (nsset_dns_hosts data = []) (fail_with required_parameter_missing) (
      throw_if (length (nsset_dns_hosts data) < unat (min_hosts config) \<or>
                unat (max_hosts config) < length (nsset_dns_hosts data)) (epp_failure ?P0) (
      throw_if (syntax ?h \<noteq> syntax_valid) (epp_failure (add_extended_error
          (of_scalar_parameter Param_nsset_handle Reason_bad_format_nsset_handle)
          (result_failure parameter_value_syntax_error))) (
      throw_if (nssets ?h = registered) (fail_with object_exists) (
      throw_if (nssets ?h = in_protection_period) (epp_failure (add_extended_error
          (of_scalar_parameter Param_nsset_handle Reason_protected_period) ?P0)) (
      throw_if (?T \<noteq> {}) (epp_failure f1) (
      throw_if (?H \<noteq> {}) (epp_failure f2) (
      bindE (liftE (tech_level data config)) (\<lambda>level.
      throw_if (10 < sint level \<or> sint level < 0) (fail_with parameter_value_range_error) (
      nsset_creation L data level session))))))))) db"
    using session False t r2 nsset_queriesD(1,2) [OF q, of ?h]
    by (auto simp: create_nsset_def op_simps nsset_limits level empty nsset_creation_def)
  then show ?thesis
    using False unfolding create_nsset_verdict_def Let_def
    by (cases "syntax ?h"; cases "tech_level data config") (auto simp: op_simps f1 f2)
qed

lemma create_nsset_verdict_Inr:
  "create_nsset_verdict L syntax nssets contacts prohibited in_zone data config = Inr level \<longleftrightarrow>
   length (nsset_tech_contacts data) \<in> {1..10} \<and> nsset_dns_hosts data \<noteq> [] \<and>
   length (nsset_dns_hosts data) \<in> {unat (min_hosts config)..unat (max_hosts config)} \<and>
   syntax (nsset_handle data) = syntax_valid \<and> nssets (nsset_handle data) = available \<and>
   nsset_tech_ok contacts (nsset_tech_contacts data) \<and>
   nsset_hosts_ok L prohibited in_zone (nsset_dns_hosts data) \<and>
   tech_level data config = Inr level \<and> sint level \<in> {0..10}"
proof -
  have "collected (host_errs L prohibited in_zone) (host_next L) (nsset_dns_hosts data) 0 (0, {}) = {} \<longleftrightarrow>
      nsset_hosts_ok L prohibited in_zone (nsset_dns_hosts data)"
    by (simp add: host_collected_empty nsset_hosts_ok_def)
  moreover have "length (nsset_tech_contacts data) \<in> {1..10} \<longleftrightarrow>
      nsset_tech_contacts data \<noteq> [] \<and> \<not> 10 < length (nsset_tech_contacts data)"
    by (auto simp: Suc_le_eq)
  ultimately show ?thesis
    unfolding create_nsset_verdict_def Let_def tech_collected_empty
    by (cases "syntax (nsset_handle data)"; cases "nssets (nsset_handle data)"; cases "tech_level data config")
      (simp_all add: not_less not_le; auto)+
qed

text \<open>The contacts reported, by their positions.\<close>

lemma tech_errors_by_position:
  "collected (tech_errs contacts) (remember (\<lambda>h. contacts h = registered) to_upper_copy) hs 0 {} =
   {error_at Param_nsset_tech i Reason_technical_contact_not_registered | i.
      i < length hs \<and> contacts (hs ! i) \<noteq> registered} \<union>
   {error_at Param_nsset_tech i Reason_duplicated_contact | i.
      i < length hs \<and> contacts (hs ! i) = registered \<and>
      (\<exists>j < i. contacts (hs ! j) = registered \<and> to_upper_copy (hs ! j) = to_upper_copy (hs ! i))}"
  (is "?C = ?N \<union> ?D")
proof (rule set_eqI)
  fix e
  have seen: "to_upper_copy (hs ! k) \<in> fold (remember (\<lambda>h. contacts h = registered) to_upper_copy) (take k hs) {} \<longleftrightarrow>
      (\<exists>j < k. contacts (hs ! j) = registered \<and> to_upper_copy (hs ! j) = to_upper_copy (hs ! k))"
    if "k < length hs" for k
  proof -
    have "to_upper_copy (hs ! k) \<in> fold (remember (\<lambda>h. contacts h = registered) to_upper_copy) (take k hs) {} \<longleftrightarrow>
        (\<exists>x \<in> set (take k hs). contacts x = registered \<and> to_upper_copy x = to_upper_copy (hs ! k))"
      by (auto simp: fold_remember image_iff)
    also have "\<dots> \<longleftrightarrow> (\<exists>j < k. contacts (hs ! j) = registered \<and> to_upper_copy (hs ! j) = to_upper_copy (hs ! k))"
      using that unfolding Bex_def set_take_nth by (metis order.strict_trans)
    finally show ?thesis .
  qed
  have "e \<in> ?C \<longleftrightarrow> (\<exists>k < length hs. e \<in> tech_errs contacts (hs ! k) k
      (fold (remember (\<lambda>h. contacts h = registered) to_upper_copy) (take k hs) {}))"
    by (simp add: collected_nth)
  also have "\<dots> \<longleftrightarrow> (\<exists>k < length hs. contacts (hs ! k) \<noteq> registered \<and>
        e = error_at Param_nsset_tech k Reason_technical_contact_not_registered \<or>
      contacts (hs ! k) = registered \<and> e = error_at Param_nsset_tech k Reason_duplicated_contact \<and>
        (\<exists>j < k. contacts (hs ! j) = registered \<and> to_upper_copy (hs ! j) = to_upper_copy (hs ! k)))"
    using seen by (auto simp: tech_errs_def)
  also have "\<dots> \<longleftrightarrow> e \<in> ?N \<union> ?D" by auto
  finally show "e \<in> ?C \<longleftrightarrow> e \<in> ?N \<union> ?D" .
qed

end
