(* ===== verification/Nsset_Update.thy ===== *)
theory Nsset_Update
  imports Nsset_Create
begin

text \<open>
  The command \<^verbatim>\<open>update_nsset\<close> (\<^verbatim>\<open>nsset/update_nsset.cc\<close>). The four lists of the
  input are examined against the nsset, all errors are collected and reported together; the
  numbers of contacts and hosts are examined after the update.
\<close>

section \<open>Access\<close>

definition translate_unknown_nsset :: "exn \<Rightarrow> ('db, exn, 'a) op" where
  "translate_unknown_nsset e =
     (case e of
        LibfredException (InfoNssetByHandleException unknown) \<Rightarrow>
          if unknown then throwE (fail_with object_does_not_exist) else throwE e
      | _ \<Rightarrow> throwE e)"

lemma rethrows_translate_unknown_nsset [simp]: "rethrows translate_unknown_nsset"
  by (auto simp: rethrows_def translate_unknown_nsset_def throwE_def
      split: exn.split libfred_exception.split)

text \<open>\<^verbatim>\<open>translate_info_nsset_exception::exec\<close>\<close>

definition translate_info_nsset_exception ::
  "('db, 'x) libfred_nsset_scheme \<Rightarrow> string \<Rightarrow> ('db, exn, InfoNssetData) op" where
  "translate_info_nsset_exception L h = catchE (InfoNssetByHandle L True h) translate_unknown_nsset"

text \<open>The part of the command up to the examination of the lists.\<close>

definition update_nsset_access ::
  "('db, 'x) libfred_nsset_scheme \<Rightarrow> string \<Rightarrow> u64 \<Rightarrow> ('db, exn, InfoNssetData \<times> string) op" where
  "update_nsset_access L h reg_id =
     bindE (InfoRegistrarById L reg_id) (\<lambda>session_registrar.
     bindE (translate_info_nsset_exception L h) (\<lambda>nsset_data_before_update.
     let is_sponsoring_registrar =
           (ns_sponsoring_registrar_handle nsset_data_before_update = registrar_handle session_registrar);
         is_system_registrar = is_system session_registrar;
         is_registrar_authorized = (is_sponsoring_registrar \<or> is_system_registrar) in
     throw_if (\<not> is_registrar_authorized)
       (epp_failure (add_extended_error
          (of_scalar_parameter Param_registrar_autor Reason_unauthorized_registrar)
          (result_failure authorization_error))) (
     bindE (LockObjectStateRequestLock L (ns_id nsset_data_before_update)) (\<lambda>_.
     bindE (PerformObjectStateRequest L (ns_id nsset_data_before_update)) (\<lambda>_.
     bindE (whenE (\<not> is_system_registrar)
       (bindE (GetObjectStates L (ns_id nsset_data_before_update)) (\<lambda>states.
        throw_if (ObjectStatesInfo_presents L states Object_State_server_update_prohibited \<or>
                  ObjectStatesInfo_presents L states Object_State_delete_candidate)
          (fail_with object_status_prohibits_operation) (returnE ())))) (\<lambda>_.
     returnE (nsset_data_before_update, registrar_handle session_registrar)))))))"

section \<open>The lists\<close>

definition current_nsset_fqdns :: "InfoNssetData \<Rightarrow> string set" where
  "current_nsset_fqdns d = set (map (\<lambda>h. to_lower_copy (fred_fqdn h)) (ns_dns_hosts d))"

definition current_nsset_techs :: "InfoNssetData \<Rightarrow> string set" where
  "current_nsset_techs d = set (map to_upper_copy (ns_tech_contacts d))"

definition removed_fqdns :: "DnsHostInput list \<Rightarrow> string set" where
  "removed_fqdns rem = set (map (\<lambda>h. to_lower_copy (host_fqdn h)) rem)"

definition nsset_tech_add_step ::
  "('db, 'x) libfred_nsset_scheme \<Rightarrow> string set \<Rightarrow> string \<Rightarrow> nat \<Rightarrow> string set \<times> EppResultFailure \<Rightarrow>
     ('db, exn, string set \<times> EppResultFailure) op" where
  "nsset_tech_add_step L nsset_tech_c_handles h i acc =
     (case acc of (duplicity, errors) \<Rightarrow>
        let upper_tech_contact_handle = to_upper_copy h in
        bindE (Contact_get_handle_registrability L h) (\<lambda>registrability.
        bindE (add_error_if (registrability \<noteq> registered)
                 Param_nsset_tech_add i Reason_technical_contact_not_registered errors) (\<lambda>errors.
        bindE (add_error_if (upper_tech_contact_handle \<in> nsset_tech_c_handles)
                 Param_nsset_tech_add i Reason_technical_contact_already_assigned errors) (\<lambda>errors.
        bindE (add_error_if (upper_tech_contact_handle \<in> duplicity)
                 Param_nsset_tech_add i Reason_duplicated_contact errors) (\<lambda>errors.
        returnE (insert upper_tech_contact_handle duplicity, errors))))))"

definition nsset_tech_rem_step ::
  "string set \<Rightarrow> string \<Rightarrow> nat \<Rightarrow> string set \<times> EppResultFailure \<Rightarrow>
     ('db, exn, string set \<times> EppResultFailure) op" where
  "nsset_tech_rem_step nsset_tech_c_handles h i acc =
     (case acc of (duplicity, errors) \<Rightarrow>
        let upper_tech_contact_handle = to_upper_copy h in
        bindE (add_error_if (upper_tech_contact_handle \<notin> nsset_tech_c_handles)
                 Param_nsset_tech_rem i Reason_can_not_remove_tech errors) (\<lambda>errors.
        bindE (add_error_if (upper_tech_contact_handle \<in> duplicity)
                 Param_nsset_tech_rem i Reason_duplicated_contact errors) (\<lambda>errors.
        returnE (insert upper_tech_contact_handle duplicity, errors))))"

definition nsset_addr_add_step ::
  "('db, 'x) libfred_nsset_scheme \<Rightarrow> IpAddress option \<Rightarrow> nat \<Rightarrow> IpAddress set \<times> EppResultFailure \<Rightarrow>
     ('db, exn, IpAddress set \<times> EppResultFailure) op" where
  "nsset_addr_add_step L dnshostipaddr position acc =
     (case acc of (duplicity, errors) \<Rightarrow>
        bindE (is_prohibited_ip_addr L dnshostipaddr) (\<lambda>prohibited.
        bindE (add_error_if prohibited Param_nsset_dns_addr position Reason_bad_ip_address errors) (\<lambda>errors.
        case dnshostipaddr of
          None \<Rightarrow> returnE (duplicity, errors)
        | Some a \<Rightarrow>
            bindE (add_error_if (a \<in> duplicity)
                     Param_nsset_dns_addr position Reason_duplicated_dns_address errors) (\<lambda>errors.
            returnE (insert a duplicity, errors)))))"

definition nsset_host_add_step ::
  "('db, 'x) libfred_nsset_scheme \<Rightarrow> string set \<Rightarrow> string set \<Rightarrow> DnsHostInput \<Rightarrow> nat \<Rightarrow>
     (nat \<times> string set) \<times> EppResultFailure \<Rightarrow> ('db, exn, (nat \<times> string set) \<times> EppResultFailure) op" where
  "nsset_host_add_step L nsset_dns_host_fqdn fqdn_to_remove host i acc =
     (case acc of ((position, duplicity), errors) \<Rightarrow>
        let lower_dnshost_fqdn = to_lower_copy (host_fqdn host) in
        bindE (add_error_if (\<not> is_rfc1123_compliant_host_name L (host_fqdn host))
                 Param_nsset_dns_name_add i Reason_bad_dns_name errors) (\<lambda>errors.
        bindE (add_error_if (lower_dnshost_fqdn \<in> duplicity)
                 Param_nsset_dns_name_add i Reason_duplicated_dns_name errors) (\<lambda>errors.
        bindE (check_disallowed_glue_ipaddrs L host position errors) (\<lambda>errors.
        bindE (add_error_if (lower_dnshost_fqdn \<in> nsset_dns_host_fqdn \<and> lower_dnshost_fqdn \<notin> fqdn_to_remove)
                 Param_nsset_dns_name_add i Reason_dns_name_exist errors) (\<lambda>errors.
        bindE (for_indexed (nsset_addr_add_step L) (host_inet_addr host) position ({}, errors)) (\<lambda>(_, errors).
        returnE ((position + length (host_inet_addr host), insert lower_dnshost_fqdn duplicity), errors)))))))"

definition nsset_host_rem_step ::
  "string set \<Rightarrow> DnsHostInput \<Rightarrow> nat \<Rightarrow> string set \<times> EppResultFailure \<Rightarrow>
     ('db, exn, string set \<times> EppResultFailure) op" where
  "nsset_host_rem_step nsset_dns_host_fqdn host i acc =
     (case acc of (duplicity, errors) \<Rightarrow>
        let lower_dnshost_fqdn = to_lower_copy (host_fqdn host) in
        bindE (add_error_if (lower_dnshost_fqdn \<notin> nsset_dns_host_fqdn)
                 Param_nsset_dns_name_rem i Reason_dns_name_notexist errors) (\<lambda>errors.
        bindE (add_error_if (lower_dnshost_fqdn \<in> duplicity)
                 Param_nsset_dns_name_rem i Reason_duplicated_dns_name errors) (\<lambda>errors.
        returnE (insert lower_dnshost_fqdn duplicity, errors))))"

definition nsset_lists_check ::
  "('db, 'x) libfred_nsset_scheme \<Rightarrow> UpdateNssetInputData \<Rightarrow> InfoNssetData \<Rightarrow> ('db, exn, unit) op" where
  "nsset_lists_check L data nsset_data_before_update =
     (let nsset_dns_host_fqdn = current_nsset_fqdns nsset_data_before_update;
          nsset_tech_c_handles = current_nsset_techs nsset_data_before_update;
          fqdn_to_remove = removed_fqdns (dns_hosts_rem data) in
      bindE (for_indexed (nsset_tech_add_step L nsset_tech_c_handles) (nsset_tech_contacts_add data) 0
               ({}, result_failure parameter_value_policy_error)) (\<lambda>(_, errors).
      bindE (for_indexed (nsset_tech_rem_step nsset_tech_c_handles) (nsset_tech_contacts_rem data) 0
               ({}, errors)) (\<lambda>(_, errors).
      bindE (for_indexed (nsset_host_add_step L nsset_dns_host_fqdn fqdn_to_remove) (dns_hosts_add data) 0
               ((0, {}), errors)) (\<lambda>(_, errors).
      bindE (for_indexed (nsset_host_rem_step nsset_dns_host_fqdn) (dns_hosts_rem data) 0
               ({}, errors)) (\<lambda>(_, errors).
      throw_if (\<not> failure_empty errors) (epp_failure errors) (returnE ()))))))"

section \<open>The command\<close>

definition translate_update_nsset :: "exn \<Rightarrow> ('db, exn, 'a) op" where
  "translate_update_nsset e =
     (case e of
        LibfredException (UpdateNssetException unknown_registrar unknown_nsset) \<Rightarrow>
          if unknown_registrar then throwE e
          else if unknown_nsset then throwE (fail_with object_does_not_exist)
          else throwE e
      | _ \<Rightarrow> throwE e)"

lemma rethrows_translate_update_nsset [simp]: "rethrows translate_update_nsset"
  by (auto simp: rethrows_def translate_update_nsset_def throwE_def
      split: exn.split libfred_exception.split)

text \<open>The update itself and the examination of its result.\<close>

definition nsset_modification ::
  "('db, 'x) libfred_nsset_scheme \<Rightarrow> UpdateNssetInputData \<Rightarrow> UpdateNssetConfigData \<Rightarrow> SessionData \<Rightarrow>
     InfoNssetData \<Rightarrow> string \<Rightarrow> ('db, exn, u64) op" where
  "nsset_modification L data config session nsset_data_before_update session_registrar_handle =
     catchE
       (bindE (UpdateNsset L (upd_nsset_handle data) session_registrar_handle (upd_nsset_authinfopw data)
                 (make_fred_dns_hosts (dns_hosts_add data)) (map host_fqdn (dns_hosts_rem data))
                 (nsset_tech_contacts_add data) (nsset_tech_contacts_rem data)
                 (upd_tech_check_level data) (logd_request_id session)) (\<lambda>new_history_id.
        bindE (translate_info_nsset_exception L (upd_nsset_handle data)) (\<lambda>nsset_data_after_update.
        throw_if (ns_tech_contacts nsset_data_after_update = [] \<or>
                  max_nsset_tech_contacts < length (ns_tech_contacts nsset_data_after_update))
          (fail_with parameter_value_policy_error) (
        throw_if (length (ns_dns_hosts nsset_data_after_update) < unat (upd_min_hosts config) \<or>
                  unat (upd_max_hosts config) < length (ns_dns_hosts nsset_data_after_update))
          (fail_with parameter_value_policy_error) (
        bindE (whenE (ns_sponsoring_registrar_handle nsset_data_before_update \<noteq> session_registrar_handle)
          (CreatePollMessage L update_nsset_message new_history_id)) (\<lambda>_.
        returnE new_history_id))))))
       translate_update_nsset"

definition update_nsset ::
  "('db, 'x) libfred_nsset_scheme \<Rightarrow> UpdateNssetInputData \<Rightarrow> UpdateNssetConfigData \<Rightarrow> SessionData \<Rightarrow>
     ('db, exn, u64) op" where
  "update_nsset L data config session =
     with_session session (
     bindE (update_nsset_access L (upd_nsset_handle data) (registrar_id session))
       (\<lambda>(nsset_data_before_update, session_registrar_handle).
     bindE (nsset_lists_check L data nsset_data_before_update) (\<lambda>_.
     throw_if (case upd_tech_check_level data of
                 None \<Rightarrow> False
               | Some level \<Rightarrow> max_nsset_tech_check_level < sint level)
       (fail_with parameter_value_range_error) (
     nsset_modification L data config session nsset_data_before_update session_registrar_handle))))"

interpretation update_nsset: session_guarded "update_nsset L data config" for L data config
  by unfold_locales (simp add: update_nsset_def with_session_refuses)

section \<open>The loops\<close>

definition tech_add_errs ::
  "(string \<Rightarrow> Registrability) \<Rightarrow> string set \<Rightarrow> string \<Rightarrow> nat \<Rightarrow> string set \<Rightarrow> EppExtendedError set" where
  "tech_add_errs contacts C h i S =
     (if contacts h \<noteq> registered then {error_at Param_nsset_tech_add i Reason_technical_contact_not_registered} else {}) \<union>
     (if to_upper_copy h \<in> C then {error_at Param_nsset_tech_add i Reason_technical_contact_already_assigned} else {}) \<union>
     (if to_upper_copy h \<in> S then {error_at Param_nsset_tech_add i Reason_duplicated_contact} else {})"

definition tech_rem_errs :: "string set \<Rightarrow> string \<Rightarrow> nat \<Rightarrow> string set \<Rightarrow> EppExtendedError set" where
  "tech_rem_errs C h i S =
     (if to_upper_copy h \<notin> C then {error_at Param_nsset_tech_rem i Reason_can_not_remove_tech} else {}) \<union>
     (if to_upper_copy h \<in> S then {error_at Param_nsset_tech_rem i Reason_duplicated_contact} else {})"

definition addr_add_errs :: "(IpAddress \<Rightarrow> bool) \<Rightarrow> IpAddress option \<Rightarrow> nat \<Rightarrow> IpAddress set \<Rightarrow> EppExtendedError set" where
  "addr_add_errs prohibited ip i S =
     (if ip_prohibited prohibited ip then {error_at Param_nsset_dns_addr i Reason_bad_ip_address} else {}) \<union>
     (if ip \<noteq> None \<and> the ip \<in> S then {error_at Param_nsset_dns_addr i Reason_duplicated_dns_address} else {})"

definition host_add_errs ::
  "('db, 'x) libfred_nsset_scheme \<Rightarrow> (IpAddress \<Rightarrow> bool) \<Rightarrow> (string \<Rightarrow> bool) \<Rightarrow> string set \<Rightarrow> string set \<Rightarrow>
     DnsHostInput \<Rightarrow> nat \<Rightarrow> nat \<times> string set \<Rightarrow> EppExtendedError set" where
  "host_add_errs L prohibited in_zone F M host i s =
     (if \<not> is_rfc1123_compliant_host_name L (host_fqdn host)
      then {error_at Param_nsset_dns_name_add i Reason_bad_dns_name} else {}) \<union>
     (if to_lower_copy (host_fqdn host) \<in> snd s
      then {error_at Param_nsset_dns_name_add i Reason_duplicated_dns_name} else {}) \<union>
     (if host_in_zone L in_zone host then {} else glue_errors (fst s) (length (host_inet_addr host))) \<union>
     (if to_lower_copy (host_fqdn host) \<in> F \<and> to_lower_copy (host_fqdn host) \<notin> M
      then {error_at Param_nsset_dns_name_add i Reason_dns_name_exist} else {}) \<union>
     collected (addr_add_errs prohibited) (remember (\<lambda>ip. ip \<noteq> None) the) (host_inet_addr host) (fst s) {}"

definition host_rem_errs :: "string set \<Rightarrow> DnsHostInput \<Rightarrow> nat \<Rightarrow> string set \<Rightarrow> EppExtendedError set" where
  "host_rem_errs F host i S =
     (if to_lower_copy (host_fqdn host) \<notin> F then {error_at Param_nsset_dns_name_rem i Reason_dns_name_notexist} else {}) \<union>
     (if to_lower_copy (host_fqdn host) \<in> S then {error_at Param_nsset_dns_name_rem i Reason_duplicated_dns_name} else {})"

abbreviation host_name :: "DnsHostInput \<Rightarrow> string" where
  "host_name host \<equiv> to_lower_copy (host_fqdn host)"

lemma tech_add_loop:
  assumes "nsset_queries L db syntax nssets contacts prohibited in_zone"
  shows "indexed_check (nsset_tech_add_step L C) db (\<lambda>x i s. i < 2 ^ 16) (tech_add_errs contacts C)
    (remember (\<lambda>_. True) to_upper_copy)"
proof unfold_locales
  fix h i f and S :: "string set"
  assume "i < (2 :: nat) ^ 16"
  then show "\<exists>f'. nsset_tech_add_step L C h i (S, f) db = (Inr (remember (\<lambda>_. True) to_upper_copy h S, f'), db) \<and>
      extends (tech_add_errs contacts C h i S) f f'"
    using nsset_queriesD(3) [OF assms, of h]
    by (simp add: nsset_tech_add_step_def op_simps tech_add_errs_def remember_def Let_def extends_def)
qed

text \<open>The loops over what is to be removed ask LibFred nothing.\<close>

interpretation nsset_tech_rem: indexed_check "nsset_tech_rem_step C" db "\<lambda>x i s. i < 2 ^ 16" "tech_rem_errs C"
    "remember (\<lambda>_. True) to_upper_copy" for C db
proof unfold_locales
  fix h i f and S :: "string set"
  assume "i < (2 :: nat) ^ 16"
  then show "\<exists>f'. nsset_tech_rem_step C h i (S, f) db = (Inr (remember (\<lambda>_. True) to_upper_copy h S, f'), db) \<and>
      extends (tech_rem_errs C h i S) f f'"
    by (simp add: nsset_tech_rem_step_def op_simps tech_rem_errs_def remember_def Let_def extends_def)
qed

interpretation nsset_host_rem: indexed_check "nsset_host_rem_step F" db "\<lambda>x i s. i < 2 ^ 16" "host_rem_errs F"
    "remember (\<lambda>_. True) host_name" for F db
proof unfold_locales
  fix host i f and S :: "string set"
  assume "i < (2 :: nat) ^ 16"
  then show "\<exists>f'. nsset_host_rem_step F host i (S, f) db = (Inr (remember (\<lambda>_. True) host_name host S, f'), db) \<and>
      extends (host_rem_errs F host i S) f f'"
    by (simp add: nsset_host_rem_step_def op_simps host_rem_errs_def remember_def Let_def extends_def)
qed

lemma addr_add_loop:
  assumes "nsset_queries L db syntax nssets contacts prohibited in_zone"
  shows "indexed_check (nsset_addr_add_step L) db (\<lambda>x i s. i < 2 ^ 16) (addr_add_errs prohibited)
    (remember (\<lambda>ip. ip \<noteq> None) the)"
proof unfold_locales
  fix ip i f and S :: "IpAddress set"
  assume "i < (2 :: nat) ^ 16"
  then show "\<exists>f'. nsset_addr_add_step L ip i (S, f) db = (Inr (remember (\<lambda>ip. ip \<noteq> None) the ip S, f'), db) \<and>
      extends (addr_add_errs prohibited ip i S) f f'"
    using is_prohibited_ip_addr_run [OF assms, of ip]
    by (cases ip) (simp_all add: nsset_addr_add_step_def op_simps addr_add_errs_def remember_def Let_def extends_def)
qed

definition host_add_next :: "DnsHostInput \<Rightarrow> nat \<times> string set \<Rightarrow> nat \<times> string set" where
  "host_add_next host s = (fst s + length (host_inet_addr host), insert (host_name host) (snd s))"

lemma host_add_loop:
  assumes "nsset_queries L db syntax nssets contacts prohibited in_zone"
  shows "indexed_check (nsset_host_add_step L F M) db
    (\<lambda>host i s. i < 2 ^ 16 \<and> fst s + length (host_inet_addr host) \<le> 2 ^ 16)
    (host_add_errs L prohibited in_zone F M) host_add_next"
proof unfold_locales
  fix host :: DnsHostInput and f and i :: nat and s :: "nat \<times> string set"
  assume pre: "i < 2 ^ 16 \<and> fst s + length (host_inet_addr host) \<le> 2 ^ 16"
  obtain pos S where s: "s = (pos, S)" by (cases s)
  let ?bad = "error_at Param_nsset_dns_name_add i Reason_bad_dns_name"
  let ?dup = "error_at Param_nsset_dns_name_add i Reason_duplicated_dns_name"
  let ?ex = "error_at Param_nsset_dns_name_add i Reason_dns_name_exist"
  let ?c1 = "\<not> is_rfc1123_compliant_host_name L (host_fqdn host)" and ?c2 = "host_name host \<in> S"
  let ?c3 = "host_name host \<in> F \<and> host_name host \<notin> M"
  define f1 where "f1 = (if ?c1 then add_extended_error ?bad f else f)"
  define f2 where "f2 = (if ?c2 then add_extended_error ?dup f1 else f1)"
  have e1: "extends (if ?c1 then {?bad} else {}) f f1" and e2: "extends (if ?c2 then {?dup} else {}) f1 f2"
    unfolding f1_def f2_def by (rule extends_if)+
  obtain f3 where r3: "check_disallowed_glue_ipaddrs L host pos f2 db = (Inr f3, db)"
      and e3: "extends (if host_in_zone L in_zone host then {} else glue_errors pos (length (host_inet_addr host))) f2 f3"
    using check_disallowed_glue_ipaddrs_run [OF assms, of pos host f2] pre by (auto simp: s)
  define f4 where "f4 = (if ?c3 then add_extended_error ?ex f3 else f3)"
  have e4: "extends (if ?c3 then {?ex} else {}) f3 f4" unfolding f4_def by (rule extends_if)
  have "all_pre (\<lambda>x i s. i < 2 ^ 16) (remember (\<lambda>ip. ip \<noteq> None) the) (host_inet_addr host) pos {}"
    using pre by (intro all_pre_index) (simp add: s)
  then obtain S5 f5 where r5: "for_indexed (nsset_addr_add_step L) (host_inet_addr host) pos ({}, f4) db = (Inr (S5, f5), db)"
      and e5: "extends (collected (addr_add_errs prohibited) (remember (\<lambda>ip. ip \<noteq> None) the)
        (host_inet_addr host) pos {}) f4 f5"
    using indexed_check.run [OF addr_add_loop [OF assms], of "host_inet_addr host" pos "{}" f4] by blast
  have "nsset_host_add_step L F M host i (s, f) db = (Inr (host_add_next host s, f5), db)"
    using pre r3 r5 unfolding f2_def f1_def f4_def
    by (simp add: s nsset_host_add_step_def op_simps host_add_next_def Let_def)
  moreover have "extends (host_add_errs L prohibited in_zone F M host i s) f f5"
    unfolding host_add_errs_def s fst_conv snd_conv
    by (rule extends_trans [OF extends_trans [OF extends_trans [OF extends_trans [OF e1 e2] e3] e4] e5])
  ultimately show "\<exists>f'. nsset_host_add_step L F M host i (s, f) db = (Inr (host_add_next host s, f'), db) \<and>
      extends (host_add_errs L prohibited in_zone F M host i s) f f'"
    by blast
qed

section \<open>What the lists must satisfy\<close>

definition nsset_update_errors ::
  "('db, 'x) libfred_nsset_scheme \<Rightarrow> (string \<Rightarrow> Registrability) \<Rightarrow> (IpAddress \<Rightarrow> bool) \<Rightarrow> (string \<Rightarrow> bool) \<Rightarrow>
     UpdateNssetInputData \<Rightarrow> InfoNssetData \<Rightarrow> EppExtendedError set" where
  "nsset_update_errors L contacts prohibited in_zone data d =
     collected (tech_add_errs contacts (current_nsset_techs d)) (remember (\<lambda>_. True) to_upper_copy)
       (nsset_tech_contacts_add data) 0 {} \<union>
     collected (tech_rem_errs (current_nsset_techs d)) (remember (\<lambda>_. True) to_upper_copy)
       (nsset_tech_contacts_rem data) 0 {} \<union>
     collected (host_add_errs L prohibited in_zone (current_nsset_fqdns d) (removed_fqdns (dns_hosts_rem data)))
       host_add_next (dns_hosts_add data) 0 (0, {}) \<union>
     collected (host_rem_errs (current_nsset_fqdns d)) (remember (\<lambda>_. True) host_name) (dns_hosts_rem data) 0 {}"

definition nsset_update_ok ::
  "('db, 'x) libfred_nsset_scheme \<Rightarrow> (string \<Rightarrow> Registrability) \<Rightarrow> (IpAddress \<Rightarrow> bool) \<Rightarrow> (string \<Rightarrow> bool) \<Rightarrow>
     UpdateNssetInputData \<Rightarrow> InfoNssetData \<Rightarrow> bool" where
  "nsset_update_ok L contacts prohibited in_zone data d \<longleftrightarrow>
     (\<forall>h \<in> set (nsset_tech_contacts_add data). contacts h = registered \<and> to_upper_copy h \<notin> current_nsset_techs d) \<and>
     distinct (map to_upper_copy (nsset_tech_contacts_add data)) \<and>
     (\<forall>h \<in> set (nsset_tech_contacts_rem data). to_upper_copy h \<in> current_nsset_techs d) \<and>
     distinct (map to_upper_copy (nsset_tech_contacts_rem data)) \<and>
     (\<forall>host \<in> set (dns_hosts_add data). host_ok L prohibited in_zone host \<and>
        (host_name host \<in> current_nsset_fqdns d \<longrightarrow> host_name host \<in> removed_fqdns (dns_hosts_rem data))) \<and>
     distinct (map host_name (dns_hosts_add data)) \<and>
     (\<forall>host \<in> set (dns_hosts_rem data). host_name host \<in> current_nsset_fqdns d) \<and>
     distinct (map host_name (dns_hosts_rem data))"

lemma addr_add_collected_empty:
  "collected (addr_add_errs prohibited) (remember (\<lambda>ip. ip \<noteq> None) the) ips i {} = {} \<longleftrightarrow>
   (\<forall>ip \<in> set ips. \<not> ip_prohibited prohibited ip) \<and> distinct ips"
proof -
  have fine: "addr_add_errs prohibited ip i S = {} \<longleftrightarrow>
      \<not> ip_prohibited prohibited ip \<and> (ip \<noteq> None \<longrightarrow> the ip \<notin> S)" for ip i S
    by (auto simp: addr_add_errs_def)
  have some: "\<not> ip_prohibited prohibited ip \<Longrightarrow> ip \<noteq> None" for ip
    by (auto simp: ip_prohibited_def split: option.splits)
  have "collected (addr_add_errs prohibited) (remember (\<lambda>ip. ip \<noteq> None) the) ips i {} = {} \<longleftrightarrow>
      (\<forall>ip \<in> set ips. \<not> ip_prohibited prohibited ip) \<and> distinct (map the ips)"
    using collected_empty [OF fine some, where xs = ips and i = i and S = "{}"] by simp
  moreover have "distinct (map the ips) \<longleftrightarrow> distinct ips" if "\<forall>ip \<in> set ips. \<not> ip_prohibited prohibited ip"
  proof -
    have "inj_on the (set ips)"
      using that some by (intro inj_onI) (metis option.expand)
    then show ?thesis by (simp add: distinct_map)
  qed
  ultimately show ?thesis by blast
qed

lemma host_add_errs_empty:
  "host_add_errs L prohibited in_zone F M host i s = {} \<longleftrightarrow>
   host_ok L prohibited in_zone host \<and> (host_name host \<in> F \<longrightarrow> host_name host \<in> M) \<and> host_name host \<notin> snd s"
proof -
  have "glue_errors (fst s) (length (host_inet_addr host)) = {} \<longleftrightarrow> host_inet_addr host = []"
    by (auto simp: glue_errors_def)
  then show ?thesis
    unfolding host_add_errs_def Un_empty addr_add_collected_empty host_ok_def by auto
qed

lemma host_add_collected_empty:
  "collected (host_add_errs L prohibited in_zone F M) host_add_next hosts i (pos, S) = {} \<longleftrightarrow>
   (\<forall>host \<in> set hosts. host_ok L prohibited in_zone host \<and> (host_name host \<in> F \<longrightarrow> host_name host \<in> M)) \<and>
   distinct (map host_name hosts) \<and> host_name ` set hosts \<inter> S = {}"
proof (induction hosts arbitrary: i pos S)
  case (Cons host hosts)
  have "collected (host_add_errs L prohibited in_zone F M) host_add_next (host # hosts) i (pos, S) = {} \<longleftrightarrow>
      host_add_errs L prohibited in_zone F M host i (pos, S) = {} \<and>
      collected (host_add_errs L prohibited in_zone F M) host_add_next hosts (Suc i)
        (pos + length (host_inet_addr host), insert (host_name host) S) = {}"
    by (simp add: host_add_next_def)
  then show ?case unfolding host_add_errs_empty Cons.IH by auto
qed simp

lemma nsset_update_errors_empty:
  "nsset_update_errors L contacts prohibited in_zone data d = {} \<longleftrightarrow>
   nsset_update_ok L contacts prohibited in_zone data d"
proof -
  have a: "tech_add_errs contacts C h i S = {} \<longleftrightarrow>
      (contacts h = registered \<and> to_upper_copy h \<notin> C) \<and> (True \<longrightarrow> to_upper_copy h \<notin> S)" for C h i S
    by (auto simp: tech_add_errs_def)
  have b: "tech_rem_errs C h i S = {} \<longleftrightarrow> to_upper_copy h \<in> C \<and> (True \<longrightarrow> to_upper_copy h \<notin> S)" for C h i S
    by (auto simp: tech_rem_errs_def)
  have c: "host_rem_errs F host i S = {} \<longleftrightarrow> host_name host \<in> F \<and> (True \<longrightarrow> host_name host \<notin> S)" for F host i S
    by (auto simp: host_rem_errs_def)
  show ?thesis
    unfolding nsset_update_errors_def nsset_update_ok_def Un_empty host_add_collected_empty
      collected_empty [OF a TrueI] collected_empty [OF b TrueI] collected_empty [OF c TrueI]
    by simp
qed

lemma host_add_positions:
  "i + length hosts \<le> 2 ^ 16 \<Longrightarrow> pos + total_addrs hosts \<le> 2 ^ 16 \<Longrightarrow>
   all_pre (\<lambda>host i s. i < 2 ^ 16 \<and> fst s + length (host_inet_addr host) \<le> 2 ^ 16) host_add_next hosts i (pos, S)"
  by (induction hosts arbitrary: i pos S) (auto simp: total_addrs_def host_add_next_def)

definition nsset_lists_short :: "UpdateNssetInputData \<Rightarrow> bool" where
  "nsset_lists_short data \<longleftrightarrow>
     length (nsset_tech_contacts_add data) \<le> 2 ^ 16 \<and> length (nsset_tech_contacts_rem data) \<le> 2 ^ 16 \<and>
     length (dns_hosts_add data) \<le> 2 ^ 16 \<and> total_addrs (dns_hosts_add data) \<le> 2 ^ 16 \<and>
     length (dns_hosts_rem data) \<le> 2 ^ 16"

lemma nsset_lists_check_run:
  assumes q: "nsset_queries L db syntax nssets contacts prohibited in_zone" and len: "nsset_lists_short data"
  shows "nsset_lists_check L data d db =
    (if nsset_update_ok L contacts prohibited in_zone data d then Inr ()
     else Inl (epp_failure (add_extended_errors (nsset_update_errors L contacts prohibited in_zone data d)
       (result_failure parameter_value_policy_error))), db)"
proof -
  let ?P0 = "result_failure parameter_value_policy_error"
  let ?C = "current_nsset_techs d" and ?F = "current_nsset_fqdns d" and ?M = "removed_fqdns (dns_hosts_rem data)"
  let ?E = "nsset_update_errors L contacts prohibited in_zone data d"
  note pre = all_pre_index [of 0 _ "2 ^ 16", unfolded add_0]
  obtain S1 f1 where r1: "for_indexed (nsset_tech_add_step L ?C) (nsset_tech_contacts_add data) 0 ({}, ?P0) db = (Inr (S1, f1), db)"
      and e1: "extends (collected (tech_add_errs contacts ?C) (remember (\<lambda>_. True) to_upper_copy)
        (nsset_tech_contacts_add data) 0 {}) ?P0 f1"
    using indexed_check.run [OF tech_add_loop [OF q], OF pre, of "nsset_tech_contacts_add data" ?C "{}" ?P0] len
    unfolding nsset_lists_short_def by blast
  obtain S2 f2 where r2: "for_indexed (nsset_tech_rem_step ?C) (nsset_tech_contacts_rem data) 0 ({}, f1) db = (Inr (S2, f2), db)"
      and e2: "extends (collected (tech_rem_errs ?C) (remember (\<lambda>_. True) to_upper_copy)
        (nsset_tech_contacts_rem data) 0 {}) f1 f2"
    using nsset_tech_rem.run [OF pre, of "nsset_tech_contacts_rem data" ?C "{}" f1 db] len
    unfolding nsset_lists_short_def by blast
  obtain S3 f3 where r3: "for_indexed (nsset_host_add_step L ?F ?M) (dns_hosts_add data) 0 ((0, {}), f2) db = (Inr (S3, f3), db)"
      and e3: "extends (collected (host_add_errs L prohibited in_zone ?F ?M) host_add_next (dns_hosts_add data) 0 (0, {})) f2 f3"
    using indexed_check.run [OF host_add_loop [OF q], OF host_add_positions, of 0 "dns_hosts_add data" 0 ?F ?M "{}" f2] len
    unfolding nsset_lists_short_def add_0 by (cases "fold host_add_next (dns_hosts_add data) (0, {})") auto
  obtain S4 f4 where r4: "for_indexed (nsset_host_rem_step ?F) (dns_hosts_rem data) 0 ({}, f3) db = (Inr (S4, f4), db)"
      and e4: "extends (collected (host_rem_errs ?F) (remember (\<lambda>_. True) host_name) (dns_hosts_rem data) 0 {}) f3 f4"
    using nsset_host_rem.run [OF pre, of "dns_hosts_rem data" ?F "{}" f3 db] len
    unfolding nsset_lists_short_def by blast
  have "extends ?E ?P0 f4"
    unfolding nsset_update_errors_def by (rule extends_trans [OF extends_trans [OF extends_trans [OF e1 e2] e3] e4])
  from extends_result_failure [OF this]
  have "f4 = (if nsset_update_ok L contacts prohibited in_zone data d then ?P0 else add_extended_errors ?E ?P0)"
    unfolding nsset_update_errors_empty .
  with r1 r2 r3 r4 show ?thesis
    unfolding nsset_lists_check_def Let_def by (simp add: op_simps)
qed

section \<open>The verdict of the command\<close>

lemma update_nsset_by_verdict:
  assumes a: "update_nsset_access L (upd_nsset_handle data) (registrar_id session) db = (Inr (d, registrar), db')"
    and q: "nsset_queries L db' syntax nssets contacts prohibited in_zone"
    and session: "is_session_registrar_valid session" and len: "nsset_lists_short data"
  shows "update_nsset L data config session db =
    (if \<not> nsset_update_ok L contacts prohibited in_zone data d
     then (Inl (epp_failure (add_extended_errors (nsset_update_errors L contacts prohibited in_zone data d)
       (result_failure parameter_value_policy_error))), db')
     else if (\<exists>level. upd_tech_check_level data = Some level \<and> 10 < sint level)
     then (Inl (fail_with parameter_value_range_error), db')
     else nsset_modification L data config session d registrar db')"
proof -
  have "(case upd_tech_check_level data of None \<Rightarrow> False | Some level \<Rightarrow> max_nsset_tech_check_level < sint level) \<longleftrightarrow>
      (\<exists>level. upd_tech_check_level data = Some level \<and> 10 < sint level)"
    by (auto simp: nsset_limits split: option.split)
  then show ?thesis
    using a session nsset_lists_check_run [OF q len, of d]
    by (simp add: update_nsset_def op_simps)
qed

lemma update_nsset_access_returns:
  assumes "update_nsset_access L h reg_id db = (Inr (d, registrar), db')"
  shows "\<exists>r db1 db2 db3 db4. InfoRegistrarById L reg_id db = (Inr r, db1) \<and>
    InfoNssetByHandle L True h db1 = (Inr d, db2) \<and> registrar = registrar_handle r \<and>
    LockObjectStateRequestLock L (ns_id d) db2 = (Inr (), db3) \<and>
    PerformObjectStateRequest L (ns_id d) db3 = (Inr (), db4) \<and>
    (is_system r \<and> db' = db4 \<or>
     ns_sponsoring_registrar_handle d = registrar \<and>
     (\<exists>states. GetObjectStates L (ns_id d) db4 = (Inr states, db') \<and>
        \<not> ObjectStatesInfo_presents L states Object_State_server_update_prohibited \<and>
        \<not> ObjectStatesInfo_presents L states Object_State_delete_candidate))"
  using assms unfolding update_nsset_access_def translate_info_nsset_exception_def
  by (auto simp: op_inv catchE_rethrows Let_def split: if_splits)

lemma nsset_modification_returns:
  assumes "nsset_modification L data config session d registrar db = (Inr history_id, db')"
  shows "\<exists>after db1 db2. UpdateNsset L (upd_nsset_handle data) registrar (upd_nsset_authinfopw data)
      (make_fred_dns_hosts (dns_hosts_add data)) (map host_fqdn (dns_hosts_rem data))
      (nsset_tech_contacts_add data) (nsset_tech_contacts_rem data) (upd_tech_check_level data)
      (logd_request_id session) db = (Inr history_id, db1) \<and>
    InfoNssetByHandle L True (upd_nsset_handle data) db1 = (Inr after, db2) \<and>
    length (ns_tech_contacts after) \<in> {1..10} \<and>
    length (ns_dns_hosts after) \<in> {unat (upd_min_hosts config)..unat (upd_max_hosts config)} \<and>
    (if ns_sponsoring_registrar_handle d = registrar then db' = db2
     else CreatePollMessage L update_nsset_message history_id db2 = (Inr (), db'))"
  using assms unfolding nsset_modification_def translate_info_nsset_exception_def
  by (auto simp: op_inv catchE_rethrows nsset_limits Suc_le_eq not_less split: if_splits)

end
