(* ===== verification/Nsset_Commands.thy ===== *)
theory Nsset_Commands
  imports Nsset_Update Epp_Localized Availability
begin

text \<open>
  The remaining nsset commands, \<^verbatim>\<open>delete_nsset\<close>, \<^verbatim>\<open>transfer_nsset\<close>,
  \<^verbatim>\<open>info_nsset\<close> and \<^verbatim>\<open>check_nsset\<close> (\<^verbatim>\<open>nsset/*.cc\<close>), and the localized
  entry points of all of them (\<^verbatim>\<open>nsset/*_nsset_localized.cc\<close>).
\<close>

section \<open>Deletion\<close>

text \<open>
  The handler around \<^verbatim>\<open>InfoNssetByHandle\<close> throws for an unknown handle only; any other
  exception of that class is swallowed, and the command goes on with default-constructed data.
\<close>

definition delete_nsset_info ::
  "('db, 'x) libfred_nsset_scheme \<Rightarrow> string \<Rightarrow> ('db, exn, InfoNssetData) op" where
  "delete_nsset_info L h =
     catchE (InfoNssetByHandle L True h)
       (\<lambda>e. case e of
          LibfredException (InfoNssetByHandleException unknown) \<Rightarrow>
            if unknown then throwE (fail_with object_does_not_exist)
            else returnE (default_InfoNssetData L)
        | _ \<Rightarrow> throwE e)"

definition translate_delete_nsset :: "exn \<Rightarrow> ('db, exn, 'a) op" where
  "translate_delete_nsset e =
     (case e of
        LibfredException (DeleteNssetByHandleException unknown linked) \<Rightarrow>
          if unknown then throwE e
          else if linked then throwE (fail_with object_association_prohibits_operation)
          else throwE e
      | _ \<Rightarrow> throwE e)"

lemma rethrows_translate_delete_nsset [simp]: "rethrows translate_delete_nsset"
  by (auto simp: rethrows_def translate_delete_nsset_def throwE_def
      split: exn.split libfred_exception.split)

definition delete_nsset ::
  "('db, 'x) libfred_nsset_scheme \<Rightarrow> string \<Rightarrow> SessionData \<Rightarrow> ('db, exn, u64) op" where
  "delete_nsset L h session =
     with_session session (
     bindE (delete_nsset_info L h) (\<lambda>nsset_data_before_delete.
     bindE (InfoRegistrarById L (registrar_id session)) (\<lambda>session_registrar.
     let is_system_registrar = is_system session_registrar;
         is_sponsoring_registrar =
           (ns_sponsoring_registrar_handle nsset_data_before_delete = registrar_handle session_registrar);
         is_registrar_authorized = (is_system_registrar \<or> is_sponsoring_registrar) in
     throw_if (\<not> is_registrar_authorized)
       (epp_failure (add_extended_error
          (of_scalar_parameter Param_registrar_autor Reason_unauthorized_registrar)
          (result_failure authorization_error))) (
     bindE (LockObjectStateRequestLock L (ns_id nsset_data_before_delete)) (\<lambda>_.
     bindE (PerformObjectStateRequest L (ns_id nsset_data_before_delete)) (\<lambda>_.
     bindE (GetObjectStates L (ns_id nsset_data_before_delete)) (\<lambda>states.
     throw_if (\<not> is_system_registrar \<and>
               (ObjectStatesInfo_presents L states Object_State_server_update_prohibited \<or>
                ObjectStatesInfo_presents L states Object_State_server_delete_prohibited \<or>
                ObjectStatesInfo_presents L states Object_State_delete_candidate))
       (fail_with object_status_prohibits_operation) (
     throw_if (ObjectStatesInfo_presents L states Object_State_linked)
       (fail_with object_association_prohibits_operation) (
     catchE
       (bindE (DeleteNssetByHandle L h) (\<lambda>_. returnE (ns_historyid nsset_data_before_delete)))
       translate_delete_nsset)))))))))"

section \<open>Transfer\<close>

definition translate_transfer_nsset :: "exn \<Rightarrow> ('db, exn, 'a) op" where
  "translate_transfer_nsset e =
     (case e of
        LibfredException UnknownNssetId \<Rightarrow> throwE (fail_with object_does_not_exist)
      | LibfredException IncorrectAuthInfoPw \<Rightarrow> throwE (fail_with invalid_authorization_information)
      | LibfredException NewRegistrarIsAlreadySponsoring \<Rightarrow>
          throwE (fail_with object_is_not_eligible_for_transfer)
      | _ \<Rightarrow> throwE e)"

lemma rethrows_translate_transfer_nsset [simp]: "rethrows translate_transfer_nsset"
  by (auto simp: rethrows_def translate_transfer_nsset_def throwE_def
      split: exn.split libfred_exception.split)

definition transfer_nsset ::
  "('db, 'x) libfred_nsset_scheme \<Rightarrow> string \<Rightarrow> string \<Rightarrow> SessionData \<Rightarrow> ('db, exn, u64) op" where
  "transfer_nsset L h authinfopw session =
     with_session session (
     bindE (catchE (InfoNssetByHandle L True h) translate_unknown_nsset) (\<lambda>nsset_data_before_transfer.
     bindE (InfoRegistrarById L (registrar_id session)) (\<lambda>session_registrar.
     let is_sponsoring_registrar =
           (ns_sponsoring_registrar_handle nsset_data_before_transfer = registrar_handle session_registrar) in
     throw_if is_sponsoring_registrar (fail_with object_is_not_eligible_for_transfer) (
     let is_system_registrar = is_system session_registrar in
     bindE (whenE (\<not> is_system_registrar)
       (bindE (LockObjectStateRequestLock L (ns_id nsset_data_before_transfer)) (\<lambda>_.
        bindE (PerformObjectStateRequest L (ns_id nsset_data_before_transfer)) (\<lambda>_.
        bindE (GetObjectStates L (ns_id nsset_data_before_transfer)) (\<lambda>states.
        throw_if (ObjectStatesInfo_presents L states Object_State_server_transfer_prohibited \<or>
                  ObjectStatesInfo_presents L states Object_State_delete_candidate)
          (fail_with object_status_prohibits_operation) (returnE ())))))) (\<lambda>_.
     catchE
       (bindE (TransferNsset L (ns_id nsset_data_before_transfer) (registrar_handle session_registrar)
                 authinfopw (logd_request_id session)) (\<lambda>post_transfer_history_id.
        bindE (CreatePollMessage L transfer_nsset_message post_transfer_history_id) (\<lambda>_.
        returnE post_transfer_history_id)))
       translate_transfer_nsset)))))"

section \<open>Information\<close>

record InfoNssetOutputData =
  nsout_handle :: string
  nsout_roid :: string
  nsout_sponsoring_registrar_handle :: string
  nsout_creating_registrar_handle :: string
  nsout_last_update_registrar_handle :: "string option"
  nsout_states :: "NssetStatusValue set"
  nsout_crdate :: ptime
  nsout_last_update :: "ptime option"
  nsout_last_transfer :: "ptime option"
  nsout_dns_hosts :: "DnsHostOutput list"
  nsout_tech_contacts :: "string list"
  nsout_tech_check_level :: i16

definition get_info_nsset_output ::
  "(string \<Rightarrow> exn + Object_State) \<Rightarrow> InfoNssetData \<Rightarrow> ObjectStateData list \<Rightarrow> exn + InfoNssetOutputData" where
  "get_info_nsset_output from_db_handle data object_state_data =
     (case external_states nsset_status_of_object_state from_db_handle object_state_data {} of
        Inl e \<Rightarrow> Inl e
      | Inr states \<Rightarrow> Inr \<lparr>
          nsout_handle = ns_handle data,
          nsout_roid = ns_roid data,
          nsout_sponsoring_registrar_handle = ns_sponsoring_registrar_handle data,
          nsout_creating_registrar_handle = ns_create_registrar_handle data,
          nsout_last_update_registrar_handle = ns_update_registrar_handle data,
          nsout_states = states,
          nsout_crdate = ns_creation_time data,
          nsout_last_update = ns_update_time data,
          nsout_last_transfer = ns_transfer_time data,
          nsout_dns_hosts = make_epp_dnshosts_output (ns_dns_hosts data),
          nsout_tech_contacts = ns_tech_contacts data,
          nsout_tech_check_level = (case ns_tech_check_level data of None \<Rightarrow> 0 | Some level \<Rightarrow> level)\<rparr>)"

definition info_nsset ::
  "('db, 'x) libfred_nsset_scheme \<Rightarrow> string \<Rightarrow> Password \<Rightarrow> SessionData \<Rightarrow>
     ('db, exn, InfoNssetOutputData) op" where
  "info_nsset L h authinfopw session =
     with_session session (
     catchE
       (bindE (InfoNssetByHandle L False h) (\<lambda>info_nsset_data.
        bindE (GetObjectStates L (ns_id info_nsset_data)) (\<lambda>object_states_data.
        bindE (whenE (password_value authinfopw \<noteq> [])
                 (authorization_required L (ns_id info_nsset_data) authinfopw)) (\<lambda>_.
        liftE (get_info_nsset_output (object_state_from_db_handle L) info_nsset_data object_states_data)))))
       translate_unknown_nsset)"

section \<open>Availability\<close>

datatype NssetHandleRegistrationObstruction =
    Nsset_invalid_handle
  | Nsset_protected_handle
  | Nsset_registered_handle

definition nsset_obstruction_to_reason :: "NssetHandleRegistrationObstruction \<Rightarrow> Reason" where
  "nsset_obstruction_to_reason v =
     (case v of
        Nsset_invalid_handle \<Rightarrow> Reason_invalid_handle
      | Nsset_registered_handle \<Rightarrow> Reason_existing
      | Nsset_protected_handle \<Rightarrow> Reason_protected_period)"

definition nsset_obstruction_from_reason :: "Reason \<Rightarrow> NssetHandleRegistrationObstruction option" where
  "nsset_obstruction_from_reason r =
     (case r of
        Reason_invalid_handle \<Rightarrow> Some Nsset_invalid_handle
      | Reason_existing \<Rightarrow> Some Nsset_registered_handle
      | Reason_protected_period \<Rightarrow> Some Nsset_protected_handle
      | _ \<Rightarrow> None)"

definition nsset_handle_state_to_check_result ::
  "SyntaxValidity \<Rightarrow> Registrability \<Rightarrow> NssetHandleRegistrationObstruction option" where
  "nsset_handle_state_to_check_result handle_validity handle_in_registry =
     (if handle_in_registry = registered then Some Nsset_registered_handle
      else if handle_in_registry = in_protection_period then Some Nsset_protected_handle
      else if handle_validity = syntax_invalid then Some Nsset_invalid_handle
      else None)"

fun check_nsset_loop ::
  "('db, 'x) libfred_nsset_scheme \<Rightarrow> string list \<Rightarrow>
     (string \<times> NssetHandleRegistrationObstruction option) list \<Rightarrow>
     ('db, exn, (string \<times> NssetHandleRegistrationObstruction option) list) op" where
  "check_nsset_loop L [] result = returnE result"
| "check_nsset_loop L (h # hs) result =
     bindE (Nsset_get_handle_syntax_validity L h) (\<lambda>validity.
     bindE (Nsset_get_handle_registrability L h) (\<lambda>registrability.
     check_nsset_loop L hs (map_assign string_less h
       (nsset_handle_state_to_check_result validity registrability) result)))"

definition check_nsset ::
  "('db, 'x) libfred_nsset_scheme \<Rightarrow> string list \<Rightarrow> SessionData \<Rightarrow>
     ('db, exn, (string \<times> NssetHandleRegistrationObstruction option) list) op" where
  "check_nsset L nsset_handles session =
     with_session session (check_nsset_loop L nsset_handles [])"

section \<open>The guard\<close>

interpretation delete_nsset: session_guarded "delete_nsset L h" for L h
  by unfold_locales (simp add: delete_nsset_def with_session_refuses)

interpretation transfer_nsset: session_guarded "transfer_nsset L h pw" for L h pw
  by unfold_locales (simp add: transfer_nsset_def with_session_refuses)

interpretation info_nsset: session_guarded "info_nsset L h pw" for L h pw
  by unfold_locales (simp add: info_nsset_def with_session_refuses)

interpretation check_nsset: session_guarded "check_nsset L hs" for L hs
  by unfold_locales (simp add: check_nsset_def with_session_refuses)

section \<open>The localized commands\<close>

record CreateNssetLocalizedResponse =
  nsset_create_response :: EppResponseSuccessLocalized
  nsset_create_response_crdate :: ptime

definition create_nsset_localized ::
  "('db, 'x) libfred_nsset_scheme \<Rightarrow> ('db, 'y) database_scheme \<Rightarrow> CreateNssetInputData \<Rightarrow>
     CreateNssetConfigData \<Rightarrow> SessionData \<Rightarrow> NotificationData \<Rightarrow>
     ('db, thrown, CreateNssetLocalizedResponse) op" where
  "create_nsset_localized L D data config session notification_data =
     try_localized D (lang session) (with_context D (
       bindE (on_working (create_nsset L data config session)) (\<lambda>impl_result.
       bindE (on_working (response_success_localized D command_completed_successfully (lang session)))
         (\<lambda>epp_response_success_localized.
       bindE (commit D) (\<lambda>_.
       bindE (outside (conditionally_enqueue_notification L D notified_created
                (nsset_create_history_id impl_result) session notification_data)) (\<lambda>_.
       returnE \<lparr>nsset_create_response = epp_response_success_localized,
                nsset_create_response_crdate = nsset_crdate impl_result\<rparr>))))))"

definition update_nsset_localized ::
  "('db, 'x) libfred_nsset_scheme \<Rightarrow> ('db, 'y) database_scheme \<Rightarrow> UpdateNssetInputData \<Rightarrow>
     UpdateNssetConfigData \<Rightarrow> SessionData \<Rightarrow> NotificationData \<Rightarrow>
     ('db, thrown, EppResponseSuccessLocalized) op" where
  "update_nsset_localized L D data config session notification_data =
     try_localized D (lang session) (with_context D (
       bindE (on_working (update_nsset L data config session)) (\<lambda>nsset_new_history_id.
       bindE (on_working (response_success_localized D command_completed_successfully (lang session)))
         (\<lambda>epp_response_success_localized.
       bindE (commit D) (\<lambda>_.
       bindE (outside (conditionally_enqueue_notification L D notified_updated
                nsset_new_history_id session notification_data)) (\<lambda>_.
       returnE epp_response_success_localized))))))"

definition delete_nsset_localized ::
  "('db, 'x) libfred_nsset_scheme \<Rightarrow> ('db, 'y) database_scheme \<Rightarrow> string \<Rightarrow>
     SessionData \<Rightarrow> NotificationData \<Rightarrow> ('db, thrown, EppResponseSuccessLocalized) op" where
  "delete_nsset_localized L D h session notification_data =
     try_localized D (lang session) (with_context D (
       bindE (on_working (delete_nsset L h session)) (\<lambda>last_history_id_before_delete.
       bindE (on_working (response_success_localized D command_completed_successfully (lang session)))
         (\<lambda>epp_response_success_localized.
       bindE (commit D) (\<lambda>_.
       bindE (outside (conditionally_enqueue_notification L D notified_deleted
                last_history_id_before_delete session notification_data)) (\<lambda>_.
       returnE epp_response_success_localized))))))"

definition transfer_nsset_localized ::
  "('db, 'x) libfred_nsset_scheme \<Rightarrow> ('db, 'y) database_scheme \<Rightarrow> string \<Rightarrow> string \<Rightarrow>
     SessionData \<Rightarrow> NotificationData \<Rightarrow> ('db, thrown, EppResponseSuccessLocalized) op" where
  "transfer_nsset_localized L D h authinfopw session notification_data =
     try_localized D (lang session) (with_context D (
       bindE (on_working (transfer_nsset L h authinfopw session)) (\<lambda>post_transfer_history_id.
       bindE (on_working (response_success_localized D command_completed_successfully (lang session)))
         (\<lambda>epp_response_success_localized.
       bindE (commit D) (\<lambda>_.
       bindE (outside (conditionally_enqueue_notification L D notified_transferred
                post_transfer_history_id session notification_data)) (\<lambda>_.
       returnE epp_response_success_localized))))))"

record InfoNssetLocalizedOutputData =
  nsloc_handle :: string
  nsloc_roid :: string
  nsloc_sponsoring_registrar_handle :: string
  nsloc_creating_registrar_handle :: string
  nsloc_last_update_registrar_handle :: "string option"
  nsset_localized_external_states :: "NssetStatusValue ObjectStatesLocalized"
  nsloc_crdate :: ptime
  nsloc_last_update :: "ptime option"
  nsloc_last_transfer :: "ptime option"
  nsloc_dns_hosts :: "DnsHostOutput list"
  nsloc_tech_contacts :: "string list"
  nsloc_tech_check_level :: i16

definition info_nsset_localized ::
  "('db, 'x) libfred_nsset_scheme \<Rightarrow> ('db, 'y) database_scheme \<Rightarrow> string \<Rightarrow> Password \<Rightarrow>
     SessionData \<Rightarrow>
     ('db, thrown, EppResponseSuccessLocalized \<times> InfoNssetLocalizedOutputData) op" where
  "info_nsset_localized L D h authinfopw session =
     try_localized D (lang session) (with_context D (
       bindE (on_working (info_nsset L h authinfopw session)) (\<lambda>info_nsset_data.
       bindE (on_working (localize_object_states D nsset_status_to_object_state
                (filter (\<lambda>v. v \<in> nsout_states info_nsset_data) nsset_status_values) (lang session)))
         (\<lambda>states.
       let output = \<lparr>
             nsloc_handle = nsout_handle info_nsset_data,
             nsloc_roid = nsout_roid info_nsset_data,
             nsloc_sponsoring_registrar_handle = nsout_sponsoring_registrar_handle info_nsset_data,
             nsloc_creating_registrar_handle = nsout_creating_registrar_handle info_nsset_data,
             nsloc_last_update_registrar_handle = nsout_last_update_registrar_handle info_nsset_data,
             nsset_localized_external_states = states,
             nsloc_crdate = nsout_crdate info_nsset_data,
             nsloc_last_update = nsout_last_update info_nsset_data,
             nsloc_last_transfer = nsout_last_transfer info_nsset_data,
             nsloc_dns_hosts = nsout_dns_hosts info_nsset_data,
             nsloc_tech_contacts = nsout_tech_contacts info_nsset_data,
             nsloc_tech_check_level = nsout_tech_check_level info_nsset_data\<rparr> in
       bindE (on_working (response_success_localized D command_completed_successfully (lang session)))
         (\<lambda>epp_response_success_localized.
       bindE (commit D) (\<lambda>_.
       returnE (epp_response_success_localized, output)))))))"

definition check_nsset_localized ::
  "('db, 'x) libfred_nsset_scheme \<Rightarrow> ('db, 'y) database_scheme \<Rightarrow> string list \<Rightarrow> SessionData \<Rightarrow>
     ('db, thrown, EppResponseSuccessLocalized \<times>
        (string \<times> (NssetHandleRegistrationObstruction \<times> string) option) list) op" where
  "check_nsset_localized L D nsset_handles session =
     try_localized D (lang session) (with_context D (
       bindE (on_working (check_nsset L nsset_handles session)) (\<lambda>check_nsset_results.
       bindE (on_working (response_success_localized D command_completed_successfully (lang session)))
         (\<lambda>epp_response_success_localized.
       bindE (on_working (localize_check_results D nsset_obstruction_to_reason
                nsset_obstruction_from_reason check_nsset_results (lang session))) (\<lambda>results.
       returnE (epp_response_success_localized, results))))))"

interpretation create_nsset_localized: localized_update D "lang session" "create_nsset L data config session"
    "\<lambda>r. conditionally_enqueue_notification L D notified_created (nsset_create_history_id r) session nd"
    "\<lambda>response r. \<lparr>nsset_create_response = response, nsset_create_response_crdate = nsset_crdate r\<rparr>"
    "create_nsset_localized L D data config session nd" for L D data config session nd
  by unfold_locales
    (simp_all only: create_nsset_localized_def conditionally_enqueue_notification_returns)

interpretation update_nsset_localized: localized_update D "lang session" "update_nsset L data config session"
    "\<lambda>r. conditionally_enqueue_notification L D notified_updated r session nd"
    "\<lambda>response _. response" "update_nsset_localized L D data config session nd" for L D data config session nd
  by unfold_locales
    (simp_all only: update_nsset_localized_def conditionally_enqueue_notification_returns)

interpretation delete_nsset_localized: localized_update D "lang session" "delete_nsset L h session"
    "\<lambda>r. conditionally_enqueue_notification L D notified_deleted r session nd"
    "\<lambda>response _. response" "delete_nsset_localized L D h session nd" for L D h session nd
  by unfold_locales
    (simp_all only: delete_nsset_localized_def conditionally_enqueue_notification_returns)

interpretation transfer_nsset_localized: localized_update D "lang session" "transfer_nsset L h pw session"
    "\<lambda>r. conditionally_enqueue_notification L D notified_transferred r session nd"
    "\<lambda>response _. response" "transfer_nsset_localized L D h pw session nd" for L D h pw session nd
  by unfold_locales
    (simp_all only: transfer_nsset_localized_def conditionally_enqueue_notification_returns)

section \<open>What the commands return\<close>

definition nsset_delete_permitted ::
  "('db, 'x) libfred_nsset_scheme \<Rightarrow> InfoRegistrarData \<Rightarrow> InfoNssetData \<Rightarrow> ObjectStateData list \<Rightarrow> bool" where
  "nsset_delete_permitted L r d states \<longleftrightarrow>
     (is_system r \<or> ns_sponsoring_registrar_handle d = registrar_handle r) \<and>
     \<not> ObjectStatesInfo_presents L states Object_State_linked \<and>
     (is_system r \<or>
       (\<forall>s \<in> {Object_State_server_update_prohibited, Object_State_server_delete_prohibited,
               Object_State_delete_candidate}. \<not> ObjectStatesInfo_presents L states s))"

lemma delete_nsset_info_returns:
  assumes "delete_nsset_info L h db = (Inr d, db')"
  shows "InfoNssetByHandle L True h db = (Inr d, db') \<or>
    InfoNssetByHandle L True h db = (Inl (LibfredException (InfoNssetByHandleException False)), db') \<and>
    d = default_InfoNssetData L"
  using assms unfolding delete_nsset_info_def catchE_def
  by (auto simp: op_simps throwE_def returnE_def split: sum.splits prod.splits exn.splits libfred_exception.splits if_splits)

lemma delete_nsset_returns:
  assumes "delete_nsset L h session db = (Inr history_id, db')"
  shows "\<exists>d r states db1 db2 db3 db4 db5.
    delete_nsset_info L h db = (Inr d, db1) \<and>
    InfoRegistrarById L (registrar_id session) db1 = (Inr r, db2) \<and>
    LockObjectStateRequestLock L (ns_id d) db2 = (Inr (), db3) \<and>
    PerformObjectStateRequest L (ns_id d) db3 = (Inr (), db4) \<and>
    GetObjectStates L (ns_id d) db4 = (Inr states, db5) \<and>
    nsset_delete_permitted L r d states \<and>
    DeleteNssetByHandle L h db5 = (Inr (), db') \<and> history_id = ns_historyid d"
  using assms unfolding delete_nsset_def nsset_delete_permitted_def
  by (auto simp: op_inv catchE_rethrows Let_def)

lemma transfer_nsset_returns:
  assumes "transfer_nsset L h pw session db = (Inr history_id, db')"
  shows "\<exists>d r db1 db2 db3 db4.
    InfoNssetByHandle L True h db = (Inr d, db1) \<and>
    InfoRegistrarById L (registrar_id session) db1 = (Inr r, db2) \<and>
    ns_sponsoring_registrar_handle d \<noteq> registrar_handle r \<and>
    (is_system r \<and> db3 = db2 \<or>
     (\<exists>dba dbb states. LockObjectStateRequestLock L (ns_id d) db2 = (Inr (), dba) \<and>
        PerformObjectStateRequest L (ns_id d) dba = (Inr (), dbb) \<and>
        GetObjectStates L (ns_id d) dbb = (Inr states, db3) \<and>
        \<not> ObjectStatesInfo_presents L states Object_State_server_transfer_prohibited \<and>
        \<not> ObjectStatesInfo_presents L states Object_State_delete_candidate)) \<and>
    TransferNsset L (ns_id d) (registrar_handle r) pw (logd_request_id session) db3 = (Inr history_id, db4) \<and>
    CreatePollMessage L transfer_nsset_message history_id db4 = (Inr (), db')"
  using assms unfolding transfer_nsset_def
  by (auto simp: op_inv catchE_rethrows Let_def split: if_splits)

lemma info_nsset_returns:
  assumes "info_nsset L h pw session db = (Inr out, db')"
  shows "\<exists>d states db1 db2.
    InfoNssetByHandle L False h db = (Inr d, db1) \<and>
    GetObjectStates L (ns_id d) db1 = (Inr states, db2) \<and>
    (password_value pw = [] \<and> db' = db2 \<or>
     (\<exists>n. CheckAuthinfo L (ns_id d) (password_value pw) db2 = (Inr n, db') \<and> 0 < n)) \<and>
    get_info_nsset_output (object_state_from_db_handle L) d states = Inr out"
  using assms unfolding info_nsset_def authorization_required_def
  by (auto simp: op_inv catchE_rethrows Let_def split: if_splits)

lemma get_info_nsset_output_Inr:
  assumes "get_info_nsset_output from_db_handle d states = Inr out"
  shows "nsout_handle out = ns_handle d"
    and "nsout_tech_contacts out = ns_tech_contacts d"
    and "map (\<lambda>x. (out_fqdn x, out_inet_addr x)) (nsout_dns_hosts out) =
      map (\<lambda>x. (fred_fqdn x, fred_inet_addr x)) (ns_dns_hosts d)"
    and "nsout_states out = {v. \<exists>x \<in> set states. is_external x \<and>
      from_db_handle (state_name x) = Inr (nsset_status_to_object_state v)}"
proof -
  from assms obtain S where S: "external_states nsset_status_of_object_state from_db_handle states {} = Inr S"
    by (auto simp: get_info_nsset_output_def split: sum.splits)
  from assms show "nsout_handle out = ns_handle d" "nsout_tech_contacts out = ns_tech_contacts d"
    "map (\<lambda>x. (out_fqdn x, out_inet_addr x)) (nsout_dns_hosts out) =
      map (\<lambda>x. (fred_fqdn x, fred_inet_addr x)) (ns_dns_hosts d)"
    unfolding get_info_nsset_output_def S by (auto simp: make_epp_dnshosts_output_def)
  have "nsout_states out = S" using assms unfolding get_info_nsset_output_def S by auto
  then show "nsout_states out = {v. \<exists>x \<in> set states. is_external x \<and>
      from_db_handle (state_name x) = Inr (nsset_status_to_object_state v)}"
    using external_states_Inr [OF S] by (auto simp: nsset_status_roundtrip)
qed

text \<open>The answer of \<^verbatim>\<open>check_nsset\<close>, for the requested handles and no other.\<close>

interpretation check_nsset_loop: availability_loop
    "\<lambda>h. bindE (Nsset_get_handle_syntax_validity L h) (\<lambda>validity.
       bindE (Nsset_get_handle_registrability L h) (\<lambda>registrability.
       returnE (nsset_handle_state_to_check_result validity registrability)))"
    "check_nsset_loop L" for L
  by unfold_locales (simp_all add: bindE_assoc bindE_returnE)

lemma check_nsset_run:
  assumes "nsset_queries L db syntax nssets contacts prohibited in_zone" and "is_session_registrar_valid session"
  shows "\<exists>result. check_nsset L hs session db = (Inr result, db) \<and>
    (\<forall>h. map_find string_less h result =
      (if h \<in> set hs then Some (nsset_handle_state_to_check_result (syntax h) (nssets h)) else None))"
proof -
  have "reads (bindE (Nsset_get_handle_syntax_validity L h) (\<lambda>validity.
      bindE (Nsset_get_handle_registrability L h) (\<lambda>registrability.
      returnE (nsset_handle_state_to_check_result validity registrability)))) db
    (nsset_handle_state_to_check_result (syntax h) (nssets h))" for h
    using nsset_queriesD(1,2) [OF assms(1), of h] by (simp add: reads_def op_simps)
  from check_nsset_loop.loop_run [OF this, of hs "[]"] show ?thesis
    unfolding check_nsset_def with_session_valid [OF assms(2)] map_find.simps .
qed

lemma nsset_obstruction_None_iff:
  "nsset_handle_state_to_check_result v r = None \<longleftrightarrow> v = syntax_valid \<and> r = available"
  by (cases v; cases r) (simp_all add: nsset_handle_state_to_check_result_def)

lemma nsset_obstruction_roundtrip:
  "nsset_obstruction_from_reason r = Some v \<longleftrightarrow> r = nsset_obstruction_to_reason v"
  by (cases r; cases v) (simp_all add: nsset_obstruction_from_reason_def nsset_obstruction_to_reason_def)

end
