(* ===== verification/Nsset_Sample.thy ===== *)
theory Nsset_Sample
  imports Sample_Base Nsset_Commands
begin

text \<open>
  The operations of LibFred on nssets in the registry of \<open>Sample_Base\<close>, on which the witnesses
  of the nsset properties run the commands.
\<close>

definition sample_default_nsset :: InfoNssetData where
  "sample_default_nsset = \<lparr>ns_id = 0, ns_historyid = 0, ns_handle = [], ns_roid = [],
     ns_sponsoring_registrar_handle = [], ns_create_registrar_handle = [],
     ns_update_registrar_handle = None, ns_creation_time = 0, ns_update_time = None,
     ns_transfer_time = None, ns_dns_hosts = [], ns_tech_contacts = [], ns_tech_check_level = None\<rparr>"

text \<open>The nsset \<^verbatim>\<open>NS1\<close> of the registrar 2, with one contact and two hosts.\<close>

definition sample_nsset :: InfoNssetData where
  "sample_nsset = \<lparr>ns_id = 9, ns_historyid = 90, ns_handle = ''NS1'', ns_roid = ''N9'',
     ns_sponsoring_registrar_handle = ''REG-A'', ns_create_registrar_handle = ''REG-A'',
     ns_update_registrar_handle = None, ns_creation_time = 0, ns_update_time = None,
     ns_transfer_time = None,
     ns_dns_hosts = [\<lparr>fred_fqdn = ''a.cz'', fred_inet_addr = [Address_v4 1]\<rparr>,
                     \<lparr>fred_fqdn = ''b.org'', fred_inet_addr = []\<rparr>],
     ns_tech_contacts = [''C1''], ns_tech_check_level = Some 3\<rparr>"

definition sample_nssets :: "string \<Rightarrow> Registrability" where
  "sample_nssets h = (if h = ''NS1'' then registered else if h = ''OLD'' then in_protection_period else available)"

definition sample_prohibited :: "IpAddress \<Rightarrow> bool" where
  "sample_prohibited a = (a = Address_v4 0)"

definition sample_in_zone :: "string \<Rightarrow> bool" where
  "sample_in_zone n = (drop (length n - 3) n = ''.cz'')"

text \<open>
  The states of every object are given: \<^verbatim>\<open>st\<close>. The handle \<^verbatim>\<open>BAD\<close> makes
  \<^verbatim>\<open>InfoNssetByHandle\<close> throw without saying that the handle is unknown.
\<close>

definition nsample :: "ObjectStateData list \<Rightarrow> changes libfred_nsset" where
  "nsample st = \<lparr>
     InfoRegistrarById = (\<lambda>reg. returnE (sample_registrar reg)),
     LockObjectStateRequestLock = (\<lambda>_. returnE ()),
     PerformObjectStateRequest = (\<lambda>_. returnE ()),
     GetObjectStates = (\<lambda>_. returnE st),
     ObjectStatesInfo_presents = (\<lambda>ds s. list_ex (\<lambda>d. sample_from_db_handle (state_name d) = Inr s) ds),
     object_state_from_db_handle = sample_from_db_handle,
     CheckAuthinfo = (\<lambda>_ pw. returnE (if pw = ''secret'' then 1 else 0)),
     Contact_get_handle_registrability = (\<lambda>h. returnE (sample_contacts h)),
     CreatePollMessage = (\<lambda>_ _. change ''poll'' ()),
     Nsset_get_handle_syntax_validity = (\<lambda>h. returnE (sample_syntax h)),
     Nsset_get_handle_registrability = (\<lambda>h. returnE (sample_nssets h)),
     is_rfc1123_compliant_host_name = (\<lambda>n. n \<noteq> []),
     rem_trailing_dot = (\<lambda>n. if n \<noteq> [] \<and> last n = CHR ''.'' then butlast n else n),
     find_zone_in_fqdn = (\<lambda>n. if sample_in_zone n then returnE () else throwE (LibfredException (ZoneException (Some n)))),
     select_prohibited = (\<lambda>a. returnE [sample_prohibited a]),
     default_InfoNssetData = sample_default_nsset,
     InfoNssetByHandle = (\<lambda>lock h.
       if h = ''NS1'' then returnE sample_nsset
       else throwE (LibfredException (InfoNssetByHandleException (h \<noteq> ''BAD'')))),
     CreateNsset = (\<lambda>h reg level hosts contacts log. change (''create '' @ h) (10, 100, 0)),
     UpdateNsset = (\<lambda>h reg pw hadd hrem tadd trem level log. change (''update '' @ h) 91),
     DeleteNssetByHandle = (\<lambda>h. change (''delete '' @ h) ()),
     TransferNsset = (\<lambda>i reg pw log.
       if pw = ''secret'' then change ''transfer'' 92 else throwE (LibfredException IncorrectAuthInfoPw))\<rparr>"

definition sample_host :: DnsHostInput where
  "sample_host = \<lparr>host_fqdn = ''c.cz'', host_inet_addr = [Some (Address_v4 7)]\<rparr>"

definition sample_nsset_create :: CreateNssetInputData where
  "sample_nsset_create = \<lparr>nsset_handle = ''NS2'', nsset_tech_contacts = [''C1'', ''C2''],
     nsset_dns_hosts = [sample_host, \<lparr>host_fqdn = ''d.org'', host_inet_addr = []\<rparr>],
     nsset_tech_check_level = None\<rparr>"

definition sample_nsset_config :: CreateNssetConfigData where
  "sample_nsset_config = \<lparr>rifd_epp_operations_charging = False, default_tech_check_level = 3,
     min_hosts = 2, max_hosts = 10\<rparr>"

definition sample_nsset_update :: "string list \<Rightarrow> DnsHostInput list \<Rightarrow> i16 option \<Rightarrow> UpdateNssetInputData" where
  "sample_nsset_update tadd hadd level = \<lparr>upd_nsset_handle = ''NS1'', upd_nsset_authinfopw = None,
     dns_hosts_add = hadd, dns_hosts_rem = [], nsset_tech_contacts_add = tadd, nsset_tech_contacts_rem = [],
     upd_tech_check_level = level\<rparr>"

definition sample_update_config :: UpdateNssetConfigData where
  "sample_update_config = \<lparr>upd_rifd_epp_operations_charging = False, upd_min_hosts = 2, upd_max_hosts = 10\<rparr>"

lemma nsample_queries:
  "nsset_queries (nsample st) db sample_syntax sample_nssets sample_contacts sample_prohibited sample_in_zone"
  by (simp add: nsset_queries_def nsample_def reads_def returnE_def throwE_def)

lemmas nsample_run = nsample_def sample_session_def sample_registrar_def sample_nsset_def change_def
  op_simps Let_def is_system_def is_session_registrar_valid_def

lemma sample_nsset_tech_ok: "nsset_tech_ok sample_contacts [''C1'', ''C2'']"
  by code_simp

lemma sample_host_names: "to_lower_copy ''c.cz'' = ''c.cz''" "to_lower_copy ''d.org'' = ''d.org''"
  by code_simp+

lemma sample_host_ok: "host_ok (nsample st) sample_prohibited sample_in_zone sample_host"
  by (simp add: host_ok_def host_in_zone_def sample_host_def nsample_def sample_host_names ip_prohibited_def
      sample_prohibited_def sample_in_zone_def)

lemma sample_nsset_hosts_ok:
  "nsset_hosts_ok (nsample st) sample_prohibited sample_in_zone (nsset_dns_hosts sample_nsset_create)"
  using sample_host_ok [of st]
  by (simp add: nsset_hosts_ok_def sample_nsset_create_def sample_host_names)
    (simp add: host_ok_def nsample_def sample_host_def sample_host_names)

lemma sample_nsset_create_run:
  "create_nsset (nsample st) sample_nsset_create sample_nsset_config (sample_session 2) db =
     (Inr \<lparr>created_nsset_id = 10, nsset_create_history_id = 100, nsset_crdate = 0\<rparr>, ''create NS2'' # db)"
proof -
  have "create_nsset_verdict (nsample st) sample_syntax sample_nssets sample_contacts sample_prohibited sample_in_zone
      sample_nsset_create sample_nsset_config = Inr 3"
    unfolding create_nsset_verdict_Inr using sample_nsset_hosts_ok [of st] sample_nsset_tech_ok
    by (simp add: sample_nsset_create_def sample_nsset_config_def sample_syntax_def sample_nssets_def
        tech_level_def numeric_cast_i16_def)
  moreover have "nsset_creation (nsample st) sample_nsset_create 3 (sample_session 2) db =
      (Inr \<lparr>created_nsset_id = 10, nsset_create_history_id = 100, nsset_crdate = 0\<rparr>, ''create NS2'' # db)"
    by (simp add: nsset_creation_def nsample_run sample_nsset_create_def)
  ultimately show ?thesis
    using create_nsset_by_verdict [OF nsample_queries sample_session_valid(2), of sample_nsset_create st sample_nsset_config db]
    by (simp add: sample_nsset_create_def total_addrs_def sample_host_def)
qed

lemma sample_nsset_access:
  "update_nsset_access (nsample []) (upd_nsset_handle (sample_nsset_update tadd hadd level))
     (registrar_id (sample_session 2)) db = (Inr (sample_nsset, ''REG-A''), db)"
  by (simp add: update_nsset_access_def translate_info_nsset_exception_def sample_nsset_update_def nsample_run)

lemma sample_nsset_current:
  "current_nsset_techs sample_nsset = {''C1''}" "current_nsset_fqdns sample_nsset = {''a.cz'', ''b.org''}"
  by code_simp+

lemma sample_nsset_update_ok:
  "nsset_update_ok (nsample []) sample_contacts sample_prohibited sample_in_zone
     (sample_nsset_update [''C2''] [sample_host] level) sample_nsset"
proof -
  have "to_upper_copy ''C2'' = ''C2''" "sample_contacts ''C2'' = registered" by code_simp+
  then show ?thesis
    using sample_host_ok [of "[]"]
    by (simp add: nsset_update_ok_def sample_nsset_current)
      (simp add: sample_nsset_update_def sample_host_def sample_host_names)
qed

lemma sample_nsset_update_run:
  assumes "\<forall>l. level = Some l \<longrightarrow> sint l \<le> 10"
  shows "update_nsset (nsample []) (sample_nsset_update [''C2''] [sample_host] level) sample_update_config
     (sample_session 2) db = (Inr 91, ''update NS1'' # db)"
proof -
  have "nsset_lists_short (sample_nsset_update [''C2''] [sample_host] level)"
    by (simp add: nsset_lists_short_def sample_nsset_update_def total_addrs_def sample_host_def)
  moreover have "nsset_modification (nsample []) (sample_nsset_update [''C2''] [sample_host] level) sample_update_config
      (sample_session 2) sample_nsset ''REG-A'' db = (Inr 91, ''update NS1'' # db)"
    by (simp add: nsset_modification_def translate_info_nsset_exception_def sample_nsset_update_def
        sample_update_config_def nsample_run nsset_limits)
  moreover have "\<not> (\<exists>l. upd_tech_check_level (sample_nsset_update [''C2''] [sample_host] level) = Some l \<and> 10 < sint l)"
    using assms by (auto simp: sample_nsset_update_def)
  ultimately show ?thesis
    using update_nsset_by_verdict [OF sample_nsset_access nsample_queries sample_session_valid(2),
        of "[''C2'']" "[sample_host]" level sample_update_config db] sample_nsset_update_ok
    by simp
qed

lemma sample_nsset_delete_run:
  "delete_nsset (nsample []) ''NS1'' (sample_session 2) db = (Inr 90, ''delete NS1'' # db)"
  by (simp add: delete_nsset_def delete_nsset_info_def nsample_run)

lemma sample_nsset_transfer_run:
  "transfer_nsset (nsample []) ''NS1'' ''secret'' (sample_session 3) db = (Inr 92, ''poll'' # ''transfer'' # db)"
  by (simp add: transfer_nsset_def nsample_run)

lemma sample_nsset_transfer_refused:
  "transfer_nsset (nsample []) ''NS1'' ''wrong'' (sample_session 3) db =
     (Inl (EppFailure [result_failure invalid_authorization_information]), db)"
  by (simp add: transfer_nsset_def nsample_run translate_transfer_nsset_def epp_failure_def response_failure_def)

end
