(* ===== verification/Nsset_Properties.thy ===== *)
theory Nsset_Properties
  imports Nsset_Sample
begin

text \<open>
  The properties of the nsset component: what each command decides, whom it admits, what it
  reports, and what its localized entry point stores. The witnesses run the commands on the
  registry of \<open>Nsset_Sample\<close>.
\<close>

section \<open>Creation\<close>

text \<open>C5: as long as the positions reported fit their 16 bits, \<^verbatim>\<open>create_nsset\<close> either
  throws exactly what \<open>create_nsset_verdict\<close> says and leaves the database as it is, or does
  exactly the creation with the level of the verdict.\<close>

theorem create_nsset_outcome:
  assumes "nsset_queries L db syntax nssets contacts prohibited in_zone"
    and "is_session_registrar_valid session"
    and "length (nsset_dns_hosts data) \<le> 2 ^ 16" and "total_addrs (nsset_dns_hosts data) \<le> 2 ^ 16"
  shows "create_nsset L data config session db =
    (case create_nsset_verdict L syntax nssets contacts prohibited in_zone data config of
       Inl e \<Rightarrow> (Inl e, db)
     | Inr level \<Rightarrow> nsset_creation L data level session db)"
  using assms by (rule create_nsset_by_verdict)

theorem create_nsset_outcome_witness:
  "create_nsset (nsample []) (sample_nsset_create\<lparr>nsset_tech_contacts := []\<rparr>) sample_nsset_config (sample_session 2) [] =
     (Inl (fail_with required_parameter_missing), [])"
  using create_nsset_outcome [OF nsample_queries sample_session_valid(2),
      of "sample_nsset_create\<lparr>nsset_tech_contacts := []\<rparr>" "[]" sample_nsset_config "[]"]
  by (simp add: sample_nsset_create_def total_addrs_def sample_host_def create_nsset_verdict_def)

text \<open>An nsset is created only with an available handle of valid syntax, 1 to 10 registered
  contacts that differ without regard to case, hosts that are in order and whose number the
  configuration admits, and a check level from 0 to 10; what the command did to the database is
  LibFred's creation with exactly these data.\<close>

lemma create_nsset_sound:
  assumes "nsset_queries L db syntax nssets contacts prohibited in_zone"
    and "create_nsset L data config session db = (Inr r, db')"
    and "length (nsset_dns_hosts data) \<le> 2 ^ 16" and "total_addrs (nsset_dns_hosts data) \<le> 2 ^ 16"
  shows "registrar_id session \<noteq> 0 \<and>
    syntax (nsset_handle data) = syntax_valid \<and> nssets (nsset_handle data) = available \<and>
    length (nsset_tech_contacts data) \<in> {1..10} \<and> nsset_tech_ok contacts (nsset_tech_contacts data) \<and>
    length (nsset_dns_hosts data) \<in> {unat (min_hosts config)..unat (max_hosts config)} \<and>
    nsset_hosts_ok L prohibited in_zone (nsset_dns_hosts data) \<and>
    (\<exists>level reg db1. tech_level data config = Inr level \<and> sint level \<in> {0..10} \<and>
      InfoRegistrarById L (registrar_id session) db = (Inr reg, db1) \<and>
      CreateNsset L (nsset_handle data) (registrar_handle reg) level (make_fred_dns_hosts (nsset_dns_hosts data))
        (nsset_tech_contacts data) (logd_request_id session) db1 =
        (Inr (created_nsset_id r, nsset_create_history_id r, nsset_crdate r), db'))"
proof -
  have reg: "registrar_id session \<noteq> 0"
    using create_nsset.success_has_session [OF assms(2)] .
  then have s: "is_session_registrar_valid session" by (simp add: is_session_registrar_valid_def)
  obtain level where v: "create_nsset_verdict L syntax nssets contacts prohibited in_zone data config = Inr level"
    and c: "nsset_creation L data level session db = (Inr r, db')"
    using create_nsset_by_verdict [OF assms(1) s assms(3,4), of config] assms(2) by (auto split: sum.splits)
  have "\<exists>reg db1. InfoRegistrarById L (registrar_id session) db = (Inr reg, db1) \<and>
      CreateNsset L (nsset_handle data) (registrar_handle reg) level (make_fred_dns_hosts (nsset_dns_hosts data))
        (nsset_tech_contacts data) (logd_request_id session) db1 =
        (Inr (created_nsset_id r, nsset_create_history_id r, nsset_crdate r), db')"
    using c unfolding nsset_creation_def by (auto simp: op_inv catchE_rethrows)
  with v reg show ?thesis unfolding create_nsset_verdict_Inr by blast
qed

text \<open>Contacts that are not in order are all reported, each at its position and with its
  reason: not registered, or a repetition of a registered contact before it, up to case. (Compare
  the creation of a keyset, which reports none.)\<close>

lemma create_nsset_contacts_reported:
  assumes "nsset_queries L db syntax nssets contacts prohibited in_zone"
    and "is_session_registrar_valid session"
    and "length (nsset_dns_hosts data) \<le> 2 ^ 16" and "total_addrs (nsset_dns_hosts data) \<le> 2 ^ 16"
    and "hs = nsset_tech_contacts data" and "length hs \<in> {1..10}" and "nsset_dns_hosts data \<noteq> []"
    and "length (nsset_dns_hosts data) \<in> {unat (min_hosts config)..unat (max_hosts config)}"
    and "syntax (nsset_handle data) = syntax_valid" and "nssets (nsset_handle data) = available"
    and "\<not> nsset_tech_ok contacts hs"
  shows "\<exists>f. create_nsset L data config session db = (Inl (EppFailure [f]), db) \<and>
    epp_result_code f = parameter_value_policy_error \<and>
    extended_errors f = Some (
      {error_at Param_nsset_tech i Reason_technical_contact_not_registered | i.
         i < length hs \<and> contacts (hs ! i) \<noteq> registered} \<union>
      {error_at Param_nsset_tech i Reason_duplicated_contact | i.
         i < length hs \<and> contacts (hs ! i) = registered \<and>
         (\<exists>j < i. contacts (hs ! j) = registered \<and> to_upper_copy (hs ! j) = to_upper_copy (hs ! i))})"
proof -
  let ?T = "collected (tech_errs contacts) (remember (\<lambda>h. contacts h = registered) to_upper_copy) hs 0 {}"
  have "?T \<noteq> {}" using assms(11) by (simp add: tech_collected_empty)
  then have "create_nsset_verdict L syntax nssets contacts prohibited in_zone data config =
      Inl (epp_failure (add_extended_errors ?T (result_failure parameter_value_policy_error)))"
    using assms(5-10) unfolding create_nsset_verdict_def Let_def by auto
  then have "create_nsset L data config session db =
      (Inl (epp_failure (add_extended_errors ?T (result_failure parameter_value_policy_error))), db)"
    using create_nsset_by_verdict [OF assms(1-4), of config] by simp
  moreover have "?T = {error_at Param_nsset_tech i Reason_technical_contact_not_registered | i.
         i < length hs \<and> contacts (hs ! i) \<noteq> registered} \<union>
      {error_at Param_nsset_tech i Reason_duplicated_contact | i.
         i < length hs \<and> contacts (hs ! i) = registered \<and>
         (\<exists>j < i. contacts (hs ! j) = registered \<and> to_upper_copy (hs ! j) = to_upper_copy (hs ! i))}"
    by (rule tech_errors_by_position)
  ultimately show ?thesis
    by (simp add: epp_failure_def response_failure_def add_extended_errors_def result_failure_def)
qed

section \<open>Update\<close>

text \<open>C6: when the registrar may update the nsset \<open>d\<close> and the positions reported fit their 16
  bits, \<^verbatim>\<open>update_nsset\<close> throws the errors of the four lists, all together, or the range error
  of the check level, without a further change, or else does exactly the modification.\<close>

theorem update_nsset_outcome:
  assumes "update_nsset_access L (upd_nsset_handle data) (registrar_id session) db = (Inr (d, registrar), db')"
    and "nsset_queries L db' syntax nssets contacts prohibited in_zone"
    and "is_session_registrar_valid session" and "nsset_lists_short data"
  shows "update_nsset L data config session db =
    (if \<not> nsset_update_ok L contacts prohibited in_zone data d
     then (Inl (epp_failure (add_extended_errors (nsset_update_errors L contacts prohibited in_zone data d)
       (result_failure parameter_value_policy_error))), db')
     else if (\<exists>level. upd_tech_check_level data = Some level \<and> 10 < sint level)
     then (Inl (fail_with parameter_value_range_error), db')
     else nsset_modification L data config session d registrar db')"
  using assms by (rule update_nsset_by_verdict)

theorem update_nsset_outcome_witness:
  "update_nsset (nsample []) (sample_nsset_update [''C2''] [sample_host] (Some 11)) sample_update_config (sample_session 2) [] =
     (Inl (fail_with parameter_value_range_error), [])"
proof -
  have "nsset_lists_short (sample_nsset_update [''C2''] [sample_host] (Some 11))"
    by (simp add: nsset_lists_short_def sample_nsset_update_def total_addrs_def sample_host_def)
  from update_nsset_outcome [OF sample_nsset_access nsample_queries sample_session_valid(2) this,
      of sample_update_config "[]"] sample_nsset_update_ok [of "Some 11"]
  show ?thesis by (simp add: sample_nsset_update_def)
qed

text \<open>An nsset is updated only by its registrar while no state prohibits it or by the system
  registrar, and after the update it has 1 to 10 contacts and a number of hosts that the
  configuration admits, as LibFred reports them in the same transaction; a registrar other than
  the sponsoring one leaves a poll message.\<close>

lemma update_nsset_sound:
  assumes "update_nsset L data config session db = (Inr history_id, db')"
  shows "\<exists>reg d db1 db2 db3 db4 after. InfoRegistrarById L (registrar_id session) db = (Inr reg, db1) \<and>
    InfoNssetByHandle L True (upd_nsset_handle data) db1 = (Inr d, db2) \<and>
    (is_system reg \<or> ns_sponsoring_registrar_handle d = registrar_handle reg \<and>
      (\<exists>w states w'. GetObjectStates L (ns_id d) w = (Inr states, w') \<and>
        \<not> ObjectStatesInfo_presents L states Object_State_server_update_prohibited \<and>
        \<not> ObjectStatesInfo_presents L states Object_State_delete_candidate)) \<and>
    UpdateNsset L (upd_nsset_handle data) (registrar_handle reg) (upd_nsset_authinfopw data)
      (make_fred_dns_hosts (dns_hosts_add data)) (map host_fqdn (dns_hosts_rem data))
      (nsset_tech_contacts_add data) (nsset_tech_contacts_rem data) (upd_tech_check_level data)
      (logd_request_id session) db3 = (Inr history_id, db4) \<and>
    (\<exists>w. InfoNssetByHandle L True (upd_nsset_handle data) db4 = (Inr after, w) \<and>
      (if ns_sponsoring_registrar_handle d = registrar_handle reg then db' = w
       else CreatePollMessage L update_nsset_message history_id w = (Inr (), db'))) \<and>
    length (ns_tech_contacts after) \<in> {1..10} \<and>
    length (ns_dns_hosts after) \<in> {unat (upd_min_hosts config)..unat (upd_max_hosts config)}"
proof -
  obtain d registrar db3 dbl where a: "update_nsset_access L (upd_nsset_handle data) (registrar_id session) db =
      (Inr (d, registrar), dbl)"
    and mod: "nsset_modification L data config session d registrar db3 = (Inr history_id, db')"
    using assms unfolding update_nsset_def by (auto simp: op_inv case_prod_beta)
  obtain reg db1 db2 where access: "InfoRegistrarById L (registrar_id session) db = (Inr reg, db1)"
      "InfoNssetByHandle L True (upd_nsset_handle data) db1 = (Inr d, db2)" "registrar = registrar_handle reg"
      "is_system reg \<or> ns_sponsoring_registrar_handle d = registrar_handle reg \<and>
        (\<exists>w states w'. GetObjectStates L (ns_id d) w = (Inr states, w') \<and>
          \<not> ObjectStatesInfo_presents L states Object_State_server_update_prohibited \<and>
          \<not> ObjectStatesInfo_presents L states Object_State_delete_candidate)"
    using update_nsset_access_returns [OF a] by blast
  from nsset_modification_returns [OF mod] access(1,2,4) show ?thesis
    unfolding access(3) by blast
qed

text \<open>An update does not examine the lower limit of the check level: a negative level, which
  a creation refuses, is passed on to LibFred.\<close>

lemma update_nsset_negative_level:
  assumes "update_nsset_access L (upd_nsset_handle data) (registrar_id session) db = (Inr (d, registrar), db')"
    and "nsset_queries L db' syntax nssets contacts prohibited in_zone"
    and "is_session_registrar_valid session" and "nsset_lists_short data"
    and "nsset_update_ok L contacts prohibited in_zone data d"
    and "upd_tech_check_level data = Some level" and "sint level < 0"
  shows "update_nsset L data config session db = nsset_modification L data config session d registrar db' \<and>
    create_nsset_verdict L syntax nssets contacts prohibited in_zone
      (cdata\<lparr>nsset_tech_check_level := Some level\<rparr>) cconfig \<noteq> Inr lev"
proof
  show "update_nsset L data config session db = nsset_modification L data config session d registrar db'"
    using update_nsset_by_verdict [OF assms(1-4), of config] assms(5-7) by auto
  show "create_nsset_verdict L syntax nssets contacts prohibited in_zone
      (cdata\<lparr>nsset_tech_check_level := Some level\<rparr>) cconfig \<noteq> Inr lev"
    unfolding create_nsset_verdict_Inr using assms(7) by (auto simp: tech_level_def)
qed

section \<open>Deletion, transfer, information, availability\<close>

text \<open>An nsset is deleted only by its registrar or the system registrar, never while it is
  linked, and by its registrar never while a state prohibits it. The data it is judged by are
  those LibFred reported, except that an exception of \<^verbatim>\<open>InfoNssetByHandle\<close> other than an
  unknown handle is ignored and default-constructed data are used in their place.\<close>

lemma delete_nsset_permitted:
  assumes "delete_nsset L h session db = (Inr history_id, db')"
  shows "\<exists>d r states db1 db2 db3 db4 db5.
    (InfoNssetByHandle L True h db = (Inr d, db1) \<or>
     InfoNssetByHandle L True h db = (Inl (LibfredException (InfoNssetByHandleException False)), db1) \<and>
     d = default_InfoNssetData L) \<and>
    InfoRegistrarById L (registrar_id session) db1 = (Inr r, db2) \<and>
    LockObjectStateRequestLock L (ns_id d) db2 = (Inr (), db3) \<and>
    PerformObjectStateRequest L (ns_id d) db3 = (Inr (), db4) \<and>
    GetObjectStates L (ns_id d) db4 = (Inr states, db5) \<and>
    nsset_delete_permitted L r d states \<and>
    DeleteNssetByHandle L h db5 = (Inr (), db') \<and> history_id = ns_historyid d"
proof -
  obtain d r states db1 db2 db3 db4 db5 where info: "delete_nsset_info L h db = (Inr d, db1)"
    and run: "InfoRegistrarById L (registrar_id session) db1 = (Inr r, db2)"
      "LockObjectStateRequestLock L (ns_id d) db2 = (Inr (), db3)"
      "PerformObjectStateRequest L (ns_id d) db3 = (Inr (), db4)"
      "GetObjectStates L (ns_id d) db4 = (Inr states, db5)"
      "nsset_delete_permitted L r d states"
      "DeleteNssetByHandle L h db5 = (Inr (), db')" "history_id = ns_historyid d"
    using delete_nsset_returns [OF assms] by blast
  from delete_nsset_info_returns [OF info] run show ?thesis by blast
qed

text \<open>C7: when \<^verbatim>\<open>InfoNssetByHandle\<close> throws without saying that the handle is unknown, the
  deletion goes on with default-constructed data, so that the system registrar's command locks
  and examines another object and deletes the nsset by its handle; a transfer passes the exception
  on.\<close>

theorem delete_nsset_swallows_exception:
  assumes "is_session_registrar_valid session"
    and "InfoNssetByHandle L True h db = (Inl (LibfredException (InfoNssetByHandleException False)), db1)"
    and "InfoRegistrarById L (registrar_id session) db1 = (Inr r, db2)" and "is_system r"
    and "LockObjectStateRequestLock L (ns_id (default_InfoNssetData L)) db2 = (Inr (), db3)"
    and "PerformObjectStateRequest L (ns_id (default_InfoNssetData L)) db3 = (Inr (), db4)"
    and "GetObjectStates L (ns_id (default_InfoNssetData L)) db4 = (Inr states, db5)"
    and "\<not> ObjectStatesInfo_presents L states Object_State_linked"
    and "DeleteNssetByHandle L h db5 = (Inr (), db6)"
  shows "delete_nsset L h session db = (Inr (ns_historyid (default_InfoNssetData L)), db6) \<and>
    transfer_nsset L h pw session db = (Inl (LibfredException (InfoNssetByHandleException False)), db1)"
  using assms
  by (simp add: delete_nsset_def delete_nsset_info_def transfer_nsset_def op_simps Let_def translate_unknown_nsset_def)

theorem delete_nsset_swallows_exception_witness:
  "delete_nsset (nsample []) ''BAD'' (sample_session 1) [] = (Inr 0, [''delete BAD''])"
  using delete_nsset_swallows_exception [OF sample_session_valid(1), of "nsample []" "''BAD''" "[]" "[]"
      "sample_registrar 1" "[]" "[]" "[]" "[]" "[]" "[''delete BAD'']"]
  by (simp add: nsample_run sample_default_nsset_def)

text \<open>An nsset is transferred only to another registrar and only with the password LibFred
  accepts, for an ordinary registrar never while a state prohibits it, and a poll message about
  it is created in the same transaction.\<close>

lemma transfer_nsset_permitted:
  assumes "transfer_nsset L h pw session db = (Inr history_id, db')"
  shows "\<exists>d r db1 db2 db3 db4.
    InfoNssetByHandle L True h db = (Inr d, db1) \<and>
    InfoRegistrarById L (registrar_id session) db1 = (Inr r, db2) \<and>
    ns_sponsoring_registrar_handle d \<noteq> registrar_handle r \<and>
    (is_system r \<and> db3 = db2 \<or>
     (\<exists>dba dbb states. LockObjectStateRequestLock L (ns_id d) db2 = (Inr (), dba) \<and>
        PerformObjectStateRequest L (ns_id d) dba = (Inr (), dbb) \<and>
        GetObjectStates L (ns_id d) dbb = (Inr states, db3) \<and>
        \<not> ObjectStatesInfo_presents L states Object_State_server_transfer_prohibited \<and>
        \<not> ObjectStatesInfo_presents L states Object_State_delete_candidate)) \<and>
    TransferNsset L (ns_id d) (registrar_handle r) pw (logd_request_id session) db3 = (Inr history_id, db4) \<and>
    CreatePollMessage L transfer_nsset_message history_id db4 = (Inr (), db')"
  using assms by (rule transfer_nsset_returns)

text \<open>Information on an nsset is given without a password or with one LibFred accepts; the
  answer holds the contacts, the hosts with their addresses in their order, and as its states
  exactly the external states of the object that an nsset knows.\<close>

lemma info_nsset_answer:
  assumes "info_nsset L h pw session db = (Inr out, db')"
  shows "\<exists>d states db1 db2.
    InfoNssetByHandle L False h db = (Inr d, db1) \<and>
    GetObjectStates L (ns_id d) db1 = (Inr states, db2) \<and>
    (password_value pw = [] \<and> db' = db2 \<or>
     (\<exists>n. CheckAuthinfo L (ns_id d) (password_value pw) db2 = (Inr n, db') \<and> 0 < n)) \<and>
    nsout_handle out = ns_handle d \<and> nsout_tech_contacts out = ns_tech_contacts d \<and>
    map (\<lambda>x. (out_fqdn x, out_inet_addr x)) (nsout_dns_hosts out) =
      map (\<lambda>x. (fred_fqdn x, fred_inet_addr x)) (ns_dns_hosts d) \<and>
    nsout_states out = {v. \<exists>x \<in> set states. is_external x \<and>
      object_state_from_db_handle L (state_name x) = Inr (nsset_status_to_object_state v)}"
proof -
  obtain d states db1 db2 where run: "InfoNssetByHandle L False h db = (Inr d, db1)"
      "GetObjectStates L (ns_id d) db1 = (Inr states, db2)"
      "password_value pw = [] \<and> db' = db2 \<or>
        (\<exists>n. CheckAuthinfo L (ns_id d) (password_value pw) db2 = (Inr n, db') \<and> 0 < n)"
    and out: "get_info_nsset_output (object_state_from_db_handle L) d states = Inr out"
    using info_nsset_returns [OF assms] by blast
  from get_info_nsset_output_Inr [OF out] run show ?thesis by blast
qed

text \<open>\<^verbatim>\<open>check_nsset\<close> answers for the requested handles and no other, changes nothing,
  and reports no obstruction for a handle exactly when its syntax is valid and it is available; a
  creation with a handle for which an obstruction is reported fails.\<close>

lemma check_nsset_agrees_with_create:
  assumes "nsset_queries L db syntax nssets contacts prohibited in_zone" and "is_session_registrar_valid session"
  shows "\<exists>result. check_nsset L hs session db = (Inr result, db) \<and>
    (\<forall>h. map_find string_less h result \<noteq> None \<longleftrightarrow> h \<in> set hs) \<and>
    (\<forall>h. map_find string_less h result = Some None \<longleftrightarrow>
      h \<in> set hs \<and> syntax h = syntax_valid \<and> nssets h = available) \<and>
    (\<forall>ob data config r db'. map_find string_less (nsset_handle data) result = Some (Some ob) \<and>
      length (nsset_dns_hosts data) \<le> 2 ^ 16 \<and> total_addrs (nsset_dns_hosts data) \<le> 2 ^ 16 \<longrightarrow>
      create_nsset L data config session db \<noteq> (Inr r, db'))"
proof -
  obtain result where r: "check_nsset L hs session db = (Inr result, db)"
      "\<And>h. map_find string_less h result =
        (if h \<in> set hs then Some (nsset_handle_state_to_check_result (syntax h) (nssets h)) else None)"
    using check_nsset_run [OF assms] by blast
  have "create_nsset L data config session db \<noteq> (Inr r, db')"
    if "map_find string_less (nsset_handle data) result = Some (Some ob)"
      "length (nsset_dns_hosts data) \<le> 2 ^ 16" "total_addrs (nsset_dns_hosts data) \<le> 2 ^ 16" for ob data config r db'
  proof -
    have "nsset_handle_state_to_check_result (syntax (nsset_handle data)) (nssets (nsset_handle data)) \<noteq> None"
      using that(1) unfolding r(2) by (auto split: if_splits)
    then have "create_nsset_verdict L syntax nssets contacts prohibited in_zone data config \<noteq> Inr level" for level
      unfolding create_nsset_verdict_Inr nsset_obstruction_None_iff by blast
    then show ?thesis
      using create_nsset_by_verdict [OF assms that(2,3), of config] by (auto split: sum.splits)
  qed
  with r show ?thesis by (auto simp: nsset_obstruction_None_iff)
qed

section \<open>The session and the transaction\<close>

section \<open>Hosts\<close>

text \<open>The hosts of an accepted creation reach LibFred and come back from it complete: their
  names and addresses, in their order, are those the client gave.\<close>

lemma nsset_hosts_roundtrip:
  assumes "nsset_hosts_ok L prohibited in_zone hosts"
  shows "map (\<lambda>x. (out_fqdn x, make_optional_ipaddrs (out_inet_addr x)))
      (make_epp_dnshosts_output (make_fred_dns_hosts hosts)) =
    map (\<lambda>x. (host_fqdn x, host_inet_addr x)) hosts"
proof -
  have "None \<notin> set (host_inet_addr host)" if "host \<in> set hosts" for host
  proof -
    have "\<forall>ip \<in> set (host_inet_addr host). \<not> ip_prohibited prohibited ip"
      using assms that by (simp add: nsset_hosts_ok_def host_ok_def)
    moreover have "ip_prohibited prohibited None" by (simp add: ip_prohibited_def)
    ultimately show ?thesis by blast
  qed
  then show ?thesis
    by (auto simp: make_epp_dnshosts_output_def make_fred_dns_hosts_def make_optional_roundtrip)
qed

end
