(* ===== verification/Domain_Base.thy ===== *)
theory Domain_Base
  imports Indexed_Check Epp_Localized
begin

text \<open>
  The data of the domain commands (\<^verbatim>\<open>domain/*.hh\<close>), the operations of LibFred and the
  queries they use, and the two computations several commands share: the length of a
  registration (\<^verbatim>\<open>domain_registration_time.hh\<close>) and the expiration of an ENUM validation
  (\<^verbatim>\<open>domain_enum_validation.cc\<close>).
\<close>

section \<open>Dates and periods\<close>

text \<open>
  \<^verbatim>\<open>boost::gregorian::date\<close> holds a day number, compared as a number; some numbers stand for
  special values (\<open>date_is_special\<close> below says which).
\<close>

type_synonym date = int

datatype PeriodUnit = Unit_month | Unit_year

record DomainRegistrationTime =
  length_of_domain_registration :: "32 word"
  unit_of_domain_registration_time :: PeriodUnit

text \<open>
  The length in months is an \<^verbatim>\<open>int\<close>, read by \<open>sint\<close>. The product may leave its range,
  which the language leaves undefined; it wraps here, as on the processor.
\<close>

definition get_length_of_domain_registration_in_months :: "DomainRegistrationTime \<Rightarrow> 32 word" where
  "get_length_of_domain_registration_in_months t =
     (case unit_of_domain_registration_time t of
        Unit_month \<Rightarrow> length_of_domain_registration t
      | Unit_year \<Rightarrow> length_of_domain_registration t * 12)"

text \<open>\<^verbatim>\<open>boost::numeric_cast<unsigned>\<close> of an \<^verbatim>\<open>int\<close>\<close>

definition numeric_cast_u32 :: "32 word \<Rightarrow> exn + u32" where
  "numeric_cast_u32 n = (if sint n < 0 then Inl (StdException ''bad_numeric_cast'') else Inr n)"

record EnumValidationExtension =
  get_valexdate :: date
  get_publish :: bool

section \<open>Input and output\<close>

record CreateDomainInputData =
  create_fqdn :: string
  create_registrant :: string
  create_nsset_handle :: string
  create_keyset_handle :: string
  create_period :: DomainRegistrationTime
  create_admin_contacts :: "string list"
  create_enum_validation_extension :: "EnumValidationExtension option"

record CreateDomainResult =
  created_domain_id :: u64
  domain_create_history_id :: u64
  domain_crtime :: ptime
  create_old_exdate :: date
  create_exdate :: date
  create_length_in_months :: u32

record RenewDomainInputData =
  renew_fqdn :: string
  renew_current_exdate :: string
  renew_period :: DomainRegistrationTime
  renew_enum_validation_extension :: "EnumValidationExtension option"

record RenewDomainResult =
  renewed_domain_id :: u64
  renewed_domain_history_id :: u64
  renew_time :: ptime
  renew_old_exdate :: date
  renew_exdate :: date
  renew_length_in_months :: u32

text \<open>\<^verbatim>\<open>Optional<Nullable<std::string>>\<close>: the outer option says whether a change is wanted.\<close>

record UpdateDomainInputData =
  update_fqdn :: string
  registrant_chg :: "string option"
  authinfopw_chg :: "string option"
  nsset_chg :: "string option option"
  keyset_chg :: "string option option"
  admin_contacts_add :: "string list"
  admin_contacts_rem :: "string list"
  tmpcontacts_rem :: "string list"
  update_enum_validation :: "EnumValidationExtension option"

record UpdateDomainConfigData =
  upd_domain_operations_charging :: bool
  rifd_epp_update_domain_keyset_clear :: bool

section \<open>Status values\<close>

datatype DomainStatusValue =
    DomainStatus_server_delete_prohibited
  | DomainStatus_server_renew_prohibited
  | DomainStatus_server_transfer_prohibited
  | DomainStatus_server_update_prohibited
  | DomainStatus_server_registrant_change_prohibited
  | DomainStatus_server_blocked
  | DomainStatus_server_outzone_manual
  | DomainStatus_server_inzone_manual
  | DomainStatus_expired
  | DomainStatus_outzone
  | DomainStatus_not_validated
  | DomainStatus_delete_candidate

definition domain_status_of_object_state :: "Object_State \<Rightarrow> exn + DomainStatusValue" where
  "domain_status_of_object_state v =
     (case v of
        Object_State_delete_candidate \<Rightarrow> Inr DomainStatus_delete_candidate
      | Object_State_expired \<Rightarrow> Inr DomainStatus_expired
      | Object_State_not_validated \<Rightarrow> Inr DomainStatus_not_validated
      | Object_State_outzone \<Rightarrow> Inr DomainStatus_outzone
      | Object_State_server_blocked \<Rightarrow> Inr DomainStatus_server_blocked
      | Object_State_server_delete_prohibited \<Rightarrow> Inr DomainStatus_server_delete_prohibited
      | Object_State_server_inzone_manual \<Rightarrow> Inr DomainStatus_server_inzone_manual
      | Object_State_server_outzone_manual \<Rightarrow> Inr DomainStatus_server_outzone_manual
      | Object_State_server_registrant_change_prohibited \<Rightarrow> Inr DomainStatus_server_registrant_change_prohibited
      | Object_State_server_renew_prohibited \<Rightarrow> Inr DomainStatus_server_renew_prohibited
      | Object_State_server_transfer_prohibited \<Rightarrow> Inr DomainStatus_server_transfer_prohibited
      | Object_State_server_update_prohibited \<Rightarrow> Inr DomainStatus_server_update_prohibited
      | _ \<Rightarrow> Inl (StdException ''value not convertible to Epp::Domain::StatusValue::Enum''))"

definition domain_status_to_object_state :: "DomainStatusValue \<Rightarrow> Object_State" where
  "domain_status_to_object_state v =
     (case v of
        DomainStatus_delete_candidate \<Rightarrow> Object_State_delete_candidate
      | DomainStatus_expired \<Rightarrow> Object_State_expired
      | DomainStatus_not_validated \<Rightarrow> Object_State_not_validated
      | DomainStatus_outzone \<Rightarrow> Object_State_outzone
      | DomainStatus_server_blocked \<Rightarrow> Object_State_server_blocked
      | DomainStatus_server_delete_prohibited \<Rightarrow> Object_State_server_delete_prohibited
      | DomainStatus_server_inzone_manual \<Rightarrow> Object_State_server_inzone_manual
      | DomainStatus_server_outzone_manual \<Rightarrow> Object_State_server_outzone_manual
      | DomainStatus_server_registrant_change_prohibited \<Rightarrow> Object_State_server_registrant_change_prohibited
      | DomainStatus_server_renew_prohibited \<Rightarrow> Object_State_server_renew_prohibited
      | DomainStatus_server_transfer_prohibited \<Rightarrow> Object_State_server_transfer_prohibited
      | DomainStatus_server_update_prohibited \<Rightarrow> Object_State_server_update_prohibited)"

text \<open>The values in the order of the enumeration, which is that of a \<^verbatim>\<open>std::set\<close> of them.\<close>

definition domain_status_values :: "DomainStatusValue list" where
  "domain_status_values =
     [DomainStatus_server_delete_prohibited, DomainStatus_server_renew_prohibited,
      DomainStatus_server_transfer_prohibited, DomainStatus_server_update_prohibited,
      DomainStatus_server_registrant_change_prohibited, DomainStatus_server_blocked,
      DomainStatus_server_outzone_manual, DomainStatus_server_inzone_manual, DomainStatus_expired,
      DomainStatus_outzone, DomainStatus_not_validated, DomainStatus_delete_candidate]"

lemma set_domain_status_values: "v \<in> set domain_status_values"
  by (cases v) (simp_all add: domain_status_values_def)

lemma domain_status_roundtrip:
  "domain_status_of_object_state s = Inr v \<longleftrightarrow> s = domain_status_to_object_state v"
  by (cases s; cases v) (simp_all add: domain_status_of_object_state_def domain_status_to_object_state_def)

section \<open>LibFred's view of a domain\<close>

datatype DomainRegistrability =
    domain_registered | domain_blacklisted | domain_zone_not_in_registry | domain_available

record ZoneData =
  zone_id :: u64
  zone_is_enum :: bool
  ex_period_min :: u32
  ex_period_max :: u32
  enum_validation_period :: u32

record InfoDomainData =
  dom_id :: u64
  dom_historyid :: u64
  dom_fqdn :: string
  dom_roid :: string
  dom_sponsoring_registrar_handle :: string
  dom_create_registrar_handle :: string
  dom_update_registrar_handle :: "string option"
  dom_creation_time :: ptime
  dom_update_time :: "ptime option"
  dom_transfer_time :: "ptime option"
  dom_expiration_date :: date
  dom_registrant :: string
  dom_nsset :: "string option"
  dom_keyset :: "string option"
  dom_admin_contacts :: "string list"
  dom_enum_domain_validation :: "EnumValidationExtension option"

text \<open>
  \<open>current_utc_time\<close>, \<open>select_continuation_begin\<close>, \<open>select_plus_months\<close> and
  \<open>select_exdates\<close> are the queries the commands send for the time of the transaction and for
  date arithmetics, with their answer parsed; \<open>utc_to_local_date\<close> converts by the time zone of
  the system, \<open>from_simple_string\<close> parses a date.
\<close>

record 'db libfred_domain = "'db libfred" +
  get_domain_registrability_by_domain_fqdn :: "string \<Rightarrow> bool \<Rightarrow> ('db, exn, DomainRegistrability) op"
  get_domain_fqdn_syntax_validity :: "string \<Rightarrow> bool \<Rightarrow> ('db, exn, SyntaxValidity) op"
  zone_rem_trailing_dot :: "string \<Rightarrow> string"
  Zone_find_zone_in_fqdn :: "string \<Rightarrow> ('db, exn, ZoneData) op"
  is_zone_accessible_by_registrar :: "u64 \<Rightarrow> u64 \<Rightarrow> date \<Rightarrow> ('db, exn, bool) op"
  nsset_handle_registrability :: "string \<Rightarrow> ('db, exn, Registrability) op"
  keyset_handle_registrability :: "string \<Rightarrow> ('db, exn, Registrability) op"
  current_utc_time :: "('db, exn, ptime) op"
  utc_to_local_date :: "ptime \<Rightarrow> date"
  date_is_special :: "date \<Rightarrow> bool"
  ptime_is_special :: "ptime \<Rightarrow> bool"
  from_simple_string :: "string \<Rightarrow> exn + date"
  select_continuation_begin :: "date \<Rightarrow> ('db, exn, date) op"
  select_plus_months :: "date \<Rightarrow> u32 \<Rightarrow> ('db, exn, date) op"
  select_exdates :: "date \<Rightarrow> u32 \<Rightarrow> date \<Rightarrow> u32 \<Rightarrow> ('db, exn, date \<times> date) op"
  InfoDomainByFqdn :: "bool \<Rightarrow> string \<Rightarrow> ('db, exn, InfoDomainData) op"
  CreateDomain :: "string \<Rightarrow> string \<Rightarrow> string \<Rightarrow> string option \<Rightarrow> string option \<Rightarrow> string list \<Rightarrow>
    date \<Rightarrow> date option \<Rightarrow> bool option \<Rightarrow> u64 option \<Rightarrow> ('db, exn, u64 \<times> u64 \<times> ptime) op"
  RenewDomain :: "string \<Rightarrow> string \<Rightarrow> date \<Rightarrow> date option \<Rightarrow> bool option \<Rightarrow> u64 option \<Rightarrow>
    ('db, exn, u64) op"
  UpdateDomain :: "string \<Rightarrow> string \<Rightarrow> string option \<Rightarrow> string option \<Rightarrow> string option option \<Rightarrow>
    string option option \<Rightarrow> string list \<Rightarrow> string list \<Rightarrow> date option \<Rightarrow> bool option \<Rightarrow> u64 option \<Rightarrow>
    ('db, exn, u64) op"
  DeleteDomainByFqdn :: "string \<Rightarrow> ('db, exn, unit) op"
  TransferDomain :: "u64 \<Rightarrow> string \<Rightarrow> string \<Rightarrow> u64 option \<Rightarrow> ('db, exn, u64) op"

text \<open>The zone of a domain; an unknown zone means that there is no such object.\<close>

definition translate_unknown_zone :: "exn \<Rightarrow> ('db, exn, 'a) op" where
  "translate_unknown_zone e =
     (case e of
        LibfredException (ZoneException unknown_zone) \<Rightarrow>
          if unknown_zone \<noteq> None then throwE (fail_with object_does_not_exist) else throwE e
      | _ \<Rightarrow> throwE e)"

definition zone_of_object :: "('db, 'x) libfred_domain_scheme \<Rightarrow> string \<Rightarrow> ('db, exn, ZoneData) op" where
  "zone_of_object L fqdn =
     catchE (Zone_find_zone_in_fqdn L (zone_rem_trailing_dot L fqdn)) translate_unknown_zone"

definition translate_unknown_fqdn :: "exn \<Rightarrow> ('db, exn, 'a) op" where
  "translate_unknown_fqdn e =
     (case e of
        LibfredException (InfoDomainByFqdnException unknown) \<Rightarrow>
          if unknown then throwE (fail_with object_does_not_exist) else throwE e
      | _ \<Rightarrow> throwE e)"

definition locked_domain :: "('db, 'x) libfred_domain_scheme \<Rightarrow> string \<Rightarrow> ('db, exn, InfoDomainData) op" where
  "locked_domain L fqdn = catchE (InfoDomainByFqdn L True fqdn) translate_unknown_fqdn"

lemma rethrows_translate_unknown_zone [simp]: "rethrows translate_unknown_zone"
  by (auto simp: rethrows_def translate_unknown_zone_def throwE_def
      split: exn.split libfred_exception.split)

lemma rethrows_translate_unknown_fqdn [simp]: "rethrows translate_unknown_fqdn"
  by (auto simp: rethrows_def translate_unknown_fqdn_def throwE_def
      split: exn.split libfred_exception.split)

lemma zone_of_object_Inr [op_inv]:
  "zone_of_object L fqdn db = (Inr z, db') \<longleftrightarrow>
   Zone_find_zone_in_fqdn L (zone_rem_trailing_dot L fqdn) db = (Inr z, db')"
  by (simp add: zone_of_object_def catchE_rethrows)

lemma locked_domain_Inr [op_inv]:
  "locked_domain L fqdn db = (Inr d, db') \<longleftrightarrow> InfoDomainByFqdn L True fqdn db = (Inr d, db')"
  by (simp add: locked_domain_def catchE_rethrows)

section \<open>ENUM validation\<close>

definition is_new_enum_domain_validation_expiration_date_invalid ::
  "('db, 'x) libfred_domain_scheme \<Rightarrow> date \<Rightarrow> date \<Rightarrow> u32 \<Rightarrow> date option \<Rightarrow> ('db, exn, bool) op" where
  "is_new_enum_domain_validation_expiration_date_invalid L new_valexdate current_local_date
      validation_period current_valexdate =
     bindE (case current_valexdate of
              None \<Rightarrow> returnE False
            | Some current \<Rightarrow>
                bindE (select_continuation_begin L current) (\<lambda>validation_continuation_begin.
                returnE (validation_continuation_begin \<le> current_local_date \<and> current_local_date < current)))
       (\<lambda>validation_continuation.
     bindE (select_plus_months L (if validation_continuation then the current_valexdate else current_local_date)
              validation_period) (\<lambda>max_valexdate.
     returnE (date_is_special L new_valexdate \<or> new_valexdate \<le> current_local_date \<or>
              max_valexdate < new_valexdate)))"

text \<open>
  What the date must satisfy, given the answers of the two queries: the validation may be
  prolonged from its expiration inside the continuation window and from today otherwise.
\<close>

definition enum_validation_base :: "(date \<Rightarrow> date) \<Rightarrow> date \<Rightarrow> date option \<Rightarrow> date" where
  "enum_validation_base window_begin today current =
     (case current of
        None \<Rightarrow> today
      | Some c \<Rightarrow> if window_begin c \<le> today \<and> today < c then c else today)"

lemma enum_validation_run:
  assumes "\<And>d. reads (select_continuation_begin L d) db (window_begin d)"
    and "\<And>d n. reads (select_plus_months L d n) db (plus_months d n)"
  shows "is_new_enum_domain_validation_expiration_date_invalid L new today period current db =
    (Inr (date_is_special L new \<or> new \<le> today \<or>
       plus_months (enum_validation_base window_begin today current) period < new), db)"
proof (cases current)
  case None
  then show ?thesis
    using assms(2) [of today period]
    by (simp add: is_new_enum_domain_validation_expiration_date_invalid_def enum_validation_base_def op_simps)
next
  case (Some c)
  then show ?thesis
    using assms(1) [of c] assms(2) [of c period] assms(2) [of today period]
    by (simp add: is_new_enum_domain_validation_expiration_date_invalid_def enum_validation_base_def op_simps)
qed

section \<open>The length of a registration\<close>

text \<open>The part of the checks of the period that creation and renewal share: 0 means the least period of the zone.\<close>

definition registration_months :: "ZoneData \<Rightarrow> u32 \<Rightarrow> u32" where
  "registration_months zone n = (if n = 0 then ex_period_min zone else n)"

lemma months_in_range:
  assumes "sint (length_of_domain_registration t) * 12 \<in> {- (2 ^ 31)..<2 ^ 31}"
  shows "sint (get_length_of_domain_registration_in_months t) =
    sint (length_of_domain_registration t) *
      (case unit_of_domain_registration_time t of Unit_month \<Rightarrow> 1 | Unit_year \<Rightarrow> 12)"
proof (cases "unit_of_domain_registration_time t")
  case Unit_year
  have "sint (length_of_domain_registration t * 12) = signed_take_bit 31 (sint (length_of_domain_registration t) * 12)"
    by (simp add: sint_word_ariths)
  with assms show ?thesis
    by (simp add: get_length_of_domain_registration_in_months_def Unit_year signed_take_bit_int_eq_self)
qed (simp add: get_length_of_domain_registration_in_months_def)

end
