(* ===== verification/Domain_Billing.thy ===== *)
theory Domain_Billing
  imports Domain_Base
begin

text \<open>
  Charging the creation and the renewal of a domain (\<^verbatim>\<open>domain/impl/domain_billing.cc\<close>).
  Decimal numbers are those of a library and a parameter, as are the queries.
\<close>

section \<open>Queries and decimal numbers\<close>

record price_list_row =
  enable_postpaid_operation :: bool
  operation_id :: u64
  price_list_price :: string
  price_list_quantity :: string

record registrar_credit_row =
  credit_registrar_handle :: string
  credit_zone_fqdn :: "string option"
  registrar_credit :: "string option"

record ('db, 'dec) billing =
  Decimal :: "string \<Rightarrow> exn + 'dec"
  dec_times :: "'dec \<Rightarrow> 'dec \<Rightarrow> exn + 'dec"
  dec_divide :: "'dec \<Rightarrow> 'dec \<Rightarrow> exn + 'dec"
  dec_minus :: "'dec \<Rightarrow> 'dec \<Rightarrow> exn + 'dec"
  dec_eq :: "'dec \<Rightarrow> 'dec \<Rightarrow> bool"
  dec_less :: "'dec \<Rightarrow> 'dec \<Rightarrow> bool"
  select_price_list :: "ptime \<Rightarrow> u64 \<Rightarrow> string \<Rightarrow> ('db, exn, price_list_row list) op"
  select_registrar_credit :: "u64 \<Rightarrow> u64 \<Rightarrow> ('db, exn, registrar_credit_row list) op"
  CreateRegistrarCreditTransaction :: "string \<Rightarrow> string \<Rightarrow> 'dec \<Rightarrow> ('db, exn, u64) op"
  insert_invoice_operation :: "u64 \<Rightarrow> u64 \<Rightarrow> u64 \<Rightarrow> u64 \<Rightarrow> string \<Rightarrow> date \<Rightarrow> date option \<Rightarrow> u64 \<Rightarrow>
    ('db, exn, unit) op"

text \<open>\<^verbatim>\<open>boost::lexical_cast<std::string>\<close> of an \<^verbatim>\<open>int\<close>\<close>

definition int_to_string :: "int \<Rightarrow> string" where
  "int_to_string n = (if n < 0 then CHR ''-'' # digits (nat (- n)) else digits (nat n))"

text \<open>Division of \<^verbatim>\<open>int\<close> truncates towards zero.\<close>

definition int_quot :: "int \<Rightarrow> int \<Rightarrow> int" where
  "int_quot a b = (if a < 0 then - ((- a) div b) else a div b)"

section \<open>One operation\<close>

text \<open>
  The two functions do the same for different operations: they find the price of one unit, take
  \<open>count\<close> units, refuse when the credit does not suffice and the operation is not postpaid, and
  record the debt and the operation.
\<close>

definition operation_price ::
  "('db, 'dec, 'y) billing_scheme \<Rightarrow> string \<Rightarrow> price_list_row \<Rightarrow> exn + 'dec" where
  "operation_price B count row =
     (case Decimal B (price_list_price row) of
        Inl e \<Rightarrow> Inl e
      | Inr price \<Rightarrow>
     (case Decimal B (price_list_quantity row) of
        Inl e \<Rightarrow> Inl e
      | Inr quantity \<Rightarrow>
     (case Decimal B ''0'' of
        Inl e \<Rightarrow> Inl e
      | Inr zero \<Rightarrow>
        if dec_eq B quantity zero then Inl (StdException ''price_list_quantity == 0'')
        else
     (case Decimal B count of
        Inl e \<Rightarrow> Inl e
      | Inr n \<Rightarrow>
     (case dec_times B price n of
        Inl e \<Rightarrow> Inl e
      | Inr product \<Rightarrow> dec_divide B product quantity)))))"

definition sufficient_credit ::
  "('db, 'dec, 'y) billing_scheme \<Rightarrow> 'dec \<Rightarrow> 'dec \<Rightarrow> 'dec \<Rightarrow> bool \<Rightarrow> bool" where
  "sufficient_credit B zero price balance postpaid \<longleftrightarrow>
     \<not> (\<not> dec_eq B price zero \<and> dec_less B balance price \<and> \<not> postpaid)"

definition record_debt ::
  "('db, 'dec, 'y) billing_scheme \<Rightarrow> string \<Rightarrow> string \<Rightarrow> 'dec \<Rightarrow> 'dec \<Rightarrow> ('db, exn, u64) op" where
  "record_debt B handle zone zero price =
     catchE
       (bindE (liftE (dec_minus B zero price)) (\<lambda>debt.
        CreateRegistrarCreditTransaction B handle zone debt))
       (\<lambda>_. throwE (StdException ''charge_operation: registrar_credit_transaction failed''))"

definition charge_operation ::
  "('db, 'dec, 'y) billing_scheme \<Rightarrow> string \<Rightarrow> ptime \<Rightarrow> u64 \<Rightarrow> string \<Rightarrow> u64 \<Rightarrow> u64 \<Rightarrow> date \<Rightarrow>
     date option \<Rightarrow> ('db, exn, unit) op" where
  "charge_operation B operation timestamp zone count registrar object date_from date_to =
     bindE (select_price_list B timestamp zone operation) (\<lambda>operation_price_list_result.
     throw_if (length operation_price_list_result \<noteq> 1) (StdException ''price_list result'') (
     let row = hd operation_price_list_result in
     bindE (liftE (operation_price B count row)) (\<lambda>price.
     bindE (select_registrar_credit B registrar zone) (\<lambda>locked_registrar_credit_result.
     throw_if (length locked_registrar_credit_result \<noteq> 1 \<or>
               credit_zone_fqdn (hd locked_registrar_credit_result) = None)
       (StdException ''unable to get registrar_credit'') (
     let credit = hd locked_registrar_credit_result in
     bindE (liftE (Decimal B (case registrar_credit credit of None \<Rightarrow> ''0.00'' | Some c \<Rightarrow> c))) (\<lambda>balance.
     bindE (liftE (Decimal B ''0'')) (\<lambda>zero.
     throw_if (\<not> sufficient_credit B zero price balance (enable_postpaid_operation row)) BillingFailure (
     bindE (record_debt B (credit_registrar_handle credit) (the (credit_zone_fqdn credit)) zero price)
       (\<lambda>registrar_credit_transaction_id.
     insert_invoice_operation B object registrar (operation_id row) zone count date_from date_to
       registrar_credit_transaction_id)))))))))"

section \<open>The bill items\<close>

definition create_domain_bill_item ::
  "('db, 'x) libfred_domain_scheme \<Rightarrow> ('db, 'dec, 'y) billing_scheme \<Rightarrow> string \<Rightarrow> ptime \<Rightarrow> u64 \<Rightarrow> u64 \<Rightarrow>
     ('db, exn, unit) op" where
  "create_domain_bill_item L B fqdn timestamp registrar domain =
     bindE (Zone_find_zone_in_fqdn L (zone_rem_trailing_dot L fqdn)) (\<lambda>zone.
     charge_operation B ''CreateDomain'' timestamp (zone_id zone) ''1'' registrar domain
       (utc_to_local_date L timestamp) None)"

definition renew_domain_bill_item ::
  "('db, 'x) libfred_domain_scheme \<Rightarrow> ('db, 'dec, 'y) billing_scheme \<Rightarrow> string \<Rightarrow> ptime \<Rightarrow> u64 \<Rightarrow> u64 \<Rightarrow>
     u32 \<Rightarrow> date \<Rightarrow> date \<Rightarrow> ('db, exn, unit) op" where
  "renew_domain_bill_item L B fqdn timestamp registrar domain months old_exdate exdate =
     (let length_of_domain_registration_in_years = int_quot (sint months) 12 in
      bindE (Zone_find_zone_in_fqdn L (zone_rem_trailing_dot L fqdn)) (\<lambda>zone.
      charge_operation B ''RenewDomain'' timestamp (zone_id zone)
        (int_to_string length_of_domain_registration_in_years) registrar domain old_exdate (Some exdate)))"

section \<open>What charging does\<close>

lemma charge_operation_returns:
  assumes "charge_operation B operation timestamp zone count registrar object date_from date_to db = (Inr (), db')"
  shows "\<exists>row credit price zero balance debt zone_fqdn tr db1 db2 db3.
    select_price_list B timestamp zone operation db = (Inr [row], db1) \<and>
    operation_price B count row = Inr price \<and>
    select_registrar_credit B registrar zone db1 = (Inr [credit], db2) \<and>
    credit_zone_fqdn credit = Some zone_fqdn \<and>
    Decimal B (case registrar_credit credit of None \<Rightarrow> ''0.00'' | Some c \<Rightarrow> c) = Inr balance \<and>
    Decimal B ''0'' = Inr zero \<and>
    (dec_eq B price zero \<or> \<not> dec_less B balance price \<or> enable_postpaid_operation row) \<and>
    dec_minus B zero price = Inr debt \<and>
    CreateRegistrarCreditTransaction B (credit_registrar_handle credit) zone_fqdn debt db2 = (Inr tr, db3) \<and>
    insert_invoice_operation B object registrar (operation_id row) zone count date_from date_to tr db3 = (Inr (), db')"
proof -
  from assms obtain rows credits price zero balance tr db1 db2 db3 where run:
    "select_price_list B timestamp zone operation db = (Inr rows, db1)" "length rows = 1"
    "operation_price B count (hd rows) = Inr price"
    "select_registrar_credit B registrar zone db1 = (Inr credits, db2)"
    "length credits = 1" "credit_zone_fqdn (hd credits) \<noteq> None"
    "Decimal B (case registrar_credit (hd credits) of None \<Rightarrow> ''0.00'' | Some c \<Rightarrow> c) = Inr balance"
    "Decimal B ''0'' = Inr zero"
    "sufficient_credit B zero price balance (enable_postpaid_operation (hd rows))"
    and debt: "record_debt B (credit_registrar_handle (hd credits)) (the (credit_zone_fqdn (hd credits))) zero price db2 =
      (Inr tr, db3)"
    and ins: "insert_invoice_operation B object registrar (operation_id (hd rows)) zone count date_from date_to tr db3 = (Inr (), db')"
    unfolding charge_operation_def by (auto simp: op_inv Let_def)
  obtain row credit zone_fqdn where "rows = [row]" "credits = [credit]" "credit_zone_fqdn credit = Some zone_fqdn"
    using run(2,5,6) by (auto simp: length_Suc_conv)
  moreover have "rethrows (\<lambda>_. throwE (StdException m))" for m :: string
    by (simp add: rethrows_def throwE_def)
  ultimately show ?thesis
    using run debt ins unfolding record_debt_def sufficient_credit_def
    by (auto simp: op_inv catchE_Inr)
qed

lemma charge_operation_refuses:
  assumes "select_price_list B timestamp zone operation db = (Inr [row], db1)"
    and "operation_price B count row = Inr price"
    and "select_registrar_credit B registrar zone db1 = (Inr [credit], db2)"
    and "credit_zone_fqdn credit = Some zone_fqdn"
    and "Decimal B (case registrar_credit credit of None \<Rightarrow> ''0.00'' | Some c \<Rightarrow> c) = Inr balance"
    and "Decimal B ''0'' = Inr zero"
    and "\<not> dec_eq B price zero" and "dec_less B balance price" and "\<not> enable_postpaid_operation row"
  shows "charge_operation B operation timestamp zone count registrar object date_from date_to db =
    (Inl BillingFailure, db2)"
  using assms by (simp add: charge_operation_def op_simps sufficient_credit_def)

end
