(* ===== verification/Domain_Create.thy ===== *)
theory Domain_Create
  imports Domain_Billing
begin

text \<open>
  The command \<^verbatim>\<open>create_domain\<close> (\<^verbatim>\<open>domain/create_domain.cc\<close>). Some checks throw at
  once, the others record their error and all recorded errors are reported together.
\<close>

section \<open>The checks\<close>

text \<open>
  The registrar, the name and the zone: the result is the registrar, the zone, today's date and
  the errors recorded so far.
\<close>

definition create_domain_access ::
  "('db, 'x) libfred_domain_scheme \<Rightarrow> string \<Rightarrow> SessionData \<Rightarrow>
     ('db, exn, InfoRegistrarData \<times> ZoneData \<times> date \<times> EppResultFailure) op" where
  "create_domain_access L fqdn session =
     bindE (InfoRegistrarById L (registrar_id session)) (\<lambda>session_registrar.
     let is_system_registrar = is_system session_registrar in
     bindE (get_domain_registrability_by_domain_fqdn L fqdn is_system_registrar) (\<lambda>domain_registrability.
     throw_if (domain_registrability = domain_zone_not_in_registry)
       (epp_failure (add_extended_error
          (of_scalar_parameter Param_domain_fqdn Reason_not_applicable_domain)
          (result_failure parameter_value_policy_error))) (
     bindE (get_domain_fqdn_syntax_validity L fqdn is_system_registrar) (\<lambda>validity.
     throw_if (validity \<noteq> syntax_valid)
       (epp_failure (add_extended_error
          (of_scalar_parameter Param_domain_fqdn Reason_bad_format_fqdn)
          (result_failure parameter_value_syntax_error))) (
     throw_if (domain_registrability = domain_registered) (fail_with object_exists) (
     let errors = (if domain_registrability = domain_blacklisted
                   then add_extended_error (of_scalar_parameter Param_domain_fqdn Reason_blacklisted_domain)
                          (result_failure parameter_value_policy_error)
                   else result_failure parameter_value_policy_error) in
     bindE (Zone_find_zone_in_fqdn L (zone_rem_trailing_dot L fqdn)) (\<lambda>zone_data.
     bindE (current_utc_time L) (\<lambda>current_utc.
     let current_local_date = utc_to_local_date L current_utc in
     bindE (is_zone_accessible_by_registrar L (registrar_id session) (zone_id zone_data) current_local_date)
       (\<lambda>accessible.
     throw_if (\<not> accessible) (fail_with authorization_error)
     (returnE (session_registrar, zone_data, current_local_date, errors)))))))))))"

text \<open>\<^verbatim>\<open>!handle.empty() && (get_handle_registrability(handle) != registered)\<close>\<close>

definition handle_missing ::
  "(string \<Rightarrow> ('db, exn, Registrability) op) \<Rightarrow> string \<Rightarrow> ('db, exn, bool) op" where
  "handle_missing registrability h =
     (if h = [] then returnE False
      else bindE (registrability h) (\<lambda>r. returnE (r \<noteq> registered)))"

definition create_domain_handles ::
  "('db, 'x) libfred_domain_scheme \<Rightarrow> CreateDomainInputData \<Rightarrow> EppResultFailure \<Rightarrow>
     ('db, exn, EppResultFailure) op" where
  "create_domain_handles L data errors =
     bindE (handle_missing (nsset_handle_registrability L) (create_nsset_handle data)) (\<lambda>no_nsset.
     let errors = (if no_nsset
                   then add_extended_error (of_scalar_parameter Param_domain_nsset Reason_nsset_notexist) errors
                   else errors) in
     bindE (handle_missing (keyset_handle_registrability L) (create_keyset_handle data)) (\<lambda>no_keyset.
     let errors = (if no_keyset
                   then add_extended_error (of_scalar_parameter Param_domain_keyset Reason_keyset_notexist) errors
                   else errors) in
     throw_if (create_registrant data = [])
       (epp_failure (add_extended_error
          (of_scalar_parameter Param_domain_registrant Reason_registrant_notexist)
          (result_failure parameter_value_policy_error))) (
     bindE (Contact_get_handle_registrability L (create_registrant data)) (\<lambda>r.
     returnE (if r \<noteq> registered
              then add_extended_error (of_scalar_parameter Param_domain_registrant Reason_registrant_notexist) errors
              else errors)))))"

text \<open>
  The length of the registration. A zone whose least period is 0 makes the code divide by zero;
  here the remainder is then the number itself.
\<close>

definition period_error :: "Reason \<Rightarrow> exn" where
  "period_error reason =
     epp_failure (add_extended_error (of_scalar_parameter Param_domain_period reason)
       (result_failure parameter_value_range_error))"

definition create_domain_period ::
  "ZoneData \<Rightarrow> DomainRegistrationTime \<Rightarrow> EppResultFailure \<Rightarrow> exn + (u32 \<times> EppResultFailure)" where
  "create_domain_period zone period errors =
     (case numeric_cast_u32 (get_length_of_domain_registration_in_months period) of
        Inl _ \<Rightarrow> Inl (period_error Reason_period_range)
      | Inr n \<Rightarrow>
          let domain_registration_in_months = registration_months zone n in
          if domain_registration_in_months < ex_period_min zone
          then Inl (period_error Reason_period_too_short)
          else if ex_period_max zone < domain_registration_in_months
          then Inl (period_error Reason_period_range)
          else Inr (domain_registration_in_months,
                 if domain_registration_in_months mod ex_period_min zone \<noteq> 0
                 then add_extended_error (of_scalar_parameter Param_domain_period Reason_period_policy) errors
                 else errors))"

definition create_domain_enum ::
  "('db, 'x) libfred_domain_scheme \<Rightarrow> ZoneData \<Rightarrow> EnumValidationExtension option \<Rightarrow> date \<Rightarrow>
     EppResultFailure \<Rightarrow> ('db, exn, EppResultFailure) op" where
  "create_domain_enum L zone extension current_local_date errors =
     throw_if (zone_is_enum zone \<and> extension = None) (fail_with required_parameter_missing) (
     let errors = (if \<not> zone_is_enum zone \<and> extension \<noteq> None
                   then add_extended_error (of_vector_parameter Param_domain_ext_val_date 0 Reason_valexpdate_not_used) errors
                   else errors) in
     if zone_is_enum zone
     then
       bindE (is_new_enum_domain_validation_expiration_date_invalid L (get_valexdate (the extension))
                current_local_date (enum_validation_period zone) None) (\<lambda>invalid.
       throw_if invalid
         (epp_failure (add_extended_error
            (of_vector_parameter Param_domain_ext_val_date 0 Reason_valexpdate_not_valid)
            (result_failure parameter_value_range_error)))
       (returnE errors))
     else returnE errors)"

definition domain_admin_step ::
  "('db, 'x) libfred_domain_scheme \<Rightarrow> string \<Rightarrow> nat \<Rightarrow> string set \<times> EppResultFailure \<Rightarrow>
     ('db, exn, string set \<times> EppResultFailure) op" where
  "domain_admin_step L h i acc =
     (case acc of (admin_contact_duplicity, errors) \<Rightarrow>
        bindE (Contact_get_handle_registrability L h) (\<lambda>registrability.
        if registrability \<noteq> registered
        then bindE (add_error_at Param_domain_admin i Reason_admin_notexist errors)
               (\<lambda>errors. returnE (admin_contact_duplicity, errors))
        else
          let upper = to_upper_copy h;
              inserted = (upper \<notin> admin_contact_duplicity);
              admin_contact_duplicity = insert upper admin_contact_duplicity in
          if \<not> inserted
          then bindE (add_error_at Param_domain_admin i Reason_duplicated_contact errors)
                 (\<lambda>errors. returnE (admin_contact_duplicity, errors))
          else returnE (admin_contact_duplicity, errors)))"

section \<open>The creation\<close>

text \<open>
  \<^verbatim>\<open>catch (const CreateDomain::Exception&)\<close> rethrows in every case, so only
  \<^verbatim>\<open>BillingFailure\<close> is translated.
\<close>

definition translate_billing_failure :: "exn \<Rightarrow> ('db, exn, 'a) op" where
  "translate_billing_failure e =
     (case e of
        BillingFailure \<Rightarrow> throwE (fail_with billing_failure)
      | _ \<Rightarrow> throwE e)"

lemma rethrows_translate_billing_failure [simp]: "rethrows translate_billing_failure"
  by (auto simp: rethrows_def translate_billing_failure_def throwE_def split: exn.split)

definition domain_creation ::
  "('db, 'x) libfred_domain_scheme \<Rightarrow> ('db, 'dec, 'y) billing_scheme \<Rightarrow> CreateDomainInputData \<Rightarrow> bool \<Rightarrow>
     SessionData \<Rightarrow> InfoRegistrarData \<Rightarrow> ZoneData \<Rightarrow> date \<Rightarrow> u32 \<Rightarrow> ('db, exn, CreateDomainResult) op" where
  "domain_creation L B data rifd_epp_operations_charging session session_registrar zone_data
      current_local_date domain_registration_in_months =
     catchE
       (bindE (select_plus_months L current_local_date domain_registration_in_months) (\<lambda>domain_expiration_date.
        bindE (CreateDomain L (create_fqdn data) (registrar_handle session_registrar) (create_registrant data)
                 (if create_nsset_handle data = [] then None else Some (create_nsset_handle data))
                 (if create_keyset_handle data = [] then None else Some (create_keyset_handle data))
                 (create_admin_contacts data) domain_expiration_date
                 (if zone_is_enum zone_data
                  then Some (get_valexdate (the (create_enum_validation_extension data))) else None)
                 (if zone_is_enum zone_data
                  then Some (get_publish (the (create_enum_validation_extension data))) else None)
                 (logd_request_id session)) (\<lambda>(object_id, history_id, creation_time).
        throw_if (ptime_is_special L creation_time) (StdException ''domain create failed'') (
        bindE (whenE (rifd_epp_operations_charging \<and>
                      \<not> (is_system session_registrar \<or> registrar_is_internal session_registrar))
                 (bindE (create_domain_bill_item L B (create_fqdn data) creation_time (registrar_id session) object_id)
                    (\<lambda>_. renew_domain_bill_item L B (create_fqdn data) creation_time (registrar_id session) object_id
                           domain_registration_in_months current_local_date domain_expiration_date))) (\<lambda>_.
        returnE \<lparr>created_domain_id = object_id, domain_create_history_id = history_id,
                 domain_crtime = creation_time, create_old_exdate = current_local_date,
                 create_exdate = domain_expiration_date,
                 create_length_in_months = domain_registration_in_months\<rparr>)))))
       translate_billing_failure"

definition create_domain ::
  "('db, 'x) libfred_domain_scheme \<Rightarrow> ('db, 'dec, 'y) billing_scheme \<Rightarrow> CreateDomainInputData \<Rightarrow> bool \<Rightarrow>
     SessionData \<Rightarrow> ('db, exn, CreateDomainResult) op" where
  "create_domain L B data rifd_epp_operations_charging session =
     with_session session (
     bindE (create_domain_access L (create_fqdn data) session)
       (\<lambda>(session_registrar, zone_data, current_local_date, errors).
     bindE (create_domain_handles L data errors) (\<lambda>errors.
     bindE (liftE (create_domain_period zone_data (create_period data) errors))
       (\<lambda>(domain_registration_in_months, errors).
     bindE (create_domain_enum L zone_data (create_enum_validation_extension data) current_local_date errors)
       (\<lambda>errors.
     bindE (for_indexed (domain_admin_step L) (create_admin_contacts data) 0 ({}, errors)) (\<lambda>(_, errors).
     throw_if (\<not> failure_empty errors) (epp_failure errors) (
     domain_creation L B data rifd_epp_operations_charging session session_registrar zone_data
       current_local_date domain_registration_in_months)))))))"

interpretation create_domain: session_guarded "create_domain L B data charging" for L B data charging
  by unfold_locales (simp add: create_domain_def with_session_refuses)

section \<open>What LibFred answers\<close>

text \<open>The queries only read; the answers are collected in a record.\<close>

record domain_answers =
  ans_registrar :: "u64 \<Rightarrow> InfoRegistrarData"
  ans_registrability :: "string \<Rightarrow> bool \<Rightarrow> DomainRegistrability"
  ans_syntax :: "string \<Rightarrow> bool \<Rightarrow> SyntaxValidity"
  ans_zone :: "string \<Rightarrow> ZoneData option"
  ans_accessible :: "u64 \<Rightarrow> u64 \<Rightarrow> date \<Rightarrow> bool"
  ans_contacts :: "string \<Rightarrow> Registrability"
  ans_nssets :: "string \<Rightarrow> Registrability"
  ans_keysets :: "string \<Rightarrow> Registrability"
  ans_now :: ptime
  ans_window_begin :: "date \<Rightarrow> date"
  ans_plus_months :: "date \<Rightarrow> u32 \<Rightarrow> date"

definition domain_queries :: "('db, 'x) libfred_domain_scheme \<Rightarrow> 'db \<Rightarrow> domain_answers \<Rightarrow> bool" where
  "domain_queries L db A \<longleftrightarrow>
     (\<forall>i. reads (InfoRegistrarById L i) db (ans_registrar A i)) \<and>
     (\<forall>n b. reads (get_domain_registrability_by_domain_fqdn L n b) db (ans_registrability A n b)) \<and>
     (\<forall>n b. reads (get_domain_fqdn_syntax_validity L n b) db (ans_syntax A n b)) \<and>
     (\<forall>n. Zone_find_zone_in_fqdn L n db =
        (case ans_zone A n of None \<Rightarrow> Inl (LibfredException (ZoneException (Some n))) | Some z \<Rightarrow> Inr z, db)) \<and>
     (\<forall>i z d. reads (is_zone_accessible_by_registrar L i z d) db (ans_accessible A i z d)) \<and>
     (\<forall>h. reads (Contact_get_handle_registrability L h) db (ans_contacts A h)) \<and>
     (\<forall>h. reads (nsset_handle_registrability L h) db (ans_nssets A h)) \<and>
     (\<forall>h. reads (keyset_handle_registrability L h) db (ans_keysets A h)) \<and>
     reads (current_utc_time L) db (ans_now A) \<and>
     (\<forall>d. reads (select_continuation_begin L d) db (ans_window_begin A d)) \<and>
     (\<forall>d n. reads (select_plus_months L d n) db (ans_plus_months A d n))"

lemma domain_queriesD:
  assumes "domain_queries L db A"
  shows "reads (InfoRegistrarById L i) db (ans_registrar A i)"
    and "reads (get_domain_registrability_by_domain_fqdn L n b) db (ans_registrability A n b)"
    and "reads (get_domain_fqdn_syntax_validity L n b) db (ans_syntax A n b)"
    and "Zone_find_zone_in_fqdn L n db =
      (case ans_zone A n of None \<Rightarrow> Inl (LibfredException (ZoneException (Some n))) | Some z \<Rightarrow> Inr z, db)"
    and "reads (is_zone_accessible_by_registrar L i z d) db (ans_accessible A i z d)"
    and "reads (Contact_get_handle_registrability L h) db (ans_contacts A h)"
    and "reads (nsset_handle_registrability L h) db (ans_nssets A h)"
    and "reads (keyset_handle_registrability L h) db (ans_keysets A h)"
    and "reads (current_utc_time L) db (ans_now A)"
    and "reads (select_continuation_begin L d) db (ans_window_begin A d)"
    and "reads (select_plus_months L d m) db (ans_plus_months A d m)"
  using assms by (simp_all add: domain_queries_def)

end
