(* ===== verification/Domain_Create_Spec.thy ===== *)
theory Domain_Create_Spec
  imports Domain_Create
begin

text \<open>
  What \<^verbatim>\<open>create_domain\<close> decides: the errors it records as a set, its verdict on an input, and
  that the command is exactly the verdict followed by the creation.
\<close>

section \<open>The errors recorded\<close>

definition scalar_if :: "bool \<Rightarrow> Param \<Rightarrow> Reason \<Rightarrow> EppExtendedError set" where
  "scalar_if b p r = (if b then {of_scalar_parameter p r} else {})"

lemma scalar_if_empty [simp]: "scalar_if b p r = {} \<longleftrightarrow> \<not> b"
  by (simp add: scalar_if_def)

lemma extends_scalar_if:
  "extends (scalar_if b p r) f (if b then add_extended_error (of_scalar_parameter p r) f else f)"
  unfolding scalar_if_def by (rule extends_if)

definition missing :: "(string \<Rightarrow> Registrability) \<Rightarrow> string \<Rightarrow> bool" where
  "missing registrability h \<longleftrightarrow> h \<noteq> [] \<and> registrability h \<noteq> registered"

definition handle_errors :: "domain_answers \<Rightarrow> CreateDomainInputData \<Rightarrow> EppExtendedError set" where
  "handle_errors A data =
     scalar_if (missing (ans_nssets A) (create_nsset_handle data)) Param_domain_nsset Reason_nsset_notexist \<union>
     scalar_if (missing (ans_keysets A) (create_keyset_handle data)) Param_domain_keyset Reason_keyset_notexist \<union>
     scalar_if (ans_contacts A (create_registrant data) \<noteq> registered) Param_domain_registrant Reason_registrant_notexist"

definition admin_errs :: "(string \<Rightarrow> Registrability) \<Rightarrow> string \<Rightarrow> nat \<Rightarrow> string set \<Rightarrow> EppExtendedError set" where
  "admin_errs contacts h i S =
     (if contacts h \<noteq> registered then {error_at Param_domain_admin i Reason_admin_notexist}
      else if to_upper_copy h \<in> S then {error_at Param_domain_admin i Reason_duplicated_contact} else {})"

abbreviation admin_collected :: "(string \<Rightarrow> Registrability) \<Rightarrow> string list \<Rightarrow> EppExtendedError set" where
  "admin_collected contacts hs \<equiv>
     collected (admin_errs contacts) (remember (\<lambda>h. contacts h = registered) to_upper_copy) hs 0 {}"

definition create_domain_errors ::
  "domain_answers \<Rightarrow> CreateDomainInputData \<Rightarrow> bool \<Rightarrow> ZoneData \<Rightarrow> u32 \<Rightarrow> EppExtendedError set" where
  "create_domain_errors A data sys zone months =
     scalar_if (ans_registrability A (create_fqdn data) sys = domain_blacklisted)
       Param_domain_fqdn Reason_blacklisted_domain \<union>
     handle_errors A data \<union>
     scalar_if (months mod ex_period_min zone \<noteq> 0) Param_domain_period Reason_period_policy \<union>
     (if \<not> zone_is_enum zone \<and> create_enum_validation_extension data \<noteq> None
      then {of_vector_parameter Param_domain_ext_val_date 0 Reason_valexpdate_not_used} else {}) \<union>
     admin_collected (ans_contacts A) (create_admin_contacts data)"

section \<open>The stages\<close>

lemma handle_missing_reads:
  "reads (registrability h) db r \<Longrightarrow> (h \<noteq> [] \<Longrightarrow> answer h = r) \<Longrightarrow> reads (handle_missing registrability h) db (missing answer h)"
  by (auto simp: handle_missing_def missing_def reads_def op_simps)

lemma create_domain_handles_run:
  assumes "domain_queries L db A"
  shows "\<exists>f'. create_domain_handles L data f db =
      (if create_registrant data = []
       then Inl (epp_failure (add_extended_error
          (of_scalar_parameter Param_domain_registrant Reason_registrant_notexist)
          (result_failure parameter_value_policy_error)))
       else Inr f', db) \<and> extends (handle_errors A data) f f'"
proof -
  let ?n = "missing (ans_nssets A) (create_nsset_handle data)"
  let ?k = "missing (ans_keysets A) (create_keyset_handle data)"
  let ?r = "ans_contacts A (create_registrant data) \<noteq> registered"
  have n: "reads (handle_missing (nsset_handle_registrability L) (create_nsset_handle data)) db ?n"
    by (rule handle_missing_reads [OF domain_queriesD(7) [OF assms]]) simp
  have k: "reads (handle_missing (keyset_handle_registrability L) (create_keyset_handle data)) db ?k"
    by (rule handle_missing_reads [OF domain_queriesD(8) [OF assms]]) simp
  define f1 where "f1 = (if ?n then add_extended_error (of_scalar_parameter Param_domain_nsset Reason_nsset_notexist) f else f)"
  define f2 where "f2 = (if ?k then add_extended_error (of_scalar_parameter Param_domain_keyset Reason_keyset_notexist) f1 else f1)"
  define f3 where "f3 = (if ?r then add_extended_error (of_scalar_parameter Param_domain_registrant Reason_registrant_notexist) f2 else f2)"
  have "create_domain_handles L data f db =
      (if create_registrant data = []
       then Inl (epp_failure (add_extended_error
          (of_scalar_parameter Param_domain_registrant Reason_registrant_notexist)
          (result_failure parameter_value_policy_error)))
       else Inr f3, db)"
    using domain_queriesD(6) [OF assms, of "create_registrant data"]
    unfolding create_domain_handles_def bindE_reads [OF n] Let_def f1_def [symmetric]
      bindE_reads [OF k] f2_def [symmetric]
    by (simp add: op_simps f3_def)
  moreover have "extends (handle_errors A data) f f3"
    unfolding handle_errors_def f1_def f2_def f3_def
    by (rule extends_trans [OF extends_trans [OF extends_scalar_if extends_scalar_if] extends_scalar_if])
  ultimately show ?thesis by blast
qed

lemma admin_loop:
  assumes "domain_queries L db A"
  shows "indexed_check (domain_admin_step L) db (\<lambda>x i s. i < 2 ^ 16) (admin_errs (ans_contacts A))
    (remember (\<lambda>h. ans_contacts A h = registered) to_upper_copy)"
proof unfold_locales
  fix h i f and S :: "string set"
  assume "i < (2 :: nat) ^ 16"
  then show "\<exists>f'. domain_admin_step L h i (S, f) db =
      (Inr (remember (\<lambda>h. ans_contacts A h = registered) to_upper_copy h S, f'), db) \<and>
      extends (admin_errs (ans_contacts A) h i S) f f'"
    using domain_queriesD(6) [OF assms, of h]
    by (auto simp: domain_admin_step_def op_simps admin_errs_def remember_def Let_def insert_absorb
        extends_refl extends_add)
qed

lemma admin_collected_empty:
  "admin_collected contacts hs = {} \<longleftrightarrow>
   (\<forall>h \<in> set hs. contacts h = registered) \<and> distinct (map to_upper_copy hs)"
proof -
  have "admin_errs contacts h i S = {} \<longleftrightarrow> contacts h = registered \<and> (contacts h = registered \<longrightarrow> to_upper_copy h \<notin> S)"
    for h i S
    by (auto simp: admin_errs_def)
  then show ?thesis
    using collected_empty [of "admin_errs contacts" "\<lambda>h. contacts h = registered" "\<lambda>h. contacts h = registered"
        to_upper_copy hs 0 "{}"]
    by simp
qed

definition enum_date_invalid :: "('db, 'x) libfred_domain_scheme \<Rightarrow> domain_answers \<Rightarrow> ZoneData \<Rightarrow> date \<Rightarrow> date \<Rightarrow> bool" where
  "enum_date_invalid L A zone today new \<longleftrightarrow>
     date_is_special L new \<or> new \<le> today \<or> ans_plus_months A today (enum_validation_period zone) < new"

lemma create_domain_enum_run:
  assumes "domain_queries L db A"
  shows "create_domain_enum L zone ext today f db =
    (if zone_is_enum zone \<and> ext = None then Inl (fail_with required_parameter_missing)
     else if zone_is_enum zone \<and> enum_date_invalid L A zone today (get_valexdate (the ext))
     then Inl (epp_failure (add_extended_error
         (of_vector_parameter Param_domain_ext_val_date 0 Reason_valexpdate_not_valid)
         (result_failure parameter_value_range_error)))
     else Inr (if \<not> zone_is_enum zone \<and> ext \<noteq> None
       then add_extended_error (of_vector_parameter Param_domain_ext_val_date 0 Reason_valexpdate_not_used) f else f), db)"
  unfolding create_domain_enum_def Let_def
  using enum_validation_run [OF domain_queriesD(10,11) [OF assms],
      of "get_valexdate (the ext)" today "enum_validation_period zone" None]
  by (simp add: op_simps enum_date_invalid_def enum_validation_base_def)

section \<open>The verdict\<close>

definition create_domain_verdict ::
  "('db, 'x) libfred_domain_scheme \<Rightarrow> domain_answers \<Rightarrow> CreateDomainInputData \<Rightarrow> SessionData \<Rightarrow>
     exn + (ZoneData \<times> u32)" where
  "create_domain_verdict L A data session =
     (let fqdn = create_fqdn data; sys = is_system (ans_registrar A (registrar_id session));
          today = utc_to_local_date L (ans_now A); extension = create_enum_validation_extension data;
          policy = result_failure parameter_value_policy_error in
      if ans_registrability A fqdn sys = domain_zone_not_in_registry
      then Inl (epp_failure (add_extended_error
             (of_scalar_parameter Param_domain_fqdn Reason_not_applicable_domain) policy))
      else if ans_syntax A fqdn sys \<noteq> syntax_valid
      then Inl (epp_failure (add_extended_error
             (of_scalar_parameter Param_domain_fqdn Reason_bad_format_fqdn)
             (result_failure parameter_value_syntax_error)))
      else if ans_registrability A fqdn sys = domain_registered then Inl (fail_with object_exists)
      else (case ans_zone A (zone_rem_trailing_dot L fqdn) of
        None \<Rightarrow> Inl (LibfredException (ZoneException (Some (zone_rem_trailing_dot L fqdn))))
      | Some zone \<Rightarrow>
          if \<not> ans_accessible A (registrar_id session) (zone_id zone) today
          then Inl (fail_with authorization_error)
          else if create_registrant data = []
          then Inl (epp_failure (add_extended_error
                 (of_scalar_parameter Param_domain_registrant Reason_registrant_notexist) policy))
          else (case create_domain_period zone (create_period data) policy of
            Inl e \<Rightarrow> Inl e
          | Inr (months, _) \<Rightarrow>
              if zone_is_enum zone \<and> extension = None then Inl (fail_with required_parameter_missing)
              else if zone_is_enum zone \<and> enum_date_invalid L A zone today (get_valexdate (the extension))
              then Inl (epp_failure (add_extended_error
                     (of_vector_parameter Param_domain_ext_val_date 0 Reason_valexpdate_not_valid)
                     (result_failure parameter_value_range_error)))
              else if create_domain_errors A data sys zone months \<noteq> {}
              then Inl (epp_failure (add_extended_errors (create_domain_errors A data sys zone months) policy))
              else Inr (zone, months))))"

lemma create_domain_period_run:
  "create_domain_period zone period f =
   (case create_domain_period zone period g of
      Inl e \<Rightarrow> Inl e
    | Inr (months, _) \<Rightarrow> Inr (months, if months mod ex_period_min zone \<noteq> 0
        then add_extended_error (of_scalar_parameter Param_domain_period Reason_period_policy) f else f))"
  by (simp add: create_domain_period_def Let_def split: sum.split)

lemma create_domain_by_verdict:
  assumes q: "domain_queries L db A" and session: "is_session_registrar_valid session"
    and len: "length (create_admin_contacts data) \<le> 2 ^ 16"
  shows "create_domain L B data charging session db =
    (case create_domain_verdict L A data session of
       Inl e \<Rightarrow> (Inl e, db)
     | Inr (zone, months) \<Rightarrow>
         domain_creation L B data charging session (ans_registrar A (registrar_id session)) zone
           (utc_to_local_date L (ans_now A)) months db)"
proof -
  let ?fqdn = "create_fqdn data" and ?reg = "registrar_id session" and ?P0 = "result_failure parameter_value_policy_error"
  let ?r = "ans_registrar A ?reg" and ?today = "utc_to_local_date L (ans_now A)"
  let ?sys = "is_system ?r" and ?n = "zone_rem_trailing_dot L ?fqdn" and ?ext = "create_enum_validation_extension data"
  let ?X0 = "scalar_if (ans_registrability A ?fqdn ?sys = domain_blacklisted) Param_domain_fqdn Reason_blacklisted_domain"
  define f0 where "f0 = (if ans_registrability A ?fqdn ?sys = domain_blacklisted
    then add_extended_error (of_scalar_parameter Param_domain_fqdn Reason_blacklisted_domain) ?P0 else ?P0)"
  have e0: "extends ?X0 ?P0 f0" unfolding f0_def by (rule extends_scalar_if)
  have access: "create_domain_access L ?fqdn session db =
    (if ans_registrability A ?fqdn ?sys = domain_zone_not_in_registry
     then Inl (epp_failure (add_extended_error
            (of_scalar_parameter Param_domain_fqdn Reason_not_applicable_domain) ?P0))
     else if ans_syntax A ?fqdn ?sys \<noteq> syntax_valid
     then Inl (epp_failure (add_extended_error
            (of_scalar_parameter Param_domain_fqdn Reason_bad_format_fqdn)
            (result_failure parameter_value_syntax_error)))
     else if ans_registrability A ?fqdn ?sys = domain_registered then Inl (fail_with object_exists)
     else (case ans_zone A ?n of
       None \<Rightarrow> Inl (LibfredException (ZoneException (Some ?n)))
     | Some zone \<Rightarrow>
         if \<not> ans_accessible A ?reg (zone_id zone) ?today then Inl (fail_with authorization_error)
         else Inr (?r, zone, ?today, f0)), db)"
    using domain_queriesD(1) [OF q, of ?reg] domain_queriesD(2) [OF q, of ?fqdn ?sys]
      domain_queriesD(3) [OF q, of ?fqdn ?sys] domain_queriesD(4) [OF q, of ?n] domain_queriesD(9) [OF q]
      domain_queriesD(5) [OF q, of ?reg "zone_id (the (ans_zone A ?n))" ?today]
    by (cases "ans_zone A ?n") (simp_all add: create_domain_access_def op_simps Let_def f0_def)
  show ?thesis
  proof (cases "\<exists>zone. create_domain_access L ?fqdn session db = (Inr (?r, zone, ?today, f0), db)")
    case False
    then show ?thesis
      unfolding create_domain_verdict_def Let_def create_domain_def
      using access session
      by (auto simp: op_simps split: if_splits option.splits)
  next
    case True
    then obtain zone where acc: "create_domain_access L ?fqdn session db = (Inr (?r, zone, ?today, f0), db)" by blast
    have ok: "ans_registrability A ?fqdn ?sys \<noteq> domain_zone_not_in_registry" "ans_syntax A ?fqdn ?sys = syntax_valid"
      "ans_registrability A ?fqdn ?sys \<noteq> domain_registered" "ans_zone A ?n = Some zone"
      "ans_accessible A ?reg (zone_id zone) ?today"
      using acc unfolding access by (auto split: if_splits option.splits)
    have run: "create_domain L B data charging session db =
      bindE (create_domain_handles L data f0) (\<lambda>errors.
      bindE (liftE (create_domain_period zone (create_period data) errors)) (\<lambda>(months, errors).
      bindE (create_domain_enum L zone ?ext ?today errors) (\<lambda>errors.
      bindE (for_indexed (domain_admin_step L) (create_admin_contacts data) 0 ({}, errors)) (\<lambda>(_, errors).
      throw_if (\<not> failure_empty errors) (epp_failure errors) (
      domain_creation L B data charging session ?r zone ?today months))))) db"
      using session acc by (simp add: create_domain_def op_simps)
    obtain f1 where h: "create_domain_handles L data f0 db =
        (if create_registrant data = []
         then Inl (epp_failure (add_extended_error
            (of_scalar_parameter Param_domain_registrant Reason_registrant_notexist) ?P0))
         else Inr f1, db)" and e1: "extends (handle_errors A data) f0 f1"
      using create_domain_handles_run [OF q, of data f0] by blast
    show ?thesis
    proof (cases "create_registrant data = [] \<or> (\<exists>e. create_domain_period zone (create_period data) ?P0 = Inl e)")
      case True
      then show ?thesis
        using run h ok create_domain_period_run [of zone "create_period data" f1 ?P0]
        by (cases "create_registrant data = []") (auto simp: create_domain_verdict_def op_simps)
    next
      case False
      then obtain months g where p0: "create_domain_period zone (create_period data) ?P0 = Inr (months, g)"
        by (cases "create_domain_period zone (create_period data) ?P0") auto
      define f2 where "f2 = (if months mod ex_period_min zone \<noteq> 0
        then add_extended_error (of_scalar_parameter Param_domain_period Reason_period_policy) f1 else f1)"
      define f3 where "f3 = (if \<not> zone_is_enum zone \<and> ?ext \<noteq> None
        then add_extended_error (of_vector_parameter Param_domain_ext_val_date 0 Reason_valexpdate_not_used) f2 else f2)"
      obtain S f4 where r4: "for_indexed (domain_admin_step L) (create_admin_contacts data) 0 ({}, f3) db = (Inr (S, f4), db)"
          and e4: "extends (admin_collected (ans_contacts A) (create_admin_contacts data)) f3 f4"
        using indexed_check.run [OF admin_loop [OF q], of "create_admin_contacts data" 0 "{}" f3]
          all_pre_index [of 0 "create_admin_contacts data" "2 ^ 16"] len by force
      let ?E = "create_domain_errors A data ?sys zone months"
      have e2: "extends (scalar_if (months mod ex_period_min zone \<noteq> 0) Param_domain_period Reason_period_policy) f1 f2"
        unfolding f2_def by (rule extends_scalar_if)
      have e3: "extends (if \<not> zone_is_enum zone \<and> ?ext \<noteq> None
          then {of_vector_parameter Param_domain_ext_val_date 0 Reason_valexpdate_not_used} else {}) f2 f3"
        unfolding f3_def by (rule extends_if)
      have "extends ?E ?P0 f4"
        unfolding create_domain_errors_def
        by (rule extends_trans [OF extends_trans [OF extends_trans [OF extends_trans [OF e0 e1] e2] e3] e4])
      from extends_result_failure [OF this]
      have f4: "f4 = (if ?E = {} then ?P0 else add_extended_errors ?E ?P0)" .
      have p: "create_domain_period zone (create_period data) f1 = Inr (months, f2)"
        using create_domain_period_run [of zone "create_period data" f1 ?P0] p0 by (simp add: f2_def)
      have "create_domain L B data charging session db =
        bindE (create_domain_enum L zone ?ext ?today f2) (\<lambda>errors.
        bindE (for_indexed (domain_admin_step L) (create_admin_contacts data) 0 ({}, errors)) (\<lambda>(_, errors).
        throw_if (\<not> failure_empty errors) (epp_failure errors) (
        domain_creation L B data charging session ?r zone ?today months))) db"
        using run h p False by (simp add: op_simps)
      also have "\<dots> = (if zone_is_enum zone \<and> ?ext = None then (Inl (fail_with required_parameter_missing), db)
        else if zone_is_enum zone \<and> enum_date_invalid L A zone ?today (get_valexdate (the ?ext))
        then (Inl (epp_failure (add_extended_error
           (of_vector_parameter Param_domain_ext_val_date 0 Reason_valexpdate_not_valid)
           (result_failure parameter_value_range_error))), db)
        else if ?E \<noteq> {} then (Inl (epp_failure f4), db)
        else domain_creation L B data charging session ?r zone ?today months db)"
        using r4 unfolding bindE_def [of "create_domain_enum L zone ?ext ?today f2"]
          create_domain_enum_run [OF q, of zone ?ext ?today f2] f3_def [symmetric]
        by (cases "zone_is_enum zone \<and> ?ext = None";
            cases "zone_is_enum zone \<and> enum_date_invalid L A zone ?today (get_valexdate (the ?ext))")
          (simp_all only: simp_thms if_True if_False prod.case sum.case, simp_all add: op_simps f4)
      finally have command: "create_domain L B data charging session db = \<dots>" .
      have "create_domain_verdict L A data session =
        (if zone_is_enum zone \<and> ?ext = None then Inl (fail_with required_parameter_missing)
         else if zone_is_enum zone \<and> enum_date_invalid L A zone ?today (get_valexdate (the ?ext))
         then Inl (epp_failure (add_extended_error
           (of_vector_parameter Param_domain_ext_val_date 0 Reason_valexpdate_not_valid)
           (result_failure parameter_value_range_error)))
         else if ?E \<noteq> {} then Inl (epp_failure f4) else Inr (zone, months))"
        using ok False p0 unfolding create_domain_verdict_def Let_def f4 by (simp only: simp_thms if_False if_True
            option.case sum.case prod.case) (simp cong: if_cong)
      then show ?thesis
        unfolding command by (simp only: sum.case prod.case if_distrib [where f = "case_sum _ _"])
    qed
  qed
qed

text \<open>When the verdict is favourable.\<close>

definition registration_period_ok :: "ZoneData \<Rightarrow> DomainRegistrationTime \<Rightarrow> u32 \<Rightarrow> bool" where
  "registration_period_ok zone period months \<longleftrightarrow>
     0 \<le> sint (get_length_of_domain_registration_in_months period) \<and>
     months = registration_months zone (get_length_of_domain_registration_in_months period) \<and>
     ex_period_min zone \<le> months \<and> months \<le> ex_period_max zone"

lemma create_domain_period_Inr:
  "(\<exists>g. create_domain_period zone period f = Inr (months, g)) \<longleftrightarrow> registration_period_ok zone period months"
  by (auto simp: create_domain_period_def numeric_cast_u32_def registration_period_ok_def Let_def not_less)

lemma if_Inr: "(if b then Inl e else v) = Inr x \<longleftrightarrow> \<not> b \<and> v = Inr x"
  by simp

lemma create_domain_verdict_Inr:
  "create_domain_verdict L A data session = Inr (zone, months) \<longleftrightarrow>
   (let sys = is_system (ans_registrar A (registrar_id session)); today = utc_to_local_date L (ans_now A) in
    ans_registrability A (create_fqdn data) sys = domain_available \<and>
    ans_syntax A (create_fqdn data) sys = syntax_valid \<and>
    ans_zone A (zone_rem_trailing_dot L (create_fqdn data)) = Some zone \<and>
    ans_accessible A (registrar_id session) (zone_id zone) today \<and>
    create_registrant data \<noteq> [] \<and> ans_contacts A (create_registrant data) = registered \<and>
    \<not> missing (ans_nssets A) (create_nsset_handle data) \<and> \<not> missing (ans_keysets A) (create_keyset_handle data) \<and>
    registration_period_ok zone (create_period data) months \<and> months mod ex_period_min zone = 0 \<and>
    (zone_is_enum zone \<longleftrightarrow> create_enum_validation_extension data \<noteq> None) \<and>
    (zone_is_enum zone \<longrightarrow>
      \<not> enum_date_invalid L A zone today (get_valexdate (the (create_enum_validation_extension data)))) \<and>
    (\<forall>h \<in> set (create_admin_contacts data). ans_contacts A h = registered) \<and>
    distinct (map to_upper_copy (create_admin_contacts data)))"
proof -
  let ?P0 = "result_failure parameter_value_policy_error" and ?sys = "is_system (ans_registrar A (registrar_id session))"
  have E: "create_domain_errors A data ?sys zone months = {} \<longleftrightarrow>
      ans_registrability A (create_fqdn data) ?sys \<noteq> domain_blacklisted \<and>
      \<not> missing (ans_nssets A) (create_nsset_handle data) \<and> \<not> missing (ans_keysets A) (create_keyset_handle data) \<and>
      ans_contacts A (create_registrant data) = registered \<and> months mod ex_period_min zone = 0 \<and>
      \<not> (\<not> zone_is_enum zone \<and> create_enum_validation_extension data \<noteq> None) \<and>
      (\<forall>h \<in> set (create_admin_contacts data). ans_contacts A h = registered) \<and>
      distinct (map to_upper_copy (create_admin_contacts data))" for zone months
    unfolding create_domain_errors_def handle_errors_def Un_empty admin_collected_empty by simp
  have avail: "ans_registrability A (create_fqdn data) ?sys = domain_available \<longleftrightarrow>
      ans_registrability A (create_fqdn data) ?sys \<noteq> domain_zone_not_in_registry \<and>
      ans_registrability A (create_fqdn data) ?sys \<noteq> domain_registered \<and>
      ans_registrability A (create_fqdn data) ?sys \<noteq> domain_blacklisted"
    by (cases "ans_registrability A (create_fqdn data) ?sys") simp_all
  show ?thesis
  proof (cases "ans_zone A (zone_rem_trailing_dot L (create_fqdn data))")
    case None
    then show ?thesis by (simp add: create_domain_verdict_def Let_def)
  next
    case (Some z)
    show ?thesis
    proof (cases "create_domain_period z (create_period data) ?P0")
      case (Inl e)
      then have "\<not> registration_period_ok z (create_period data) months"
        using create_domain_period_Inr [of z "create_period data" ?P0 months] by simp
      then show ?thesis using Some Inl by (auto simp: create_domain_verdict_def Let_def)
    next
      case (Inr mg)
      then obtain m g where p: "create_domain_period z (create_period data) ?P0 = Inr (m, g)" by (cases mg) simp
      then have "registration_period_ok z (create_period data) months \<longleftrightarrow> months = m"
        using create_domain_period_Inr [of z "create_period data" ?P0 months] by auto
      then show ?thesis
        unfolding create_domain_verdict_def Let_def avail Some option.case p sum.case prod.case if_Inr E sum.inject prod.inject option.inject
        by (cases "z = zone"; cases "months = m") (auto del: mod_0_imp_dvd)
    qed
  qed
qed

end
