(* ===== verification/Domain_Renew.thy ===== *)
theory Domain_Renew
  imports Domain_Create_Spec
begin

text \<open>
  The command \<^verbatim>\<open>renew_domain\<close> (\<^verbatim>\<open>domain/renew_domain.cc\<close>) and its verdict.
\<close>

section \<open>A domain the registrar may work with\<close>

text \<open>
  The commands on an existing domain ask whether its zone is accessible to the registrar today
  and then lock the domain.
\<close>

definition accessible_domain ::
  "('db, 'x) libfred_domain_scheme \<Rightarrow> string \<Rightarrow> SessionData \<Rightarrow> ZoneData \<Rightarrow> date \<Rightarrow>
     ('db, exn, InfoDomainData) op" where
  "accessible_domain L fqdn session zone_data current_local_date =
     bindE (is_zone_accessible_by_registrar L (registrar_id session) (zone_id zone_data) current_local_date)
       (\<lambda>accessible.
     throw_if (\<not> accessible) (fail_with authorization_error) (
     locked_domain L fqdn))"

text \<open>What LibFred answers about the domains themselves.\<close>

record domain_objects =
  ans_domain :: "string \<Rightarrow> InfoDomainData option"
  ans_states :: "u64 \<Rightarrow> ObjectStateData list"

definition object_queries :: "('db, 'x) libfred_domain_scheme \<Rightarrow> 'db \<Rightarrow> domain_objects \<Rightarrow> bool" where
  "object_queries L db Q \<longleftrightarrow>
     (\<forall>n. InfoDomainByFqdn L True n db =
        (case ans_domain Q n of
           None \<Rightarrow> Inl (LibfredException (InfoDomainByFqdnException True))
         | Some d \<Rightarrow> Inr d, db)) \<and>
     (\<forall>i. reads (GetObjectStates L i) db (ans_states Q i))"

lemma object_queriesD:
  assumes "object_queries L db Q"
  shows "InfoDomainByFqdn L True n db =
      (case ans_domain Q n of
         None \<Rightarrow> Inl (LibfredException (InfoDomainByFqdnException True)) | Some d \<Rightarrow> Inr d, db)"
    and "reads (GetObjectStates L i) db (ans_states Q i)"
  using assms by (simp_all add: object_queries_def)

lemma zone_of_object_run:
  assumes "domain_queries L db A"
  shows "zone_of_object L fqdn db =
    (case ans_zone A (zone_rem_trailing_dot L fqdn) of
       None \<Rightarrow> Inl (fail_with object_does_not_exist) | Some z \<Rightarrow> Inr z, db)"
  using domain_queriesD(4) [OF assms, of "zone_rem_trailing_dot L fqdn"]
  by (simp add: zone_of_object_def catchE_def translate_unknown_zone_def op_simps split: option.split)

definition accessible_domain_answer ::
  "domain_answers \<Rightarrow> domain_objects \<Rightarrow> string \<Rightarrow> SessionData \<Rightarrow> ZoneData \<Rightarrow> date \<Rightarrow> exn + InfoDomainData" where
  "accessible_domain_answer A Q fqdn session zone today =
     (if \<not> ans_accessible A (registrar_id session) (zone_id zone) today then Inl (fail_with authorization_error)
      else case ans_domain Q fqdn of
        None \<Rightarrow> Inl (fail_with object_does_not_exist) | Some d \<Rightarrow> Inr d)"

lemma accessible_domain_run:
  assumes "domain_queries L db A" and "object_queries L db Q"
  shows "accessible_domain L fqdn session zone today db = (accessible_domain_answer A Q fqdn session zone today, db)"
  using domain_queriesD(5) [OF assms(1), of "registrar_id session" "zone_id zone" today]
    object_queriesD(1) [OF assms(2), of fqdn]
  by (simp add: accessible_domain_def accessible_domain_answer_def locked_domain_def catchE_def
      translate_unknown_fqdn_def op_simps split: option.split)

lemma accessible_domain_Inr [op_inv]:
  "accessible_domain L fqdn session zone today db = (Inr d, db') \<longleftrightarrow>
   (\<exists>db1. is_zone_accessible_by_registrar L (registrar_id session) (zone_id zone) today db = (Inr True, db1) \<and>
      InfoDomainByFqdn L True fqdn db1 = (Inr d, db'))"
  by (auto simp: accessible_domain_def op_inv)

section \<open>The checks\<close>

definition range_errors :: EppResultFailure where
  "range_errors = result_failure parameter_value_range_error"

definition policy_failure :: "EppExtendedError \<Rightarrow> exn" where
  "policy_failure e = epp_failure (add_extended_error e (result_failure parameter_value_policy_error))"

definition renew_domain_period ::
  "ZoneData \<Rightarrow> DomainRegistrationTime \<Rightarrow> EppResultFailure \<Rightarrow> exn + (u32 \<times> EppResultFailure)" where
  "renew_domain_period zone period errors =
     (let (n, errors) =
        (case numeric_cast_u32 (get_length_of_domain_registration_in_months period) of
           Inl _ \<Rightarrow> (0, add_extended_error (of_scalar_parameter Param_domain_period Reason_period_range) errors)
         | Inr n \<Rightarrow> (n, errors));
        domain_registration_in_months = registration_months zone n;
        errors =
          (if domain_registration_in_months < ex_period_min zone
           then add_extended_error (of_scalar_parameter Param_domain_period Reason_period_too_short) errors
           else if ex_period_max zone < domain_registration_in_months
           then add_extended_error (of_scalar_parameter Param_domain_period Reason_period_range) errors
           else errors) in
      if domain_registration_in_months mod ex_period_min zone \<noteq> 0
      then Inl (policy_failure (of_scalar_parameter Param_domain_period Reason_period_policy))
      else Inr (domain_registration_in_months, errors))"

definition renew_domain_enum ::
  "('db, 'x) libfred_domain_scheme \<Rightarrow> ZoneData \<Rightarrow> EnumValidationExtension option \<Rightarrow> InfoDomainData \<Rightarrow> date \<Rightarrow>
     EppResultFailure \<Rightarrow> ('db, exn, EppResultFailure) op" where
  "renew_domain_enum L zone extension d current_local_date errors =
     throw_if (\<not> zone_is_enum zone \<and> extension \<noteq> None)
       (policy_failure (of_vector_parameter Param_domain_ext_val_date 0 Reason_valexpdate_not_used)) (
     if zone_is_enum zone \<and> extension \<noteq> None
     then
       bindE (is_new_enum_domain_validation_expiration_date_invalid L (get_valexdate (the extension))
                current_local_date (enum_validation_period zone)
                (map_option get_valexdate (dom_enum_domain_validation d))) (\<lambda>invalid.
       returnE (if invalid
                then add_extended_error
                  (of_vector_parameter Param_domain_ext_val_date 0 Reason_valexpdate_not_valid) errors
                else errors))
     else returnE errors)"

section \<open>The command\<close>

definition domain_renewal ::
  "('db, 'x) libfred_domain_scheme \<Rightarrow> ('db, 'dec, 'y) billing_scheme \<Rightarrow> RenewDomainInputData \<Rightarrow> bool \<Rightarrow>
     SessionData \<Rightarrow> InfoRegistrarData \<Rightarrow> ZoneData \<Rightarrow> InfoDomainData \<Rightarrow> ptime \<Rightarrow> u32 \<Rightarrow> date \<Rightarrow>
     ('db, exn, RenewDomainResult) op" where
  "domain_renewal L B data rifd_epp_operations_charging session session_registrar zone_data d
      current_utc domain_registration_in_months new_exdate =
     catchE
       (bindE (RenewDomain L (renew_fqdn data) (registrar_handle session_registrar) new_exdate
                 (if zone_is_enum zone_data
                  then map_option get_valexdate (renew_enum_validation_extension data) else None)
                 (if zone_is_enum zone_data
                  then map_option get_publish (renew_enum_validation_extension data) else None)
                 (logd_request_id session)) (\<lambda>history_id.
        bindE (whenE (rifd_epp_operations_charging \<and>
                      \<not> (is_system session_registrar \<or> registrar_is_internal session_registrar))
                 (renew_domain_bill_item L B (renew_fqdn data) current_utc (registrar_id session) (dom_id d)
                    domain_registration_in_months (dom_expiration_date d) new_exdate)) (\<lambda>_.
        returnE \<lparr>renewed_domain_id = dom_id d, renewed_domain_history_id = history_id,
                 renew_time = current_utc, renew_old_exdate = dom_expiration_date d,
                 renew_exdate = new_exdate, renew_length_in_months = domain_registration_in_months\<rparr>)))
       translate_billing_failure"

text \<open>What is done once the domain is found and locked.\<close>

definition renew_found_domain ::
  "('db, 'x) libfred_domain_scheme \<Rightarrow> ('db, 'dec, 'y) billing_scheme \<Rightarrow> RenewDomainInputData \<Rightarrow> bool \<Rightarrow>
     SessionData \<Rightarrow> ptime \<Rightarrow> ZoneData \<Rightarrow> InfoDomainData \<Rightarrow> ('db, exn, RenewDomainResult) op" where
  "renew_found_domain L B data rifd_epp_operations_charging session current_utc zone_data d =
     (let current_local_date = utc_to_local_date L current_utc in
     throw_if (from_simple_string L (renew_current_exdate data) \<noteq> Inr (dom_expiration_date d))
       (policy_failure (of_scalar_parameter Param_domain_cur_exp_date Reason_curexpdate_not_expdate)) (
     bindE (liftE (renew_domain_period zone_data (renew_period data) range_errors))
       (\<lambda>(domain_registration_in_months, errors).
     bindE (select_exdates L (dom_expiration_date d) domain_registration_in_months
              current_local_date (ex_period_max zone_data)) (\<lambda>(new_exdate, max_exdate).
     let errors = (if max_exdate < new_exdate
                   then add_extended_error (of_scalar_parameter Param_domain_period Reason_period_range) errors
                   else errors) in
     bindE (renew_domain_enum L zone_data (renew_enum_validation_extension data) d current_local_date errors)
       (\<lambda>errors.
     bindE (InfoRegistrarById L (registrar_id session)) (\<lambda>session_registrar.
     throw_if (dom_sponsoring_registrar_handle d \<noteq> registrar_handle session_registrar \<and>
               \<not> is_system session_registrar)
       (fail_with authorization_error) (
     bindE (GetObjectStates L (dom_id d)) (\<lambda>domain_states.
     throw_if (\<not> is_system session_registrar \<and>
               (ObjectStatesInfo_presents L domain_states Object_State_server_renew_prohibited \<or>
                ObjectStatesInfo_presents L domain_states Object_State_delete_candidate))
       (fail_with object_status_prohibits_operation) (
     throw_if (\<not> failure_empty errors) (epp_failure errors) (
     domain_renewal L B data rifd_epp_operations_charging session session_registrar zone_data d
       current_utc domain_registration_in_months new_exdate))))))))))"

definition renew_domain ::
  "('db, 'x) libfred_domain_scheme \<Rightarrow> ('db, 'dec, 'y) billing_scheme \<Rightarrow> RenewDomainInputData \<Rightarrow> bool \<Rightarrow>
     SessionData \<Rightarrow> ('db, exn, RenewDomainResult) op" where
  "renew_domain L B data rifd_epp_operations_charging session =
     bindE (current_utc_time L) (\<lambda>current_utc.
     with_session session (
     bindE (zone_of_object L (renew_fqdn data)) (\<lambda>zone_data.
     bindE (accessible_domain L (renew_fqdn data) session zone_data (utc_to_local_date L current_utc)) (\<lambda>d.
     renew_found_domain L B data rifd_epp_operations_charging session current_utc zone_data d))))"

section \<open>The verdict\<close>

definition renew_range_errors ::
  "('db, 'x) libfred_domain_scheme \<Rightarrow> domain_answers \<Rightarrow> RenewDomainInputData \<Rightarrow> ZoneData \<Rightarrow> InfoDomainData \<Rightarrow>
     date \<Rightarrow> u32 \<Rightarrow> date \<times> date \<Rightarrow> EppExtendedError set" where
  "renew_range_errors L A data zone d today months exdates =
     scalar_if (sint (get_length_of_domain_registration_in_months (renew_period data)) < 0)
       Param_domain_period Reason_period_range \<union>
     scalar_if (months < ex_period_min zone) Param_domain_period Reason_period_too_short \<union>
     scalar_if (\<not> months < ex_period_min zone \<and> ex_period_max zone < months)
       Param_domain_period Reason_period_range \<union>
     scalar_if (snd exdates < fst exdates) Param_domain_period Reason_period_range \<union>
     (case renew_enum_validation_extension data of
        None \<Rightarrow> {}
      | Some ext \<Rightarrow>
          if date_is_special L (get_valexdate ext) \<or> get_valexdate ext \<le> today \<or>
             ans_plus_months A (enum_validation_base (ans_window_begin A) today
               (map_option get_valexdate (dom_enum_domain_validation d))) (enum_validation_period zone)
             < get_valexdate ext
          then {of_vector_parameter Param_domain_ext_val_date 0 Reason_valexpdate_not_valid} else {})"

definition renew_months :: "RenewDomainInputData \<Rightarrow> ZoneData \<Rightarrow> u32" where
  "renew_months data zone =
     (let n = get_length_of_domain_registration_in_months (renew_period data) in
      registration_months zone (if sint n < 0 then 0 else n))"

text \<open>The verdict on a domain that was found: the errors in the order in which they win.\<close>

definition renew_found_verdict ::
  "('db, 'x) libfred_domain_scheme \<Rightarrow> domain_answers \<Rightarrow> domain_objects \<Rightarrow> (date \<Rightarrow> u32 \<Rightarrow> date \<Rightarrow> u32 \<Rightarrow> date \<times> date) \<Rightarrow>
     RenewDomainInputData \<Rightarrow> SessionData \<Rightarrow> ZoneData \<Rightarrow> InfoDomainData \<Rightarrow> exn + date" where
  "renew_found_verdict L A Q exdates data session zone d =
     (let today = utc_to_local_date L (ans_now A); registrar = ans_registrar A (registrar_id session);
          months = renew_months data zone;
          new_and_max = exdates (dom_expiration_date d) months today (ex_period_max zone);
          X = renew_range_errors L A data zone d today months new_and_max in
      if from_simple_string L (renew_current_exdate data) \<noteq> Inr (dom_expiration_date d)
      then Inl (policy_failure (of_scalar_parameter Param_domain_cur_exp_date Reason_curexpdate_not_expdate))
      else if months mod ex_period_min zone \<noteq> 0
      then Inl (policy_failure (of_scalar_parameter Param_domain_period Reason_period_policy))
      else if \<not> zone_is_enum zone \<and> renew_enum_validation_extension data \<noteq> None
      then Inl (policy_failure (of_vector_parameter Param_domain_ext_val_date 0 Reason_valexpdate_not_used))
      else if dom_sponsoring_registrar_handle d \<noteq> registrar_handle registrar \<and> \<not> is_system registrar
      then Inl (fail_with authorization_error)
      else if \<not> is_system registrar \<and>
        (ObjectStatesInfo_presents L (ans_states Q (dom_id d)) Object_State_server_renew_prohibited \<or>
         ObjectStatesInfo_presents L (ans_states Q (dom_id d)) Object_State_delete_candidate)
      then Inl (fail_with object_status_prohibits_operation)
      else if X \<noteq> {} then Inl (epp_failure (add_extended_errors X range_errors))
      else Inr (fst new_and_max))"

definition renew_domain_verdict ::
  "('db, 'x) libfred_domain_scheme \<Rightarrow> domain_answers \<Rightarrow> domain_objects \<Rightarrow> (date \<Rightarrow> u32 \<Rightarrow> date \<Rightarrow> u32 \<Rightarrow> date \<times> date) \<Rightarrow>
     RenewDomainInputData \<Rightarrow> SessionData \<Rightarrow> exn + (ZoneData \<times> InfoDomainData \<times> date)" where
  "renew_domain_verdict L A Q exdates data session =
     (if \<not> is_session_registrar_valid session
      then Inl (fail_with authentication_error_server_closing_connection)
      else case ans_zone A (zone_rem_trailing_dot L (renew_fqdn data)) of
        None \<Rightarrow> Inl (fail_with object_does_not_exist)
      | Some zone \<Rightarrow>
          (case accessible_domain_answer A Q (renew_fqdn data) session zone (utc_to_local_date L (ans_now A)) of
             Inl e \<Rightarrow> Inl e
           | Inr d \<Rightarrow>
               (case renew_found_verdict L A Q exdates data session zone d of
                  Inl e \<Rightarrow> Inl e
                | Inr new_exdate \<Rightarrow> Inr (zone, d, new_exdate))))"

lemma renew_domain_period_run:
  "\<exists>f'. renew_domain_period zone (renew_period data) f =
     (if renew_months data zone mod ex_period_min zone \<noteq> 0
      then Inl (policy_failure (of_scalar_parameter Param_domain_period Reason_period_policy))
      else Inr (renew_months data zone, f')) \<and>
   extends (scalar_if (sint (get_length_of_domain_registration_in_months (renew_period data)) < 0)
       Param_domain_period Reason_period_range \<union>
     scalar_if (renew_months data zone < ex_period_min zone) Param_domain_period Reason_period_too_short \<union>
     scalar_if (\<not> renew_months data zone < ex_period_min zone \<and> ex_period_max zone < renew_months data zone)
       Param_domain_period Reason_period_range) f f'"
proof -
  let ?n = "get_length_of_domain_registration_in_months (renew_period data)" and ?m = "renew_months data zone"
  define f1 where "f1 = (if sint ?n < 0
    then add_extended_error (of_scalar_parameter Param_domain_period Reason_period_range) f else f)"
  define f2 where "f2 = (if ?m < ex_period_min zone
    then add_extended_error (of_scalar_parameter Param_domain_period Reason_period_too_short) f1 else f1)"
  define f3 where "f3 = (if \<not> ?m < ex_period_min zone \<and> ex_period_max zone < ?m
    then add_extended_error (of_scalar_parameter Param_domain_period Reason_period_range) f2 else f2)"
  have e1: "extends (scalar_if (sint ?n < 0) Param_domain_period Reason_period_range) f f1"
    unfolding f1_def by (rule extends_scalar_if)
  have e2: "extends (scalar_if (?m < ex_period_min zone) Param_domain_period Reason_period_too_short) f1 f2"
    unfolding f2_def by (rule extends_scalar_if)
  have e3: "extends (scalar_if (\<not> ?m < ex_period_min zone \<and> ex_period_max zone < ?m)
      Param_domain_period Reason_period_range) f2 f3"
    unfolding f3_def by (rule extends_scalar_if)
  have "renew_domain_period zone (renew_period data) f =
     (if ?m mod ex_period_min zone \<noteq> 0
      then Inl (policy_failure (of_scalar_parameter Param_domain_period Reason_period_policy))
      else Inr (?m, f3))"
    by (cases "sint ?n < 0")
      (simp_all add: renew_domain_period_def numeric_cast_u32_def Let_def f1_def f2_def f3_def renew_months_def)
  with extends_trans [OF extends_trans [OF e1 e2] e3] show ?thesis by blast
qed

lemma renew_found_by_verdict:
  assumes q: "domain_queries L db A" and o: "object_queries L db Q"
    and exdates: "\<And>d n t m. reads (select_exdates L d n t m) db (exdates d n t m)"
  shows "renew_found_domain L B data charging session (ans_now A) zone d db =
    (case renew_found_verdict L A Q exdates data session zone d of
       Inl e \<Rightarrow> (Inl e, db)
     | Inr new_exdate \<Rightarrow>
         domain_renewal L B data charging session (ans_registrar A (registrar_id session)) zone d
           (ans_now A) (renew_months data zone) new_exdate db)"
proof -
  let ?today = "utc_to_local_date L (ans_now A)" and ?m = "renew_months data zone"
  let ?r = "ans_registrar A (registrar_id session)" and ?ext = "renew_enum_validation_extension data"
  let ?x = "exdates (dom_expiration_date d) ?m ?today (ex_period_max zone)"
  let ?unused = "of_vector_parameter Param_domain_ext_val_date 0 Reason_valexpdate_not_used"
  let ?invalid = "date_is_special L (get_valexdate (the ?ext)) \<or> get_valexdate (the ?ext) \<le> ?today \<or>
    ans_plus_months A (enum_validation_base (ans_window_begin A) ?today
      (map_option get_valexdate (dom_enum_domain_validation d))) (enum_validation_period zone) < get_valexdate (the ?ext)"
  let ?X = "renew_range_errors L A data zone d ?today ?m ?x"
  obtain f1 where p: "renew_domain_period zone (renew_period data) range_errors =
      (if ?m mod ex_period_min zone \<noteq> 0
       then Inl (policy_failure (of_scalar_parameter Param_domain_period Reason_period_policy)) else Inr (?m, f1))"
    and e1: "extends (scalar_if (sint (get_length_of_domain_registration_in_months (renew_period data)) < 0)
         Param_domain_period Reason_period_range \<union>
       scalar_if (?m < ex_period_min zone) Param_domain_period Reason_period_too_short \<union>
       scalar_if (\<not> ?m < ex_period_min zone \<and> ex_period_max zone < ?m)
         Param_domain_period Reason_period_range) range_errors f1"
    using renew_domain_period_run [of zone data range_errors] by blast
  define f2 where "f2 = (if snd ?x < fst ?x
    then add_extended_error (of_scalar_parameter Param_domain_period Reason_period_range) f1 else f1)"
  define f3 where "f3 = (if ?ext \<noteq> None \<and> ?invalid
    then add_extended_error (of_vector_parameter Param_domain_ext_val_date 0 Reason_valexpdate_not_valid) f2 else f2)"
  have e2: "extends (scalar_if (snd ?x < fst ?x) Param_domain_period Reason_period_range) f1 f2"
    unfolding f2_def by (rule extends_scalar_if)
  have "extends (if ?ext \<noteq> None \<and> ?invalid
      then {of_vector_parameter Param_domain_ext_val_date 0 Reason_valexpdate_not_valid} else {}) f2 f3"
    unfolding f3_def by (rule extends_if)
  from extends_trans [OF extends_trans [OF e1 e2] this]
  have ext: "extends ?X range_errors f3"
    unfolding renew_range_errors_def by (cases ?ext) simp_all
  then have f3: "f3 = (if ?X = {} then range_errors else add_extended_errors ?X range_errors)"
    unfolding range_errors_def by (rule extends_result_failure)
  have empty: "failure_empty f3 \<longleftrightarrow> ?X = {}"
    using ext by (simp add: extends_def range_errors_def)
  have en: "renew_domain_enum L zone ?ext d ?today f2 db =
      (if \<not> zone_is_enum zone \<and> ?ext \<noteq> None then Inl (policy_failure ?unused) else Inr f3, db)"
    using enum_validation_run [OF domain_queriesD(10,11) [OF q], of "get_valexdate (the ?ext)" ?today
        "enum_validation_period zone" "map_option get_valexdate (dom_enum_domain_validation d)"]
    by (simp add: renew_domain_enum_def op_simps f3_def)
  consider "from_simple_string L (renew_current_exdate data) \<noteq> Inr (dom_expiration_date d)"
    | "from_simple_string L (renew_current_exdate data) = Inr (dom_expiration_date d)" "?m mod ex_period_min zone \<noteq> 0"
    | "from_simple_string L (renew_current_exdate data) = Inr (dom_expiration_date d)" "?m mod ex_period_min zone = 0"
    by metis
  then show ?thesis
  proof cases
    case 3
    obtain new_exdate max_exdate where x: "?x = (new_exdate, max_exdate)" by (cases ?x)
    have found: "renew_found_domain L B data charging session (ans_now A) zone d db =
        bindE (renew_domain_enum L zone ?ext d ?today f2) (\<lambda>errors.
        bindE (InfoRegistrarById L (registrar_id session)) (\<lambda>session_registrar.
        throw_if (dom_sponsoring_registrar_handle d \<noteq> registrar_handle session_registrar \<and> \<not> is_system session_registrar)
          (fail_with authorization_error) (
        bindE (GetObjectStates L (dom_id d)) (\<lambda>domain_states.
        throw_if (\<not> is_system session_registrar \<and>
                  (ObjectStatesInfo_presents L domain_states Object_State_server_renew_prohibited \<or>
                   ObjectStatesInfo_presents L domain_states Object_State_delete_candidate))
          (fail_with object_status_prohibits_operation) (
        throw_if (\<not> failure_empty errors) (epp_failure errors) (
        domain_renewal L B data charging session session_registrar zone d (ans_now A) ?m new_exdate)))))) db"
      using 3 p exdates [of "dom_expiration_date d" ?m ?today "ex_period_max zone"]
      by (simp add: renew_found_domain_def Let_def op_simps f2_def x)
    show ?thesis
    proof (cases "\<not> zone_is_enum zone \<and> ?ext \<noteq> None")
      case True
      with 3 en show ?thesis
        unfolding found by (simp add: renew_found_verdict_def op_simps)
    next
      case False
      with en have "renew_domain_enum L zone ?ext d ?today f2 db = (Inr f3, db)" by (simp only: if_False)
      with domain_queriesD(1) [OF q, of "registrar_id session"] object_queriesD(2) [OF o, of "dom_id d"]
      have run: "renew_found_domain L B data charging session (ans_now A) zone d db =
          (if dom_sponsoring_registrar_handle d \<noteq> registrar_handle ?r \<and> \<not> is_system ?r
           then (Inl (fail_with authorization_error), db)
           else if \<not> is_system ?r \<and>
             (ObjectStatesInfo_presents L (ans_states Q (dom_id d)) Object_State_server_renew_prohibited \<or>
              ObjectStatesInfo_presents L (ans_states Q (dom_id d)) Object_State_delete_candidate)
           then (Inl (fail_with object_status_prohibits_operation), db)
           else if ?X \<noteq> {} then (Inl (epp_failure (add_extended_errors ?X range_errors)), db)
           else domain_renewal L B data charging session ?r zone d (ans_now A) ?m (fst ?x) db)"
        unfolding found by (simp add: op_simps empty) (simp add: f3 x)
      from 3 False show ?thesis
        unfolding run renew_found_verdict_def Let_def
        by (simp only: simp_thms if_False if_True sum.case if_distrib [where f = "case_sum _ _"])
    qed
  qed (simp_all add: renew_found_domain_def renew_found_verdict_def Let_def op_simps p)
qed

lemma renew_domain_by_verdict:
  assumes q: "domain_queries L db A" and o: "object_queries L db Q"
    and exdates: "\<And>d n t m. reads (select_exdates L d n t m) db (exdates d n t m)"
  shows "renew_domain L B data charging session db =
    (case renew_domain_verdict L A Q exdates data session of
       Inl e \<Rightarrow> (Inl e, db)
     | Inr (zone, d, new_exdate) \<Rightarrow>
         domain_renewal L B data charging session (ans_registrar A (registrar_id session)) zone d
           (ans_now A) (renew_months data zone) new_exdate db)"
  using domain_queriesD(9) [OF q] zone_of_object_run [OF q, of "renew_fqdn data"]
    accessible_domain_run [OF q o, of "renew_fqdn data" session _ "utc_to_local_date L (ans_now A)"]
    renew_found_by_verdict [OF q o exdates, of B data charging session]
  by (simp add: renew_domain_def renew_domain_verdict_def with_session_def bindE_def reads_def throw_if_def throwE_def
      split: option.split sum.split)

section \<open>A favourable verdict\<close>

definition enum_extension_ok ::
  "('db, 'x) libfred_domain_scheme \<Rightarrow> domain_answers \<Rightarrow> ZoneData \<Rightarrow> InfoDomainData \<Rightarrow> date \<Rightarrow>
     EnumValidationExtension option \<Rightarrow> bool" where
  "enum_extension_ok L A zone d today extension =
     (case extension of
        None \<Rightarrow> True
      | Some ext \<Rightarrow> \<not> date_is_special L (get_valexdate ext) \<and> today < get_valexdate ext \<and>
          get_valexdate ext \<le> ans_plus_months A (enum_validation_base (ans_window_begin A) today
            (map_option get_valexdate (dom_enum_domain_validation d))) (enum_validation_period zone))"

lemma renew_range_errors_empty:
  "renew_range_errors L A data zone d today months exdates = {} \<longleftrightarrow>
   0 \<le> sint (get_length_of_domain_registration_in_months (renew_period data)) \<and>
   ex_period_min zone \<le> months \<and> months \<le> ex_period_max zone \<and> fst exdates \<le> snd exdates \<and>
   enum_extension_ok L A zone d today (renew_enum_validation_extension data)"
  unfolding renew_range_errors_def Un_empty scalar_if_empty enum_extension_ok_def
  by (cases "renew_enum_validation_extension data") (auto simp: not_less not_le)

lemma renew_found_verdict_Inr:
  "renew_found_verdict L A Q exdates data session zone d = Inr new_exdate \<longleftrightarrow>
   (let today = utc_to_local_date L (ans_now A); registrar = ans_registrar A (registrar_id session);
        months = renew_months data zone in
    from_simple_string L (renew_current_exdate data) = Inr (dom_expiration_date d) \<and>
    registration_period_ok zone (renew_period data) months \<and> months mod ex_period_min zone = 0 \<and>
    new_exdate = fst (exdates (dom_expiration_date d) months today (ex_period_max zone)) \<and>
    new_exdate \<le> snd (exdates (dom_expiration_date d) months today (ex_period_max zone)) \<and>
    (zone_is_enum zone \<or> renew_enum_validation_extension data = None) \<and>
    enum_extension_ok L A zone d today (renew_enum_validation_extension data) \<and>
    (dom_sponsoring_registrar_handle d = registrar_handle registrar \<or> is_system registrar) \<and>
    (is_system registrar \<or>
     \<not> ObjectStatesInfo_presents L (ans_states Q (dom_id d)) Object_State_server_renew_prohibited \<and>
     \<not> ObjectStatesInfo_presents L (ans_states Q (dom_id d)) Object_State_delete_candidate))"
proof -
  have months: "registration_period_ok zone (renew_period data) (renew_months data zone) \<longleftrightarrow>
      0 \<le> sint (get_length_of_domain_registration_in_months (renew_period data)) \<and>
      ex_period_min zone \<le> renew_months data zone \<and> renew_months data zone \<le> ex_period_max zone"
    by (auto simp: registration_period_ok_def renew_months_def Let_def)
  show ?thesis
    unfolding renew_found_verdict_def Let_def if_Inr renew_range_errors_empty months sum.inject
    by (auto del: mod_0_imp_dvd)
qed

lemma domain_renewal_returns:
  "domain_renewal L B data charging session r zone d now months new_exdate db = (Inr res, db') \<longleftrightarrow>
   (\<exists>history db1.
      RenewDomain L (renew_fqdn data) (registrar_handle r) new_exdate
        (if zone_is_enum zone then map_option get_valexdate (renew_enum_validation_extension data) else None)
        (if zone_is_enum zone then map_option get_publish (renew_enum_validation_extension data) else None)
        (logd_request_id session) db = (Inr history, db1) \<and>
      (if charging \<and> \<not> is_system r \<and> \<not> registrar_is_internal r
       then renew_domain_bill_item L B (renew_fqdn data) now (registrar_id session) (dom_id d) months
              (dom_expiration_date d) new_exdate db1 = (Inr (), db')
       else db' = db1) \<and>
      res = \<lparr>renewed_domain_id = dom_id d, renewed_domain_history_id = history, renew_time = now,
             renew_old_exdate = dom_expiration_date d, renew_exdate = new_exdate,
             renew_length_in_months = months\<rparr>)"
  unfolding domain_renewal_def catchE_rethrows [OF rethrows_translate_billing_failure]
  by (auto simp: op_inv)

end
