(* ===== verification/Domain_Update.thy ===== *)
theory Domain_Update
  imports Domain_Renew
begin

text \<open>
  The command \<^verbatim>\<open>update_domain\<close> (\<^verbatim>\<open>domain/update_domain.cc\<close>) and its verdict.
\<close>

section \<open>The checks\<close>

definition update_domain_enum ::
  "('db, 'x) libfred_domain_scheme \<Rightarrow> ZoneData \<Rightarrow> EnumValidationExtension option \<Rightarrow> InfoDomainData \<Rightarrow> date \<Rightarrow>
     EppResultFailure \<Rightarrow> ('db, exn, EppResultFailure) op" where
  "update_domain_enum L zone extension d current_local_date policy_errors =
     (if zone_is_enum zone
      then
        (case extension of
           None \<Rightarrow> returnE policy_errors
         | Some ext \<Rightarrow>
             bindE (if date_is_special L (get_valexdate ext) then returnE True
                    else is_new_enum_domain_validation_expiration_date_invalid L (get_valexdate ext)
                           current_local_date (enum_validation_period zone)
                           (map_option get_valexdate (dom_enum_domain_validation d))) (\<lambda>invalid.
             throw_if invalid
               (epp_failure (add_extended_error
                  (of_scalar_parameter Param_domain_ext_val_date Reason_valexpdate_not_valid) range_errors))
             (returnE policy_errors)))
      else returnE
        (if extension \<noteq> None
         then add_extended_error (of_scalar_parameter Param_domain_ext_val_date Reason_valexpdate_not_used) policy_errors
         else policy_errors))"

text \<open>
  \<^verbatim>\<open>find_if(admin_contacts, MatchesHandle(h))\<close>: the stored handles are compared with the
  upper-case form. The position in a vector is a difference of iterators, passed as
  \<^verbatim>\<open>unsigned short\<close> and so reduced modulo \<open>2 ^ 16\<close>, which is what \<open>error_at\<close> does.
\<close>

definition matches_handle :: "InfoDomainData \<Rightarrow> string \<Rightarrow> bool" where
  "matches_handle d h \<longleftrightarrow> to_upper_copy h \<in> set (dom_admin_contacts d)"

definition admin_add_step ::
  "('db, 'x) libfred_domain_scheme \<Rightarrow> InfoDomainData \<Rightarrow> string \<Rightarrow> nat \<Rightarrow> string set \<times> EppResultFailure \<Rightarrow>
     ('db, exn, string set \<times> EppResultFailure) op" where
  "admin_add_step L d h i acc =
     (case acc of (admin_contact_add_duplicity, errors) \<Rightarrow>
        bindE (Contact_get_handle_registrability L h) (\<lambda>registrability.
        if registrability \<noteq> registered
        then returnE (admin_contact_add_duplicity,
               add_extended_error (error_at Param_domain_admin_add i Reason_admin_notexist) errors)
        else if matches_handle d h
        then returnE (admin_contact_add_duplicity,
               add_extended_error (error_at Param_domain_admin_add i Reason_admin_exist) errors)
        else
          let inserted = (to_upper_copy h \<notin> admin_contact_add_duplicity);
              admin_contact_add_duplicity = insert (to_upper_copy h) admin_contact_add_duplicity in
          returnE (admin_contact_add_duplicity,
            if \<not> inserted
            then add_extended_error (error_at Param_domain_admin_add i Reason_duplicated_contact) errors
            else errors)))"

definition admin_rem_step ::
  "('db, 'x) libfred_domain_scheme \<Rightarrow> InfoDomainData \<Rightarrow> string \<Rightarrow> nat \<Rightarrow> string set \<times> EppResultFailure \<Rightarrow>
     ('db, exn, string set \<times> EppResultFailure) op" where
  "admin_rem_step L d h i acc =
     (case acc of (admin_contact_rem_duplicity, errors) \<Rightarrow>
        bindE (Contact_get_handle_registrability L h) (\<lambda>registrability.
        if registrability \<noteq> registered
        then returnE (admin_contact_rem_duplicity,
               add_extended_error (error_at Param_domain_admin_rem i Reason_admin_notexist) errors)
        else if \<not> matches_handle d h
        then returnE (admin_contact_rem_duplicity,
               add_extended_error (error_at Param_domain_admin_rem i Reason_admin_not_assigned) errors)
        else
          let inserted = (to_upper_copy h \<notin> admin_contact_rem_duplicity);
              admin_contact_rem_duplicity = insert (to_upper_copy h) admin_contact_rem_duplicity in
          returnE (admin_contact_rem_duplicity,
            if \<not> inserted
            then add_extended_error (error_at Param_domain_admin_rem i Reason_duplicated_contact) errors
            else errors)))"

definition tmpcontact_step ::
  "string \<Rightarrow> nat \<Rightarrow> unit \<times> EppResultFailure \<Rightarrow> ('db, exn, unit \<times> EppResultFailure) op" where
  "tmpcontact_step h i acc =
     returnE ((), add_extended_error (error_at Param_domain_tmpcontact i Reason_tmpcontacts_obsolete) (snd acc))"

text \<open>\<^verbatim>\<open>chg.isset() && !chg.get_value().isnull() && (get_handle_registrability(...) != registered)\<close>\<close>

definition changed_to_missing ::
  "(string \<Rightarrow> ('db, exn, Registrability) op) \<Rightarrow> string option option \<Rightarrow> ('db, exn, bool) op" where
  "changed_to_missing registrability chg =
     (case chg of
        Some (Some h) \<Rightarrow> bindE (registrability h) (\<lambda>r. returnE (r \<noteq> registered))
      | _ \<Rightarrow> returnE False)"

definition update_domain_registrant ::
  "('db, 'x) libfred_domain_scheme \<Rightarrow> string option \<Rightarrow> bool \<Rightarrow> ObjectStateData list \<Rightarrow> EppResultFailure \<Rightarrow>
     ('db, exn, EppResultFailure) op" where
  "update_domain_registrant L chg is_system_registrar domain_states errors =
     (case chg of
        None \<Rightarrow> returnE errors
      | Some h \<Rightarrow>
          throw_if (\<not> is_system_registrar \<and>
                    ObjectStatesInfo_presents L domain_states Object_State_server_registrant_change_prohibited)
            (fail_with object_status_prohibits_operation) (
          bindE (Contact_get_handle_registrability L h) (\<lambda>r.
          returnE (if r \<noteq> registered
                   then add_extended_error (of_scalar_parameter Param_domain_registrant Reason_registrant_notexist) errors
                   else errors))))"

section \<open>The modification\<close>

definition change_nsset_to_different_handle_requested :: "UpdateDomainInputData \<Rightarrow> InfoDomainData \<Rightarrow> bool" where
  "change_nsset_to_different_handle_requested data d =
     (case nsset_chg data of
        Some (Some h) \<Rightarrow>
          (case dom_nsset d of
             None \<Rightarrow> True
           | Some old \<Rightarrow> to_upper_copy h \<noteq> old)
      | _ \<Rightarrow> False)"

definition effective_keyset_chg ::
  "UpdateDomainInputData \<Rightarrow> UpdateDomainConfigData \<Rightarrow> InfoDomainData \<Rightarrow> string option option" where
  "effective_keyset_chg data config d =
     (let change_keyset_requested = (keyset_chg data \<noteq> None) in
      if rifd_epp_update_domain_keyset_clear config \<and>
         change_nsset_to_different_handle_requested data d \<and> \<not> change_keyset_requested
      then Some None
      else keyset_chg data)"

definition translate_update_domain :: "exn \<Rightarrow> ('db, exn, 'a) op" where
  "translate_update_domain e =
     (case e of
        LibfredException (UpdateDomainException unknown) \<Rightarrow>
          if unknown then throwE (fail_with object_does_not_exist) else throwE e
      | _ \<Rightarrow> throwE e)"

lemma rethrows_translate_update_domain [simp]: "rethrows translate_update_domain"
  by (auto simp: rethrows_def translate_update_domain_def throwE_def
      split: exn.split libfred_exception.split)

definition domain_modification ::
  "('db, 'x) libfred_domain_scheme \<Rightarrow> UpdateDomainInputData \<Rightarrow> UpdateDomainConfigData \<Rightarrow> SessionData \<Rightarrow>
     InfoRegistrarData \<Rightarrow> ZoneData \<Rightarrow> InfoDomainData \<Rightarrow> ('db, exn, u64) op" where
  "domain_modification L data config session session_registrar zone_data d =
     catchE
       (bindE (UpdateDomain L (update_fqdn data) (registrar_handle session_registrar) (registrant_chg data)
                 (authinfopw_chg data) (nsset_chg data) (effective_keyset_chg data config d)
                 (admin_contacts_add data) (admin_contacts_rem data)
                 (if zone_is_enum zone_data
                  then map_option get_valexdate (update_enum_validation data) else None)
                 (if zone_is_enum zone_data
                  then map_option get_publish (update_enum_validation data) else None)
                 (logd_request_id session)) (\<lambda>domain_new_history_id.
        bindE (whenE (dom_sponsoring_registrar_handle d \<noteq> registrar_handle session_registrar)
                 (CreatePollMessage L update_domain_message domain_new_history_id)) (\<lambda>_.
        returnE domain_new_history_id)))
       translate_update_domain"

section \<open>The command\<close>

definition unauthorized_registrar :: exn where
  "unauthorized_registrar =
     epp_failure (add_extended_error (of_scalar_parameter Param_registrar_autor Reason_unauthorized_registrar)
       (result_failure authorization_error))"

definition update_domain_references ::
  "('db, 'x) libfred_domain_scheme \<Rightarrow> UpdateDomainInputData \<Rightarrow> InfoDomainData \<Rightarrow> EppResultFailure \<Rightarrow>
     ('db, exn, EppResultFailure) op" where
  "update_domain_references L data d errors =
     bindE (for_indexed (admin_add_step L d) (admin_contacts_add data) 0 ({}, errors)) (\<lambda>(_, errors).
     bindE (for_indexed (admin_rem_step L d) (admin_contacts_rem data) 0 ({}, errors)) (\<lambda>(_, errors).
     bindE (for_indexed tmpcontact_step (tmpcontacts_rem data) 0 ((), errors)) (\<lambda>(_, errors).
     bindE (changed_to_missing (nsset_handle_registrability L) (nsset_chg data)) (\<lambda>no_nsset.
     let errors = (if no_nsset
                   then add_extended_error (of_scalar_parameter Param_domain_nsset Reason_nsset_notexist) errors
                   else errors) in
     bindE (changed_to_missing (keyset_handle_registrability L) (keyset_chg data)) (\<lambda>no_keyset.
     returnE (if no_keyset
              then add_extended_error (of_scalar_parameter Param_domain_keyset Reason_keyset_notexist) errors
              else errors))))))"

definition update_found_domain ::
  "('db, 'x) libfred_domain_scheme \<Rightarrow> UpdateDomainInputData \<Rightarrow> UpdateDomainConfigData \<Rightarrow> SessionData \<Rightarrow>
     date \<Rightarrow> ZoneData \<Rightarrow> InfoDomainData \<Rightarrow> ('db, exn, u64) op" where
  "update_found_domain L data config session current_local_date zone_data d =
     bindE (update_domain_enum L zone_data (update_enum_validation data) d current_local_date
              (result_failure parameter_value_policy_error)) (\<lambda>errors.
     bindE (InfoRegistrarById L (registrar_id session)) (\<lambda>session_registrar.
     let is_sponsoring_registrar = (dom_sponsoring_registrar_handle d = registrar_handle session_registrar);
         is_system_registrar = is_system session_registrar;
         is_registrar_authorized = (is_sponsoring_registrar \<or> is_system_registrar) in
     throw_if (\<not> is_registrar_authorized) unauthorized_registrar (
     bindE (GetObjectStates L (dom_id d)) (\<lambda>domain_states.
     throw_if (\<not> is_system_registrar \<and>
               (ObjectStatesInfo_presents L domain_states Object_State_server_update_prohibited \<or>
                ObjectStatesInfo_presents L domain_states Object_State_delete_candidate))
       (fail_with object_status_prohibits_operation) (
     bindE (update_domain_references L data d errors) (\<lambda>errors.
     bindE (update_domain_registrant L (registrant_chg data) is_system_registrar domain_states errors) (\<lambda>errors.
     throw_if (\<not> failure_empty errors) (epp_failure errors) (
     domain_modification L data config session session_registrar zone_data d))))))))"

definition update_domain ::
  "('db, 'x) libfred_domain_scheme \<Rightarrow> UpdateDomainInputData \<Rightarrow> UpdateDomainConfigData \<Rightarrow> SessionData \<Rightarrow>
     ('db, exn, u64) op" where
  "update_domain L data config session =
     with_session session (
     bindE (zone_of_object L (update_fqdn data)) (\<lambda>zone_data.
     bindE (current_utc_time L) (\<lambda>current_utc.
     let current_local_date = utc_to_local_date L current_utc in
     bindE (accessible_domain L (update_fqdn data) session zone_data current_local_date) (\<lambda>d.
     update_found_domain L data config session current_local_date zone_data d))))"

interpretation update_domain: session_guarded "update_domain L data config" for L data config
  by unfold_locales (simp add: update_domain_def with_session_refuses)

section \<open>The verdict\<close>

definition admin_change_errs ::
  "Param \<Rightarrow> Reason \<Rightarrow> (string \<Rightarrow> bool) \<Rightarrow> (string \<Rightarrow> Registrability) \<Rightarrow> string \<Rightarrow> nat \<Rightarrow> string set \<Rightarrow>
     EppExtendedError set" where
  "admin_change_errs p wrong bad contacts h i S =
     (if contacts h \<noteq> registered then {error_at p i Reason_admin_notexist}
      else if bad h then {error_at p i wrong}
      else if to_upper_copy h \<in> S then {error_at p i Reason_duplicated_contact} else {})"

definition admin_change_errors ::
  "Param \<Rightarrow> Reason \<Rightarrow> (string \<Rightarrow> bool) \<Rightarrow> (string \<Rightarrow> Registrability) \<Rightarrow> string list \<Rightarrow> EppExtendedError set" where
  "admin_change_errors p wrong bad contacts hs =
     collected (admin_change_errs p wrong bad contacts)
       (remember (\<lambda>h. contacts h = registered \<and> \<not> bad h) to_upper_copy) hs 0 {}"

lemma admin_change_errors_empty:
  "admin_change_errors p wrong bad contacts hs = {} \<longleftrightarrow>
   (\<forall>h \<in> set hs. contacts h = registered \<and> \<not> bad h) \<and> distinct (map to_upper_copy hs)"
proof -
  let ?ok = "\<lambda>h. contacts h = registered \<and> \<not> bad h"
  have "admin_change_errs p wrong bad contacts h i S = {} \<longleftrightarrow> ?ok h \<and> (?ok h \<longrightarrow> to_upper_copy h \<notin> S)" for h i S
    by (auto simp: admin_change_errs_def)
  then show ?thesis
    using collected_empty [of "admin_change_errs p wrong bad contacts" ?ok ?ok to_upper_copy hs 0 "{}"]
    by (simp add: admin_change_errors_def)
qed

definition update_reference_errors ::
  "domain_answers \<Rightarrow> UpdateDomainInputData \<Rightarrow> InfoDomainData \<Rightarrow> EppExtendedError set" where
  "update_reference_errors A data d =
     admin_change_errors Param_domain_admin_add Reason_admin_exist (matches_handle d) (ans_contacts A)
       (admin_contacts_add data) \<union>
     admin_change_errors Param_domain_admin_rem Reason_admin_not_assigned (\<lambda>h. \<not> matches_handle d h)
       (ans_contacts A) (admin_contacts_rem data) \<union>
     collected (\<lambda>h i s. {error_at Param_domain_tmpcontact i Reason_tmpcontacts_obsolete}) (\<lambda>h s. s)
       (tmpcontacts_rem data) 0 () \<union>
     scalar_if (\<exists>h. nsset_chg data = Some (Some h) \<and> ans_nssets A h \<noteq> registered)
       Param_domain_nsset Reason_nsset_notexist \<union>
     scalar_if (\<exists>h. keyset_chg data = Some (Some h) \<and> ans_keysets A h \<noteq> registered)
       Param_domain_keyset Reason_keyset_notexist"

definition update_domain_errors ::
  "domain_answers \<Rightarrow> UpdateDomainInputData \<Rightarrow> ZoneData \<Rightarrow> InfoDomainData \<Rightarrow> EppExtendedError set" where
  "update_domain_errors A data zone d =
     scalar_if (\<not> zone_is_enum zone \<and> update_enum_validation data \<noteq> None)
       Param_domain_ext_val_date Reason_valexpdate_not_used \<union>
     update_reference_errors A data d \<union>
     scalar_if (\<exists>h. registrant_chg data = Some h \<and> ans_contacts A h \<noteq> registered)
       Param_domain_registrant Reason_registrant_notexist"

definition update_found_verdict ::
  "('db, 'x) libfred_domain_scheme \<Rightarrow> domain_answers \<Rightarrow> domain_objects \<Rightarrow> UpdateDomainInputData \<Rightarrow>
     SessionData \<Rightarrow> ZoneData \<Rightarrow> InfoDomainData \<Rightarrow> exn + unit" where
  "update_found_verdict L A Q data session zone d =
     (let today = utc_to_local_date L (ans_now A); registrar = ans_registrar A (registrar_id session);
          states = ans_states Q (dom_id d); X = update_domain_errors A data zone d in
      if zone_is_enum zone \<and> \<not> enum_extension_ok L A zone d today (update_enum_validation data)
      then Inl (epp_failure (add_extended_error
             (of_scalar_parameter Param_domain_ext_val_date Reason_valexpdate_not_valid) range_errors))
      else if dom_sponsoring_registrar_handle d \<noteq> registrar_handle registrar \<and> \<not> is_system registrar
      then Inl unauthorized_registrar
      else if \<not> is_system registrar \<and>
        (ObjectStatesInfo_presents L states Object_State_server_update_prohibited \<or>
         ObjectStatesInfo_presents L states Object_State_delete_candidate)
      then Inl (fail_with object_status_prohibits_operation)
      else if registrant_chg data \<noteq> None \<and> \<not> is_system registrar \<and>
        ObjectStatesInfo_presents L states Object_State_server_registrant_change_prohibited
      then Inl (fail_with object_status_prohibits_operation)
      else if X \<noteq> {}
      then Inl (epp_failure (add_extended_errors X (result_failure parameter_value_policy_error)))
      else Inr ())"

section \<open>The command follows the verdict\<close>

lemma add_loop:
  assumes "domain_queries L db A"
  shows "indexed_check (admin_add_step L d) db (\<lambda>x i s. True)
    (admin_change_errs Param_domain_admin_add Reason_admin_exist (matches_handle d) (ans_contacts A))
    (remember (\<lambda>h. ans_contacts A h = registered \<and> \<not> matches_handle d h) to_upper_copy)"
proof unfold_locales
  fix h i f and S :: "string set"
  show "\<exists>f'. admin_add_step L d h i (S, f) db =
      (Inr (remember (\<lambda>h. ans_contacts A h = registered \<and> \<not> matches_handle d h) to_upper_copy h S, f'), db) \<and>
      extends (admin_change_errs Param_domain_admin_add Reason_admin_exist (matches_handle d) (ans_contacts A) h i S) f f'"
    using domain_queriesD(6) [OF assms, of h]
    by (auto simp: admin_add_step_def op_simps admin_change_errs_def remember_def Let_def insert_absorb
        extends_refl extends_add)
qed

lemma rem_loop:
  assumes "domain_queries L db A"
  shows "indexed_check (admin_rem_step L d) db (\<lambda>x i s. True)
    (admin_change_errs Param_domain_admin_rem Reason_admin_not_assigned (\<lambda>h. \<not> matches_handle d h) (ans_contacts A))
    (remember (\<lambda>h. ans_contacts A h = registered \<and> \<not> \<not> matches_handle d h) to_upper_copy)"
proof unfold_locales
  fix h i f and S :: "string set"
  show "\<exists>f'. admin_rem_step L d h i (S, f) db =
      (Inr (remember (\<lambda>h. ans_contacts A h = registered \<and> \<not> \<not> matches_handle d h) to_upper_copy h S, f'), db) \<and>
      extends (admin_change_errs Param_domain_admin_rem Reason_admin_not_assigned (\<lambda>h. \<not> matches_handle d h)
        (ans_contacts A) h i S) f f'"
    using domain_queriesD(6) [OF assms, of h]
    by (auto simp: admin_rem_step_def op_simps admin_change_errs_def remember_def Let_def insert_absorb
        extends_refl extends_add)
qed

interpretation tmpcontact_loop: indexed_check tmpcontact_step db "\<lambda>x i s. True"
    "\<lambda>h i s. {error_at Param_domain_tmpcontact i Reason_tmpcontacts_obsolete}" "\<lambda>h s. s" for db
  by unfold_locales (auto simp: tmpcontact_step_def op_simps extends_add)

lemma all_pre_True [simp]: "all_pre (\<lambda>x i s. True) upd xs i s"
  by (induction xs arbitrary: i s) auto

lemma changed_to_missing_reads:
  assumes "\<And>h. reads (registrability h) db (answer h)"
  shows "reads (changed_to_missing registrability chg) db (\<exists>h. chg = Some (Some h) \<and> answer h \<noteq> registered)"
  using assms by (auto simp: changed_to_missing_def reads_def bindE_def returnE_def split: option.split)

lemma update_domain_references_run:
  assumes q: "domain_queries L db A"
  shows "\<exists>f'. update_domain_references L data d f db = (Inr f', db) \<and>
    extends (update_reference_errors A data d) f f'"
proof -
  obtain S1 f1 where 1: "for_indexed (admin_add_step L d) (admin_contacts_add data) 0 ({}, f) db = (Inr (S1, f1), db)"
      and e1: "extends (admin_change_errors Param_domain_admin_add Reason_admin_exist (matches_handle d) (ans_contacts A)
        (admin_contacts_add data)) f f1"
    using indexed_check.run [OF add_loop [OF q, of d], of "admin_contacts_add data" 0 "{}" f]
    unfolding admin_change_errors_def by auto
  obtain S2 f2 where 2: "for_indexed (admin_rem_step L d) (admin_contacts_rem data) 0 ({}, f1) db = (Inr (S2, f2), db)"
      and e2: "extends (admin_change_errors Param_domain_admin_rem Reason_admin_not_assigned (\<lambda>h. \<not> matches_handle d h)
        (ans_contacts A) (admin_contacts_rem data)) f1 f2"
    using indexed_check.run [OF rem_loop [OF q, of d], of "admin_contacts_rem data" 0 "{}" f1]
    unfolding admin_change_errors_def by auto
  obtain u f3 where 3: "for_indexed tmpcontact_step (tmpcontacts_rem data) 0 ((), f2) db = (Inr (u, f3), db)"
      and e3: "extends (collected (\<lambda>h i s. {error_at Param_domain_tmpcontact i Reason_tmpcontacts_obsolete}) (\<lambda>h s. s)
        (tmpcontacts_rem data) 0 ()) f2 f3"
    using tmpcontact_loop.run [of "tmpcontacts_rem data" 0 "()" f2 db] by auto
  let ?n = "\<exists>h. nsset_chg data = Some (Some h) \<and> ans_nssets A h \<noteq> registered"
  let ?k = "\<exists>h. keyset_chg data = Some (Some h) \<and> ans_keysets A h \<noteq> registered"
  have n: "reads (changed_to_missing (nsset_handle_registrability L) (nsset_chg data)) db ?n"
    by (rule changed_to_missing_reads) (rule domain_queriesD(7) [OF q])
  have k: "reads (changed_to_missing (keyset_handle_registrability L) (keyset_chg data)) db ?k"
    by (rule changed_to_missing_reads) (rule domain_queriesD(8) [OF q])
  define f4 where "f4 = (if ?n then add_extended_error (of_scalar_parameter Param_domain_nsset Reason_nsset_notexist) f3 else f3)"
  define f5 where "f5 = (if ?k then add_extended_error (of_scalar_parameter Param_domain_keyset Reason_keyset_notexist) f4 else f4)"
  have e4: "extends (scalar_if ?n Param_domain_nsset Reason_nsset_notexist) f3 f4"
    and e5: "extends (scalar_if ?k Param_domain_keyset Reason_keyset_notexist) f4 f5"
    unfolding f4_def f5_def by (rule extends_scalar_if)+
  have "update_domain_references L data d f db = (Inr f5, db)"
    unfolding update_domain_references_def Let_def
    by (simp only: bindE_run_Inr 1 2 3 prod.case bindE_reads [OF n] f4_def [symmetric]
        bindE_reads [OF k] f5_def [symmetric] returnE_run)
  with extends_trans [OF extends_trans [OF extends_trans [OF extends_trans [OF e1 e2] e3] e4] e5] show ?thesis
    unfolding update_reference_errors_def by blast
qed

lemma update_domain_enum_run:
  assumes q: "domain_queries L db A"
  shows "update_domain_enum L zone ext d today f db =
    (if zone_is_enum zone \<and> \<not> enum_extension_ok L A zone d today ext
     then Inl (epp_failure (add_extended_error
        (of_scalar_parameter Param_domain_ext_val_date Reason_valexpdate_not_valid) range_errors))
     else Inr (if \<not> zone_is_enum zone \<and> ext \<noteq> None
       then add_extended_error (of_scalar_parameter Param_domain_ext_val_date Reason_valexpdate_not_used) f else f), db)"
proof (cases ext)
  case (Some e)
  have invalid: "reads (if date_is_special L (get_valexdate e) then returnE True
      else is_new_enum_domain_validation_expiration_date_invalid L (get_valexdate e)
             today (enum_validation_period zone) (map_option get_valexdate (dom_enum_domain_validation d))) db
      (\<not> enum_extension_ok L A zone d today ext)"
    using enum_validation_run [OF domain_queriesD(10,11) [OF q], of "get_valexdate e" today
        "enum_validation_period zone" "map_option get_valexdate (dom_enum_domain_validation d)"]
    by (auto simp: reads_def returnE_def enum_extension_ok_def Some not_less not_le)
  show ?thesis
    unfolding update_domain_enum_def Some option.case bindE_reads [OF invalid [unfolded Some]] if_distrib [where f = "\<lambda>m. m db"]
    by (simp add: op_simps bindE_reads [OF invalid [unfolded Some]])
qed (simp add: update_domain_enum_def enum_extension_ok_def op_simps)

lemma update_domain_registrant_run:
  assumes q: "domain_queries L db A"
  shows "\<exists>f'. update_domain_registrant L chg sys states f db =
    (if chg \<noteq> None \<and> \<not> sys \<and> ObjectStatesInfo_presents L states Object_State_server_registrant_change_prohibited
     then Inl (fail_with object_status_prohibits_operation) else Inr f', db) \<and>
    extends (scalar_if (\<exists>h. chg = Some h \<and> ans_contacts A h \<noteq> registered)
      Param_domain_registrant Reason_registrant_notexist) f f'"
proof (cases chg)
  case (Some h)
  then show ?thesis
    using domain_queriesD(6) [OF q, of h]
      extends_scalar_if [of "ans_contacts A h \<noteq> registered" Param_domain_registrant Reason_registrant_notexist f]
    by (intro exI [where x = "if ans_contacts A h \<noteq> registered
        then add_extended_error (of_scalar_parameter Param_domain_registrant Reason_registrant_notexist) f else f"])
      (simp add: update_domain_registrant_def op_simps)
qed (simp add: update_domain_registrant_def op_simps scalar_if_def extends_refl)

lemma update_found_by_verdict:
  assumes q: "domain_queries L db A" and o: "object_queries L db Q"
  shows "update_found_domain L data config session (utc_to_local_date L (ans_now A)) zone d db =
    (case update_found_verdict L A Q data session zone d of
       Inl e \<Rightarrow> (Inl e, db)
     | Inr _ \<Rightarrow> domain_modification L data config session (ans_registrar A (registrar_id session)) zone d db)"
proof -
  let ?today = "utc_to_local_date L (ans_now A)" and ?r = "ans_registrar A (registrar_id session)"
  let ?states = "ans_states Q (dom_id d)" and ?ext = "update_enum_validation data"
  let ?P0 = "result_failure parameter_value_policy_error" and ?X = "update_domain_errors A data zone d"
  define f1 where "f1 = (if \<not> zone_is_enum zone \<and> ?ext \<noteq> None
    then add_extended_error (of_scalar_parameter Param_domain_ext_val_date Reason_valexpdate_not_used) ?P0 else ?P0)"
  have e1: "extends (scalar_if (\<not> zone_is_enum zone \<and> ?ext \<noteq> None) Param_domain_ext_val_date Reason_valexpdate_not_used) ?P0 f1"
    unfolding f1_def by (rule extends_scalar_if)
  obtain f2 where 2: "update_domain_references L data d f1 db = (Inr f2, db)"
      and e2: "extends (update_reference_errors A data d) f1 f2"
    using update_domain_references_run [OF q] by blast
  obtain f3 where 3: "update_domain_registrant L (registrant_chg data) (is_system ?r) ?states f2 db =
        (if registrant_chg data \<noteq> None \<and> \<not> is_system ?r \<and>
            ObjectStatesInfo_presents L ?states Object_State_server_registrant_change_prohibited
         then Inl (fail_with object_status_prohibits_operation) else Inr f3, db)"
      and e3: "extends (scalar_if (\<exists>h. registrant_chg data = Some h \<and> ans_contacts A h \<noteq> registered)
        Param_domain_registrant Reason_registrant_notexist) f2 f3"
    using update_domain_registrant_run [OF q] by blast
  have ext: "extends ?X ?P0 f3"
    unfolding update_domain_errors_def by (rule extends_trans [OF extends_trans [OF e1 e2] e3])
  then have f3: "?X \<noteq> {} \<Longrightarrow> f3 = add_extended_errors ?X ?P0" and empty: "failure_empty f3 \<longleftrightarrow> ?X = {}"
    using extends_result_failure [OF ext] by (simp_all add: extends_def)
  have tail: "bindE (update_domain_registrant L (registrant_chg data) (is_system ?r) ?states f2) (\<lambda>errors.
        throw_if (\<not> failure_empty errors) (epp_failure errors) m) db =
      (if registrant_chg data \<noteq> None \<and> \<not> is_system ?r \<and>
          ObjectStatesInfo_presents L ?states Object_State_server_registrant_change_prohibited
       then (Inl (fail_with object_status_prohibits_operation), db)
       else if ?X \<noteq> {} then (Inl (epp_failure (add_extended_errors ?X ?P0)), db) else m db)" for m :: "('a, exn, u64) op"
    unfolding bindE_def 3 by (simp add: throw_if_def throwE_def empty f3)
  have "update_found_domain L data config session ?today zone d db =
     (if zone_is_enum zone \<and> \<not> enum_extension_ok L A zone d ?today ?ext
      then (Inl (epp_failure (add_extended_error
             (of_scalar_parameter Param_domain_ext_val_date Reason_valexpdate_not_valid) range_errors)), db)
      else if dom_sponsoring_registrar_handle d \<noteq> registrar_handle ?r \<and> \<not> is_system ?r
      then (Inl unauthorized_registrar, db)
      else if \<not> is_system ?r \<and>
        (ObjectStatesInfo_presents L ?states Object_State_server_update_prohibited \<or>
         ObjectStatesInfo_presents L ?states Object_State_delete_candidate)
      then (Inl (fail_with object_status_prohibits_operation), db)
      else if registrant_chg data \<noteq> None \<and> \<not> is_system ?r \<and>
        ObjectStatesInfo_presents L ?states Object_State_server_registrant_change_prohibited
      then (Inl (fail_with object_status_prohibits_operation), db)
      else if ?X \<noteq> {} then (Inl (epp_failure (add_extended_errors ?X ?P0)), db)
      else domain_modification L data config session ?r zone d db)"
    using domain_queriesD(1) [OF q, of "registrar_id session"] object_queriesD(2) [OF o, of "dom_id d"]
    unfolding update_found_domain_def bindE_def [of "update_domain_enum L zone ?ext d ?today ?P0"]
      update_domain_enum_run [OF q, of zone ?ext d ?today ?P0] f1_def [symmetric]
    by (simp add: op_simps Let_def 2 tail if_distrib [where f = "case_sum _ _"] cong: if_cong split del: if_split)
  then show ?thesis
    unfolding update_found_verdict_def Let_def
    by (simp only: if_distrib [where f = "case_sum _ _"] sum.case)
qed

definition update_domain_verdict ::
  "('db, 'x) libfred_domain_scheme \<Rightarrow> domain_answers \<Rightarrow> domain_objects \<Rightarrow> UpdateDomainInputData \<Rightarrow>
     SessionData \<Rightarrow> exn + (ZoneData \<times> InfoDomainData)" where
  "update_domain_verdict L A Q data session =
     (if \<not> is_session_registrar_valid session
      then Inl (fail_with authentication_error_server_closing_connection)
      else case ans_zone A (zone_rem_trailing_dot L (update_fqdn data)) of
        None \<Rightarrow> Inl (fail_with object_does_not_exist)
      | Some zone \<Rightarrow>
          (case accessible_domain_answer A Q (update_fqdn data) session zone (utc_to_local_date L (ans_now A)) of
             Inl e \<Rightarrow> Inl e
           | Inr d \<Rightarrow>
               (case update_found_verdict L A Q data session zone d of
                  Inl e \<Rightarrow> Inl e
                | Inr _ \<Rightarrow> Inr (zone, d))))"

lemma update_domain_by_verdict:
  assumes q: "domain_queries L db A" and o: "object_queries L db Q"
  shows "update_domain L data config session db =
    (case update_domain_verdict L A Q data session of
       Inl e \<Rightarrow> (Inl e, db)
     | Inr (zone, d) \<Rightarrow>
         domain_modification L data config session (ans_registrar A (registrar_id session)) zone d db)"
  using domain_queriesD(9) [OF q] zone_of_object_run [OF q, of "update_fqdn data"]
    accessible_domain_run [OF q o, of "update_fqdn data" session _ "utc_to_local_date L (ans_now A)"]
    update_found_by_verdict [OF q o, of data config session]
  by (simp add: update_domain_def update_domain_verdict_def with_session_def Let_def bindE_def reads_def throw_if_def throwE_def
      split: option.split sum.split)

end
