(* ===== verification/Domain_Commands.thy ===== *)
theory Domain_Commands
  imports Domain_Update Availability
begin

text \<open>
  The remaining domain commands, \<^verbatim>\<open>delete_domain\<close>, \<^verbatim>\<open>transfer_domain\<close>,
  \<^verbatim>\<open>info_domain\<close> and \<^verbatim>\<open>check_domain\<close> (\<^verbatim>\<open>domain/*.cc\<close>).
\<close>

section \<open>Deletion\<close>

text \<open>The handler around \<^verbatim>\<open>DeleteDomainByFqdn\<close> rethrows whatever it catches.\<close>

definition delete_domain ::
  "('db, 'x) libfred_domain_scheme \<Rightarrow> string \<Rightarrow> SessionData \<Rightarrow> ('db, exn, u64) op" where
  "delete_domain L fqdn session =
     with_session session (
     bindE (zone_of_object L fqdn) (\<lambda>zone_data.
     bindE (current_utc_time L) (\<lambda>current_utc.
     bindE (accessible_domain L fqdn session zone_data (utc_to_local_date L current_utc))
       (\<lambda>domain_data_before_delete.
     bindE (InfoRegistrarById L (registrar_id session)) (\<lambda>session_registrar.
     let is_sponsoring_registrar =
           (dom_sponsoring_registrar_handle domain_data_before_delete = registrar_handle session_registrar);
         is_system_registrar = is_system session_registrar;
         is_registrar_authorized = (is_sponsoring_registrar \<or> is_system_registrar) in
     throw_if (\<not> is_registrar_authorized) unauthorized_registrar (
     bindE (whenE (\<not> is_system_registrar)
       (bindE (GetObjectStates L (dom_id domain_data_before_delete)) (\<lambda>states.
        throw_if (ObjectStatesInfo_presents L states Object_State_server_update_prohibited \<or>
                  ObjectStatesInfo_presents L states Object_State_server_delete_prohibited \<or>
                  ObjectStatesInfo_presents L states Object_State_delete_candidate)
          (fail_with object_status_prohibits_operation) (returnE ())))) (\<lambda>_.
     bindE (DeleteDomainByFqdn L fqdn) (\<lambda>_.
     bindE (whenE (\<not> is_sponsoring_registrar)
       (CreatePollMessage L delete_domain_message (dom_historyid domain_data_before_delete))) (\<lambda>_.
     returnE (dom_historyid domain_data_before_delete))))))))))"

section \<open>Transfer\<close>

definition translate_transfer_domain :: "exn \<Rightarrow> ('db, exn, 'a) op" where
  "translate_transfer_domain e =
     (case e of
        LibfredException UnknownDomainId \<Rightarrow> throwE (fail_with object_does_not_exist)
      | LibfredException IncorrectAuthInfoPw \<Rightarrow> throwE (fail_with invalid_authorization_information)
      | LibfredException NewRegistrarIsAlreadySponsoring \<Rightarrow>
          throwE (fail_with object_is_not_eligible_for_transfer)
      | _ \<Rightarrow> throwE e)"

lemma rethrows_translate_transfer_domain [simp]: "rethrows translate_transfer_domain"
  by (auto simp: rethrows_def translate_transfer_domain_def throwE_def
      split: exn.split libfred_exception.split)

definition transfer_domain ::
  "('db, 'x) libfred_domain_scheme \<Rightarrow> string \<Rightarrow> string \<Rightarrow> SessionData \<Rightarrow> ('db, exn, u64) op" where
  "transfer_domain L fqdn authinfopw session =
     with_session session (
     bindE (current_utc_time L) (\<lambda>current_utc.
     bindE (zone_of_object L fqdn) (\<lambda>zone_data.
     bindE (accessible_domain L fqdn session zone_data (utc_to_local_date L current_utc))
       (\<lambda>domain_data_before_transfer.
     bindE (InfoRegistrarById L (registrar_id session)) (\<lambda>session_registrar.
     let is_sponsoring_registrar =
           (dom_sponsoring_registrar_handle domain_data_before_transfer = registrar_handle session_registrar) in
     throw_if is_sponsoring_registrar (fail_with object_is_not_eligible_for_transfer) (
     bindE (whenE (\<not> is_system session_registrar)
       (bindE (GetObjectStates L (dom_id domain_data_before_transfer)) (\<lambda>states.
        throw_if (ObjectStatesInfo_presents L states Object_State_server_transfer_prohibited \<or>
                  ObjectStatesInfo_presents L states Object_State_delete_candidate)
          (fail_with object_status_prohibits_operation) (returnE ())))) (\<lambda>_.
     catchE
       (bindE (TransferDomain L (dom_id domain_data_before_transfer) (registrar_handle session_registrar)
                 authinfopw (logd_request_id session)) (\<lambda>post_transfer_history_id.
        bindE (CreatePollMessage L transfer_domain_message post_transfer_history_id) (\<lambda>_.
        returnE post_transfer_history_id)))
       translate_transfer_domain)))))))"

section \<open>Information\<close>

record InfoDomainOutputData =
  domout_roid :: string
  domout_fqdn :: string
  domout_registrant :: string
  domout_nsset :: "string option"
  domout_keyset :: "string option"
  domout_states :: "DomainStatusValue set"
  domout_sponsoring_registrar_handle :: string
  domout_creating_registrar_handle :: string
  domout_last_update_registrar_handle :: "string option"
  domout_crdate :: ptime
  domout_last_update :: "ptime option"
  domout_last_transfer :: "ptime option"
  domout_exdate :: date
  domout_admin :: "string set"
  domout_ext_enum_domain_validation :: "EnumValidationExtension option"
  domout_tmpcontact :: "string set"

definition get_info_domain_output ::
  "(string \<Rightarrow> exn + Object_State) \<Rightarrow> InfoDomainData \<Rightarrow> ObjectStateData list \<Rightarrow> exn + InfoDomainOutputData" where
  "get_info_domain_output from_db_handle data object_state_data =
     (case external_states domain_status_of_object_state from_db_handle object_state_data {} of
        Inl e \<Rightarrow> Inl e
      | Inr states \<Rightarrow> Inr \<lparr>
          domout_roid = dom_roid data,
          domout_fqdn = dom_fqdn data,
          domout_registrant = dom_registrant data,
          domout_nsset = dom_nsset data,
          domout_keyset = dom_keyset data,
          domout_states = states,
          domout_sponsoring_registrar_handle = dom_sponsoring_registrar_handle data,
          domout_creating_registrar_handle = dom_create_registrar_handle data,
          domout_last_update_registrar_handle = dom_update_registrar_handle data,
          domout_crdate = dom_creation_time data,
          domout_last_update = dom_update_time data,
          domout_last_transfer = dom_transfer_time data,
          domout_exdate = dom_expiration_date data,
          domout_admin = fold insert (dom_admin_contacts data) {},
          domout_ext_enum_domain_validation = dom_enum_domain_validation data,
          domout_tmpcontact = {}\<rparr>)"

definition info_domain ::
  "('db, 'x) libfred_domain_scheme \<Rightarrow> string \<Rightarrow> Password \<Rightarrow> SessionData \<Rightarrow>
     ('db, exn, InfoDomainOutputData) op" where
  "info_domain L fqdn authinfopw session =
     with_session session (
     catchE
       (bindE (InfoDomainByFqdn L False fqdn) (\<lambda>info_domain_data.
        bindE (GetObjectStates L (dom_id info_domain_data)) (\<lambda>object_state_data.
        bindE (whenE (password_value authinfopw \<noteq> [])
                 (authorization_required L (dom_id info_domain_data) authinfopw)) (\<lambda>_.
        liftE (get_info_domain_output (object_state_from_db_handle L) info_domain_data object_state_data)))))
       translate_unknown_fqdn)"

section \<open>Availability\<close>

datatype DomainRegistrationObstruction =
    Domain_registered
  | Domain_blacklisted
  | Domain_zone_not_in_registry
  | Domain_invalid_fqdn

definition domain_obstruction_to_reason :: "DomainRegistrationObstruction \<Rightarrow> Reason" where
  "domain_obstruction_to_reason v =
     (case v of
        Domain_registered \<Rightarrow> Reason_existing
      | Domain_blacklisted \<Rightarrow> Reason_blacklisted_domain
      | Domain_zone_not_in_registry \<Rightarrow> Reason_not_applicable_domain
      | Domain_invalid_fqdn \<Rightarrow> Reason_invalid_handle)"

definition domain_obstruction_from_reason :: "Reason \<Rightarrow> DomainRegistrationObstruction option" where
  "domain_obstruction_from_reason r =
     (case r of
        Reason_existing \<Rightarrow> Some Domain_registered
      | Reason_blacklisted_domain \<Rightarrow> Some Domain_blacklisted
      | Reason_not_applicable_domain \<Rightarrow> Some Domain_zone_not_in_registry
      | Reason_invalid_handle \<Rightarrow> Some Domain_invalid_fqdn
      | _ \<Rightarrow> None)"

text \<open>
  \<^verbatim>\<open>check_domain\<close> calls the two functions of LibFred without the argument that says whether
  the registrar is a system one; its default is \<^verbatim>\<open>false\<close>.
\<close>

definition domain_get_registration_obstruction_by_fqdn ::
  "('db, 'x) libfred_domain_scheme \<Rightarrow> string \<Rightarrow> ('db, exn, DomainRegistrationObstruction option) op" where
  "domain_get_registration_obstruction_by_fqdn L fqdn =
     bindE (get_domain_registrability_by_domain_fqdn L fqdn False) (\<lambda>r.
     case r of
       domain_registered \<Rightarrow> returnE (Some Domain_registered)
     | domain_blacklisted \<Rightarrow> returnE (Some Domain_blacklisted)
     | domain_zone_not_in_registry \<Rightarrow> returnE (Some Domain_zone_not_in_registry)
     | domain_available \<Rightarrow>
         bindE (get_domain_fqdn_syntax_validity L fqdn False) (\<lambda>v.
         case v of
           syntax_invalid \<Rightarrow> returnE (Some Domain_invalid_fqdn)
         | syntax_valid \<Rightarrow> returnE None))"

fun check_domain_loop ::
  "('db, 'x) libfred_domain_scheme \<Rightarrow> string list \<Rightarrow> (string \<times> DomainRegistrationObstruction option) list \<Rightarrow>
     ('db, exn, (string \<times> DomainRegistrationObstruction option) list) op" where
  "check_domain_loop L [] result = returnE result"
| "check_domain_loop L (fqdn # fqdns) result =
     bindE (domain_get_registration_obstruction_by_fqdn L fqdn) (\<lambda>obstruction.
     check_domain_loop L fqdns (map_assign string_less fqdn obstruction result))"

definition check_domain ::
  "('db, 'x) libfred_domain_scheme \<Rightarrow> string list \<Rightarrow> SessionData \<Rightarrow>
     ('db, exn, (string \<times> DomainRegistrationObstruction option) list) op" where
  "check_domain L fqdns session = with_session session (check_domain_loop L fqdns [])"

section \<open>The guard\<close>

interpretation delete_domain: session_guarded "delete_domain L fqdn" for L fqdn
  by unfold_locales (simp add: delete_domain_def with_session_refuses)

interpretation transfer_domain: session_guarded "transfer_domain L fqdn pw" for L fqdn pw
  by unfold_locales (simp add: transfer_domain_def with_session_refuses)

interpretation info_domain: session_guarded "info_domain L fqdn pw" for L fqdn pw
  by unfold_locales (simp add: info_domain_def with_session_refuses)

interpretation check_domain: session_guarded "check_domain L fqdns" for L fqdns
  by unfold_locales (simp add: check_domain_def with_session_refuses)

section \<open>What the commands return\<close>

lemma delete_domain_returns:
  assumes "delete_domain L fqdn session db = (Inr history_id, db')"
  shows "\<exists>zone now d r db1 db2 db3 db4 db5 db6 db7.
    Zone_find_zone_in_fqdn L (zone_rem_trailing_dot L fqdn) db = (Inr zone, db1) \<and>
    current_utc_time L db1 = (Inr now, db2) \<and>
    is_zone_accessible_by_registrar L (registrar_id session) (zone_id zone) (utc_to_local_date L now) db2 = (Inr True, db3) \<and>
    InfoDomainByFqdn L True fqdn db3 = (Inr d, db4) \<and>
    InfoRegistrarById L (registrar_id session) db4 = (Inr r, db5) \<and>
    (dom_sponsoring_registrar_handle d = registrar_handle r \<or> is_system r) \<and>
    (is_system r \<and> db6 = db5 \<or>
     (\<exists>states. GetObjectStates L (dom_id d) db5 = (Inr states, db6) \<and>
        (\<forall>s \<in> {Object_State_server_update_prohibited, Object_State_server_delete_prohibited,
               Object_State_delete_candidate}. \<not> ObjectStatesInfo_presents L states s))) \<and>
    DeleteDomainByFqdn L fqdn db6 = (Inr (), db7) \<and>
    (if dom_sponsoring_registrar_handle d = registrar_handle r then db' = db7
     else CreatePollMessage L delete_domain_message (dom_historyid d) db7 = (Inr (), db')) \<and>
    history_id = dom_historyid d"
proof -
  from assms obtain zone now d r db1 db2 db3 db4 db5 db6 db7 where
    "Zone_find_zone_in_fqdn L (zone_rem_trailing_dot L fqdn) db = (Inr zone, db1)"
    "current_utc_time L db1 = (Inr now, db2)"
    "is_zone_accessible_by_registrar L (registrar_id session) (zone_id zone) (utc_to_local_date L now) db2 = (Inr True, db3)"
    "InfoDomainByFqdn L True fqdn db3 = (Inr d, db4)"
    "InfoRegistrarById L (registrar_id session) db4 = (Inr r, db5)"
    "dom_sponsoring_registrar_handle d = registrar_handle r \<or> is_system r"
    and states: "whenE (\<not> is_system r)
       (bindE (GetObjectStates L (dom_id d)) (\<lambda>states.
        throw_if (ObjectStatesInfo_presents L states Object_State_server_update_prohibited \<or>
                  ObjectStatesInfo_presents L states Object_State_server_delete_prohibited \<or>
                  ObjectStatesInfo_presents L states Object_State_delete_candidate)
          (fail_with object_status_prohibits_operation) (returnE ()))) db5 = (Inr (), db6)"
    and "DeleteDomainByFqdn L fqdn db6 = (Inr (), db7)"
    and poll: "whenE (dom_sponsoring_registrar_handle d \<noteq> registrar_handle r)
       (CreatePollMessage L delete_domain_message (dom_historyid d)) db7 = (Inr (), db')" "history_id = dom_historyid d"
    unfolding delete_domain_def Let_def
    by (clarsimp simp: with_session_Inr bindE_Inr zone_of_object_Inr accessible_domain_Inr throw_if_Inr returnE_Inr)
  moreover have "is_system r \<and> db6 = db5 \<or>
     (\<exists>states. GetObjectStates L (dom_id d) db5 = (Inr states, db6) \<and>
        (\<forall>s \<in> {Object_State_server_update_prohibited, Object_State_server_delete_prohibited,
               Object_State_delete_candidate}. \<not> ObjectStatesInfo_presents L states s))"
    using states by (auto simp: op_inv split: if_splits)
  moreover have "if dom_sponsoring_registrar_handle d = registrar_handle r then db' = db7
     else CreatePollMessage L delete_domain_message (dom_historyid d) db7 = (Inr (), db')"
    using poll by (simp add: whenE_Inr split: if_splits)
  ultimately show ?thesis by blast
qed

lemma transfer_domain_returns:
  assumes "transfer_domain L fqdn pw session db = (Inr history_id, db')"
  shows "\<exists>zone now d r db1 db2 db3 db4 db5 db6 db7.
    current_utc_time L db = (Inr now, db1) \<and>
    Zone_find_zone_in_fqdn L (zone_rem_trailing_dot L fqdn) db1 = (Inr zone, db2) \<and>
    is_zone_accessible_by_registrar L (registrar_id session) (zone_id zone) (utc_to_local_date L now) db2 = (Inr True, db3) \<and>
    InfoDomainByFqdn L True fqdn db3 = (Inr d, db4) \<and>
    InfoRegistrarById L (registrar_id session) db4 = (Inr r, db5) \<and>
    dom_sponsoring_registrar_handle d \<noteq> registrar_handle r \<and>
    (is_system r \<and> db6 = db5 \<or>
     (\<exists>states. GetObjectStates L (dom_id d) db5 = (Inr states, db6) \<and>
        \<not> ObjectStatesInfo_presents L states Object_State_server_transfer_prohibited \<and>
        \<not> ObjectStatesInfo_presents L states Object_State_delete_candidate)) \<and>
    TransferDomain L (dom_id d) (registrar_handle r) pw (logd_request_id session) db6 = (Inr history_id, db7) \<and>
    CreatePollMessage L transfer_domain_message history_id db7 = (Inr (), db')"
proof -
  from assms obtain zone now d r db1 db2 db3 db4 db5 db6 db7 where
    "current_utc_time L db = (Inr now, db1)"
    "Zone_find_zone_in_fqdn L (zone_rem_trailing_dot L fqdn) db1 = (Inr zone, db2)"
    "is_zone_accessible_by_registrar L (registrar_id session) (zone_id zone) (utc_to_local_date L now) db2 = (Inr True, db3)"
    "InfoDomainByFqdn L True fqdn db3 = (Inr d, db4)"
    "InfoRegistrarById L (registrar_id session) db4 = (Inr r, db5)"
    "dom_sponsoring_registrar_handle d \<noteq> registrar_handle r"
    and states: "whenE (\<not> is_system r)
       (bindE (GetObjectStates L (dom_id d)) (\<lambda>states.
        throw_if (ObjectStatesInfo_presents L states Object_State_server_transfer_prohibited \<or>
                  ObjectStatesInfo_presents L states Object_State_delete_candidate)
          (fail_with object_status_prohibits_operation) (returnE ()))) db5 = (Inr (), db6)"
    and "TransferDomain L (dom_id d) (registrar_handle r) pw (logd_request_id session) db6 = (Inr history_id, db7)"
    "CreatePollMessage L transfer_domain_message history_id db7 = (Inr (), db')"
    unfolding transfer_domain_def Let_def
    by (clarsimp simp: with_session_Inr bindE_Inr zone_of_object_Inr accessible_domain_Inr throw_if_Inr returnE_Inr
        catchE_rethrows)
  moreover have "is_system r \<and> db6 = db5 \<or>
     (\<exists>states. GetObjectStates L (dom_id d) db5 = (Inr states, db6) \<and>
        \<not> ObjectStatesInfo_presents L states Object_State_server_transfer_prohibited \<and>
        \<not> ObjectStatesInfo_presents L states Object_State_delete_candidate)"
    using states by (auto simp: op_inv split: if_splits)
  ultimately show ?thesis by blast
qed

lemma info_domain_returns:
  assumes "info_domain L fqdn pw session db = (Inr out, db')"
  shows "\<exists>d states db1 db2.
    InfoDomainByFqdn L False fqdn db = (Inr d, db1) \<and>
    GetObjectStates L (dom_id d) db1 = (Inr states, db2) \<and>
    (password_value pw = [] \<and> db' = db2 \<or>
     (\<exists>n. CheckAuthinfo L (dom_id d) (password_value pw) db2 = (Inr n, db') \<and> 0 < n)) \<and>
    get_info_domain_output (object_state_from_db_handle L) d states = Inr out"
  using assms unfolding info_domain_def authorization_required_def
  by (auto simp: op_inv catchE_rethrows Let_def split: if_splits)

lemma get_info_domain_output_Inr:
  assumes "get_info_domain_output from_db_handle d states = Inr out"
  shows "domout_fqdn out = dom_fqdn d" and "domout_registrant out = dom_registrant d"
    and "domout_nsset out = dom_nsset d" and "domout_keyset out = dom_keyset d"
    and "domout_exdate out = dom_expiration_date d"
    and "domout_admin out = set (dom_admin_contacts d)"
    and "domout_states out = {v. \<exists>x \<in> set states. is_external x \<and>
      from_db_handle (state_name x) = Inr (domain_status_to_object_state v)}"
proof -
  have ins: "fold insert xs A = set xs \<union> A" for xs :: "string list" and A
    by (induction xs arbitrary: A) auto
  from assms obtain S where S: "external_states domain_status_of_object_state from_db_handle states {} = Inr S"
    by (auto simp: get_info_domain_output_def split: sum.splits)
  from assms show "domout_fqdn out = dom_fqdn d" "domout_registrant out = dom_registrant d"
    "domout_nsset out = dom_nsset d" "domout_keyset out = dom_keyset d" "domout_exdate out = dom_expiration_date d"
    "domout_admin out = set (dom_admin_contacts d)"
    unfolding get_info_domain_output_def S ins by auto
  have "domout_states out = S" using assms unfolding get_info_domain_output_def S by auto
  then show "domout_states out = {v. \<exists>x \<in> set states. is_external x \<and>
      from_db_handle (state_name x) = Inr (domain_status_to_object_state v)}"
    using external_states_Inr [OF S] by (auto simp: domain_status_roundtrip)
qed

text \<open>The answer of \<^verbatim>\<open>check_domain\<close>, for the requested names and no other.\<close>

definition domain_obstruction :: "domain_answers \<Rightarrow> string \<Rightarrow> DomainRegistrationObstruction option" where
  "domain_obstruction A fqdn =
     (case ans_registrability A fqdn False of
        domain_registered \<Rightarrow> Some Domain_registered
      | domain_blacklisted \<Rightarrow> Some Domain_blacklisted
      | domain_zone_not_in_registry \<Rightarrow> Some Domain_zone_not_in_registry
      | domain_available \<Rightarrow> if ans_syntax A fqdn False = syntax_valid then None else Some Domain_invalid_fqdn)"

lemma domain_obstruction_None_iff:
  "domain_obstruction A fqdn = None \<longleftrightarrow>
   ans_registrability A fqdn False = domain_available \<and> ans_syntax A fqdn False = syntax_valid"
  by (auto simp: domain_obstruction_def split: DomainRegistrability.split)

lemma domain_obstruction_reads:
  assumes "domain_queries L db A"
  shows "reads (domain_get_registration_obstruction_by_fqdn L fqdn) db (domain_obstruction A fqdn)"
  using domain_queriesD(2,3) [OF assms, of fqdn False]
  by (cases "ans_registrability A fqdn False"; cases "ans_syntax A fqdn False")
    (simp_all add: domain_get_registration_obstruction_by_fqdn_def domain_obstruction_def reads_def bindE_def returnE_def)

interpretation check_domain_loop: availability_loop "domain_get_registration_obstruction_by_fqdn L"
    "check_domain_loop L" for L
  by unfold_locales simp_all

lemma check_domain_run:
  assumes "domain_queries L db A" and "is_session_registrar_valid session"
  shows "\<exists>result. check_domain L fqdns session db = (Inr result, db) \<and>
    (\<forall>n. map_find string_less n result = (if n \<in> set fqdns then Some (domain_obstruction A n) else None))"
  using check_domain_loop.loop_run [OF domain_obstruction_reads [OF assms(1)], of fqdns "[]"]
  unfolding check_domain_def with_session_valid [OF assms(2)] map_find.simps .

lemma domain_obstruction_roundtrip:
  "domain_obstruction_from_reason r = Some v \<longleftrightarrow> r = domain_obstruction_to_reason v"
  by (cases r; cases v) (simp_all add: domain_obstruction_from_reason_def domain_obstruction_to_reason_def)

end
