(* ===== verification/Domain_Localized.thy ===== *)
theory Domain_Localized
  imports Domain_Commands
begin

text \<open>
  The localized entry points of the domain commands (\<^verbatim>\<open>domain/*_domain_localized.cc\<close>).
\<close>

section \<open>Commands that change the database\<close>

record CreateDomainLocalizedResponse =
  domain_create_response :: EppResponseSuccessLocalized
  domain_create_response_crtime :: ptime
  domain_create_response_exdate :: date

record RenewDomainLocalizedResponse =
  domain_renew_response :: EppResponseSuccessLocalized
  domain_renew_response_exdate :: date

definition create_domain_localized ::
  "('db, 'x) libfred_domain_scheme \<Rightarrow> ('db, 'y) database_scheme \<Rightarrow> ('db, 'dec, 'z) billing_scheme \<Rightarrow> CreateDomainInputData \<Rightarrow> bool \<Rightarrow> 
     SessionData \<Rightarrow>
     NotificationData \<Rightarrow> ('db, thrown, CreateDomainLocalizedResponse) op" where
  "create_domain_localized L D B data charging session notification_data =
     try_localized D (lang session) (with_context D (
       bindE (on_working (create_domain L B data charging session)) (\<lambda>result.
       bindE (on_working (response_success_localized D command_completed_successfully (lang session)))
         (\<lambda>response.
       bindE (commit D) (\<lambda>_.
       bindE (outside (conditionally_enqueue_notification L D notified_created (domain_create_history_id result)
                session notification_data)) (\<lambda>_.
       returnE \<lparr>domain_create_response = response, domain_create_response_crtime = domain_crtime result,
             domain_create_response_exdate = create_exdate result\<rparr>))))))"

interpretation create_domain_localized: localized_update D "lang session" "create_domain L B data charging session"
    "\<lambda>result. conditionally_enqueue_notification L D notified_created (domain_create_history_id result) session nd"
    "\<lambda>response result. \<lparr>domain_create_response = response, domain_create_response_crtime = domain_crtime result,
             domain_create_response_exdate = create_exdate result\<rparr>"
    "create_domain_localized L D B data charging session nd" for L D B data charging session nd
  by unfold_locales
    (simp_all only: create_domain_localized_def conditionally_enqueue_notification_returns)

definition renew_domain_localized ::
  "('db, 'x) libfred_domain_scheme \<Rightarrow> ('db, 'y) database_scheme \<Rightarrow> ('db, 'dec, 'z) billing_scheme \<Rightarrow> RenewDomainInputData \<Rightarrow> bool \<Rightarrow> 
     SessionData \<Rightarrow>
     NotificationData \<Rightarrow> ('db, thrown, RenewDomainLocalizedResponse) op" where
  "renew_domain_localized L D B data charging session notification_data =
     try_localized D (lang session) (with_context D (
       bindE (on_working (renew_domain L B data charging session)) (\<lambda>result.
       bindE (on_working (response_success_localized D command_completed_successfully (lang session)))
         (\<lambda>response.
       bindE (commit D) (\<lambda>_.
       bindE (outside (conditionally_enqueue_notification L D notified_renewed (renewed_domain_history_id result)
                session notification_data)) (\<lambda>_.
       returnE \<lparr>domain_renew_response = response, domain_renew_response_exdate = renew_exdate result\<rparr>))))))"

interpretation renew_domain_localized: localized_update D "lang session" "renew_domain L B data charging session"
    "\<lambda>result. conditionally_enqueue_notification L D notified_renewed (renewed_domain_history_id result) session nd"
    "\<lambda>response result. \<lparr>domain_renew_response = response, domain_renew_response_exdate = renew_exdate result\<rparr>"
    "renew_domain_localized L D B data charging session nd" for L D B data charging session nd
  by unfold_locales
    (simp_all only: renew_domain_localized_def conditionally_enqueue_notification_returns)

definition update_domain_localized ::
  "('db, 'x) libfred_domain_scheme \<Rightarrow> ('db, 'y) database_scheme \<Rightarrow> UpdateDomainInputData \<Rightarrow> UpdateDomainConfigData \<Rightarrow> SessionData \<Rightarrow>
     NotificationData \<Rightarrow> ('db, thrown, EppResponseSuccessLocalized) op" where
  "update_domain_localized L D data config session notification_data =
     try_localized D (lang session) (with_context D (
       bindE (on_working (update_domain L data config session)) (\<lambda>result.
       bindE (on_working (response_success_localized D command_completed_successfully (lang session)))
         (\<lambda>response.
       bindE (commit D) (\<lambda>_.
       bindE (outside (conditionally_enqueue_notification L D notified_updated result
                session notification_data)) (\<lambda>_.
       returnE response))))))"

interpretation update_domain_localized: localized_update D "lang session" "update_domain L data config session"
    "\<lambda>result. conditionally_enqueue_notification L D notified_updated result session nd"
    "\<lambda>response result. response"
    "update_domain_localized L D data config session nd" for L D data config session nd
  by unfold_locales
    (simp_all only: update_domain_localized_def conditionally_enqueue_notification_returns)

definition delete_domain_localized ::
  "('db, 'x) libfred_domain_scheme \<Rightarrow> ('db, 'y) database_scheme \<Rightarrow> string \<Rightarrow> SessionData \<Rightarrow>
     NotificationData \<Rightarrow> ('db, thrown, EppResponseSuccessLocalized) op" where
  "delete_domain_localized L D fqdn session notification_data =
     try_localized D (lang session) (with_context D (
       bindE (on_working (delete_domain L fqdn session)) (\<lambda>result.
       bindE (on_working (response_success_localized D command_completed_successfully (lang session)))
         (\<lambda>response.
       bindE (commit D) (\<lambda>_.
       bindE (outside (conditionally_enqueue_notification L D notified_deleted result
                session notification_data)) (\<lambda>_.
       returnE response))))))"

interpretation delete_domain_localized: localized_update D "lang session" "delete_domain L fqdn session"
    "\<lambda>result. conditionally_enqueue_notification L D notified_deleted result session nd"
    "\<lambda>response result. response"
    "delete_domain_localized L D fqdn session nd" for L D fqdn session nd
  by unfold_locales
    (simp_all only: delete_domain_localized_def conditionally_enqueue_notification_returns)

definition transfer_domain_localized ::
  "('db, 'x) libfred_domain_scheme \<Rightarrow> ('db, 'y) database_scheme \<Rightarrow> string \<Rightarrow> string \<Rightarrow> SessionData \<Rightarrow>
     NotificationData \<Rightarrow> ('db, thrown, EppResponseSuccessLocalized) op" where
  "transfer_domain_localized L D fqdn authinfopw session notification_data =
     try_localized D (lang session) (with_context D (
       bindE (on_working (transfer_domain L fqdn authinfopw session)) (\<lambda>result.
       bindE (on_working (response_success_localized D command_completed_successfully (lang session)))
         (\<lambda>response.
       bindE (commit D) (\<lambda>_.
       bindE (outside (conditionally_enqueue_notification L D notified_transferred result
                session notification_data)) (\<lambda>_.
       returnE response))))))"

interpretation transfer_domain_localized: localized_update D "lang session" "transfer_domain L fqdn authinfopw session"
    "\<lambda>result. conditionally_enqueue_notification L D notified_transferred result session nd"
    "\<lambda>response result. response"
    "transfer_domain_localized L D fqdn authinfopw session nd" for L D fqdn authinfopw session nd
  by unfold_locales
    (simp_all only: transfer_domain_localized_def conditionally_enqueue_notification_returns)

section \<open>Commands that answer\<close>

record InfoDomainLocalizedOutputData =
  domloc_roid :: string
  domloc_fqdn :: string
  domloc_registrant :: string
  domloc_nsset :: "string option"
  domloc_keyset :: "string option"
  domain_localized_external_states :: "DomainStatusValue ObjectStatesLocalized"
  domloc_sponsoring_registrar_handle :: string
  domloc_creating_registrar_handle :: string
  domloc_last_update_registrar_handle :: "string option"
  domloc_crdate :: ptime
  domloc_last_update :: "ptime option"
  domloc_last_transfer :: "ptime option"
  domloc_exdate :: date
  domloc_admin :: "string set"
  domloc_ext_enum_domain_validation :: "EnumValidationExtension option"
  domloc_tmpcontact :: "string set"

definition info_domain_localized ::
  "('db, 'x) libfred_domain_scheme \<Rightarrow> ('db, 'y) database_scheme \<Rightarrow> string \<Rightarrow> Password \<Rightarrow> SessionData \<Rightarrow>
     ('db, thrown, EppResponseSuccessLocalized \<times> InfoDomainLocalizedOutputData) op" where
  "info_domain_localized L D fqdn authinfopw session =
     try_localized D (lang session) (with_context D (
       bindE (on_working (info_domain L fqdn authinfopw session)) (\<lambda>data.
       bindE (on_working (localize_object_states D domain_status_to_object_state
                (filter (\<lambda>v. v \<in> domout_states data) domain_status_values) (lang session)))
         (\<lambda>states.
       let output = \<lparr>
             domloc_roid = domout_roid data,
             domloc_fqdn = domout_fqdn data,
             domloc_registrant = domout_registrant data,
             domloc_nsset = domout_nsset data,
             domloc_keyset = domout_keyset data,
             domain_localized_external_states = states,
             domloc_sponsoring_registrar_handle = domout_sponsoring_registrar_handle data,
             domloc_creating_registrar_handle = domout_creating_registrar_handle data,
             domloc_last_update_registrar_handle = domout_last_update_registrar_handle data,
             domloc_crdate = domout_crdate data,
             domloc_last_update = domout_last_update data,
             domloc_last_transfer = domout_last_transfer data,
             domloc_exdate = domout_exdate data,
             domloc_admin = domout_admin data,
             domloc_ext_enum_domain_validation = domout_ext_enum_domain_validation data,
             domloc_tmpcontact = domout_tmpcontact data\<rparr> in
       bindE (on_working (response_success_localized D command_completed_successfully (lang session)))
         (\<lambda>response.
       bindE (commit D) (\<lambda>_.
       returnE (response, output)))))))"

definition check_domain_localized ::
  "('db, 'x) libfred_domain_scheme \<Rightarrow> ('db, 'y) database_scheme \<Rightarrow> string list \<Rightarrow> SessionData \<Rightarrow>
     ('db, thrown, EppResponseSuccessLocalized \<times>
        (string \<times> (DomainRegistrationObstruction \<times> string) option) list) op" where
  "check_domain_localized L D fqdns session =
     try_localized D (lang session) (with_context D (
       bindE (on_working (check_domain L fqdns session)) (\<lambda>check_domain_results.
       bindE (on_working (response_success_localized D command_completed_successfully (lang session)))
         (\<lambda>response.
       bindE (on_working (localize_check_results D domain_obstruction_to_reason
                domain_obstruction_from_reason check_domain_results (lang session))) (\<lambda>results.
       returnE (response, results))))))"

end
