(* ===== verification/Domain_Sample.thy ===== *)
theory Domain_Sample
  imports Sample_Base Domain_Localized
begin

text \<open>
  The operations of LibFred on domains and the charging in the registry of \<open>Sample_Base\<close>, on
  which the witnesses of the domain properties run the commands.
\<close>

section \<open>The registry\<close>

text \<open>One zone for names and one for numbers; a month has 30 days and today is the day 0.\<close>

definition sample_zone :: "string \<Rightarrow> ZoneData option" where
  "sample_zone n =
     (if drop (length n - 3) n = ''.cz''
      then Some \<lparr>zone_id = 1, zone_is_enum = False, ex_period_min = 12, ex_period_max = 120, enum_validation_period = 0\<rparr>
      else if drop (length n - 5) n = ''.arpa''
      then Some \<lparr>zone_id = 2, zone_is_enum = True, ex_period_min = 12, ex_period_max = 120, enum_validation_period = 6\<rparr>
      else None)"

text \<open>The domain \<^verbatim>\<open>a.cz\<close> of the registrar 2 expires on the day 100.\<close>

definition sample_domain :: InfoDomainData where
  "sample_domain = \<lparr>dom_id = 5, dom_historyid = 50, dom_fqdn = ''a.cz'', dom_roid = ''D5'',
     dom_sponsoring_registrar_handle = ''REG-A'', dom_create_registrar_handle = ''REG-A'',
     dom_update_registrar_handle = None, dom_creation_time = 0, dom_update_time = None,
     dom_transfer_time = None, dom_expiration_date = 100, dom_registrant = ''C1'',
     dom_nsset = Some ''NS1'', dom_keyset = Some ''KS1'', dom_admin_contacts = [''C1''],
     dom_enum_domain_validation = None\<rparr>"

definition sample_domains :: "string \<Rightarrow> bool \<Rightarrow> DomainRegistrability" where
  "sample_domains n sys =
     (if n = ''a.cz'' then domain_registered
      else if n = ''bad.cz'' then (if sys then domain_available else domain_blacklisted)
      else if sample_zone n = None then domain_zone_not_in_registry
      else domain_available)"

definition sample_plus_months :: "date \<Rightarrow> u32 \<Rightarrow> date" where
  "sample_plus_months d n = d + 30 * uint n"

definition sample_exdates :: "date \<Rightarrow> u32 \<Rightarrow> date \<Rightarrow> u32 \<Rightarrow> date \<times> date" where
  "sample_exdates d n t m = (sample_plus_months d n, sample_plus_months t m)"

definition sample_set :: "string \<Rightarrow> string \<Rightarrow> Registrability" where
  "sample_set existing h = (if h = existing then registered else available)"

definition dsample :: "ObjectStateData list \<Rightarrow> changes libfred_domain" where
  "dsample st = \<lparr>
     InfoRegistrarById = (\<lambda>reg. returnE (sample_registrar reg)),
     LockObjectStateRequestLock = (\<lambda>_. returnE ()),
     PerformObjectStateRequest = (\<lambda>_. returnE ()),
     GetObjectStates = (\<lambda>_. returnE st),
     ObjectStatesInfo_presents = (\<lambda>ds s. list_ex (\<lambda>d. sample_from_db_handle (state_name d) = Inr s) ds),
     object_state_from_db_handle = sample_from_db_handle,
     CheckAuthinfo = (\<lambda>_ pw. returnE (if pw = ''secret'' then 1 else 0)),
     Contact_get_handle_registrability = (\<lambda>h. returnE (sample_contacts h)),
     CreatePollMessage = (\<lambda>_ _. change ''poll'' ()),
     get_domain_registrability_by_domain_fqdn = (\<lambda>n sys. returnE (sample_domains n sys)),
     get_domain_fqdn_syntax_validity = (\<lambda>n sys. returnE (sample_syntax n)),
     zone_rem_trailing_dot = (\<lambda>n. if n \<noteq> [] \<and> last n = CHR ''.'' then butlast n else n),
     Zone_find_zone_in_fqdn = (\<lambda>n. case sample_zone n of
        None \<Rightarrow> throwE (LibfredException (ZoneException (Some n))) | Some z \<Rightarrow> returnE z),
     is_zone_accessible_by_registrar = (\<lambda>_ _ _. returnE True),
     nsset_handle_registrability = (\<lambda>h. returnE (sample_set ''NS1'' h)),
     keyset_handle_registrability = (\<lambda>h. returnE (sample_set ''KS1'' h)),
     current_utc_time = returnE 0,
     utc_to_local_date = (\<lambda>t. t),
     date_is_special = (\<lambda>_. False),
     ptime_is_special = (\<lambda>_. False),
     from_simple_string = (\<lambda>s. if s = ''100'' then Inr 100 else Inl (StdException ''bad date'')),
     select_continuation_begin = (\<lambda>d. returnE (d - 14)),
     select_plus_months = (\<lambda>d n. returnE (sample_plus_months d n)),
     select_exdates = (\<lambda>d n t m. returnE (sample_exdates d n t m)),
     InfoDomainByFqdn = (\<lambda>lock n. if n = ''a.cz'' then returnE sample_domain
        else throwE (LibfredException (InfoDomainByFqdnException True))),
     CreateDomain = (\<lambda>n reg registrant nsset keyset admins exdate valex publish log.
        change (''create '' @ n) (6, 60, 0)),
     RenewDomain = (\<lambda>n reg exdate valex publish log. change (''renew '' @ n) 51),
     UpdateDomain = (\<lambda>n reg registrant pw nsset keyset add rem valex publish log.
        change (''update '' @ n) (if keyset = Some None then 53 else 52)),
     DeleteDomainByFqdn = (\<lambda>n. change (''delete '' @ n) ()),
     TransferDomain = (\<lambda>i reg pw log. if pw = ''secret'' then change ''transfer'' 54
        else throwE (LibfredException IncorrectAuthInfoPw))\<rparr>"

definition sample_answers :: domain_answers where
  "sample_answers = \<lparr>
     ans_registrar = sample_registrar, ans_registrability = sample_domains,
     ans_syntax = (\<lambda>n _. sample_syntax n), ans_zone = sample_zone, ans_accessible = (\<lambda>_ _ _. True),
     ans_contacts = sample_contacts, ans_nssets = sample_set ''NS1'', ans_keysets = sample_set ''KS1'',
     ans_now = 0, ans_window_begin = (\<lambda>d. d - 14), ans_plus_months = sample_plus_months\<rparr>"

definition sample_objects :: "ObjectStateData list \<Rightarrow> domain_objects" where
  "sample_objects st = \<lparr>
     ans_domain = (\<lambda>n. if n = ''a.cz'' then Some sample_domain else None), ans_states = (\<lambda>_. st)\<rparr>"

lemma dsample_queries: "domain_queries (dsample st) db sample_answers"
  by (simp add: domain_queries_def dsample_def sample_answers_def reads_def returnE_def throwE_def split: option.split)

lemma dsample_objects: "object_queries (dsample st) db (sample_objects st)"
  by (simp add: object_queries_def dsample_def sample_objects_def reads_def returnE_def throwE_def)

lemma dsample_exdates: "reads (select_exdates (dsample st) d n t m) db (sample_exdates d n t m)"
  by (simp add: dsample_def reads_def returnE_def)

section \<open>Charging\<close>

text \<open>
  Integers for decimal numbers; a creation is free, a year of registration costs 10, and the
  credit of every registrar is 15.
\<close>

definition sample_decimal :: "string \<Rightarrow> exn + int" where
  "sample_decimal s =
     (if s = ''0'' then Inr 0 else if s = ''1'' then Inr 1 else if s = ''2'' then Inr 2
      else if s = ''10'' then Inr 10 else if s = ''15'' then Inr 15
      else Inl (StdException ''not a decimal number''))"

definition bsample :: "(changes, int) billing" where
  "bsample = \<lparr>
     Decimal = sample_decimal,
     dec_times = (\<lambda>a b. Inr (a * b)),
     dec_divide = (\<lambda>a b. Inr (a div b)),
     dec_minus = (\<lambda>a b. Inr (a - b)),
     dec_eq = (=),
     dec_less = (<),
     select_price_list = (\<lambda>t z n. returnE [\<lparr>enable_postpaid_operation = False, operation_id = 1,
        price_list_price = (if n = ''RenewDomain'' then ''10'' else ''0''), price_list_quantity = ''1''\<rparr>]),
     select_registrar_credit = (\<lambda>reg z. returnE [\<lparr>credit_registrar_handle = ''REG-A'',
        credit_zone_fqdn = Some ''cz'', registrar_credit = Some ''15''\<rparr>]),
     CreateRegistrarCreditTransaction = (\<lambda>h z amount. change ''debt'' 7),
     insert_invoice_operation = (\<lambda>obj reg op z count from till tr. change (''charge '' @ count) ())\<rparr>"

section \<open>The commands on the sample\<close>

definition sample_period :: "32 word \<Rightarrow> DomainRegistrationTime" where
  "sample_period n = \<lparr>length_of_domain_registration = n, unit_of_domain_registration_time = Unit_year\<rparr>"

definition sample_domain_create :: "string \<Rightarrow> 32 word \<Rightarrow> CreateDomainInputData" where
  "sample_domain_create n years = \<lparr>create_fqdn = n, create_registrant = ''C1'', create_nsset_handle = ''NS1'',
     create_keyset_handle = [], create_period = sample_period years, create_admin_contacts = [''C1'', ''C2''],
     create_enum_validation_extension = None\<rparr>"

definition sample_domain_renew :: "32 word \<Rightarrow> RenewDomainInputData" where
  "sample_domain_renew years = \<lparr>renew_fqdn = ''a.cz'', renew_current_exdate = ''100'',
     renew_period = sample_period years, renew_enum_validation_extension = None\<rparr>"

definition sample_domain_update :: "string option option \<Rightarrow> UpdateDomainInputData" where
  "sample_domain_update nsset = \<lparr>update_fqdn = ''a.cz'', registrant_chg = None, authinfopw_chg = None,
     nsset_chg = nsset, keyset_chg = None, admin_contacts_add = [''C2''], admin_contacts_rem = [''C1''],
     tmpcontacts_rem = [], update_enum_validation = None\<rparr>"

definition sample_update_domain_config :: UpdateDomainConfigData where
  "sample_update_domain_config = \<lparr>upd_domain_operations_charging = False, rifd_epp_update_domain_keyset_clear = True\<rparr>"

lemmas dsample_run = dsample_def bsample_def sample_session_def sample_registrar_def sample_domain_def change_def
  op_simps Let_def is_system_def is_session_registrar_valid_def

lemma sample_domain_names:
  "sample_contacts ''C1'' = registered" "sample_contacts ''C2'' = registered"
  "to_upper_copy ''C1'' = ''C1''" "to_upper_copy ''C2'' = ''C2''" "to_upper_copy ''NS1'' = ''NS1''"
  "sample_zone ''b.cz'' = Some \<lparr>zone_id = 1, zone_is_enum = False, ex_period_min = 12, ex_period_max = 120,
     enum_validation_period = 0\<rparr>"
  "sample_zone ''a.cz'' = Some \<lparr>zone_id = 1, zone_is_enum = False, ex_period_min = 12, ex_period_max = 120,
     enum_validation_period = 0\<rparr>"
  by code_simp+

lemma sample_create_verdict:
  "create_domain_verdict (dsample st) sample_answers (sample_domain_create ''b.cz'' 1) (sample_session 2) =
     Inr (\<lparr>zone_id = 1, zone_is_enum = False, ex_period_min = 12, ex_period_max = 120, enum_validation_period = 0\<rparr>, 12)"
  unfolding create_domain_verdict_Inr
  by (simp add: sample_answers_def sample_domain_create_def sample_session_def dsample_def Let_def sample_domain_names
      sample_domains_def sample_syntax_def missing_def sample_set_def registration_period_ok_def sample_period_def
      get_length_of_domain_registration_in_months_def registration_months_def)

lemma sample_charge_create:
  "create_domain_bill_item (dsample st) bsample ''b.cz'' 0 2 6 db = (Inr (), ''charge 1'' # ''debt'' # db)"
  by (simp add: create_domain_bill_item_def charge_operation_def operation_price_def sufficient_credit_def
      record_debt_def dsample_run sample_domain_names sample_decimal_def)

lemma int_to_string_years: "int_to_string (int_quot 12 12) = ''1''" "int_to_string (int_quot 24 12) = ''2''"
  by code_simp+

lemma sample_charge_renew:
  assumes "n \<in> {''a.cz'', ''b.cz''}"
  shows "renew_domain_bill_item (dsample st) bsample n 0 2 i 12 from till db = (Inr (), ''charge 1'' # ''debt'' # db)"
    and "renew_domain_bill_item (dsample st) bsample n 0 2 i 24 from till db = (Inl BillingFailure, db)"
  using assms
  by (auto simp: renew_domain_bill_item_def charge_operation_def operation_price_def sufficient_credit_def
      record_debt_def dsample_run sample_domain_names sample_decimal_def int_to_string_years)

lemma sample_domain_create_run:
  "create_domain (dsample st) bsample (sample_domain_create ''b.cz'' 1) True (sample_session 2) db =
     (Inr \<lparr>created_domain_id = 6, domain_create_history_id = 60, domain_crtime = 0, create_old_exdate = 0,
           create_exdate = 360, create_length_in_months = 12\<rparr>,
      ''charge 1'' # ''debt'' # ''charge 1'' # ''debt'' # ''create b.cz'' # db)"
  using create_domain_by_verdict [OF dsample_queries sample_session_valid(2),
      of "sample_domain_create ''b.cz'' 1" st bsample True db] sample_charge_create sample_charge_renew(1)
  unfolding sample_create_verdict
  by (simp add: domain_creation_def sample_domain_create_def sample_answers_def dsample_run sample_plus_months_def)

lemma sample_renew_verdict:
  "renew_domain_verdict (dsample []) sample_answers (sample_objects []) sample_exdates (sample_domain_renew 1) (sample_session 2) =
     Inr (\<lparr>zone_id = 1, zone_is_enum = False, ex_period_min = 12, ex_period_max = 120, enum_validation_period = 0\<rparr>,
       sample_domain, 460)"
proof -
  have "renew_found_verdict (dsample []) sample_answers (sample_objects []) sample_exdates (sample_domain_renew 1)
      (sample_session 2)
      \<lparr>zone_id = 1, zone_is_enum = False, ex_period_min = 12, ex_period_max = 120, enum_validation_period = 0\<rparr>
      sample_domain = Inr 460"
    unfolding renew_found_verdict_Inr
    by (simp add: sample_answers_def sample_objects_def sample_domain_renew_def dsample_run sample_exdates_def
        sample_plus_months_def renew_months_def registration_period_ok_def sample_period_def
        get_length_of_domain_registration_in_months_def registration_months_def enum_extension_ok_def)
  then show ?thesis
    by (simp add: renew_domain_verdict_def accessible_domain_answer_def sample_answers_def sample_objects_def
        sample_domain_renew_def dsample_def sample_session_valid sample_domain_names)
qed

lemma sample_renew_run:
  "renew_domain (dsample []) bsample (sample_domain_renew 1) True (sample_session 2) db =
     (Inr \<lparr>renewed_domain_id = 5, renewed_domain_history_id = 51, renew_time = 0, renew_old_exdate = 100,
           renew_exdate = 460, renew_length_in_months = 12\<rparr>, ''charge 1'' # ''debt'' # ''renew a.cz'' # db)"
  using renew_domain_by_verdict [OF dsample_queries dsample_objects dsample_exdates,
      of "[]" bsample "sample_domain_renew 1" True "sample_session 2" db]
    sample_charge_renew(1) [of "''a.cz''"]
  unfolding sample_renew_verdict
  by (simp add: domain_renewal_def dsample_run sample_domain_renew_def sample_answers_def renew_months_def
      sample_period_def get_length_of_domain_registration_in_months_def registration_months_def)

lemma sample_update_verdict:
  "update_domain_verdict (dsample []) sample_answers (sample_objects []) (sample_domain_update None) (sample_session 2) =
     Inr (\<lparr>zone_id = 1, zone_is_enum = False, ex_period_min = 12, ex_period_max = 120, enum_validation_period = 0\<rparr>,
       sample_domain)"
proof -
  have "update_domain_errors sample_answers (sample_domain_update None)
      \<lparr>zone_id = 1, zone_is_enum = False, ex_period_min = 12, ex_period_max = 120, enum_validation_period = 0\<rparr>
      sample_domain = {}"
    unfolding update_domain_errors_def update_reference_errors_def Un_empty admin_change_errors_empty scalar_if_empty
    by (simp add: sample_domain_update_def sample_answers_def sample_domain_names matches_handle_def sample_domain_def)
  then show ?thesis
    by (simp add: update_domain_verdict_def update_found_verdict_def accessible_domain_answer_def sample_answers_def
        sample_objects_def sample_domain_update_def dsample_run sample_domain_names)
qed

lemma sample_domain_update_run:
  "update_domain (dsample []) (sample_domain_update None) sample_update_domain_config (sample_session 2) db =
     (Inr 52, ''update a.cz'' # db)"
  using update_domain_by_verdict [OF dsample_queries dsample_objects,
      of "[]" "sample_domain_update None" sample_update_domain_config "sample_session 2" db]
  unfolding sample_update_verdict
  by (simp add: domain_modification_def effective_keyset_chg_def change_nsset_to_different_handle_requested_def
      sample_domain_update_def sample_answers_def dsample_run)

lemma sample_domain_delete_run:
  "delete_domain (dsample []) ''a.cz'' (sample_session 1) db = (Inr 50, ''poll'' # ''delete a.cz'' # db)"
  by (simp add: delete_domain_def zone_of_object_def accessible_domain_def locked_domain_def sample_domain_names dsample_run)

lemma sample_domain_transfer_run:
  "transfer_domain (dsample []) ''a.cz'' ''secret'' (sample_session 3) db = (Inr 54, ''poll'' # ''transfer'' # db)"
  by (simp add: transfer_domain_def zone_of_object_def accessible_domain_def locked_domain_def sample_domain_names dsample_run)

lemma sample_domain_transfer_refused:
  "transfer_domain (dsample []) ''a.cz'' ''wrong'' (sample_session 3) db =
     (Inl (EppFailure [result_failure invalid_authorization_information]), db)"
  by (simp add: transfer_domain_def zone_of_object_def accessible_domain_def locked_domain_def sample_domain_names dsample_run
      translate_transfer_domain_def epp_failure_def response_failure_def)

end
