(* ===== verification/Domain_Properties.thy ===== *)
theory Domain_Properties
  imports Domain_Sample
begin

text \<open>
  The properties of the domain component: what each command decides, whom it admits, what it
  charges and what it reports. The witnesses run the commands on the registry of
  \<open>Domain_Sample\<close>.
\<close>

section \<open>Creation\<close>

text \<open>C8: as long as the positions of the administrative contacts fit their 16 bits,
  \<^verbatim>\<open>create_domain\<close> either throws exactly what \<open>create_domain_verdict\<close> says and leaves the
  database as it is, or does exactly the creation in the zone and for the months of the verdict.\<close>

theorem create_domain_outcome:
  assumes "domain_queries L db A" and "is_session_registrar_valid session"
    and "length (create_admin_contacts data) \<le> 2 ^ 16"
  shows "create_domain L B data charging session db =
    (case create_domain_verdict L A data session of
       Inl e \<Rightarrow> (Inl e, db)
     | Inr (zone, months) \<Rightarrow>
         domain_creation L B data charging session (ans_registrar A (registrar_id session)) zone
           (utc_to_local_date L (ans_now A)) months db)"
  using assms by (rule create_domain_by_verdict)

theorem create_domain_outcome_witness:
  "create_domain (dsample []) bsample (sample_domain_create ''a.cz'' 1) True (sample_session 2) [] =
     (Inl (fail_with object_exists), [])"
  using create_domain_outcome [OF dsample_queries sample_session_valid(2),
      of "sample_domain_create ''a.cz'' 1" "[]" bsample True "[]"]
  by (simp add: sample_domain_create_def create_domain_verdict_def sample_answers_def sample_domains_def sample_syntax_def)

text \<open>C9: a domain is created only under an available name of valid syntax in a zone open to the
  registrar, with registered contacts that differ without regard to case, with a set of name
  servers and of keys that exist when they are given, for a number of months within the limits of
  the zone and a multiple of the least one, and with the validation data an ENUM zone asks for and
  no other zone accepts; what was created is exactly that, and when charging applies both bill
  items have been charged.\<close>

theorem create_domain_sound:
  assumes "domain_queries L db A" and "length (create_admin_contacts data) \<le> 2 ^ 16"
    and "create_domain L B data charging session db = (Inr res, db')"
  shows "\<exists>zone months exdate db1.
    ans_zone A (zone_rem_trailing_dot L (create_fqdn data)) = Some zone \<and>
    ans_registrability A (create_fqdn data) (is_system (ans_registrar A (registrar_id session))) = domain_available \<and>
    ans_accessible A (registrar_id session) (zone_id zone) (utc_to_local_date L (ans_now A)) \<and>
    ans_contacts A (create_registrant data) = registered \<and>
    (\<forall>h \<in> set (create_admin_contacts data). ans_contacts A h = registered) \<and>
    distinct (map to_upper_copy (create_admin_contacts data)) \<and>
    \<not> missing (ans_nssets A) (create_nsset_handle data) \<and> \<not> missing (ans_keysets A) (create_keyset_handle data) \<and>
    ex_period_min zone \<le> months \<and> months \<le> ex_period_max zone \<and> months mod ex_period_min zone = 0 \<and>
    (zone_is_enum zone \<longleftrightarrow> create_enum_validation_extension data \<noteq> None) \<and>
    exdate = ans_plus_months A (utc_to_local_date L (ans_now A)) months \<and>
    CreateDomain L (create_fqdn data) (registrar_handle (ans_registrar A (registrar_id session)))
      (create_registrant data)
      (if create_nsset_handle data = [] then None else Some (create_nsset_handle data))
      (if create_keyset_handle data = [] then None else Some (create_keyset_handle data))
      (create_admin_contacts data) exdate
      (if zone_is_enum zone then Some (get_valexdate (the (create_enum_validation_extension data))) else None)
      (if zone_is_enum zone then Some (get_publish (the (create_enum_validation_extension data))) else None)
      (logd_request_id session) db =
      (Inr (created_domain_id res, domain_create_history_id res, domain_crtime res), db1) \<and>
    create_exdate res = exdate \<and> create_length_in_months res = months \<and>
    (if charging \<and> \<not> is_system (ans_registrar A (registrar_id session)) \<and>
        \<not> registrar_is_internal (ans_registrar A (registrar_id session))
     then \<exists>db2. create_domain_bill_item L B (create_fqdn data) (domain_crtime res) (registrar_id session)
              (created_domain_id res) db1 = (Inr (), db2) \<and>
            renew_domain_bill_item L B (create_fqdn data) (domain_crtime res) (registrar_id session)
              (created_domain_id res) months (utc_to_local_date L (ans_now A)) exdate db2 = (Inr (), db')
     else db' = db1)"
proof -
  have "registrar_id session \<noteq> 0" using create_domain.success_has_session [OF assms(3)] .
  then have s: "is_session_registrar_valid session" by (simp add: is_session_registrar_valid_def)
  let ?r = "ans_registrar A (registrar_id session)" and ?today = "utc_to_local_date L (ans_now A)"
  obtain zone months where v: "create_domain_verdict L A data session = Inr (zone, months)"
    and c: "domain_creation L B data charging session ?r zone ?today months db = (Inr res, db')"
    using create_domain_by_verdict [OF assms(1) s assms(2), of B charging] assms(3) by (auto split: sum.splits)
  from v have ok: "ans_zone A (zone_rem_trailing_dot L (create_fqdn data)) = Some zone"
      "ans_registrability A (create_fqdn data) (is_system ?r) = domain_available"
      "ans_accessible A (registrar_id session) (zone_id zone) ?today"
      "ans_contacts A (create_registrant data) = registered"
      "\<forall>h \<in> set (create_admin_contacts data). ans_contacts A h = registered"
      "distinct (map to_upper_copy (create_admin_contacts data))"
      "\<not> missing (ans_nssets A) (create_nsset_handle data)" "\<not> missing (ans_keysets A) (create_keyset_handle data)"
      "ex_period_min zone \<le> months" "months \<le> ex_period_max zone" "months mod ex_period_min zone = 0"
      "zone_is_enum zone \<longleftrightarrow> create_enum_validation_extension data \<noteq> None"
    unfolding create_domain_verdict_Inr Let_def registration_period_ok_def by blast+
  have plus: "select_plus_months L ?today months db = (Inr (ans_plus_months A ?today months), db)"
    using domain_queriesD(11) [OF assms(1)] by (simp add: reads_def)
  show ?thesis
    using ok c unfolding domain_creation_def catchE_rethrows [OF rethrows_translate_billing_failure]
    by (intro exI [of _ zone] exI [of _ months] exI [of _ "ans_plus_months A ?today months"])
      (auto simp: op_inv plus simp del: split_paired_Ex split: if_splits)
qed

theorem create_domain_sound_witness:
  "\<exists>zone. sample_zone ''b.cz'' = Some zone \<and> ex_period_min zone \<le> 12 \<and> (12 :: u32) \<le> ex_period_max zone"
  using create_domain_sound [OF dsample_queries _ sample_domain_create_run [of "[]" "[]"]]
  by (auto simp: sample_domain_create_def sample_answers_def sample_domain_names)

section \<open>Renewal\<close>

text \<open>C10: \<^verbatim>\<open>renew_domain\<close> either throws exactly what \<open>renew_domain_verdict\<close> says and leaves
  the database as it is, or does exactly the renewal of the domain found, in its zone and to the
  expiration date of the verdict.\<close>

theorem renew_domain_outcome:
  assumes "domain_queries L db A" and "object_queries L db Q"
    and "\<And>d n t m. reads (select_exdates L d n t m) db (exdates d n t m)"
  shows "renew_domain L B data charging session db =
    (case renew_domain_verdict L A Q exdates data session of
       Inl e \<Rightarrow> (Inl e, db)
     | Inr (zone, d, new_exdate) \<Rightarrow>
         domain_renewal L B data charging session (ans_registrar A (registrar_id session)) zone d
           (ans_now A) (renew_months data zone) new_exdate db)"
  using assms by (rule renew_domain_by_verdict)

theorem renew_domain_outcome_witness:
  "renew_domain (dsample []) bsample (sample_domain_renew 1) True (sample_session 3) [] =
     (Inl (fail_with authorization_error), [])"
proof -
  have "renew_found_verdict (dsample []) sample_answers (sample_objects []) sample_exdates (sample_domain_renew 1)
      (sample_session 3)
      \<lparr>zone_id = 1, zone_is_enum = False, ex_period_min = 12, ex_period_max = 120, enum_validation_period = 0\<rparr>
      sample_domain = Inl (fail_with authorization_error)"
    by (simp add: renew_found_verdict_def sample_answers_def sample_objects_def sample_domain_renew_def dsample_run
        renew_months_def sample_period_def get_length_of_domain_registration_in_months_def registration_months_def)
  then have "renew_domain_verdict (dsample []) sample_answers (sample_objects []) sample_exdates (sample_domain_renew 1)
      (sample_session 3) = Inl (fail_with authorization_error)"
    by (simp add: renew_domain_verdict_def accessible_domain_answer_def sample_answers_def sample_objects_def
        sample_domain_renew_def dsample_def sample_session_valid sample_domain_names)
  then show ?thesis
    using renew_domain_outcome [OF dsample_queries dsample_objects dsample_exdates, of "[]" bsample
        "sample_domain_renew 1" True "sample_session 3" "[]"]
    by simp
qed

text \<open>A domain is renewed only by its registrar or a system registrar, who must give its
  current expiration date, for a number of months within the limits of the zone and a multiple of
  the least one, never beyond the longest registration counted from today, and for an ordinary
  registrar never while a state prohibits it; the new date is the one LibFred is told.\<close>

lemma renew_domain_sound:
  assumes "domain_queries L db A" and "object_queries L db Q"
    and "\<And>d n t m. reads (select_exdates L d n t m) db (exdates d n t m)"
    and "renew_domain L B data charging session db = (Inr res, db')"
  shows "\<exists>zone d months db1.
    ans_zone A (zone_rem_trailing_dot L (renew_fqdn data)) = Some zone \<and>
    ans_domain Q (renew_fqdn data) = Some d \<and>
    from_simple_string L (renew_current_exdate data) = Inr (dom_expiration_date d) \<and>
    (dom_sponsoring_registrar_handle d = registrar_handle (ans_registrar A (registrar_id session)) \<or>
     is_system (ans_registrar A (registrar_id session))) \<and>
    (is_system (ans_registrar A (registrar_id session)) \<or>
     \<not> ObjectStatesInfo_presents L (ans_states Q (dom_id d)) Object_State_server_renew_prohibited \<and>
     \<not> ObjectStatesInfo_presents L (ans_states Q (dom_id d)) Object_State_delete_candidate) \<and>
    ex_period_min zone \<le> months \<and> months \<le> ex_period_max zone \<and> months mod ex_period_min zone = 0 \<and>
    renew_exdate res =
      fst (exdates (dom_expiration_date d) months (utc_to_local_date L (ans_now A)) (ex_period_max zone)) \<and>
    renew_exdate res \<le>
      snd (exdates (dom_expiration_date d) months (utc_to_local_date L (ans_now A)) (ex_period_max zone)) \<and>
    renew_old_exdate res = dom_expiration_date d \<and> renew_length_in_months res = months \<and>
    RenewDomain L (renew_fqdn data) (registrar_handle (ans_registrar A (registrar_id session))) (renew_exdate res)
      (if zone_is_enum zone then map_option get_valexdate (renew_enum_validation_extension data) else None)
      (if zone_is_enum zone then map_option get_publish (renew_enum_validation_extension data) else None)
      (logd_request_id session) db = (Inr (renewed_domain_history_id res), db1)"
proof -
  obtain zone d e where v: "renew_domain_verdict L A Q exdates data session = Inr (zone, d, e)"
    and c: "domain_renewal L B data charging session (ans_registrar A (registrar_id session)) zone d
      (ans_now A) (renew_months data zone) e db = (Inr res, db')"
    using renew_domain_by_verdict [OF assms(1-3), of B data charging session] assms(4) by (auto split: sum.splits)
  from v have z: "ans_zone A (zone_rem_trailing_dot L (renew_fqdn data)) = Some zone"
    and d: "accessible_domain_answer A Q (renew_fqdn data) session zone (utc_to_local_date L (ans_now A)) = Inr d"
    and f: "renew_found_verdict L A Q exdates data session zone d = Inr e"
    unfolding renew_domain_verdict_def by (auto split: if_splits option.splits sum.splits)
  from d have found: "ans_domain Q (renew_fqdn data) = Some d"
    unfolding accessible_domain_answer_def by (auto split: if_splits option.splits)
  obtain history db1 where ren: "RenewDomain L (renew_fqdn data) (registrar_handle (ans_registrar A (registrar_id session))) e
      (if zone_is_enum zone then map_option get_valexdate (renew_enum_validation_extension data) else None)
      (if zone_is_enum zone then map_option get_publish (renew_enum_validation_extension data) else None)
      (logd_request_id session) db = (Inr history, db1)"
    and res: "renewed_domain_history_id res = history" "renew_old_exdate res = dom_expiration_date d"
      "renew_exdate res = e" "renew_length_in_months res = renew_months data zone"
    using c unfolding domain_renewal_returns by auto
  note ok = f [unfolded renew_found_verdict_Inr Let_def registration_period_ok_def]
  show ?thesis
    unfolding res
    by (intro exI [of _ zone] exI [of _ d] exI [of _ "renew_months data zone"] exI [of _ db1] conjI)
      (use ok found z ren in \<open>blast+\<close>)
qed

section \<open>Update\<close>

text \<open>C11: \<^verbatim>\<open>update_domain\<close> either throws exactly what \<open>update_domain_verdict\<close> says and
  leaves the database as it is, or does exactly the modification of the domain found; the verdict
  refuses, in this order, a wrong validation date, a registrar who is neither the sponsoring nor a
  system one, a prohibiting state, and then all other errors together.\<close>

theorem update_domain_outcome:
  assumes "domain_queries L db A" and "object_queries L db Q"
  shows "update_domain L data config session db =
    (case update_domain_verdict L A Q data session of
       Inl e \<Rightarrow> (Inl e, db)
     | Inr (zone, d) \<Rightarrow>
         domain_modification L data config session (ans_registrar A (registrar_id session)) zone d db)"
  using assms by (rule update_domain_by_verdict)

theorem update_domain_outcome_witness:
  "update_domain (dsample []) (sample_domain_update None) sample_update_domain_config (sample_session 2) [] =
     (Inr 52, [''update a.cz''])"
  using update_domain_outcome [OF dsample_queries dsample_objects, of "[]" "sample_domain_update None"
      sample_update_domain_config "sample_session 2" "[]"] sample_domain_update_run [of "[]"]
  by simp

text \<open>When the configuration asks for it, a change to a different set of name servers without
  a change of the keys removes the keys of the domain; in every other case LibFred gets the change
  of the keys the client asked for. A registrar other than the sponsoring one leaves a poll message
  about the update.\<close>

lemma update_domain_keyset_cleared:
  assumes "domain_queries L db A" and "object_queries L db Q"
    and "update_domain L data config session db = (Inr history_id, db')"
  shows "\<exists>d zone db1. ans_domain Q (update_fqdn data) = Some d \<and>
    ans_zone A (zone_rem_trailing_dot L (update_fqdn data)) = Some zone \<and>
    UpdateDomain L (update_fqdn data) (registrar_handle (ans_registrar A (registrar_id session)))
      (registrant_chg data) (authinfopw_chg data) (nsset_chg data)
      (if rifd_epp_update_domain_keyset_clear config \<and> keyset_chg data = None \<and>
          (\<exists>h. nsset_chg data = Some (Some h) \<and> dom_nsset d \<noteq> Some (to_upper_copy h))
       then Some None else keyset_chg data)
      (admin_contacts_add data) (admin_contacts_rem data)
      (if zone_is_enum zone then map_option get_valexdate (update_enum_validation data) else None)
      (if zone_is_enum zone then map_option get_publish (update_enum_validation data) else None)
      (logd_request_id session) db = (Inr history_id, db1) \<and>
    (if dom_sponsoring_registrar_handle d = registrar_handle (ans_registrar A (registrar_id session)) then db' = db1
     else CreatePollMessage L update_domain_message history_id db1 = (Inr (), db'))"
proof -
  let ?r = "ans_registrar A (registrar_id session)"
  obtain zone d where v: "update_domain_verdict L A Q data session = Inr (zone, d)"
    and c: "domain_modification L data config session ?r zone d db = (Inr history_id, db')"
    using update_domain_by_verdict [OF assms(1,2), of data config session] assms(3) by (auto split: sum.splits)
  from v have "ans_domain Q (update_fqdn data) = Some d"
      "ans_zone A (zone_rem_trailing_dot L (update_fqdn data)) = Some zone"
    unfolding update_domain_verdict_def accessible_domain_answer_def
    by (auto split: if_splits option.splits sum.splits)
  moreover have "effective_keyset_chg data config d =
      (if rifd_epp_update_domain_keyset_clear config \<and> keyset_chg data = None \<and>
          (\<exists>h. nsset_chg data = Some (Some h) \<and> dom_nsset d \<noteq> Some (to_upper_copy h))
       then Some None else keyset_chg data)"
    by (auto simp: effective_keyset_chg_def change_nsset_to_different_handle_requested_def split: option.splits)
  ultimately show ?thesis
    using c unfolding domain_modification_def catchE_rethrows [OF rethrows_translate_update_domain]
    by (intro exI [of _ d] exI [of _ zone]) (auto simp: op_inv split: if_splits)
qed

section \<open>Charging\<close>

text \<open>C12: charging an operation finds exactly one price and one account, computes the price of the
  given number of units, and only if the price is nothing, the account covers it or the operation
  is postpaid records a debt of exactly that price and the operation it was for.\<close>

theorem operation_charged:
  assumes "charge_operation B operation timestamp zone count registrar object date_from date_to db = (Inr (), db')"
  shows "\<exists>row credit price zero balance debt zone_fqdn tr db1 db2 db3.
    select_price_list B timestamp zone operation db = (Inr [row], db1) \<and>
    operation_price B count row = Inr price \<and>
    select_registrar_credit B registrar zone db1 = (Inr [credit], db2) \<and>
    credit_zone_fqdn credit = Some zone_fqdn \<and>
    Decimal B (case registrar_credit credit of None \<Rightarrow> ''0.00'' | Some c \<Rightarrow> c) = Inr balance \<and>
    Decimal B ''0'' = Inr zero \<and>
    (dec_eq B price zero \<or> \<not> dec_less B balance price \<or> enable_postpaid_operation row) \<and>
    dec_minus B zero price = Inr debt \<and>
    CreateRegistrarCreditTransaction B (credit_registrar_handle credit) zone_fqdn debt db2 = (Inr tr, db3) \<and>
    insert_invoice_operation B object registrar (operation_id row) zone count date_from date_to tr db3 = (Inr (), db')"
  using assms by (rule charge_operation_returns)

theorem operation_charged_witness:
  "\<exists>tr db3. CreateRegistrarCreditTransaction bsample ''REG-A'' ''cz'' (- 10) [] = (Inr tr, db3)"
proof -
  have run: "charge_operation bsample ''RenewDomain'' 0 1 ''1'' 2 5 100 (Some 460) [] = (Inr (), [''charge 1'', ''debt''])"
    by (simp add: charge_operation_def operation_price_def sufficient_credit_def record_debt_def dsample_run sample_decimal_def)
  from operation_charged [OF run] show ?thesis
    by (auto simp: bsample_def returnE_def operation_price_def sample_decimal_def)
qed

text \<open>A renewal the registrar has no credit for is refused with \<open>billing_failure\<close>, although
  LibFred has renewed the domain in the transaction by then; the localized command reports the
  failure and stores nothing.\<close>

lemma renewal_without_credit:
  assumes "domain_queries L db A" and "object_queries L db Q"
    and "\<And>d n t m. reads (select_exdates L d n t m) db (exdates d n t m)"
    and "renew_domain_verdict L A Q exdates data session = Inr (zone, d, e)"
    and "\<not> is_system (ans_registrar A (registrar_id session))"
    and "\<not> registrar_is_internal (ans_registrar A (registrar_id session))"
    and "RenewDomain L (renew_fqdn data) (registrar_handle (ans_registrar A (registrar_id session))) e
      (if zone_is_enum zone then map_option get_valexdate (renew_enum_validation_extension data) else None)
      (if zone_is_enum zone then map_option get_publish (renew_enum_validation_extension data) else None)
      (logd_request_id session) db = (Inr history, db1)"
    and "renew_domain_bill_item L B (renew_fqdn data) (ans_now A) (registrar_id session) (dom_id d)
      (renew_months data zone) (dom_expiration_date d) e db1 = (Inl BillingFailure, db2)"
    and "OperationContextCreator D db = Inr u"
    and "response_failure_localized D [result_failure billing_failure] (lang session) db = (Inr localized, w)"
  shows "renew_domain L B data True session db = (Inl (fail_with billing_failure), db2) \<and>
    renew_domain_localized L D B data True session nd db = (Inl (FailureLocalized localized), db)"
proof -
  have "renew_domain L B data True session db = (Inl (fail_with billing_failure), db2)"
    using renew_domain_by_verdict [OF assms(1-3), of B data True session] assms(4-8)
    by (simp add: domain_renewal_def op_simps translate_billing_failure_def)
  then show ?thesis
    using renew_domain_localized.failure_reported [OF assms(9), of L B data True session "[result_failure billing_failure]"
        db2 localized w nd] assms(10)
    by (simp add: epp_failure_def response_failure_def)
qed

text \<open>The number of years charged is the length of the registration divided by 12 and rounded
  down; an operation for fewer than 12 more months costs the same.\<close>

lemma renewal_charged_by_full_years:
  assumes "Zone_find_zone_in_fqdn L (zone_rem_trailing_dot L fqdn) db = (Inr zone, db1)"
    and "unat months < 2 ^ 31"
  shows "renew_domain_bill_item L B fqdn timestamp registrar domain months old_exdate exdate db =
    charge_operation B ''RenewDomain'' timestamp (zone_id zone) (digits (unat months div 12)) registrar domain
      old_exdate (Some exdate) db1"
proof -
  have u: "int (unat months) = uint months" by simp
  have "int (unat months) < 2 ^ 31" using of_nat_less_iff [of "unat months" "2 ^ 31", where ?'a = int] assms(2) by simp
  then have "sint months = int (unat months)"
    unfolding u sint_uint
    by (intro signed_take_bit_int_eq_self order_trans [OF _ uint_ge_0]) simp_all
  moreover have "int_to_string (int_quot (int n) 12) = digits (n div 12)" for n
    by (simp add: int_to_string_def int_quot_def nat_div_distrib)
  ultimately have "int_to_string (int_quot (sint months) 12) = digits (unat months div 12)"
    by (simp only:)
  then show ?thesis
    using assms(1) by (simp add: renew_domain_bill_item_def op_simps Let_def)
qed

section \<open>Deletion, transfer, information, availability\<close>

text \<open>A domain is deleted only by its registrar or a system registrar with access to the zone,
  by an ordinary registrar never while a state prohibits it; when the registrar is not the
  sponsoring one, a poll message about it is created in the same transaction.\<close>

lemma delete_domain_permitted:
  assumes "delete_domain L fqdn session db = (Inr history_id, db')"
  shows "\<exists>zone now d r db1 db2 db3 db4 db5 db6 db7.
    Zone_find_zone_in_fqdn L (zone_rem_trailing_dot L fqdn) db = (Inr zone, db1) \<and>
    current_utc_time L db1 = (Inr now, db2) \<and>
    is_zone_accessible_by_registrar L (registrar_id session) (zone_id zone) (utc_to_local_date L now) db2 = (Inr True, db3) \<and>
    InfoDomainByFqdn L True fqdn db3 = (Inr d, db4) \<and>
    InfoRegistrarById L (registrar_id session) db4 = (Inr r, db5) \<and>
    (dom_sponsoring_registrar_handle d = registrar_handle r \<or> is_system r) \<and>
    (is_system r \<and> db6 = db5 \<or>
     (\<exists>states. GetObjectStates L (dom_id d) db5 = (Inr states, db6) \<and>
        (\<forall>s \<in> {Object_State_server_update_prohibited, Object_State_server_delete_prohibited,
               Object_State_delete_candidate}. \<not> ObjectStatesInfo_presents L states s))) \<and>
    DeleteDomainByFqdn L fqdn db6 = (Inr (), db7) \<and>
    (if dom_sponsoring_registrar_handle d = registrar_handle r then db' = db7
     else CreatePollMessage L delete_domain_message (dom_historyid d) db7 = (Inr (), db')) \<and>
    history_id = dom_historyid d"
  using assms by (rule delete_domain_returns)

text \<open>A domain is transferred only to another registrar with access to the zone and only with
  the password LibFred accepts, for an ordinary registrar never while a state prohibits it, and a
  poll message about it is created in the same transaction.\<close>

lemma transfer_domain_permitted:
  assumes "transfer_domain L fqdn pw session db = (Inr history_id, db')"
  shows "\<exists>zone now d r db1 db2 db3 db4 db5 db6 db7.
    current_utc_time L db = (Inr now, db1) \<and>
    Zone_find_zone_in_fqdn L (zone_rem_trailing_dot L fqdn) db1 = (Inr zone, db2) \<and>
    is_zone_accessible_by_registrar L (registrar_id session) (zone_id zone) (utc_to_local_date L now) db2 = (Inr True, db3) \<and>
    InfoDomainByFqdn L True fqdn db3 = (Inr d, db4) \<and>
    InfoRegistrarById L (registrar_id session) db4 = (Inr r, db5) \<and>
    dom_sponsoring_registrar_handle d \<noteq> registrar_handle r \<and>
    (is_system r \<and> db6 = db5 \<or>
     (\<exists>states. GetObjectStates L (dom_id d) db5 = (Inr states, db6) \<and>
        \<not> ObjectStatesInfo_presents L states Object_State_server_transfer_prohibited \<and>
        \<not> ObjectStatesInfo_presents L states Object_State_delete_candidate)) \<and>
    TransferDomain L (dom_id d) (registrar_handle r) pw (logd_request_id session) db6 = (Inr history_id, db7) \<and>
    CreatePollMessage L transfer_domain_message history_id db7 = (Inr (), db')"
  using assms by (rule transfer_domain_returns)

text \<open>Information on a domain is given without a password or with one LibFred accepts; the
  answer holds its registrant, its sets of name servers and keys, its administrative contacts, its
  expiration date, and as its states exactly the external states of the object that a domain
  knows.\<close>

lemma info_domain_answer:
  assumes "info_domain L fqdn pw session db = (Inr out, db')"
  shows "\<exists>d states db1 db2.
    InfoDomainByFqdn L False fqdn db = (Inr d, db1) \<and>
    GetObjectStates L (dom_id d) db1 = (Inr states, db2) \<and>
    (password_value pw = [] \<and> db' = db2 \<or>
     (\<exists>n. CheckAuthinfo L (dom_id d) (password_value pw) db2 = (Inr n, db') \<and> 0 < n)) \<and>
    domout_fqdn out = dom_fqdn d \<and> domout_registrant out = dom_registrant d \<and>
    domout_nsset out = dom_nsset d \<and> domout_keyset out = dom_keyset d \<and>
    domout_exdate out = dom_expiration_date d \<and> domout_admin out = set (dom_admin_contacts d) \<and>
    domout_states out = {v. \<exists>x \<in> set states. is_external x \<and>
      object_state_from_db_handle L (state_name x) = Inr (domain_status_to_object_state v)}"
proof -
  obtain d states db1 db2 where run: "InfoDomainByFqdn L False fqdn db = (Inr d, db1)"
      "GetObjectStates L (dom_id d) db1 = (Inr states, db2)"
      "password_value pw = [] \<and> db' = db2 \<or>
        (\<exists>n. CheckAuthinfo L (dom_id d) (password_value pw) db2 = (Inr n, db') \<and> 0 < n)"
    and out: "get_info_domain_output (object_state_from_db_handle L) d states = Inr out"
    using info_domain_returns [OF assms] by blast
  from get_info_domain_output_Inr [OF out] run show ?thesis by blast
qed

text \<open>\<^verbatim>\<open>check_domain\<close> answers for the requested names and no other, changes nothing, and
  reports no obstruction for a name exactly when it is available to an ordinary registrar and its
  syntax is valid; a creation by an ordinary registrar under a name for which an obstruction is
  reported fails.\<close>

lemma check_domain_agrees_with_create:
  assumes "domain_queries L db A" and "is_session_registrar_valid session"
  shows "\<exists>result. check_domain L fqdns session db = (Inr result, db) \<and>
    (\<forall>n. map_find string_less n result \<noteq> None \<longleftrightarrow> n \<in> set fqdns) \<and>
    (\<forall>n. map_find string_less n result = Some None \<longleftrightarrow>
      n \<in> set fqdns \<and> ans_registrability A n False = domain_available \<and> ans_syntax A n False = syntax_valid) \<and>
    (\<forall>ob B data charging r db'. map_find string_less (create_fqdn data) result = Some (Some ob) \<and>
      \<not> is_system (ans_registrar A (registrar_id session)) \<and> length (create_admin_contacts data) \<le> 2 ^ 16 \<longrightarrow>
      create_domain L (B :: ('a, 'dec) billing) data charging session db \<noteq> (Inr r, db'))"
proof -
  obtain result where r: "check_domain L fqdns session db = (Inr result, db)"
      "\<And>n. map_find string_less n result = (if n \<in> set fqdns then Some (domain_obstruction A n) else None)"
    using check_domain_run [OF assms] by blast
  have "create_domain L (B :: ('a, 'dec) billing) data charging session db \<noteq> (Inr r, db')"
    if "map_find string_less (create_fqdn data) result = Some (Some ob)"
      "\<not> is_system (ans_registrar A (registrar_id session))" "length (create_admin_contacts data) \<le> 2 ^ 16"
    for ob B data charging r db'
  proof -
    have "domain_obstruction A (create_fqdn data) \<noteq> None"
      using that(1) unfolding r(2) by (auto split: if_splits)
    then have "create_domain_verdict L A data session \<noteq> Inr (zone, months)" for zone months
      using that(2) unfolding create_domain_verdict_Inr domain_obstruction_None_iff Let_def by auto
    then show ?thesis
      using create_domain_by_verdict [OF assms that(3), of B charging] by (auto split: sum.splits)
  qed
  with r show ?thesis by (auto simp: domain_obstruction_None_iff)
qed

end
