(* ===== verification/Contact_Base.thy ===== *)
theory Contact_Base
  imports Epp_Localized
begin

text \<open>
  The data of contacts: values with a privacy (\<^verbatim>\<open>contact/hideable.hh\<close>), identity documents
  (\<^verbatim>\<open>contact/contact_ident.hh\<close>), the data given by a client and their trimming
  (\<^verbatim>\<open>contact/contact_data.cc\<close>, \<^verbatim>\<open>contact/util.cc\<close>), the data of a command that creates a contact
  (\<^verbatim>\<open>contact/create_contact_input_data.cc\<close>), the changes of an update
  (\<^verbatim>\<open>update_operation/on_value_of.hh\<close>, \<^verbatim>\<open>contact/contact_change.cc\<close>), and LibFred's operations on
  contacts.
\<close>

section \<open>Privacy\<close>

datatype PrivacyPolicy = Privacy_show | Privacy_hide

text \<open>A value made by one of the three functions below; no other is ever dereferenced.\<close>

record 'a Hideable =
  hideable_value :: 'a
  publishability :: "PrivacyPolicy option"

definition make_private_data :: "'a \<Rightarrow> 'a Hideable" where
  "make_private_data src = \<lparr>hideable_value = src, publishability = Some Privacy_hide\<rparr>"

definition make_public_data :: "'a \<Rightarrow> 'a Hideable" where
  "make_public_data src = \<lparr>hideable_value = src, publishability = Some Privacy_show\<rparr>"

definition make_data_with_unspecified_privacy :: "'a \<Rightarrow> 'a Hideable" where
  "make_data_with_unspecified_privacy src = \<lparr>hideable_value = src, publishability = None\<rparr>"

definition is_publishability_specified :: "'a Hideable \<Rightarrow> bool" where
  "is_publishability_specified h \<longleftrightarrow> publishability h \<noteq> None"

definition hideable_is_public :: "'a Hideable \<Rightarrow> bool" where
  "hideable_is_public h \<longleftrightarrow> publishability h = Some Privacy_show"

definition hideable_is_private :: "'a Hideable \<Rightarrow> bool" where
  "hideable_is_private h \<longleftrightarrow> publishability h = Some Privacy_hide"

definition make_with_the_same_privacy :: "'a Hideable \<Rightarrow> 'b \<Rightarrow> exn + 'b Hideable" where
  "make_with_the_same_privacy h v =
     (if is_publishability_specified h then
        if hideable_is_public h then Inr (make_public_data v)
        else if hideable_is_private h then Inr (make_private_data v)
        else Inl (StdException ''data must be public or private'')
      else Inr (make_data_with_unspecified_privacy v))"

lemma make_with_the_same_privacy_keeps:
  "make_with_the_same_privacy h v = Inr \<lparr>hideable_value = v, publishability = publishability h\<rparr>"
proof (cases "publishability h")
  case (Some p)
  then show ?thesis
    by (cases p) (simp_all add: make_with_the_same_privacy_def is_publishability_specified_def hideable_is_public_def
        hideable_is_private_def make_public_data_def make_private_data_def)
qed (simp add: make_with_the_same_privacy_def is_publishability_specified_def make_data_with_unspecified_privacy_def)

section \<open>Identity documents\<close>

datatype ContactIdent =
    Ident_Op string | Ident_Pass string | Ident_Ico string | Ident_Mpsv string | Ident_Birthday string

text \<open>LibFred's class, by the functions that make its values.\<close>

datatype PersonalIdUnion =
    get_OP string | get_PASS string | get_ICO string | get_MPSV string | get_BIRTHDAY string | get_RC string

definition get_personal_id_union :: "ContactIdent \<Rightarrow> PersonalIdUnion" where
  "get_personal_id_union ident =
     (case ident of
        Ident_Op v \<Rightarrow> get_OP v
      | Ident_Pass v \<Rightarrow> get_PASS v
      | Ident_Ico v \<Rightarrow> get_ICO v
      | Ident_Mpsv v \<Rightarrow> get_MPSV v
      | Ident_Birthday v \<Rightarrow> get_BIRTHDAY v)"

section \<open>Addresses and data\<close>

datatype 'a Rows = Rows (row0: 'a) (row1: 'a) (row2: 'a)

text \<open>The structures \<^verbatim>\<open>Address\<close> differ in the type of their members only.\<close>

record 's Address =
  street :: "'s Rows"
  city :: 's
  state_or_province :: 's
  postal_code :: 's
  country_code :: 's

record ContactData =
  data_name :: "string option Hideable"
  data_organization :: "string option Hideable"
  data_address :: "string option Address option Hideable"
  data_mailing_address :: "string option Address option"
  data_telephone :: "string option Hideable"
  data_fax :: "string option Hideable"
  data_email :: "string option Hideable"
  data_notify_email :: "string option Hideable"
  data_vat :: "string option Hideable"
  data_ident :: "ContactIdent option Hideable"

section \<open>Trimming\<close>

definition trim_copy :: "string \<Rightarrow> string" where
  "trim_copy s = rev (dropWhile is_space (rev (dropWhile is_space s)))"

lemma trim_copy_Nil [simp]: "trim_copy [] = []"
  by (simp add: trim_copy_def)

lemma dropWhile_rev_dropWhile:
  "dropWhile p (rev (dropWhile p (rev xs))) = rev (dropWhile p (rev (dropWhile p xs)))"
proof (induction xs)
  case (Cons x xs)
  show ?case
  proof (cases "p x")
    case True
    show ?thesis
    proof (cases "\<forall>y \<in> set xs. p y")
      case True
      then have "dropWhile p (rev xs) = []" "dropWhile p xs = []" by simp_all
      with \<open>p x\<close> show ?thesis by (auto simp: dropWhile_append dest: set_dropWhileD)
    next
      case False
      then have "dropWhile p (rev xs @ [x]) = dropWhile p (rev xs) @ [x]" by (auto intro: dropWhile_append1)
      with Cons \<open>p x\<close> show ?thesis by simp
    qed
  next
    case False
    have "dropWhile p (rev xs @ [x]) = dropWhile p (rev xs) @ [x]"
      using False by (cases "\<exists>y \<in> set xs. \<not> p y") (auto intro: dropWhile_append1 simp: dropWhile_append)
    with False show ?thesis by simp
  qed
qed simp

lemma trim_copy_idem [simp]: "trim_copy (trim_copy s) = trim_copy s"
  by (simp add: trim_copy_def dropWhile_rev_dropWhile)

definition trim_optional :: "string option \<Rightarrow> string option" where
  "trim_optional src = (case src of Some s \<Rightarrow> Some (trim_copy s) | None \<Rightarrow> None)"

definition trim_rows :: "('a \<Rightarrow> 'b) \<Rightarrow> 'a Rows \<Rightarrow> 'b Rows" where
  "trim_rows trim src = Rows (trim (row0 src)) (trim (row1 src)) (trim (row2 src))"

definition trim_address :: "string option Address option \<Rightarrow> string option Address option" where
  "trim_address src =
     (case src of
        None \<Rightarrow> None
      | Some a \<Rightarrow> Some \<lparr>street = trim_rows trim_optional (street a), city = trim_optional (city a),
          state_or_province = trim_optional (state_or_province a), postal_code = trim_optional (postal_code a),
          country_code = trim_optional (country_code a)\<rparr>)"

definition trim_ident :: "ContactIdent \<Rightarrow> ContactIdent" where
  "trim_ident src =
     (case src of
        Ident_Op v \<Rightarrow> Ident_Op (trim_copy v)
      | Ident_Pass v \<Rightarrow> Ident_Pass (trim_copy v)
      | Ident_Ico v \<Rightarrow> Ident_Ico (trim_copy v)
      | Ident_Mpsv v \<Rightarrow> Ident_Mpsv (trim_copy v)
      | Ident_Birthday v \<Rightarrow> Ident_Birthday (trim_copy v))"

definition trim_optional_ident :: "ContactIdent option \<Rightarrow> ContactIdent option" where
  "trim_optional_ident src = (case src of Some i \<Rightarrow> Some (trim_ident i) | None \<Rightarrow> None)"

definition trim_hideable :: "('a \<Rightarrow> 'a) \<Rightarrow> 'a Hideable \<Rightarrow> exn + 'a Hideable" where
  "trim_hideable trim src = make_with_the_same_privacy src (trim (hideable_value src))"

section \<open>The data of a creation\<close>

record CreateContactInputData =
  cc_name :: "string Hideable"
  cc_organization :: "string Hideable"
  cc_address :: "string Address Hideable"
  cc_mailing_address :: "string Address option"
  cc_telephone :: "string Hideable"
  cc_fax :: "string Hideable"
  cc_email :: "string Hideable"
  cc_notify_email :: "string Hideable"
  cc_vat :: "string Hideable"
  cc_ident :: "ContactIdent option Hideable"

definition remove_optionality :: "string option \<Rightarrow> string" where
  "remove_optionality src = (case src of None \<Rightarrow> [] | Some s \<Rightarrow> s)"

definition convert_to_address :: "string option Address option \<Rightarrow> string Address option" where
  "convert_to_address src =
     (case src of
        None \<Rightarrow> None
      | Some a \<Rightarrow> Some \<lparr>street = trim_rows remove_optionality (street a), city = remove_optionality (city a),
          state_or_province = remove_optionality (state_or_province a),
          postal_code = remove_optionality (postal_code a),
          country_code = remove_optionality (country_code a)\<rparr>)"

definition empty_address :: "string Address" where
  "empty_address = \<lparr>street = Rows [] [] [], city = [], state_or_province = [], postal_code = [], country_code = []\<rparr>"

text \<open>\<^verbatim>\<open>remove_optionality(trim(src))\<close> of a value with privacy; the conversion never throws.\<close>

definition create_value :: "('a \<Rightarrow> 'a) \<Rightarrow> ('a \<Rightarrow> 'b) \<Rightarrow> 'a Hideable \<Rightarrow> exn + 'b Hideable" where
  "create_value trim convert src =
     (case trim_hideable trim src of
        Inl e \<Rightarrow> Inl e
      | Inr trimmed \<Rightarrow> make_with_the_same_privacy trimmed (convert (hideable_value trimmed)))"

lemma create_value_simp:
  "create_value trim convert src =
     Inr \<lparr>hideable_value = convert (trim (hideable_value src)), publishability = publishability src\<rparr>"
  by (simp add: create_value_def trim_hideable_def make_with_the_same_privacy_keeps)

definition address_or_empty :: "string option Address option \<Rightarrow> string Address" where
  "address_or_empty src = (case convert_to_address src of Some a \<Rightarrow> a | None \<Rightarrow> empty_address)"

definition create_contact_input_data :: "ContactData \<Rightarrow> exn + CreateContactInputData" where
  "create_contact_input_data src =
     (case (create_value trim_optional remove_optionality (data_name src),
            create_value trim_optional remove_optionality (data_organization src),
            create_value trim_address address_or_empty (data_address src),
            create_value trim_optional remove_optionality (data_telephone src),
            create_value trim_optional remove_optionality (data_fax src),
            create_value trim_optional remove_optionality (data_email src),
            create_value trim_optional remove_optionality (data_notify_email src),
            create_value trim_optional remove_optionality (data_vat src)) of
        (Inr n, Inr org, Inr a, Inr t, Inr f, Inr e, Inr ne, Inr v) \<Rightarrow>
          Inr \<lparr>cc_name = n, cc_organization = org, cc_address = a,
               cc_mailing_address = convert_to_address (trim_address (data_mailing_address src)),
               cc_telephone = t, cc_fax = f, cc_email = e, cc_notify_email = ne, cc_vat = v,
               cc_ident = data_ident src\<rparr>
      | _ \<Rightarrow> Inl (StdException ''data must be public or private''))"

lemma create_contact_input_data_total: "\<exists>data. create_contact_input_data src = Inr data"
  by (simp add: create_contact_input_data_def create_value_simp)

section \<open>LibFred: contacts\<close>

record PlaceAddress =
  street1 :: string
  street2 :: "string option"
  street3 :: "string option"
  place_city :: string
  stateorprovince :: "string option"
  postalcode :: string
  country :: string

text \<open>Of the addresses of other types only the mailing address is used by the commands.\<close>

record InfoContactData =
  con_id :: u64
  con_historyid :: u64
  con_handle :: string
  con_roid :: string
  con_sponsoring_registrar_handle :: string
  con_create_registrar_handle :: string
  con_update_registrar_handle :: "string option"
  con_creation_time :: ptime
  con_update_time :: "ptime option"
  con_transfer_time :: "ptime option"
  con_name :: "string option"
  con_organization :: "string option"
  con_place :: "PlaceAddress option"
  con_mailing_address :: "PlaceAddress option"
  con_telephone :: "string option"
  con_fax :: "string option"
  con_email :: "string option"
  con_notifyemail :: "string option"
  con_vat :: "string option"
  con_ssntype :: "string option"
  con_ssn :: "string option"
  con_disclosename :: bool
  con_discloseorganization :: bool
  con_discloseaddress :: bool
  con_disclosetelephone :: bool
  con_disclosefax :: bool
  con_discloseemail :: bool
  con_disclosevat :: bool
  con_discloseident :: bool
  con_disclosenotifyemail :: bool

text \<open>The arguments of \<^verbatim>\<open>LibFred::CreateContact\<close>; the password of a new contact is empty.\<close>

record CreateContactOp =
  op_handle :: string
  op_registrar :: string
  op_name :: "string option"
  op_organization :: "string option"
  op_place :: PlaceAddress
  op_telephone :: "string option"
  op_fax :: "string option"
  op_email :: "string option"
  op_notifyemail :: "string option"
  op_vat :: "string option"
  op_ssntype :: "string option"
  op_ssn :: "string option"
  op_mailing :: "PlaceAddress option"
  op_disclosename :: "bool option"
  op_discloseorganization :: "bool option"
  op_discloseaddress :: "bool option"
  op_disclosetelephone :: "bool option"
  op_disclosefax :: "bool option"
  op_discloseemail :: "bool option"
  op_disclosevat :: "bool option"
  op_discloseident :: "bool option"
  op_disclosenotifyemail :: "bool option"
  op_logd_request_id :: "u64 option"

record 'db libfred_contact = "'db libfred" +
  Contact_get_handle_syntax_validity :: "string \<Rightarrow> ('db, exn, SyntaxValidity) op"
  select_enum_country :: "string \<Rightarrow> ('db, exn, nat) op"
  personal_id_type :: "PersonalIdUnion \<Rightarrow> string"
  personal_id_value :: "PersonalIdUnion \<Rightarrow> string"
  InfoContactByHandle :: "bool \<Rightarrow> string \<Rightarrow> ('db, exn, InfoContactData) op"
  CreateContact :: "CreateContactOp \<Rightarrow> ('db, exn, u64 \<times> u64 \<times> ptime) op"
  DeleteContactByHandle :: "string \<Rightarrow> ('db, exn, unit) op"
  TransferContact :: "u64 \<Rightarrow> string \<Rightarrow> string \<Rightarrow> u64 option \<Rightarrow> ('db, exn, u64) op"
  select_domain_holder :: "u64 \<Rightarrow> u64 \<Rightarrow> ('db, exn, nat) op"
  select_domain_admin_contact :: "u64 \<Rightarrow> u64 \<Rightarrow> ('db, exn, nat) op"

definition is_country_code_valid ::
  "('db, 'x) libfred_contact_scheme \<Rightarrow> string \<Rightarrow> ('db, exn, bool) op" where
  "is_country_code_valid L cc = bindE (select_enum_country L cc) (\<lambda>rows. returnE (0 < rows))"

text \<open>
  \<^verbatim>\<open>catch (const LibFred::InfoContactByHandle::Exception& e)\<close>: a handle that is not known becomes
  the failure \<open>object_does_not_exist\<close>, everything else goes on.
\<close>

definition translate_unknown_contact :: "exn \<Rightarrow> ('db, exn, 'a) op" where
  "translate_unknown_contact e =
     (case e of
        LibfredException (InfoContactByHandleException unknown) \<Rightarrow>
          if unknown then throwE (fail_with object_does_not_exist) else throwE e
      | _ \<Rightarrow> throwE e)"

lemma rethrows_translate_unknown_contact [simp]: "rethrows translate_unknown_contact"
  by (auto simp: rethrows_def translate_unknown_contact_def throwE_def
      split: exn.split libfred_exception.split)

end
