(* ===== verification/Contact_Create.thy ===== *)
theory Contact_Create
  imports Contact_Base
begin

text \<open>
  Creation of a contact (\<^verbatim>\<open>contact/create_contact.cc\<close>) and the filters that decide what is
  disclosed of it (\<^verbatim>\<open>contact/impl/cznic/create_contact_data_filter.cc\<close>,
  \<^verbatim>\<open>contact/impl/set_unused/create_contact_data_filter.cc\<close>,
  \<^verbatim>\<open>contact/impl/get_create_contact_data_filter.cc\<close>).
\<close>

section \<open>What is disclosed\<close>

text \<open>The defaults a filter is configured with, one for each kind of data.\<close>

record 'd DiscloseDefaults =
  default_disclose_name :: 'd
  default_disclose_organization :: 'd
  default_disclose_address :: 'd
  default_disclose_telephone :: 'd
  default_disclose_fax :: 'd
  default_disclose_email :: 'd
  default_disclose_vat :: 'd
  default_disclose_ident :: 'd
  default_disclose_notify_email :: 'd

datatype CreateDisclose = Create_show | Create_hide | Create_publishability_not_specified

abbreviation publishability_must_be_specified :: exn where
  "publishability_must_be_specified \<equiv> StdException ''publishability must be specified''"

abbreviation DiscloseflagRulesViolation :: exn where
  "DiscloseflagRulesViolation \<equiv> StdException ''discloseflag rules violation''"

definition create_compute_publishability :: "'a Hideable \<Rightarrow> CreateDisclose \<Rightarrow> exn + bool" where
  "create_compute_publishability hideable_data default_publishability =
     (if is_publishability_specified hideable_data then
        if hideable_is_public hideable_data then Inr True
        else if hideable_is_private hideable_data then Inr False
        else Inl (StdException ''data is neither public nor private'')
      else
        (case default_publishability of
           Create_show \<Rightarrow> Inr True
         | Create_hide \<Rightarrow> Inr False
         | Create_publishability_not_specified \<Rightarrow> Inl publishability_must_be_specified))"

text \<open>The constraints \<^verbatim>\<open>PublicIsMandatory\<close> and \<^verbatim>\<open>AnyIsAvailable\<close>.\<close>

definition cznic_is_public :: "bool \<Rightarrow> 'a Hideable \<Rightarrow> CreateDisclose \<Rightarrow> exn + bool" where
  "cznic_is_public public_is_mandatory hideable_data default_publishability =
     (case create_compute_publishability hideable_data default_publishability of
        Inl e \<Rightarrow> Inl e
      | Inr yes \<Rightarrow> if public_is_mandatory \<and> \<not> yes then Inl DiscloseflagRulesViolation else Inr yes)"

type_synonym 'db create_contact_filter =
  "CreateContactInputData \<Rightarrow> SessionData \<Rightarrow> CreateContactOp \<Rightarrow> ('db, exn, CreateContactOp) op"

definition cznic_create_contact_data_filter :: "CreateDisclose DiscloseDefaults \<Rightarrow> 'db create_contact_filter" where
  "cznic_create_contact_data_filter d contact_data session create_op =
     bindE (liftE (cznic_is_public True (cc_name contact_data) (default_disclose_name d))) (\<lambda>n.
     bindE (liftE (cznic_is_public True (cc_organization contact_data) (default_disclose_organization d))) (\<lambda>org.
     bindE (liftE (cznic_is_public True (cc_address contact_data) (default_disclose_address d))) (\<lambda>a.
     bindE (liftE (cznic_is_public False (cc_telephone contact_data) (default_disclose_telephone d))) (\<lambda>t.
     bindE (liftE (cznic_is_public False (cc_fax contact_data) (default_disclose_fax d))) (\<lambda>f.
     bindE (liftE (cznic_is_public False (cc_email contact_data) (default_disclose_email d))) (\<lambda>e.
     bindE (liftE (cznic_is_public False (cc_vat contact_data) (default_disclose_vat d))) (\<lambda>v.
     bindE (liftE (cznic_is_public False (cc_ident contact_data) (default_disclose_ident d))) (\<lambda>i.
     bindE (liftE (cznic_is_public False (cc_notify_email contact_data) (default_disclose_notify_email d))) (\<lambda>ne.
     returnE (create_op\<lparr>op_disclosename := Some n, op_discloseorganization := Some org,
       op_discloseaddress := Some a, op_disclosetelephone := Some t, op_disclosefax := Some f,
       op_discloseemail := Some e, op_disclosevat := Some v, op_discloseident := Some i,
       op_disclosenotifyemail := Some ne\<rparr>))))))))))"

definition set_unused_create_contact_data_filter :: "CreateDisclose DiscloseDefaults \<Rightarrow> 'db create_contact_filter" where
  "set_unused_create_contact_data_filter d contact_data session create_op =
     bindE (liftE (create_compute_publishability (cc_name contact_data) (default_disclose_name d))) (\<lambda>n.
     bindE (liftE (create_compute_publishability (cc_organization contact_data) (default_disclose_organization d))) (\<lambda>org.
     bindE (liftE (create_compute_publishability (cc_address contact_data) (default_disclose_address d))) (\<lambda>a.
     bindE (liftE (create_compute_publishability (cc_telephone contact_data) (default_disclose_telephone d))) (\<lambda>t.
     bindE (liftE (create_compute_publishability (cc_fax contact_data) (default_disclose_fax d))) (\<lambda>f.
     bindE (liftE (create_compute_publishability (cc_email contact_data) (default_disclose_email d))) (\<lambda>e.
     bindE (liftE (create_compute_publishability (cc_vat contact_data) (default_disclose_vat d))) (\<lambda>v.
     bindE (liftE (create_compute_publishability (cc_ident contact_data) (default_disclose_ident d))) (\<lambda>i.
     bindE (liftE (create_compute_publishability (cc_notify_email contact_data) (default_disclose_notify_email d))) (\<lambda>ne.
     returnE (create_op\<lparr>op_disclosename := Some n, op_discloseorganization := Some org,
       op_discloseaddress := Some a, op_disclosetelephone := Some t, op_disclosefax := Some f,
       op_discloseemail := Some e, op_disclosevat := Some v, op_discloseident := Some i,
       op_disclosenotifyemail := Some ne\<rparr>))))))))))"

definition empty_create_contact_data_filter :: "'db create_contact_filter" where
  "empty_create_contact_data_filter input_data session create_op =
     (if is_publishability_specified (cc_name input_data) \<and>
         is_publishability_specified (cc_organization input_data) \<and>
         is_publishability_specified (cc_address input_data) \<and>
         is_publishability_specified (cc_telephone input_data) \<and>
         is_publishability_specified (cc_fax input_data) \<and>
         is_publishability_specified (cc_email input_data) \<and>
         is_publishability_specified (cc_vat input_data) \<and>
         is_publishability_specified (cc_ident input_data) \<and>
         is_publishability_specified (cc_notify_email input_data)
      then returnE create_op
      else throwE publishability_must_be_specified)"

section \<open>The operation\<close>

record CreateContactResult =
  contact_result_id :: u64
  contact_create_history_id :: u64
  contact_crdate :: ptime

text \<open>A privacy is one of two values; the exception for a third is not modelled.\<close>

definition hideable_to_discloseflag :: "'a Hideable \<Rightarrow> bool option" where
  "hideable_to_discloseflag hideable =
     (if is_publishability_specified hideable then Some (hideable_is_public hideable) else None)"

definition to_optional :: "string \<Rightarrow> string option" where
  "to_optional src = (if src = [] then None else Some src)"

definition get_optional_personal_id_union :: "ContactIdent option \<Rightarrow> PersonalIdUnion option" where
  "get_optional_personal_id_union ident =
     (case ident of Some i \<Rightarrow> Some (get_personal_id_union i) | None \<Rightarrow> None)"

definition create_place :: "string Address \<Rightarrow> PlaceAddress" where
  "create_place a = \<lparr>
     street1 = row0 (street a), street2 = to_optional (row1 (street a)), street3 = to_optional (row2 (street a)),
     place_city = city a, stateorprovince = to_optional (state_or_province a), postalcode = postal_code a,
     country = country_code a\<rparr>"

definition create_contact_op ::
  "('db, 'x) libfred_contact_scheme \<Rightarrow> string \<Rightarrow> CreateContactInputData \<Rightarrow> SessionData \<Rightarrow> string \<Rightarrow> CreateContactOp" where
  "create_contact_op L h contact_data session registrar =
     (let ident = get_optional_personal_id_union (hideable_value (cc_ident contact_data)) in \<lparr>
      op_handle = h,
      op_registrar = registrar,
      op_name = to_optional (hideable_value (cc_name contact_data)),
      op_organization = to_optional (hideable_value (cc_organization contact_data)),
      op_place = create_place (hideable_value (cc_address contact_data)),
      op_telephone = to_optional (hideable_value (cc_telephone contact_data)),
      op_fax = to_optional (hideable_value (cc_fax contact_data)),
      op_email = to_optional (hideable_value (cc_email contact_data)),
      op_notifyemail = to_optional (hideable_value (cc_notify_email contact_data)),
      op_vat = to_optional (hideable_value (cc_vat contact_data)),
      op_ssntype = (case ident of Some i \<Rightarrow> Some (personal_id_type L i) | None \<Rightarrow> None),
      op_ssn = (case ident of Some i \<Rightarrow> Some (personal_id_value L i) | None \<Rightarrow> None),
      op_mailing = (case cc_mailing_address contact_data of Some a \<Rightarrow> Some (create_place a) | None \<Rightarrow> None),
      op_disclosename = hideable_to_discloseflag (cc_name contact_data),
      op_discloseorganization = hideable_to_discloseflag (cc_organization contact_data),
      op_discloseaddress = hideable_to_discloseflag (cc_address contact_data),
      op_disclosetelephone = hideable_to_discloseflag (cc_telephone contact_data),
      op_disclosefax = hideable_to_discloseflag (cc_fax contact_data),
      op_discloseemail = hideable_to_discloseflag (cc_email contact_data),
      op_disclosevat = hideable_to_discloseflag (cc_vat contact_data),
      op_discloseident = hideable_to_discloseflag (cc_ident contact_data),
      op_disclosenotifyemail = hideable_to_discloseflag (cc_notify_email contact_data),
      op_logd_request_id = logd_request_id session\<rparr>)"

definition translate_create_contact :: "exn \<Rightarrow> ('db, exn, 'a) op" where
  "translate_create_contact e =
     (case e of
        LibfredException (CreateContactException forbidden unknown_reg unknown_ssn invalid_handle unknown_cc) \<Rightarrow>
          if forbidden \<or> unknown_reg \<or> unknown_ssn then throwE e
          else if invalid_handle then throwE (fail_with object_exists)
          else if unknown_cc then
            throwE (epp_failure (add_extended_error
              (of_scalar_parameter Param_contact_cc Reason_country_notexist)
              (result_failure parameter_value_policy_error)))
          else throwE e
      | _ \<Rightarrow> throwE e)"

lemma rethrows_translate_create_contact [simp]: "rethrows translate_create_contact"
  by (auto simp: rethrows_def translate_create_contact_def throwE_def
      split: exn.split libfred_exception.split)

text \<open>The \<^verbatim>\<open>try\<close> block.\<close>

definition contact_creation ::
  "('db, 'x) libfred_contact_scheme \<Rightarrow> string \<Rightarrow> CreateContactInputData \<Rightarrow> 'db create_contact_filter \<Rightarrow>
     SessionData \<Rightarrow> ('db, exn, CreateContactResult) op" where
  "contact_creation L h contact_data data_filter session =
     catchE
       (bindE (InfoRegistrarById L (registrar_id session)) (\<lambda>info.
        bindE (data_filter contact_data session
                 (create_contact_op L h contact_data session (registrar_handle info))) (\<lambda>create_op.
        bindE (CreateContact L create_op) (\<lambda>(object_id, history_id, creation_time).
        returnE \<lparr>contact_result_id = object_id, contact_create_history_id = history_id,
                 contact_crdate = creation_time\<rparr>))))
       translate_create_contact"

definition create_contact ::
  "('db, 'x) libfred_contact_scheme \<Rightarrow> string \<Rightarrow> CreateContactInputData \<Rightarrow> 'db create_contact_filter \<Rightarrow>
     SessionData \<Rightarrow> ('db, exn, CreateContactResult) op" where
  "create_contact L h contact_data data_filter session =
     with_session session (
     bindE (Contact_get_handle_syntax_validity L h) (\<lambda>validity.
     throw_if (validity \<noteq> syntax_valid)
       (epp_failure (add_extended_error
          (of_scalar_parameter Param_contact_handle Reason_bad_format_contact_handle)
          (result_failure parameter_value_syntax_error))) (
     bindE (Contact_get_handle_registrability L h) (\<lambda>contact_registrability.
     throw_if (contact_registrability = registered) (fail_with object_exists) (
     let errors = result_failure parameter_value_policy_error;
         errors = (if contact_registrability = in_protection_period
                   then add_extended_error (of_scalar_parameter Param_contact_handle Reason_protected_period) errors
                   else errors) in
     bindE (is_country_code_valid L (country_code (hideable_value (cc_address contact_data)))) (\<lambda>country_valid.
     let errors = (if \<not> country_valid
                   then add_extended_error (of_scalar_parameter Param_contact_cc Reason_country_notexist) errors
                   else errors) in
     bindE (case cc_mailing_address contact_data of
              None \<Rightarrow> returnE ()
            | Some mailing_address \<Rightarrow>
                bindE (is_country_code_valid L (country_code mailing_address)) (\<lambda>mailing_valid.
                throw_if (\<not> mailing_valid) (epp_failure errors) (returnE ()))) (\<lambda>_.
     throw_if (\<not> failure_empty errors) (epp_failure errors) (
     contact_creation L h contact_data data_filter session))))))))"

interpretation create_contact: session_guarded "create_contact L h data data_filter" for L h data data_filter
  by unfold_locales (simp add: create_contact_def with_session_refuses)

section \<open>The verdict\<close>

text \<open>Queries that only read: the syntax of handles, their registration, the countries.\<close>

definition contact_queries ::
  "('db, 'x) libfred_contact_scheme \<Rightarrow> 'db \<Rightarrow> (string \<Rightarrow> SyntaxValidity) \<Rightarrow> (string \<Rightarrow> Registrability) \<Rightarrow> string set \<Rightarrow> bool" where
  "contact_queries L db syntax contacts countries \<longleftrightarrow>
     (\<forall>h. reads (Contact_get_handle_syntax_validity L h) db (syntax h)) \<and>
     (\<forall>h. reads (Contact_get_handle_registrability L h) db (contacts h)) \<and>
     (\<forall>cc. reads (select_enum_country L cc) db (if cc \<in> countries then 1 else 0))"

text \<open>
  The errors a client can be told of; a country of the mailing address that does not exist is not
  among them, so that the failure names no error when it is the only one.
\<close>

definition create_contact_errors ::
  "(string \<Rightarrow> Registrability) \<Rightarrow> string set \<Rightarrow> string \<Rightarrow> CreateContactInputData \<Rightarrow> EppExtendedError set" where
  "create_contact_errors contacts countries h data =
     {e. e = of_scalar_parameter Param_contact_handle Reason_protected_period \<and> contacts h = in_protection_period \<or>
         e = of_scalar_parameter Param_contact_cc Reason_country_notexist \<and>
           country_code (hideable_value (cc_address data)) \<notin> countries}"

definition mailing_country_wrong :: "string set \<Rightarrow> CreateContactInputData \<Rightarrow> bool" where
  "mailing_country_wrong countries data \<longleftrightarrow>
     (\<exists>a. cc_mailing_address data = Some a \<and> country_code a \<notin> countries)"

definition create_contact_verdict ::
  "(string \<Rightarrow> SyntaxValidity) \<Rightarrow> (string \<Rightarrow> Registrability) \<Rightarrow> string set \<Rightarrow> string \<Rightarrow> CreateContactInputData \<Rightarrow>
     exn option" where
  "create_contact_verdict syntax contacts countries h data =
     (let errors = create_contact_errors contacts countries h data in
      if syntax h \<noteq> syntax_valid
      then Some (epp_failure \<lparr>epp_result_code = parameter_value_syntax_error,
             extended_errors = Some {of_scalar_parameter Param_contact_handle Reason_bad_format_contact_handle}\<rparr>)
      else if contacts h = registered then Some (fail_with object_exists)
      else if errors \<noteq> {} \<or> mailing_country_wrong countries data
      then Some (epp_failure \<lparr>epp_result_code = parameter_value_policy_error,
             extended_errors = (if errors = {} then None else Some errors)\<rparr>)
      else None)"

lemma create_contact_by_verdict:
  assumes q: "contact_queries L db syntax contacts countries" and s: "is_session_registrar_valid session"
  shows "create_contact L h data data_filter session db =
    (case create_contact_verdict syntax contacts countries h data of
       Some e \<Rightarrow> (Inl e, db)
     | None \<Rightarrow> contact_creation L h data data_filter session db)"
proof -
  have country: "reads (is_country_code_valid L cc) db (cc \<in> countries)" for cc
    using q unfolding contact_queries_def is_country_code_valid_def by (simp add: reads_def op_simps)
  have validity: "reads (Contact_get_handle_syntax_validity L h) db (syntax h)"
    and reg: "reads (Contact_get_handle_registrability L h) db (contacts h)"
    using q unfolding contact_queries_def by blast+
  show ?thesis
    using s unfolding create_contact_def create_contact_verdict_def
    by (cases "cc_mailing_address data")
      (auto simp: op_simps bindE_assoc bindE_throw_if bindE_reads [OF validity] bindE_reads [OF reg] bindE_reads [OF country] Let_def
        create_contact_errors_def mailing_country_wrong_def add_extended_error_def result_failure_def
        failure_empty_def)
qed

section \<open>What the filters do\<close>

text \<open>What the flag of a value becomes; \<open>None\<close> where neither client nor configuration decide.\<close>

definition disclosure :: "'a Hideable \<Rightarrow> CreateDisclose \<Rightarrow> bool option" where
  "disclosure h d =
     (case publishability h of
        Some p \<Rightarrow> Some (p = Privacy_show)
      | None \<Rightarrow> (case d of Create_show \<Rightarrow> Some True | Create_hide \<Rightarrow> Some False
                          | Create_publishability_not_specified \<Rightarrow> None))"

lemma create_compute_publishability_disclosure:
  "create_compute_publishability h d =
     (case disclosure h d of Some b \<Rightarrow> Inr b | None \<Rightarrow> Inl publishability_must_be_specified)"
proof (cases "publishability h")
  case (Some p)
  then show ?thesis
    by (cases p) (simp_all add: create_compute_publishability_def disclosure_def is_publishability_specified_def
        hideable_is_public_def hideable_is_private_def)
qed (cases d; simp add: create_compute_publishability_def disclosure_def is_publishability_specified_def)

lemma cznic_is_public_Inr:
  "cznic_is_public True h d = Inr b \<longleftrightarrow> b = True \<and> disclosure h d = Some True"
  "cznic_is_public False h d = Inr b \<longleftrightarrow> disclosure h d = Some b"
  by (auto simp: cznic_is_public_def create_compute_publishability_disclosure split: option.split)

lemma bindE_liftE_Inr [simp]: "bindE (liftE (Inr x)) f = f x"
  by (simp add: liftE_def bindE_def fun_eq_iff)

lemma bindE_liftE_returns:
  "bindE (liftE r) f db = (Inr y, db') \<longleftrightarrow> (\<exists>x. r = Inr x \<and> f x db = (Inr y, db'))"
  by (cases r) (simp_all add: liftE_def bindE_def)

definition disclose_by ::
  "CreateDisclose DiscloseDefaults \<Rightarrow> CreateContactInputData \<Rightarrow> CreateContactOp \<Rightarrow> CreateContactOp" where
  "disclose_by d data create_op = create_op\<lparr>
     op_disclosename := disclosure (cc_name data) (default_disclose_name d),
     op_discloseorganization := disclosure (cc_organization data) (default_disclose_organization d),
     op_discloseaddress := disclosure (cc_address data) (default_disclose_address d),
     op_disclosetelephone := disclosure (cc_telephone data) (default_disclose_telephone d),
     op_disclosefax := disclosure (cc_fax data) (default_disclose_fax d),
     op_discloseemail := disclosure (cc_email data) (default_disclose_email d),
     op_disclosevat := disclosure (cc_vat data) (default_disclose_vat d),
     op_discloseident := disclosure (cc_ident data) (default_disclose_ident d),
     op_disclosenotifyemail := disclosure (cc_notify_email data) (default_disclose_notify_email d)\<rparr>"

text \<open>The configuration decides about everything the client leaves open.\<close>

definition disclosure_decided :: "CreateDisclose DiscloseDefaults \<Rightarrow> CreateContactInputData \<Rightarrow> bool" where
  "disclosure_decided d data \<longleftrightarrow>
     disclosure (cc_telephone data) (default_disclose_telephone d) \<noteq> None \<and>
     disclosure (cc_fax data) (default_disclose_fax d) \<noteq> None \<and>
     disclosure (cc_email data) (default_disclose_email d) \<noteq> None \<and>
     disclosure (cc_vat data) (default_disclose_vat d) \<noteq> None \<and>
     disclosure (cc_ident data) (default_disclose_ident d) \<noteq> None \<and>
     disclosure (cc_notify_email data) (default_disclose_notify_email d) \<noteq> None"

definition identity_public :: "CreateDisclose DiscloseDefaults \<Rightarrow> CreateContactInputData \<Rightarrow> bool" where
  "identity_public d data \<longleftrightarrow>
     disclosure (cc_name data) (default_disclose_name d) = Some True \<and>
     disclosure (cc_organization data) (default_disclose_organization d) = Some True \<and>
     disclosure (cc_address data) (default_disclose_address d) = Some True"

lemma cznic_filter_accepts:
  assumes "identity_public d data" and "disclosure_decided d data"
  shows "reads (cznic_create_contact_data_filter d data session create_op) db (disclose_by d data create_op)"
  using assms
  unfolding identity_public_def disclosure_decided_def cznic_create_contact_data_filter_def reads_def not_None_eq
  by (elim conjE exE) (simp add: cznic_is_public_def create_compute_publishability_disclosure disclose_by_def
      returnE_def)

lemma cznic_filter_returns:
  assumes "cznic_create_contact_data_filter d data session create_op db = (Inr create_op', db')"
  shows "identity_public d data \<and> disclosure_decided d data \<and> create_op' = disclose_by d data create_op \<and> db' = db"
  using assms
  unfolding cznic_create_contact_data_filter_def bindE_liftE_returns cznic_is_public_Inr returnE_run
  by (elim exE conjE) (simp add: disclose_by_def identity_public_def disclosure_decided_def)

end
