(* ===== verification/Contact_Commands.thy ===== *)
theory Contact_Commands
  imports Contact_Create Availability
begin

text \<open>
  Deletion, transfer and availability of contacts: \<^verbatim>\<open>contact/delete_contact.cc\<close>,
  \<^verbatim>\<open>contact/transfer_contact.cc\<close>, \<^verbatim>\<open>contact/check_contact.cc\<close>.
\<close>

section \<open>Deletion\<close>

definition translate_delete_contact :: "exn \<Rightarrow> ('db, exn, 'a) op" where
  "translate_delete_contact e =
     (case e of
        LibfredException (DeleteContactByHandleException unknown linked) \<Rightarrow>
          if unknown then throwE e
          else if linked then throwE (fail_with object_status_prohibits_operation)
          else throwE e
      | _ \<Rightarrow> throwE e)"

lemma rethrows_translate_delete_contact [simp]: "rethrows translate_delete_contact"
  by (auto simp: rethrows_def translate_delete_contact_def throwE_def
      split: exn.split libfred_exception.split)

definition delete_contact ::
  "('db, 'x) libfred_contact_scheme \<Rightarrow> string \<Rightarrow> SessionData \<Rightarrow> ('db, exn, u64) op" where
  "delete_contact L h session =
     with_session session (
     bindE (catchE (InfoContactByHandle L True h) translate_unknown_contact) (\<lambda>contact_data_before_delete.
     bindE (InfoRegistrarById L (registrar_id session)) (\<lambda>session_registrar.
     let is_system_registrar = is_system session_registrar;
         is_sponsoring_registrar =
           (con_sponsoring_registrar_handle contact_data_before_delete = registrar_handle session_registrar);
         is_operation_permitted = (is_system_registrar \<or> is_sponsoring_registrar) in
     throw_if (\<not> is_operation_permitted)
       (epp_failure (add_extended_error
          (of_scalar_parameter Param_registrar_autor Reason_unauthorized_registrar)
          (result_failure authorization_error))) (
     bindE (LockObjectStateRequestLock L (con_id contact_data_before_delete)) (\<lambda>_.
     bindE (PerformObjectStateRequest L (con_id contact_data_before_delete)) (\<lambda>_.
     bindE (GetObjectStates L (con_id contact_data_before_delete)) (\<lambda>states.
     throw_if (ObjectStatesInfo_presents L states Object_State_linked)
       (fail_with object_association_prohibits_operation) (
     throw_if (\<not> is_system_registrar \<and>
               (ObjectStatesInfo_presents L states Object_State_server_update_prohibited \<or>
                ObjectStatesInfo_presents L states Object_State_server_delete_prohibited \<or>
                ObjectStatesInfo_presents L states Object_State_delete_candidate))
       (fail_with object_status_prohibits_operation) (
     catchE
       (bindE (DeleteContactByHandle L h) (\<lambda>_.
        bindE (whenE (\<not> is_sponsoring_registrar)
                 (CreatePollMessage L delete_contact_message (con_historyid contact_data_before_delete))) (\<lambda>_.
        returnE (con_historyid contact_data_before_delete))))
       translate_delete_contact)))))))))"

section \<open>Transfer\<close>

definition translate_transfer_contact :: "exn \<Rightarrow> ('db, exn, 'a) op" where
  "translate_transfer_contact e =
     (case e of
        LibfredException UnknownContactId \<Rightarrow> throwE (fail_with object_does_not_exist)
      | LibfredException IncorrectAuthInfoPw \<Rightarrow> throwE (fail_with invalid_authorization_information)
      | LibfredException NewRegistrarIsAlreadySponsoring \<Rightarrow>
          throwE (fail_with object_is_not_eligible_for_transfer)
      | _ \<Rightarrow> throwE e)"

lemma rethrows_translate_transfer_contact [simp]: "rethrows translate_transfer_contact"
  by (auto simp: rethrows_def translate_transfer_contact_def throwE_def
      split: exn.split libfred_exception.split)

text \<open>The contact is asked for twice; the second answer is the one used.\<close>

definition transfer_contact ::
  "('db, 'x) libfred_contact_scheme \<Rightarrow> string \<Rightarrow> string \<Rightarrow> SessionData \<Rightarrow> ('db, exn, u64) op" where
  "transfer_contact L h authinfopw session =
     with_session session (
     bindE (catchE (InfoContactByHandle L True h) translate_unknown_contact) (\<lambda>_.
     bindE (InfoContactByHandle L True h) (\<lambda>contact_data_before_transfer.
     bindE (InfoRegistrarById L (registrar_id session)) (\<lambda>session_registrar.
     let is_sponsoring_registrar =
           (con_sponsoring_registrar_handle contact_data_before_transfer = registrar_handle session_registrar) in
     throw_if is_sponsoring_registrar (fail_with object_is_not_eligible_for_transfer) (
     let is_system_registrar = is_system session_registrar in
     bindE (whenE (\<not> is_system_registrar)
       (bindE (LockObjectStateRequestLock L (con_id contact_data_before_transfer)) (\<lambda>_.
        bindE (PerformObjectStateRequest L (con_id contact_data_before_transfer)) (\<lambda>_.
        bindE (GetObjectStates L (con_id contact_data_before_transfer)) (\<lambda>states.
        throw_if (ObjectStatesInfo_presents L states Object_State_server_transfer_prohibited \<or>
                  ObjectStatesInfo_presents L states Object_State_delete_candidate)
          (fail_with object_status_prohibits_operation) (returnE ())))))) (\<lambda>_.
     catchE
       (bindE (TransferContact L (con_id contact_data_before_transfer) (registrar_handle session_registrar)
                 authinfopw (logd_request_id session)) (\<lambda>post_transfer_history_id.
        bindE (CreatePollMessage L transfer_contact_message post_transfer_history_id) (\<lambda>_.
        returnE post_transfer_history_id)))
       translate_transfer_contact))))))"

section \<open>Availability\<close>

datatype ContactHandleRegistrationObstruction =
    Contact_invalid_handle
  | Contact_protected_handle
  | Contact_registered_handle

definition contact_obstruction_to_reason :: "ContactHandleRegistrationObstruction \<Rightarrow> Reason" where
  "contact_obstruction_to_reason v =
     (case v of
        Contact_invalid_handle \<Rightarrow> Reason_invalid_handle
      | Contact_registered_handle \<Rightarrow> Reason_existing
      | Contact_protected_handle \<Rightarrow> Reason_protected_period)"

text \<open>\<open>None\<close> is the exception \<^verbatim>\<open>MissingLocalizedDescription\<close>.\<close>

definition contact_obstruction_from_reason :: "Reason \<Rightarrow> ContactHandleRegistrationObstruction option" where
  "contact_obstruction_from_reason r =
     (case r of
        Reason_invalid_handle \<Rightarrow> Some Contact_invalid_handle
      | Reason_existing \<Rightarrow> Some Contact_registered_handle
      | Reason_protected_period \<Rightarrow> Some Contact_protected_handle
      | _ \<Rightarrow> None)"

definition contact_handle_state_to_check_result ::
  "SyntaxValidity \<Rightarrow> Registrability \<Rightarrow> ContactHandleRegistrationObstruction option" where
  "contact_handle_state_to_check_result handle_validity handle_registrability =
     (case handle_registrability of
        registered \<Rightarrow> Some Contact_registered_handle
      | in_protection_period \<Rightarrow> Some Contact_protected_handle
      | available \<Rightarrow>
          (case handle_validity of
             syntax_invalid \<Rightarrow> Some Contact_invalid_handle
           | syntax_valid \<Rightarrow> None))"

fun check_contact_loop ::
  "('db, 'x) libfred_contact_scheme \<Rightarrow> string list \<Rightarrow>
     (string \<times> ContactHandleRegistrationObstruction option) list \<Rightarrow>
     ('db, exn, (string \<times> ContactHandleRegistrationObstruction option) list) op" where
  "check_contact_loop L [] result = returnE result"
| "check_contact_loop L (h # hs) result =
     bindE (Contact_get_handle_syntax_validity L h) (\<lambda>validity.
     bindE (Contact_get_handle_registrability L h) (\<lambda>registrability.
     check_contact_loop L hs (map_assign string_less h
       (contact_handle_state_to_check_result validity registrability) result)))"

definition check_contact ::
  "('db, 'x) libfred_contact_scheme \<Rightarrow> string list \<Rightarrow> SessionData \<Rightarrow>
     ('db, exn, (string \<times> ContactHandleRegistrationObstruction option) list) op" where
  "check_contact L contact_handles session =
     with_session session (check_contact_loop L contact_handles [])"

section \<open>The guard\<close>

interpretation delete_contact: session_guarded "delete_contact L h" for L h
  by unfold_locales (simp add: delete_contact_def with_session_refuses)

interpretation transfer_contact: session_guarded "transfer_contact L h pw" for L h pw
  by unfold_locales (simp add: transfer_contact_def with_session_refuses)

interpretation check_contact: session_guarded "check_contact L hs" for L hs
  by unfold_locales (simp add: check_contact_def with_session_refuses)

section \<open>What the commands guarantee\<close>

lemma delete_contact_returns:
  assumes "delete_contact L h session db = (Inr history_id, db')"
  shows "\<exists>d r states db1 db2 db3 db4 db5 db6.
    InfoContactByHandle L True h db = (Inr d, db1) \<and>
    InfoRegistrarById L (registrar_id session) db1 = (Inr r, db2) \<and>
    (is_system r \<or> con_sponsoring_registrar_handle d = registrar_handle r) \<and>
    LockObjectStateRequestLock L (con_id d) db2 = (Inr (), db3) \<and>
    PerformObjectStateRequest L (con_id d) db3 = (Inr (), db4) \<and>
    GetObjectStates L (con_id d) db4 = (Inr states, db5) \<and>
    \<not> ObjectStatesInfo_presents L states Object_State_linked \<and>
    (is_system r \<or>
     (\<forall>s \<in> {Object_State_server_update_prohibited, Object_State_server_delete_prohibited,
            Object_State_delete_candidate}. \<not> ObjectStatesInfo_presents L states s)) \<and>
    DeleteContactByHandle L h db5 = (Inr (), db6) \<and>
    (if con_sponsoring_registrar_handle d = registrar_handle r then db' = db6
     else CreatePollMessage L delete_contact_message (con_historyid d) db6 = (Inr (), db')) \<and>
    history_id = con_historyid d"
  using assms unfolding delete_contact_def
  by (simp add: op_inv catchE_rethrows Let_def split: if_splits; blast)

lemma transfer_contact_returns:
  assumes "transfer_contact L h pw session db = (Inr history_id, db')"
  shows "\<exists>d r d0 db0 db1 db2 db3 db4.
    InfoContactByHandle L True h db = (Inr d0, db0) \<and>
    InfoContactByHandle L True h db0 = (Inr d, db1) \<and>
    InfoRegistrarById L (registrar_id session) db1 = (Inr r, db2) \<and>
    con_sponsoring_registrar_handle d \<noteq> registrar_handle r \<and>
    (is_system r \<and> db3 = db2 \<or>
     (\<exists>dba dbb states. LockObjectStateRequestLock L (con_id d) db2 = (Inr (), dba) \<and>
        PerformObjectStateRequest L (con_id d) dba = (Inr (), dbb) \<and>
        GetObjectStates L (con_id d) dbb = (Inr states, db3) \<and>
        \<not> ObjectStatesInfo_presents L states Object_State_server_transfer_prohibited \<and>
        \<not> ObjectStatesInfo_presents L states Object_State_delete_candidate)) \<and>
    TransferContact L (con_id d) (registrar_handle r) pw (logd_request_id session) db3 = (Inr history_id, db4) \<and>
    CreatePollMessage L transfer_contact_message history_id db4 = (Inr (), db')"
  using assms unfolding transfer_contact_def
  by (auto simp: op_inv catchE_rethrows Let_def split: if_splits)

interpretation check_contact_loop: availability_loop
    "\<lambda>h. bindE (Contact_get_handle_syntax_validity L h) (\<lambda>validity.
       bindE (Contact_get_handle_registrability L h) (\<lambda>registrability.
       returnE (contact_handle_state_to_check_result validity registrability)))"
    "check_contact_loop L" for L
  by unfold_locales (simp_all add: bindE_assoc bindE_returnE)

lemma check_contact_run:
  assumes "contact_queries L db syntax contacts countries" and "is_session_registrar_valid session"
  shows "\<exists>result. check_contact L hs session db = (Inr result, db) \<and>
    (\<forall>h. map_find string_less h result =
      (if h \<in> set hs then Some (contact_handle_state_to_check_result (syntax h) (contacts h)) else None))"
proof -
  have "reads (bindE (Contact_get_handle_syntax_validity L h) (\<lambda>validity.
      bindE (Contact_get_handle_registrability L h) (\<lambda>registrability.
      returnE (contact_handle_state_to_check_result validity registrability)))) db
    (contact_handle_state_to_check_result (syntax h) (contacts h))" for h
    using assms(1) unfolding contact_queries_def by (simp add: reads_def op_simps)
  from check_contact_loop.loop_run [OF this, of hs "[]"] show ?thesis
    unfolding check_contact_def with_session_valid [OF assms(2)] map_find.simps .
qed

lemma contact_obstruction_None_iff:
  "contact_handle_state_to_check_result v r = None \<longleftrightarrow> v = syntax_valid \<and> r = available"
  by (cases v; cases r) (simp_all add: contact_handle_state_to_check_result_def)

end
