(* ===== verification/Contact_Info.thy ===== *)
theory Contact_Info
  imports Contact_Commands
begin

text \<open>
  Information on a contact and what of it is shown to whom: \<^verbatim>\<open>contact/info_contact.cc\<close>,
  \<^verbatim>\<open>contact/impl/contact_output.cc\<close>, \<^verbatim>\<open>contact/impl/contact_data_share_policy_rules.cc\<close>,
  \<^verbatim>\<open>contact/impl/get_contact_data_share_policy_rules.cc\<close>, \<^verbatim>\<open>contact/status_value.hh\<close>.
\<close>

section \<open>Status values\<close>

datatype ContactStatusValue =
    ContactStatus_linked
  | ContactStatus_server_transfer_prohibited
  | ContactStatus_server_delete_prohibited
  | ContactStatus_server_update_prohibited
  | ContactStatus_delete_candidate
  | ContactStatus_conditionally_identified_contact
  | ContactStatus_identified_contact
  | ContactStatus_validated_contact
  | ContactStatus_mojeid_contact
  | ContactStatus_server_contact_name_change_prohibited
  | ContactStatus_server_contact_organization_change_prohibited
  | ContactStatus_server_contact_ident_change_prohibited
  | ContactStatus_server_contact_permanent_address_change_prohibited

definition contact_status_of_object_state :: "Object_State \<Rightarrow> exn + ContactStatusValue" where
  "contact_status_of_object_state v =
     (case v of
        Object_State_conditionally_identified_contact \<Rightarrow> Inr ContactStatus_conditionally_identified_contact
      | Object_State_delete_candidate \<Rightarrow> Inr ContactStatus_delete_candidate
      | Object_State_identified_contact \<Rightarrow> Inr ContactStatus_identified_contact
      | Object_State_linked \<Rightarrow> Inr ContactStatus_linked
      | Object_State_mojeid_contact \<Rightarrow> Inr ContactStatus_mojeid_contact
      | Object_State_server_delete_prohibited \<Rightarrow> Inr ContactStatus_server_delete_prohibited
      | Object_State_server_transfer_prohibited \<Rightarrow> Inr ContactStatus_server_transfer_prohibited
      | Object_State_server_update_prohibited \<Rightarrow> Inr ContactStatus_server_update_prohibited
      | Object_State_validated_contact \<Rightarrow> Inr ContactStatus_validated_contact
      | Object_State_server_contact_name_change_prohibited \<Rightarrow>
          Inr ContactStatus_server_contact_name_change_prohibited
      | Object_State_server_contact_organization_change_prohibited \<Rightarrow>
          Inr ContactStatus_server_contact_organization_change_prohibited
      | Object_State_server_contact_ident_change_prohibited \<Rightarrow>
          Inr ContactStatus_server_contact_ident_change_prohibited
      | Object_State_server_contact_permanent_address_change_prohibited \<Rightarrow>
          Inr ContactStatus_server_contact_permanent_address_change_prohibited
      | _ \<Rightarrow> Inl (StdException ''value not convertible to Epp::Contact::StatusValue::Enum''))"

definition contact_status_to_object_state :: "ContactStatusValue \<Rightarrow> Object_State" where
  "contact_status_to_object_state v =
     (case v of
        ContactStatus_conditionally_identified_contact \<Rightarrow> Object_State_conditionally_identified_contact
      | ContactStatus_delete_candidate \<Rightarrow> Object_State_delete_candidate
      | ContactStatus_identified_contact \<Rightarrow> Object_State_identified_contact
      | ContactStatus_linked \<Rightarrow> Object_State_linked
      | ContactStatus_mojeid_contact \<Rightarrow> Object_State_mojeid_contact
      | ContactStatus_server_delete_prohibited \<Rightarrow> Object_State_server_delete_prohibited
      | ContactStatus_server_transfer_prohibited \<Rightarrow> Object_State_server_transfer_prohibited
      | ContactStatus_server_update_prohibited \<Rightarrow> Object_State_server_update_prohibited
      | ContactStatus_validated_contact \<Rightarrow> Object_State_validated_contact
      | ContactStatus_server_contact_name_change_prohibited \<Rightarrow>
          Object_State_server_contact_name_change_prohibited
      | ContactStatus_server_contact_organization_change_prohibited \<Rightarrow>
          Object_State_server_contact_organization_change_prohibited
      | ContactStatus_server_contact_ident_change_prohibited \<Rightarrow>
          Object_State_server_contact_ident_change_prohibited
      | ContactStatus_server_contact_permanent_address_change_prohibited \<Rightarrow>
          Object_State_server_contact_permanent_address_change_prohibited)"

text \<open>The enumerators in their order, which is the order of \<^verbatim>\<open>std::set<StatusValue::Enum>\<close>.\<close>

definition contact_status_values :: "ContactStatusValue list" where
  "contact_status_values =
     [ContactStatus_linked, ContactStatus_server_transfer_prohibited, ContactStatus_server_delete_prohibited,
      ContactStatus_server_update_prohibited, ContactStatus_delete_candidate,
      ContactStatus_conditionally_identified_contact, ContactStatus_identified_contact,
      ContactStatus_validated_contact, ContactStatus_mojeid_contact,
      ContactStatus_server_contact_name_change_prohibited,
      ContactStatus_server_contact_organization_change_prohibited,
      ContactStatus_server_contact_ident_change_prohibited,
      ContactStatus_server_contact_permanent_address_change_prohibited]"

lemma contact_status_roundtrip:
  "contact_status_of_object_state (contact_status_to_object_state v) = Inr v"
  by (cases v) (simp_all add: contact_status_of_object_state_def contact_status_to_object_state_def)

section \<open>Who is shown private data\<close>

record Relationships =
  to_sponsoring_registrar :: bool
  to_authorized_registrar :: bool
  to_domain_holder :: bool
  to_admin_contact :: bool
  to_system_registrar :: bool
  to_other_relationship :: bool

datatype DataSharePolicy = cznic_specific | show_all

definition enabled_relationships :: "DataSharePolicy \<Rightarrow> Relationships" where
  "enabled_relationships data_share_policy =
     (case data_share_policy of
        cznic_specific \<Rightarrow> \<lparr>to_sponsoring_registrar = True, to_authorized_registrar = True,
          to_domain_holder = True, to_admin_contact = True, to_system_registrar = True,
          to_other_relationship = False\<rparr>
      | show_all \<Rightarrow> \<lparr>to_sponsoring_registrar = True, to_authorized_registrar = True,
          to_domain_holder = True, to_admin_contact = True, to_system_registrar = True,
          to_other_relationship = True\<rparr>)"

definition to_data_share_policy :: "string \<Rightarrow> exn + DataSharePolicy" where
  "to_data_share_policy v =
     (if v = ''cznic_specific'' then Inr cznic_specific
      else if v = ''show_all'' then Inr show_all
      else Inl (StdException ''unable convert string to value of InfoContact::DataSharePolicy type''))"

text \<open>The function called for each configured name of a relationship.\<close>

definition on_registrars_role :: "string \<Rightarrow> Relationships \<Rightarrow> exn + Relationships" where
  "on_registrars_role relationship_name enabled =
     (if relationship_name = ''admin_contact'' then Inr (enabled\<lparr>to_admin_contact := True\<rparr>)
      else if relationship_name = ''authorized_registrar'' then Inr (enabled\<lparr>to_authorized_registrar := True\<rparr>)
      else if relationship_name = ''domain_holder'' then Inr (enabled\<lparr>to_domain_holder := True\<rparr>)
      else if relationship_name = ''other'' then Inr (enabled\<lparr>to_other_relationship := True\<rparr>)
      else if relationship_name = ''sponsoring_registrar'' then Inr (enabled\<lparr>to_sponsoring_registrar := True\<rparr>)
      else if relationship_name = ''system_registrar'' then Inr (enabled\<lparr>to_system_registrar := True\<rparr>)
      else Inl (StdException ''Invalid relationship name''))"

fun enable_registrars_roles :: "string list \<Rightarrow> Relationships \<Rightarrow> exn + Relationships" where
  "enable_registrars_roles [] enabled = Inr enabled"
| "enable_registrars_roles (name # names) enabled =
     (case on_registrars_role name enabled of
        Inl e \<Rightarrow> Inl e
      | Inr enabled' \<Rightarrow> enable_registrars_roles names enabled')"

text \<open>The two options of the configuration: the policy, and the relationships when it is empty.\<close>

definition get_contact_data_share_policy_rules :: "string \<Rightarrow> string list \<Rightarrow> exn + Relationships" where
  "get_contact_data_share_policy_rules data_share_policy_str show_private_data_to =
     (if data_share_policy_str = []
      then enable_registrars_roles show_private_data_to
             \<lparr>to_sponsoring_registrar = False, to_authorized_registrar = False, to_domain_holder = False,
              to_admin_contact = False, to_system_registrar = False, to_other_relationship = False\<rparr>
      else (case to_data_share_policy data_share_policy_str of
              Inl e \<Rightarrow> Inl e
            | Inr policy \<Rightarrow> Inr (enabled_relationships policy)))"

definition is_visibility_restricted :: "Relationships \<Rightarrow> bool" where
  "is_visibility_restricted rel \<longleftrightarrow>
     \<not> to_admin_contact rel \<or> \<not> to_domain_holder rel \<or> \<not> to_other_relationship rel \<or>
     \<not> to_sponsoring_registrar rel \<or> \<not> to_system_registrar rel"

definition contact_is_registrars_domain_holder ::
  "('db, 'x) libfred_contact_scheme \<Rightarrow> u64 \<Rightarrow> u64 \<Rightarrow> ('db, exn, bool) op" where
  "contact_is_registrars_domain_holder L registrar contact =
     bindE (select_domain_holder L registrar contact) (\<lambda>rows. returnE (0 < rows))"

definition contact_is_registrars_domain_admin_contact ::
  "('db, 'x) libfred_contact_scheme \<Rightarrow> u64 \<Rightarrow> u64 \<Rightarrow> ('db, exn, bool) op" where
  "contact_is_registrars_domain_admin_contact L registrar contact =
     bindE (select_domain_admin_contact L registrar contact) (\<lambda>rows. returnE (0 < rows))"

abbreviation InvalidAuthorizationInformation :: exn where
  "InvalidAuthorizationInformation \<equiv> StdException ''authinfo does not match''"

definition authorize_registrar_request ::
  "('db, 'x) libfred_contact_scheme \<Rightarrow> InfoContactData \<Rightarrow> Password \<Rightarrow> ('db, exn, unit) op" where
  "authorize_registrar_request L contact_data password =
     bindE (CheckAuthinfo L (con_id contact_data) (password_value password)) (\<lambda>matches.
     throw_if (\<not> 0 < matches) InvalidAuthorizationInformation (returnE ()))"

text \<open>\<^verbatim>\<open>if (!disclosed) set_null(value)\<close>.\<close>

definition null_unless :: "bool \<Rightarrow> 'a option \<Rightarrow> 'a option" where
  "null_unless disclosed v = (if \<not> disclosed then None else v)"

definition hide_private_data :: "InfoContactData \<Rightarrow> InfoContactData" where
  "hide_private_data d = d\<lparr>
     con_mailing_address := null_unless (con_discloseaddress d) (con_mailing_address d),
     con_place := null_unless (con_discloseaddress d) (con_place d),
     con_email := null_unless (con_discloseemail d) (con_email d),
     con_fax := null_unless (con_disclosefax d) (con_fax d),
     con_ssn := null_unless (con_discloseident d) (con_ssn d),
     con_ssntype := null_unless (con_discloseident d) (con_ssntype d),
     con_name := null_unless (con_disclosename d) (con_name d),
     con_notifyemail := null_unless (con_disclosenotifyemail d) (con_notifyemail d),
     con_organization := null_unless (con_discloseorganization d) (con_organization d),
     con_telephone := null_unless (con_disclosetelephone d) (con_telephone d),
     con_vat := null_unless (con_disclosevat d) (con_vat d)\<rparr>"

text \<open>The operators of C++ evaluate their second operand only when the first leaves the result open.\<close>

definition or_else :: "('db, 'e, bool) op \<Rightarrow> ('db, 'e, bool) op \<Rightarrow> ('db, 'e, bool) op" where
  "or_else a b = bindE a (\<lambda>x. if x then returnE True else b)"

definition and_also :: "('db, 'e, bool) op \<Rightarrow> ('db, 'e, bool) op \<Rightarrow> ('db, 'e, bool) op" where
  "and_also a b = bindE a (\<lambda>x. if x then b else returnE False)"

definition negated :: "('db, 'e, bool) op \<Rightarrow> ('db, 'e, bool) op" where
  "negated a = bindE a (\<lambda>x. returnE (\<not> x))"

definition share_policy_apply ::
  "('db, 'x) libfred_contact_scheme \<Rightarrow> Relationships \<Rightarrow> Password \<Rightarrow> SessionData \<Rightarrow> InfoContactData \<Rightarrow>
     ('db, exn, InfoContactData) op" where
  "share_policy_apply L rel contact_authinfopw session contact_data =
     bindE (InfoRegistrarById L (registrar_id session)) (\<lambda>session_registrar.
     bindE (if to_authorized_registrar rel \<and> password_value contact_authinfopw \<noteq> []
            then bindE (authorize_registrar_request L contact_data contact_authinfopw) (\<lambda>_. returnE True)
            else returnE False) (\<lambda>show_private_data.
     let is_sponsoring_registrar =
           (registrar_handle session_registrar = con_sponsoring_registrar_handle contact_data) in
     if \<not> show_private_data \<and> is_visibility_restricted rel then
       let is_domain_holder = contact_is_registrars_domain_holder L (registrar_id session) (con_id contact_data);
           is_admin_contact = contact_is_registrars_domain_admin_contact L (registrar_id session) (con_id contact_data);
           is_system_registrar = is_system session_registrar in
       bindE (or_else (returnE (to_sponsoring_registrar rel \<and> is_sponsoring_registrar))
             (or_else (and_also (returnE (to_domain_holder rel)) is_domain_holder)
             (or_else (and_also (returnE (to_admin_contact rel)) is_admin_contact)
                      (returnE (to_system_registrar rel \<and> is_system_registrar))))) (\<lambda>show_private_data.
       bindE (if \<not> show_private_data \<and> to_other_relationship rel
              then and_also (returnE (to_sponsoring_registrar rel \<or> \<not> is_sponsoring_registrar))
                  (and_also (or_else (returnE (to_domain_holder rel)) (negated is_domain_holder))
                  (and_also (or_else (returnE (to_admin_contact rel)) (negated is_admin_contact))
                            (returnE (to_system_registrar rel \<or> \<not> is_system_registrar))))
              else returnE show_private_data) (\<lambda>show_private_data.
       returnE (if \<not> show_private_data then hide_private_data contact_data else contact_data)))
     else returnE contact_data))"

section \<open>The output\<close>

record InfoContactOutputData =
  icon_handle :: string
  icon_roid :: string
  icon_sponsoring_registrar_handle :: string
  icon_creating_registrar_handle :: string
  icon_last_update_registrar_handle :: "string option"
  icon_states :: "ContactStatusValue set"
  icon_crdate :: ptime
  icon_last_update :: "ptime option"
  icon_last_transfer :: "ptime option"
  icon_name :: "string option Hideable"
  icon_organization :: "string option Hideable"
  icon_address :: "string option Address option Hideable"
  icon_mailing_address :: "string option Address option"
  icon_telephone :: "string option Hideable"
  icon_fax :: "string option Hideable"
  icon_email :: "string option Hideable"
  icon_notify_email :: "string option Hideable"
  icon_vat :: "string option Hideable"
  icon_personal_id :: "ContactIdent option Hideable"

definition to_hideable :: "'a \<Rightarrow> bool \<Rightarrow> 'a Hideable" where
  "to_hideable v to_disclose = (if to_disclose then make_public_data v else make_private_data v)"

definition string_to_optional :: "string \<Rightarrow> string option" where
  "string_to_optional v = (if v = [] then None else Some v)"

definition place_to_address :: "PlaceAddress \<Rightarrow> string option Address" where
  "place_to_address a = \<lparr>
     street = Rows (string_to_optional (street1 a)) (street2 a) (street3 a),
     city = string_to_optional (place_city a),
     state_or_province = stateorprovince a,
     postal_code = string_to_optional (postalcode a),
     country_code = string_to_optional (country a)\<rparr>"

definition place_to_optional :: "PlaceAddress option \<Rightarrow> string option Address option" where
  "place_to_optional nullable = (case nullable of None \<Rightarrow> None | Some a \<Rightarrow> Some (place_to_address a))"

definition get_contact_ident ::
  "('db, 'x) libfred_contact_scheme \<Rightarrow> string option \<Rightarrow> string option \<Rightarrow> exn + ContactIdent option" where
  "get_contact_ident L ssn ssn_type =
     (case (ssn, ssn_type) of
        (Some v, Some t) \<Rightarrow>
          if personal_id_type L (get_OP v) = t then Inr (Some (Ident_Op v))
          else if personal_id_type L (get_PASS v) = t then Inr (Some (Ident_Pass v))
          else if personal_id_type L (get_ICO v) = t then Inr (Some (Ident_Ico v))
          else if personal_id_type L (get_MPSV v) = t then Inr (Some (Ident_Mpsv v))
          else if personal_id_type L (get_BIRTHDAY v) = t then Inr (Some (Ident_Birthday v))
          else if personal_id_type L (get_RC v) = t then Inr None
          else Inl (StdException ''Invalid ident type.'')
      | _ \<Rightarrow> Inr None)"

text \<open>The states that are not told.\<close>

definition untold_states :: "Object_State set" where
  "untold_states = {Object_State_contact_failed_manual_verification, Object_State_contact_in_manual_verification,
     Object_State_contact_passed_manual_verification, Object_State_server_blocked}"

fun contact_external_states ::
  "(string \<Rightarrow> exn + Object_State) \<Rightarrow> ObjectStateData list \<Rightarrow> ContactStatusValue set \<Rightarrow>
     exn + ContactStatusValue set" where
  "contact_external_states from_db_handle [] acc = Inr acc"
| "contact_external_states from_db_handle (d # ds) acc =
     (if is_external d
      then (case from_db_handle (state_name d) of
              Inl e \<Rightarrow> Inl e
            | Inr s \<Rightarrow>
                if s \<in> untold_states then contact_external_states from_db_handle ds acc
                else (case contact_status_of_object_state s of
                        Inl e \<Rightarrow> Inl e
                      | Inr v \<Rightarrow> contact_external_states from_db_handle ds (insert v acc)))
      else contact_external_states from_db_handle ds acc)"

definition get_info_contact_output ::
  "('db, 'x) libfred_contact_scheme \<Rightarrow> InfoContactData \<Rightarrow> ObjectStateData list \<Rightarrow> exn + InfoContactOutputData" where
  "get_info_contact_output L d object_state_data =
     (case contact_external_states (object_state_from_db_handle L) object_state_data {} of
        Inl e \<Rightarrow> Inl e
      | Inr states \<Rightarrow>
     (case get_contact_ident L (con_ssn d) (con_ssntype d) of
        Inl e \<Rightarrow> Inl e
      | Inr ident \<Rightarrow> Inr \<lparr>
          icon_handle = con_handle d,
          icon_roid = con_roid d,
          icon_sponsoring_registrar_handle = con_sponsoring_registrar_handle d,
          icon_creating_registrar_handle = con_create_registrar_handle d,
          icon_last_update_registrar_handle = con_update_registrar_handle d,
          icon_states = states,
          icon_crdate = con_creation_time d,
          icon_last_update = con_update_time d,
          icon_last_transfer = con_transfer_time d,
          icon_name = to_hideable (con_name d) (con_disclosename d),
          icon_organization = to_hideable (con_organization d) (con_discloseorganization d),
          icon_address = to_hideable (place_to_optional (con_place d)) (con_discloseaddress d),
          icon_mailing_address = place_to_optional (con_mailing_address d),
          icon_telephone = to_hideable (con_telephone d) (con_disclosetelephone d),
          icon_fax = to_hideable (con_fax d) (con_disclosefax d),
          icon_email = to_hideable (con_email d) (con_discloseemail d),
          icon_notify_email = to_hideable (con_notifyemail d) (con_disclosenotifyemail d),
          icon_vat = to_hideable (con_vat d) (con_disclosevat d),
          icon_personal_id = to_hideable ident (con_discloseident d)\<rparr>))"

definition translate_info_contact :: "exn \<Rightarrow> ('db, exn, 'a) op" where
  "translate_info_contact e =
     (if e = InvalidAuthorizationInformation then throwE (fail_with invalid_authorization_information)
      else translate_unknown_contact e)"

lemma rethrows_translate_info_contact [simp]: "rethrows translate_info_contact"
  by (auto simp: rethrows_def translate_info_contact_def translate_unknown_contact_def throwE_def
      split: exn.split libfred_exception.split)

definition info_contact ::
  "('db, 'x) libfred_contact_scheme \<Rightarrow> string \<Rightarrow> Relationships \<Rightarrow> Password \<Rightarrow> SessionData \<Rightarrow>
     ('db, exn, InfoContactOutputData) op" where
  "info_contact L h rel authinfopw session =
     with_session session (
     catchE
       (bindE (InfoContactByHandle L (password_value authinfopw \<noteq> []) h) (\<lambda>info_contact_data.
        bindE (GetObjectStates L (con_id info_contact_data)) (\<lambda>contact_states_data.
        bindE (share_policy_apply L rel authinfopw session info_contact_data) (\<lambda>info_contact_data.
        liftE (get_info_contact_output L info_contact_data contact_states_data)))))
       translate_info_contact)"

interpretation info_contact: session_guarded "info_contact L h rel pw" for L h rel pw
  by unfold_locales (simp add: info_contact_def with_session_refuses)

section \<open>What the policy means\<close>

text \<open>
  The abstract policy: a registrar stands to a contact in some of four relationships, or in the
  relationship \<^verbatim>\<open>OtherRelationship\<close> when it stands in none of them, and is shown private data
  exactly when one of its relationships is enabled.
\<close>

datatype Relationship =
    SponsoringRegistrar | DomainHolder | AdminContact | SystemRegistrar | OtherRelationship

definition enabled_set :: "Relationships \<Rightarrow> Relationship set" where
  "enabled_set rel =
     {x. (x = SponsoringRegistrar \<and> to_sponsoring_registrar rel) \<or> (x = DomainHolder \<and> to_domain_holder rel) \<or>
         (x = AdminContact \<and> to_admin_contact rel) \<or> (x = SystemRegistrar \<and> to_system_registrar rel) \<or>
         (x = OtherRelationship \<and> to_other_relationship rel)}"

definition held_relationships :: "bool \<Rightarrow> bool \<Rightarrow> bool \<Rightarrow> bool \<Rightarrow> Relationship set" where
  "held_relationships sponsoring holder admin system =
     (let held = {x. (x = SponsoringRegistrar \<and> sponsoring) \<or> (x = DomainHolder \<and> holder) \<or>
                     (x = AdminContact \<and> admin) \<or> (x = SystemRegistrar \<and> system)} in
      if held = {} then {OtherRelationship} else held)"

lemma enabled_iff:
  "SponsoringRegistrar \<in> enabled_set rel \<longleftrightarrow> to_sponsoring_registrar rel"
  "DomainHolder \<in> enabled_set rel \<longleftrightarrow> to_domain_holder rel"
  "AdminContact \<in> enabled_set rel \<longleftrightarrow> to_admin_contact rel"
  "SystemRegistrar \<in> enabled_set rel \<longleftrightarrow> to_system_registrar rel"
  "OtherRelationship \<in> enabled_set rel \<longleftrightarrow> to_other_relationship rel"
  by (simp_all add: enabled_set_def)

lemma shown_iff:
  "enabled_set rel \<inter> held_relationships sponsoring holder admin system \<noteq> {} \<longleftrightarrow>
     to_sponsoring_registrar rel \<and> sponsoring \<or> to_domain_holder rel \<and> holder \<or>
     to_admin_contact rel \<and> admin \<or> to_system_registrar rel \<and> system \<or>
     to_other_relationship rel \<and> \<not> sponsoring \<and> \<not> holder \<and> \<not> admin \<and> \<not> system"
proof (cases "sponsoring \<or> holder \<or> admin \<or> system")
  case True
  then have "held_relationships sponsoring holder admin system =
      {x. (x = SponsoringRegistrar \<and> sponsoring) \<or> (x = DomainHolder \<and> holder) \<or>
          (x = AdminContact \<and> admin) \<or> (x = SystemRegistrar \<and> system)}"
    by (auto simp: held_relationships_def)
  with True show ?thesis by (auto simp: enabled_set_def)
next
  case False
  then show ?thesis by (auto simp: held_relationships_def enabled_set_def)
qed

text \<open>The answers the decision rests on.\<close>

definition contact_relations ::
  "('db, 'x) libfred_contact_scheme \<Rightarrow> 'db \<Rightarrow> SessionData \<Rightarrow> InfoContactData \<Rightarrow> InfoRegistrarData \<Rightarrow> nat \<Rightarrow> nat \<Rightarrow> bool" where
  "contact_relations L db session d r holder admin \<longleftrightarrow>
     reads (InfoRegistrarById L (registrar_id session)) db r \<and>
     reads (select_domain_holder L (registrar_id session) (con_id d)) db holder \<and>
     reads (select_domain_admin_contact L (registrar_id session) (con_id d)) db admin"

abbreviation relationships_of :: "InfoContactData \<Rightarrow> InfoRegistrarData \<Rightarrow> nat \<Rightarrow> nat \<Rightarrow> Relationship set" where
  "relationships_of d r holder admin \<equiv>
     held_relationships (registrar_handle r = con_sponsoring_registrar_handle d) (0 < holder) (0 < admin) (is_system r)"

lemma logical_reads [op_simps]:
  "reads a db x \<Longrightarrow> (x \<or> reads b db y) \<Longrightarrow> reads (or_else a b) db (x \<or> y)"
  "reads a db x \<Longrightarrow> (\<not> x \<or> reads b db y) \<Longrightarrow> reads (and_also a b) db (x \<and> y)"
  "reads a db x \<Longrightarrow> reads (negated a) db (\<not> x)"
  "reads (returnE z) db z"
  by (auto simp: reads_def or_else_def and_also_def negated_def bindE_def returnE_def)

text \<open>The decision of the code, as a proposition.\<close>

lemma shown_decision:
  "(if \<not> (sp \<and> s \<or> dh \<and> h \<or> ac \<and> a \<or> sy \<and> y) \<and> ot
    then (sp \<or> \<not> s) \<and> (dh \<or> \<not> h) \<and> (ac \<or> \<not> a) \<and> (sy \<or> \<not> y)
    else sp \<and> s \<or> dh \<and> h \<or> ac \<and> a \<or> sy \<and> y) \<longleftrightarrow>
   sp \<and> s \<or> dh \<and> h \<or> ac \<and> a \<or> sy \<and> y \<or> ot \<and> \<not> s \<and> \<not> h \<and> \<not> a \<and> \<not> y"
  by argo

lemma share_policy_apply_run:
  assumes "contact_relations L db session d r holder admin"
    and "\<not> to_authorized_registrar rel \<or> password_value pw = []"
  shows "reads (share_policy_apply L rel pw session d) db
    (if enabled_set rel \<inter> relationships_of d r holder admin \<noteq> {} then d else hide_private_data d)"
proof (cases "is_visibility_restricted rel")
  case True
  let ?spons = "registrar_handle r = con_sponsoring_registrar_handle d"
  let ?holder = "contact_is_registrars_domain_holder L (registrar_id session) (con_id d)"
  let ?admin = "contact_is_registrars_domain_admin_contact L (registrar_id session) (con_id d)"
  let ?enabled = "to_sponsoring_registrar rel \<and> ?spons \<or> to_domain_holder rel \<and> 0 < holder \<or>
     to_admin_contact rel \<and> 0 < admin \<or> to_system_registrar rel \<and> is_system r"
  let ?other = "(to_sponsoring_registrar rel \<or> \<not> ?spons) \<and> (to_domain_holder rel \<or> \<not> 0 < holder) \<and>
     (to_admin_contact rel \<or> \<not> 0 < admin) \<and> (to_system_registrar rel \<or> \<not> is_system r)"
  have r: "reads (InfoRegistrarById L (registrar_id session)) db r"
    and h: "reads ?holder db (0 < holder)" and a: "reads ?admin db (0 < admin)"
    using assms(1) unfolding contact_relations_def contact_is_registrars_domain_holder_def
      contact_is_registrars_domain_admin_contact_def by (simp_all add: reads_def op_simps)
  have enabled: "reads (or_else (returnE (to_sponsoring_registrar rel \<and> ?spons))
      (or_else (and_also (returnE (to_domain_holder rel)) ?holder)
      (or_else (and_also (returnE (to_admin_contact rel)) ?admin)
         (returnE (to_system_registrar rel \<and> is_system r))))) db ?enabled"
    by (intro logical_reads h a disjI2)
  have "reads (and_also (returnE (to_sponsoring_registrar rel \<or> \<not> ?spons))
      (and_also (or_else (returnE (to_domain_holder rel)) (negated ?holder))
      (and_also (or_else (returnE (to_admin_contact rel)) (negated ?admin))
         (returnE (to_system_registrar rel \<or> \<not> is_system r))))) db ?other"
    by (intro logical_reads h a disjI2)
  then have chosen: "reads (if \<not> ?enabled \<and> to_other_relationship rel
      then and_also (returnE (to_sponsoring_registrar rel \<or> \<not> ?spons))
          (and_also (or_else (returnE (to_domain_holder rel)) (negated ?holder))
          (and_also (or_else (returnE (to_admin_contact rel)) (negated ?admin))
                    (returnE (to_system_registrar rel \<or> \<not> is_system r))))
      else returnE ?enabled) db (enabled_set rel \<inter> relationships_of d r holder admin \<noteq> {})"
    unfolding shown_iff shown_decision [symmetric] by (simp only: logical_reads(4) split: if_split) blast
  have unauthorized: "reads (if to_authorized_registrar rel \<and> password_value pw \<noteq> []
      then bindE (authorize_registrar_request L d pw) (\<lambda>_. returnE True) else returnE False) db False"
    using assms(2) by (auto simp: reads_def returnE_def)
  from True show ?thesis
    unfolding share_policy_apply_def reads_def Let_def bindE_reads [OF r] bindE_reads [OF unauthorized]
    by (simp only: simp_thms if_True bindE_reads [OF enabled] bindE_reads [OF chosen] returnE_run) simp
next
  case False
  have r: "reads (InfoRegistrarById L (registrar_id session)) db r"
    using assms(1) unfolding contact_relations_def by blast
  have "enabled_set rel \<inter> relationships_of d r holder admin \<noteq> {}"
    unfolding shown_iff using False by (auto simp: is_visibility_restricted_def)
  with False assms(2) show ?thesis
    unfolding share_policy_apply_def reads_def Let_def bindE_reads [OF r] by (auto simp: op_simps)
qed

lemma info_contact_run:
  assumes s: "is_session_registrar_valid session"
    and d: "reads (InfoContactByHandle L (password_value pw \<noteq> []) h) db d"
    and st: "reads (GetObjectStates L (con_id d)) db states"
    and rel: "contact_relations L db session d r holder admin"
    and pw: "\<not> to_authorized_registrar rel \<or> password_value pw = []"
  shows "info_contact L h rel pw session db =
    (case get_info_contact_output L
            (if enabled_set rel \<inter> relationships_of d r holder admin \<noteq> {} then d else hide_private_data d) states of
       Inr out \<Rightarrow> (Inr out, db)
     | Inl e \<Rightarrow> translate_info_contact e db)"
  using s unfolding info_contact_def
  by (simp add: op_simps catchE_def bindE_reads [OF d] bindE_reads [OF st]
      bindE_reads [OF share_policy_apply_run [OF rel pw]] liftE_def split: sum.split del: if_split)

text \<open>\<^verbatim>\<open>CheckAuthinfo\<close> with \<^verbatim>\<open>increment_usage\<close> counts that the password was used.\<close>

lemma info_contact_authorized:
  assumes "is_session_registrar_valid session"
    and "reads (InfoContactByHandle L (password_value pw \<noteq> []) h) db d"
    and "reads (GetObjectStates L (con_id d)) db states"
    and "contact_relations L db session d r holder admin"
    and "CheckAuthinfo L (con_id d) (password_value pw) db = (Inr matches, used)"
    and "to_authorized_registrar rel \<and> password_value pw \<noteq> []"
  shows "info_contact L h rel pw session db =
    (if 0 < matches
     then (case get_info_contact_output L d states of
             Inr out \<Rightarrow> (Inr out, used)
           | Inl e \<Rightarrow> translate_info_contact e used)
     else (Inl (fail_with invalid_authorization_information), used))"
  using assms unfolding info_contact_def contact_relations_def share_policy_apply_def authorize_registrar_request_def reads_def
  by (simp add: op_simps catchE_def bindE_def throw_if_def Let_def translate_info_contact_def split: sum.split)

section \<open>Identity documents round trip\<close>

text \<open>LibFred keeps the text of a document and gives the kinds different names.\<close>

definition personal_ids_distinct :: "('db, 'x) libfred_contact_scheme \<Rightarrow> bool" where
  "personal_ids_distinct L \<longleftrightarrow>
     (\<forall>v. personal_id_value L (get_OP v) = v \<and> personal_id_value L (get_PASS v) = v \<and>
          personal_id_value L (get_ICO v) = v \<and> personal_id_value L (get_MPSV v) = v \<and>
          personal_id_value L (get_BIRTHDAY v) = v \<and>
          distinct [personal_id_type L (get_OP v), personal_id_type L (get_PASS v), personal_id_type L (get_ICO v),
                    personal_id_type L (get_MPSV v), personal_id_type L (get_BIRTHDAY v)])"

lemma contact_ident_roundtrip:
  assumes "personal_ids_distinct L"
  shows "get_contact_ident L (Some (personal_id_value L (get_personal_id_union i)))
    (Some (personal_id_type L (get_personal_id_union i))) = Inr (Some i)"
  using assms unfolding personal_ids_distinct_def
  by (cases i) (auto simp: get_contact_ident_def get_personal_id_union_def)

end
