(* ===== verification/Contact_Localized.thy ===== *)
theory Contact_Localized
  imports Contact_Info
begin

text \<open>
  The entry points of the contact commands, \<^verbatim>\<open>contact/*_contact_localized.cc\<close>, except that of
  the update. The commands that change the database interpret the contract \<open>localized_update\<close>.
\<close>

section \<open>Commands that change the database\<close>

record CreateContactLocalizedResponse =
  contact_ok_response :: EppResponseSuccessLocalized
  contact_response_crdate :: ptime

definition create_contact_localized ::
  "('db, 'x) libfred_contact_scheme \<Rightarrow> ('db, 'y) database_scheme \<Rightarrow> string \<Rightarrow> CreateContactInputData \<Rightarrow>
     'db create_contact_filter \<Rightarrow> SessionData \<Rightarrow> NotificationData \<Rightarrow>
     ('db, thrown, CreateContactLocalizedResponse) op" where
  "create_contact_localized L D h data data_filter session notification_data =
     try_localized D (lang session) (with_context D (
       bindE (on_working (create_contact L h data data_filter session)) (\<lambda>result.
       bindE (on_working (response_success_localized D command_completed_successfully (lang session)))
         (\<lambda>epp_response_success_localized.
       bindE (commit D) (\<lambda>_.
       bindE (outside (conditionally_enqueue_notification L D notified_created
                (contact_create_history_id result) session notification_data)) (\<lambda>_.
       returnE \<lparr>contact_ok_response = epp_response_success_localized,
                contact_response_crdate = contact_crdate result\<rparr>))))))"

definition delete_contact_localized ::
  "('db, 'x) libfred_contact_scheme \<Rightarrow> ('db, 'y) database_scheme \<Rightarrow> string \<Rightarrow>
     SessionData \<Rightarrow> NotificationData \<Rightarrow> ('db, thrown, EppResponseSuccessLocalized) op" where
  "delete_contact_localized L D h session notification_data =
     try_localized D (lang session) (with_context D (
       bindE (on_working (delete_contact L h session)) (\<lambda>last_history_id_before_delete.
       bindE (on_working (response_success_localized D command_completed_successfully (lang session)))
         (\<lambda>epp_response_success_localized.
       bindE (commit D) (\<lambda>_.
       bindE (outside (conditionally_enqueue_notification L D notified_deleted
                last_history_id_before_delete session notification_data)) (\<lambda>_.
       returnE epp_response_success_localized))))))"

definition transfer_contact_localized ::
  "('db, 'x) libfred_contact_scheme \<Rightarrow> ('db, 'y) database_scheme \<Rightarrow> string \<Rightarrow> string \<Rightarrow>
     SessionData \<Rightarrow> NotificationData \<Rightarrow> ('db, thrown, EppResponseSuccessLocalized) op" where
  "transfer_contact_localized L D h authinfopw session notification_data =
     try_localized D (lang session) (with_context D (
       bindE (on_working (transfer_contact L h authinfopw session)) (\<lambda>post_transfer_history_id.
       bindE (on_working (response_success_localized D command_completed_successfully (lang session)))
         (\<lambda>epp_response_success_localized.
       bindE (commit D) (\<lambda>_.
       bindE (outside (conditionally_enqueue_notification L D notified_transferred
                post_transfer_history_id session notification_data)) (\<lambda>_.
       returnE epp_response_success_localized))))))"

section \<open>Commands that only read\<close>

record InfoContactLocalizedOutputData =
  lcon_handle :: string
  lcon_roid :: string
  lcon_sponsoring_registrar_handle :: string
  lcon_creating_registrar_handle :: string
  lcon_last_update_registrar_handle :: "string option"
  lcon_localized_external_states :: "ContactStatusValue ObjectStatesLocalized"
  lcon_crdate :: ptime
  lcon_last_update :: "ptime option"
  lcon_last_transfer :: "ptime option"
  lcon_name :: "string option Hideable"
  lcon_organization :: "string option Hideable"
  lcon_address :: "string option Address Hideable"
  lcon_mailing_address :: "string option Address option"
  lcon_telephone :: "string option Hideable"
  lcon_fax :: "string option Hideable"
  lcon_email :: "string option Hideable"
  lcon_notify_email :: "string option Hideable"
  lcon_vat :: "string option Hideable"
  lcon_ident :: "ContactIdent option Hideable"

definition to_localized_address :: "string option Address option \<Rightarrow> string option Address" where
  "to_localized_address src =
     (case src of
        Some a \<Rightarrow> a
      | None \<Rightarrow> \<lparr>street = Rows None None None, city = None, state_or_province = None, postal_code = None,
                  country_code = None\<rparr>)"

definition info_contact_localized ::
  "('db, 'x) libfred_contact_scheme \<Rightarrow> ('db, 'y) database_scheme \<Rightarrow> string \<Rightarrow> Relationships \<Rightarrow> Password \<Rightarrow>
     SessionData \<Rightarrow> ('db, thrown, EppResponseSuccessLocalized \<times> InfoContactLocalizedOutputData) op" where
  "info_contact_localized L D h rel authinfopw session =
     try_localized D (lang session) (with_context D (
       bindE (on_working (info_contact L h rel authinfopw session)) (\<lambda>src_data.
       bindE (on_working (localize_object_states D contact_status_to_object_state
                (filter (\<lambda>v. v \<in> icon_states src_data) contact_status_values) (lang session)))
         (\<lambda>states.
       bindE (on_working (liftE (make_with_the_same_privacy (icon_address src_data)
                (to_localized_address (hideable_value (icon_address src_data)))))) (\<lambda>address.
       let dst_data = \<lparr>
             lcon_handle = icon_handle src_data,
             lcon_roid = icon_roid src_data,
             lcon_sponsoring_registrar_handle = icon_sponsoring_registrar_handle src_data,
             lcon_creating_registrar_handle = icon_creating_registrar_handle src_data,
             lcon_last_update_registrar_handle = icon_last_update_registrar_handle src_data,
             lcon_localized_external_states = states,
             lcon_crdate = icon_crdate src_data,
             lcon_last_update = icon_last_update src_data,
             lcon_last_transfer = icon_last_transfer src_data,
             lcon_name = icon_name src_data,
             lcon_organization = icon_organization src_data,
             lcon_address = address,
             lcon_mailing_address = icon_mailing_address src_data,
             lcon_telephone = icon_telephone src_data,
             lcon_fax = icon_fax src_data,
             lcon_email = icon_email src_data,
             lcon_notify_email = icon_notify_email src_data,
             lcon_vat = icon_vat src_data,
             lcon_ident = icon_personal_id src_data\<rparr> in
       bindE (on_working (response_success_localized D command_completed_successfully (lang session)))
         (\<lambda>epp_response_success_localized.
       bindE (commit D) (\<lambda>_.
       returnE (epp_response_success_localized, dst_data))))))))"

definition check_contact_localized ::
  "('db, 'x) libfred_contact_scheme \<Rightarrow> ('db, 'y) database_scheme \<Rightarrow> string list \<Rightarrow> SessionData \<Rightarrow>
     ('db, thrown, EppResponseSuccessLocalized \<times>
        (string \<times> (ContactHandleRegistrationObstruction \<times> string) option) list) op" where
  "check_contact_localized L D contact_handles session =
     try_localized D (lang session) (with_context D (
       bindE (on_working (check_contact L contact_handles session)) (\<lambda>check_contact_results.
       bindE (on_working (response_success_localized D command_completed_successfully (lang session)))
         (\<lambda>epp_response_success_localized.
       bindE (on_working (localize_check_results D contact_obstruction_to_reason
                contact_obstruction_from_reason check_contact_results (lang session))) (\<lambda>results.
       returnE (epp_response_success_localized, results))))))"

section \<open>The contract\<close>

interpretation create_contact_localized: localized_update D "lang session"
    "create_contact L h data data_filter session"
    "\<lambda>r. conditionally_enqueue_notification L D notified_created (contact_create_history_id r) session nd"
    "\<lambda>response r. \<lparr>contact_ok_response = response, contact_response_crdate = contact_crdate r\<rparr>"
    "create_contact_localized L D h data data_filter session nd" for L D h data data_filter session nd
  by unfold_locales
    (simp_all only: create_contact_localized_def conditionally_enqueue_notification_returns)

interpretation delete_contact_localized: localized_update D "lang session" "delete_contact L h session"
    "\<lambda>r. conditionally_enqueue_notification L D notified_deleted r session nd"
    "\<lambda>response _. response" "delete_contact_localized L D h session nd" for L D h session nd
  by unfold_locales
    (simp_all only: delete_contact_localized_def conditionally_enqueue_notification_returns)

interpretation transfer_contact_localized: localized_update D "lang session" "transfer_contact L h pw session"
    "\<lambda>r. conditionally_enqueue_notification L D notified_transferred r session nd"
    "\<lambda>response _. response" "transfer_contact_localized L D h pw session nd" for L D h pw session nd
  by unfold_locales
    (simp_all only: transfer_contact_localized_def conditionally_enqueue_notification_returns)

end
