(* ===== verification/Contact_Sample.thy ===== *)
theory Contact_Sample
  imports Sample_Base Contact_Localized
begin

text \<open>
  The operations of LibFred on contacts in the registry of \<open>Sample_Base\<close>, on which the witnesses
  of the contact properties run the commands.
\<close>

definition sample_place :: PlaceAddress where
  "sample_place = \<lparr>street1 = ''Milesovska 5'', street2 = None, street3 = None, place_city = ''Praha'',
     stateorprovince = None, postalcode = ''13000'', country = ''CZ''\<rparr>"

text \<open>The contact \<^verbatim>\<open>CON1\<close> of the registrar 2; only its name, organization and address are public.\<close>

definition sample_contact :: InfoContactData where
  "sample_contact = \<lparr>con_id = 5, con_historyid = 50, con_handle = ''CON1'', con_roid = ''C5'',
     con_sponsoring_registrar_handle = ''REG-A'', con_create_registrar_handle = ''REG-A'',
     con_update_registrar_handle = None, con_creation_time = 0, con_update_time = None,
     con_transfer_time = None, con_name = Some ''Jan'', con_organization = None,
     con_place = Some sample_place, con_mailing_address = None, con_telephone = Some ''+420.1'', con_fax = None,
     con_email = Some ''jan@a.cz'', con_notifyemail = None, con_vat = None, con_ssntype = Some ''OP'',
     con_ssn = Some ''123'', con_disclosename = True, con_discloseorganization = True,
     con_discloseaddress = True, con_disclosetelephone = False, con_disclosefax = False,
     con_discloseemail = False, con_disclosevat = False, con_discloseident = False,
     con_disclosenotifyemail = False\<rparr>"

definition sample_contact_handles :: "string \<Rightarrow> Registrability" where
  "sample_contact_handles h =
     (if h = ''CON1'' then registered else if h = ''OLD'' then in_protection_period else available)"

fun sample_personal_id_type :: "PersonalIdUnion \<Rightarrow> string" where
  "sample_personal_id_type (get_OP _) = ''OP''"
| "sample_personal_id_type (get_PASS _) = ''PASS''"
| "sample_personal_id_type (get_ICO _) = ''ICO''"
| "sample_personal_id_type (get_MPSV _) = ''MPSV''"
| "sample_personal_id_type (get_BIRTHDAY _) = ''BIRTHDAY''"
| "sample_personal_id_type (get_RC _) = ''RC''"

fun sample_personal_id_value :: "PersonalIdUnion \<Rightarrow> string" where
  "sample_personal_id_value (get_OP v) = v"
| "sample_personal_id_value (get_PASS v) = v"
| "sample_personal_id_value (get_ICO v) = v"
| "sample_personal_id_value (get_MPSV v) = v"
| "sample_personal_id_value (get_BIRTHDAY v) = v"
| "sample_personal_id_value (get_RC v) = v"

text \<open>The states of every object and the contact \<^verbatim>\<open>CON1\<close> are given: \<^verbatim>\<open>st\<close>, \<^verbatim>\<open>d\<close>.\<close>

definition csample :: "ObjectStateData list \<Rightarrow> InfoContactData \<Rightarrow> changes libfred_contact" where
  "csample st d = \<lparr>
     InfoRegistrarById = (\<lambda>reg. returnE (sample_registrar reg)),
     LockObjectStateRequestLock = (\<lambda>_. returnE ()),
     PerformObjectStateRequest = (\<lambda>_. returnE ()),
     GetObjectStates = (\<lambda>_. returnE st),
     ObjectStatesInfo_presents = (\<lambda>ds s. list_ex (\<lambda>d. sample_from_db_handle (state_name d) = Inr s) ds),
     object_state_from_db_handle = sample_from_db_handle,
     CheckAuthinfo = (\<lambda>_ pw. if pw = ''secret'' then change ''authinfo used'' 1 else returnE 0),
     Contact_get_handle_registrability = (\<lambda>h. returnE (sample_contact_handles h)),
     CreatePollMessage = (\<lambda>_ _. change ''poll'' ()),
     Contact_get_handle_syntax_validity = (\<lambda>h. returnE (sample_syntax h)),
     select_enum_country = (\<lambda>cc. returnE (if cc \<in> {''CZ'', ''SK''} then 1 else 0)),
     personal_id_type = sample_personal_id_type,
     personal_id_value = sample_personal_id_value,
     InfoContactByHandle = (\<lambda>lock h.
       if h = ''CON1'' then returnE d else throwE (LibfredException (InfoContactByHandleException True))),
     CreateContact = (\<lambda>create_op. change (''create '' @ op_handle create_op) (10, 100, 0)),
     DeleteContactByHandle = (\<lambda>h. change (''delete '' @ h) ()),
     TransferContact = (\<lambda>i reg pw log.
       if pw = ''secret'' then change ''transfer'' 52 else throwE (LibfredException IncorrectAuthInfoPw)),
     select_domain_holder = (\<lambda>reg contact. returnE 0),
     select_domain_admin_contact = (\<lambda>reg contact. returnE 0)\<rparr>"

lemmas csample_run = csample_def sample_session_def sample_registrar_def sample_contact_def change_def
  op_simps Let_def is_system_def is_session_registrar_valid_def

definition sample_address :: "string Address" where
  "sample_address = \<lparr>street = Rows ''Milesovska 5'' [] [], city = ''Praha'', state_or_province = [],
     postal_code = ''13000'', country_code = ''CZ''\<rparr>"

definition sample_contact_create :: CreateContactInputData where
  "sample_contact_create = \<lparr>cc_name = make_public_data ''Jan'',
     cc_organization = make_data_with_unspecified_privacy [],
     cc_address = make_data_with_unspecified_privacy sample_address,
     cc_mailing_address = None,
     cc_telephone = make_private_data ''+420.1'',
     cc_fax = make_data_with_unspecified_privacy [],
     cc_email = make_data_with_unspecified_privacy ''jan@a.cz'',
     cc_notify_email = make_data_with_unspecified_privacy [],
     cc_vat = make_data_with_unspecified_privacy [],
     cc_ident = make_data_with_unspecified_privacy (Some (Ident_Op ''123''))\<rparr>"

definition sample_defaults :: "CreateDisclose DiscloseDefaults" where
  "sample_defaults = \<lparr>default_disclose_name = Create_show, default_disclose_organization = Create_show,
     default_disclose_address = Create_show, default_disclose_telephone = Create_hide,
     default_disclose_fax = Create_hide, default_disclose_email = Create_hide,
     default_disclose_vat = Create_hide, default_disclose_ident = Create_hide,
     default_disclose_notify_email = Create_hide\<rparr>"

lemma csample_queries:
  "contact_queries (csample st d) db sample_syntax sample_contact_handles {''CZ'', ''SK''}"
  by (simp add: contact_queries_def csample_def reads_def returnE_def)

lemma csample_relations:
  "contact_relations (csample st d) db (sample_session reg) d' (sample_registrar reg) 0 0"
  by (simp add: contact_relations_def csample_def sample_session_def reads_def returnE_def)

lemma csample_personal_ids: "personal_ids_distinct (csample st d)"
  by (simp add: personal_ids_distinct_def csample_def)

lemma sample_disclosure:
  "identity_public sample_defaults sample_contact_create" "disclosure_decided sample_defaults sample_contact_create"
  by (simp_all add: identity_public_def disclosure_decided_def disclosure_def sample_contact_create_def
      sample_defaults_def make_public_data_def make_private_data_def make_data_with_unspecified_privacy_def)

lemma sample_contact_create_run:
  "create_contact (csample st d) ''CON2'' sample_contact_create (cznic_create_contact_data_filter sample_defaults)
     (sample_session 2) db =
   (Inr \<lparr>contact_result_id = 10, contact_create_history_id = 100, contact_crdate = 0\<rparr>, ''create CON2'' # db)"
proof -
  have "create_contact_verdict sample_syntax sample_contact_handles {''CZ'', ''SK''} ''CON2'' sample_contact_create = None"
    by (simp add: create_contact_verdict_def create_contact_errors_def mailing_country_wrong_def sample_contact_create_def
        sample_address_def sample_syntax_def sample_contact_handles_def make_data_with_unspecified_privacy_def)
  moreover have "contact_creation (csample st d) ''CON2'' sample_contact_create
      (cznic_create_contact_data_filter sample_defaults) (sample_session 2) db =
    (Inr \<lparr>contact_result_id = 10, contact_create_history_id = 100, contact_crdate = 0\<rparr>, ''create CON2'' # db)"
    unfolding contact_creation_def
    by (simp add: csample_def sample_registrar_def sample_session_def op_simps
        bindE_reads [OF cznic_filter_accepts [OF sample_disclosure]] change_def disclose_by_def
        create_contact_op_def Let_def)
  ultimately show ?thesis
    using create_contact_by_verdict [OF csample_queries sample_session_valid(2)] by simp
qed

lemma sample_contact_delete_run:
  "delete_contact (csample [] sample_contact) ''CON1'' (sample_session 2) db = (Inr 50, ''delete CON1'' # db)"
  by (simp add: delete_contact_def csample_run)

lemma sample_contact_transfer_run:
  "transfer_contact (csample [] sample_contact) ''CON1'' ''secret'' (sample_session 3) db =
     (Inr 52, ''poll'' # ''transfer'' # db)"
  by (simp add: transfer_contact_def csample_run)

end
