(* ===== verification/Contact_Properties.thy ===== *)
theory Contact_Properties
  imports Contact_Sample
begin

text \<open>
  The properties of the contact commands: what creates a contact and what of it becomes public,
  who may delete and transfer it, what its answers show to whom, and that the data given come back.
\<close>

section \<open>Creation\<close>

text \<open>C13: \<^verbatim>\<open>create_contact\<close> follows its verdict: a handle of wrong syntax, a registered one, one in
  protection period, a country that is not known are refused with exactly these errors and without
  a change of the database; a country of the mailing address that is not known is refused with a
  failure that does not name it; in every other case the command does exactly the creation.\<close>

theorem create_contact_outcome:
  assumes "contact_queries L db syntax contacts countries" and "is_session_registrar_valid session"
  shows "create_contact L h data data_filter session db =
    (if syntax h \<noteq> syntax_valid
     then (Inl (EppFailure [\<lparr>epp_result_code = parameter_value_syntax_error, extended_errors =
             Some {of_scalar_parameter Param_contact_handle Reason_bad_format_contact_handle}\<rparr>]), db)
     else if contacts h = registered then (Inl (fail_with object_exists), db)
     else let errors =
            (if contacts h = in_protection_period
             then {of_scalar_parameter Param_contact_handle Reason_protected_period} else {}) \<union>
            (if country_code (hideable_value (cc_address data)) \<notin> countries
             then {of_scalar_parameter Param_contact_cc Reason_country_notexist} else {}) in
          if errors \<noteq> {} \<or> (\<exists>a. cc_mailing_address data = Some a \<and> country_code a \<notin> countries)
          then (Inl (EppFailure [\<lparr>epp_result_code = parameter_value_policy_error,
                  extended_errors = (if errors = {} then None else Some errors)\<rparr>]), db)
          else contact_creation L h data data_filter session db)"
proof -
  have errors: "create_contact_errors contacts countries h data =
      (if contacts h = in_protection_period
       then {of_scalar_parameter Param_contact_handle Reason_protected_period} else {}) \<union>
      (if country_code (hideable_value (cc_address data)) \<notin> countries
       then {of_scalar_parameter Param_contact_cc Reason_country_notexist} else {})"
    by (auto simp: create_contact_errors_def)
  show ?thesis
    unfolding create_contact_by_verdict [OF assms] create_contact_verdict_def errors mailing_country_wrong_def
    by (simp add: Let_def epp_failure_def response_failure_def cong: if_cong split del: if_split)
      (auto split: if_split)
qed

theorem create_contact_outcome_witness:
  "create_contact (csample [] sample_contact) ''OLD'' sample_contact_create
     (cznic_create_contact_data_filter sample_defaults) (sample_session 2) [] =
   (Inl (EppFailure [\<lparr>epp_result_code = parameter_value_policy_error,
      extended_errors = Some {of_scalar_parameter Param_contact_handle Reason_protected_period}\<rparr>]), [])"
  unfolding create_contact_outcome [OF csample_queries sample_session_valid(2)]
  by (simp add: sample_syntax_def sample_contact_handles_def sample_contact_create_def sample_address_def
      make_data_with_unspecified_privacy_def Let_def)

text \<open>C18: with the rules of CZ.NIC a contact is created only with its name, organization and address
  public, and LibFred is told a decision about every other datum: the wish of the client, or the
  default of the configuration where the client has none. Everything else LibFred is given is what the client
  sent.\<close>

theorem created_contact_disclosure:
  assumes "create_contact L h data (cznic_create_contact_data_filter d) session db = (Inr result, db')"
  shows "\<exists>r create_op db0 db1. InfoRegistrarById L (registrar_id session) db0 = (Inr r, db1) \<and>
    CreateContact L create_op db1 =
      (Inr (contact_result_id result, contact_create_history_id result, contact_crdate result), db') \<and>
    op_disclosename create_op = Some True \<and> op_discloseorganization create_op = Some True \<and>
    op_discloseaddress create_op = Some True \<and>
    disclosure_decided d data \<and>
    create_op = disclose_by d data (create_contact_op L h data session (registrar_handle r))"
proof -
  obtain db0 where "contact_creation L h data (cznic_create_contact_data_filter d) session db0 = (Inr result, db')"
    using assms unfolding create_contact_def by (auto simp: op_inv Let_def split: if_splits option.splits)
  then obtain r create_op db1 db2 where
    r: "InfoRegistrarById L (registrar_id session) db0 = (Inr r, db1)" and
    f: "cznic_create_contact_data_filter d data session
          (create_contact_op L h data session (registrar_handle r)) db1 = (Inr create_op, db2)" and
    c: "CreateContact L create_op db2 =
          (Inr (contact_result_id result, contact_create_history_id result, contact_crdate result), db')"
    unfolding contact_creation_def by (auto simp: op_inv catchE_rethrows)
  from cznic_filter_returns [OF f] have "identity_public d data" "disclosure_decided d data"
    "create_op = disclose_by d data (create_contact_op L h data session (registrar_handle r))" "db2 = db1"
    by blast+
  with r c show ?thesis
    by (auto simp: disclose_by_def identity_public_def)
qed

theorem created_contact_disclosure_witness:
  "\<exists>create_op db. CreateContact (csample [] sample_contact) create_op db = (Inr (10, 100, 0), [''create CON2'']) \<and>
     op_discloseaddress create_op = Some True \<and> op_disclosetelephone create_op = Some False"
proof -
  obtain create_op db and r :: InfoRegistrarData where
    "CreateContact (csample [] sample_contact) create_op db = (Inr (10, 100, 0), [''create CON2''])"
    "op_discloseaddress create_op = Some True"
    "create_op = disclose_by sample_defaults sample_contact_create
       (create_contact_op (csample [] sample_contact) ''CON2'' sample_contact_create (sample_session 2)
         (registrar_handle r))"
    using created_contact_disclosure [OF sample_contact_create_run, of "[]" sample_contact "[]"]
    by (elim exE conjE) (rule that; simp only: CreateContactResult.select_convs)
  moreover have "disclosure (cc_telephone sample_contact_create) (default_disclose_telephone sample_defaults) = Some False"
    by (simp add: disclosure_def sample_contact_create_def make_private_data_def)
  ultimately have "op_disclosetelephone create_op = Some False" by (simp add: disclose_by_def)
  then show ?thesis using \<open>op_discloseaddress create_op = Some True\<close>
      \<open>CreateContact (csample [] sample_contact) create_op db = _\<close> by blast
qed

section \<open>Deletion and transfer\<close>

text \<open>A contact is deleted only by its registrar or the system registrar, never while it is linked
  to another object, and by its registrar never while a state prohibits it; the states are examined
  after the pending state requests are performed. A deletion by another registrar than the
  sponsoring one leaves a poll message.\<close>

lemma delete_contact_permitted:
  assumes "delete_contact L h session db = (Inr history_id, db')"
  shows "\<exists>d r states db1 db2 db3 db4 db5 db6.
    InfoContactByHandle L True h db = (Inr d, db1) \<and>
    InfoRegistrarById L (registrar_id session) db1 = (Inr r, db2) \<and>
    (is_system r \<or> con_sponsoring_registrar_handle d = registrar_handle r) \<and>
    LockObjectStateRequestLock L (con_id d) db2 = (Inr (), db3) \<and>
    PerformObjectStateRequest L (con_id d) db3 = (Inr (), db4) \<and>
    GetObjectStates L (con_id d) db4 = (Inr states, db5) \<and>
    \<not> ObjectStatesInfo_presents L states Object_State_linked \<and>
    (is_system r \<or>
     (\<forall>s \<in> {Object_State_server_update_prohibited, Object_State_server_delete_prohibited,
            Object_State_delete_candidate}. \<not> ObjectStatesInfo_presents L states s)) \<and>
    DeleteContactByHandle L h db5 = (Inr (), db6) \<and>
    (if con_sponsoring_registrar_handle d = registrar_handle r then db' = db6
     else CreatePollMessage L delete_contact_message (con_historyid d) db6 = (Inr (), db')) \<and>
    history_id = con_historyid d"
  using assms by (rule delete_contact_returns)

text \<open>A contact is transferred only to another registrar and only with the password LibFred accepts,
  for an ordinary registrar never while a state prohibits it, and a poll message about it is
  created in the same transaction.\<close>

lemma transfer_contact_permitted:
  assumes "transfer_contact L h pw session db = (Inr history_id, db')"
  shows "\<exists>d r d0 db0 db1 db2 db3 db4.
    InfoContactByHandle L True h db = (Inr d0, db0) \<and>
    InfoContactByHandle L True h db0 = (Inr d, db1) \<and>
    InfoRegistrarById L (registrar_id session) db1 = (Inr r, db2) \<and>
    con_sponsoring_registrar_handle d \<noteq> registrar_handle r \<and>
    (is_system r \<and> db3 = db2 \<or>
     (\<exists>dba dbb states. LockObjectStateRequestLock L (con_id d) db2 = (Inr (), dba) \<and>
        PerformObjectStateRequest L (con_id d) dba = (Inr (), dbb) \<and>
        GetObjectStates L (con_id d) dbb = (Inr states, db3) \<and>
        \<not> ObjectStatesInfo_presents L states Object_State_server_transfer_prohibited \<and>
        \<not> ObjectStatesInfo_presents L states Object_State_delete_candidate)) \<and>
    TransferContact L (con_id d) (registrar_handle r) pw (logd_request_id session) db3 = (Inr history_id, db4) \<and>
    CreatePollMessage L transfer_contact_message history_id db4 = (Inr (), db')"
  using assms by (rule transfer_contact_returns)

section \<open>Availability\<close>

text \<open>\<^verbatim>\<open>check_contact\<close> answers for the requested handles and no other, changes nothing, and reports no
  obstruction for a handle exactly when \<^verbatim>\<open>create_contact\<close>, given known countries, comes to the
  creation of a contact with that handle.\<close>

lemma check_contact_agrees_with_create:
  assumes "contact_queries L db syntax contacts countries" and "is_session_registrar_valid session"
    and "country_code (hideable_value (cc_address data)) \<in> countries" and "cc_mailing_address data = None"
  shows "\<exists>result. check_contact L hs session db = (Inr result, db) \<and>
    (\<forall>h. map_find string_less h result \<noteq> None \<longleftrightarrow> h \<in> set hs) \<and>
    (\<forall>h. if map_find string_less h result = Some None
         then create_contact L h data data_filter session db = contact_creation L h data data_filter session db
         else h \<notin> set hs \<or> (\<exists>failure. create_contact L h data data_filter session db = (Inl (EppFailure failure), db)))"
proof -
  obtain result where run: "check_contact L hs session db = (Inr result, db)"
      "\<And>h. map_find string_less h result =
        (if h \<in> set hs then Some (contact_handle_state_to_check_result (syntax h) (contacts h)) else None)"
    using check_contact_run [OF assms(1,2)] by blast
  have none: "create_contact_verdict syntax contacts countries h data = None \<longleftrightarrow>
      contact_handle_state_to_check_result (syntax h) (contacts h) = None" for h
    unfolding contact_obstruction_None_iff using assms(3,4)
    by (cases "contacts h") (auto simp: create_contact_verdict_def create_contact_errors_def mailing_country_wrong_def Let_def)
  have failure: "create_contact_verdict syntax contacts countries h data = Some e \<Longrightarrow> \<exists>failure. e = EppFailure failure" for h e
    by (auto simp: create_contact_verdict_def epp_failure_def Let_def split: if_splits)
  have asked: "map_find string_less h result \<noteq> None \<longleftrightarrow> h \<in> set hs" for h
    using run(2) by simp
  have agrees: "if map_find string_less h result = Some None
       then create_contact L h data data_filter session db = contact_creation L h data data_filter session db
       else h \<notin> set hs \<or> (\<exists>failure. create_contact L h data data_filter session db = (Inl (EppFailure failure), db))" for h
    unfolding create_contact_by_verdict [OF assms(1,2)] run(2)
    using none [of h] failure [of h] by (cases "create_contact_verdict syntax contacts countries h data") auto
  show ?thesis using run(1) asked agrees by (intro exI [of _ result] conjI allI)
qed

section \<open>Information\<close>

text \<open>The contact as the policy presents it to a registrar: all of it, or without what is not public.\<close>

definition contact_view ::
  "Relationships \<Rightarrow> Password \<Rightarrow> nat \<Rightarrow> Relationship set \<Rightarrow> InfoContactData \<Rightarrow> exn + InfoContactData" where
  "contact_view rel pw matches held d =
     (if to_authorized_registrar rel \<and> password_value pw \<noteq> []
      then if 0 < matches then Inr d else Inl (fail_with invalid_authorization_information)
      else if enabled_set rel \<inter> held \<noteq> {} then Inr d
      else Inr (hide_private_data d))"

text \<open>C16: \<^verbatim>\<open>info_contact\<close> implements the abstract policy. Where the configuration shows private data to
  registrars who know the password, a password decides alone: a right one shows everything, a
  wrong one is a failure, and the database is left as \<^verbatim>\<open>CheckAuthinfo\<close> left it, which counts the use
  of the password. Otherwise the answer holds private data exactly when one of the relationships in
  which the registrar stands to the contact is enabled, and else what is public of it only, and the
  database is not changed.\<close>

theorem info_contact_refines_policy:
  fixes rel :: Relationships
  assumes "is_session_registrar_valid session"
    and "reads (InfoContactByHandle L (password_value pw \<noteq> []) h) db d"
    and "reads (GetObjectStates L (con_id d)) db states"
    and "contact_relations L db session d r holder admin"
    and "CheckAuthinfo L (con_id d) (password_value pw) db = (Inr matches, used)"
  defines "db' \<equiv> (if to_authorized_registrar rel \<and> password_value pw \<noteq> [] then used else db)"
  shows "info_contact L h rel pw session db =
    (case contact_view rel pw matches (relationships_of d r holder admin) d of
       Inl e \<Rightarrow> (Inl e, db')
     | Inr view \<Rightarrow>
         (case get_info_contact_output L view states of
            Inr out \<Rightarrow> (Inr out, db')
          | Inl e \<Rightarrow> translate_info_contact e db'))"
proof (cases "to_authorized_registrar rel \<and> password_value pw \<noteq> []")
  case False
  then have unauthorized: "\<not> to_authorized_registrar rel \<or> password_value pw = []" by blast
  show ?thesis
    unfolding info_contact_run [OF assms(1-4) unauthorized] contact_view_def db'_def if_not_P [OF False] by (simp split: sum.split)
next
  case True
  with assms(1-5) show ?thesis by (simp add: info_contact_authorized contact_view_def db'_def split: sum.split)
qed

text \<open>A stranger without and with the password.\<close>

theorem info_contact_refines_policy_witness:
  "(\<exists>out. info_contact (csample [] sample_contact) ''CON1'' (enabled_relationships cznic_specific) (Password [])
     (sample_session 3) [] = (Inr out, []) \<and> hideable_value (icon_telephone out) = None) \<and>
   (\<exists>out. info_contact (csample [] sample_contact) ''CON1'' (enabled_relationships cznic_specific) (Password ''secret'')
     (sample_session 3) [] = (Inr out, [''authinfo used'']) \<and> hideable_value (icon_telephone out) = Some ''+420.1'')"
proof -
  have reads: "reads (InfoContactByHandle (csample [] sample_contact) (password_value pw \<noteq> []) ''CON1'') [] sample_contact"
    "reads (GetObjectStates (csample [] sample_contact) (con_id sample_contact)) [] []" for pw
    by (simp_all add: csample_def reads_def returnE_def)
  have pw: "CheckAuthinfo (csample [] sample_contact) (con_id sample_contact) (password_value (Password [])) [] = (Inr 0, [])"
    "CheckAuthinfo (csample [] sample_contact) (con_id sample_contact) (password_value (Password ''secret'')) [] =
      (Inr 1, [''authinfo used''])"
    by (simp_all add: csample_def returnE_def change_def)
  have kinds: "personal_id_type (csample st d) = sample_personal_id_type"
    "personal_id_value (csample st d) = sample_personal_id_value" for st d
    by (simp_all add: csample_def)
  note view = kinds contact_view_def enabled_relationships_def enabled_set_def held_relationships_def sample_registrar_def
    is_system_def sample_contact_def get_info_contact_output_def get_contact_ident_def hide_private_data_def
    null_unless_def to_hideable_def make_private_data_def
  show ?thesis
    unfolding info_contact_refines_policy [OF sample_session_valid(3) reads csample_relations pw(1),
        of "enabled_relationships cznic_specific"]
      info_contact_refines_policy [OF sample_session_valid(3) reads csample_relations pw(2),
        of "enabled_relationships cznic_specific"]
    by (simp add: view)
qed

text \<open>Two contacts that agree in what is public of them: everything but the values whose flag is not set.\<close>

definition same_public :: "InfoContactData \<Rightarrow> InfoContactData \<Rightarrow> bool" where
  "same_public d1 d2 \<longleftrightarrow>
     con_id d1 = con_id d2 \<and> con_historyid d1 = con_historyid d2 \<and> con_handle d1 = con_handle d2 \<and>
     con_roid d1 = con_roid d2 \<and> con_sponsoring_registrar_handle d1 = con_sponsoring_registrar_handle d2 \<and>
     con_create_registrar_handle d1 = con_create_registrar_handle d2 \<and>
     con_update_registrar_handle d1 = con_update_registrar_handle d2 \<and>
     con_creation_time d1 = con_creation_time d2 \<and> con_update_time d1 = con_update_time d2 \<and>
     con_transfer_time d1 = con_transfer_time d2 \<and>
     con_disclosename d1 = con_disclosename d2 \<and> con_discloseorganization d1 = con_discloseorganization d2 \<and>
     con_discloseaddress d1 = con_discloseaddress d2 \<and> con_disclosetelephone d1 = con_disclosetelephone d2 \<and>
     con_disclosefax d1 = con_disclosefax d2 \<and> con_discloseemail d1 = con_discloseemail d2 \<and>
     con_disclosevat d1 = con_disclosevat d2 \<and> con_discloseident d1 = con_discloseident d2 \<and>
     con_disclosenotifyemail d1 = con_disclosenotifyemail d2 \<and>
     (con_disclosename d1 \<longrightarrow> con_name d1 = con_name d2) \<and>
     (con_discloseorganization d1 \<longrightarrow> con_organization d1 = con_organization d2) \<and>
     (con_discloseaddress d1 \<longrightarrow> con_place d1 = con_place d2 \<and> con_mailing_address d1 = con_mailing_address d2) \<and>
     (con_disclosetelephone d1 \<longrightarrow> con_telephone d1 = con_telephone d2) \<and>
     (con_disclosefax d1 \<longrightarrow> con_fax d1 = con_fax d2) \<and>
     (con_discloseemail d1 \<longrightarrow> con_email d1 = con_email d2) \<and>
     (con_disclosenotifyemail d1 \<longrightarrow> con_notifyemail d1 = con_notifyemail d2) \<and>
     (con_disclosevat d1 \<longrightarrow> con_vat d1 = con_vat d2) \<and>
     (con_discloseident d1 \<longrightarrow> con_ssn d1 = con_ssn d2 \<and> con_ssntype d1 = con_ssntype d2)"

lemma same_public_hidden: "same_public d1 d2 \<Longrightarrow> hide_private_data d1 = hide_private_data d2"
  by (rule InfoContactData.equality) (simp_all add: same_public_def hide_private_data_def null_unless_def)

text \<open>A registry in which a change alters the private e-mail address of the contact.\<close>

definition two_contacts :: "changes libfred_contact" where
  "two_contacts = (csample [] sample_contact)\<lparr>InfoContactByHandle := (\<lambda>lock h db.
     (Inr (if db = [] then sample_contact else sample_contact\<lparr>con_email := Some ''other@a.cz''\<rparr>), db))\<rparr>"

text \<open>C17: a registrar to whom private data are not shown learns nothing of them: the answers on two
  contacts that agree in what is public are the same.\<close>

theorem info_contact_noninterference:
  assumes "is_session_registrar_valid session"
    and "reads (InfoContactByHandle L (password_value pw \<noteq> []) h) db1 d1"
    and "reads (InfoContactByHandle L (password_value pw \<noteq> []) h) db2 d2"
    and "reads (GetObjectStates L (con_id d1)) db1 states"
    and "reads (GetObjectStates L (con_id d2)) db2 states"
    and "contact_relations L db1 session d1 r holder admin"
    and "contact_relations L db2 session d2 r holder admin"
    and "\<not> to_authorized_registrar rel \<or> password_value pw = []"
    and "enabled_set rel \<inter> relationships_of d1 r holder admin = {}"
    and "same_public d1 d2"
  shows "fst (info_contact L h rel pw session db1) = fst (info_contact L h rel pw session db2)"
proof -
  have "enabled_set rel \<inter> relationships_of d2 r holder admin = {}"
    using assms(9,10) by (simp add: same_public_def)
  with assms(9) show ?thesis
    unfolding info_contact_run [OF assms(1,2,4,6,8)] info_contact_run [OF assms(1,3,5,7,8)] same_public_hidden [OF assms(10)]
    by (simp add: translate_info_contact_def translate_unknown_contact_def throwE_def
        split: sum.split exn.split libfred_exception.split)
qed

theorem info_contact_noninterference_witness:
  "fst (info_contact (two_contacts) ''CON1'' (enabled_relationships cznic_specific) (Password []) (sample_session 3) []) =
   fst (info_contact (two_contacts) ''CON1'' (enabled_relationships cznic_specific) (Password []) (sample_session 3)
     [''changed''])"
proof -
  have reads: "reads (InfoContactByHandle two_contacts (password_value (Password []) \<noteq> []) ''CON1'') [] sample_contact"
    "reads (InfoContactByHandle two_contacts (password_value (Password []) \<noteq> []) ''CON1'') [''changed'']
       (sample_contact\<lparr>con_email := Some ''other@a.cz''\<rparr>)"
    "reads (GetObjectStates two_contacts i) db []" "contact_relations two_contacts db (sample_session 3) d (sample_registrar 3) 0 0"
    for i db d
    by (simp_all add: two_contacts_def csample_def contact_relations_def sample_session_def reads_def returnE_def)
  show ?thesis
    by (rule info_contact_noninterference [OF sample_session_valid(3) reads(1,2) reads(3,3) reads(4,4)])
      (simp_all add: enabled_relationships_def enabled_set_def held_relationships_def sample_registrar_def
        is_system_def sample_contact_def same_public_def)
qed

section \<open>From the creation to the information\<close>




lemma to_optional_Nil [simp]: "to_optional [] = None" "string_to_optional [] = None"
  by (simp_all add: to_optional_def string_to_optional_def)





lemma hideable_value_to_hideable [simp]: "hideable_value (to_hideable v b) = v"
  by (simp add: to_hideable_def make_public_data_def make_private_data_def)




end
