(* ===== verification/Contact_Change.thy ===== *)
theory Contact_Change
  imports Contact_Info
begin

text \<open>
  The changes of an update of a contact: operations on single values
  (\<^verbatim>\<open>update_operation/type_of.hh\<close>, \<^verbatim>\<open>update_operation/on_value_of.hh\<close>), the change of a contact
  (\<^verbatim>\<open>contact/contact_change.hh\<close>) and its trimming (\<^verbatim>\<open>contact/contact_change.cc\<close>,
  \<^verbatim>\<open>contact/util.cc\<close>).
\<close>

section \<open>Operations on a value\<close>

datatype Action = Action_set_value | Action_delete_value | Action_no_operation

text \<open>
  \<^verbatim>\<open>OnValueOf<T>::AnyOf<...>\<close>. \<^verbatim>\<open>Deletable<T>\<close> has all three operations; \<^verbatim>\<open>Updateable<T>\<close> is the same
  template without \<^verbatim>\<open>delete_value\<close>, so its values are never \<open>Op_delete_value\<close>.
\<close>

datatype 'a UpdateOperation = Op_not_specified | Op_set_value 'a | Op_delete_value | Op_no_operation

abbreviation OperationNotSpecifiedException :: exn where
  "OperationNotSpecifiedException \<equiv> StdException ''operation not specified''"

text \<open>\<^verbatim>\<open>operator==(Action)\<close>: an operation that is not specified cannot be compared.\<close>

definition operation_is :: "'a UpdateOperation \<Rightarrow> Action \<Rightarrow> ('db, exn, bool) op" where
  "operation_is operation action =
     (case operation of
        Op_not_specified \<Rightarrow> throwE OperationNotSpecifiedException
      | Op_set_value _ \<Rightarrow> returnE (action = Action_set_value)
      | Op_delete_value \<Rightarrow> returnE (action = Action_delete_value)
      | Op_no_operation \<Rightarrow> returnE (action = Action_no_operation))"

definition operation_is_not :: "'a UpdateOperation \<Rightarrow> Action \<Rightarrow> ('db, exn, bool) op" where
  "operation_is_not operation action = negated (operation_is operation action)"

text \<open>\<^verbatim>\<open>operator==(const OperationNotSpecified&)\<close>.\<close>

definition operation_not_specified :: "'a UpdateOperation \<Rightarrow> bool" where
  "operation_not_specified operation =
     (case operation of Op_not_specified \<Rightarrow> True | _ \<Rightarrow> False)"

text \<open>\<^verbatim>\<open>operator*\<close>.\<close>

definition operation_value :: "'a UpdateOperation \<Rightarrow> ('db, exn, 'a) op" where
  "operation_value operation =
     (case operation of
        Op_set_value v \<Rightarrow> returnE v
      | Op_delete_value \<Rightarrow> throwE (StdException ''set_value operation expected instead of delete_value'')
      | Op_no_operation \<Rightarrow> throwE (StdException ''set_value operation expected instead of no_operation'')
      | Op_not_specified \<Rightarrow> throwE OperationNotSpecifiedException)"

section \<open>The change of a contact\<close>

record Publishability =
  pub_name :: "PrivacyPolicy option"
  pub_organization :: "PrivacyPolicy option"
  pub_address :: "PrivacyPolicy option"
  pub_telephone :: "PrivacyPolicy option"
  pub_fax :: "PrivacyPolicy option"
  pub_email :: "PrivacyPolicy option"
  pub_notify_email :: "PrivacyPolicy option"
  pub_vat :: "PrivacyPolicy option"
  pub_ident :: "PrivacyPolicy option"

text \<open>\<^verbatim>\<open>MainAddress\<close> is an address of operations, \<^verbatim>\<open>Address\<close> one of optional texts.\<close>

record ContactChange =
  chg_name :: "string UpdateOperation"
  chg_organization :: "string UpdateOperation"
  chg_address :: "string UpdateOperation Address"
  chg_mailing_address :: "string option Address UpdateOperation"
  chg_telephone :: "string UpdateOperation"
  chg_fax :: "string UpdateOperation"
  chg_email :: "string UpdateOperation"
  chg_notify_email :: "string UpdateOperation"
  chg_vat :: "string UpdateOperation"
  chg_ident :: "ContactIdent UpdateOperation"
  chg_authinfopw :: "string UpdateOperation"
  chg_disclose :: "Publishability UpdateOperation"

section \<open>Trimming\<close>

definition trim_operation :: "('a \<Rightarrow> 'a) \<Rightarrow> 'a UpdateOperation \<Rightarrow> ('db, exn, 'a UpdateOperation) op" where
  "trim_operation trim src =
     bindE (operation_is src Action_set_value) (\<lambda>is_set.
     if is_set then bindE (operation_value src) (\<lambda>v. returnE (Op_set_value (trim v)))
     else returnE src)"

definition trim_ident_operation :: "ContactIdent UpdateOperation \<Rightarrow> ('db, exn, ContactIdent UpdateOperation) op" where
  "trim_ident_operation src =
     (if operation_not_specified src then returnE src else trim_operation trim_ident src)"

definition trim_main_address ::
  "string UpdateOperation Address \<Rightarrow> ('db, exn, string UpdateOperation Address) op" where
  "trim_main_address src =
     bindE (trim_operation trim_copy (row0 (street src))) (\<lambda>s0.
     bindE (trim_operation trim_copy (row1 (street src))) (\<lambda>s1.
     bindE (trim_operation trim_copy (row2 (street src))) (\<lambda>s2.
     bindE (trim_operation trim_copy (city src)) (\<lambda>c.
     bindE (trim_operation trim_copy (state_or_province src)) (\<lambda>sp.
     bindE (trim_operation trim_copy (postal_code src)) (\<lambda>pc.
     bindE (trim_operation trim_copy (country_code src)) (\<lambda>cc.
     returnE \<lparr>street = Rows s0 s1 s2, city = c, state_or_province = sp, postal_code = pc, country_code = cc\<rparr>)))))))"

definition trim_plain_address :: "string option Address \<Rightarrow> string option Address" where
  "trim_plain_address src = \<lparr>street = trim_rows trim_optional (street src), city = trim_optional (city src),
     state_or_province = trim_optional (state_or_province src), postal_code = trim_optional (postal_code src),
     country_code = trim_optional (country_code src)\<rparr>"

definition get_trimmed_copy :: "ContactChange \<Rightarrow> ('db, exn, ContactChange) op" where
  "get_trimmed_copy change =
     bindE (trim_operation trim_copy (chg_name change)) (\<lambda>n.
     bindE (trim_operation trim_copy (chg_organization change)) (\<lambda>org.
     bindE (trim_main_address (chg_address change)) (\<lambda>a.
     bindE (trim_operation trim_plain_address (chg_mailing_address change)) (\<lambda>m.
     bindE (trim_operation trim_copy (chg_telephone change)) (\<lambda>t.
     bindE (trim_operation trim_copy (chg_fax change)) (\<lambda>f.
     bindE (trim_operation trim_copy (chg_email change)) (\<lambda>e.
     bindE (trim_operation trim_copy (chg_notify_email change)) (\<lambda>ne.
     bindE (trim_operation trim_copy (chg_vat change)) (\<lambda>v.
     bindE (trim_ident_operation (chg_ident change)) (\<lambda>i.
     returnE \<lparr>chg_name = n, chg_organization = org, chg_address = a, chg_mailing_address = m,
       chg_telephone = t, chg_fax = f, chg_email = e, chg_notify_email = ne, chg_vat = v, chg_ident = i,
       chg_authinfopw = chg_authinfopw change, chg_disclose = chg_disclose change\<rparr>))))))))))"

section \<open>Changes that are specified\<close>

definition specified :: "'a UpdateOperation \<Rightarrow> bool" where
  "specified operation \<longleftrightarrow> operation \<noteq> Op_not_specified"

lemma operation_not_specified_iff [simp]: "operation_not_specified operation \<longleftrightarrow> \<not> specified operation"
  by (cases operation) (simp_all add: operation_not_specified_def specified_def)

fun action_of :: "'a UpdateOperation \<Rightarrow> Action" where
  "action_of (Op_set_value _) = Action_set_value"
| "action_of Op_delete_value = Action_delete_value"
| "action_of _ = Action_no_operation"

lemma operation_is_specified:
  "specified operation \<Longrightarrow> operation_is operation action = returnE (action = action_of operation)"
  by (cases operation) (auto simp: operation_is_def specified_def)

lemma operation_is_not_specified:
  "specified operation \<Longrightarrow> operation_is_not operation action = returnE (action \<noteq> action_of operation)"
  by (simp add: operation_is_not_def operation_is_specified negated_def bindE_returnE)

lemma operation_is_unspecified:
  "\<not> specified operation \<Longrightarrow> operation_is operation action = throwE OperationNotSpecifiedException"
  by (simp add: operation_is_def specified_def)

lemma trim_operation_specified:
  "specified src \<Longrightarrow> trim_operation trim src = returnE (map_UpdateOperation trim src)"
  by (cases src) (simp_all add: trim_operation_def operation_is_def operation_value_def specified_def bindE_returnE)

lemma trim_operation_returns [op_inv]:
  "trim_operation trim src db = (Inr dst, db') \<longleftrightarrow>
     specified src \<and> dst = map_UpdateOperation trim src \<and> db' = db"
proof (cases "specified src")
  case False
  then show ?thesis by (simp add: trim_operation_def operation_is_unspecified op_inv)
qed (auto simp: trim_operation_specified op_inv)

lemma trim_ident_operation_run: "trim_ident_operation src = returnE (map_UpdateOperation trim_ident src)"
proof (cases "specified src")
  case False
  then show ?thesis by (simp add: trim_ident_operation_def specified_def)
qed (simp add: trim_ident_operation_def trim_operation_specified)

definition address_specified :: "'a UpdateOperation Address \<Rightarrow> bool" where
  "address_specified a \<longleftrightarrow>
     specified (row0 (street a)) \<and> specified (row1 (street a)) \<and> specified (row2 (street a)) \<and>
     specified (city a) \<and> specified (state_or_province a) \<and> specified (postal_code a) \<and> specified (country_code a)"

definition trimmed_address :: "string UpdateOperation Address \<Rightarrow> string UpdateOperation Address" where
  "trimmed_address a = \<lparr>street = trim_rows (map_UpdateOperation trim_copy) (street a),
     city = map_UpdateOperation trim_copy (city a),
     state_or_province = map_UpdateOperation trim_copy (state_or_province a),
     postal_code = map_UpdateOperation trim_copy (postal_code a),
     country_code = map_UpdateOperation trim_copy (country_code a)\<rparr>"

text \<open>What a client has to specify; the document is examined later.\<close>

definition change_specified :: "ContactChange \<Rightarrow> bool" where
  "change_specified change \<longleftrightarrow>
     specified (chg_name change) \<and> specified (chg_organization change) \<and> address_specified (chg_address change) \<and>
     specified (chg_mailing_address change) \<and> specified (chg_telephone change) \<and> specified (chg_fax change) \<and>
     specified (chg_email change) \<and> specified (chg_notify_email change) \<and> specified (chg_vat change)"

definition trimmed :: "ContactChange \<Rightarrow> ContactChange" where
  "trimmed change = change\<lparr>
     chg_name := map_UpdateOperation trim_copy (chg_name change),
     chg_organization := map_UpdateOperation trim_copy (chg_organization change),
     chg_address := trimmed_address (chg_address change),
     chg_mailing_address := map_UpdateOperation trim_plain_address (chg_mailing_address change),
     chg_telephone := map_UpdateOperation trim_copy (chg_telephone change),
     chg_fax := map_UpdateOperation trim_copy (chg_fax change),
     chg_email := map_UpdateOperation trim_copy (chg_email change),
     chg_notify_email := map_UpdateOperation trim_copy (chg_notify_email change),
     chg_vat := map_UpdateOperation trim_copy (chg_vat change),
     chg_ident := map_UpdateOperation trim_ident (chg_ident change)\<rparr>"

lemma specified_map [simp]: "specified (map_UpdateOperation f operation) \<longleftrightarrow> specified operation"
  by (cases operation) (simp_all add: specified_def)

lemma action_of_map [simp]: "action_of (map_UpdateOperation f operation) = action_of operation"
  by (cases operation) simp_all

lemma trim_main_address_returns [op_inv]:
  "trim_main_address src db = (Inr dst, db') \<longleftrightarrow>
     address_specified src \<and> dst = trimmed_address src \<and> db' = db"
  unfolding trim_main_address_def bindE_Inr trim_operation_returns returnE_Inr
  by (auto simp: address_specified_def trimmed_address_def trim_rows_def)

lemma get_trimmed_copy_returns [op_inv]:
  "get_trimmed_copy change db = (Inr dst, db') \<longleftrightarrow>
     change_specified change \<and> dst = trimmed change \<and> db' = db"
  unfolding get_trimmed_copy_def bindE_Inr trim_operation_returns trim_main_address_returns
    trim_ident_operation_run returnE_Inr
  by (auto simp: change_specified_def trimmed_def)

lemma trimmed_specified: "change_specified change \<Longrightarrow> change_specified (trimmed change)"
  by (simp add: change_specified_def trimmed_def address_specified_def trimmed_address_def trim_rows_def)

lemma get_trimmed_copy_run: "change_specified change \<Longrightarrow> reads (get_trimmed_copy change) db (trimmed change)"
  by (simp add: reads_def get_trimmed_copy_returns)

end
