(* ===== verification/Contact_Filter.thy ===== *)
theory Contact_Filter
  imports Contact_Change
begin

text \<open>
  The arguments of LibFred's update of a contact and the filters that decide what an update
  discloses: \<^verbatim>\<open>contact/impl/cznic/update_contact_data_filter.cc\<close>,
  \<^verbatim>\<open>contact/impl/set_unused/update_contact_data_filter.cc\<close>,
  \<^verbatim>\<open>contact/impl/get_update_contact_data_filter.cc\<close>.
\<close>

section \<open>The update of LibFred\<close>

text \<open>
  \<^verbatim>\<open>LibFred::UpdateContactByHandle\<close> collects the calls of its setters. \<open>None\<close>: the setter was not
  called; \<open>Some None\<close>: it was called with the default-constructed value of its argument, which
  stands for no value; \<open>Some (Some v)\<close>: it was called with \<open>v\<close>.
\<close>

record UpdateContactOp =
  upd_contact_handle :: string
  upd_contact_registrar :: string
  upd_name :: "string option option"
  upd_organization :: "string option option"
  upd_place :: "PlaceAddress option option"
  upd_telephone :: "string option option"
  upd_fax :: "string option option"
  upd_email :: "string option option"
  upd_notifyemail :: "string option option"
  upd_vat :: "string option option"
  upd_personal_id :: "PersonalIdUnion option option"
  upd_authinfo :: "string option option"
  upd_mailing :: "PlaceAddress option option"
  upd_disclosename :: "bool option"
  upd_discloseorganization :: "bool option"
  upd_discloseaddress :: "bool option"
  upd_disclosetelephone :: "bool option"
  upd_disclosefax :: "bool option"
  upd_discloseemail :: "bool option"
  upd_disclosenotifyemail :: "bool option"
  upd_disclosevat :: "bool option"
  upd_discloseident :: "bool option"
  upd_contact_logd_request_id :: "u64 option"

text \<open>
  The operations an update needs beside those of \<open>libfred_contact\<close>: that of LibFred itself, the
  comparison of \<^verbatim>\<open>util/case_insensitive.hh\<close>, the two queries for what the last change changed, the
  cancelling of state requests, and the checks of contacts with their queries and the names of their
  states and test suites. \<open>InfoContactCheck\<close> gives the history id of the contact and the last state
  of the check; \<open>uuid_from_string\<close> is the conversion of a check handle, which may throw.
\<close>

record 'db libfred_contact_update = "'db libfred_contact" +
  UpdateContactByHandle :: "UpdateContactOp \<Rightarrow> ('db, exn, u64) op"
  case_insensitive_equal_to :: "string \<Rightarrow> string \<Rightarrow> bool"
  select_contact_change :: "u64 \<Rightarrow> ('db, exn, bool list) op"
  select_contact_difference :: "u64 \<Rightarrow> ('db, exn, bool list) op"
  CancelObjectStateRequestId :: "u64 \<Rightarrow> Object_State set \<Rightarrow> ('db, exn, unit) op"
  CreateContactCheck :: "u64 \<Rightarrow> string \<Rightarrow> u64 option \<Rightarrow> ('db, exn, string) op"
  InfoContactCheck :: "string \<Rightarrow> ('db, exn, u64 \<times> string) op"
  UpdateContactCheck :: "string \<Rightarrow> string \<Rightarrow> u64 option \<Rightarrow> ('db, exn, unit) op"
  select_obsolete_checks :: "string list \<Rightarrow> u64 \<Rightarrow> string \<Rightarrow> ('db, exn, string list) op"
  select_check_count :: "string list \<Rightarrow> u64 \<Rightarrow> ('db, exn, u64) op"
  get_not_yet_resolved :: "string list"
  uuid_from_string :: "string \<Rightarrow> exn + string"
  status_ENQUEUE_REQ :: string
  status_ENQUEUED :: string
  status_INVALIDATED :: string
  testsuite_AUTOMATIC :: string
  testsuite_THANK_YOU :: string

section \<open>Publishability\<close>

datatype UpdateDisclose = set_to_show | set_to_hide | do_not_change

definition update_compute_publishability ::
  "bool \<Rightarrow> PrivacyPolicy option \<Rightarrow> UpdateDisclose \<Rightarrow> bool" where
  "update_compute_publishability is_public policy default_operation =
     (case policy of
        Some Privacy_show \<Rightarrow> True
      | Some Privacy_hide \<Rightarrow> False
      | None \<Rightarrow>
          (case default_operation of
             set_to_show \<Rightarrow> True
           | set_to_hide \<Rightarrow> False
           | do_not_change \<Rightarrow> is_public))"

type_synonym 'db update_contact_filter =
  "InfoContactData \<Rightarrow> ContactChange \<Rightarrow> SessionData \<Rightarrow> UpdateContactOp \<Rightarrow> ('db, exn, UpdateContactOp) op"

section \<open>Changes that change nothing\<close>

definition is_change_operation :: "string UpdateOperation \<Rightarrow> ('db, exn, bool) op" where
  "is_change_operation operation = operation_is_not operation Action_no_operation"

definition any_of :: "('db, 'e, bool) op list \<Rightarrow> ('db, 'e, bool) op" where
  "any_of ms = foldr or_else ms (returnE False)"

definition all_of :: "('db, 'e, bool) op list \<Rightarrow> ('db, 'e, bool) op" where
  "all_of ms = foldr and_also ms (returnE True)"

definition is_change_of_street :: "string UpdateOperation Rows \<Rightarrow> ('db, exn, bool) op" where
  "is_change_of_street s =
     any_of [is_change_operation (row0 s), is_change_operation (row1 s), is_change_operation (row2 s)]"

abbreviation unknown_update_operation :: exn where
  "unknown_update_operation \<equiv> StdException ''unknown update operation''"

text \<open>
  The overloads of \<^verbatim>\<open>is_fake_change_operation\<close> for \<^verbatim>\<open>Deletable\<close>. For an old value that may be missing
  they read its absence as the empty text, which is how the old value is given here.
\<close>

definition fake_change :: "(string \<Rightarrow> string \<Rightarrow> bool) \<Rightarrow> string UpdateOperation \<Rightarrow> string \<Rightarrow> ('db, exn, bool) op" where
  "fake_change same operation value =
     bindE (operation_is operation Action_no_operation) (\<lambda>none.
     if none then returnE True else
     bindE (operation_is operation Action_delete_value) (\<lambda>deleted.
     if deleted then returnE (trim_copy value = []) else
     bindE (operation_is operation Action_set_value) (\<lambda>set_to.
     if set_to then
       bindE (operation_value operation) (\<lambda>new.
       let trimmed_new_value = trim_copy new; trimmed_old_value = trim_copy value in
       returnE (same trimmed_new_value trimmed_old_value))
     else throwE unknown_update_operation)))"

definition is_fake_change_operation :: "string UpdateOperation \<Rightarrow> string \<Rightarrow> ('db, exn, bool) op" where
  "is_fake_change_operation = fake_change (=)"

definition is_fake_case_insensitive_change_operation ::
  "(string \<Rightarrow> string \<Rightarrow> bool) \<Rightarrow> string UpdateOperation \<Rightarrow> string \<Rightarrow> ('db, exn, bool) op" where
  "is_fake_case_insensitive_change_operation equal_to =
     fake_change (\<lambda>new old. new = old \<or> equal_to new old)"

text \<open>\<^verbatim>\<open>is_fake_change_operation\<close> for \<^verbatim>\<open>Updateable\<close>, which knows no deletion.\<close>

definition is_fake_update_operation :: "string UpdateOperation \<Rightarrow> string \<Rightarrow> ('db, exn, bool) op" where
  "is_fake_update_operation operation value =
     bindE (operation_is operation Action_no_operation) (\<lambda>none.
     if none then returnE True else
     bindE (operation_is operation Action_set_value) (\<lambda>set_to.
     if set_to then
       bindE (operation_value operation) (\<lambda>new.
       returnE (trim_copy new = trim_copy value))
     else throwE unknown_update_operation))"

definition text_of :: "string option \<Rightarrow> string" where
  "text_of v = (case v of None \<Rightarrow> [] | Some s \<Rightarrow> s)"

definition is_fake_change_of_address ::
  "string UpdateOperation Address \<Rightarrow> PlaceAddress option \<Rightarrow> ('db, exn, bool) op" where
  "is_fake_change_of_address change old_address =
     (case old_address of
        None \<Rightarrow>
          all_of [is_fake_change_operation (row0 (street change)) [],
                  is_fake_change_operation (row1 (street change)) [],
                  is_fake_change_operation (row2 (street change)) [],
                  is_fake_change_operation (city change) [],
                  is_fake_change_operation (state_or_province change) [],
                  is_fake_change_operation (postal_code change) [],
                  is_fake_update_operation (country_code change) []]
      | Some old \<Rightarrow>
          all_of [is_fake_change_operation (row0 (street change)) (street1 old),
                  is_fake_change_operation (row1 (street change)) (text_of (street2 old)),
                  is_fake_change_operation (row2 (street change)) (text_of (street3 old)),
                  is_fake_change_operation (city change) (place_city old),
                  is_fake_change_operation (state_or_province change) (text_of (stateorprovince old)),
                  is_fake_change_operation (postal_code change) (postalcode old),
                  is_fake_update_operation (country_code change) (country old)])"

definition is_sufficient_authenticity_level_to_private_address ::
  "('db, 'x) libfred_contact_update_scheme \<Rightarrow> InfoContactData \<Rightarrow> ContactChange \<Rightarrow> ('db, exn, bool) op" where
  "is_sufficient_authenticity_level_to_private_address L old_data change =
     bindE (GetObjectStates L (con_id old_data)) (\<lambda>contact_states.
     if \<not> (ObjectStatesInfo_presents L contact_states Object_State_identified_contact \<or>
           ObjectStatesInfo_presents L contact_states Object_State_validated_contact)
     then returnE False
     else
     bindE (any_of
       [is_change_operation (chg_name change), is_change_operation (chg_organization change),
        is_change_of_street (street (chg_address change)), is_change_operation (city (chg_address change)),
        is_change_operation (state_or_province (chg_address change)),
        is_change_operation (postal_code (chg_address change)),
        is_change_operation (country_code (chg_address change)), is_change_operation (chg_telephone change),
        is_change_operation (chg_email change)]) (\<lambda>change_planned.
     bindE (if change_planned
            then all_of
              [is_fake_case_insensitive_change_operation (case_insensitive_equal_to L)
                 (chg_name change) (text_of (con_name old_data)),
               is_fake_change_operation (chg_organization change) (text_of (con_organization old_data)),
               is_fake_change_of_address (chg_address change) (con_place old_data),
               is_fake_change_operation (chg_telephone change) (text_of (con_telephone old_data)),
               is_fake_change_operation (chg_email change) (text_of (con_email old_data))]
            else returnE True) (\<lambda>nothing_changes.
     if \<not> nothing_changes then returnE False
     else
       let contact_is_organization = text_of (con_organization old_data) \<noteq> [];
           address_can_be_hidden = \<not> contact_is_organization in
       returnE address_can_be_hidden)))"

section \<open>The filters\<close>

text \<open>\<^verbatim>\<open>get_privacy\<close> of the kinds of data on whose privacy there is no rule.\<close>

definition update_common_privacy ::
  "UpdateDisclose DiscloseDefaults \<Rightarrow> InfoContactData \<Rightarrow> Publishability \<Rightarrow> UpdateContactOp \<Rightarrow> UpdateContactOp" where
  "update_common_privacy d old_data disclose update_op = update_op\<lparr>
     upd_disclosetelephone := Some (update_compute_publishability (con_disclosetelephone old_data)
       (pub_telephone disclose) (default_disclose_telephone d)),
     upd_disclosefax := Some (update_compute_publishability (con_disclosefax old_data)
       (pub_fax disclose) (default_disclose_fax d)),
     upd_discloseemail := Some (update_compute_publishability (con_discloseemail old_data)
       (pub_email disclose) (default_disclose_email d)),
     upd_disclosevat := Some (update_compute_publishability (con_disclosevat old_data)
       (pub_vat disclose) (default_disclose_vat d)),
     upd_discloseident := Some (update_compute_publishability (con_discloseident old_data)
       (pub_ident disclose) (default_disclose_ident d)),
     upd_disclosenotifyemail := Some (update_compute_publishability (con_disclosenotifyemail old_data)
       (pub_notify_email disclose) (default_disclose_notify_email d))\<rparr>"

definition cznic_update_contact_data_filter ::
  "('db, 'x) libfred_contact_update_scheme \<Rightarrow> UpdateDisclose DiscloseDefaults \<Rightarrow> 'db update_contact_filter" where
  "cznic_update_contact_data_filter L d old_data change session update_op =
     bindE (operation_is (chg_disclose change) Action_set_value) (\<lambda>disclose_set.
     if disclose_set then
       bindE (operation_value (chg_disclose change)) (\<lambda>disclose.
       let disclose_name = update_compute_publishability (con_disclosename old_data) (pub_name disclose)
             (default_disclose_name d);
           update_op = update_op\<lparr>upd_disclosename := Some disclose_name\<rparr> in
       throw_if (\<not> disclose_name) DiscloseflagRulesViolation (
       let disclose_organization = update_compute_publishability (con_discloseorganization old_data)
             (pub_organization disclose) (default_disclose_organization d);
           update_op = update_op\<lparr>upd_discloseorganization := Some disclose_organization\<rparr> in
       throw_if (\<not> disclose_organization) DiscloseflagRulesViolation (
       let disclose_address = update_compute_publishability (con_discloseaddress old_data)
             (pub_address disclose) (default_disclose_address d);
           update_op = update_op\<lparr>upd_discloseaddress := Some disclose_address\<rparr> in
       bindE (if \<not> disclose_address then
                bindE (is_sufficient_authenticity_level_to_private_address L old_data change) (\<lambda>sufficient.
                if \<not> sufficient then
                  throw_if (pub_address disclose \<noteq> None \<or> default_disclose_address d \<noteq> do_not_change)
                    DiscloseflagRulesViolation
                    (returnE (update_op\<lparr>upd_discloseaddress := Some True\<rparr>))
                else returnE update_op)
              else returnE update_op) (\<lambda>update_op.
       returnE (update_common_privacy d old_data disclose update_op)))))
     else
       let address_should_stay_private = \<not> con_discloseaddress old_data in
       if address_should_stay_private then
         bindE (is_sufficient_authenticity_level_to_private_address L old_data change)
           (\<lambda>address_can_stay_private.
         if \<not> address_can_stay_private then returnE (update_op\<lparr>upd_discloseaddress := Some True\<rparr>)
         else returnE update_op)
       else returnE update_op)"

definition set_unused_update_contact_data_filter ::
  "UpdateDisclose DiscloseDefaults \<Rightarrow> 'db update_contact_filter" where
  "set_unused_update_contact_data_filter d old_data change session update_op =
     bindE (operation_is (chg_disclose change) Action_set_value) (\<lambda>disclose_set.
     if disclose_set then
       bindE (operation_value (chg_disclose change)) (\<lambda>disclose.
       returnE (update_common_privacy d old_data disclose (update_op\<lparr>
         upd_disclosename := Some (update_compute_publishability (con_disclosename old_data)
           (pub_name disclose) (default_disclose_name d)),
         upd_discloseorganization := Some (update_compute_publishability (con_discloseorganization old_data)
           (pub_organization disclose) (default_disclose_organization d)),
         upd_discloseaddress := Some (update_compute_publishability (con_discloseaddress old_data)
           (pub_address disclose) (default_disclose_address d))\<rparr>)))
     else returnE update_op)"

definition empty_update_contact_data_filter :: "'db update_contact_filter" where
  "empty_update_contact_data_filter old_data change session update_op = returnE update_op"

section \<open>When an address may be private\<close>

lemma any_of_reads:
  "list_all2 (\<lambda>m b. reads m db b) ms bs \<Longrightarrow> reads (any_of ms) db (\<exists>b \<in> set bs. b)"
proof (induction ms bs rule: list_all2_induct)
  case (Cons m ms b bs)
  have "reads (or_else m (any_of ms)) db (b \<or> (\<exists>b \<in> set bs. b))"
    using Cons by (intro logical_reads) auto
  then show ?case by (simp add: any_of_def)
qed (simp add: any_of_def logical_reads)

lemma all_of_reads:
  "list_all2 (\<lambda>m b. reads m db b) ms bs \<Longrightarrow> reads (all_of ms) db (\<forall>b \<in> set bs. b)"
proof (induction ms bs rule: list_all2_induct)
  case (Cons m ms b bs)
  have "reads (and_also m (all_of ms)) db (b \<and> (\<forall>b \<in> set bs. b))"
    using Cons by (intro logical_reads) auto
  then show ?case by (simp add: all_of_def)
qed (simp add: all_of_def logical_reads)

text \<open>The value after the change is the same as before, up to white space at the ends and \<open>same\<close>.\<close>

fun stays :: "(string \<Rightarrow> string \<Rightarrow> bool) \<Rightarrow> string UpdateOperation \<Rightarrow> string \<Rightarrow> bool" where
  "stays same (Op_set_value v) old \<longleftrightarrow> same (trim_copy v) (trim_copy old)"
| "stays same Op_delete_value old \<longleftrightarrow> trim_copy old = []"
| "stays same Op_no_operation old \<longleftrightarrow> True"
| "stays same Op_not_specified old \<longleftrightarrow> False"

lemma fake_change_reads: "specified operation \<Longrightarrow> reads (fake_change same operation value) db (stays same operation value)"
  by (cases operation) (simp_all add: fake_change_def operation_is_def operation_value_def specified_def
      op_simps reads_def)

lemma fake_update_reads:
  "specified operation \<Longrightarrow> operation \<noteq> Op_delete_value \<Longrightarrow>
   reads (is_fake_update_operation operation value) db (stays (=) operation value)"
  by (cases operation) (simp_all add: is_fake_update_operation_def operation_is_def operation_value_def
      specified_def op_simps reads_def)

lemma is_change_operation_reads:
  "specified operation \<Longrightarrow> reads (is_change_operation operation) db (action_of operation \<noteq> Action_no_operation)"
  by (simp add: is_change_operation_def operation_is_not_specified reads_def returnE_def eq_commute)

text \<open>The country is an \<^verbatim>\<open>Updateable\<close>.\<close>

definition well_formed_change :: "ContactChange \<Rightarrow> bool" where
  "well_formed_change change \<longleftrightarrow>
     change_specified change \<and> country_code (chg_address change) \<noteq> Op_delete_value"

definition address_stays :: "string UpdateOperation Address \<Rightarrow> PlaceAddress option \<Rightarrow> bool" where
  "address_stays change old \<longleftrightarrow>
     (let old = (case old of Some a \<Rightarrow> a | None \<Rightarrow> \<lparr>street1 = [], street2 = None, street3 = None, place_city = [],
                   stateorprovince = None, postalcode = [], country = []\<rparr>) in
      stays (=) (row0 (street change)) (street1 old) \<and>
      stays (=) (row1 (street change)) (text_of (street2 old)) \<and>
      stays (=) (row2 (street change)) (text_of (street3 old)) \<and>
      stays (=) (city change) (place_city old) \<and>
      stays (=) (state_or_province change) (text_of (stateorprovince old)) \<and>
      stays (=) (postal_code change) (postalcode old) \<and>
      stays (=) (country_code change) (country old))"

definition identity_stays :: "(string \<Rightarrow> string \<Rightarrow> bool) \<Rightarrow> ContactChange \<Rightarrow> InfoContactData \<Rightarrow> bool" where
  "identity_stays equal_to change d \<longleftrightarrow>
     stays (\<lambda>new old. new = old \<or> equal_to new old) (chg_name change) (text_of (con_name d)) \<and>
     stays (=) (chg_organization change) (text_of (con_organization d)) \<and>
     address_stays (chg_address change) (con_place d) \<and>
     stays (=) (chg_telephone change) (text_of (con_telephone d)) \<and>
     stays (=) (chg_email change) (text_of (con_email d))"

lemma stays_no_operation: "specified operation \<Longrightarrow> action_of operation = Action_no_operation \<Longrightarrow> stays same operation old"
  by (cases operation) (simp_all add: specified_def)

lemma fake_address_reads:
  assumes "address_specified change" and "country_code change \<noteq> Op_delete_value"
  shows "reads (is_fake_change_of_address change old) db (address_stays change old)"
proof (cases old)
  case None
  have "reads (is_fake_change_of_address change old) db
      (\<forall>b \<in> set [stays (=) (row0 (street change)) [], stays (=) (row1 (street change)) [],
         stays (=) (row2 (street change)) [], stays (=) (city change) [], stays (=) (state_or_province change) [],
         stays (=) (postal_code change) [], stays (=) (country_code change) []]. b)"
    using assms unfolding None is_fake_change_of_address_def option.case address_specified_def
    by (intro all_of_reads) (simp add: is_fake_change_operation_def fake_change_reads fake_update_reads)
  then show ?thesis by (simp add: address_stays_def None text_of_def)
next
  case (Some a)
  have "reads (is_fake_change_of_address change old) db
      (\<forall>b \<in> set [stays (=) (row0 (street change)) (street1 a), stays (=) (row1 (street change)) (text_of (street2 a)),
         stays (=) (row2 (street change)) (text_of (street3 a)), stays (=) (city change) (place_city a),
         stays (=) (state_or_province change) (text_of (stateorprovince a)),
         stays (=) (postal_code change) (postalcode a), stays (=) (country_code change) (country a)]. b)"
    using assms unfolding Some is_fake_change_of_address_def option.case address_specified_def
    by (intro all_of_reads) (simp add: is_fake_change_operation_def fake_change_reads fake_update_reads)
  then show ?thesis by (simp add: address_stays_def Some)
qed

lemma sufficient_authenticity_reads:
  assumes states: "reads (GetObjectStates L (con_id d)) db states" and change: "well_formed_change change"
  shows "reads (is_sufficient_authenticity_level_to_private_address L d change) db
    ((ObjectStatesInfo_presents L states Object_State_identified_contact \<or>
      ObjectStatesInfo_presents L states Object_State_validated_contact) \<and>
     identity_stays (case_insensitive_equal_to L) change d \<and> text_of (con_organization d) = [])"
proof -
  let ?a = "chg_address change"
  let ?acts = "\<lambda>p. action_of p \<noteq> Action_no_operation"
  define planned where "planned \<longleftrightarrow> (\<exists>b \<in> set [?acts (chg_name change), ?acts (chg_organization change),
     \<exists>b \<in> set [?acts (row0 (street ?a)), ?acts (row1 (street ?a)), ?acts (row2 (street ?a))]. b,
     ?acts (city ?a), ?acts (state_or_province ?a), ?acts (postal_code ?a), ?acts (country_code ?a),
     ?acts (chg_telephone change), ?acts (chg_email change)]. b)"
  note spec = change [unfolded well_formed_change_def change_specified_def address_specified_def]
  have planned: "reads (any_of
       [is_change_operation (chg_name change), is_change_operation (chg_organization change),
        is_change_of_street (street ?a), is_change_operation (city ?a), is_change_operation (state_or_province ?a),
        is_change_operation (postal_code ?a), is_change_operation (country_code ?a),
        is_change_operation (chg_telephone change), is_change_operation (chg_email change)]) db planned"
    unfolding is_change_of_street_def planned_def using spec
    by (intro any_of_reads) (simp only: list_all2_Cons list_all2_Nil is_change_operation_reads any_of_reads simp_thms)
  have fake: "reads (all_of
      [is_fake_case_insensitive_change_operation (case_insensitive_equal_to L) (chg_name change) (text_of (con_name d)),
       is_fake_change_operation (chg_organization change) (text_of (con_organization d)),
       is_fake_change_of_address ?a (con_place d),
       is_fake_change_operation (chg_telephone change) (text_of (con_telephone d)),
       is_fake_change_operation (chg_email change) (text_of (con_email d))]) db
    (\<forall>b \<in> set [stays (\<lambda>new old. new = old \<or> case_insensitive_equal_to L new old) (chg_name change) (text_of (con_name d)),
       stays (=) (chg_organization change) (text_of (con_organization d)), address_stays ?a (con_place d),
       stays (=) (chg_telephone change) (text_of (con_telephone d)), stays (=) (chg_email change) (text_of (con_email d))]. b)"
    using spec unfolding is_fake_case_insensitive_change_operation_def is_fake_change_operation_def
    by (intro all_of_reads) (simp add: fake_change_reads fake_address_reads address_specified_def)
  have unplanned: "identity_stays (case_insensitive_equal_to L) change d" if "\<not> planned"
    using that spec unfolding planned_def by (simp add: identity_stays_def address_stays_def stays_no_operation)
  show ?thesis
  proof (cases "ObjectStatesInfo_presents L states Object_State_identified_contact \<or>
      ObjectStatesInfo_presents L states Object_State_validated_contact")
    case True
    then show ?thesis
      unfolding is_sufficient_authenticity_level_to_private_address_def reads_def bindE_reads [OF states]
      by (cases planned)
        (auto simp: bindE_reads [OF planned] bindE_reads [OF fake] bindE_returnE returnE_run identity_stays_def
          dest: unplanned)
  next
    case False
    then show ?thesis
      unfolding is_sufficient_authenticity_level_to_private_address_def reads_def bindE_reads [OF states]
      by (simp only: simp_thms if_True returnE_run)
  qed
qed

end
