(* ===== verification/Contact_Update.thy ===== *)
theory Contact_Update
  imports Contact_Filter Contact_Localized
begin

text \<open>
  Update of a contact: \<^verbatim>\<open>contact/update_contact.cc\<close>, what is done after it
  (\<^verbatim>\<open>contact/update_contact_post_hooks.cc\<close> with the functions it calls in
  \<^verbatim>\<open>src/src/backend/admin/contact/verification\<close>), and its localized entry point.
\<close>

section \<open>From the change to the update\<close>

definition update_value ::
  "'a UpdateOperation \<Rightarrow> ('a option \<Rightarrow> UpdateContactOp \<Rightarrow> UpdateContactOp) \<Rightarrow> UpdateContactOp \<Rightarrow>
     ('db, exn, UpdateContactOp) op" where
  "update_value operation value_setter updater =
     bindE (operation_is operation Action_set_value) (\<lambda>is_set.
     if is_set then bindE (operation_value operation) (\<lambda>v. returnE (value_setter (Some v) updater))
     else
     bindE (operation_is operation Action_delete_value) (\<lambda>deleted.
     returnE (if deleted then value_setter None updater else updater)))"

text \<open>\<^verbatim>\<open>update_operation_to_value\<close>: the new value of a member, \<open>v\<close> being the default-constructed one.\<close>

definition update_operation_to_value :: "('a \<Rightarrow> 'b) \<Rightarrow> 'b \<Rightarrow> 'a UpdateOperation \<Rightarrow> ('db, exn, 'b) op" where
  "update_operation_to_value conv v operation =
     bindE (operation_is operation Action_set_value) (\<lambda>is_set.
     if is_set then bindE (operation_value operation) (\<lambda>new. returnE (conv new))
     else bindE (operation_is operation Action_delete_value) (\<lambda>_. returnE v))"

definition address_operations :: "'a Address \<Rightarrow> 'a list" where
  "address_operations a =
     [row0 (street a), row1 (street a), row2 (street a), city a, state_or_province a, postal_code a, country_code a]"

definition update_place ::
  "string UpdateOperation Address \<Rightarrow> UpdateContactOp \<Rightarrow> ('db, exn, UpdateContactOp) op" where
  "update_place address updater =
     bindE (all_of (map (\<lambda>p. operation_is p Action_no_operation) (address_operations address))) (\<lambda>untouched.
     if untouched then returnE updater else
     bindE (all_of (map (\<lambda>p. operation_is p Action_delete_value) (address_operations address))) (\<lambda>deleted.
     if deleted then returnE (updater\<lparr>upd_place := Some None\<rparr>) else
     bindE (update_operation_to_value id [] (row0 (street address))) (\<lambda>s1.
     bindE (update_operation_to_value Some None (row1 (street address))) (\<lambda>s2.
     bindE (update_operation_to_value Some None (row2 (street address))) (\<lambda>s3.
     bindE (update_operation_to_value id [] (city address)) (\<lambda>c.
     bindE (update_operation_to_value Some None (state_or_province address)) (\<lambda>sp.
     bindE (update_operation_to_value id [] (postal_code address)) (\<lambda>pc.
     bindE (update_operation_to_value id [] (country_code address)) (\<lambda>cc.
     returnE (updater\<lparr>upd_place := Some (Some \<lparr>street1 = s1, street2 = s2, street3 = s3, place_city = c,
       stateorprovince = sp, postalcode = pc, country = cc\<rparr>)\<rparr>))))))))))"

definition update_privacy ::
  "PrivacyPolicy option \<Rightarrow> (bool \<Rightarrow> UpdateContactOp \<Rightarrow> UpdateContactOp) \<Rightarrow> UpdateContactOp \<Rightarrow> UpdateContactOp" where
  "update_privacy policy privacy_setter updater =
     (case policy of Some p \<Rightarrow> privacy_setter (p = Privacy_show) updater | None \<Rightarrow> updater)"

definition update_disclose :: "Publishability \<Rightarrow> UpdateContactOp \<Rightarrow> UpdateContactOp" where
  "update_disclose disclose updater =
     (let updater = update_privacy (pub_name disclose) (\<lambda>b. upd_disclosename_update (\<lambda>_. Some b)) updater;
          updater = update_privacy (pub_organization disclose) (\<lambda>b. upd_discloseorganization_update (\<lambda>_. Some b)) updater;
          updater = update_privacy (pub_address disclose) (\<lambda>b. upd_discloseaddress_update (\<lambda>_. Some b)) updater;
          updater = update_privacy (pub_telephone disclose) (\<lambda>b. upd_disclosetelephone_update (\<lambda>_. Some b)) updater;
          updater = update_privacy (pub_fax disclose) (\<lambda>b. upd_disclosefax_update (\<lambda>_. Some b)) updater;
          updater = update_privacy (pub_email disclose) (\<lambda>b. upd_discloseemail_update (\<lambda>_. Some b)) updater;
          updater = update_privacy (pub_notify_email disclose) (\<lambda>b. upd_disclosenotifyemail_update (\<lambda>_. Some b)) updater;
          updater = update_privacy (pub_vat disclose) (\<lambda>b. upd_disclosevat_update (\<lambda>_. Some b)) updater in
      update_privacy (pub_ident disclose) (\<lambda>b. upd_discloseident_update (\<lambda>_. Some b)) updater)"

text \<open>\<^verbatim>\<open>optional_to_value\<close> of a text and of an optional text.\<close>

definition optional_to_value :: "string option \<Rightarrow> string" where
  "optional_to_value src = (case src of Some s \<Rightarrow> s | None \<Rightarrow> [])"

definition optional_to_optional_value :: "string option \<Rightarrow> string option" where
  "optional_to_optional_value src = (case src of Some s \<Rightarrow> if s \<noteq> [] then Some s else None | None \<Rightarrow> None)"

definition mailing_place :: "string option Address \<Rightarrow> PlaceAddress" where
  "mailing_place a = \<lparr>street1 = optional_to_value (row0 (street a)),
     street2 = optional_to_optional_value (row1 (street a)), street3 = optional_to_optional_value (row2 (street a)),
     place_city = optional_to_value (city a), stateorprovince = optional_to_optional_value (state_or_province a),
     postalcode = optional_to_value (postal_code a), country = optional_to_value (country_code a)\<rparr>"

definition new_updater :: "string \<Rightarrow> string \<Rightarrow> UpdateContactOp" where
  "new_updater h registrar = \<lparr>upd_contact_handle = h, upd_contact_registrar = registrar,
     upd_name = None, upd_organization = None, upd_place = None, upd_telephone = None, upd_fax = None,
     upd_email = None, upd_notifyemail = None, upd_vat = None, upd_personal_id = None, upd_authinfo = None,
     upd_mailing = None, upd_disclosename = None, upd_discloseorganization = None, upd_discloseaddress = None,
     upd_disclosetelephone = None, upd_disclosefax = None, upd_discloseemail = None,
     upd_disclosenotifyemail = None, upd_disclosevat = None, upd_discloseident = None,
     upd_contact_logd_request_id = None\<rparr>"

definition contact_updater ::
  "string \<Rightarrow> string \<Rightarrow> ContactChange \<Rightarrow> SessionData \<Rightarrow> ('db, exn, UpdateContactOp) op" where
  "contact_updater h registrar change session =
     bindE (update_value (chg_name change) (\<lambda>v. upd_name_update (\<lambda>_. Some v)) (new_updater h registrar)) (\<lambda>u.
     bindE (update_value (chg_organization change) (\<lambda>v. upd_organization_update (\<lambda>_. Some v)) u) (\<lambda>u.
     bindE (update_place (chg_address change) u) (\<lambda>u.
     bindE (update_value (chg_telephone change) (\<lambda>v. upd_telephone_update (\<lambda>_. Some v)) u) (\<lambda>u.
     bindE (update_value (chg_fax change) (\<lambda>v. upd_fax_update (\<lambda>_. Some v)) u) (\<lambda>u.
     bindE (update_value (chg_email change) (\<lambda>v. upd_email_update (\<lambda>_. Some v)) u) (\<lambda>u.
     bindE (update_value (chg_notify_email change) (\<lambda>v. upd_notifyemail_update (\<lambda>_. Some v)) u) (\<lambda>u.
     bindE (update_value (chg_vat change) (\<lambda>v. upd_vat_update (\<lambda>_. Some v)) u) (\<lambda>u.
     bindE (update_value (chg_ident change)
              (\<lambda>v. upd_personal_id_update (\<lambda>_. Some (map_option get_personal_id_union v))) u) (\<lambda>u.
     bindE (update_value (chg_authinfopw change) (\<lambda>v. upd_authinfo_update (\<lambda>_. Some v)) u) (\<lambda>u.
     bindE (operation_is (chg_disclose change) Action_set_value) (\<lambda>disclose_set.
     bindE (if disclose_set
            then bindE (operation_value (chg_disclose change)) (\<lambda>disclose. returnE (update_disclose disclose u))
            else returnE u) (\<lambda>u.
     bindE (operation_is (chg_mailing_address change) Action_set_value) (\<lambda>mailing_set.
     bindE (if mailing_set
            then bindE (operation_value (chg_mailing_address change)) (\<lambda>a.
                 returnE (u\<lparr>upd_mailing := Some (Some (mailing_place a))\<rparr>))
            else bindE (operation_is (chg_mailing_address change) Action_delete_value) (\<lambda>mailing_deleted.
                 returnE (if mailing_deleted then u\<lparr>upd_mailing := Some None\<rparr> else u))) (\<lambda>u.
     returnE (if logd_request_id session \<noteq> None
              then u\<lparr>upd_contact_logd_request_id := logd_request_id session\<rparr> else u)))))))))))))))"

section \<open>The operation\<close>

text \<open>Whether the states of the contact prohibit a part of the change.\<close>

definition change_prohibited ::
  "('db, 'x) libfred_contact_update_scheme \<Rightarrow> ObjectStateData list \<Rightarrow> ContactChange \<Rightarrow> ('db, exn, bool) op" where
  "change_prohibited L states change =
     any_of
       [and_also (returnE (ObjectStatesInfo_presents L states Object_State_server_contact_name_change_prohibited))
          (operation_is_not (chg_name change) Action_no_operation),
        and_also (returnE (ObjectStatesInfo_presents L states
                             Object_State_server_contact_organization_change_prohibited))
          (operation_is_not (chg_organization change) Action_no_operation),
        and_also (returnE (ObjectStatesInfo_presents L states Object_State_server_contact_ident_change_prohibited))
          (operation_is_not (chg_ident change) Action_no_operation),
        and_also (returnE (ObjectStatesInfo_presents L states
                             Object_State_server_contact_permanent_address_change_prohibited))
          (any_of (map (\<lambda>p. operation_is_not p Action_no_operation) (address_operations (chg_address change))))]"

definition update_contact_policy_errors ::
  "('db, 'x) libfred_contact_update_scheme \<Rightarrow> ContactChange \<Rightarrow> ('db, exn, EppResultFailure) op" where
  "update_contact_policy_errors L change =
     (let errors = result_failure parameter_value_policy_error in
      bindE (operation_is (country_code (chg_address change)) Action_set_value) (\<lambda>country_set.
      bindE (if country_set
             then bindE (operation_value (country_code (chg_address change))) (\<lambda>cc.
                  bindE (is_country_code_valid L cc) (\<lambda>country_valid.
                  returnE (if \<not> country_valid
                           then add_extended_error
                                  (of_scalar_parameter Param_contact_cc Reason_country_notexist) errors
                           else errors)))
             else returnE errors) (\<lambda>errors.
      bindE (operation_is (chg_mailing_address change) Action_set_value) (\<lambda>mailing_set.
      if mailing_set
      then bindE (operation_value (chg_mailing_address change)) (\<lambda>mailing_address.
           case country_code mailing_address of
             None \<Rightarrow> returnE errors
           | Some cc \<Rightarrow>
               bindE (is_country_code_valid L cc) (\<lambda>mailing_valid.
               returnE (if \<not> mailing_valid then add_unspecified_error errors else errors)))
      else returnE errors))))"

definition translate_filter_violation :: "exn \<Rightarrow> ('db, exn, 'a) op" where
  "translate_filter_violation e =
     (if e = DiscloseflagRulesViolation then throwE (fail_with object_status_prohibits_operation) else throwE e)"

definition translate_update_contact :: "exn \<Rightarrow> ('db, exn, 'a) op" where
  "translate_update_contact e =
     (case e of
        LibfredException (UpdateContactException forbidden unknown_reg unknown_ssn unknown_con unknown_cc) \<Rightarrow>
          if forbidden \<or> unknown_reg \<or> unknown_ssn then throwE e
          else if unknown_con then throwE (fail_with object_does_not_exist)
          else if unknown_cc then
            throwE (epp_failure (add_extended_error
              (of_scalar_parameter Param_contact_cc Reason_country_notexist)
              (result_failure parameter_value_policy_error)))
          else throwE e
      | _ \<Rightarrow> throwE e)"

lemma rethrows_update_contact [simp]:
  "rethrows translate_filter_violation" "rethrows translate_update_contact"
  by (auto simp: rethrows_def translate_filter_violation_def translate_update_contact_def throwE_def
      split: exn.split libfred_exception.split)

text \<open>The part after all checks.\<close>

definition contact_modification ::
  "('db, 'x) libfred_contact_update_scheme \<Rightarrow> string \<Rightarrow> string \<Rightarrow> InfoContactData \<Rightarrow> ContactChange \<Rightarrow> ContactChange \<Rightarrow>
     'db update_contact_filter \<Rightarrow> SessionData \<Rightarrow> ('db, exn, u64) op" where
  "contact_modification L h registrar contact_data_before_update change trimmed_change data_filter session =
     bindE (contact_updater h registrar trimmed_change session) (\<lambda>updater.
     bindE (catchE (data_filter contact_data_before_update change session updater)
              translate_filter_violation) (\<lambda>updater.
     catchE
       (bindE (UpdateContactByHandle L updater) (\<lambda>new_history_id.
        bindE (CreatePollMessage L update_contact_message new_history_id) (\<lambda>_.
        returnE new_history_id)))
       translate_update_contact))"

definition update_contact ::
  "('db, 'x) libfred_contact_update_scheme \<Rightarrow> string \<Rightarrow> ContactChange \<Rightarrow> 'db update_contact_filter \<Rightarrow> SessionData \<Rightarrow>
     ('db, exn, u64) op" where
  "update_contact L h change data_filter session =
     with_session session (
     bindE (catchE (InfoContactByHandle L True h) translate_unknown_contact) (\<lambda>contact_data_before_update.
     bindE (InfoRegistrarById L (registrar_id session)) (\<lambda>session_registrar.
     let is_sponsoring_registrar =
           (con_sponsoring_registrar_handle contact_data_before_update = registrar_handle session_registrar);
         is_system_registrar = is_system session_registrar;
         operation_is_permitted = (is_sponsoring_registrar \<or> is_system_registrar) in
     throw_if (\<not> operation_is_permitted)
       (epp_failure (add_extended_error
          (of_scalar_parameter Param_registrar_autor Reason_unauthorized_registrar)
          (result_failure authorization_error))) (
     bindE (LockObjectStateRequestLock L (con_id contact_data_before_update)) (\<lambda>_.
     bindE (PerformObjectStateRequest L (con_id contact_data_before_update)) (\<lambda>_.
     bindE (GetObjectStates L (con_id contact_data_before_update)) (\<lambda>states.
     throw_if (\<not> is_system_registrar \<and>
               (ObjectStatesInfo_presents L states Object_State_server_update_prohibited \<or>
                ObjectStatesInfo_presents L states Object_State_delete_candidate))
       (fail_with object_status_prohibits_operation) (
     bindE (get_trimmed_copy change) (\<lambda>trimmed_change.
     bindE (change_prohibited L states trimmed_change) (\<lambda>prohibited.
     throw_if prohibited (fail_with object_status_prohibits_operation) (
     bindE (update_contact_policy_errors L trimmed_change) (\<lambda>errors.
     throw_if (\<not> failure_empty errors) (epp_failure errors) (
     throw_if (operation_not_specified (chg_ident trimmed_change)) (fail_with required_parameter_missing) (
     contact_modification L h (registrar_handle session_registrar) contact_data_before_update change
       trimmed_change data_filter session))))))))))))))"

interpretation update_contact: session_guarded "update_contact L h change data_filter" for L h change data_filter
  by unfold_locales (simp add: update_contact_def with_session_refuses)

end
