(* ===== verification/Contact_Hooks.thy ===== *)
theory Contact_Hooks
  imports Contact_Update
begin

text \<open>
  What follows the update of a contact: the states of its verification are cancelled when the data
  they vouch for change, and a new check is enqueued
  (\<^verbatim>\<open>contact/update_contact_post_hooks.cc\<close>, and in \<^verbatim>\<open>src/src/backend/admin/contact/verification\<close>
  \<^verbatim>\<open>contact_states/delete_all.cc\<close> and \<^verbatim>\<open>enqueue_check.cc\<close>); the localized entry point of the
  update (\<^verbatim>\<open>contact/update_contact_localized.cc\<close>).
\<close>

section \<open>Cancelling of states\<close>

text \<open>The handlers that swallow the exception for a state that is not set.\<close>

definition swallow_state_not_found :: "exn \<Rightarrow> ('db, exn, unit) op" where
  "swallow_state_not_found e =
     (case e of
        LibfredException (CancelObjectStateRequestIdException not_found no_object) \<Rightarrow>
          if not_found \<and> \<not> no_object then returnE () else throwE e
      | _ \<Rightarrow> throwE e)"

definition cancel_states ::
  "('db, 'x) libfred_contact_update_scheme \<Rightarrow> u64 \<Rightarrow> Object_State set \<Rightarrow> ('db, exn, unit) op" where
  "cancel_states L contact_id states =
     catchE (CancelObjectStateRequestId L contact_id states) swallow_state_not_found"

definition cancel_all_states ::
  "('db, 'x) libfred_contact_update_scheme \<Rightarrow> u64 \<Rightarrow> ('db, exn, unit) op" where
  "cancel_all_states L contact_id =
     cancel_states L contact_id {Object_State_contact_in_manual_verification,
       Object_State_contact_passed_manual_verification, Object_State_contact_failed_manual_verification}"

definition conditionally_cancel_final_states ::
  "('db, 'x) libfred_contact_update_scheme \<Rightarrow> u64 \<Rightarrow> ('db, exn, bool) op" where
  "conditionally_cancel_final_states L contact_id =
     bindE (select_contact_difference L contact_id) (\<lambda>rows.
     if rows = [] \<or> \<not> hd rows then returnE False
     else
       bindE (cancel_states L contact_id {Object_State_contact_passed_manual_verification,
                Object_State_contact_failed_manual_verification}) (\<lambda>_.
       returnE True))"

definition conditionally_cancel_contact_verification_states ::
  "('db, 'x) libfred_contact_update_scheme \<Rightarrow> u64 \<Rightarrow> ('db, exn, unit) op" where
  "conditionally_cancel_contact_verification_states L contact_id =
     bindE (LockObjectStateRequestLock L contact_id) (\<lambda>_.
     bindE (PerformObjectStateRequest L contact_id) (\<lambda>_.
     bindE (select_contact_change L contact_id) (\<lambda>contact_change_res.
     throw_if (length contact_change_res \<noteq> 1)
       (StdException (if contact_change_res = [] then ''unable to get contact data difference''
                      else ''ambiguous contact data'')) (
     whenE (hd contact_change_res)
       (catchE (CancelObjectStateRequestId L contact_id
                  {Object_State_conditionally_identified_contact, Object_State_identified_contact})
          swallow_state_not_found)))))"

section \<open>Enqueueing of a check\<close>

definition request_check_enqueueing ::
  "('db, 'x) libfred_contact_update_scheme \<Rightarrow> u64 \<Rightarrow> string \<Rightarrow> u64 option \<Rightarrow> ('db, exn, string) op" where
  "request_check_enqueueing L contact_id testsuite_handle log_id =
     catchE (CreateContactCheck L contact_id testsuite_handle log_id)
       (\<lambda>e. if e = LibfredException ExceptionUnknownContactId then throwE (StdException ''unknown contact id'')
            else if e = LibfredException ExceptionUnknownTestsuiteHandle
            then throwE (StdException ''unknown testsuite handle'')
            else throwE e)"

abbreviation ExceptionCheckNotUpdateable :: exn where
  "ExceptionCheckNotUpdateable \<equiv>
     StdException ''check is not updateable - either already resolved or tests not yet finished''"

fun invalidate_checks ::
  "('db, 'x) libfred_contact_update_scheme \<Rightarrow> u64 option \<Rightarrow> string list \<Rightarrow> ('db, exn, unit) op" where
  "invalidate_checks L log_id [] = returnE ()"
| "invalidate_checks L log_id (h # hs) =
     bindE (liftE (uuid_from_string L h)) (\<lambda>u.
     bindE (UpdateContactCheck L u (status_INVALIDATED L) log_id) (\<lambda>_.
     invalidate_checks L log_id hs))"

definition confirm_check_enqueueing ::
  "('db, 'x) libfred_contact_update_scheme \<Rightarrow> string \<Rightarrow> u64 option \<Rightarrow> ('db, exn, unit) op" where
  "confirm_check_enqueueing L check_handle log_id =
     bindE (catchE (bindE (liftE (uuid_from_string L check_handle)) (InfoContactCheck L))
              (\<lambda>_. throwE ExceptionCheckNotUpdateable)) (\<lambda>(contact_history_id, last_status).
     throw_if (last_status \<noteq> status_ENQUEUE_REQ L) ExceptionCheckNotUpdateable (
     catchE
       (bindE (UpdateContactCheck L check_handle (status_ENQUEUED L) log_id) (\<lambda>_.
        bindE (select_obsolete_checks L [status_ENQUEUE_REQ L, status_ENQUEUED L] contact_history_id check_handle)
          (\<lambda>obsolete_handles.
        invalidate_checks L log_id obsolete_handles)))
       (\<lambda>e. if e = LibfredException ExceptionUnknownCheckHandle then throwE (StdException ''unknown check handle'')
            else throwE e)))"

definition enqueue_check ::
  "('db, 'x) libfred_contact_update_scheme \<Rightarrow> u64 \<Rightarrow> string \<Rightarrow> u64 option \<Rightarrow> ('db, exn, string) op" where
  "enqueue_check L contact_id testsuite_handle log_id =
     bindE (request_check_enqueueing L contact_id testsuite_handle log_id) (\<lambda>created_check_handle.
     bindE (whenE (testsuite_handle = testsuite_AUTOMATIC L \<or> testsuite_handle = testsuite_THANK_YOU L)
       (bindE (liftE (uuid_from_string L created_check_handle)) (\<lambda>u.
        confirm_check_enqueueing L u log_id))) (\<lambda>_.
     returnE created_check_handle))"

definition enqueue_check_if_no_other_exists ::
  "('db, 'x) libfred_contact_update_scheme \<Rightarrow> u64 \<Rightarrow> string \<Rightarrow> u64 option \<Rightarrow> ('db, exn, string option) op" where
  "enqueue_check_if_no_other_exists L contact_id testsuite_handle log_id =
     bindE (select_check_count L (get_not_yet_resolved L) contact_id) (\<lambda>existing.
     if existing = 0
     then bindE (enqueue_check L contact_id testsuite_handle log_id) (\<lambda>created. returnE (Some created))
     else returnE None)"

section \<open>After the update\<close>

text \<open>
  \<^verbatim>\<open>DbSavepoint\<close>: what runs after the savepoint is undone when it throws. The statements of the
  savepoint itself are taken to succeed.
\<close>

definition with_savepoint :: "('db, exn, 'a) op \<Rightarrow> ('db, exn, 'a) op" where
  "with_savepoint m = (\<lambda>db. case m db of (Inl e, _) \<Rightarrow> (Inl e, db) | (Inr x, db') \<Rightarrow> (Inr x, db'))"

definition update_contact_post_hooks ::
  "('db, 'x) libfred_contact_update_scheme \<Rightarrow> string \<Rightarrow> u64 option \<Rightarrow> bool \<Rightarrow> ('db, exn, unit) op" where
  "update_contact_post_hooks L contact_handle log_id epp_update_contact_enqueue_check =
     with_savepoint (
       bindE (InfoContactByHandle L False contact_handle) (\<lambda>info.
       let contact_id = con_id info in
       bindE (PerformObjectStateRequest L contact_id) (\<lambda>_.
       bindE (conditionally_cancel_contact_verification_states L contact_id) (\<lambda>_.
       bindE (PerformObjectStateRequest L contact_id) (\<lambda>_.
       bindE (conditionally_cancel_final_states L contact_id) (\<lambda>cancelled.
       if cancelled \<and> epp_update_contact_enqueue_check
       then bindE (enqueue_check_if_no_other_exists L contact_id (testsuite_AUTOMATIC L) log_id) (\<lambda>_. returnE ())
       else returnE ()))))))"

text \<open>The two steps of the localized command inside the transaction.\<close>

definition update_contact_with_hooks ::
  "('db, 'x) libfred_contact_update_scheme \<Rightarrow> string \<Rightarrow> ContactChange \<Rightarrow> 'db update_contact_filter \<Rightarrow> bool \<Rightarrow>
     SessionData \<Rightarrow> ('db, exn, u64) op" where
  "update_contact_with_hooks L h change data_filter checks_enqueued session =
     bindE (update_contact L h change data_filter session) (\<lambda>contact_new_history_id.
     bindE (update_contact_post_hooks L h (logd_request_id session) checks_enqueued) (\<lambda>_.
     returnE contact_new_history_id))"

definition update_contact_localized ::
  "('db, 'x) libfred_contact_update_scheme \<Rightarrow> ('db, 'y) database_scheme \<Rightarrow> string \<Rightarrow> ContactChange \<Rightarrow>
     'db update_contact_filter \<Rightarrow> bool \<Rightarrow> SessionData \<Rightarrow> NotificationData \<Rightarrow>
     ('db, thrown, EppResponseSuccessLocalized) op" where
  "update_contact_localized L D h change data_filter checks_enqueued session notification_data =
     try_localized D (lang session) (with_context D (
       bindE (on_working (update_contact_with_hooks L h change data_filter checks_enqueued session))
         (\<lambda>contact_new_history_id.
       bindE (on_working (response_success_localized D command_completed_successfully (lang session)))
         (\<lambda>epp_response_success_localized.
       bindE (commit D) (\<lambda>_.
       bindE (outside (conditionally_enqueue_notification L D notified_updated
                contact_new_history_id session notification_data)) (\<lambda>_.
       returnE epp_response_success_localized))))))"

interpretation update_contact_localized: localized_update D "lang session"
    "update_contact_with_hooks L h change data_filter checks session"
    "\<lambda>r. conditionally_enqueue_notification L D notified_updated r session nd"
    "\<lambda>response _. response" "update_contact_localized L D h change data_filter checks session nd"
    for L D h change data_filter checks session nd
  by unfold_locales
    (simp_all only: update_contact_localized_def conditionally_enqueue_notification_returns)

end
