(* ===== verification/Contact_Update_Spec.thy ===== *)
theory Contact_Update_Spec
  imports Contact_Hooks
begin

text \<open>
  What an update of a contact gives to LibFred and what must hold for it to do so; what the filter
  of CZ.NIC lets pass; what happens after the update.
\<close>

section \<open>The update as a function of the change\<close>

fun changed :: "'a UpdateOperation \<Rightarrow> 'a option option" where
  "changed (Op_set_value v) = Some (Some v)"
| "changed Op_delete_value = Some None"
| "changed _ = None"

definition override :: "'a option \<Rightarrow> 'a option \<Rightarrow> 'a option" where
  "override new old = (case new of Some v \<Rightarrow> Some v | None \<Rightarrow> old)"

lemma override_None [simp]: "override new None = new" "override None = (\<lambda>old. old)"
  "override (Some v) = (\<lambda>_. Some v)"
  by (auto simp: override_def split: option.split)

lemma updates_id [simp]:
  "upd_name_update (\<lambda>old. old) u = u"
  "upd_organization_update (\<lambda>old. old) u = u"
  "upd_place_update (\<lambda>old. old) u = u"
  "upd_telephone_update (\<lambda>old. old) u = u"
  "upd_fax_update (\<lambda>old. old) u = u"
  "upd_email_update (\<lambda>old. old) u = u"
  "upd_notifyemail_update (\<lambda>old. old) u = u"
  "upd_vat_update (\<lambda>old. old) u = u"
  "upd_personal_id_update (\<lambda>old. old) u = u"
  "upd_authinfo_update (\<lambda>old. old) u = u"
  "upd_mailing_update (\<lambda>old. old) u = u"
  "upd_disclosename_update (\<lambda>old. old) u = u"
  "upd_discloseorganization_update (\<lambda>old. old) u = u"
  "upd_discloseaddress_update (\<lambda>old. old) u = u"
  "upd_disclosetelephone_update (\<lambda>old. old) u = u"
  "upd_disclosefax_update (\<lambda>old. old) u = u"
  "upd_discloseemail_update (\<lambda>old. old) u = u"
  "upd_disclosenotifyemail_update (\<lambda>old. old) u = u"
  "upd_disclosevat_update (\<lambda>old. old) u = u"
  "upd_discloseident_update (\<lambda>old. old) u = u"
  by (cases u; simp)+

lemma update_value_run:
  assumes "specified operation" and "setter (\<lambda>old. old) u = u"
  shows "update_value operation (\<lambda>v. setter (\<lambda>_. Some (f v))) u = returnE (setter (override (map_option f (changed operation))) u)"
  using assms by (cases operation)
    (simp_all add: update_value_def operation_is_def operation_value_def specified_def bindE_returnE)

lemma update_value_id_run:
  assumes "specified operation" and "setter (\<lambda>old. old) u = u"
  shows "update_value operation (\<lambda>v. setter (\<lambda>_. Some v)) u = returnE (setter (override (changed operation)) u)"
  using assms by (cases operation)
    (simp_all add: update_value_def operation_is_def operation_value_def specified_def bindE_returnE)

lemma update_privacy_run:
  assumes "setter (\<lambda>old. old) u = u"
  shows "update_privacy policy (\<lambda>b. setter (\<lambda>_. Some b)) u =
    setter (override (map_option (\<lambda>p. p = Privacy_show) policy)) u"
  using assms by (cases policy) (simp_all add: update_privacy_def)

fun to_value :: "('a \<Rightarrow> 'b) \<Rightarrow> 'b \<Rightarrow> 'a UpdateOperation \<Rightarrow> 'b" where
  "to_value conv v (Op_set_value new) = conv new"
| "to_value conv v _ = v"

lemma update_operation_to_value_run:
  "specified operation \<Longrightarrow> update_operation_to_value conv v operation = returnE (to_value conv v operation)"
  by (cases operation) (simp_all add: update_operation_to_value_def operation_is_def operation_value_def
      specified_def bindE_returnE)

text \<open>The new address; the parts the change does not mention are empty in it.\<close>

definition place_change :: "string UpdateOperation Address \<Rightarrow> PlaceAddress option option" where
  "place_change a =
     (if \<forall>p \<in> set (address_operations a). action_of p = Action_no_operation then None
      else if \<forall>p \<in> set (address_operations a). action_of p = Action_delete_value then Some None
      else Some (Some \<lparr>street1 = to_value id [] (row0 (street a)), street2 = to_value Some None (row1 (street a)),
        street3 = to_value Some None (row2 (street a)), place_city = to_value id [] (city a),
        stateorprovince = to_value Some None (state_or_province a), postalcode = to_value id [] (postal_code a),
        country = to_value id [] (country_code a)\<rparr>))"

lemma address_specified_operations: "address_specified a \<longleftrightarrow> (\<forall>p \<in> set (address_operations a). specified p)"
  by (simp add: address_specified_def address_operations_def)

lemma all_operations_are:
  "\<forall>p \<in> set ps. specified p \<Longrightarrow>
   reads (all_of (map (\<lambda>p. operation_is p action) ps)) db (\<forall>p \<in> set ps. action_of p = action)"
  using all_of_reads [of db "map (\<lambda>p. operation_is p action) ps" "map (\<lambda>p. action_of p = action) ps"]
  by (simp add: list_all2_conv_all_nth operation_is_specified reads_def returnE_def eq_commute)

lemma update_place_run:
  assumes "address_specified a"
  shows "reads (update_place a u) db (upd_place_update (override (place_change a)) u)"
proof -
  note all = all_operations_are [OF assms(1) [unfolded address_specified_operations]]
  have parts: "specified (row0 (street a))" "specified (row1 (street a))" "specified (row2 (street a))"
    "specified (city a)" "specified (state_or_province a)" "specified (postal_code a)" "specified (country_code a)"
    using assms(1) unfolding address_specified_def by blast+
  show ?thesis
    unfolding update_place_def reads_def bindE_reads [OF all] place_change_def
    by (simp add: bindE_reads [OF all] update_operation_to_value_run parts bindE_returnE returnE_run)
qed

definition flag_change :: "(Publishability \<Rightarrow> PrivacyPolicy option) \<Rightarrow> Publishability UpdateOperation \<Rightarrow> bool option" where
  "flag_change sel disclose =
     (case disclose of Op_set_value p \<Rightarrow> map_option (\<lambda>x. x = Privacy_show) (sel p) | _ \<Rightarrow> None)"

definition updater_of :: "string \<Rightarrow> string \<Rightarrow> ContactChange \<Rightarrow> SessionData \<Rightarrow> UpdateContactOp" where
  "updater_of h registrar change session = \<lparr>upd_contact_handle = h, upd_contact_registrar = registrar,
     upd_name = changed (chg_name change), upd_organization = changed (chg_organization change),
     upd_place = place_change (chg_address change), upd_telephone = changed (chg_telephone change),
     upd_fax = changed (chg_fax change), upd_email = changed (chg_email change),
     upd_notifyemail = changed (chg_notify_email change), upd_vat = changed (chg_vat change),
     upd_personal_id = map_option (map_option get_personal_id_union) (changed (chg_ident change)),
     upd_authinfo = changed (chg_authinfopw change),
     upd_mailing = map_option (map_option mailing_place) (changed (chg_mailing_address change)),
     upd_disclosename = flag_change pub_name (chg_disclose change),
     upd_discloseorganization = flag_change pub_organization (chg_disclose change),
     upd_discloseaddress = flag_change pub_address (chg_disclose change),
     upd_disclosetelephone = flag_change pub_telephone (chg_disclose change),
     upd_disclosefax = flag_change pub_fax (chg_disclose change),
     upd_discloseemail = flag_change pub_email (chg_disclose change),
     upd_disclosenotifyemail = flag_change pub_notify_email (chg_disclose change),
     upd_disclosevat = flag_change pub_vat (chg_disclose change),
     upd_discloseident = flag_change pub_ident (chg_disclose change),
     upd_contact_logd_request_id = logd_request_id session\<rparr>"

text \<open>What the update itself needs beside what trimming needs.\<close>

definition fully_specified :: "ContactChange \<Rightarrow> bool" where
  "fully_specified change \<longleftrightarrow> change_specified change \<and> specified (chg_ident change) \<and>
     specified (chg_authinfopw change) \<and> specified (chg_disclose change)"

lemma disclose_step:
  assumes "specified operation"
  shows "bindE (operation_is operation Action_set_value) (\<lambda>is_set.
      bindE (if is_set then bindE (operation_value operation) (\<lambda>v. returnE (f v u)) else returnE u) g) =
    g (case operation of Op_set_value v \<Rightarrow> f v u | _ \<Rightarrow> u)"
  using assms by (cases operation)
    (simp_all add: operation_is_def operation_value_def specified_def bindE_returnE)

lemma mailing_step:
  assumes "specified operation"
  shows "bindE (operation_is operation Action_set_value) (\<lambda>is_set.
      bindE (if is_set then bindE (operation_value operation) (\<lambda>a. returnE (u\<lparr>upd_mailing := Some (Some (mailing_place a))\<rparr>))
             else bindE (operation_is operation Action_delete_value) (\<lambda>deleted.
                  returnE (if deleted then u\<lparr>upd_mailing := Some None\<rparr> else u))) g) =
    g (upd_mailing_update (override (map_option (map_option mailing_place) (changed operation))) u)"
  using assms by (cases operation)
    (simp_all add: operation_is_def operation_value_def specified_def bindE_returnE)

lemmas update_value_fields =
  update_value_id_run [where setter = upd_name_update, OF _ updates_id(1)]
  update_value_id_run [where setter = upd_organization_update, OF _ updates_id(2)]
  update_value_id_run [where setter = upd_telephone_update, OF _ updates_id(4)]
  update_value_id_run [where setter = upd_fax_update, OF _ updates_id(5)]
  update_value_id_run [where setter = upd_email_update, OF _ updates_id(6)]
  update_value_id_run [where setter = upd_notifyemail_update, OF _ updates_id(7)]
  update_value_id_run [where setter = upd_vat_update, OF _ updates_id(8)]
  update_value_id_run [where setter = upd_authinfo_update, OF _ updates_id(10)]
  update_value_run [where setter = upd_personal_id_update and f = "map_option get_personal_id_union", OF _ updates_id(9)]

lemmas update_privacy_fields =
  update_privacy_run [where setter = upd_disclosename_update, OF updates_id(12)]
  update_privacy_run [where setter = upd_discloseorganization_update, OF updates_id(13)]
  update_privacy_run [where setter = upd_discloseaddress_update, OF updates_id(14)]
  update_privacy_run [where setter = upd_disclosetelephone_update, OF updates_id(15)]
  update_privacy_run [where setter = upd_disclosefax_update, OF updates_id(16)]
  update_privacy_run [where setter = upd_discloseemail_update, OF updates_id(17)]
  update_privacy_run [where setter = upd_disclosenotifyemail_update, OF updates_id(18)]
  update_privacy_run [where setter = upd_disclosevat_update, OF updates_id(19)]
  update_privacy_run [where setter = upd_discloseident_update, OF updates_id(20)]

lemma contact_updater_run:
  assumes "fully_specified change"
  shows "reads (contact_updater h registrar change session) db (updater_of h registrar change session)"
proof -
  note spec = assms [unfolded fully_specified_def change_specified_def]
  note place = bindE_reads [OF update_place_run, of "chg_address change"]
  show ?thesis
    using spec unfolding contact_updater_def reads_def
    by (simp add: update_value_fields bindE_returnE place disclose_step mailing_step)
      (cases "chg_disclose change"; simp add: new_updater_def update_disclose_def update_privacy_fields Let_def
         updater_of_def flag_change_def returnE_run)
qed

section \<open>The verdict\<close>

lemma any_operation_is_not:
  "\<forall>p \<in> set ps. specified p \<Longrightarrow>
   reads (any_of (map (\<lambda>p. operation_is_not p action) ps)) db (\<exists>p \<in> set ps. action_of p \<noteq> action)"
  using any_of_reads [of db "map (\<lambda>p. operation_is_not p action) ps" "map (\<lambda>p. action_of p \<noteq> action) ps"]
  by (simp add: list_all2_conv_all_nth operation_is_not_specified reads_def returnE_def eq_commute)

text \<open>The parts of a contact a state can protect, and whether a change touches them.\<close>

definition touches :: "ContactChange \<Rightarrow> Object_State \<Rightarrow> bool" where
  "touches change s \<longleftrightarrow>
     s = Object_State_server_contact_name_change_prohibited \<and> action_of (chg_name change) \<noteq> Action_no_operation \<or>
     s = Object_State_server_contact_organization_change_prohibited \<and>
       action_of (chg_organization change) \<noteq> Action_no_operation \<or>
     s = Object_State_server_contact_ident_change_prohibited \<and> action_of (chg_ident change) \<noteq> Action_no_operation \<or>
     s = Object_State_server_contact_permanent_address_change_prohibited \<and>
       (\<exists>p \<in> set (address_operations (chg_address change)). action_of p \<noteq> Action_no_operation)"

lemma prohibits_reads:
  "\<not> b \<or> specified p \<Longrightarrow> reads (and_also (returnE b) (operation_is_not p action)) db (b \<and> action_of p \<noteq> action)"
  by (cases b) (auto simp: and_also_def bindE_returnE operation_is_not_specified reads_def returnE_run)

lemma change_prohibited_run:
  assumes "change_specified change"
    and ident: "\<not> ObjectStatesInfo_presents L states Object_State_server_contact_ident_change_prohibited \<or>
      specified (chg_ident change)"
  shows "reads (change_prohibited L states change) db
    (\<exists>s. ObjectStatesInfo_presents L states s \<and> touches change s)"
proof -
  let ?p = "ObjectStatesInfo_presents L states"
  let ?acts = "\<lambda>p. action_of p \<noteq> Action_no_operation"
  have spec: "specified (chg_name change)" "specified (chg_organization change)"
    "\<forall>p \<in> set (address_operations (chg_address change)). specified p"
    using assms(1) unfolding change_specified_def address_specified_operations by blast+
  have address: "reads (and_also (returnE b)
      (any_of (map (\<lambda>p. operation_is_not p Action_no_operation) (address_operations (chg_address change))))) db
    (b \<and> (\<exists>p \<in> set (address_operations (chg_address change)). ?acts p))" for b
    using any_operation_is_not [OF spec(3)] by (intro logical_reads disjI2)
  have "reads (change_prohibited L states change) db
      (\<exists>b \<in> set [?p Object_State_server_contact_name_change_prohibited \<and> ?acts (chg_name change),
        ?p Object_State_server_contact_organization_change_prohibited \<and> ?acts (chg_organization change),
        ?p Object_State_server_contact_ident_change_prohibited \<and> ?acts (chg_ident change),
        ?p Object_State_server_contact_permanent_address_change_prohibited \<and>
          (\<exists>p \<in> set (address_operations (chg_address change)). ?acts p)]. b)"
    unfolding change_prohibited_def
    by (intro any_of_reads)
      (simp only: list_all2_Cons list_all2_Nil simp_thms prohibits_reads spec(1,2) ident address)
  moreover have "(\<exists>s. ?p s \<and> touches change s) \<longleftrightarrow>
      (\<exists>b \<in> set [?p Object_State_server_contact_name_change_prohibited \<and> ?acts (chg_name change),
        ?p Object_State_server_contact_organization_change_prohibited \<and> ?acts (chg_organization change),
        ?p Object_State_server_contact_ident_change_prohibited \<and> ?acts (chg_ident change),
        ?p Object_State_server_contact_permanent_address_change_prohibited \<and>
          (\<exists>p \<in> set (address_operations (chg_address change)). ?acts p)]. b)"
    unfolding touches_def by (simp, blast)
  ultimately show ?thesis by simp
qed

lemma touches_trimmed [simp]: "touches (trimmed change) s \<longleftrightarrow> touches change s"
  by (simp add: touches_def trimmed_def trimmed_address_def address_operations_def trim_rows_def)

text \<open>
  The failure of a change with wrong countries: one of the mailing address alone makes a failure
  whose list of errors is empty.
\<close>

definition update_contact_failure :: "string set \<Rightarrow> ContactChange \<Rightarrow> EppResultFailure" where
  "update_contact_failure countries change = \<lparr>epp_result_code = parameter_value_policy_error, extended_errors =
     (if \<exists>cc. country_code (chg_address change) = Op_set_value cc \<and> cc \<notin> countries
      then Some {of_scalar_parameter Param_contact_cc Reason_country_notexist}
      else if \<exists>a cc. chg_mailing_address change = Op_set_value a \<and> country_code a = Some cc \<and> cc \<notin> countries
      then Some {} else None)\<rparr>"

lemma update_contact_policy_errors_run:
  assumes countries: "\<And>cc. reads (select_enum_country L cc) db (if cc \<in> countries then 1 else 0)"
    and change: "change_specified change"
  shows "reads (update_contact_policy_errors L change) db (update_contact_failure countries change)"
proof -
  have country: "is_country_code_valid L cc db = (Inr (cc \<in> countries), db)" for cc
    using countries [of cc] by (simp add: is_country_code_valid_def reads_def op_simps)
  obtain c where cc: "country_code (chg_address change) = c" "specified c"
    using change by (simp add: change_specified_def address_specified_def)
  obtain m where m: "chg_mailing_address change = m" "specified m"
    using change by (simp add: change_specified_def)
  show ?thesis
    unfolding reads_def update_contact_policy_errors_def update_contact_failure_def cc(1) m(1) Let_def
    using cc(2) m(2)
    by (cases c; cases m)
      (simp_all add: operation_is_def operation_value_def specified_def op_simps country add_extended_error_def
        add_unspecified_error_def result_failure_def split: option.split)
qed

text \<open>The answers an update starts from.\<close>

definition update_contact_access ::
  "('db, 'x) libfred_contact_update_scheme \<Rightarrow> 'db \<Rightarrow> string \<Rightarrow> SessionData \<Rightarrow> InfoContactData \<Rightarrow> InfoRegistrarData \<Rightarrow>
     ObjectStateData list \<Rightarrow> bool" where
  "update_contact_access L db h session d r states \<longleftrightarrow>
     reads (InfoContactByHandle L True h) db d \<and>
     reads (InfoRegistrarById L (registrar_id session)) db r \<and>
     reads (LockObjectStateRequestLock L (con_id d)) db () \<and>
     reads (PerformObjectStateRequest L (con_id d)) db () \<and>
     reads (GetObjectStates L (con_id d)) db states"

definition update_contact_verdict ::
  "('db, 'x) libfred_contact_update_scheme \<Rightarrow> string set \<Rightarrow> InfoContactData \<Rightarrow> InfoRegistrarData \<Rightarrow>
     ObjectStateData list \<Rightarrow> ContactChange \<Rightarrow> exn option" where
  "update_contact_verdict L countries d r states change =
     (if con_sponsoring_registrar_handle d \<noteq> registrar_handle r \<and> \<not> is_system r
      then Some (epp_failure \<lparr>epp_result_code = authorization_error,
             extended_errors = Some {of_scalar_parameter Param_registrar_autor Reason_unauthorized_registrar}\<rparr>)
      else if \<not> is_system r \<and> (ObjectStatesInfo_presents L states Object_State_server_update_prohibited \<or>
                ObjectStatesInfo_presents L states Object_State_delete_candidate)
      then Some (fail_with object_status_prohibits_operation)
      else if \<exists>s. ObjectStatesInfo_presents L states s \<and> touches change s
      then Some (fail_with object_status_prohibits_operation)
      else if extended_errors (update_contact_failure countries (trimmed change)) \<noteq> None
      then Some (epp_failure (update_contact_failure countries (trimmed change)))
      else if \<not> specified (chg_ident change) then Some (fail_with required_parameter_missing)
      else None)"

lemma catchE_reads: "reads m db x \<Longrightarrow> reads (catchE m h) db x"
  by (simp add: reads_def catchE_def)

lemma update_contact_by_verdict:
  assumes access: "update_contact_access L db h session d r states"
    and countries: "\<And>cc. reads (select_enum_country L cc) db (if cc \<in> countries then 1 else 0)"
    and session: "is_session_registrar_valid session" and change: "change_specified change"
    and ident: "\<not> ObjectStatesInfo_presents L states Object_State_server_contact_ident_change_prohibited \<or>
      specified (chg_ident change)"
  shows "update_contact L h change data_filter session db =
    (case update_contact_verdict L countries d r states change of
       Some e \<Rightarrow> (Inl e, db)
     | None \<Rightarrow> contact_modification L h (registrar_handle r) d change (trimmed change) data_filter session db)"
proof -
  note reads = access [unfolded update_contact_access_def]
  have d: "reads (catchE (InfoContactByHandle L True h) translate_unknown_contact) db d"
    using reads by (blast intro: catchE_reads)
  have r: "reads (InfoRegistrarById L (registrar_id session)) db r" using reads by blast
  have lock: "reads (LockObjectStateRequestLock L (con_id d)) db ()" using reads by blast
  have perform: "reads (PerformObjectStateRequest L (con_id d)) db ()" using reads by blast
  have st: "reads (GetObjectStates L (con_id d)) db states" using reads by blast
  have ident': "\<not> ObjectStatesInfo_presents L states Object_State_server_contact_ident_change_prohibited \<or>
      specified (chg_ident (trimmed change))"
    using ident by (simp add: trimmed_def)
  have specified: "specified (chg_ident (trimmed change)) \<longleftrightarrow> specified (chg_ident change)"
    by (simp add: trimmed_def)
  define prohibited where "prohibited \<longleftrightarrow> (\<exists>s. ObjectStatesInfo_presents L states s \<and> touches change s)"
  note prohibits = change_prohibited_run [OF trimmed_specified [OF change] ident', unfolded touches_trimmed,
      folded prohibited_def]
  note errors = update_contact_policy_errors_run [OF countries trimmed_specified [OF change]]
  show ?thesis
    unfolding update_contact_def with_session_valid [OF session] update_contact_verdict_def bindE_reads [OF d]
      bindE_reads [OF r] Let_def throw_if_run bindE_reads [OF lock] bindE_reads [OF perform] bindE_reads [OF st]
      bindE_reads [OF get_trimmed_copy_run [OF change]] bindE_reads [OF prohibits] bindE_reads [OF errors]
      operation_not_specified_iff specified failure_empty_def prohibited_def [symmetric]
    by (simp add: add_extended_error_def result_failure_def)
qed

section \<open>The privacy of the address\<close>

text \<open>The conditions under which CZ.NIC lets an address be private.\<close>

definition may_hide_address ::
  "('db, 'x) libfred_contact_update_scheme \<Rightarrow> ObjectStateData list \<Rightarrow> InfoContactData \<Rightarrow> ContactChange \<Rightarrow> bool" where
  "may_hide_address L states d change \<longleftrightarrow>
     (ObjectStatesInfo_presents L states Object_State_identified_contact \<or>
      ObjectStatesInfo_presents L states Object_State_validated_contact) \<and>
     identity_stays (case_insensitive_equal_to L) change d \<and> text_of (con_organization d) = []"

text \<open>The flag of the address after the update.\<close>

definition address_public_after :: "UpdateContactOp \<Rightarrow> InfoContactData \<Rightarrow> bool" where
  "address_public_after u d = (case upd_discloseaddress u of Some b \<Rightarrow> b | None \<Rightarrow> con_discloseaddress d)"

lemma update_common_privacy_keeps [simp]:
  "upd_disclosename (update_common_privacy d old p u) = upd_disclosename u"
  "upd_discloseorganization (update_common_privacy d old p u) = upd_discloseorganization u"
  "upd_discloseaddress (update_common_privacy d old p u) = upd_discloseaddress u"
  by (simp_all add: update_common_privacy_def)

lemma cznic_update_filter_returns:
  assumes states: "reads (GetObjectStates L (con_id d)) db states" and change: "well_formed_change change"
    and kept: "\<nexists>p. chg_disclose change = Op_set_value p \<Longrightarrow> upd_discloseaddress u = None"
    and run: "cznic_update_contact_data_filter L defaults d change session u db = (Inr u', db')"
  shows "db' = db" and "address_public_after u' d \<or> may_hide_address L states d change"
    and "chg_disclose change = Op_set_value p \<Longrightarrow>
      upd_disclosename u' = Some True \<and> upd_discloseorganization u' = Some True"
proof -
  note sufficient = bindE_reads [OF sufficient_authenticity_reads [OF states change, folded may_hide_address_def]]
  have "db' = db \<and> (address_public_after u' d \<or> may_hide_address L states d change) \<and>
    (\<forall>p. chg_disclose change = Op_set_value p \<longrightarrow>
      upd_disclosename u' = Some True \<and> upd_discloseorganization u' = Some True)"
  proof (cases "chg_disclose change")
    case Op_not_specified
    with run show ?thesis by (simp add: cznic_update_contact_data_filter_def operation_is_def op_inv)
  next
    case (Op_set_value p)
    with run show ?thesis
      by (auto simp: cznic_update_contact_data_filter_def operation_is_def operation_value_def bindE_returnE Let_def
          op_inv sufficient address_public_after_def split: if_splits)
  next
    case Op_delete_value
    with run kept show ?thesis
      by (auto simp: cznic_update_contact_data_filter_def operation_is_def bindE_returnE Let_def op_inv sufficient
          address_public_after_def split: if_splits)
  next
    case Op_no_operation
    with run kept show ?thesis
      by (auto simp: cznic_update_contact_data_filter_def operation_is_def bindE_returnE Let_def op_inv sufficient
          address_public_after_def split: if_splits)
  qed
  then show "db' = db" "address_public_after u' d \<or> may_hide_address L states d change"
    "chg_disclose change = Op_set_value p \<Longrightarrow>
      upd_disclosename u' = Some True \<and> upd_discloseorganization u' = Some True" by blast+
qed

text \<open>The changes an update makes apart from the flags.\<close>

definition data_changes :: "UpdateContactOp \<Rightarrow> UpdateContactOp" where
  "data_changes u = u\<lparr>upd_disclosename := None, upd_discloseorganization := None, upd_discloseaddress := None,
     upd_disclosetelephone := None, upd_disclosefax := None, upd_discloseemail := None,
     upd_disclosenotifyemail := None, upd_disclosevat := None, upd_discloseident := None\<rparr>"

lemma data_changes_flags:
  "data_changes (u\<lparr>upd_disclosename := x\<rparr>) = data_changes u"
  "data_changes (u\<lparr>upd_discloseorganization := x\<rparr>) = data_changes u"
  "data_changes (u\<lparr>upd_discloseaddress := x\<rparr>) = data_changes u"
  "data_changes (update_common_privacy d old p u) = data_changes u"
  by (simp_all add: data_changes_def update_common_privacy_def)

lemma cznic_update_filter_data:
  assumes "cznic_update_contact_data_filter L defaults d change session u db = (Inr u', db')"
  shows "data_changes u' = data_changes u"
  using assms unfolding cznic_update_contact_data_filter_def Let_def
  by (auto simp only: op_inv data_changes_flags split: if_splits)

text \<open>
  What LibFred is given of a datum is nothing or what is recorded, up to \<open>same\<close> and white space at
  the ends. Of an address it is nothing, or an address in which every part the client mentions is the
  recorded one; a part the client does not mention is empty in it, whatever is recorded.
\<close>

definition datum_kept :: "(string \<Rightarrow> string \<Rightarrow> bool) \<Rightarrow> string option option \<Rightarrow> string option \<Rightarrow> bool" where
  "datum_kept same given old \<longleftrightarrow> (\<forall>new. given = Some new \<longrightarrow> same (text_of new) (trim_copy (text_of old)))"

definition part_kept :: "string UpdateOperation \<Rightarrow> string \<Rightarrow> string \<Rightarrow> bool" where
  "part_kept mentioned given old \<longleftrightarrow> given = (if mentioned = Op_no_operation then [] else trim_copy old)"

definition recorded_place :: "PlaceAddress option \<Rightarrow> PlaceAddress" where
  "recorded_place old = (case old of Some a \<Rightarrow> a | None \<Rightarrow> \<lparr>street1 = [], street2 = None, street3 = None,
     place_city = [], stateorprovince = None, postalcode = [], country = []\<rparr>)"

definition place_kept ::
  "string UpdateOperation Address \<Rightarrow> PlaceAddress option option \<Rightarrow> PlaceAddress option \<Rightarrow> bool" where
  "place_kept a given old \<longleftrightarrow> given = None \<or>
     (\<exists>new. given = Some (Some new) \<and>
        part_kept (row0 (street a)) (street1 new) (street1 (recorded_place old)) \<and>
        part_kept (row1 (street a)) (text_of (street2 new)) (text_of (street2 (recorded_place old))) \<and>
        part_kept (row2 (street a)) (text_of (street3 new)) (text_of (street3 (recorded_place old))) \<and>
        part_kept (city a) (place_city new) (place_city (recorded_place old)) \<and>
        part_kept (state_or_province a) (text_of (stateorprovince new)) (text_of (stateorprovince (recorded_place old))) \<and>
        part_kept (postal_code a) (postalcode new) (postalcode (recorded_place old)) \<and>
        part_kept (country_code a) (country new) (country (recorded_place old)))"

definition identity_kept ::
  "(string \<Rightarrow> string \<Rightarrow> bool) \<Rightarrow> ContactChange \<Rightarrow> UpdateContactOp \<Rightarrow> InfoContactData \<Rightarrow> bool" where
  "identity_kept equal_to change u d \<longleftrightarrow>
     datum_kept (\<lambda>new old. new = old \<or> equal_to new old) (upd_name u) (con_name d) \<and>
     datum_kept (=) (upd_organization u) (con_organization d) \<and>
     datum_kept (=) (upd_telephone u) (con_telephone d) \<and> datum_kept (=) (upd_email u) (con_email d) \<and>
     place_kept (chg_address change) (upd_place u) (con_place d)"

lemma datum_kept_changed:
  assumes "stays same operation (text_of old)" and "same [] []"
  shows "datum_kept same (changed (map_UpdateOperation trim_copy operation)) old"
  using assms by (cases operation) (simp_all add: datum_kept_def text_of_def)

lemma part_kept_trimmed:
  assumes "stays (=) operation old"
  shows "part_kept operation (to_value id [] (map_UpdateOperation trim_copy operation)) old"
    and "part_kept operation (text_of (to_value Some None (map_UpdateOperation trim_copy operation))) old"
  using assms by (cases operation; simp add: part_kept_def text_of_def)+

lemma place_kept_trimmed:
  assumes "address_stays a old" and "country_code a \<noteq> Op_delete_value"
  shows "place_kept a (place_change (trimmed_address a)) old"
proof -
  note parts = assms(1) [unfolded address_stays_def Let_def, folded recorded_place_def]
  have country: "action_of (country_code (trimmed_address a)) \<noteq> Action_delete_value"
    using assms(2) by (cases "country_code a") (simp_all add: trimmed_address_def)
  have some_kept: "\<not> (\<forall>p \<in> set (address_operations (trimmed_address a)). action_of p = Action_delete_value)"
    using country by (simp add: address_operations_def)
  show ?thesis
  proof (cases "\<forall>p \<in> set (address_operations (trimmed_address a)). action_of p = Action_no_operation")
    case True
    then show ?thesis
      unfolding place_kept_def place_change_def if_P [OF True] by blast
  next
    case False
    then show ?thesis
      using parts unfolding place_kept_def place_change_def if_not_P [OF False] if_not_P [OF some_kept]
      by (simp add: part_kept_trimmed trimmed_address_def trim_rows_def)
  qed
qed

lemma identity_stays_kept:
  assumes "identity_stays equal_to change d" and "well_formed_change change"
    and "data_changes u = data_changes (updater_of h registrar (trimmed change) session)"
  shows "identity_kept equal_to change u d"
proof -
  let ?u = "updater_of h registrar (trimmed change) session"
  have same: "upd_name u = upd_name ?u" "upd_organization u = upd_organization ?u" "upd_telephone u = upd_telephone ?u"
    "upd_email u = upd_email ?u" "upd_place u = upd_place ?u"
    using arg_cong [OF assms(3), of upd_name] arg_cong [OF assms(3), of upd_organization]
      arg_cong [OF assms(3), of upd_telephone] arg_cong [OF assms(3), of upd_email] arg_cong [OF assms(3), of upd_place]
    by (simp_all add: data_changes_def)
  show ?thesis
    using assms(1,2) unfolding identity_kept_def identity_stays_def same
    by (simp add: updater_of_def trimmed_def datum_kept_changed place_kept_trimmed well_formed_change_def)
qed

section \<open>After the update\<close>

lemma with_savepoint_Inr [op_inv]: "with_savepoint m db = (Inr x, db') \<longleftrightarrow> m db = (Inr x, db')"
  by (auto simp: with_savepoint_def split: prod.split sum.split)

lemma with_savepoint_undone: "with_savepoint m db = (Inl e, db') \<Longrightarrow> db' = db"
  by (auto simp: with_savepoint_def split: prod.splits sum.splits)

lemma contact_hooks_return:
  assumes "update_contact_post_hooks L h log_id enqueue db = (Inr (), db')"
  shows "\<exists>d db1 db2 db3 db4 changed db5 db6 db7 rows db8.
    InfoContactByHandle L False h db = (Inr d, db1) \<and>
    PerformObjectStateRequest L (con_id d) db1 = (Inr (), db2) \<and>
    LockObjectStateRequestLock L (con_id d) db2 = (Inr (), db3) \<and>
    PerformObjectStateRequest L (con_id d) db3 = (Inr (), db4) \<and>
    select_contact_change L (con_id d) db4 = (Inr [changed], db5) \<and>
    (if changed
     then cancel_states L (con_id d)
            {Object_State_conditionally_identified_contact, Object_State_identified_contact} db5 = (Inr (), db6)
     else db6 = db5) \<and>
    PerformObjectStateRequest L (con_id d) db6 = (Inr (), db7) \<and>
    select_contact_difference L (con_id d) db7 = (Inr rows, db8) \<and>
    (if rows \<noteq> [] \<and> hd rows
     then \<exists>db9. cancel_states L (con_id d) {Object_State_contact_passed_manual_verification,
              Object_State_contact_failed_manual_verification} db8 = (Inr (), db9) \<and>
            (if enqueue
             then \<exists>check. enqueue_check_if_no_other_exists L (con_id d) (testsuite_AUTOMATIC L) log_id db9 = (Inr check, db')
             else db' = db9)
     else db' = db8)"
proof -
  have one: "length xs = Suc 0 \<longleftrightarrow> (\<exists>x. xs = [x])" for xs :: "bool list"
    by (cases xs) auto
  show ?thesis
    using assms
    unfolding update_contact_post_hooks_def conditionally_cancel_contact_verification_states_def
      conditionally_cancel_final_states_def cancel_states_def [symmetric]
    by (auto simp: op_inv Let_def one split: if_splits) blast+
qed

end
