(* ===== verification/Contact_Update_Properties.thy ===== *)
theory Contact_Update_Properties
  imports Contact_Sample Contact_Update_Spec
begin

text \<open>
  The properties of the update of contacts, and the registry their witnesses run on.
\<close>

section \<open>Samples\<close>

text \<open>The states of the contact \<^verbatim>\<open>CON1\<close> and its data are given: \<^verbatim>\<open>S\<close>, \<^verbatim>\<open>d\<close>.\<close>

definition cusample :: "Object_State set \<Rightarrow> InfoContactData \<Rightarrow> changes libfred_contact_update" where
  "cusample S d = \<lparr>
     InfoRegistrarById = (\<lambda>reg. returnE (sample_registrar reg)),
     LockObjectStateRequestLock = (\<lambda>_. returnE ()),
     PerformObjectStateRequest = (\<lambda>_. returnE ()),
     GetObjectStates = (\<lambda>_. returnE []),
     ObjectStatesInfo_presents = (\<lambda>_ s. s \<in> S),
     object_state_from_db_handle = sample_from_db_handle,
     CheckAuthinfo = (\<lambda>_ pw. returnE (if pw = ''secret'' then 1 else 0)),
     Contact_get_handle_registrability = (\<lambda>h. returnE (sample_contact_handles h)),
     CreatePollMessage = (\<lambda>_ _. change ''poll'' ()),
     Contact_get_handle_syntax_validity = (\<lambda>h. returnE (sample_syntax h)),
     select_enum_country = (\<lambda>cc. returnE (if cc \<in> {''CZ'', ''SK''} then 1 else 0)),
     personal_id_type = sample_personal_id_type,
     personal_id_value = sample_personal_id_value,
     InfoContactByHandle = (\<lambda>lock h.
       if h = ''CON1'' then returnE d else throwE (LibfredException (InfoContactByHandleException True))),
     CreateContact = (\<lambda>create_op. change ''create'' (10, 100, 0)),
     DeleteContactByHandle = (\<lambda>h. change ''delete'' ()),
     TransferContact = (\<lambda>i reg pw log. change ''transfer'' 52),
     select_domain_holder = (\<lambda>reg contact. returnE 0),
     select_domain_admin_contact = (\<lambda>reg contact. returnE 0),
     UpdateContactByHandle = (\<lambda>u. change (''update '' @ upd_contact_handle u) 51),
     case_insensitive_equal_to = (=),
     select_contact_change = (\<lambda>_. returnE [True]),
     select_contact_difference = (\<lambda>_. returnE [True]),
     CancelObjectStateRequestId = (\<lambda>_ states. change ''cancel'' ()),
     CreateContactCheck = (\<lambda>_ suite _. change ''check'' ''handle''),
     InfoContactCheck = (\<lambda>_. returnE (50, ''enqueue_req'')),
     UpdateContactCheck = (\<lambda>_ status _. change status ()),
     select_obsolete_checks = (\<lambda>_ _ _. returnE []),
     select_check_count = (\<lambda>_ _. returnE 0),
     get_not_yet_resolved = [''enqueue_req'', ''enqueued''],
     uuid_from_string = Inr,
     status_ENQUEUE_REQ = ''enqueue_req'',
     status_ENQUEUED = ''enqueued'',
     status_INVALIDATED = ''invalidated'',
     testsuite_AUTOMATIC = ''automatic'',
     testsuite_THANK_YOU = ''thank_you''\<rparr>"






lemma cusample_presents [simp]: "ObjectStatesInfo_presents (cusample S d) states s \<longleftrightarrow> s \<in> S"
  by (simp add: cusample_def)





section \<open>The update\<close>






text \<open>The filter and the update disagree on what a part of the address that the client does not
  mention means: the filter takes it as unchanged, and lets the address stay private, while the
  update gives LibFred an address in which it is empty. An update that repeats the city only thus
  passes as a change of nothing and deletes the rest of the address.\<close>

lemma partial_address_change_divergence:
  assumes "row0 (street a) = Op_no_operation" and "row1 (street a) = Op_no_operation"
    and "row2 (street a) = Op_no_operation" and "city a = Op_set_value (place_city old)"
    and "state_or_province a = Op_no_operation" and "postal_code a = Op_no_operation"
    and "country_code a = Op_no_operation"
  shows "is_fake_change_of_address a (Some old) db = (Inr True, db) \<and>
    update_place a u db =
      (Inr (u\<lparr>upd_place := Some (Some \<lparr>street1 = [], street2 = None, street3 = None, place_city = place_city old,
         stateorprovince = None, postalcode = [], country = []\<rparr>)\<rparr>), db)"
proof -
  have spec: "address_specified a" using assms by (simp add: address_specified_def specified_def)
  have "address_stays a (Some old)" using assms by (simp add: address_stays_def)
  moreover have "place_change a = Some (Some \<lparr>street1 = [], street2 = None, street3 = None,
      place_city = place_city old, stateorprovince = None, postalcode = [], country = []\<rparr>)"
    using assms by (simp add: place_change_def address_operations_def)
  ultimately show ?thesis
    using fake_address_reads [OF spec, of "Some old" db] update_place_run [OF spec, of u db] assms(7)
    by (simp add: reads_def)
qed

section \<open>After the update\<close>

text \<open>What follows an update either throws, and then leaves the database as the update left it, or has
  cancelled the identification of the contact if the data it vouches for changed, and, if any
  datum changed, the result of its manual verification, enqueueing a new check where the
  configuration asks for it and none is pending.\<close>

lemma contact_hooks_outcome:
  assumes "update_contact_post_hooks L h log_id enqueue db = (result, db')"
  shows "case result of
    Inl e \<Rightarrow> db' = db
  | Inr _ \<Rightarrow> \<exists>d db1 db2 db3 db4 changed db5 db6 db7 rows db8.
      InfoContactByHandle L False h db = (Inr d, db1) \<and>
      PerformObjectStateRequest L (con_id d) db1 = (Inr (), db2) \<and>
      LockObjectStateRequestLock L (con_id d) db2 = (Inr (), db3) \<and>
      PerformObjectStateRequest L (con_id d) db3 = (Inr (), db4) \<and>
      select_contact_change L (con_id d) db4 = (Inr [changed], db5) \<and>
      (if changed
       then cancel_states L (con_id d)
              {Object_State_conditionally_identified_contact, Object_State_identified_contact} db5 = (Inr (), db6)
       else db6 = db5) \<and>
      PerformObjectStateRequest L (con_id d) db6 = (Inr (), db7) \<and>
      select_contact_difference L (con_id d) db7 = (Inr rows, db8) \<and>
      (if rows \<noteq> [] \<and> hd rows
       then \<exists>db9. cancel_states L (con_id d) {Object_State_contact_passed_manual_verification,
                Object_State_contact_failed_manual_verification} db8 = (Inr (), db9) \<and>
              (if enqueue
               then \<exists>check. enqueue_check_if_no_other_exists L (con_id d) (testsuite_AUTOMATIC L) log_id db9 =
                      (Inr check, db')
               else db' = db9)
       else db' = db8)"
proof (cases result)
  case (Inl e)
  with assms show ?thesis unfolding update_contact_post_hooks_def by (auto dest: with_savepoint_undone)
next
  case (Inr x)
  with assms show ?thesis using contact_hooks_return [of L h log_id enqueue db db'] by (simp only: sum.case) simp
qed

end
