(* ===== verification/Epp_Authinfo.thy ===== *)
theory Epp_Authinfo
  imports Sample_Base
begin

text \<open>
  Sending the authorization information of an object to its contacts: the commands
  \<^verbatim>\<open>authinfo_contact\<close>, \<^verbatim>\<open>authinfo_nsset\<close>, \<^verbatim>\<open>authinfo_domain\<close> and
  \<^verbatim>\<open>authinfo_keyset\<close>, the public request they create
  (\<^verbatim>\<open>public_request/create_authinfo_request_registry_email.cc\<close>), and the recipients
  (\<^verbatim>\<open>backend/public_request/get_valid_registry_emails_of_registered_object.cc\<close>).
\<close>

section \<open>Objects, contacts and requests in LibFred\<close>

datatype PublicRequestObjectType =
    ObjectType_contact | ObjectType_nsset | ObjectType_domain | ObjectType_keyset

text \<open>The exceptions of \<^verbatim>\<open>backend/public_request/exceptions.hh\<close> the code throws.\<close>

abbreviation ObjectNotFound :: exn where
  "ObjectNotFound \<equiv> StdException ''ObjectNotFound''"

abbreviation ObjectTransferProhibited :: exn where
  "ObjectTransferProhibited \<equiv> StdException ''ObjectTransferProhibited''"

abbreviation NoContactEmail :: exn where
  "NoContactEmail \<equiv> StdException ''NoContactEmail''"

record 'db libfred_request = "'db libfred" +
  get_id_of_registered :: "PublicRequestObjectType \<Rightarrow> string \<Rightarrow> ('db, exn, u64) op"
  InfoNssetById_tech_contacts :: "u64 \<Rightarrow> ('db, exn, u64 list) op"
  InfoKeysetById_tech_contacts :: "u64 \<Rightarrow> ('db, exn, u64 list) op"
  InfoDomainById_contacts :: "u64 \<Rightarrow> ('db, exn, u64 \<times> u64 list) op"
  InfoContactById_email_uuid :: "u64 \<Rightarrow> ('db, exn, string option \<times> string) op"
  DjangoEmailFormat_check :: "string \<Rightarrow> bool"
  PublicRequestsOfObjectLockGuard :: "u64 \<Rightarrow> ('db, exn, unit) op"
  CreatePublicRequest :: "u64 \<Rightarrow> u64 \<Rightarrow> u64 option \<Rightarrow> ('db, exn, u64) op"
  UpdatePublicRequest_resolved :: "u64 \<Rightarrow> u64 option \<Rightarrow> ('db, exn, unit) op"

definition get_id_of_registered_object ::
  "('db, 'x) libfred_request_scheme \<Rightarrow> PublicRequestObjectType \<Rightarrow> string \<Rightarrow> ('db, exn, u64) op" where
  "get_id_of_registered_object L object_type h =
     (case object_type of
        ObjectType_contact \<Rightarrow> get_id_of_registered L ObjectType_contact h
      | ObjectType_nsset \<Rightarrow> get_id_of_registered L ObjectType_nsset h
      | ObjectType_domain \<Rightarrow> get_id_of_registered L ObjectType_domain h
      | ObjectType_keyset \<Rightarrow> get_id_of_registered L ObjectType_keyset h)"

section \<open>The recipients\<close>

text \<open>
  The contacts are collected in a \<^verbatim>\<open>std::set<unsigned long long>\<close> and visited in the order of
  their numbers.
\<close>

definition get_registry_contacts_of_registered_object ::
  "('db, 'x) libfred_request_scheme \<Rightarrow> PublicRequestObjectType \<Rightarrow> u64 \<Rightarrow> ('db, exn, u64 list) op" where
  "get_registry_contacts_of_registered_object L object_type object_id =
     (case object_type of
        ObjectType_contact \<Rightarrow> returnE (set_insert u64_less object_id [])
      | ObjectType_nsset \<Rightarrow>
          bindE (InfoNssetById_tech_contacts L object_id) (\<lambda>tech_contacts.
          returnE (fold (set_insert u64_less) tech_contacts []))
      | ObjectType_domain \<Rightarrow>
          bindE (InfoDomainById_contacts L object_id) (\<lambda>(registrant, admin_contacts).
          returnE (fold (set_insert u64_less) admin_contacts (set_insert u64_less registrant [])))
      | ObjectType_keyset \<Rightarrow>
          bindE (InfoKeysetById_tech_contacts L object_id) (\<lambda>tech_contacts.
          returnE (fold (set_insert u64_less) tech_contacts [])))"

text \<open>\<^verbatim>\<open>boost::split(parts, s, boost::is_any_of(","))\<close>: there is always one part more than commas.\<close>

fun split_at_commas :: "string \<Rightarrow> string list" where
  "split_at_commas [] = [[]]"
| "split_at_commas (c # cs) =
     (if c = CHR '','' then [] # split_at_commas cs
      else (case split_at_commas cs of
              [] \<Rightarrow> [[c]]
            | part # parts \<Rightarrow> (c # part) # parts))"

fun collect_recipients ::
  "('db, 'x) libfred_request_scheme \<Rightarrow> u64 list \<Rightarrow> (string \<times> string) set \<Rightarrow>
     ('db, exn, (string \<times> string) set) op" where
  "collect_recipients L [] recipients = returnE recipients"
| "collect_recipients L (contact_id # ids) recipients =
     bindE (InfoContactById_email_uuid L contact_id) (\<lambda>(email, uuid).
     let emails = split_at_commas (case email of None \<Rightarrow> [] | Some e \<Rightarrow> e) in
     collect_recipients L ids
       (fold (\<lambda>e recipients. if DjangoEmailFormat_check L e then insert (e, uuid) recipients else recipients)
         emails recipients))"

definition get_valid_registry_emails_of_registered_object ::
  "('db, 'x) libfred_request_scheme \<Rightarrow> PublicRequestObjectType \<Rightarrow> u64 \<Rightarrow>
     ('db, exn, (string \<times> string) set) op" where
  "get_valid_registry_emails_of_registered_object L object_type object_id =
     bindE (get_registry_contacts_of_registered_object L object_type object_id) (\<lambda>object_contacts.
     collect_recipients L object_contacts {})"

section \<open>The request\<close>

text \<open>Of the handlers only that of \<^verbatim>\<open>LibFred::UnknownObject\<close> does more than log and rethrow.\<close>

definition translate_unknown_object :: "exn \<Rightarrow> ('db, exn, 'a) op" where
  "translate_unknown_object e =
     (case e of
        LibfredException UnknownObject \<Rightarrow> throwE ObjectNotFound
      | _ \<Rightarrow> throwE e)"

definition create_authinfo_request_registry_email ::
  "('db, 'x) libfred_request_scheme \<Rightarrow> PublicRequestObjectType \<Rightarrow> string \<Rightarrow> u64 \<Rightarrow> u64 option \<Rightarrow>
     ('db, exn, u64) op" where
  "create_authinfo_request_registry_email L object_type h registrar log_request_id =
     catchE
       (bindE (get_id_of_registered_object L object_type h) (\<lambda>object_id.
        bindE (GetObjectStates L object_id) (\<lambda>states.
        bindE (PublicRequestsOfObjectLockGuard L object_id) (\<lambda>_.
        throw_if (ObjectStatesInfo_presents L states Object_State_server_transfer_prohibited \<and>
                  object_type \<noteq> ObjectType_contact)
          ObjectTransferProhibited (
        bindE (get_valid_registry_emails_of_registered_object L object_type object_id) (\<lambda>emails.
        throw_if (emails = {}) NoContactEmail (
        bindE (CreatePublicRequest L object_id registrar log_request_id) (\<lambda>public_request_id.
        bindE (UpdatePublicRequest_resolved L object_id log_request_id) (\<lambda>_.
        returnE public_request_id)))))))))
       translate_unknown_object"

section \<open>The commands\<close>

definition translate_authinfo :: "exn \<Rightarrow> ('db, exn, 'a) op" where
  "translate_authinfo e =
     (if e = ObjectNotFound then throwE (fail_with object_does_not_exist)
      else if e = ObjectTransferProhibited then throwE (fail_with object_status_prohibits_operation)
      else if e = NoContactEmail then throwE (fail_with command_failed)
      else throwE e)"

definition authinfo_object ::
  "('db, 'x) libfred_request_scheme \<Rightarrow> PublicRequestObjectType \<Rightarrow> string \<Rightarrow> SessionData \<Rightarrow>
     ('db, exn, unit) op" where
  "authinfo_object L object_type h session =
     catchE
       (bindE (create_authinfo_request_registry_email L object_type h (registrar_id session)
                 (logd_request_id session)) (\<lambda>_. returnE ()))
       translate_authinfo"

definition authinfo_contact ::
  "('db, 'x) libfred_request_scheme \<Rightarrow> string \<Rightarrow> SessionData \<Rightarrow> ('db, exn, unit) op" where
  "authinfo_contact L h session = authinfo_object L ObjectType_contact h session"

definition authinfo_nsset ::
  "('db, 'x) libfred_request_scheme \<Rightarrow> string \<Rightarrow> SessionData \<Rightarrow> ('db, exn, unit) op" where
  "authinfo_nsset L h session = authinfo_object L ObjectType_nsset h session"

definition authinfo_domain ::
  "('db, 'x) libfred_request_scheme \<Rightarrow> string \<Rightarrow> SessionData \<Rightarrow> ('db, exn, unit) op" where
  "authinfo_domain L fqdn session = authinfo_object L ObjectType_domain fqdn session"

definition authinfo_keyset ::
  "('db, 'x) libfred_request_scheme \<Rightarrow> string \<Rightarrow> SessionData \<Rightarrow> ('db, exn, unit) op" where
  "authinfo_keyset L h session = authinfo_object L ObjectType_keyset h session"

section \<open>The localized commands\<close>

definition authinfo_localized ::
  "('db, 'y) database_scheme \<Rightarrow> ('db, exn, unit) op \<Rightarrow> SessionData \<Rightarrow>
     ('db, thrown, EppResponseSuccessLocalized) op" where
  "authinfo_localized D core session =
     try_localized D (lang session) (with_context D (
       bindE (on_working core) (\<lambda>_.
       bindE (on_working (response_success_localized D command_completed_successfully (lang session)))
         (\<lambda>epp_response_success_localized.
       bindE (commit D) (\<lambda>_.
       returnE epp_response_success_localized)))))"

definition authinfo_contact_localized ::
  "('db, 'x) libfred_request_scheme \<Rightarrow> ('db, 'y) database_scheme \<Rightarrow> string \<Rightarrow> SessionData \<Rightarrow>
     ('db, thrown, EppResponseSuccessLocalized) op" where
  "authinfo_contact_localized L D h session = authinfo_localized D (authinfo_contact L h session) session"

definition authinfo_nsset_localized ::
  "('db, 'x) libfred_request_scheme \<Rightarrow> ('db, 'y) database_scheme \<Rightarrow> string \<Rightarrow> SessionData \<Rightarrow>
     ('db, thrown, EppResponseSuccessLocalized) op" where
  "authinfo_nsset_localized L D h session = authinfo_localized D (authinfo_nsset L h session) session"

definition authinfo_domain_localized ::
  "('db, 'x) libfred_request_scheme \<Rightarrow> ('db, 'y) database_scheme \<Rightarrow> string \<Rightarrow> SessionData \<Rightarrow>
     ('db, thrown, EppResponseSuccessLocalized) op" where
  "authinfo_domain_localized L D fqdn session = authinfo_localized D (authinfo_domain L fqdn session) session"

definition authinfo_keyset_localized ::
  "('db, 'x) libfred_request_scheme \<Rightarrow> ('db, 'y) database_scheme \<Rightarrow> string \<Rightarrow> SessionData \<Rightarrow>
     ('db, thrown, EppResponseSuccessLocalized) op" where
  "authinfo_keyset_localized L D h session = authinfo_localized D (authinfo_keyset L h session) session"

text \<open>No notification is queued: the contract of the other localized commands with an empty step.\<close>

interpretation authinfo_localized: localized_update D "lang session" core "\<lambda>_. returnE ()"
    "\<lambda>response _. response" "authinfo_localized D core session" for D core session
  by unfold_locales (simp only: authinfo_localized_def outside_nothing, simp add: returnE_run)

section \<open>What LibFred answers\<close>

record authinfo_answers =
  ans_object :: "PublicRequestObjectType \<Rightarrow> string \<Rightarrow> u64 option"
  ans_object_states :: "u64 \<Rightarrow> ObjectStateData list"
  ans_nsset_contacts :: "u64 \<Rightarrow> u64 list"
  ans_keyset_contacts :: "u64 \<Rightarrow> u64 list"
  ans_domain_contacts :: "u64 \<Rightarrow> u64 \<times> u64 list"
  ans_contact_email :: "u64 \<Rightarrow> string option \<times> string"


text \<open>The contacts an object has, and the addresses they can be reached at.\<close>

definition object_contacts :: "authinfo_answers \<Rightarrow> PublicRequestObjectType \<Rightarrow> u64 \<Rightarrow> u64 set" where
  "object_contacts A t i =
     (case t of
        ObjectType_contact \<Rightarrow> {i}
      | ObjectType_nsset \<Rightarrow> set (ans_nsset_contacts A i)
      | ObjectType_domain \<Rightarrow> insert (fst (ans_domain_contacts A i)) (set (snd (ans_domain_contacts A i)))
      | ObjectType_keyset \<Rightarrow> set (ans_keyset_contacts A i))"






section \<open>The verdict\<close>







section \<open>Properties\<close>







end
