(* ===== verification/Epp_Poll.thy ===== *)
theory Epp_Poll
  imports Sample_Base
begin

text \<open>
  Messages for registrars: \<^verbatim>\<open>poll/poll_request.cc\<close>, which hands out the oldest message not
  yet seen, and \<^verbatim>\<open>poll/poll_acknowledgement.cc\<close>, which marks one as seen. The tables
  \<^verbatim>\<open>message\<close> and \<^verbatim>\<open>messagetype\<close> their SQL statements work on are part of the state; the
  queries for the details of a message, over tables of the whole registry, are parameters.
\<close>

section \<open>Message types\<close>

datatype MessageType =
    MessageType_credit | MessageType_techcheck
  | MessageType_transfer_contact | MessageType_transfer_nsset | MessageType_transfer_domain
  | MessageType_idle_delete_contact | MessageType_idle_delete_nsset | MessageType_idle_delete_domain
  | MessageType_imp_expiration | MessageType_expiration | MessageType_imp_validation
  | MessageType_validation | MessageType_outzone | MessageType_transfer_keyset
  | MessageType_idle_delete_keyset | MessageType_request_fee_info | MessageType_update_contact
  | MessageType_update_domain | MessageType_update_nsset | MessageType_update_keyset
  | MessageType_delete_contact | MessageType_delete_domain

primrec message_type_to_db_handle :: "MessageType \<Rightarrow> string" where
  "message_type_to_db_handle MessageType_credit = ''credit''"
| "message_type_to_db_handle MessageType_techcheck = ''techcheck''"
| "message_type_to_db_handle MessageType_transfer_contact = ''transfer_contact''"
| "message_type_to_db_handle MessageType_transfer_nsset = ''transfer_nsset''"
| "message_type_to_db_handle MessageType_transfer_domain = ''transfer_domain''"
| "message_type_to_db_handle MessageType_idle_delete_contact = ''idle_delete_contact''"
| "message_type_to_db_handle MessageType_idle_delete_nsset = ''idle_delete_nsset''"
| "message_type_to_db_handle MessageType_idle_delete_domain = ''idle_delete_domain''"
| "message_type_to_db_handle MessageType_imp_expiration = ''imp_expiration''"
| "message_type_to_db_handle MessageType_expiration = ''expiration''"
| "message_type_to_db_handle MessageType_imp_validation = ''imp_validation''"
| "message_type_to_db_handle MessageType_validation = ''validation''"
| "message_type_to_db_handle MessageType_outzone = ''outzone''"
| "message_type_to_db_handle MessageType_transfer_keyset = ''transfer_keyset''"
| "message_type_to_db_handle MessageType_idle_delete_keyset = ''idle_delete_keyset''"
| "message_type_to_db_handle MessageType_request_fee_info = ''request_fee_info''"
| "message_type_to_db_handle MessageType_update_contact = ''update_contact''"
| "message_type_to_db_handle MessageType_update_domain = ''update_domain''"
| "message_type_to_db_handle MessageType_update_nsset = ''update_nsset''"
| "message_type_to_db_handle MessageType_update_keyset = ''update_keyset''"
| "message_type_to_db_handle MessageType_delete_contact = ''delete_contact''"
| "message_type_to_db_handle MessageType_delete_domain = ''delete_domain''"

text \<open>The types in the order in which they are tried.\<close>

definition all_message_types :: "MessageType list" where
  "all_message_types = [MessageType_credit, MessageType_techcheck, MessageType_transfer_contact,
     MessageType_transfer_nsset, MessageType_transfer_domain, MessageType_idle_delete_contact,
     MessageType_idle_delete_nsset, MessageType_idle_delete_domain, MessageType_imp_expiration,
     MessageType_expiration, MessageType_imp_validation, MessageType_validation, MessageType_outzone,
     MessageType_transfer_keyset, MessageType_idle_delete_keyset, MessageType_request_fee_info,
     MessageType_update_contact, MessageType_update_domain, MessageType_update_nsset,
     MessageType_update_keyset, MessageType_delete_contact, MessageType_delete_domain]"

definition message_type_from_db_handle :: "string \<Rightarrow> exn + MessageType" where
  "message_type_from_db_handle db_handle =
     (case List.find (\<lambda>t. message_type_to_db_handle t = db_handle) all_message_types of
        None \<Rightarrow> Inl (StdException ''not convertible to MessageType'')
      | Some t \<Rightarrow> Inr t)"

lemma message_type_roundtrip: "message_type_from_db_handle (message_type_to_db_handle t) = Inr t"
  by (cases t) (simp_all add: message_type_from_db_handle_def all_message_types_def)

section \<open>Tables and queries\<close>

record message =
  msg_id :: u64
  msg_clid :: u64
  msg_type :: u64
  msg_crdate :: ptime
  msg_exdate :: ptime
  msg_seen :: bool

record poll_db =
  current_timestamp :: ptime
  message_table :: "message list"
  messagetype_table :: "(u64 \<times> string) list"

text \<open>
  A value read from a row is given as that value, \<open>None\<close> where it may be null; conversions of the
  database library that may throw are operations. Days of dates and decimal numbers are passed on.
\<close>

record 'db poll_queries =
  param_bigint :: "u64 \<Rightarrow> exn + u64"
  value_to_ull :: "u64 option \<Rightarrow> exn + u64"
  value_to_string :: "string option \<Rightarrow> exn + string"
  select_transfer :: "u64 \<Rightarrow> string \<Rightarrow> ('db, exn, (int \<times> string \<times> string) list) op"
  select_deleted :: "u64 \<Rightarrow> string \<Rightarrow> ('db, exn, (int \<times> string) list) op"
  select_validation :: "u64 \<Rightarrow> string \<Rightarrow> ('db, exn, (int \<times> string) list) op"
  select_state_change :: "u64 \<Rightarrow> string \<Rightarrow> ('db, exn, (int \<times> string) list) op"
  select_low_credit :: "u64 \<Rightarrow> string \<Rightarrow> ('db, exn, (string \<times> string \<times> string) list) op"
  select_techcheck_tests :: "u64 \<Rightarrow> string \<Rightarrow> ('db, exn, (string \<times> int \<times> string) list) op"
  select_techcheck :: "u64 \<Rightarrow> string \<Rightarrow> ('db, exn, (string \<times> string option) list) op"
  select_request_fee :: "u64 \<Rightarrow> string \<Rightarrow> ('db, exn, (ptime \<times> ptime \<times> u64 \<times> u64 \<times> string) list) op"
  select_update :: "u64 \<Rightarrow> string \<Rightarrow> ('db, exn, u64 option list) op"

text \<open>A query that does not change anything.\<close>

definition query :: "('db \<Rightarrow> 'a) \<Rightarrow> ('db, 'e, 'a) op" where
  "query f = (\<lambda>db. (Inr (f db), db))"

lemma query_run [op_simps]: "query f db = (Inr (f db), db)"
  by (simp add: query_def)

section \<open>The details of a message\<close>

datatype TransferEvent =
    TransferContact int string string
  | TransferNsset int string string
  | TransferDomain int string string
  | TransferKeyset int string string

datatype MessageEvent =
    DeleteDomain int string
  | DeleteContact int string
  | Validation int string
  | Outzone int string
  | IdleDeleteContact int string
  | IdleDeleteNsset int string
  | IdleDeleteDomain int string
  | IdleDeleteKeyset int string
  | ImpExpiration int string
  | Expiration int string
  | ImpValidation int string

record LowCreditEvent =
  low_credit_zone :: string
  low_credit_credit :: string
  low_credit_limit :: string

record Test =
  testname :: string
  test_note :: string
  test_status :: int

definition is_test_successful :: "Test \<Rightarrow> exn + bool" where
  "is_test_successful t =
     (if test_status t = 0 then Inr True
      else if test_status t = 1 then Inr False
      else if test_status t = 2 then Inr False
      else Inl (StdException ''Unexpected value of status''))"

record TechCheckEvent =
  techcheck_handle :: string
  techcheck_fqdns :: "string list"
  techcheck_tests :: "Test list"

record RequestFeeInfoEvent =
  fee_from :: ptime
  fee_to :: ptime
  fee_free_count :: u64
  fee_used_count :: u64
  fee_price :: string

datatype UpdateInfoEvent =
    UpdateContact u64 u64
  | UpdateDomain u64 u64
  | UpdateNsset u64 u64
  | UpdateKeyset u64 u64

datatype PollMessage =
    Message_TransferEvent TransferEvent
  | Message_MessageEvent MessageEvent
  | Message_LowCreditEvent LowCreditEvent
  | Message_TechCheckEvent TechCheckEvent
  | Message_RequestFeeInfoEvent RequestFeeInfoEvent
  | Message_UpdateInfoEvent UpdateInfoEvent

text \<open>The test of the number of rows the queries share.\<close>

definition single_event_row :: "'r list \<Rightarrow> exn + 'r" where
  "single_event_row rows =
     (if length rows = 0 then Inl (fail_with object_does_not_exist)
      else if 1 < length rows then Inl (fail_with command_failed)
      else Inr (rows ! 0))"

definition get_transfer_event ::
  "('db, 'x) poll_queries_scheme \<Rightarrow> u64 \<Rightarrow> MessageType \<Rightarrow> ('db, exn, TransferEvent) op" where
  "get_transfer_event P message_id message_type =
     bindE (select_transfer P message_id (message_type_to_db_handle message_type)) (\<lambda>rows.
     bindE (liftE (single_event_row rows)) (\<lambda>(transfer_date, object_handle, dst_registrar_handle).
     case message_type of
       MessageType_transfer_contact \<Rightarrow> returnE (TransferContact transfer_date object_handle dst_registrar_handle)
     | MessageType_transfer_nsset \<Rightarrow> returnE (TransferNsset transfer_date object_handle dst_registrar_handle)
     | MessageType_transfer_domain \<Rightarrow> returnE (TransferDomain transfer_date object_handle dst_registrar_handle)
     | MessageType_transfer_keyset \<Rightarrow> returnE (TransferKeyset transfer_date object_handle dst_registrar_handle)
     | _ \<Rightarrow> throwE (fail_with command_failed)))"

definition get_message_event_delete ::
  "('db, 'x) poll_queries_scheme \<Rightarrow> u64 \<Rightarrow> MessageType \<Rightarrow> ('db, exn, MessageEvent) op" where
  "get_message_event_delete P message_id message_type =
     bindE (select_deleted P message_id (message_type_to_db_handle message_type)) (\<lambda>rows.
     bindE (liftE (single_event_row rows)) (\<lambda>(date, h).
     case message_type of
       MessageType_delete_domain \<Rightarrow> returnE (DeleteDomain date h)
     | MessageType_delete_contact \<Rightarrow> returnE (DeleteContact date h)
     | _ \<Rightarrow> throwE (fail_with command_failed)))"

definition get_message_event_validation ::
  "('db, 'x) poll_queries_scheme \<Rightarrow> u64 \<Rightarrow> MessageType \<Rightarrow> ('db, exn, MessageEvent) op" where
  "get_message_event_validation P message_id message_type =
     bindE (select_validation P message_id (message_type_to_db_handle message_type)) (\<lambda>rows.
     bindE (liftE (single_event_row rows)) (\<lambda>(date, h).
     case message_type of
       MessageType_validation \<Rightarrow> returnE (Validation date h)
     | MessageType_imp_validation \<Rightarrow> returnE (ImpValidation date h)
     | _ \<Rightarrow> throwE (fail_with command_failed)))"

definition get_message_event_rest ::
  "('db, 'x) poll_queries_scheme \<Rightarrow> u64 \<Rightarrow> MessageType \<Rightarrow> ('db, exn, MessageEvent) op" where
  "get_message_event_rest P message_id message_type =
     bindE (select_state_change P message_id (message_type_to_db_handle message_type)) (\<lambda>rows.
     bindE (liftE (single_event_row rows)) (\<lambda>(date, h).
     case message_type of
       MessageType_idle_delete_contact \<Rightarrow> returnE (IdleDeleteContact date h)
     | MessageType_idle_delete_nsset \<Rightarrow> returnE (IdleDeleteNsset date h)
     | MessageType_idle_delete_domain \<Rightarrow> returnE (IdleDeleteDomain date h)
     | MessageType_idle_delete_keyset \<Rightarrow> returnE (IdleDeleteKeyset date h)
     | MessageType_imp_expiration \<Rightarrow> returnE (ImpExpiration date h)
     | MessageType_expiration \<Rightarrow> returnE (Expiration date h)
     | MessageType_outzone \<Rightarrow> returnE (Outzone date h)
     | _ \<Rightarrow> throwE (fail_with command_failed)))"

definition get_low_credit_event ::
  "('db, 'x) poll_queries_scheme \<Rightarrow> u64 \<Rightarrow> MessageType \<Rightarrow> ('db, exn, LowCreditEvent) op" where
  "get_low_credit_event P message_id message_type =
     bindE (select_low_credit P message_id (message_type_to_db_handle message_type)) (\<lambda>rows.
     bindE (liftE (single_event_row rows)) (\<lambda>(zone, credit, limit).
     returnE \<lparr>low_credit_zone = zone, low_credit_credit = credit, low_credit_limit = limit\<rparr>))"

definition get_tech_check_event_tests ::
  "('db, 'x) poll_queries_scheme \<Rightarrow> u64 \<Rightarrow> MessageType \<Rightarrow> ('db, exn, Test list) op" where
  "get_tech_check_event_tests P message_id message_type =
     bindE (select_techcheck_tests P message_id (message_type_to_db_handle message_type)) (\<lambda>rows.
     returnE (map (\<lambda>(name, status, note). \<lparr>testname = name, test_note = note, test_status = status\<rparr>) rows))"

fun collect_fqdns :: "('db, 'x) poll_queries_scheme \<Rightarrow> (string \<times> string option) list \<Rightarrow> exn + string list" where
  "collect_fqdns P [] = Inr []"
| "collect_fqdns P ((_, fqdn) # rows) =
     (case value_to_string P fqdn of
        Inl e \<Rightarrow> Inl e
      | Inr s \<Rightarrow> (case collect_fqdns P rows of Inl e \<Rightarrow> Inl e | Inr fqdns \<Rightarrow> Inr (s # fqdns)))"

definition get_tech_check_event ::
  "('db, 'x) poll_queries_scheme \<Rightarrow> u64 \<Rightarrow> MessageType \<Rightarrow> ('db, exn, TechCheckEvent) op" where
  "get_tech_check_event P message_id message_type =
     bindE (select_techcheck P message_id (message_type_to_db_handle message_type)) (\<lambda>rows.
     throw_if (length rows = 0) (fail_with object_does_not_exist) (
     bindE (liftE (if snd (rows ! 0) \<noteq> None then collect_fqdns P rows else Inr [])) (\<lambda>fqdns.
     bindE (get_tech_check_event_tests P message_id message_type) (\<lambda>tests.
     returnE \<lparr>techcheck_handle = fst (rows ! 0), techcheck_fqdns = fqdns, techcheck_tests = tests\<rparr>))))"

definition get_request_fee_info_event ::
  "('db, 'x) poll_queries_scheme \<Rightarrow> u64 \<Rightarrow> MessageType \<Rightarrow> ('db, exn, RequestFeeInfoEvent) op" where
  "get_request_fee_info_event P message_id message_type =
     bindE (select_request_fee P message_id (message_type_to_db_handle message_type)) (\<lambda>rows.
     bindE (liftE (single_event_row rows)) (\<lambda>(period_from, period_to, free_count, used_count, price).
     returnE \<lparr>fee_from = period_from, fee_to = period_to, fee_free_count = free_count,
              fee_used_count = used_count, fee_price = price\<rparr>))"

definition get_update_info_event ::
  "('db, 'x) poll_queries_scheme \<Rightarrow> u64 \<Rightarrow> MessageType \<Rightarrow> ('db, exn, UpdateInfoEvent) op" where
  "get_update_info_event P message_id message_type =
     bindE (select_update P message_id (message_type_to_db_handle message_type)) (\<lambda>rows.
     bindE (liftE (single_event_row rows)) (\<lambda>request_id.
     bindE (liftE (value_to_ull P request_id)) (\<lambda>transaction_id.
     case message_type of
       MessageType_update_contact \<Rightarrow> returnE (UpdateContact transaction_id message_id)
     | MessageType_update_domain \<Rightarrow> returnE (UpdateDomain transaction_id message_id)
     | MessageType_update_nsset \<Rightarrow> returnE (UpdateNsset transaction_id message_id)
     | MessageType_update_keyset \<Rightarrow> returnE (UpdateKeyset transaction_id message_id)
     | _ \<Rightarrow> throwE (fail_with command_failed))))"

text \<open>The switch over the type of the message.\<close>

definition poll_event ::
  "('db, 'x) poll_queries_scheme \<Rightarrow> u64 \<Rightarrow> MessageType \<Rightarrow> ('db, exn, PollMessage) op" where
  "poll_event P message_id message_type =
     (if message_type \<in> {MessageType_transfer_contact, MessageType_transfer_nsset,
           MessageType_transfer_domain, MessageType_transfer_keyset}
      then bindE (get_transfer_event P message_id message_type) (\<lambda>e. returnE (Message_TransferEvent e))
      else if message_type \<in> {MessageType_delete_domain, MessageType_delete_contact}
      then bindE (get_message_event_delete P message_id message_type) (\<lambda>e. returnE (Message_MessageEvent e))
      else if message_type \<in> {MessageType_validation, MessageType_imp_validation}
      then bindE (get_message_event_validation P message_id message_type) (\<lambda>e. returnE (Message_MessageEvent e))
      else if message_type \<in> {MessageType_idle_delete_contact, MessageType_idle_delete_nsset,
           MessageType_idle_delete_domain, MessageType_idle_delete_keyset, MessageType_imp_expiration,
           MessageType_expiration, MessageType_outzone}
      then bindE (get_message_event_rest P message_id message_type) (\<lambda>e. returnE (Message_MessageEvent e))
      else if message_type = MessageType_credit
      then bindE (get_low_credit_event P message_id message_type) (\<lambda>e. returnE (Message_LowCreditEvent e))
      else if message_type = MessageType_techcheck
      then bindE (get_tech_check_event P message_id message_type) (\<lambda>e. returnE (Message_TechCheckEvent e))
      else if message_type = MessageType_request_fee_info
      then bindE (get_request_fee_info_event P message_id message_type) (\<lambda>e. returnE (Message_RequestFeeInfoEvent e))
      else if message_type \<in> {MessageType_update_contact, MessageType_update_domain,
           MessageType_update_nsset, MessageType_update_keyset}
      then bindE (get_update_info_event P message_id message_type) (\<lambda>e. returnE (Message_UpdateInfoEvent e))
      else throwE (fail_with command_failed))"

section \<open>Polling\<close>

text \<open>
  When there is nothing to poll the other members of the output are left as they were constructed:
  \<open>polled = None\<close>.
\<close>

record PollRequestOutputData =
  number_of_unseen_messages :: u64
  polled :: "(u64 \<times> ptime \<times> PollMessage) option"

text \<open>\<^verbatim>\<open>WHERE clid = ... AND exdate > CURRENT_TIMESTAMP AND NOT seen\<close>.\<close>

definition unseen_messages :: "'x poll_db_scheme \<Rightarrow> u64 \<Rightarrow> message list" where
  "unseen_messages db clid =
     [m \<leftarrow> message_table db. msg_clid m = clid \<and> current_timestamp db < msg_exdate m \<and> \<not> msg_seen m]"

text \<open>The aggregate has one row; its smallest id is null when no message matches, and joins nothing.\<close>

definition select_oldest_unseen :: "'x poll_db_scheme \<Rightarrow> u64 \<Rightarrow> (u64 \<times> string \<times> ptime \<times> u64) list" where
  "select_oldest_unseen db clid =
     (let t = unseen_messages db clid in
      if t = [] then []
      else
        [(msg_id m, name, msg_crdate m, of_nat (length t)).
           m \<leftarrow> message_table db, msg_id m = Min (set (map msg_id t)),
           (type_id, name) \<leftarrow> messagetype_table db, type_id = msg_type m])"

definition poll_request ::
  "('x poll_db_scheme, 'y) poll_queries_scheme \<Rightarrow> u64 \<Rightarrow> ('x poll_db_scheme, exn, PollRequestOutputData) op" where
  "poll_request P registrar =
     throw_if (registrar = 0) (fail_with authentication_error_server_closing_connection) (
     bindE (liftE (param_bigint P registrar)) (\<lambda>clid.
     bindE (query (\<lambda>db. select_oldest_unseen db clid)) (\<lambda>rows.
     if length rows = 0 then returnE \<lparr>number_of_unseen_messages = 0, polled = None\<rparr>
     else
       throw_if (1 < length rows) (fail_with command_failed) (
       case rows ! 0 of (message_id, name, creation_time, number) \<Rightarrow>
       bindE (liftE (message_type_from_db_handle name)) (\<lambda>message_type.
       bindE (poll_event P message_id message_type) (\<lambda>message.
       returnE \<lparr>number_of_unseen_messages = number,
                polled = Some (message_id, creation_time, message)\<rparr>))))))"

section \<open>Acknowledging\<close>

record PollAcknowledgementOutputData =
  ack_number_of_unseen_messages :: u64
  ack_oldest_unseen_message_id :: "u64 option"

definition to_acknowledge :: "u64 \<Rightarrow> u64 \<Rightarrow> message \<Rightarrow> bool" where
  "to_acknowledge message_id clid m \<longleftrightarrow> \<not> msg_seen m \<and> msg_id m = message_id \<and> msg_clid m = clid"

text \<open>\<^verbatim>\<open>clid = m.clid AND CURRENT_TIMESTAMP < exdate AND id != m.id AND NOT seen\<close>.\<close>

definition other_unseen :: "'x poll_db_scheme \<Rightarrow> message \<Rightarrow> message list" where
  "other_unseen db m =
     [x \<leftarrow> message_table db. msg_clid x = msg_clid m \<and> current_timestamp db < msg_exdate x \<and>
        msg_id x \<noteq> msg_id m \<and> \<not> msg_seen x]"

text \<open>The values returned by an \<^verbatim>\<open>UPDATE\<close> are those of its rows in the table it started from.\<close>

definition update_message_set_seen ::
  "u64 \<Rightarrow> u64 \<Rightarrow> ('x poll_db_scheme, exn, (u64 \<times> u64 option) list) op" where
  "update_message_set_seen message_id clid = (\<lambda>db.
     (Inr [(of_nat (length (other_unseen db m)),
            if other_unseen db m = [] then None else Some (Min (set (map msg_id (other_unseen db m))))).
             m \<leftarrow> message_table db, to_acknowledge message_id clid m],
      db\<lparr>message_table := map (\<lambda>m. if to_acknowledge message_id clid m then m\<lparr>msg_seen := True\<rparr> else m)
                            (message_table db)\<rparr>))"

definition poll_acknowledgement ::
  "('x poll_db_scheme, 'y) poll_queries_scheme \<Rightarrow> u64 \<Rightarrow> u64 \<Rightarrow>
     ('x poll_db_scheme, exn, PollAcknowledgementOutputData) op" where
  "poll_acknowledgement P message_id registrar =
     throw_if (registrar = 0) (fail_with authentication_error_server_closing_connection) (
     bindE (liftE (param_bigint P message_id)) (\<lambda>id_param.
     bindE (liftE (param_bigint P registrar)) (\<lambda>clid_param.
     bindE (update_message_set_seen id_param clid_param) (\<lambda>rows.
     throw_if (length rows = 0) (fail_with object_does_not_exist) (
     throw_if (1 < length rows) (fail_with command_failed) (
     if fst (rows ! 0) = 0 then
       returnE \<lparr>ack_number_of_unseen_messages = fst (rows ! 0), ack_oldest_unseen_message_id = None\<rparr>
     else
       bindE (liftE (value_to_ull P (snd (rows ! 0)))) (\<lambda>oldest.
       returnE \<lparr>ack_number_of_unseen_messages = fst (rows ! 0),
                ack_oldest_unseen_message_id = Some oldest\<rparr>)))))))"

section \<open>The localized commands\<close>

definition poll_request_localized ::
  "('x poll_db_scheme, 'y) poll_queries_scheme \<Rightarrow> ('x poll_db_scheme, 'z) database_scheme \<Rightarrow> u64 \<Rightarrow> SessionLang \<Rightarrow>
     ('x poll_db_scheme, thrown, EppResponseSuccessLocalized \<times> PollRequestOutputData) op" where
  "poll_request_localized P D registrar l =
     try_localized D l (with_context D (
       bindE (on_working (poll_request P registrar)) (\<lambda>output_data.
       bindE (on_working (response_success_localized D command_completed_successfully_ack_to_dequeue l))
         (\<lambda>epp_response.
       bindE (commit D) (\<lambda>_.
       returnE (epp_response, output_data))))))"

text \<open>The number of the message is given as text; \<^verbatim>\<open>boost::lexical_cast\<close> reads it.\<close>

definition poll_acknowledgement_by_text ::
  "('x poll_db_scheme, 'y) poll_queries_scheme \<Rightarrow> (string \<Rightarrow> u64 option) \<Rightarrow> string \<Rightarrow> u64 \<Rightarrow>
     ('x poll_db_scheme, exn, PollAcknowledgementOutputData) op" where
  "poll_acknowledgement_by_text P lexical_cast text registrar =
     (case lexical_cast text of
        None \<Rightarrow> throwE (fail_with object_does_not_exist)
      | Some message_id \<Rightarrow> poll_acknowledgement P message_id registrar)"

definition oldest_unseen_message_text :: "PollAcknowledgementOutputData \<Rightarrow> string" where
  "oldest_unseen_message_text output_data =
     (if 0 < ack_number_of_unseen_messages output_data
      then (case ack_oldest_unseen_message_id output_data of None \<Rightarrow> [] | Some n \<Rightarrow> digits (unat n))
      else [])"

definition poll_acknowledgement_localized ::
  "('x poll_db_scheme, 'y) poll_queries_scheme \<Rightarrow> ('x poll_db_scheme, 'z) database_scheme \<Rightarrow> (string \<Rightarrow> u64 option) \<Rightarrow>
     string \<Rightarrow> u64 \<Rightarrow> SessionLang \<Rightarrow>
     ('x poll_db_scheme, thrown, EppResponseSuccessLocalized \<times> u64 \<times> string) op" where
  "poll_acknowledgement_localized P D lexical_cast text registrar l =
     try_localized D l (with_context D (
       bindE (on_working (poll_acknowledgement_by_text P lexical_cast text registrar)) (\<lambda>output_data.
       bindE (on_working (response_success_localized D command_completed_successfully l)) (\<lambda>epp_response.
       bindE (commit D) (\<lambda>_.
       returnE (epp_response, ack_number_of_unseen_messages output_data,
                oldest_unseen_message_text output_data))))))"

interpretation poll_acknowledgement_localized: localized_update D l
    "poll_acknowledgement_by_text P lexical_cast mid registrar" "\<lambda>_. returnE ()"
    "\<lambda>response output_data. (response, ack_number_of_unseen_messages output_data, oldest_unseen_message_text output_data)"
    "poll_acknowledgement_localized P D lexical_cast mid registrar l" for P D lexical_cast mid registrar l
  by unfold_locales (simp only: poll_acknowledgement_localized_def outside_nothing, simp add: returnE_run)

section \<open>What a message table promises\<close>

text \<open>
  Messages have different numbers, fewer than \<open>2 ^ 64\<close>; their types are known and their details
  are there whatever happens to the marks in the table.
\<close>

definition poll_ready :: "('x poll_db_scheme, 'y) poll_queries_scheme \<Rightarrow> 'x poll_db_scheme \<Rightarrow> bool" where
  "poll_ready P db \<longleftrightarrow>
     distinct (map msg_id (message_table db)) \<and> length (message_table db) < 2 ^ 64 \<and>
     distinct (map fst (messagetype_table db)) \<and>
     (\<forall>n. value_to_ull P (Some n) = Inr n) \<and>
     (\<forall>(i, ty) \<in> set (map (\<lambda>m. (msg_id m, msg_type m)) (message_table db)).
        param_bigint P i = Inr i \<and>
        (\<exists>t. (ty, message_type_to_db_handle t) \<in> set (messagetype_table db) \<and>
           (\<forall>ms. \<exists>event. reads (poll_event P i t) (db\<lparr>message_table := ms\<rparr>) event)))"

text \<open>Marking messages changes nothing of this.\<close>

definition acknowledged :: "(message \<Rightarrow> bool) \<Rightarrow> 'x poll_db_scheme \<Rightarrow> 'x poll_db_scheme" where
  "acknowledged p db = db\<lparr>message_table := map (\<lambda>m. if p m then m\<lparr>msg_seen := True\<rparr> else m) (message_table db)\<rparr>"

lemma acknowledged_ids [simp]:
  "map msg_id (message_table (acknowledged p db)) = map msg_id (message_table db)"
  "map (\<lambda>m. (msg_id m, msg_type m)) (message_table (acknowledged p db)) =
     map (\<lambda>m. (msg_id m, msg_type m)) (message_table db)"
  "length (message_table (acknowledged p db)) = length (message_table db)"
  "messagetype_table (acknowledged p db) = messagetype_table db"
  "current_timestamp (acknowledged p db) = current_timestamp db"
  "(acknowledged p db)\<lparr>message_table := ms\<rparr> = db\<lparr>message_table := ms\<rparr>"
  by (simp_all add: acknowledged_def o_def if_distrib cong: if_cong)

lemma acknowledged_ready: "poll_ready P db \<Longrightarrow> poll_ready P (acknowledged p db)"
  unfolding poll_ready_def acknowledged_ids by blast

lemma acknowledged_unseen:
  "unseen_messages (acknowledged p db) clid = filter (\<lambda>m. \<not> p m) (unseen_messages db clid)"
proof -
  have "filter (\<lambda>m. msg_clid m = clid \<and> now < msg_exdate m \<and> \<not> msg_seen m)
      (map (\<lambda>m. if p m then m\<lparr>msg_seen := True\<rparr> else m) ms) =
    filter (\<lambda>m. \<not> p m) (filter (\<lambda>m. msg_clid m = clid \<and> now < msg_exdate m \<and> \<not> msg_seen m) ms)" for now ms
    by (induction ms) auto
  then show ?thesis by (simp add: unseen_messages_def acknowledged_def)
qed

lemma acknowledged_acknowledged:
  "acknowledged p (acknowledged q db) = acknowledged (\<lambda>m. q m \<or> p (if q m then m\<lparr>msg_seen := True\<rparr> else m)) db"
  by (auto simp: acknowledged_def o_def)

text \<open>Looking up a row by its key.\<close>

lemma concat_map_key:
  assumes "distinct (map f xs)" and "x \<in> set xs"
  shows "concat (map (\<lambda>y. if f y = f x then g y else []) xs) = g x"
  using assms
proof (induction xs)
  case (Cons a xs)
  show ?case
  proof (cases "a = x")
    case True
    with Cons.prems have "f x \<notin> f ` set xs" by simp
    then have "f y \<noteq> f x" if "y \<in> set xs" for y using that by (metis imageI)
    then have "concat (map (\<lambda>y. if f y = f x then g y else []) xs) = []" by simp
    with True show ?thesis by simp
  next
    case False
    with Cons.prems have "f a \<noteq> f x" "x \<in> set xs" by auto
    with Cons show ?thesis by simp
  qed
qed simp

lemma select_oldest_unseen_single:
  assumes ready: "poll_ready P db" and m: "m \<in> set (unseen_messages db clid)"
    and oldest: "\<forall>x \<in> set (unseen_messages db clid). msg_id m \<le> msg_id x"
    and name: "(msg_type m, name) \<in> set (messagetype_table db)"
  shows "select_oldest_unseen db clid =
    [(msg_id m, name, msg_crdate m, of_nat (length (unseen_messages db clid)))]"
proof -
  have table: "m \<in> set (message_table db)" using m by (simp add: unseen_messages_def)
  have min: "Min (set (map msg_id (unseen_messages db clid))) = msg_id m"
    using m oldest by (auto intro!: Min_eqI)
  have types: "concat (map (\<lambda>(k, name). if k = msg_type m then [h name] else []) (messagetype_table db)) = [h name]"
    for h :: "string \<Rightarrow> u64 \<times> string \<times> ptime \<times> u64"
    using concat_map_key [OF _ name, of fst "\<lambda>(k, name). [h name]"] ready
    by (simp add: poll_ready_def case_prod_beta' cong: if_cong)
  have "distinct (map msg_id (message_table db))" using ready by (simp add: poll_ready_def)
  moreover have "unseen_messages db clid \<noteq> []" using m by auto
  ultimately show ?thesis
    unfolding select_oldest_unseen_def Let_def min by (simp add: concat_map_key [OF _ table, where f = msg_id] types)
qed

lemma poll_request_oldest:
  assumes ready: "poll_ready P db" and "registrar \<noteq> 0" "param_bigint P registrar = Inr registrar"
    and m: "m \<in> set (unseen_messages db registrar)"
    and oldest: "\<forall>x \<in> set (unseen_messages db registrar). msg_id m \<le> msg_id x"
  shows "\<exists>t event. (msg_type m, message_type_to_db_handle t) \<in> set (messagetype_table db) \<and>
    reads (poll_event P (msg_id m) t) db event \<and>
    poll_request P registrar db =
      (Inr \<lparr>number_of_unseen_messages = of_nat (length (unseen_messages db registrar)),
            polled = Some (msg_id m, msg_crdate m, event)\<rparr>, db)"
proof -
  have "m \<in> set (message_table db)" using m by (simp add: unseen_messages_def)
  then obtain t where t: "(msg_type m, message_type_to_db_handle t) \<in> set (messagetype_table db)"
    and details: "\<And>ms. \<exists>event. reads (poll_event P (msg_id m) t) (db\<lparr>message_table := ms\<rparr>) event"
    using ready unfolding poll_ready_def by fastforce
  have "db\<lparr>message_table := message_table db\<rparr> = db" by simp
  then obtain event where "reads (poll_event P (msg_id m) t) db event" using details by metis
  with t assms(2,3) select_oldest_unseen_single [OF ready m oldest t] show ?thesis
    by (auto simp: poll_request_def op_simps message_type_roundtrip intro!: exI [of _ t] exI [of _ event])
qed

lemma poll_request_nothing:
  assumes "registrar \<noteq> 0" "param_bigint P registrar = Inr registrar" "unseen_messages db registrar = []"
  shows "poll_request P registrar db = (Inr \<lparr>number_of_unseen_messages = 0, polled = None\<rparr>, db)"
  using assms by (simp add: poll_request_def select_oldest_unseen_def op_simps)

lemma poll_acknowledgement_unknown:
  assumes "registrar \<noteq> 0" "param_bigint P registrar = Inr registrar" "param_bigint P message_id = Inr message_id"
    and none: "\<forall>m \<in> set (message_table db). \<not> to_acknowledge message_id registrar m"
  shows "poll_acknowledgement P message_id registrar db = (Inl (fail_with object_does_not_exist), db)"
proof -
  have "map (\<lambda>m. if to_acknowledge message_id registrar m then m\<lparr>msg_seen := True\<rparr> else m) (message_table db) =
      message_table db"
    using none by (simp add: map_idI)
  moreover have "concat (map (\<lambda>m. if to_acknowledge message_id registrar m then [h m] else []) (message_table db)) = []"
    for h :: "message \<Rightarrow> u64 \<times> u64 option"
    using none by simp
  ultimately show ?thesis
    using assms(1-3)
    by (simp add: poll_acknowledgement_def update_message_set_seen_def bindE_def liftE_def throw_if_def throwE_def)
qed

lemma poll_acknowledgement_marks:
  assumes ready: "poll_ready P db" and reg: "registrar \<noteq> 0" "param_bigint P registrar = Inr registrar"
    and m: "m \<in> set (message_table db)" "to_acknowledge (msg_id m) registrar m"
  shows "poll_acknowledgement P (msg_id m) registrar db =
    (Inr \<lparr>ack_number_of_unseen_messages = of_nat (length (other_unseen db m)),
          ack_oldest_unseen_message_id =
            (if other_unseen db m = [] then None else Some (Min (set (map msg_id (other_unseen db m)))))\<rparr>,
     acknowledged (\<lambda>x. x = m) db)"
proof -
  have distinct: "distinct (map msg_id (message_table db))" and i: "param_bigint P (msg_id m) = Inr (msg_id m)"
    and conv: "\<And>n. value_to_ull P (Some n) = Inr n" and len: "length (message_table db) < 2 ^ 64"
    using ready m(1) unfolding poll_ready_def by auto
  have only: "to_acknowledge (msg_id m) registrar x \<longleftrightarrow> x = m" if "x \<in> set (message_table db)" for x
    using that m distinct by (auto simp: to_acknowledge_def distinct_map inj_on_def)
  have rows: "concat (map (\<lambda>x. if to_acknowledge (msg_id m) registrar x then [h x] else []) (message_table db)) = [h m]"
    for h :: "message \<Rightarrow> u64 \<times> u64 option"
  proof -
    have keyed: "map (\<lambda>x. if to_acknowledge (msg_id m) registrar x then [h x] else []) (message_table db) =
        map (\<lambda>x. if msg_id x = msg_id m then [h x] else []) (message_table db)"
      using only m distinct by (auto simp: distinct_map inj_on_def)
    show ?thesis unfolding keyed by (rule concat_map_key [OF distinct m(1)])
  qed
  have marked: "map (\<lambda>x. if to_acknowledge (msg_id m) registrar x then x\<lparr>msg_seen := True\<rparr> else x) (message_table db) =
      map (\<lambda>x. if x = m then x\<lparr>msg_seen := True\<rparr> else x) (message_table db)"
    using only by auto
  have "length (other_unseen db m) < 2 ^ 64"
    using len length_filter_le [of _ "message_table db"] unfolding other_unseen_def by (rule le_less_trans [rotated])
  then have "(of_nat (length (other_unseen db m)) :: u64) = 0 \<longleftrightarrow> other_unseen db m = []"
    using nat_dvd_not_less [of "length (other_unseen db m)" "2 ^ 64"] by (auto simp: word_of_nat_eq_0_iff)
  moreover have "update_message_set_seen (msg_id m) registrar db =
      (Inr [(of_nat (length (other_unseen db m)),
             if other_unseen db m = [] then None else Some (Min (set (map msg_id (other_unseen db m)))))],
       acknowledged (\<lambda>x. x = m) db)"
    unfolding update_message_set_seen_def rows marked acknowledged_def by (rule refl)
  ultimately show ?thesis
    using i reg conv by (simp add: poll_acknowledgement_def op_simps)
qed

section \<open>A registrar that reads its messages\<close>

text \<open>At most \<open>n\<close> rounds of polling and acknowledging what was polled.\<close>

fun poll_all ::
  "('x poll_db_scheme, 'y) poll_queries_scheme \<Rightarrow> u64 \<Rightarrow> nat \<Rightarrow> ('x poll_db_scheme, exn, u64 list) op" where
  "poll_all P registrar 0 = returnE []"
| "poll_all P registrar (Suc n) =
     bindE (poll_request P registrar) (\<lambda>output_data.
     case polled output_data of
       None \<Rightarrow> returnE []
     | Some (message_id, _, _) \<Rightarrow>
         bindE (poll_acknowledgement P message_id registrar) (\<lambda>_.
         bindE (poll_all P registrar n) (\<lambda>ids.
         returnE (message_id # ids))))"

lemma oldest_unseen_exists:
  assumes "unseen_messages db clid \<noteq> []"
  obtains m where "m \<in> set (unseen_messages db clid)" "\<forall>x \<in> set (unseen_messages db clid). msg_id m \<le> msg_id x"
  using arg_min_list_in [OF assms, of msg_id] f_arg_min_list_f [OF assms, of msg_id]
  by (metis Min_le finite_imageI finite_set imageI)

lemma poll_all_run:
  assumes "poll_ready P db" and reg: "registrar \<noteq> 0" "param_bigint P registrar = Inr registrar"
    and "length (unseen_messages db registrar) \<le> n"
  shows "poll_all P registrar n db =
    (Inr (sorted_list_of_set (msg_id ` set (unseen_messages db registrar))),
     acknowledged (\<lambda>m. m \<in> set (unseen_messages db registrar)) db)"
  using assms(1,4)
proof (induction n arbitrary: db)
  case 0
  then show ?case by (simp add: returnE_run acknowledged_def)
next
  case (Suc n)
  show ?case
  proof (cases "unseen_messages db registrar = []")
    case True
    with poll_request_nothing [OF reg this] show ?thesis by (simp add: op_simps acknowledged_def)
  next
    case False
    then obtain m where m: "m \<in> set (unseen_messages db registrar)"
      and oldest: "\<forall>x \<in> set (unseen_messages db registrar). msg_id m \<le> msg_id x"
      by (rule oldest_unseen_exists)
    let ?db = "acknowledged (\<lambda>x. x = m) db"
    have ack: "m \<in> set (message_table db)" "to_acknowledge (msg_id m) registrar m"
      using m by (simp_all add: unseen_messages_def to_acknowledge_def)
    have rest: "unseen_messages ?db registrar = filter (\<lambda>x. x \<noteq> m) (unseen_messages db registrar)"
      by (rule acknowledged_unseen)
    have "length (unseen_messages ?db registrar) < length (unseen_messages db registrar)"
      unfolding rest using m by (intro length_filter_less) auto
    with Suc.prems(2) have len: "length (unseen_messages ?db registrar) \<le> n" by simp
    have "inj_on msg_id (set (unseen_messages db registrar))"
      using Suc.prems(1) by (auto simp: poll_ready_def distinct_map unseen_messages_def intro: inj_on_subset)
    with m have ids: "msg_id ` set (unseen_messages ?db registrar) =
        msg_id ` set (unseen_messages db registrar) - {msg_id m}"
      unfolding rest by (auto simp: inj_on_def)
    have "Min (msg_id ` set (unseen_messages db registrar)) = msg_id m"
      using m oldest by (auto intro!: Min_eqI)
    with False have order: "sorted_list_of_set (msg_id ` set (unseen_messages db registrar)) =
        msg_id m # sorted_list_of_set (msg_id ` set (unseen_messages ?db registrar))"
      unfolding ids by (subst sorted_list_of_set_nonempty) auto
    have all: "acknowledged (\<lambda>x. x \<in> set (unseen_messages ?db registrar)) ?db =
        acknowledged (\<lambda>x. x \<in> set (unseen_messages db registrar)) db"
      unfolding acknowledged_acknowledged rest using m by (auto intro!: arg_cong [where f = "\<lambda>p. acknowledged p db"])
    from poll_request_oldest [OF Suc.prems(1) reg m oldest]
      poll_acknowledgement_marks [OF Suc.prems(1) reg ack] Suc.IH [OF acknowledged_ready [OF Suc.prems(1)] len]
    show ?thesis by (auto simp: op_simps order all)
  qed
qed

section \<open>Properties\<close>

text \<open>C21: polling hands out the oldest message of the registrar that is neither seen nor expired,
  with its details and the number of all such messages, changes nothing, and says so when there is
  none.\<close>

theorem poll_request_outcome:
  assumes "poll_ready P db" and "registrar \<noteq> 0" and "param_bigint P registrar = Inr registrar"
  shows "if unseen_messages db registrar = []
    then poll_request P registrar db = (Inr \<lparr>number_of_unseen_messages = 0, polled = None\<rparr>, db)
    else \<exists>m t event. m \<in> set (unseen_messages db registrar) \<and>
      (\<forall>x \<in> set (unseen_messages db registrar). msg_id m \<le> msg_id x) \<and>
      (msg_type m, message_type_to_db_handle t) \<in> set (messagetype_table db) \<and>
      reads (poll_event P (msg_id m) t) db event \<and>
      poll_request P registrar db =
        (Inr \<lparr>number_of_unseen_messages = of_nat (length (unseen_messages db registrar)),
              polled = Some (msg_id m, msg_crdate m, event)\<rparr>, db)"
proof (cases "unseen_messages db registrar = []")
  case True
  then show ?thesis using poll_request_nothing [OF assms(2,3)] by simp
next
  case False
  then obtain m where "m \<in> set (unseen_messages db registrar)"
    "\<forall>x \<in> set (unseen_messages db registrar). msg_id m \<le> msg_id x"
    by (rule oldest_unseen_exists)
  with False poll_request_oldest [OF assms this] show ?thesis by auto
qed

text \<open>C22: acknowledging marks exactly one message as seen, one the registrar owns and has not yet
  seen, and reports how many others wait and the oldest of them; any other number is answered with
  \<open>object_does_not_exist\<close> and no mark is changed.\<close>

theorem poll_acknowledgement_outcome:
  assumes "poll_ready P db" and "registrar \<noteq> 0" and "param_bigint P registrar = Inr registrar"
    and "param_bigint P i = Inr i"
  shows "(\<exists>m \<in> set (message_table db). to_acknowledge i registrar m \<and>
      poll_acknowledgement P i registrar db =
        (Inr \<lparr>ack_number_of_unseen_messages = of_nat (length (other_unseen db m)),
              ack_oldest_unseen_message_id =
                (if other_unseen db m = [] then None else Some (Min (msg_id ` set (other_unseen db m))))\<rparr>,
         acknowledged (\<lambda>x. x = m) db)) \<or>
    (\<forall>m \<in> set (message_table db). \<not> to_acknowledge i registrar m) \<and>
    poll_acknowledgement P i registrar db = (Inl (fail_with object_does_not_exist), db)"
proof (cases "\<exists>m \<in> set (message_table db). to_acknowledge i registrar m")
  case True
  then obtain m where m: "m \<in> set (message_table db)" "to_acknowledge i registrar m" by blast
  then have "msg_id m = i" by (simp add: to_acknowledge_def)
  with m poll_acknowledgement_marks [OF assms(1-3), of m] show ?thesis by auto
next
  case False
  with poll_acknowledgement_unknown [OF assms(2-4)] show ?thesis by blast
qed

text \<open>C23: a registrar that keeps polling and acknowledging reads every message that waits for it,
  exactly once, in the order of their numbers, in as many rounds as there are messages; afterwards
  exactly these are marked as seen and none waits.\<close>

theorem poll_all_messages:
  assumes "poll_ready P db" and "registrar \<noteq> 0" and "param_bigint P registrar = Inr registrar"
    and "length (unseen_messages db registrar) \<le> n"
  shows "poll_all P registrar n db =
    (Inr (sorted_list_of_set (msg_id ` set (unseen_messages db registrar))),
     acknowledged (\<lambda>m. m \<in> set (unseen_messages db registrar)) db) \<and>
    unseen_messages (acknowledged (\<lambda>m. m \<in> set (unseen_messages db registrar)) db) registrar = []"
  using poll_all_run [OF assms] by (simp add: acknowledged_unseen filter_empty_conv)

section \<open>A sample of messages\<close>

definition sample_message :: "u64 \<Rightarrow> u64 \<Rightarrow> ptime \<Rightarrow> bool \<Rightarrow> message" where
  "sample_message i clid exdate seen = \<lparr>msg_id = i, msg_clid = clid, msg_type = 1, msg_crdate = 0,
     msg_exdate = exdate, msg_seen = seen\<rparr>"

text \<open>Two messages wait for the registrar 2, one is seen, one expired, one is for another registrar.\<close>

definition sample_messages :: poll_db where
  "sample_messages = \<lparr>current_timestamp = 100,
     message_table = [sample_message 9 2 200 False, sample_message 5 2 200 True, sample_message 3 2 200 False,
       sample_message 4 2 50 False, sample_message 2 3 200 False],
     messagetype_table = [(1, ''delete_domain'')]\<rparr>"

definition sample_poll :: "poll_db poll_queries" where
  "sample_poll = \<lparr>param_bigint = Inr, value_to_ull = (\<lambda>v. case v of None \<Rightarrow> Inr 0 | Some n \<Rightarrow> Inr n),
     value_to_string = (\<lambda>v. case v of None \<Rightarrow> Inr [] | Some s \<Rightarrow> Inr s),
     select_transfer = (\<lambda>_ _. returnE []), select_deleted = (\<lambda>_ _. returnE [(7, ''a.cz'')]),
     select_validation = (\<lambda>_ _. returnE []), select_state_change = (\<lambda>_ _. returnE []),
     select_low_credit = (\<lambda>_ _. returnE []), select_techcheck_tests = (\<lambda>_ _. returnE []),
     select_techcheck = (\<lambda>_ _. returnE []), select_request_fee = (\<lambda>_ _. returnE []),
     select_update = (\<lambda>_ _. returnE [])\<rparr>"

lemma sample_poll_event:
  "poll_event sample_poll i MessageType_delete_domain db = (Inr (Message_MessageEvent (DeleteDomain 7 ''a.cz'')), db)"
  by (simp add: poll_event_def get_message_event_delete_def sample_poll_def single_event_row_def op_simps)

lemma sample_poll_ready: "poll_ready sample_poll sample_messages"
proof -
  have "(1, message_type_to_db_handle MessageType_delete_domain) \<in> set (messagetype_table sample_messages)"
    by (simp add: sample_messages_def)
  moreover have "\<forall>ms. \<exists>event. reads (poll_event sample_poll i MessageType_delete_domain)
      (sample_messages\<lparr>message_table := ms\<rparr>) event" for i
    by (simp add: reads_def sample_poll_event)
  ultimately have "\<exists>t. (1, message_type_to_db_handle t) \<in> set (messagetype_table sample_messages) \<and>
      (\<forall>ms. \<exists>event. reads (poll_event sample_poll i t) (sample_messages\<lparr>message_table := ms\<rparr>) event)" for i
    by blast
  moreover have "set (map (\<lambda>m. (msg_id m, msg_type m)) (message_table sample_messages)) =
      {(9, 1), (5, 1), (3, 1), (4, 1), (2, 1)}"
    by (simp add: sample_messages_def sample_message_def)
  ultimately show ?thesis
    unfolding poll_ready_def by (simp add: sample_messages_def sample_message_def sample_poll_def)
qed

lemma sample_unseen:
  "unseen_messages sample_messages 2 = [sample_message 9 2 200 False, sample_message 3 2 200 False]"
  by (simp add: unseen_messages_def sample_messages_def sample_message_def)

lemma sample_param: "param_bigint sample_poll i = Inr i"
  by (simp add: sample_poll_def)

theorem poll_request_outcome_witness:
  "\<exists>event. poll_request sample_poll 2 sample_messages =
     (Inr \<lparr>number_of_unseen_messages = 2, polled = Some (3, 0, event)\<rparr>, sample_messages)"
  using poll_request_outcome [OF sample_poll_ready _ sample_param, of 2]
  by (auto simp: sample_unseen sample_message_def)

theorem poll_acknowledgement_outcome_witness:
  "poll_acknowledgement sample_poll 3 2 sample_messages =
     (Inr \<lparr>ack_number_of_unseen_messages = 1, ack_oldest_unseen_message_id = Some 9\<rparr>,
      acknowledged (\<lambda>x. x = sample_message 3 2 200 False) sample_messages) \<and>
   poll_acknowledgement sample_poll 5 2 sample_messages =
     (Inl (fail_with object_does_not_exist), sample_messages)"
proof -
  have others: "other_unseen sample_messages (sample_message 3 2 200 False) = [sample_message 9 2 200 False]"
    by (simp add: other_unseen_def sample_messages_def sample_message_def)
  have three: "m \<in> set (message_table sample_messages) \<Longrightarrow> to_acknowledge 3 2 m \<Longrightarrow> m = sample_message 3 2 200 False"
    and five: "\<not> (to_acknowledge 5 2 m \<and> m \<in> set (message_table sample_messages))" for m
    by (auto simp: to_acknowledge_def sample_messages_def sample_message_def)
  have two: "(2 :: u64) \<noteq> 0" by simp
  have "\<not> (\<forall>m \<in> set (message_table sample_messages). \<not> to_acknowledge 3 2 m)"
    by (simp add: to_acknowledge_def sample_messages_def sample_message_def)
  with poll_acknowledgement_outcome [OF sample_poll_ready two sample_param sample_param, of 3]
  have "poll_acknowledgement sample_poll 3 2 sample_messages =
     (Inr \<lparr>ack_number_of_unseen_messages = 1, ack_oldest_unseen_message_id = Some 9\<rparr>,
      acknowledged (\<lambda>x. x = sample_message 3 2 200 False) sample_messages)"
  proof (elim disjE bexE conjE)
    fix m
    assume "m \<in> set (message_table sample_messages)" "to_acknowledge 3 2 m"
    then have "m = sample_message 3 2 200 False" by (rule three)
    moreover assume "poll_acknowledgement sample_poll 3 2 sample_messages =
      (Inr \<lparr>ack_number_of_unseen_messages = of_nat (length (other_unseen sample_messages m)),
            ack_oldest_unseen_message_id =
              (if other_unseen sample_messages m = [] then None
               else Some (Min (msg_id ` set (other_unseen sample_messages m))))\<rparr>,
       acknowledged (\<lambda>x. x = m) sample_messages)"
    ultimately show ?thesis by (simp add: others) (simp add: sample_message_def)
  qed blast
  moreover have "\<not> (\<exists>m \<in> set (message_table sample_messages). to_acknowledge 5 2 m)" using five by blast
  with poll_acknowledgement_outcome [OF sample_poll_ready two sample_param sample_param, of 5]
  have "poll_acknowledgement sample_poll 5 2 sample_messages =
     (Inl (fail_with object_does_not_exist), sample_messages)"
    by (elim disjE bexE conjE) blast+
  ultimately show ?thesis by (rule conjI)
qed

theorem poll_all_messages_witness:
  "fst (poll_all sample_poll 2 2 sample_messages) = Inr [3, 9]"
  using poll_all_messages [OF sample_poll_ready _ sample_param, of 2 2]
  by (simp add: sample_unseen) (simp add: sample_message_def)

end
