(* ===== verification/Epp_Credit.thy ===== *)
theory Epp_Credit
  imports Epp_Localized
begin

text \<open>
  What a registrar may still spend: \<^verbatim>\<open>credit/client_credit.cc\<close>, its output data and the
  localized command. Amounts are the decimal numbers of the caller's choice.
\<close>

section \<open>The credit of a zone\<close>

record 'm ZoneCredit =
  zone_fqdn :: string
  zone_credit :: "'m option"

definition has_credit :: "'m ZoneCredit \<Rightarrow> bool" where
  "has_credit z \<longleftrightarrow> zone_credit z \<noteq> None"

definition get_credit :: "'m ZoneCredit \<Rightarrow> exn + 'm" where
  "get_credit z =
     (case zone_credit z of
        Some c \<Rightarrow> Inr c
      | None \<Rightarrow> Inl (StdException ''unavailable information about credit for this zone''))"

definition OrderZoneCreditByZoneFqdn :: "'m ZoneCredit \<Rightarrow> 'm ZoneCredit \<Rightarrow> bool" where
  "OrderZoneCreditByZoneFqdn a b \<longleftrightarrow> string_less (zone_fqdn a) (zone_fqdn b)"

interpretation zone_credit_order: keyed_order OrderZoneCreditByZoneFqdn zone_fqdn
  by unfold_locales (simp add: OrderZoneCreditByZoneFqdn_def string_less_def)

text \<open>LibFred has a class of the same shape for the rows of its answer.\<close>

record 'm FredZoneCredit =
  fred_zone_fqdn :: string
  fred_zone_credit :: "'m option"

record ('db, 'm) libfred_credit = "'db libfred" +
  GetRegistrarZoneCredit :: "string \<Rightarrow> ('db, exn, 'm FredZoneCredit list) op"

definition get_registrar_handle_by_id :: "('db, 'x) libfred_scheme \<Rightarrow> u64 \<Rightarrow> ('db, exn, string) op" where
  "get_registrar_handle_by_id L registrar =
     bindE (InfoRegistrarById L registrar) (\<lambda>info. returnE (registrar_handle info))"

definition fred_to_epp :: "'m FredZoneCredit \<Rightarrow> 'm ZoneCredit" where
  "fred_to_epp src =
     (case fred_zone_credit src of
        Some c \<Rightarrow> \<lparr>zone_fqdn = fred_zone_fqdn src, zone_credit = Some c\<rparr>
      | None \<Rightarrow> \<lparr>zone_fqdn = fred_zone_fqdn src, zone_credit = None\<rparr>)"

section \<open>The command\<close>

definition client_credit ::
  "('db, 'm, 'x) libfred_credit_scheme \<Rightarrow> u64 \<Rightarrow> ('db, exn, 'm ZoneCredit list) op" where
  "client_credit L registrar =
     throw_if (registrar = 0) (fail_with authentication_error_server_closing_connection) (
     bindE (get_registrar_handle_by_id L registrar) (\<lambda>h.
     bindE (GetRegistrarZoneCredit L h) (\<lambda>credit_by_zones.
     returnE (fold (\<lambda>src result. set_insert OrderZoneCreditByZoneFqdn (fred_to_epp src) result)
       credit_by_zones []))))"

definition client_credit_localized ::
  "('db, 'm, 'x) libfred_credit_scheme \<Rightarrow> ('db, 'y) database_scheme \<Rightarrow> SessionData \<Rightarrow>
     ('db, thrown, EppResponseSuccessLocalized \<times> 'm ZoneCredit list) op" where
  "client_credit_localized L D session =
     try_localized D (lang session) (with_context D (
       bindE (on_working (client_credit L (registrar_id session))) (\<lambda>client_credit_output_data.
       bindE (on_working (response_success_localized D command_completed_successfully (lang session)))
         (\<lambda>response.
       returnE (response, client_credit_output_data)))))"

text \<open>The localized command commits nothing.\<close>

lemma client_credit_localized_stored: "snd (client_credit_localized L D session db) = db"
  unfolding client_credit_localized_def
  by (rule try_localized_stored) (subst returnE_on_working, unfold bindE_on_working, rule with_context_uncommitted)

text \<open>Every zone LibFred knows of is listed once, in the order of the names.\<close>

lemma client_credit_zones:
  assumes "registrar \<noteq> 0" and "reads (InfoRegistrarById L registrar) db info"
    and "reads (GetRegistrarZoneCredit L (registrar_handle info)) db zones"
  shows "\<exists>result. reads (client_credit L registrar) db result \<and>
    sorted_wrt OrderZoneCreditByZoneFqdn result \<and> distinct (map zone_fqdn result) \<and>
    zone_fqdn ` set result = fred_zone_fqdn ` set zones"
proof -
  let ?result = "fold (set_insert OrderZoneCreditByZoneFqdn) (map fred_to_epp zones) []"
  have "reads (client_credit L registrar) db ?result"
    using assms unfolding reads_def
    by (simp add: client_credit_def get_registrar_handle_by_id_def op_simps fold_map o_def)
  moreover have "sorted_wrt OrderZoneCreditByZoneFqdn ?result"
    by (rule zone_credit_order.sorted_fold_insert) simp
  moreover have "zone_fqdn (fred_to_epp z) = fred_zone_fqdn z" for z :: "'b FredZoneCredit"
    by (simp add: fred_to_epp_def split: option.split)
  then have "zone_fqdn ` set ?result = fred_zone_fqdn ` set zones"
    by (simp add: zone_credit_order.fold_insert_keys image_image)
  ultimately show ?thesis using zone_credit_order.sorted_keys_distinct by blast
qed

end
