(* ===== verification/Session_Container.thy ===== *)
theory Session_Container
  imports Epp_Session
begin

text \<open>
  The container of the open EPP sessions, \<^verbatim>\<open>src/bin/corba/epp/epp_session.hh\<close> and \<^verbatim>\<open>.cc\<close>:
  which session belongs to which registrar, how many sessions a registrar has, the limits on both,
  and the removal of sessions not used for a while. An \<^verbatim>\<open>int\<close> is kept as its 32 bits and a
  \<^verbatim>\<open>long long\<close> as its 64, so that the conversions between signed and unsigned are those of the
  code. The methods hold the mutex of the container throughout; each is one step here. The clock
  and the sequence of login numbers in the database are parameters.
\<close>

section \<open>Data\<close>

datatype session_error =
    NumberSessionLimit string
  | SessionError string
  | OutsideError exn

record Session =
  registrarID :: u32
  language :: u32
  timestamp :: u64

record EppSessionContainer =
  session_timeout_sec :: u32
  max_total_sessions :: u32
  max_reg_sessions :: u32
  sessions :: "(u64 \<times> Session) list"
  registrar_session_count :: "(u32 \<times> u32) list"

definition new_container :: "u32 \<Rightarrow> u32 \<Rightarrow> u32 \<Rightarrow> EppSessionContainer" where
  "new_container max_total max_reg wait =
     \<lparr>session_timeout_sec = wait, max_total_sessions = max_total, max_reg_sessions = max_reg,
      sessions = [], registrar_session_count = []\<rparr>"

text \<open>The order of \<^verbatim>\<open>std::map<int, int>\<close>.\<close>

definition int_less :: "u32 \<Rightarrow> u32 \<Rightarrow> bool" where
  "int_less a b \<longleftrightarrow> sint a < sint b"

interpretation int_less: keyed_order int_less sint
  by unfold_locales (simp add: int_less_def)

lemma int_less_equivalent: "equivalent int_less a b \<longleftrightarrow> a = b"
  by (simp add: int_less.equivalent_key word_eq_iff_signed [symmetric])

record 'w outside =
  time_now :: "'w \<Rightarrow> u64 \<times> 'w"
  next_login_id :: "('w, exn, u64) op"

section \<open>Operations\<close>

text \<open>\<^verbatim>\<open>reg_sessions_count\<close>: the entry of the registrar, zero when there is none\<close>

definition reg_sessions_count :: "EppSessionContainer \<Rightarrow> u32 \<Rightarrow> u32" where
  "reg_sessions_count c regId =
     (case map_find int_less regId (registrar_session_count c) of None \<Rightarrow> 0 | Some n \<Rightarrow> n)"

definition logout_session_worker :: "u64 \<Rightarrow> (EppSessionContainer, session_error, unit) op" where
  "logout_session_worker loginId = (\<lambda>c.
     case map_find u64_less loginId (sessions c) of
       None \<Rightarrow> (Inr (), c)
     | Some s \<Rightarrow>
         let regId = registrarID s; n = reg_sessions_count c regId in
         if n = 0
         then (Inl (SessionError ''Internal error - number of registrar sessions inconsistent''), c)
         else (Inr (), c\<lparr>registrar_session_count :=
                           map_assign int_less regId (n - 1) (registrar_session_count c),
                         sessions := map_erase u64_less loginId (sessions c)\<rparr>))"

text \<open>
  The loop over all sessions that logs out those satisfying a condition; the next iterator is
  computed before the element under the current one is erased. The result is \<open>None\<close> when the loop
  does not end, or when an iterator is used that points to no element.
\<close>

partial_function (option) session_loop ::
  "(Session \<Rightarrow> bool) \<Rightarrow> u64 option \<Rightarrow> EppSessionContainer \<Rightarrow>
     ((session_error + unit) \<times> EppSessionContainer) option" where
  "session_loop cond it c =
     (case it of
        None \<Rightarrow> Some (Inr (), c)
      | Some k \<Rightarrow>
          (case map_find u64_less k (sessions c) of
             None \<Rightarrow> None
           | Some s \<Rightarrow>
               (if cond s
                then (case logout_session_worker k c of
                        (Inl e, c') \<Rightarrow> Some (Inl e, c')
                      | (Inr _, c') \<Rightarrow> session_loop cond (map_next u64_less k (sessions c)) c')
                else session_loop cond (map_next u64_less k (sessions c)) c)))"

definition session_expired :: "u32 \<Rightarrow> u64 \<Rightarrow> Session \<Rightarrow> bool" where
  "session_expired wait current_timestamp s \<longleftrightarrow>
     sint (timestamp s + ucast wait) < sint current_timestamp"

definition garbage_session_internal ::
  "u64 \<Rightarrow> EppSessionContainer \<Rightarrow> ((session_error + unit) \<times> EppSessionContainer) option" where
  "garbage_session_internal current_timestamp c =
     session_loop (session_expired (session_timeout_sec c) current_timestamp) (map_begin (sessions c)) c"

text \<open>What \<^verbatim>\<open>login_session\<close> does after the removal of the expired sessions.\<close>

definition open_session ::
  "('w, 'x) outside_scheme \<Rightarrow> u32 \<Rightarrow> u32 \<Rightarrow> (EppSessionContainer \<times> 'w, session_error, u64) op" where
  "open_session E regId lng = (\<lambda>(c, w).
     if unat (max_total_sessions c) \<le> length (sessions c)
     then (Inl (NumberSessionLimit ''maximal total number of sessions reached''), c, w)
     else if max_reg_sessions c \<le> reg_sessions_count c regId
     then (Inl (NumberSessionLimit ''max registrar session count reached''), c, w)
     else
       (case next_login_id E w of
          (Inl e, w1) \<Rightarrow> (Inl (OutsideError e), c, w1)
        | (Inr loginId, w1) \<Rightarrow>
            if map_find u64_less loginId (sessions c) \<noteq> None
            then (Inl (SessionError ''login ID collision''), c, w1)
            else
              (case time_now E w1 of
                 (now, w2) \<Rightarrow>
                   (Inr loginId,
                    c\<lparr>sessions := map_assign u64_less loginId
                                    \<lparr>registrarID = regId, language = lng, timestamp = now\<rparr> (sessions c),
                      registrar_session_count := map_assign int_less regId
                                    (reg_sessions_count c regId + 1) (registrar_session_count c)\<rparr>,
                    w2))))"

definition login_session ::
  "('w, 'x) outside_scheme \<Rightarrow> u32 \<Rightarrow> u32 \<Rightarrow> EppSessionContainer \<times> 'w \<Rightarrow>
     ((session_error + u64) \<times> EppSessionContainer \<times> 'w) option" where
  "login_session E regId lng = (\<lambda>(c, w).
     case time_now E w of
       (now, w1) \<Rightarrow>
         (case garbage_session_internal now c of
            None \<Rightarrow> None
          | Some (Inl e, c1) \<Rightarrow> Some (Inl e, c1, w1)
          | Some (Inr _, c1) \<Rightarrow> Some (open_session E regId lng (c1, w1))))"

definition logout_session :: "u64 \<Rightarrow> (EppSessionContainer, session_error, unit) op" where
  "logout_session loginId = logout_session_worker loginId"

text \<open>The parameter is a \<^verbatim>\<open>long\<close>, with which the \<^verbatim>\<open>int\<close> of a session is compared.\<close>

definition destroy_all_registrar_sessions ::
  "u64 \<Rightarrow> EppSessionContainer \<Rightarrow> ((session_error + unit) \<times> EppSessionContainer) option" where
  "destroy_all_registrar_sessions regId c =
     session_loop (\<lambda>s. scast (registrarID s) = regId) (map_begin (sessions c)) c"

definition update_timestamp ::
  "('w, 'x) outside_scheme \<Rightarrow> u64 \<Rightarrow> (EppSessionContainer \<times> 'w, session_error, unit) op" where
  "update_timestamp E loginId = (\<lambda>(c, w).
     case map_find u64_less loginId (sessions c) of
       None \<Rightarrow> (Inl (SessionError ''loginId not found.''), c, w)
     | Some s \<Rightarrow>
         (case time_now E w of
            (now, w1) \<Rightarrow>
              (Inr (), c\<lparr>sessions := map_assign u64_less loginId (s\<lparr>timestamp := now\<rparr>) (sessions c)\<rparr>, w1)))"

definition get_registrar_id ::
  "('w, 'x) outside_scheme \<Rightarrow> u64 \<Rightarrow> (EppSessionContainer \<times> 'w, session_error, u32) op" where
  "get_registrar_id E loginId = (\<lambda>(c, w).
     case map_find u64_less loginId (sessions c) of
       None \<Rightarrow> (Inr 0, c, w)
     | Some s \<Rightarrow>
         let registrar_id = (scast (registrarID s) :: u64) in
         bindE (update_timestamp E loginId) (\<lambda>_. returnE (ucast registrar_id)) (c, w))"

definition get_registrar_lang :: "u64 \<Rightarrow> EppSessionContainer \<Rightarrow> u32" where
  "get_registrar_lang loginId c =
     (case map_find u64_less loginId (sessions c) of None \<Rightarrow> 0 | Some s \<Rightarrow> language s)"

section \<open>The data of the session of a request\<close>

definition legacy_get_lang :: "u64 \<Rightarrow> EppSessionContainer \<Rightarrow> SessionLang" where
  "legacy_get_lang session_id c =
     (if get_registrar_lang session_id c = 1 then SessionLang_cs else SessionLang_en)"

definition legacy_get_registrar_id ::
  "('w, 'x) outside_scheme \<Rightarrow> u64 \<Rightarrow> (EppSessionContainer \<times> 'w, session_error, u64) op" where
  "legacy_get_registrar_id E session_id =
     bindE (get_registrar_id E session_id) (\<lambda>result. returnE (scast result))"

record RegistrarSessionData =
  session_registrar_id :: u64
  session_language :: SessionLang

definition get_registrar_session_data ::
  "('w, 'x) outside_scheme \<Rightarrow> u64 \<Rightarrow> (EppSessionContainer \<times> 'w, session_error, RegistrarSessionData) op" where
  "get_registrar_session_data E session_id =
     bindE (legacy_get_registrar_id E session_id) (\<lambda>reg (c, w).
       (Inr \<lparr>session_registrar_id = reg, session_language = legacy_get_lang session_id c\<rparr>, c, w))"

section \<open>The state of the container\<close>

text \<open>
  The map of sessions is sorted, as every \<^verbatim>\<open>std::map\<close> is; the counter of every registrar is the
  number of its sessions; the limits are kept.
\<close>

definition sessions_of :: "EppSessionContainer \<Rightarrow> u32 \<Rightarrow> nat" where
  "sessions_of c r = length (filter (\<lambda>(_, s). registrarID s = r) (sessions c))"

definition sorted_sessions :: "EppSessionContainer \<Rightarrow> bool" where
  "sorted_sessions c \<longleftrightarrow> sorted_wrt u64_less (map fst (sessions c))"

definition counted :: "EppSessionContainer \<Rightarrow> bool" where
  "counted c \<longleftrightarrow> (\<forall>r. unat (reg_sessions_count c r) = sessions_of c r)"

definition limits_kept :: "EppSessionContainer \<Rightarrow> bool" where
  "limits_kept c \<longleftrightarrow> length (sessions c) \<le> unat (max_total_sessions c) \<and>
     (\<forall>r. sessions_of c r \<le> unat (max_reg_sessions c))"

definition container_inv :: "EppSessionContainer \<Rightarrow> bool" where
  "container_inv c \<longleftrightarrow> sorted_sessions c \<and> counted c \<and> limits_kept c"

definition same_limits :: "EppSessionContainer \<Rightarrow> EppSessionContainer \<Rightarrow> bool" where
  "same_limits c c' \<longleftrightarrow> session_timeout_sec c' = session_timeout_sec c \<and>
     max_total_sessions c' = max_total_sessions c \<and> max_reg_sessions c' = max_reg_sessions c"

lemma same_limits_refl [simp]: "same_limits c c"
  by (simp add: same_limits_def)

lemma same_limits_trans: "same_limits a b \<Longrightarrow> same_limits b c \<Longrightarrow> same_limits a c"
  by (simp add: same_limits_def)

text \<open>Fewer sessions keep the limits.\<close>

lemma limits_kept_fewer:
  assumes "limits_kept c" "same_limits c c'" "sessions c' = filter P (sessions c)"
  shows "limits_kept c'"
proof -
  have "length (filter Q (filter P xs)) \<le> length (filter Q xs)" for Q and xs :: "(u64 \<times> Session) list"
    by (induction xs) auto
  then have "sessions_of c' r \<le> sessions_of c r" for r
    by (simp only: sessions_of_def assms(3))
  moreover have "length (sessions c') \<le> length (sessions c)"
    by (simp add: assms(3))
  ultimately show ?thesis
    using assms(1,2) by (auto simp: limits_kept_def same_limits_def intro: le_trans)
qed

section \<open>Lookups in a sorted map\<close>

abbreviation find_session :: "u64 \<Rightarrow> EppSessionContainer \<Rightarrow> Session option" where
  "find_session k c \<equiv> map_find u64_less k (sessions c)"

lemma find_session_member: "map_find u64_less k m = Some s \<Longrightarrow> (k, s) \<in> set m"
  by (induction m) (auto simp: u64_less.equivalent_key split: if_splits)

lemma find_session_middle:
  assumes "sorted_wrt u64_less (map fst (pre @ (k, s) # suf))"
  shows "map_find u64_less k (pre @ (k, s) # suf) = Some s"
    and "map_erase u64_less k (pre @ (k, s) # suf) = pre @ suf"
    and "map_next u64_less k (pre @ (k, s) # suf) = map_begin suf"
proof -
  have pre: "\<forall>x \<in> fst ` set pre. u64_less x k" and suf: "\<forall>x \<in> fst ` set suf. u64_less k x"
    using assms by (auto simp: sorted_wrt_append)
  have absent: "map_find u64_less k pre = None"
    using pre by (intro u64_less.map_find_absent) (auto simp: equivalent_def)
  then show "map_find u64_less k (pre @ (k, s) # suf) = Some s"
    by (simp add: u64_less.map_find_append u64_less.equivalent_refl)
  show "map_erase u64_less k (pre @ (k, s) # suf) = pre @ suf"
    using absent by (simp add: u64_less.map_erase_append u64_less.equivalent_refl)
  have "filter (\<lambda>(k', _). u64_less k k') pre = []"
    using pre by (force simp: filter_empty_conv u64_less_def)
  moreover have "filter (\<lambda>(k', _). u64_less k k') suf = suf"
    using suf by (force intro: filter_True)
  ultimately show "map_next u64_less k (pre @ (k, s) # suf) = map_begin suf"
    by (simp add: map_next_def u64_less.less_irrefl)
qed

lemma find_session_split:
  assumes "sorted_sessions c" "find_session k c = Some s"
  obtains pre suf where "sessions c = pre @ (k, s) # suf"
  using find_session_member [OF assms(2)] by (meson split_list)

section \<open>One session logged out\<close>

lemma worker_absent: "find_session k c = None \<Longrightarrow> logout_session_worker k c = (Inr (), c)"
  by (simp add: logout_session_worker_def)

text \<open>
  Whatever the counters hold, the worker either takes the session out of the map or leaves the
  container as it is; with right counters it takes it out, and the counters stay right.
\<close>

lemma worker_found:
  assumes "sorted_sessions c" "sessions c = pre @ (k, s) # suf"
  shows "logout_session_worker k c =
      (Inl (SessionError ''Internal error - number of registrar sessions inconsistent''), c) \<and> \<not> counted c \<or>
    (\<exists>c'. logout_session_worker k c = (Inr (), c') \<and> sessions c' = pre @ suf \<and> same_limits c c' \<and>
      (counted c \<longrightarrow> counted c'))"
proof -
  let ?r = "registrarID s"
  let ?n = "reg_sessions_count c ?r"
  note middle = find_session_middle [of pre k s suf, folded assms(2), OF assms(1) [unfolded sorted_sessions_def]]
  define c' where "c' = c\<lparr>registrar_session_count := map_assign int_less ?r (?n - 1) (registrar_session_count c),
    sessions := map_erase u64_less k (sessions c)\<rparr>"
  have run: "logout_session_worker k c = (if ?n = 0
      then (Inl (SessionError ''Internal error - number of registrar sessions inconsistent''), c)
      else (Inr (), c'))"
    by (simp add: logout_session_worker_def middle(1) c'_def Let_def)
  have s': "sessions c' = pre @ suf"
    by (simp add: c'_def middle(2))
  have of: "sessions_of c r = sessions_of c' r + (if ?r = r then 1 else 0)" for r
    by (simp add: sessions_of_def s' assms(2))
  have count: "reg_sessions_count c' r = (if ?r = r then ?n - 1 else reg_sessions_count c r)" for r
    by (simp add: reg_sessions_count_def c'_def int_less.map_find_assign int_less_equivalent)
  have "counted c'" if counted: "counted c" and pos: "?n \<noteq> 0"
  proof -
    have all: "unat (reg_sessions_count c r) = sessions_of c r" for r
      using counted by (simp add: counted_def)
    have "unat (?n - 1) = unat ?n - 1"
      using pos by (simp add: unat_minus_one)
    then have "unat (reg_sessions_count c' r) = sessions_of c' r" for r
      using all [of r] of [of r] by (cases "?r = r") (simp_all add: count)
    then show ?thesis by (simp add: counted_def)
  qed
  moreover have "\<not> counted c" if "?n = 0"
    using that of [of ?r] by (auto simp: counted_def intro!: exI [of _ ?r])
  moreover have "same_limits c c'"
    by (simp add: same_limits_def c'_def)
  ultimately show ?thesis
    using run s' by auto
qed

section \<open>The loop over the sessions\<close>

text \<open>
  Every element is visited once, and the loop ends: with right counters after all the sessions with
  the condition are gone, otherwise at the first counter that is wrong.
\<close>

lemma session_loop_run:
  assumes "sorted_sessions c" "sessions c = pre @ suf"
  shows "\<exists>r c'. session_loop cond (map_begin suf) c = Some (r, c') \<and> sorted_sessions c' \<and> same_limits c c' \<and>
    (counted c \<longrightarrow> r = Inr () \<and> counted c' \<and> sessions c' = pre @ filter (\<lambda>(_, s). \<not> cond s) suf)"
  using assms
proof (induction suf arbitrary: pre c)
  case Nil
  then show ?case by (simp add: session_loop.simps map_begin_def)
next
  case (Cons p suf)
  obtain k s where p: "p = (k, s)" by (cases p)
  have here: "sessions c = pre @ (k, s) # suf" using Cons.prems(2) by (simp add: p)
  note middle = find_session_middle [of pre k s suf, folded here, OF Cons.prems(1) [unfolded sorted_sessions_def]]
  show ?case
  proof (cases "cond s")
    case False
    have "session_loop cond (map_begin (p # suf)) c = session_loop cond (map_begin suf) c"
      using False by (simp add: session_loop.simps [of cond "Some k"] map_begin_def p middle)
    with Cons.IH [of c "pre @ [(k, s)]"] Cons.prems False here show ?thesis
      by (simp add: p)
  next
    case True
    consider (wrong) e where "logout_session_worker k c = (Inl e, c)" "\<not> counted c"
      | (out) c1 where "logout_session_worker k c = (Inr (), c1)" "sessions c1 = pre @ suf" "same_limits c c1"
          "counted c \<longrightarrow> counted c1"
      using worker_found [OF Cons.prems(1) here] by blast
    then show ?thesis
    proof cases
      case wrong
      then show ?thesis
        using True Cons.prems(1)
        by (simp add: session_loop.simps [of cond "Some k"] map_begin_def p middle)
    next
      case out
      have "session_loop cond (map_begin (p # suf)) c = session_loop cond (map_begin suf) c1"
        using True out(1) by (simp add: session_loop.simps [of cond "Some k"] map_begin_def p middle)
      moreover have "sorted_sessions c1"
        using Cons.prems(1) by (auto simp: sorted_sessions_def here out(2) sorted_wrt_append)
      ultimately show ?thesis
        using Cons.IH [of c1 pre] out True
        by (auto simp: p intro: same_limits_trans)
    qed
  qed
qed

lemma garbage_run:
  assumes "sorted_sessions c"
  shows "\<exists>r c'. garbage_session_internal now c = Some (r, c') \<and> sorted_sessions c' \<and> same_limits c c' \<and>
    (counted c \<longrightarrow> r = Inr () \<and> counted c' \<and>
      sessions c' = filter (\<lambda>(_, s). \<not> session_expired (session_timeout_sec c) now s) (sessions c))"
  using session_loop_run [of c "[]" "sessions c"] assms
  by (simp add: garbage_session_internal_def)

lemma destroy_run:
  assumes "sorted_sessions c"
  shows "\<exists>r c'. destroy_all_registrar_sessions reg c = Some (r, c') \<and> sorted_sessions c' \<and> same_limits c c' \<and>
    (counted c \<longrightarrow> r = Inr () \<and> counted c' \<and>
      sessions c' = filter (\<lambda>(_, s). scast (registrarID s) \<noteq> reg) (sessions c))"
  using session_loop_run [of c "[]" "sessions c"] assms
  by (simp add: destroy_all_registrar_sessions_def)

section \<open>What the operations keep\<close>

lemma sorted_erase_filter:
  "sorted_wrt u64_less (map fst m) \<Longrightarrow> map_erase u64_less k m = filter (\<lambda>(k', _). k' \<noteq> k) m"
proof (induction m)
  case (Cons p m)
  obtain k' s where p: "p = (k', s)" by (cases p)
  have "filter (\<lambda>(k', _). k' \<noteq> k) m = m" if "k = k'"
    using Cons.prems that by (force simp: p u64_less_def intro: filter_True)
  with Cons show ?case by (cases "k = k'") (simp_all add: p u64_less.equivalent_key)
qed simp

lemma find_None: "map_find u64_less k m = None \<longleftrightarrow> k \<notin> fst ` set m"
  by (induction m) (auto simp: u64_less.equivalent_key split: if_splits)

lemma find_filter:
  "sorted_wrt u64_less (map fst m) \<Longrightarrow> map_find u64_less k (filter P m) =
     (case map_find u64_less k m of None \<Rightarrow> None | Some s \<Rightarrow> if P (k, s) then Some s else None)"
proof (induction m)
  case (Cons p m)
  obtain k' s where p: "p = (k', s)" by (cases p)
  have "map_find u64_less k' m = None"
    using Cons.prems by (intro u64_less.map_find_absent) (auto simp: p equivalent_def)
  with Cons show ?case by (auto simp: p u64_less.equivalent_key)
qed simp

text \<open>A logout under right counters: the session is gone, and nothing else.\<close>

lemma worker_run:
  assumes "sorted_sessions c" "counted c"
  shows "\<exists>c'. logout_session_worker k c = (Inr (), c') \<and> sorted_sessions c' \<and> counted c' \<and> same_limits c c' \<and>
    sessions c' = filter (\<lambda>(k', _). k' \<noteq> k) (sessions c)"
proof (cases "find_session k c")
  case None
  then have "filter (\<lambda>(k', _). k' \<noteq> k) (sessions c) = sessions c"
    by (force simp: find_None intro: filter_True)
  with None assms show ?thesis
    by (intro exI [of _ c]) (simp add: worker_absent)
next
  case (Some s)
  then obtain pre suf where here: "sessions c = pre @ (k, s) # suf"
    using find_session_split [OF assms(1)] by blast
  have "filter (\<lambda>(k', _). k' \<noteq> k) (sessions c) = pre @ suf"
    using find_session_middle(2) [of pre k s suf] assms(1) sorted_erase_filter [of "sessions c" k]
    by (simp add: sorted_sessions_def here)
  moreover have "sorted_wrt u64_less (map fst (pre @ suf))"
    using assms(1) by (auto simp: sorted_sessions_def here sorted_wrt_append)
  ultimately show ?thesis
    using worker_found [OF assms(1) here] assms(2) by (auto simp: sorted_sessions_def)
qed

lemma inv_fewer:
  assumes "container_inv c" "sorted_sessions c'" "counted c'" "same_limits c c'"
    "sessions c' = filter P (sessions c)"
  shows "container_inv c'"
  using assms limits_kept_fewer by (auto simp: container_inv_def)

text \<open>A session opened below both limits.\<close>

definition with_new_session :: "u64 \<Rightarrow> u32 \<Rightarrow> u32 \<Rightarrow> u64 \<Rightarrow> EppSessionContainer \<Rightarrow> EppSessionContainer" where
  "with_new_session loginId regId lng now c =
     c\<lparr>sessions := map_assign u64_less loginId
         \<lparr>registrarID = regId, language = lng, timestamp = now\<rparr> (sessions c),
       registrar_session_count := map_assign int_less regId
         (reg_sessions_count c regId + 1) (registrar_session_count c)\<rparr>"

lemma length_map_assign_absent:
  "map_find u64_less k m = None \<Longrightarrow>
   length (filter Q (map_assign u64_less k v m)) = length (filter Q m) + (if Q (k, v) then 1 else 0)"
  by (induction m) (auto simp: equivalent_def split: if_splits)

lemma with_new_session_inv:
  assumes inv: "container_inv c" and free: "find_session loginId c = None"
    and total: "length (sessions c) < unat (max_total_sessions c)"
    and reg: "sessions_of c regId < unat (max_reg_sessions c)"
  shows "container_inv (with_new_session loginId regId lng now c)"
proof -
  let ?c' = "with_new_session loginId regId lng now c"
  have sessions: "sessions ?c' = map_assign u64_less loginId
      \<lparr>registrarID = regId, language = lng, timestamp = now\<rparr> (sessions c)"
    and limits: "same_limits c ?c'"
    by (simp_all add: with_new_session_def same_limits_def)
  have "sorted_sessions ?c'"
    using inv by (simp add: container_inv_def sorted_sessions_def sessions u64_less.sorted_map_assign)
  moreover have of: "sessions_of ?c' r = sessions_of c r + (if regId = r then 1 else 0)" for r
    using length_map_assign_absent [OF free, where Q = "\<lambda>(_, s). registrarID s = r"]
    by (simp add: sessions_of_def sessions)
  have one: "length (sessions ?c') = Suc (length (sessions c))"
    using length_map_assign_absent [OF free, where Q = "\<lambda>_. True"] by (simp add: sessions)
  have count: "unat (reg_sessions_count c r) = sessions_of c r" for r
    using inv by (simp add: container_inv_def counted_def)
  have "reg_sessions_count c regId < max_reg_sessions c"
    using reg by (simp add: word_less_nat_alt count)
  moreover have small: "unat (max_reg_sessions c) < 2 ^ 32"
    by (rule order_less_le_trans [OF unsigned_less]) simp
  ultimately have "unat (reg_sessions_count c regId + 1) = Suc (sessions_of c regId)"
    using count [of regId] small
    by (simp add: unat_word_ariths word_less_nat_alt)
  moreover have "reg_sessions_count ?c' r = (if regId = r then reg_sessions_count c regId + 1
      else reg_sessions_count c r)" for r
    by (simp add: reg_sessions_count_def [of ?c'])
      (simp add: with_new_session_def int_less.map_find_assign int_less_equivalent reg_sessions_count_def)
  ultimately have "counted ?c'"
    using count of by (simp add: counted_def)
  moreover have "limits_kept ?c'"
    using inv limits one of total reg by (simp add: container_inv_def limits_kept_def same_limits_def)
  ultimately show ?thesis
    using \<open>sorted_sessions ?c'\<close> by (simp add: container_inv_def)
qed

text \<open>
  The outcome of a login that finds the container in order: first the expired sessions go, then
  the limits are compared with the sessions there really are.
\<close>

definition login_outcome ::
  "('w, 'x) outside_scheme \<Rightarrow> u32 \<Rightarrow> u32 \<Rightarrow> EppSessionContainer \<times> 'w \<Rightarrow>
     (session_error + u64) \<times> EppSessionContainer \<times> 'w" where
  "login_outcome E regId lng = (\<lambda>(c, w).
     if unat (max_total_sessions c) \<le> length (sessions c)
     then (Inl (NumberSessionLimit ''maximal total number of sessions reached''), c, w)
     else if unat (max_reg_sessions c) \<le> sessions_of c regId
     then (Inl (NumberSessionLimit ''max registrar session count reached''), c, w)
     else
       (case next_login_id E w of
          (Inl e, w1) \<Rightarrow> (Inl (OutsideError e), c, w1)
        | (Inr loginId, w1) \<Rightarrow>
            if find_session loginId c \<noteq> None then (Inl (SessionError ''login ID collision''), c, w1)
            else (Inr loginId, with_new_session loginId regId lng (fst (time_now E w1)) c,
                  snd (time_now E w1))))"

lemma open_session_outcome: "counted c \<Longrightarrow> open_session E regId lng (c, w) = login_outcome E regId lng (c, w)"
  by (auto simp: open_session_def login_outcome_def with_new_session_def counted_def word_le_nat_alt
      split: prod.splits sum.splits)

lemma login_run:
  assumes "container_inv c" "time_now E w = (now, w1)"
  shows "\<exists>c1. container_inv c1 \<and> same_limits c c1 \<and>
    sessions c1 = filter (\<lambda>(_, s). \<not> session_expired (session_timeout_sec c) now s) (sessions c) \<and>
    login_session E regId lng (c, w) = Some (login_outcome E regId lng (c1, w1))"
proof -
  obtain c1 where "garbage_session_internal now c = Some (Inr (), c1)" "sorted_sessions c1" "same_limits c c1"
      "counted c1" "sessions c1 = filter (\<lambda>(_, s). \<not> session_expired (session_timeout_sec c) now s) (sessions c)"
    using garbage_run [of c now] assms(1) unfolding container_inv_def by blast
  then show ?thesis
    using assms inv_fewer [OF assms(1)]
    by (intro exI [of _ c1]) (simp add: login_session_def open_session_outcome)
qed

lemma login_outcome_inv:
  assumes "container_inv c" "login_outcome E regId lng (c, w) = (r, c', w')"
  shows "container_inv c' \<and> same_limits c c'"
proof -
  have "container_inv c' \<and> same_limits c c'" if "length (sessions c) < unat (max_total_sessions c)"
      "sessions_of c regId < unat (max_reg_sessions c)"
    using that assms with_new_session_inv [OF assms(1) _ that]
    by (auto simp: login_outcome_def same_limits_def with_new_session_def
        split: prod.splits sum.splits if_splits)
  then show ?thesis
    using assms by (auto simp: login_outcome_def not_le split: if_splits)
qed

end
