(* ===== verification/Corba_Base.thy ===== *)
theory Corba_Base
  imports Session_Container Epp_Localized
begin

text \<open>
  What the methods of the CORBA servant of EPP (\<^verbatim>\<open>src/bin/corba/epp/epp_impl.cc\<close>) share: the
  conversions of strings and numbers (\<^verbatim>\<open>src/bin/corba/util\<close>), of the parameters of a request, of
  responses, failures and states (\<^verbatim>\<open>src/bin/corba/epp/corba_conversions.cc\<close>), and the frame of a
  method: session, command, conversion of a localized failure to the exception of the interface. The
  classes generated from the interface are records with the fields the sources read and write.
\<close>

section \<open>Strings and numbers\<close>

text \<open>
  A \<^verbatim>\<open>const char*\<close> parameter may be null; a string inside a structure never is. Neither contains
  the character 0.
\<close>

type_synonym cstring = "string option"

definition unwrap_string :: "cstring \<Rightarrow> string" where
  "unwrap_string s = (case s of None \<Rightarrow> [] | Some t \<Rightarrow> t)"

definition unwrap_string_from_const_char_ptr :: "cstring \<Rightarrow> exn + string" where
  "unwrap_string_from_const_char_ptr s =
     (case s of
        None \<Rightarrow> Inl (StdException ''unwrap_string_from_const_char_ptr: in is NULL'')
      | Some t \<Rightarrow> Inr t)"

text \<open>\<^verbatim>\<open>CORBA::string_dup(in.c_str())\<close>: what follows a character 0 is lost.\<close>

definition wrap_string_to_corba_string :: "string \<Rightarrow> string" where
  "wrap_string_to_corba_string s = takeWhile (\<lambda>c. c \<noteq> CHR 0x00) s"

text \<open>
  \<^verbatim>\<open>int_to_int\<close>, by \<^verbatim>\<open>boost::numeric_cast\<close>, of a number that is not negative, to a type with the
  given largest value.
\<close>

definition wrap_int :: "nat \<Rightarrow> nat \<Rightarrow> exn + nat" where
  "wrap_int greatest n = (if n \<le> greatest then Inr n else Inl (StdException ''integer conversion failed''))"

text \<open>
  What comes from outside the repository: the transaction handle made from the number of the request
  log, the local time of the host, and the sizes of the numbers in the generated classes.
\<close>

record corba =
  make_svtrid :: "u64 \<Rightarrow> string"
  convert_time_to_local_rfc3339 :: "ptime \<Rightarrow> string"
  greatest_code :: nat
  greatest_position :: nat

section \<open>Requests\<close>

record EppParams =
  loginID :: u64
  clTRID :: string
  requestID :: u64

record RequestParams =
  session_id :: u64
  client_transaction_id :: string
  log_request_id :: "u64 option"

definition unwrap_EppParams :: "EppParams \<Rightarrow> RequestParams" where
  "unwrap_EppParams p =
     \<lparr>session_id = loginID p, client_transaction_id = clTRID p,
      log_request_id = (if requestID p \<noteq> 0 then Some (requestID p) else None)\<rparr>"

definition get_server_transaction_handle :: "('x) corba_scheme \<Rightarrow> RequestParams \<Rightarrow> string" where
  "get_server_transaction_handle C p =
     make_svtrid C (case log_request_id p of Some n \<Rightarrow> n | None \<Rightarrow> 0)"

text \<open>A sequence, converted in its order by a conversion that may throw.\<close>

fun unwrap_sequence :: "('b \<Rightarrow> exn + 'a) \<Rightarrow> 'b list \<Rightarrow> exn + 'a list" where
  "unwrap_sequence f [] = Inr []"
| "unwrap_sequence f (h # hs) =
     (case f h of
        Inl e \<Rightarrow> Inl e
      | Inr x \<Rightarrow> (case unwrap_sequence f hs of Inl e \<Rightarrow> Inl e | Inr xs \<Rightarrow> Inr (x # xs)))"

definition unwrap_handle_sequence_to_string_vector :: "cstring list \<Rightarrow> exn + string list" where
  "unwrap_handle_sequence_to_string_vector handles = unwrap_sequence unwrap_string_from_const_char_ptr handles"

text \<open>The conventions of changes: empty for no change, a leading backspace for removal.\<close>

definition unwrap_string_for_change_to_Optional_string :: "cstring \<Rightarrow> exn + string option" where
  "unwrap_string_for_change_to_Optional_string src =
     (case unwrap_string_from_const_char_ptr src of
        Inl e \<Rightarrow> Inl e
      | Inr s \<Rightarrow> Inr (if s = [] then None else Some s))"

definition unwrap_string_for_change_or_remove_to_Optional_string :: "cstring \<Rightarrow> exn + string option" where
  "unwrap_string_for_change_or_remove_to_Optional_string src =
     (case unwrap_string_from_const_char_ptr src of
        Inl e \<Rightarrow> Inl e
      | Inr s \<Rightarrow> Inr (if s = [] then None else if hd s = CHR 0x08 then Some [] else Some s))"

section \<open>Responses\<close>

record Response =
  response_code :: nat
  response_svTRID :: string
  response_msg :: string

definition wrap_Epp_EppResponseSuccessLocalized ::
  "('x) corba_scheme \<Rightarrow> EppResponseSuccessLocalized \<Rightarrow> string \<Rightarrow> exn + Response" where
  "wrap_Epp_EppResponseSuccessLocalized C response svtrid =
     (case wrap_int (greatest_code C) (success_value (success_code response)) of
        Inl e \<Rightarrow> Inl e
      | Inr code \<Rightarrow> Inr
          \<lparr>response_code = code,
           response_svTRID = wrap_string_to_corba_string svtrid,
           response_msg = wrap_string_to_corba_string (success_description response)\<rparr>)"

datatype ParamError =
    ccReg_poll_msgID | ccReg_contact_handle | ccReg_contact_cc | ccReg_nsset_handle
  | ccReg_nsset_tech | ccReg_nsset_dns_name | ccReg_nsset_dns_addr | ccReg_nsset_dns_name_add
  | ccReg_nsset_dns_name_rem | ccReg_nsset_tech_add | ccReg_nsset_tech_rem | ccReg_domain_fqdn
  | ccReg_domain_registrant | ccReg_domain_nsset | ccReg_domain_keyset | ccReg_domain_period
  | ccReg_domain_admin | ccReg_domain_tmpcontact | ccReg_domain_ext_valDate | ccReg_domain_ext_valDate_missing
  | ccReg_domain_curExpDate | ccReg_domain_admin_add | ccReg_domain_admin_rem | ccReg_keyset_handle
  | ccReg_keyset_tech | ccReg_keyset_dsrecord | ccReg_keyset_dsrecord_add | ccReg_keyset_dsrecord_rem
  | ccReg_keyset_tech_add | ccReg_keyset_tech_rem | ccReg_registrar_autor | ccReg_keyset_dnskey
  | ccReg_keyset_dnskey_add | ccReg_keyset_dnskey_rem

primrec wrap_param_error :: "Param \<Rightarrow> ParamError" where
  "wrap_param_error Param_poll_msg_id = ccReg_poll_msgID"
| "wrap_param_error Param_contact_handle = ccReg_contact_handle"
| "wrap_param_error Param_contact_cc = ccReg_contact_cc"
| "wrap_param_error Param_nsset_handle = ccReg_nsset_handle"
| "wrap_param_error Param_nsset_tech = ccReg_nsset_tech"
| "wrap_param_error Param_nsset_dns_name = ccReg_nsset_dns_name"
| "wrap_param_error Param_nsset_dns_addr = ccReg_nsset_dns_addr"
| "wrap_param_error Param_nsset_dns_name_add = ccReg_nsset_dns_name_add"
| "wrap_param_error Param_nsset_dns_name_rem = ccReg_nsset_dns_name_rem"
| "wrap_param_error Param_nsset_tech_add = ccReg_nsset_tech_add"
| "wrap_param_error Param_nsset_tech_rem = ccReg_nsset_tech_rem"
| "wrap_param_error Param_domain_fqdn = ccReg_domain_fqdn"
| "wrap_param_error Param_domain_registrant = ccReg_domain_registrant"
| "wrap_param_error Param_domain_nsset = ccReg_domain_nsset"
| "wrap_param_error Param_domain_keyset = ccReg_domain_keyset"
| "wrap_param_error Param_domain_period = ccReg_domain_period"
| "wrap_param_error Param_domain_admin = ccReg_domain_admin"
| "wrap_param_error Param_domain_tmpcontact = ccReg_domain_tmpcontact"
| "wrap_param_error Param_domain_ext_val_date = ccReg_domain_ext_valDate"
| "wrap_param_error Param_domain_ext_val_date_missing = ccReg_domain_ext_valDate_missing"
| "wrap_param_error Param_domain_cur_exp_date = ccReg_domain_curExpDate"
| "wrap_param_error Param_domain_admin_add = ccReg_domain_admin_add"
| "wrap_param_error Param_domain_admin_rem = ccReg_domain_admin_rem"
| "wrap_param_error Param_keyset_handle = ccReg_keyset_handle"
| "wrap_param_error Param_keyset_tech = ccReg_keyset_tech"
| "wrap_param_error Param_keyset_dsrecord = ccReg_keyset_dsrecord"
| "wrap_param_error Param_keyset_dsrecord_add = ccReg_keyset_dsrecord_add"
| "wrap_param_error Param_keyset_dsrecord_rem = ccReg_keyset_dsrecord_rem"
| "wrap_param_error Param_keyset_tech_add = ccReg_keyset_tech_add"
| "wrap_param_error Param_keyset_tech_rem = ccReg_keyset_tech_rem"
| "wrap_param_error Param_registrar_autor = ccReg_registrar_autor"
| "wrap_param_error Param_keyset_dnskey = ccReg_keyset_dnskey"
| "wrap_param_error Param_keyset_dnskey_add = ccReg_keyset_dnskey_add"
| "wrap_param_error Param_keyset_dnskey_rem = ccReg_keyset_dnskey_rem"

lemma wrap_param_error_inject: "wrap_param_error p = wrap_param_error q \<longleftrightarrow> p = q"
  by (cases p; cases q) simp_all

record CorbaError =
  error_code :: ParamError
  error_position :: nat
  error_reason :: string

record EppError =
  errCode :: nat
  errMsg :: string
  svTRID :: string
  errorList :: "CorbaError list"

fun wrap_extended_errors :: "('x) corba_scheme \<Rightarrow> EppExtendedErrorLocalized list \<Rightarrow> exn + CorbaError list" where
  "wrap_extended_errors C [] = Inr []"
| "wrap_extended_errors C (e # es) =
     (case wrap_int (greatest_position C) (unat (err_position (localized_error e))) of
        Inl x \<Rightarrow> Inl x
      | Inr position \<Rightarrow>
          (case wrap_extended_errors C es of
             Inl x \<Rightarrow> Inl x
           | Inr rest \<Rightarrow> Inr
               (\<lparr>error_code = wrap_param_error (err_param (localized_error e)), error_position = position,
                 error_reason = wrap_string_to_corba_string (reason_description e)\<rparr> # rest)))"

text \<open>
  The errors are a \<^verbatim>\<open>std::set\<close>, visited in the order of parameter, position and reason.
\<close>

definition errors_in_order :: "EppExtendedErrorLocalized set \<Rightarrow> EppExtendedErrorLocalized list" where
  "errors_in_order errors =
     map (\<lambda>(e, d). \<lparr>localized_error = e, reason_description = d\<rparr>)
       (sorted_list_of_set ((\<lambda>e. (localized_error e, reason_description e)) ` errors))"

definition wrap_Epp_EppResponseFailureLocalized ::
  "('x) corba_scheme \<Rightarrow> EppResponseFailureLocalized \<Rightarrow> string \<Rightarrow> exn + EppError" where
  "wrap_Epp_EppResponseFailureLocalized C response svtrid =
     (case response of
        [] \<Rightarrow> Inl (StdException ''front of an empty vector'')
      | result # _ \<Rightarrow>
          (case wrap_int (greatest_code C) (failure_value (epp_result_code (localized_result result))) of
             Inl e \<Rightarrow> Inl e
           | Inr code \<Rightarrow>
               (case (case localized_extended_errors result of
                        None \<Rightarrow> Inr []
                      | Some errors \<Rightarrow> wrap_extended_errors C (errors_in_order errors)) of
                  Inl e \<Rightarrow> Inl e
                | Inr errors \<Rightarrow> Inr
                    \<lparr>errCode = code,
                     errMsg = wrap_string_to_corba_string (failure_description result),
                     svTRID = wrap_string_to_corba_string svtrid,
                     errorList = errors\<rparr>)))"

section \<open>States of objects\<close>

record CorbaStatus =
  status_value :: string
  status_text :: string

text \<open>The descriptions are a \<^verbatim>\<open>std::map\<close> with the order of the enumerators.\<close>

definition wrap_Epp_ObjectStatesLocalized ::
  "'v list \<Rightarrow> ('v \<Rightarrow> string) \<Rightarrow> 'v ObjectStatesLocalized \<Rightarrow> CorbaStatus list" where
  "wrap_Epp_ObjectStatesLocalized enumerators to_name src =
     (let present = filter (\<lambda>v. descriptions src v \<noteq> None) enumerators in
      if present = []
      then [\<lparr>status_value = ''ok'',
             status_text = wrap_string_to_corba_string (success_state_localized_description src)\<rparr>]
      else map (\<lambda>v. \<lparr>status_value = to_name v,
                     status_text = wrap_string_to_corba_string (the (descriptions src v))\<rparr>) present)"

definition wrap_optional_string :: "string option \<Rightarrow> string" where
  "wrap_optional_string src = wrap_string_to_corba_string (case src of None \<Rightarrow> [] | Some s \<Rightarrow> s)"

definition wrap_optional_ptime_to_string :: "('x) corba_scheme \<Rightarrow> ptime option \<Rightarrow> string" where
  "wrap_optional_ptime_to_string C src =
     (case src of None \<Rightarrow> [] | Some t \<Rightarrow> wrap_string_to_corba_string (convert_time_to_local_rfc3339 C t))"

section \<open>Answers of the availability checks\<close>

datatype CheckAvail = NotExist | Exist | BadFormat | DelPeriod | BlackList | NotApplicable

record CheckAnswer =
  avail :: CheckAvail
  reason :: string

text \<open>
  The answers in the order of the question; \<^verbatim>\<open>map_at\<close> throws when the map has no entry. The loop is
  the same for all kinds of objects.
\<close>

fun wrap_check_info ::
  "(('o \<times> string) option \<Rightarrow> CheckAvail) \<Rightarrow> string list \<Rightarrow> (string \<times> ('o \<times> string) option) list \<Rightarrow>
     exn + CheckAnswer list" where
  "wrap_check_info wrap_result [] results = Inr []"
| "wrap_check_info wrap_result (h # hs) results =
     (case map_find string_less h results of
        None \<Rightarrow> Inl (StdException ''map::at'')
      | Some check_result \<Rightarrow>
          (case wrap_check_info wrap_result hs results of
             Inl e \<Rightarrow> Inl e
           | Inr answers \<Rightarrow> Inr
               (\<lparr>avail = wrap_result check_result,
                 reason = wrap_string_to_corba_string (case check_result of None \<Rightarrow> [] | Some (_, d) \<Rightarrow> d)\<rparr>
                # answers)))"

section \<open>The frame of a method\<close>

text \<open>The state of the server: the open sessions, and the world with the database.\<close>

type_synonym 'db server = "EppSessionContainer \<times> 'db"

datatype servant_exception =
    FailureThrown EppResponseFailureLocalized
  | EppErrorThrown EppError
  | NoMessagesThrown nat string string
  | SessionThrown session_error
  | OtherThrown exn

definition on_db :: "('db, thrown, 'a) op \<Rightarrow> ('db server, servant_exception, 'a) op" where
  "on_db m = (\<lambda>(c, db).
     case m db of
       (Inl (FailureLocalized f), db') \<Rightarrow> (Inl (FailureThrown f), c, db')
     | (Inl (Escaped e), db') \<Rightarrow> (Inl (OtherThrown e), c, db')
     | (Inr x, db') \<Rightarrow> (Inr x, c, db'))"

definition on_sessions :: "('db server, session_error, 'a) op \<Rightarrow> ('db server, servant_exception, 'a) op" where
  "on_sessions m = (\<lambda>s. case m s of (Inl e, s') \<Rightarrow> (Inl (SessionThrown e), s') | (Inr x, s') \<Rightarrow> (Inr x, s'))"

definition converted :: "exn + 'a \<Rightarrow> ('db server, servant_exception, 'a) op" where
  "converted r = (case r of Inl e \<Rightarrow> throwE (OtherThrown e) | Inr x \<Rightarrow> returnE x)"

text \<open>
  \<^verbatim>\<open>Epp::SessionData session_data(..., epp_request_params.log_request_id.get_value_or(0))\<close>: the
  number of the request log is present even when the request has none. The commands that send
  authorization information are given the optional number itself.
\<close>

definition session_data_with ::
  "('db, 'x) outside_scheme \<Rightarrow> RequestParams \<Rightarrow> string \<Rightarrow> u64 option \<Rightarrow>
     ('db server, servant_exception, SessionData) op" where
  "session_data_with E p svtrid log_id =
     bindE (on_sessions (get_registrar_session_data E (session_id p))) (\<lambda>d.
     returnE \<lparr>registrar_id = session_registrar_id d, lang = session_language d,
              server_transaction_handle = svtrid, logd_request_id = log_id\<rparr>)"

definition session_data ::
  "('db, 'x) outside_scheme \<Rightarrow> RequestParams \<Rightarrow> string \<Rightarrow> ('db server, servant_exception, SessionData) op" where
  "session_data E p svtrid =
     session_data_with E p svtrid (Some (case log_request_id p of Some n \<Rightarrow> n | None \<Rightarrow> 0))"

text \<open>The conversion of the parameters, the \<^verbatim>\<open>try\<close> block and its handler.\<close>

definition epp_request ::
  "('x) corba_scheme \<Rightarrow> EppParams \<Rightarrow> (RequestParams \<Rightarrow> string \<Rightarrow> ('db server, servant_exception, 'a) op) \<Rightarrow>
     ('db server, servant_exception, 'a) op" where
  "epp_request C params body =
     (let p = unwrap_EppParams params; svtrid = get_server_transaction_handle C p in
      catchE (body p svtrid) (\<lambda>e.
        case e of
          FailureThrown f \<Rightarrow>
            bindE (converted (wrap_Epp_EppResponseFailureLocalized C f svtrid))
              (\<lambda>err. throwE (EppErrorThrown err))
        | _ \<Rightarrow> throwE e))"

text \<open>The fields of the servant the methods hand over to the commands.\<close>

record servant =
  servant_operations_charging :: bool
  disable_epp_notifier :: bool
  disable_epp_notifier_cltrid_prefix :: string

definition notification_data :: "('x) servant_scheme \<Rightarrow> RequestParams \<Rightarrow> NotificationData" where
  "notification_data S p =
     \<lparr>client_transaction_handle = client_transaction_id p,
      epp_notification_disabled = disable_epp_notifier S,
      dont_notify_client_transaction_handles_with_this_prefix = disable_epp_notifier_cltrid_prefix S\<rparr>"

end
