(* ===== verification/Corba_Contact.thy ===== *)
theory Corba_Contact
  imports Corba_Base Contact_Hooks Contact_Localized
begin

text \<open>
  The methods of the servant on contacts (\<^verbatim>\<open>epp_impl.cc\<close>) and the conversions of their data
  (\<^verbatim>\<open>contact/contact_corba_conversions.cc\<close>).
\<close>

section \<open>The data of the interface\<close>

datatype CorbaPrivacyPolicy = public_data | private_data | unused_privacy_policy

datatype identtyp = identtyp_EMPTY | identtyp_OP | identtyp_PASS | identtyp_ICO | identtyp_MPSV | identtyp_BIRTHDAY

record 'a CorbaFlags =
  flag_Name :: 'a
  flag_Organization :: 'a
  flag_Address :: 'a
  flag_Telephone :: 'a
  flag_Fax :: 'a
  flag_Email :: 'a
  flag_VAT :: 'a
  flag_Ident :: 'a
  flag_NotifyEmail :: 'a

type_synonym ControlledPrivacyData = "CorbaPrivacyPolicy CorbaFlags"

record CorbaAddress =
  Street1 :: string
  Street2 :: string
  Street3 :: string
  City :: string
  StateOrProvince :: string
  PostalCode :: string
  CountryCode :: string

datatype AddressAction = Address_set | Address_remove | Address_no_change

record CorbaContactChange =
  chg_Name :: string
  chg_Organization :: string
  chg_Streets :: "string list"
  chg_City :: string
  chg_StateOrProvince :: string
  chg_PostalCode :: string
  chg_CC :: string
  chg_MailingAddress :: "AddressAction \<times> CorbaAddress"
  chg_Telephone :: string
  chg_Fax :: string
  chg_Email :: string
  chg_NotifyEmail :: string
  chg_VAT :: string
  chg_identtype :: identtyp
  chg_identvalue :: string
  chg_AuthInfoPw :: string
  chg_DiscloseFlags :: "bool \<times> ControlledPrivacyData"

record CorbaContactData =
  new_Name :: string
  new_Organization :: string
  new_Streets :: "string list"
  new_City :: string
  new_StateOrProvince :: string
  new_PostalCode :: string
  new_CC :: string
  new_MailingAddress :: "bool \<times> CorbaAddress"
  new_Telephone :: string
  new_Fax :: string
  new_Email :: string
  new_NotifyEmail :: string
  new_VAT :: string
  new_identtype :: identtyp
  new_identvalue :: string
  new_DiscloseFlags :: ControlledPrivacyData

section \<open>The change of a contact\<close>

definition does_contact_change_string_mean_to_delete :: "string \<Rightarrow> bool" where
  "does_contact_change_string_mean_to_delete s \<longleftrightarrow> s \<noteq> [] \<and> hd s = CHR 0x08"

text \<open>\<^verbatim>\<open>value[0] == '\0'\<close>\<close>

definition does_contact_change_string_mean_not_to_touch :: "string \<Rightarrow> bool" where
  "does_contact_change_string_mean_not_to_touch s \<longleftrightarrow> s = []"

definition does_contact_create_string_mean_not_to_present :: "string \<Rightarrow> bool" where
  "does_contact_create_string_mean_not_to_present s \<longleftrightarrow> s = []"

definition make_deletable_string :: "string \<Rightarrow> string UpdateOperation" where
  "make_deletable_string src =
     (if does_contact_change_string_mean_to_delete src then Op_delete_value
      else if does_contact_change_string_mean_not_to_touch src then Op_no_operation
      else let value_to_set = src in
        if value_to_set = [] then Op_no_operation else Op_set_value value_to_set)"

definition make_updateable_string :: "string \<Rightarrow> string UpdateOperation" where
  "make_updateable_string src =
     (if does_contact_change_string_mean_not_to_touch src then Op_no_operation
      else let value_to_set = src in
        if value_to_set = [] then Op_no_operation else Op_set_value value_to_set)"

text \<open>The operation is one of three here, so the comparison cannot throw.\<close>

definition is_no_operation :: "'a UpdateOperation \<Rightarrow> bool" where
  "is_no_operation operation \<longleftrightarrow> (case operation of Op_no_operation \<Rightarrow> True | _ \<Rightarrow> False)"

definition make_contact_change_main_address ::
  "string list \<Rightarrow> string \<Rightarrow> string \<Rightarrow> string \<Rightarrow> string \<Rightarrow> string UpdateOperation Address" where
  "make_contact_change_main_address streets c state postal cc =
     (let city_op = make_deletable_string c;
          state_op = make_deletable_string state;
          postal_op = make_deletable_string postal;
          country_op = make_updateable_string cc;
          rows =
            (if 0 < length streets
             then (let row = (\<lambda>idx. if idx < length streets then Op_set_value (streets ! idx) else Op_no_operation)
                   in Rows (row 0) (row 1) (row 2))
             else if \<not> (is_no_operation city_op \<and> is_no_operation state_op \<and>
                        is_no_operation postal_op \<and> is_no_operation country_op)
             then Rows Op_delete_value Op_delete_value Op_delete_value
             else Rows Op_no_operation Op_no_operation Op_no_operation)
      in \<lparr>street = rows, city = city_op, state_or_province = state_op, postal_code = postal_op,
          country_code = country_op\<rparr>)"

definition unwrap_contact_create_string :: "string \<Rightarrow> string option" where
  "unwrap_contact_create_string src =
     (if does_contact_create_string_mean_not_to_present src then None else Some src)"

text \<open>The addresses of changes and of creations are structures with the same members.\<close>

definition unwrap_contact_address :: "CorbaAddress \<Rightarrow> string option Address" where
  "unwrap_contact_address src =
     \<lparr>street = Rows (unwrap_contact_create_string (Street1 src)) (unwrap_contact_create_string (Street2 src))
                (unwrap_contact_create_string (Street3 src)),
      city = unwrap_contact_create_string (City src),
      state_or_province = unwrap_contact_create_string (StateOrProvince src),
      postal_code = unwrap_contact_create_string (PostalCode src),
      country_code = unwrap_contact_create_string (CountryCode src)\<rparr>"

definition make_deletable_contact_change_address ::
  "AddressAction \<times> CorbaAddress \<Rightarrow> string option Address UpdateOperation" where
  "make_deletable_contact_change_address src =
     (case fst src of
        Address_set \<Rightarrow> Op_set_value (unwrap_contact_address (snd src))
      | Address_remove \<Rightarrow> Op_delete_value
      | Address_no_change \<Rightarrow> Op_no_operation)"

definition make_deletable_contact_ident :: "identtyp \<Rightarrow> string \<Rightarrow> ContactIdent UpdateOperation" where
  "make_deletable_contact_ident ident_type ident_value =
     (if does_contact_change_string_mean_to_delete ident_value then Op_delete_value
      else if does_contact_change_string_mean_not_to_touch ident_value
      then (if ident_type \<noteq> identtyp_EMPTY then Op_not_specified else Op_no_operation)
      else
        (case ident_type of
           identtyp_EMPTY \<Rightarrow> Op_not_specified
         | identtyp_OP \<Rightarrow> Op_set_value (Ident_Op ident_value)
         | identtyp_PASS \<Rightarrow> Op_set_value (Ident_Pass ident_value)
         | identtyp_ICO \<Rightarrow> Op_set_value (Ident_Ico ident_value)
         | identtyp_MPSV \<Rightarrow> Op_set_value (Ident_Mpsv ident_value)
         | identtyp_BIRTHDAY \<Rightarrow> Op_set_value (Ident_Birthday ident_value)))"

primrec unwrap_privacy_policy :: "CorbaPrivacyPolicy \<Rightarrow> PrivacyPolicy option" where
  "unwrap_privacy_policy public_data = Some Privacy_show"
| "unwrap_privacy_policy private_data = Some Privacy_hide"
| "unwrap_privacy_policy unused_privacy_policy = None"

definition make_publishability :: "ControlledPrivacyData \<Rightarrow> Publishability" where
  "make_publishability flags =
     \<lparr>pub_name = unwrap_privacy_policy (flag_Name flags),
      pub_organization = unwrap_privacy_policy (flag_Organization flags),
      pub_address = unwrap_privacy_policy (flag_Address flags),
      pub_telephone = unwrap_privacy_policy (flag_Telephone flags),
      pub_fax = unwrap_privacy_policy (flag_Fax flags),
      pub_email = unwrap_privacy_policy (flag_Email flags),
      pub_notify_email = unwrap_privacy_policy (flag_NotifyEmail flags),
      pub_vat = unwrap_privacy_policy (flag_VAT flags),
      pub_ident = unwrap_privacy_policy (flag_Ident flags)\<rparr>"

definition make_updateable_publishability :: "bool \<times> ControlledPrivacyData \<Rightarrow> Publishability UpdateOperation" where
  "make_updateable_publishability flags_change =
     (if fst flags_change then Op_set_value (make_publishability (snd flags_change)) else Op_no_operation)"

definition unwrap_ContactChange :: "CorbaContactChange \<Rightarrow> ContactChange" where
  "unwrap_ContactChange src =
     \<lparr>chg_name = make_deletable_string (chg_Name src),
      chg_organization = make_deletable_string (chg_Organization src),
      chg_address = make_contact_change_main_address (chg_Streets src) (chg_City src) (chg_StateOrProvince src)
                      (chg_PostalCode src) (chg_CC src),
      chg_mailing_address = make_deletable_contact_change_address (chg_MailingAddress src),
      chg_telephone = make_deletable_string (chg_Telephone src),
      chg_fax = make_deletable_string (chg_Fax src),
      chg_email = make_deletable_string (chg_Email src),
      chg_notify_email = make_deletable_string (chg_NotifyEmail src),
      chg_vat = make_deletable_string (chg_VAT src),
      chg_ident = make_deletable_contact_ident (chg_identtype src) (chg_identvalue src),
      chg_authinfopw = make_deletable_string (chg_AuthInfoPw src),
      chg_disclose = make_updateable_publishability (chg_DiscloseFlags src)\<rparr>"

section \<open>The data of a new contact\<close>

definition make_hideable :: "'a \<Rightarrow> CorbaPrivacyPolicy \<Rightarrow> 'a Hideable" where
  "make_hideable v policy =
     (case policy of
        public_data \<Rightarrow> make_public_data v
      | private_data \<Rightarrow> make_private_data v
      | unused_privacy_policy \<Rightarrow> make_data_with_unspecified_privacy v)"

definition make_hideable_optional_string :: "string \<Rightarrow> CorbaPrivacyPolicy \<Rightarrow> string option Hideable" where
  "make_hideable_optional_string v policy =
     make_hideable (if does_contact_create_string_mean_not_to_present v then None else Some v) policy"

definition make_hideable_optional_contact_data_address ::
  "string list \<Rightarrow> string \<Rightarrow> string \<Rightarrow> string \<Rightarrow> string \<Rightarrow> CorbaPrivacyPolicy \<Rightarrow>
     string option Address option Hideable" where
  "make_hideable_optional_contact_data_address streets c state postal cc policy =
     (let row = (\<lambda>idx. if idx < length streets then unwrap_contact_create_string (streets ! idx) else None);
          v = \<lparr>street = Rows (row 0) (row 1) (row 2), city = unwrap_contact_create_string c,
               state_or_province = unwrap_contact_create_string state,
               postal_code = unwrap_contact_create_string postal,
               country_code = unwrap_contact_create_string cc\<rparr>;
          address_is_set = (row0 (street v) \<noteq> None \<or> row1 (street v) \<noteq> None \<or> row2 (street v) \<noteq> None \<or>
            city v \<noteq> None \<or> state_or_province v \<noteq> None \<or> postal_code v \<noteq> None \<or> country_code v \<noteq> None)
      in make_hideable (if address_is_set then Some v else None) policy)"

definition unwrap_optional_contact_data_address :: "bool \<times> CorbaAddress \<Rightarrow> string option Address option" where
  "unwrap_optional_contact_data_address src =
     (if fst src then Some (unwrap_contact_address (snd src)) else None)"

definition make_optional_contact_ident :: "identtyp \<Rightarrow> string \<Rightarrow> ContactIdent option" where
  "make_optional_contact_ident ident_type ident_value =
     (case ident_type of
        identtyp_EMPTY \<Rightarrow> None
      | identtyp_OP \<Rightarrow> Some (Ident_Op ident_value)
      | identtyp_PASS \<Rightarrow> Some (Ident_Pass ident_value)
      | identtyp_ICO \<Rightarrow> Some (Ident_Ico ident_value)
      | identtyp_MPSV \<Rightarrow> Some (Ident_Mpsv ident_value)
      | identtyp_BIRTHDAY \<Rightarrow> Some (Ident_Birthday ident_value))"

definition make_hideable_optional_contact_ident ::
  "identtyp \<Rightarrow> string \<Rightarrow> CorbaPrivacyPolicy \<Rightarrow> ContactIdent option Hideable" where
  "make_hideable_optional_contact_ident ident_type ident_value policy =
     make_hideable (make_optional_contact_ident ident_type ident_value) policy"

definition unwrap_ContactData :: "CorbaContactData \<Rightarrow> ContactData" where
  "unwrap_ContactData src =
     \<lparr>data_name = make_hideable_optional_string (new_Name src) (flag_Name (new_DiscloseFlags src)),
      data_organization =
        make_hideable_optional_string (new_Organization src) (flag_Organization (new_DiscloseFlags src)),
      data_address = make_hideable_optional_contact_data_address (new_Streets src) (new_City src)
        (new_StateOrProvince src) (new_PostalCode src) (new_CC src) (flag_Address (new_DiscloseFlags src)),
      data_mailing_address = unwrap_optional_contact_data_address (new_MailingAddress src),
      data_telephone = make_hideable_optional_string (new_Telephone src) (flag_Telephone (new_DiscloseFlags src)),
      data_fax = make_hideable_optional_string (new_Fax src) (flag_Fax (new_DiscloseFlags src)),
      data_email = make_hideable_optional_string (new_Email src) (flag_Email (new_DiscloseFlags src)),
      data_notify_email =
        make_hideable_optional_string (new_NotifyEmail src) (flag_NotifyEmail (new_DiscloseFlags src)),
      data_vat = make_hideable_optional_string (new_VAT src) (flag_VAT (new_DiscloseFlags src)),
      data_ident = make_hideable_optional_contact_ident (new_identtype src) (new_identvalue src)
        (flag_Ident (new_DiscloseFlags src))\<rparr>"

section \<open>What is answered\<close>

definition wrap_contact_handle_check_result ::
  "(ContactHandleRegistrationObstruction \<times> string) option \<Rightarrow> CheckAvail" where
  "wrap_contact_handle_check_result obstruction =
     (case obstruction of
        None \<Rightarrow> NotExist
      | Some (Contact_invalid_handle, _) \<Rightarrow> BadFormat
      | Some (Contact_protected_handle, _) \<Rightarrow> DelPeriod
      | Some (Contact_registered_handle, _) \<Rightarrow> Exist)"

definition wrap_ident :: "ContactIdent option \<Rightarrow> identtyp \<times> string" where
  "wrap_ident src =
     (case src of
        None \<Rightarrow> (identtyp_EMPTY, [])
      | Some (Ident_Op v) \<Rightarrow> (identtyp_OP, wrap_string_to_corba_string v)
      | Some (Ident_Pass v) \<Rightarrow> (identtyp_PASS, wrap_string_to_corba_string v)
      | Some (Ident_Ico v) \<Rightarrow> (identtyp_ICO, wrap_string_to_corba_string v)
      | Some (Ident_Mpsv v) \<Rightarrow> (identtyp_MPSV, wrap_string_to_corba_string v)
      | Some (Ident_Birthday v) \<Rightarrow> (identtyp_BIRTHDAY, wrap_string_to_corba_string v))"

definition wrap_OptionalAddressData :: "string option Address option \<Rightarrow> CorbaAddress option" where
  "wrap_OptionalAddressData src =
     (case src of
        None \<Rightarrow> None
      | Some a \<Rightarrow> Some
          \<lparr>Street1 = wrap_optional_string (row0 (street a)), Street2 = wrap_optional_string (row1 (street a)),
           Street3 = wrap_optional_string (row2 (street a)), City = wrap_optional_string (city a),
           StateOrProvince = wrap_optional_string (state_or_province a),
           PostalCode = wrap_optional_string (postal_code a), CountryCode = wrap_optional_string (country_code a)\<rparr>)"

definition wrap_privacy_policy :: "'a Hideable \<Rightarrow> exn + CorbaPrivacyPolicy" where
  "wrap_privacy_policy src =
     (if \<not> is_publishability_specified src then Inr unused_privacy_policy
      else if hideable_is_public src then Inr public_data
      else if hideable_is_private src then Inr private_data
      else Inl (StdException ''unexpected PrivacyPolicy value''))"

text \<open>The number of rows of the street that are sent: up to the last one that is not empty.\<close>

definition does_present :: "string option \<Rightarrow> bool" where
  "does_present v \<longleftrightarrow> v \<noteq> None \<and> v \<noteq> Some []"

definition number_of_streets :: "string option Rows \<Rightarrow> nat" where
  "number_of_streets s =
     (if does_present (row2 s) then 3
      else if does_present (row1 s) then 2
      else if does_present (row0 s) then 1 else 0)"

definition wrap_streets :: "string option Rows \<Rightarrow> string list" where
  "wrap_streets s = take (number_of_streets s)
     [wrap_optional_string (row0 s), wrap_optional_string (row1 s), wrap_optional_string (row2 s)]"

primrec contact_status_name :: "ContactStatusValue \<Rightarrow> string" where
  "contact_status_name ContactStatus_conditionally_identified_contact = ''conditionallyIdentifiedContact''"
| "contact_status_name ContactStatus_delete_candidate = ''deleteCandidate''"
| "contact_status_name ContactStatus_identified_contact = ''identifiedContact''"
| "contact_status_name ContactStatus_linked = ''linked''"
| "contact_status_name ContactStatus_mojeid_contact = ''mojeidContact''"
| "contact_status_name ContactStatus_server_delete_prohibited = ''serverDeleteProhibited''"
| "contact_status_name ContactStatus_server_transfer_prohibited = ''serverTransferProhibited''"
| "contact_status_name ContactStatus_server_update_prohibited = ''serverUpdateProhibited''"
| "contact_status_name ContactStatus_validated_contact = ''validatedContact''"
| "contact_status_name ContactStatus_server_contact_name_change_prohibited =
     ''serverContactNameChangeProhibited''"
| "contact_status_name ContactStatus_server_contact_organization_change_prohibited =
     ''serverContactOrganizationChangeProhibited''"
| "contact_status_name ContactStatus_server_contact_ident_change_prohibited =
     ''serverContactIdentChangeProhibited''"
| "contact_status_name ContactStatus_server_contact_permanent_address_change_prohibited =
     ''serverContactPermanentAddressChangeProhibited''"

record CorbaContact =
  info_handle :: string
  info_ROID :: string
  info_ClID :: string
  info_CrID :: string
  info_UpID :: string
  info_stat :: "CorbaStatus list"
  info_CrDate :: string
  info_UpDate :: string
  info_TrDate :: string
  info_Name :: string
  info_Organization :: string
  info_Streets :: "string list"
  info_City :: string
  info_StateOrProvince :: string
  info_PostalCode :: string
  info_CountryCode :: string
  info_MailingAddress :: "CorbaAddress option"
  info_Telephone :: string
  info_Fax :: string
  info_Email :: string
  info_NotifyEmail :: string
  info_VAT :: string
  info_identtype :: identtyp
  info_ident :: string
  info_AuthInfoPw :: string
  info_DiscloseFlags :: ControlledPrivacyData

definition wrap_disclose_flags :: "InfoContactLocalizedOutputData \<Rightarrow> exn + ControlledPrivacyData" where
  "wrap_disclose_flags src =
     (case (wrap_privacy_policy (lcon_name src), wrap_privacy_policy (lcon_organization src),
            wrap_privacy_policy (lcon_address src), wrap_privacy_policy (lcon_telephone src),
            wrap_privacy_policy (lcon_fax src), wrap_privacy_policy (lcon_email src),
            wrap_privacy_policy (lcon_vat src), wrap_privacy_policy (lcon_ident src),
            wrap_privacy_policy (lcon_notify_email src)) of
        (Inr n, Inr org, Inr a, Inr t, Inr f, Inr e, Inr v, Inr i, Inr ne) \<Rightarrow> Inr
          \<lparr>flag_Name = n, flag_Organization = org, flag_Address = a, flag_Telephone = t, flag_Fax = f,
           flag_Email = e, flag_VAT = v, flag_Ident = i, flag_NotifyEmail = ne\<rparr>
      | _ \<Rightarrow> Inl (StdException ''unexpected PrivacyPolicy value''))"

definition wrap_InfoContactLocalizedOutputData ::
  "('x) corba_scheme \<Rightarrow> InfoContactLocalizedOutputData \<Rightarrow> exn + CorbaContact" where
  "wrap_InfoContactLocalizedOutputData C src =
     (case wrap_disclose_flags src of
        Inl e \<Rightarrow> Inl e
      | Inr flags \<Rightarrow>
          (let a = hideable_value (lcon_address src) in Inr
           \<lparr>info_handle = wrap_string_to_corba_string (lcon_handle src),
            info_ROID = wrap_string_to_corba_string (lcon_roid src),
            info_ClID = wrap_string_to_corba_string (lcon_sponsoring_registrar_handle src),
            info_CrID = wrap_string_to_corba_string (lcon_creating_registrar_handle src),
            info_UpID = wrap_optional_string (lcon_last_update_registrar_handle src),
            info_stat = wrap_Epp_ObjectStatesLocalized contact_status_values contact_status_name
                          (lcon_localized_external_states src),
            info_CrDate = wrap_string_to_corba_string (convert_time_to_local_rfc3339 C (lcon_crdate src)),
            info_UpDate = wrap_optional_ptime_to_string C (lcon_last_update src),
            info_TrDate = wrap_optional_ptime_to_string C (lcon_last_transfer src),
            info_Name = wrap_optional_string (hideable_value (lcon_name src)),
            info_Organization = wrap_optional_string (hideable_value (lcon_organization src)),
            info_Streets = wrap_streets (street a),
            info_City = wrap_optional_string (city a),
            info_StateOrProvince = wrap_optional_string (state_or_province a),
            info_PostalCode = wrap_optional_string (postal_code a),
            info_CountryCode = wrap_optional_string (country_code a),
            info_MailingAddress = wrap_OptionalAddressData (lcon_mailing_address src),
            info_Telephone = wrap_optional_string (hideable_value (lcon_telephone src)),
            info_Fax = wrap_optional_string (hideable_value (lcon_fax src)),
            info_Email = wrap_optional_string (hideable_value (lcon_email src)),
            info_NotifyEmail = wrap_optional_string (hideable_value (lcon_notify_email src)),
            info_VAT = wrap_optional_string (hideable_value (lcon_vat src)),
            info_identtype = fst (wrap_ident (hideable_value (lcon_ident src))),
            info_ident = snd (wrap_ident (hideable_value (lcon_ident src))),
            info_AuthInfoPw = [],
            info_DiscloseFlags = flags\<rparr>))"

section \<open>The methods\<close>

text \<open>What the methods on contacts need besides: the filters and the policy of the configuration.\<close>

record 'db contact_servant = servant +
  rifd_epp_create_contact_data_filter :: "'db create_contact_filter"
  rifd_epp_update_contact_data_filter :: "'db update_contact_filter"
  epp_update_contact_enqueue_check :: bool
  rifd_epp_contact_data_share_policy_rules :: Relationships

definition ContactCheck ::
  "('c) corba_scheme \<Rightarrow> ('db, 'e) outside_scheme \<Rightarrow> ('db, 'x) libfred_contact_scheme \<Rightarrow>
     ('db, 'y) database_scheme \<Rightarrow> cstring list \<Rightarrow> EppParams \<Rightarrow>
     ('db server, servant_exception, Response \<times> CheckAnswer list) op" where
  "ContactCheck C E L D handles params = epp_request C params (\<lambda>p svtrid.
     bindE (converted (unwrap_handle_sequence_to_string_vector handles)) (\<lambda>handles_to_be_checked.
     bindE (session_data E p svtrid) (\<lambda>session.
     bindE (on_db (check_contact_localized L D
              (fold (set_insert string_less) handles_to_be_checked []) session)) (\<lambda>(response, statuses).
     bindE (converted (wrap_check_info wrap_contact_handle_check_result handles_to_be_checked statuses))
       (\<lambda>check_results.
     bindE (converted (wrap_Epp_EppResponseSuccessLocalized C response svtrid)) (\<lambda>return_value.
     returnE (return_value, check_results)))))))"

definition ContactInfo ::
  "('c) corba_scheme \<Rightarrow> ('db, 'e) outside_scheme \<Rightarrow> ('db, 'x) libfred_contact_scheme \<Rightarrow>
     ('db, 'y) database_scheme \<Rightarrow> ('db, 's) contact_servant_scheme \<Rightarrow> cstring \<Rightarrow> cstring \<Rightarrow> EppParams \<Rightarrow>
     ('db server, servant_exception, Response \<times> CorbaContact) op" where
  "ContactInfo C E L D S h authinfopw params = epp_request C params (\<lambda>p svtrid.
     bindE (session_data E p svtrid) (\<lambda>session.
     bindE (on_db (info_contact_localized L D (unwrap_string h) (rifd_epp_contact_data_share_policy_rules S)
              (Password (unwrap_string authinfopw)) session)) (\<lambda>(response, data).
     bindE (converted (wrap_InfoContactLocalizedOutputData C data)) (\<lambda>contact_info.
     bindE (converted (wrap_Epp_EppResponseSuccessLocalized C response svtrid)) (\<lambda>return_value.
     returnE (return_value, contact_info))))))"

definition ContactDelete ::
  "('c) corba_scheme \<Rightarrow> ('db, 'e) outside_scheme \<Rightarrow> ('db, 'x) libfred_contact_scheme \<Rightarrow>
     ('db, 'y) database_scheme \<Rightarrow> ('s) servant_scheme \<Rightarrow> cstring \<Rightarrow> EppParams \<Rightarrow>
     ('db server, servant_exception, Response) op" where
  "ContactDelete C E L D S h params = epp_request C params (\<lambda>p svtrid.
     bindE (session_data E p svtrid) (\<lambda>session.
     bindE (converted (unwrap_string_from_const_char_ptr h)) (\<lambda>handle.
     bindE (on_db (delete_contact_localized L D handle session (notification_data S p))) (\<lambda>response.
     converted (wrap_Epp_EppResponseSuccessLocalized C response svtrid)))))"

definition ContactUpdate ::
  "('c) corba_scheme \<Rightarrow> ('db, 'e) outside_scheme \<Rightarrow> ('db, 'x) libfred_contact_update_scheme \<Rightarrow>
     ('db, 'y) database_scheme \<Rightarrow> ('db, 's) contact_servant_scheme \<Rightarrow> cstring \<Rightarrow> CorbaContactChange \<Rightarrow>
     EppParams \<Rightarrow> ('db server, servant_exception, Response) op" where
  "ContactUpdate C E L D S h change_data params = epp_request C params (\<lambda>p svtrid.
     let contact_update_data = unwrap_ContactChange change_data in
     bindE (session_data E p svtrid) (\<lambda>session.
     bindE (on_db (update_contact_localized L D (unwrap_string h) contact_update_data
              (rifd_epp_update_contact_data_filter S) (epp_update_contact_enqueue_check S) session
              (notification_data S p))) (\<lambda>response.
     converted (wrap_Epp_EppResponseSuccessLocalized C response svtrid))))"

definition ContactCreate ::
  "('c) corba_scheme \<Rightarrow> ('db, 'e) outside_scheme \<Rightarrow> ('db, 'x) libfred_contact_scheme \<Rightarrow>
     ('db, 'y) database_scheme \<Rightarrow> ('db, 's) contact_servant_scheme \<Rightarrow> cstring \<Rightarrow> CorbaContactData \<Rightarrow>
     EppParams \<Rightarrow> ('db server, servant_exception, Response \<times> string) op" where
  "ContactCreate C E L D S h contact_data params = epp_request C params (\<lambda>p svtrid.
     bindE (converted (create_contact_input_data (unwrap_ContactData contact_data))) (\<lambda>input_data.
     bindE (session_data E p svtrid) (\<lambda>session.
     bindE (on_db (create_contact_localized L D (unwrap_string h) input_data
              (rifd_epp_create_contact_data_filter S) session (notification_data S p))) (\<lambda>response.
     let create_time = wrap_string_to_corba_string
           (convert_time_to_local_rfc3339 C (contact_response_crdate response)) in
     bindE (converted (wrap_Epp_EppResponseSuccessLocalized C (contact_ok_response response) svtrid))
       (\<lambda>return_value.
     returnE (return_value, create_time))))))"

definition ContactTransfer ::
  "('c) corba_scheme \<Rightarrow> ('db, 'e) outside_scheme \<Rightarrow> ('db, 'x) libfred_contact_scheme \<Rightarrow>
     ('db, 'y) database_scheme \<Rightarrow> ('s) servant_scheme \<Rightarrow> cstring \<Rightarrow> cstring \<Rightarrow> EppParams \<Rightarrow>
     ('db server, servant_exception, Response) op" where
  "ContactTransfer C E L D S h authinfopw params = epp_request C params (\<lambda>p svtrid.
     bindE (session_data E p svtrid) (\<lambda>session.
     bindE (converted (unwrap_string_from_const_char_ptr h)) (\<lambda>handle.
     bindE (converted (unwrap_string_from_const_char_ptr authinfopw)) (\<lambda>pw.
     bindE (on_db (transfer_contact_localized L D handle pw session (notification_data S p))) (\<lambda>response.
     converted (wrap_Epp_EppResponseSuccessLocalized C response svtrid))))))"

end
