(* ===== verification/Corba_Keyset.thy ===== *)
theory Corba_Keyset
  imports Corba_Base Keyset_Localized
begin

text \<open>
  The methods of the servant on keysets (\<^verbatim>\<open>epp_impl.cc\<close>) and the conversions of their data
  (\<^verbatim>\<open>keyset/keyset_corba_conversions.cc\<close>).
\<close>

section \<open>The data of the interface\<close>

text \<open>The numbers of the generated classes are given by their values.\<close>

record DSRecord_str =
  dsrec_keyTag :: int
  dsrec_alg :: int
  dsrec_digestType :: int
  dsrec_digest :: string
  dsrec_maxSigLife :: int

record DNSKey_str =
  dnsk_flags :: int
  dnsk_protocol :: int
  dnsk_alg :: int
  dnsk_key :: string

definition unwrap_long :: "int \<Rightarrow> exn + int" where
  "unwrap_long n =
     (if - (2 ^ 63) \<le> n \<and> n < 2 ^ 63 then Inr n else Inl (StdException ''integer conversion failed''))"

definition unwrap_ushort :: "int \<Rightarrow> exn + u16" where
  "unwrap_ushort n =
     (if 0 \<le> n \<and> n < 2 ^ 16 then Inr (word_of_int n) else Inl (StdException ''integer conversion failed''))"

definition unwrap_ccReg_DSRecord_str :: "DSRecord_str \<Rightarrow> exn + DsRecord" where
  "unwrap_ccReg_DSRecord_str src =
     (case unwrap_long (dsrec_keyTag src) of Inl e \<Rightarrow> Inl e | Inr tag \<Rightarrow>
     (case unwrap_long (dsrec_alg src) of Inl e \<Rightarrow> Inl e | Inr alg \<Rightarrow>
     (case unwrap_long (dsrec_digestType src) of Inl e \<Rightarrow> Inl e | Inr dtype \<Rightarrow>
     (case unwrap_long (dsrec_maxSigLife src) of Inl e \<Rightarrow> Inl e | Inr life \<Rightarrow>
        Inr (DsRecord_of tag alg dtype (dsrec_digest src) life)))))"

definition unwrap_ccReg_DNSKey_str :: "DNSKey_str \<Rightarrow> exn + DnsKey" where
  "unwrap_ccReg_DNSKey_str src =
     (case unwrap_ushort (dnsk_flags src) of Inl e \<Rightarrow> Inl e | Inr flags \<Rightarrow>
     (case unwrap_ushort (dnsk_protocol src) of Inl e \<Rightarrow> Inl e | Inr protocol \<Rightarrow>
     (case unwrap_ushort (dnsk_alg src) of Inl e \<Rightarrow> Inl e | Inr alg \<Rightarrow>
        Inr (DnsKey_of flags protocol alg (dnsk_key src)))))"

definition unwrap_TechContact_to_vector_string :: "cstring list \<Rightarrow> exn + string list" where
  "unwrap_TechContact_to_vector_string contacts = unwrap_sequence unwrap_string_from_const_char_ptr contacts"

definition unwrap_ds_records :: "DSRecord_str list \<Rightarrow> exn + DsRecord list" where
  "unwrap_ds_records records = unwrap_sequence unwrap_ccReg_DSRecord_str records"

definition unwrap_dns_keys :: "DNSKey_str list \<Rightarrow> exn + DnsKey list" where
  "unwrap_dns_keys keys = unwrap_sequence unwrap_ccReg_DNSKey_str keys"

definition wrap_keyset_handle_check_result ::
  "(KeysetHandleRegistrationObstruction \<times> string) option \<Rightarrow> CheckAvail" where
  "wrap_keyset_handle_check_result check_result =
     (case check_result of
        None \<Rightarrow> NotExist
      | Some (Keyset_invalid_handle, _) \<Rightarrow> BadFormat
      | Some (Keyset_protected_handle, _) \<Rightarrow> DelPeriod
      | Some (Keyset_registered_handle, _) \<Rightarrow> Exist)"

record CorbaKeySet =
  keyset_info_handle :: string
  keyset_info_ROID :: string
  keyset_info_ClID :: string
  keyset_info_CrID :: string
  keyset_info_UpID :: string
  keyset_info_stat :: "CorbaStatus list"
  keyset_info_CrDate :: string
  keyset_info_UpDate :: string
  keyset_info_TrDate :: string
  keyset_info_AuthInfoPw :: string
  keyset_info_dsrec :: "DSRecord_str list"
  keyset_info_dnsk :: "DNSKey_str list"
  keyset_info_tech :: "string list"

definition wrap_Epp_InfoKeysetOutputData_DnsKeys :: "DnsKey set \<Rightarrow> DNSKey_str list" where
  "wrap_Epp_InfoKeysetOutputData_DnsKeys keys =
     map (\<lambda>(flags, protocol, alg, key).
            \<lparr>dnsk_flags = uint flags, dnsk_protocol = uint protocol, dnsk_alg = uint alg,
             dnsk_key = wrap_string_to_corba_string key\<rparr>)
       (sorted_list_of_set (dns_key_fields ` keys))"

definition wrap_Epp_InfoKeysetOutputData_TechContacts :: "string set \<Rightarrow> string list" where
  "wrap_Epp_InfoKeysetOutputData_TechContacts contacts =
     map wrap_string_to_corba_string (sorted_list_of_set contacts)"

definition wrap_InfoKeysetLocalizedOutputData ::
  "('x) corba_scheme \<Rightarrow> InfoKeysetLocalizedOutputData \<Rightarrow> CorbaKeySet" where
  "wrap_InfoKeysetLocalizedOutputData C src =
     \<lparr>keyset_info_handle = wrap_string_to_corba_string (loc_handle src),
      keyset_info_ROID = wrap_string_to_corba_string (loc_roid src),
      keyset_info_ClID = wrap_string_to_corba_string (loc_sponsoring_registrar_handle src),
      keyset_info_CrID = wrap_string_to_corba_string (loc_creating_registrar_handle src),
      keyset_info_UpID = wrap_optional_string (loc_last_update_registrar_handle src),
      keyset_info_stat = wrap_Epp_ObjectStatesLocalized keyset_status_values to_status_value_name
                           (localized_external_states src),
      keyset_info_CrDate = wrap_string_to_corba_string (convert_time_to_local_rfc3339 C (loc_crdate src)),
      keyset_info_UpDate = wrap_optional_ptime_to_string C (loc_last_update src),
      keyset_info_TrDate = wrap_optional_ptime_to_string C (loc_last_transfer src),
      keyset_info_AuthInfoPw = [],
      keyset_info_dsrec = [],
      keyset_info_dnsk = wrap_Epp_InfoKeysetOutputData_DnsKeys (loc_dns_keys src),
      keyset_info_tech = wrap_Epp_InfoKeysetOutputData_TechContacts (loc_tech_contacts src)\<rparr>"

section \<open>The methods\<close>

definition KeySetCheck ::
  "('c) corba_scheme \<Rightarrow> ('db, 'e) outside_scheme \<Rightarrow> ('db, 'x) libfred_keyset_scheme \<Rightarrow>
     ('db, 'y) database_scheme \<Rightarrow> cstring list \<Rightarrow> EppParams \<Rightarrow>
     ('db server, servant_exception, Response \<times> CheckAnswer list) op" where
  "KeySetCheck C E L D handles params = epp_request C params (\<lambda>p svtrid.
     bindE (converted (unwrap_handle_sequence_to_string_vector handles)) (\<lambda>handles_to_be_checked.
     bindE (session_data E p svtrid) (\<lambda>session.
     bindE (on_db (check_keyset_localized L D
              (fold (set_insert string_less) handles_to_be_checked []) session)) (\<lambda>(response, statuses).
     bindE (converted (wrap_check_info wrap_keyset_handle_check_result handles_to_be_checked statuses))
       (\<lambda>check_results.
     bindE (converted (wrap_Epp_EppResponseSuccessLocalized C response svtrid)) (\<lambda>return_value.
     returnE (return_value, check_results)))))))"

definition KeySetInfo ::
  "('c) corba_scheme \<Rightarrow> ('db, 'e) outside_scheme \<Rightarrow> ('db, 'x) libfred_keyset_scheme \<Rightarrow>
     ('db, 'y) database_scheme \<Rightarrow> cstring \<Rightarrow> cstring \<Rightarrow> EppParams \<Rightarrow>
     ('db server, servant_exception, Response \<times> CorbaKeySet) op" where
  "KeySetInfo C E L D h authinfopw params = epp_request C params (\<lambda>p svtrid.
     bindE (converted (unwrap_string_from_const_char_ptr h)) (\<lambda>handle.
     bindE (session_data E p svtrid) (\<lambda>session.
     bindE (on_db (info_keyset_localized L D handle (Password (unwrap_string authinfopw)) session))
       (\<lambda>(response, data).
     let keyset_info = wrap_InfoKeysetLocalizedOutputData C data in
     bindE (converted (wrap_Epp_EppResponseSuccessLocalized C response svtrid)) (\<lambda>return_value.
     returnE (return_value, keyset_info))))))"

definition KeySetDelete ::
  "('c) corba_scheme \<Rightarrow> ('db, 'e) outside_scheme \<Rightarrow> ('db, 'x) libfred_keyset_scheme \<Rightarrow>
     ('db, 'y) database_scheme \<Rightarrow> ('s) servant_scheme \<Rightarrow> cstring \<Rightarrow> EppParams \<Rightarrow>
     ('db server, servant_exception, Response) op" where
  "KeySetDelete C E L D S h params = epp_request C params (\<lambda>p svtrid.
     bindE (session_data E p svtrid) (\<lambda>session.
     bindE (converted (unwrap_string_from_const_char_ptr h)) (\<lambda>handle.
     bindE (on_db (delete_keyset_localized L D handle session (notification_data S p))) (\<lambda>response.
     converted (wrap_Epp_EppResponseSuccessLocalized C response svtrid)))))"

definition KeySetTransfer ::
  "('c) corba_scheme \<Rightarrow> ('db, 'e) outside_scheme \<Rightarrow> ('db, 'x) libfred_keyset_scheme \<Rightarrow>
     ('db, 'y) database_scheme \<Rightarrow> ('s) servant_scheme \<Rightarrow> cstring \<Rightarrow> cstring \<Rightarrow> EppParams \<Rightarrow>
     ('db server, servant_exception, Response) op" where
  "KeySetTransfer C E L D S h authinfopw params = epp_request C params (\<lambda>p svtrid.
     bindE (session_data E p svtrid) (\<lambda>session.
     bindE (converted (unwrap_string_from_const_char_ptr h)) (\<lambda>handle.
     bindE (converted (unwrap_string_from_const_char_ptr authinfopw)) (\<lambda>pw.
     bindE (on_db (transfer_keyset_localized L D handle pw session (notification_data S p))) (\<lambda>response.
     converted (wrap_Epp_EppResponseSuccessLocalized C response svtrid))))))"

definition KeySetCreate ::
  "('c) corba_scheme \<Rightarrow> ('db, 'e) outside_scheme \<Rightarrow> ('db, 'x) libfred_keyset_scheme \<Rightarrow>
     ('db, 'y) database_scheme \<Rightarrow> ('s) servant_scheme \<Rightarrow> cstring \<Rightarrow> cstring list \<Rightarrow> DSRecord_str list \<Rightarrow>
     DNSKey_str list \<Rightarrow> EppParams \<Rightarrow> ('db server, servant_exception, Response \<times> string) op" where
  "KeySetCreate C E L D S h contacts records keys params = epp_request C params (\<lambda>p svtrid.
     bindE (converted (unwrap_string_from_const_char_ptr h)) (\<lambda>handle.
     bindE (converted (unwrap_TechContact_to_vector_string contacts)) (\<lambda>tech.
     bindE (converted (unwrap_ds_records records)) (\<lambda>ds.
     bindE (converted (unwrap_dns_keys keys)) (\<lambda>dnsk.
     let create_keyset_input_data =
           \<lparr>keyset_handle = handle, tech_contacts = tech, ds_records = ds, dns_keys = dnsk\<rparr> in
     bindE (session_data E p svtrid) (\<lambda>session.
     bindE (on_db (create_keyset_localized L D create_keyset_input_data session (notification_data S p)))
       (\<lambda>response.
     let create_time = wrap_string_to_corba_string
           (convert_time_to_local_rfc3339 C (create_response_crdate response)) in
     bindE (converted (wrap_Epp_EppResponseSuccessLocalized C (create_response response) svtrid))
       (\<lambda>return_value.
     returnE (return_value, create_time)))))))))"

definition KeySetUpdate ::
  "('c) corba_scheme \<Rightarrow> ('db, 'e) outside_scheme \<Rightarrow> ('db, 'x) libfred_keyset_scheme \<Rightarrow>
     ('db, 'y) database_scheme \<Rightarrow> ('s) servant_scheme \<Rightarrow> cstring \<Rightarrow> cstring \<Rightarrow>
     cstring list \<times> cstring list \<Rightarrow> DSRecord_str list \<times> DSRecord_str list \<Rightarrow>
     DNSKey_str list \<times> DNSKey_str list \<Rightarrow> EppParams \<Rightarrow> ('db server, servant_exception, Response) op" where
  "KeySetUpdate C E L D S h authinfopw contacts records keys params = epp_request C params (\<lambda>p svtrid.
     bindE (converted (unwrap_string_from_const_char_ptr h)) (\<lambda>handle.
     bindE (converted (unwrap_string_for_change_or_remove_to_Optional_string authinfopw)) (\<lambda>pw.
     bindE (converted (unwrap_TechContact_to_vector_string (fst contacts))) (\<lambda>tech_add.
     bindE (converted (unwrap_TechContact_to_vector_string (snd contacts))) (\<lambda>tech_rem.
     bindE (converted (unwrap_ds_records (fst records))) (\<lambda>ds_add.
     bindE (converted (unwrap_ds_records (snd records))) (\<lambda>ds_rem.
     bindE (converted (unwrap_dns_keys (fst keys))) (\<lambda>keys_add.
     bindE (converted (unwrap_dns_keys (snd keys))) (\<lambda>keys_rem.
     let update_keyset_input_data =
           \<lparr>upd_keyset_handle = handle, upd_authinfopw = pw, tech_contacts_add = tech_add,
            tech_contacts_rem = tech_rem, ds_records_add = ds_add, ds_records_rem = ds_rem,
            dns_keys_add = keys_add, dns_keys_rem = keys_rem\<rparr> in
     bindE (session_data E p svtrid) (\<lambda>session.
     bindE (on_db (update_keyset_localized L D update_keyset_input_data session (notification_data S p)))
       (\<lambda>response.
     converted (wrap_Epp_EppResponseSuccessLocalized C response svtrid))))))))))))"

end
