(* ===== verification/Corba_Nsset.thy ===== *)
theory Corba_Nsset
  imports Corba_Base Nsset_Commands
begin

text \<open>
  The methods of the servant on nssets (\<^verbatim>\<open>epp_impl.cc\<close>) and the conversions of their data
  (\<^verbatim>\<open>nsset/nsset_corba_conversions.cc\<close>).
\<close>

section \<open>The data of the interface\<close>

text \<open>
  The texts of IP addresses are read and written by boost; the last field says which levels of
  technical checks the type of the generated class holds.
\<close>

record nsset_corba = corba +
  ip_from_string :: "string \<Rightarrow> IpAddress option"
  ip_to_string :: "IpAddress \<Rightarrow> string"
  level_fits :: "i16 \<Rightarrow> bool"

record CorbaDNSHost =
  dnshost_fqdn :: cstring
  dnshost_inet :: "cstring list"

definition not_null :: "cstring \<Rightarrow> exn + string" where
  "not_null s = (case s of None \<Rightarrow> Inl (StdException ''null char ptr'') | Some t \<Rightarrow> Inr t)"

text \<open>An address that cannot be read becomes an absent one.\<close>

definition unwrap_inet_addr_to_vector_asio_addr ::
  "('x) nsset_corba_scheme \<Rightarrow> cstring list \<Rightarrow> exn + IpAddress option list" where
  "unwrap_inet_addr_to_vector_asio_addr C addresses =
     unwrap_sequence (\<lambda>a. case not_null a of Inl e \<Rightarrow> Inl e | Inr s \<Rightarrow> Inr (ip_from_string C s)) addresses"

definition unwrap_ccreg_techcontacts_to_vector_string :: "cstring list \<Rightarrow> exn + string list" where
  "unwrap_ccreg_techcontacts_to_vector_string contacts = unwrap_sequence not_null contacts"

definition unwrap_dnshost :: "('x) nsset_corba_scheme \<Rightarrow> CorbaDNSHost \<Rightarrow> exn + DnsHostInput" where
  "unwrap_dnshost C h =
     (case not_null (dnshost_fqdn h) of
        Inl e \<Rightarrow> Inl e
      | Inr fqdn \<Rightarrow>
          (case unwrap_inet_addr_to_vector_asio_addr C (dnshost_inet h) of
             Inl e \<Rightarrow> Inl e
           | Inr addresses \<Rightarrow> Inr \<lparr>host_fqdn = fqdn, host_inet_addr = addresses\<rparr>))"

definition unwrap_ccreg_dnshosts_to_vector_dnshosts ::
  "('x) nsset_corba_scheme \<Rightarrow> CorbaDNSHost list \<Rightarrow> exn + DnsHostInput list" where
  "unwrap_ccreg_dnshosts_to_vector_dnshosts C hosts = unwrap_sequence (unwrap_dnshost C) hosts"

definition unwrap_tech_check_level :: "i16 \<Rightarrow> i16 option" where
  "unwrap_tech_check_level level = (if sint level < 0 then None else Some level)"

definition wrap_nsset_handle_check_result ::
  "(NssetHandleRegistrationObstruction \<times> string) option \<Rightarrow> CheckAvail" where
  "wrap_nsset_handle_check_result obstruction =
     (case obstruction of
        None \<Rightarrow> NotExist
      | Some (Nsset_invalid_handle, _) \<Rightarrow> BadFormat
      | Some (Nsset_protected_handle, _) \<Rightarrow> DelPeriod
      | Some (Nsset_registered_handle, _) \<Rightarrow> Exist)"

primrec nsset_status_name :: "NssetStatusValue \<Rightarrow> string" where
  "nsset_status_name NssetStatus_delete_candidate = ''deleteCandidate''"
| "nsset_status_name NssetStatus_linked = ''linked''"
| "nsset_status_name NssetStatus_server_delete_prohibited = ''serverDeleteProhibited''"
| "nsset_status_name NssetStatus_server_transfer_prohibited = ''serverTransferProhibited''"
| "nsset_status_name NssetStatus_server_update_prohibited = ''serverUpdateProhibited''"

record CorbaNSSet =
  nsset_info_handle :: string
  nsset_info_ROID :: string
  nsset_info_ClID :: string
  nsset_info_CrID :: string
  nsset_info_UpID :: string
  nsset_info_stat :: "CorbaStatus list"
  nsset_info_CrDate :: string
  nsset_info_UpDate :: string
  nsset_info_TrDate :: string
  nsset_info_AuthInfoPw :: string
  nsset_info_dns :: "(string \<times> string list) list"
  nsset_info_tech :: "string list"
  nsset_info_level :: int

definition wrap_dns_host :: "('x) nsset_corba_scheme \<Rightarrow> DnsHostOutput \<Rightarrow> string \<times> string list" where
  "wrap_dns_host C h =
     (wrap_string_to_corba_string (out_fqdn h),
      map (\<lambda>a. wrap_string_to_corba_string (ip_to_string C a)) (out_inet_addr h))"

definition wrap_localized_info_nsset ::
  "('x) nsset_corba_scheme \<Rightarrow> InfoNssetLocalizedOutputData \<Rightarrow> exn + CorbaNSSet" where
  "wrap_localized_info_nsset C src =
     (if level_fits C (nsloc_tech_check_level src)
      then Inr
       \<lparr>nsset_info_handle = wrap_string_to_corba_string (nsloc_handle src),
        nsset_info_ROID = wrap_string_to_corba_string (nsloc_roid src),
        nsset_info_ClID = wrap_string_to_corba_string (nsloc_sponsoring_registrar_handle src),
        nsset_info_CrID = wrap_string_to_corba_string (nsloc_creating_registrar_handle src),
        nsset_info_UpID = wrap_optional_string (nsloc_last_update_registrar_handle src),
        nsset_info_stat = wrap_Epp_ObjectStatesLocalized nsset_status_values nsset_status_name
                            (nsset_localized_external_states src),
        nsset_info_CrDate = wrap_string_to_corba_string (convert_time_to_local_rfc3339 C (nsloc_crdate src)),
        nsset_info_UpDate = wrap_optional_ptime_to_string C (nsloc_last_update src),
        nsset_info_TrDate = wrap_optional_ptime_to_string C (nsloc_last_transfer src),
        nsset_info_AuthInfoPw = [],
        nsset_info_dns = map (wrap_dns_host C) (nsloc_dns_hosts src),
        nsset_info_tech = map wrap_string_to_corba_string (nsloc_tech_contacts src),
        nsset_info_level = sint (nsloc_tech_check_level src)\<rparr>
      else Inl (StdException ''bad numeric cast''))"

section \<open>The methods\<close>

record nsset_servant = servant +
  nsset_level :: u32
  nsset_min_hosts :: u32
  nsset_max_hosts :: u32

definition NSSetCheck ::
  "('c) corba_scheme \<Rightarrow> ('db, 'e) outside_scheme \<Rightarrow> ('db, 'x) libfred_nsset_scheme \<Rightarrow>
     ('db, 'y) database_scheme \<Rightarrow> cstring list \<Rightarrow> EppParams \<Rightarrow>
     ('db server, servant_exception, Response \<times> CheckAnswer list) op" where
  "NSSetCheck C E L D handles params = epp_request C params (\<lambda>p svtrid.
     bindE (converted (unwrap_handle_sequence_to_string_vector handles)) (\<lambda>handles_to_be_checked.
     bindE (session_data E p svtrid) (\<lambda>session.
     bindE (on_db (check_nsset_localized L D
              (fold (set_insert string_less) handles_to_be_checked []) session)) (\<lambda>(response, statuses).
     bindE (converted (wrap_check_info wrap_nsset_handle_check_result handles_to_be_checked statuses))
       (\<lambda>check_results.
     bindE (converted (wrap_Epp_EppResponseSuccessLocalized C response svtrid)) (\<lambda>return_value.
     returnE (return_value, check_results)))))))"

definition NSSetInfo ::
  "('c) nsset_corba_scheme \<Rightarrow> ('db, 'e) outside_scheme \<Rightarrow> ('db, 'x) libfred_nsset_scheme \<Rightarrow>
     ('db, 'y) database_scheme \<Rightarrow> cstring \<Rightarrow> cstring \<Rightarrow> EppParams \<Rightarrow>
     ('db server, servant_exception, Response \<times> CorbaNSSet) op" where
  "NSSetInfo C E L D h authinfopw params = epp_request C params (\<lambda>p svtrid.
     bindE (session_data E p svtrid) (\<lambda>session.
     bindE (on_db (info_nsset_localized L D (unwrap_string h) (Password (unwrap_string authinfopw)) session))
       (\<lambda>(response, data).
     bindE (converted (wrap_localized_info_nsset C data)) (\<lambda>nsset_info.
     bindE (converted (wrap_Epp_EppResponseSuccessLocalized C response svtrid)) (\<lambda>return_value.
     returnE (return_value, nsset_info))))))"

definition NSSetDelete ::
  "('c) corba_scheme \<Rightarrow> ('db, 'e) outside_scheme \<Rightarrow> ('db, 'x) libfred_nsset_scheme \<Rightarrow>
     ('db, 'y) database_scheme \<Rightarrow> ('s) servant_scheme \<Rightarrow> cstring \<Rightarrow> EppParams \<Rightarrow>
     ('db server, servant_exception, Response) op" where
  "NSSetDelete C E L D S h params = epp_request C params (\<lambda>p svtrid.
     bindE (session_data E p svtrid) (\<lambda>session.
     bindE (on_db (delete_nsset_localized L D (unwrap_string h) session (notification_data S p))) (\<lambda>response.
     converted (wrap_Epp_EppResponseSuccessLocalized C response svtrid))))"

definition NSSetTransfer ::
  "('c) corba_scheme \<Rightarrow> ('db, 'e) outside_scheme \<Rightarrow> ('db, 'x) libfred_nsset_scheme \<Rightarrow>
     ('db, 'y) database_scheme \<Rightarrow> ('s) servant_scheme \<Rightarrow> cstring \<Rightarrow> cstring \<Rightarrow> EppParams \<Rightarrow>
     ('db server, servant_exception, Response) op" where
  "NSSetTransfer C E L D S h authinfopw params = epp_request C params (\<lambda>p svtrid.
     bindE (session_data E p svtrid) (\<lambda>session.
     bindE (on_db (transfer_nsset_localized L D (unwrap_string h) (unwrap_string authinfopw) session
              (notification_data S p))) (\<lambda>response.
     converted (wrap_Epp_EppResponseSuccessLocalized C response svtrid))))"

definition NSSetCreate ::
  "('c) nsset_corba_scheme \<Rightarrow> ('db, 'e) outside_scheme \<Rightarrow> ('db, 'x) libfred_nsset_scheme \<Rightarrow>
     ('db, 'y) database_scheme \<Rightarrow> ('s) nsset_servant_scheme \<Rightarrow> cstring \<Rightarrow> cstring list \<Rightarrow>
     CorbaDNSHost list \<Rightarrow> i16 \<Rightarrow> EppParams \<Rightarrow> ('db server, servant_exception, Response \<times> string) op" where
  "NSSetCreate C E L D S h contacts hosts level params = epp_request C params (\<lambda>p svtrid.
     bindE (converted (unwrap_string_from_const_char_ptr h)) (\<lambda>handle.
     bindE (converted (unwrap_ccreg_techcontacts_to_vector_string contacts)) (\<lambda>tech.
     bindE (converted (unwrap_ccreg_dnshosts_to_vector_dnshosts C hosts)) (\<lambda>dns.
     let create_nsset_input_data =
           \<lparr>nsset_handle = handle, nsset_tech_contacts = tech, nsset_dns_hosts = dns,
            nsset_tech_check_level = unwrap_tech_check_level level\<rparr>;
         create_nsset_config_data =
           \<lparr>rifd_epp_operations_charging = servant_operations_charging S,
            default_tech_check_level = nsset_level S, min_hosts = nsset_min_hosts S,
            max_hosts = nsset_max_hosts S\<rparr> in
     bindE (session_data E p svtrid) (\<lambda>session.
     bindE (on_db (create_nsset_localized L D create_nsset_input_data create_nsset_config_data session
              (notification_data S p))) (\<lambda>response.
     let create_time = wrap_string_to_corba_string
           (convert_time_to_local_rfc3339 C (nsset_create_response_crdate response)) in
     bindE (converted (wrap_Epp_EppResponseSuccessLocalized C (nsset_create_response response) svtrid))
       (\<lambda>return_value.
     returnE (return_value, create_time))))))))"

definition NSSetUpdate ::
  "('c) nsset_corba_scheme \<Rightarrow> ('db, 'e) outside_scheme \<Rightarrow> ('db, 'x) libfred_nsset_scheme \<Rightarrow>
     ('db, 'y) database_scheme \<Rightarrow> ('s) nsset_servant_scheme \<Rightarrow> cstring \<Rightarrow> cstring \<Rightarrow>
     CorbaDNSHost list \<times> CorbaDNSHost list \<Rightarrow> cstring list \<times> cstring list \<Rightarrow> i16 \<Rightarrow> EppParams \<Rightarrow>
     ('db server, servant_exception, Response) op" where
  "NSSetUpdate C E L D S h authinfopw hosts contacts level params = epp_request C params (\<lambda>p svtrid.
     bindE (session_data E p svtrid) (\<lambda>session.
     bindE (converted (unwrap_string_from_const_char_ptr h)) (\<lambda>handle.
     bindE (converted (unwrap_string_for_change_or_remove_to_Optional_string authinfopw)) (\<lambda>pw.
     bindE (converted (unwrap_ccreg_dnshosts_to_vector_dnshosts C (fst hosts))) (\<lambda>hosts_add.
     bindE (converted (unwrap_ccreg_dnshosts_to_vector_dnshosts C (snd hosts))) (\<lambda>hosts_rem.
     bindE (converted (unwrap_ccreg_techcontacts_to_vector_string (fst contacts))) (\<lambda>tech_add.
     bindE (converted (unwrap_ccreg_techcontacts_to_vector_string (snd contacts))) (\<lambda>tech_rem.
     let update_nsset_input_data =
           \<lparr>upd_nsset_handle = handle, upd_nsset_authinfopw = pw, dns_hosts_add = hosts_add,
            dns_hosts_rem = hosts_rem, nsset_tech_contacts_add = tech_add, nsset_tech_contacts_rem = tech_rem,
            upd_tech_check_level = unwrap_tech_check_level level\<rparr>;
         update_nsset_config_data =
           \<lparr>upd_rifd_epp_operations_charging = servant_operations_charging S,
            upd_min_hosts = nsset_min_hosts S, upd_max_hosts = nsset_max_hosts S\<rparr> in
     bindE (on_db (update_nsset_localized L D update_nsset_input_data update_nsset_config_data session
              (notification_data S p))) (\<lambda>response.
     converted (wrap_Epp_EppResponseSuccessLocalized C response svtrid))))))))))"

end
