(* ===== verification/Corba_Domain.thy ===== *)
theory Corba_Domain
  imports Corba_Base Domain_Localized
begin

text \<open>
  The methods of the servant on domains (\<^verbatim>\<open>epp_impl.cc\<close>) and the conversions of their data
  (\<^verbatim>\<open>domain/domain_corba_conversions.cc\<close>).
\<close>

section \<open>The data of the interface\<close>

text \<open>
  The texts of dates are written and read by boost. A default-constructed date is not a date.
\<close>

record domain_corba = corba +
  iso_extended_date :: "date \<Rightarrow> string"
  date_from_simple_string :: "string \<Rightarrow> exn + date"
  default_date :: date

definition unwrap_string_for_change_or_remove_to_Optional_Nullable_string ::
  "cstring \<Rightarrow> exn + string option option" where
  "unwrap_string_for_change_or_remove_to_Optional_Nullable_string src =
     (case unwrap_string_from_const_char_ptr src of
        Inl e \<Rightarrow> Inl e
      | Inr s \<Rightarrow> Inr (if s = [] then None else if hd s = CHR 0x08 then Some None else Some (Some s)))"

definition wrap_domain_obstruction :: "(DomainRegistrationObstruction \<times> string) option \<Rightarrow> CheckAvail" where
  "wrap_domain_obstruction obstruction =
     (case obstruction of
        None \<Rightarrow> NotExist
      | Some (Domain_registered, _) \<Rightarrow> Exist
      | Some (Domain_blacklisted, _) \<Rightarrow> BlackList
      | Some (Domain_zone_not_in_registry, _) \<Rightarrow> NotApplicable
      | Some (Domain_invalid_fqdn, _) \<Rightarrow> BadFormat)"

primrec domain_status_name :: "DomainStatusValue \<Rightarrow> string" where
  "domain_status_name DomainStatus_delete_candidate = ''deleteCandidate''"
| "domain_status_name DomainStatus_expired = ''expired''"
| "domain_status_name DomainStatus_not_validated = ''notValidated''"
| "domain_status_name DomainStatus_outzone = ''outzone''"
| "domain_status_name DomainStatus_server_blocked = ''serverBlocked''"
| "domain_status_name DomainStatus_server_delete_prohibited = ''serverDeleteProhibited''"
| "domain_status_name DomainStatus_server_inzone_manual = ''serverInzoneManual''"
| "domain_status_name DomainStatus_server_outzone_manual = ''serverOutzoneManual''"
| "domain_status_name DomainStatus_server_registrant_change_prohibited = ''serverRegistrantChangeProhibited''"
| "domain_status_name DomainStatus_server_renew_prohibited = ''serverRenewProhibited''"
| "domain_status_name DomainStatus_server_transfer_prohibited = ''serverTransferProhibited''"
| "domain_status_name DomainStatus_server_update_prohibited = ''serverUpdateProhibited''"

record CorbaDomain =
  domain_info_ROID :: string
  domain_info_name :: string
  domain_info_Registrant :: string
  domain_info_nsset :: string
  domain_info_keyset :: string
  domain_info_stat :: "CorbaStatus list"
  domain_info_ClID :: string
  domain_info_CrID :: string
  domain_info_UpID :: string
  domain_info_CrDate :: string
  domain_info_UpDate :: string
  domain_info_TrDate :: string
  domain_info_ExDate :: string
  domain_info_AuthInfoPw :: string
  domain_info_admin :: "string list"
  domain_info_ext :: "(string \<times> bool) list"
  domain_info_tmpcontact :: "string list"

definition wrap_enum_validation ::
  "('x) domain_corba_scheme \<Rightarrow> EnumValidationExtension option \<Rightarrow> (string \<times> bool) list" where
  "wrap_enum_validation C src =
     (case src of
        None \<Rightarrow> []
      | Some e \<Rightarrow> [(wrap_string_to_corba_string (iso_extended_date C (get_valexdate e)), get_publish e)])"

definition wrap_Epp_Domain_InfoDomainLocalizedOutputData ::
  "('x) domain_corba_scheme \<Rightarrow> InfoDomainLocalizedOutputData \<Rightarrow> CorbaDomain" where
  "wrap_Epp_Domain_InfoDomainLocalizedOutputData C src =
     \<lparr>domain_info_ROID = wrap_string_to_corba_string (domloc_roid src),
      domain_info_name = wrap_string_to_corba_string (domloc_fqdn src),
      domain_info_Registrant = wrap_string_to_corba_string (domloc_registrant src),
      domain_info_nsset = wrap_optional_string (domloc_nsset src),
      domain_info_keyset = wrap_optional_string (domloc_keyset src),
      domain_info_stat = wrap_Epp_ObjectStatesLocalized domain_status_values domain_status_name
                           (domain_localized_external_states src),
      domain_info_ClID = wrap_string_to_corba_string (domloc_sponsoring_registrar_handle src),
      domain_info_CrID = wrap_string_to_corba_string (domloc_creating_registrar_handle src),
      domain_info_UpID = wrap_optional_string (domloc_last_update_registrar_handle src),
      domain_info_CrDate = wrap_string_to_corba_string (convert_time_to_local_rfc3339 C (domloc_crdate src)),
      domain_info_UpDate = wrap_optional_ptime_to_string C (domloc_last_update src),
      domain_info_TrDate = wrap_optional_ptime_to_string C (domloc_last_transfer src),
      domain_info_ExDate = wrap_string_to_corba_string (iso_extended_date C (domloc_exdate src)),
      domain_info_AuthInfoPw = [],
      domain_info_admin = map wrap_string_to_corba_string (sorted_list_of_set (domloc_admin src)),
      domain_info_ext = wrap_enum_validation C (domloc_ext_enum_domain_validation src),
      domain_info_tmpcontact = map wrap_string_to_corba_string (sorted_list_of_set (domloc_tmpcontact src))\<rparr>"

datatype RegyearUnit = unit_month | unit_year

definition unwrap_domain_registration_period :: "32 word \<times> RegyearUnit \<Rightarrow> DomainRegistrationTime" where
  "unwrap_domain_registration_period period =
     (case snd period of
        unit_month \<Rightarrow> \<lparr>length_of_domain_registration = fst period,
                       unit_of_domain_registration_time = Unit_month\<rparr>
      | unit_year \<Rightarrow> \<lparr>length_of_domain_registration = fst period,
                      unit_of_domain_registration_time = Unit_year\<rparr>)"

definition unwrap_ccreg_admincontacts_to_vector_string :: "cstring list \<Rightarrow> exn + string list" where
  "unwrap_ccreg_admincontacts_to_vector_string contacts =
     unwrap_sequence (\<lambda>s. case s of None \<Rightarrow> Inl (StdException ''null char ptr'') | Some t \<Rightarrow> Inr t) contacts"

text \<open>
  The list of extensions holds values of any type. A date that cannot be read becomes one that is
  not a date.
\<close>

datatype CorbaExtension = ENUMValidationExtension cstring bool | OtherExtension

definition unwrap_enum_validation_extension_list ::
  "('x) domain_corba_scheme \<Rightarrow> CorbaExtension list \<Rightarrow> exn + EnumValidationExtension option" where
  "unwrap_enum_validation_extension_list C ext =
     (if length ext = 0 then Inr None
      else if 1 < length ext then Inl (StdException ''ext too long'')
      else
        (case hd ext of
           OtherExtension \<Rightarrow> Inl (StdException ''unknown extension found when extracting domain enum extension'')
         | ENUMValidationExtension valExDate publish \<Rightarrow>
             (case unwrap_string_from_const_char_ptr valExDate of
                Inl e \<Rightarrow> Inl e
              | Inr s \<Rightarrow>
                  (let valexdate = (case date_from_simple_string C s of Inl _ \<Rightarrow> default_date C | Inr d \<Rightarrow> d) in
                   Inr (Some \<lparr>get_valexdate = valexdate, get_publish = publish\<rparr>)))))"

section \<open>The methods\<close>

record domain_servant = servant +
  servant_update_domain_keyset_clear :: bool

definition DomainCheck ::
  "('c) corba_scheme \<Rightarrow> ('db, 'e) outside_scheme \<Rightarrow> ('db, 'x) libfred_domain_scheme \<Rightarrow>
     ('db, 'y) database_scheme \<Rightarrow> cstring list \<Rightarrow> EppParams \<Rightarrow>
     ('db server, servant_exception, Response \<times> CheckAnswer list) op" where
  "DomainCheck C E L D fqdns params = epp_request C params (\<lambda>p svtrid.
     bindE (converted (unwrap_handle_sequence_to_string_vector fqdns)) (\<lambda>fqdns_to_be_checked.
     bindE (session_data E p svtrid) (\<lambda>session.
     bindE (on_db (check_domain_localized L D
              (fold (set_insert string_less) fqdns_to_be_checked []) session)) (\<lambda>(response, statuses).
     bindE (converted (wrap_check_info wrap_domain_obstruction fqdns_to_be_checked statuses)) (\<lambda>check_results.
     bindE (converted (wrap_Epp_EppResponseSuccessLocalized C response svtrid)) (\<lambda>return_value.
     returnE (return_value, check_results)))))))"

definition DomainInfo ::
  "('c) domain_corba_scheme \<Rightarrow> ('db, 'e) outside_scheme \<Rightarrow> ('db, 'x) libfred_domain_scheme \<Rightarrow>
     ('db, 'y) database_scheme \<Rightarrow> cstring \<Rightarrow> cstring \<Rightarrow> EppParams \<Rightarrow>
     ('db server, servant_exception, Response \<times> CorbaDomain) op" where
  "DomainInfo C E L D fqdn authinfopw params = epp_request C params (\<lambda>p svtrid.
     bindE (session_data E p svtrid) (\<lambda>session.
     bindE (converted (unwrap_string_from_const_char_ptr fqdn)) (\<lambda>name.
     bindE (on_db (info_domain_localized L D name (Password (unwrap_string authinfopw)) session))
       (\<lambda>(response, data).
     let domain_info = wrap_Epp_Domain_InfoDomainLocalizedOutputData C data in
     bindE (converted (wrap_Epp_EppResponseSuccessLocalized C response svtrid)) (\<lambda>return_value.
     returnE (return_value, domain_info))))))"

definition DomainDelete ::
  "('c) corba_scheme \<Rightarrow> ('db, 'e) outside_scheme \<Rightarrow> ('db, 'x) libfred_domain_scheme \<Rightarrow>
     ('db, 'y) database_scheme \<Rightarrow> ('s) servant_scheme \<Rightarrow> cstring \<Rightarrow> EppParams \<Rightarrow>
     ('db server, servant_exception, Response) op" where
  "DomainDelete C E L D S fqdn params = epp_request C params (\<lambda>p svtrid.
     bindE (session_data E p svtrid) (\<lambda>session.
     bindE (converted (unwrap_string_from_const_char_ptr fqdn)) (\<lambda>name.
     bindE (on_db (delete_domain_localized L D name session (notification_data S p))) (\<lambda>response.
     converted (wrap_Epp_EppResponseSuccessLocalized C response svtrid)))))"

definition DomainTransfer ::
  "('c) corba_scheme \<Rightarrow> ('db, 'e) outside_scheme \<Rightarrow> ('db, 'x) libfred_domain_scheme \<Rightarrow>
     ('db, 'y) database_scheme \<Rightarrow> ('s) servant_scheme \<Rightarrow> cstring \<Rightarrow> cstring \<Rightarrow> EppParams \<Rightarrow>
     ('db server, servant_exception, Response) op" where
  "DomainTransfer C E L D S fqdn authinfopw params = epp_request C params (\<lambda>p svtrid.
     bindE (session_data E p svtrid) (\<lambda>session.
     bindE (converted (unwrap_string_from_const_char_ptr fqdn)) (\<lambda>name.
     bindE (converted (unwrap_string_from_const_char_ptr authinfopw)) (\<lambda>pw.
     bindE (on_db (transfer_domain_localized L D name pw session (notification_data S p))) (\<lambda>response.
     converted (wrap_Epp_EppResponseSuccessLocalized C response svtrid))))))"

definition DomainUpdate ::
  "('c) domain_corba_scheme \<Rightarrow> ('db, 'e) outside_scheme \<Rightarrow> ('db, 'x) libfred_domain_scheme \<Rightarrow>
     ('db, 'y) database_scheme \<Rightarrow> ('s) domain_servant_scheme \<Rightarrow> cstring \<Rightarrow> cstring \<Rightarrow> cstring \<Rightarrow> cstring \<Rightarrow>
     cstring \<Rightarrow> cstring list \<times> cstring list \<times> cstring list \<Rightarrow> EppParams \<Rightarrow> CorbaExtension list \<Rightarrow>
     ('db server, servant_exception, Response) op" where
  "DomainUpdate C E L D S fqdn registrant authinfopw nsset keyset contacts params ext =
   epp_request C params (\<lambda>p svtrid.
     bindE (converted (unwrap_string_from_const_char_ptr fqdn)) (\<lambda>name.
     bindE (converted (unwrap_string_for_change_to_Optional_string registrant)) (\<lambda>reg_chg.
     bindE (converted (unwrap_string_for_change_or_remove_to_Optional_string authinfopw)) (\<lambda>pw_chg.
     bindE (converted (unwrap_string_for_change_or_remove_to_Optional_Nullable_string nsset)) (\<lambda>ns_chg.
     bindE (converted (unwrap_string_for_change_or_remove_to_Optional_Nullable_string keyset)) (\<lambda>ks_chg.
     bindE (converted (unwrap_ccreg_admincontacts_to_vector_string (fst contacts))) (\<lambda>admin_add.
     bindE (converted (unwrap_ccreg_admincontacts_to_vector_string (fst (snd contacts)))) (\<lambda>admin_rem.
     bindE (converted (unwrap_ccreg_admincontacts_to_vector_string (snd (snd contacts)))) (\<lambda>tmp_rem.
     bindE (converted (unwrap_enum_validation_extension_list C ext)) (\<lambda>enum_validation.
     let update_domain_input_data =
           \<lparr>update_fqdn = name, registrant_chg = reg_chg, authinfopw_chg = pw_chg, nsset_chg = ns_chg,
            keyset_chg = ks_chg, admin_contacts_add = admin_add, admin_contacts_rem = admin_rem,
            tmpcontacts_rem = tmp_rem, update_enum_validation = enum_validation\<rparr>;
         update_domain_config_data =
           \<lparr>upd_domain_operations_charging = servant_operations_charging S,
            rifd_epp_update_domain_keyset_clear = servant_update_domain_keyset_clear S\<rparr> in
     bindE (session_data E p svtrid) (\<lambda>session.
     bindE (on_db (update_domain_localized L D update_domain_input_data update_domain_config_data session
              (notification_data S p))) (\<lambda>response.
     converted (wrap_Epp_EppResponseSuccessLocalized C response svtrid)))))))))))))"

definition DomainCreate ::
  "('c) domain_corba_scheme \<Rightarrow> ('db, 'e) outside_scheme \<Rightarrow> ('db, 'x) libfred_domain_scheme \<Rightarrow>
     ('db, 'y) database_scheme \<Rightarrow> ('db, 'dec, 'z) billing_scheme \<Rightarrow> ('s) servant_scheme \<Rightarrow> cstring \<Rightarrow> cstring \<Rightarrow>
     cstring \<Rightarrow> cstring \<Rightarrow> 32 word \<times> RegyearUnit \<Rightarrow> cstring list \<Rightarrow> EppParams \<Rightarrow> CorbaExtension list \<Rightarrow>
     ('db server, servant_exception, Response \<times> string \<times> string) op" where
  "DomainCreate C E L D B S fqdn registrant nsset keyset period admin params ext =
   epp_request C params (\<lambda>p svtrid.
     bindE (converted (unwrap_string_from_const_char_ptr fqdn)) (\<lambda>name.
     bindE (converted (unwrap_string_from_const_char_ptr registrant)) (\<lambda>reg.
     bindE (converted (unwrap_string_from_const_char_ptr nsset)) (\<lambda>ns.
     bindE (converted (unwrap_string_from_const_char_ptr keyset)) (\<lambda>ks.
     bindE (converted (unwrap_ccreg_admincontacts_to_vector_string admin)) (\<lambda>admins.
     bindE (converted (unwrap_enum_validation_extension_list C ext)) (\<lambda>enum_validation.
     let create_domain_input_data =
           \<lparr>create_fqdn = name, create_registrant = reg, create_nsset_handle = ns, create_keyset_handle = ks,
            create_period = unwrap_domain_registration_period period, create_admin_contacts = admins,
            create_enum_validation_extension = enum_validation\<rparr> in
     bindE (session_data E p svtrid) (\<lambda>session.
     bindE (on_db (create_domain_localized L D B create_domain_input_data (servant_operations_charging S)
              session (notification_data S p))) (\<lambda>response.
     let create_time = wrap_string_to_corba_string
           (convert_time_to_local_rfc3339 C (domain_create_response_crtime response));
         exdate = wrap_string_to_corba_string
           (iso_extended_date C (domain_create_response_exdate response)) in
     bindE (converted (wrap_Epp_EppResponseSuccessLocalized C (domain_create_response response) svtrid))
       (\<lambda>return_value.
     returnE (return_value, create_time, exdate)))))))))))"

definition DomainRenew ::
  "('c) domain_corba_scheme \<Rightarrow> ('db, 'e) outside_scheme \<Rightarrow> ('db, 'x) libfred_domain_scheme \<Rightarrow>
     ('db, 'y) database_scheme \<Rightarrow> ('db, 'dec, 'z) billing_scheme \<Rightarrow> ('s) servant_scheme \<Rightarrow> cstring \<Rightarrow> cstring \<Rightarrow>
     32 word \<times> RegyearUnit \<Rightarrow> EppParams \<Rightarrow> CorbaExtension list \<Rightarrow>
     ('db server, servant_exception, Response \<times> string) op" where
  "DomainRenew C E L D B S fqdn current_exdate period params ext = epp_request C params (\<lambda>p svtrid.
     bindE (converted (unwrap_string_from_const_char_ptr fqdn)) (\<lambda>name.
     bindE (converted (unwrap_string_from_const_char_ptr current_exdate)) (\<lambda>exd.
     bindE (converted (unwrap_enum_validation_extension_list C ext)) (\<lambda>enum_validation.
     let renew_domain_input_data =
           \<lparr>renew_fqdn = name, renew_current_exdate = exd,
            renew_period = unwrap_domain_registration_period period,
            renew_enum_validation_extension = enum_validation\<rparr> in
     bindE (session_data E p svtrid) (\<lambda>session.
     bindE (on_db (renew_domain_localized L D B renew_domain_input_data (servant_operations_charging S)
              session (notification_data S p))) (\<lambda>response.
     let exdate = wrap_string_to_corba_string
           (iso_extended_date C (domain_renew_response_exdate response)) in
     bindE (converted (wrap_Epp_EppResponseSuccessLocalized C (domain_renew_response response) svtrid))
       (\<lambda>return_value.
     returnE (return_value, exdate))))))))"

end
