(* ===== verification/Corba_Poll.thy ===== *)
theory Corba_Poll
  imports Corba_Base Epp_Poll Epp_Credit Epp_Authinfo
begin

text \<open>
  The methods of the servant for messages, credit and authorization information
  (\<^verbatim>\<open>epp_impl.cc\<close>) and the conversions of their data
  (\<^verbatim>\<open>poll/poll_corba_conversions.cc\<close>, \<^verbatim>\<open>credit/credit_corba_conversions.cc\<close>).
\<close>

section \<open>Messages\<close>

text \<open>
  What the conversions take from outside: the text of a day, a decimal number with two digits after
  the point and as it is, the message of a result, and the sizes of the numbers in the generated
  classes.
\<close>

record corba_poll = corba +
  iso_extended_day :: "int \<Rightarrow> string"
  get_string_2f :: "string \<Rightarrow> string"
  GetErrorMessage :: "nat \<Rightarrow> SessionLang \<Rightarrow> string"
  greatest_poll_id :: nat
  greatest_fee_count :: nat
  greatest_test_status :: nat

datatype PollType =
    polltype_transfer_contact | polltype_transfer_domain | polltype_transfer_nsset
  | polltype_transfer_keyset | polltype_delete_contact | polltype_delete_domain
  | polltype_delete_keyset | polltype_delete_nsset | polltype_validation | polltype_outzone
  | polltype_impexpiration | polltype_expiration | polltype_impvalidation | polltype_lowcredit
  | polltype_techcheck | polltype_request_fee_info | polltype_update_contact
  | polltype_update_domain | polltype_update_keyset | polltype_update_nsset

record TestResult_str =
  corba_testname :: string
  corba_status :: nat
  corba_note :: string

text \<open>The structures of the interface put into a \<^verbatim>\<open>CORBA::Any\<close>.\<close>

datatype PollContent =
    PollMsg_HandleDateReg (msg_handle: string) (msg_date: string) (msg_clID: string)
  | PollMsg_LowCredit (msg_zone: string) (msg_limit: string) (msg_credit: string)
  | PollMsg_Techcheck (msg_handle: string) (msg_fqdns: "string list") (msg_tests: "TestResult_str list")
  | PollMsg_RequestFeeInfo (msg_periodFrom: string) (msg_periodTo: string) (msg_totalFreeCount: nat)
      (msg_usedCount: nat) (msg_price: string)
  | PollMsg_Update (msg_opTRID: string) (msg_pollID: nat)

type_synonym CorbaPollMessage = "PollContent \<times> PollType"

definition handle_date_reg ::
  "('x) corba_poll_scheme \<Rightarrow> int \<Rightarrow> string \<Rightarrow> string \<Rightarrow> PollType \<Rightarrow> CorbaPollMessage" where
  "handle_date_reg C date h registrar type =
     (PollMsg_HandleDateReg (wrap_string_to_corba_string h)
        (wrap_string_to_corba_string (iso_extended_day C date)) (wrap_string_to_corba_string registrar), type)"

primrec wrap_transfer_event_into_poll_message ::
  "('x) corba_poll_scheme \<Rightarrow> TransferEvent \<Rightarrow> CorbaPollMessage" where
  "wrap_transfer_event_into_poll_message C (TransferContact date h registrar) =
     handle_date_reg C date h registrar polltype_transfer_contact"
| "wrap_transfer_event_into_poll_message C (TransferNsset date h registrar) =
     handle_date_reg C date h registrar polltype_transfer_nsset"
| "wrap_transfer_event_into_poll_message C (TransferDomain date h registrar) =
     handle_date_reg C date h registrar polltype_transfer_domain"
| "wrap_transfer_event_into_poll_message C (TransferKeyset date h registrar) =
     handle_date_reg C date h registrar polltype_transfer_keyset"

text \<open>The registrar stays empty; a deletion looks the same whatever its cause.\<close>

primrec wrap_message_event_into_poll_message ::
  "('x) corba_poll_scheme \<Rightarrow> MessageEvent \<Rightarrow> CorbaPollMessage" where
  "wrap_message_event_into_poll_message C (DeleteDomain date h) = handle_date_reg C date h [] polltype_delete_domain"
| "wrap_message_event_into_poll_message C (DeleteContact date h) = handle_date_reg C date h [] polltype_delete_contact"
| "wrap_message_event_into_poll_message C (Validation date h) = handle_date_reg C date h [] polltype_validation"
| "wrap_message_event_into_poll_message C (Outzone date h) = handle_date_reg C date h [] polltype_outzone"
| "wrap_message_event_into_poll_message C (IdleDeleteContact date h) = handle_date_reg C date h [] polltype_delete_contact"
| "wrap_message_event_into_poll_message C (IdleDeleteNsset date h) = handle_date_reg C date h [] polltype_delete_nsset"
| "wrap_message_event_into_poll_message C (IdleDeleteDomain date h) = handle_date_reg C date h [] polltype_delete_domain"
| "wrap_message_event_into_poll_message C (IdleDeleteKeyset date h) = handle_date_reg C date h [] polltype_delete_keyset"
| "wrap_message_event_into_poll_message C (ImpExpiration date h) = handle_date_reg C date h [] polltype_impexpiration"
| "wrap_message_event_into_poll_message C (Expiration date h) = handle_date_reg C date h [] polltype_expiration"
| "wrap_message_event_into_poll_message C (ImpValidation date h) = handle_date_reg C date h [] polltype_impvalidation"

definition wrap_low_credit_event_into_poll_message ::
  "('x) corba_poll_scheme \<Rightarrow> LowCreditEvent \<Rightarrow> CorbaPollMessage" where
  "wrap_low_credit_event_into_poll_message C src =
     (PollMsg_LowCredit (wrap_string_to_corba_string (low_credit_zone src))
        (wrap_string_to_corba_string (get_string_2f C (low_credit_limit src)))
        (wrap_string_to_corba_string (get_string_2f C (low_credit_credit src))), polltype_lowcredit)"

definition wrap_test :: "('x) corba_poll_scheme \<Rightarrow> Test \<Rightarrow> exn + TestResult_str" where
  "wrap_test C t =
     (case is_test_successful t of
        Inl e \<Rightarrow> Inl e
      | Inr successful \<Rightarrow>
          (case wrap_int (greatest_test_status C) (if successful then 1 else 0) of
             Inl e \<Rightarrow> Inl e
           | Inr status \<Rightarrow> Inr
               \<lparr>corba_testname = wrap_string_to_corba_string (testname t), corba_status = status,
                corba_note = wrap_string_to_corba_string (test_note t)\<rparr>))"

definition wrap_tech_check_event_into_poll_message ::
  "('x) corba_poll_scheme \<Rightarrow> TechCheckEvent \<Rightarrow> exn + CorbaPollMessage" where
  "wrap_tech_check_event_into_poll_message C src =
     (case unwrap_sequence (wrap_test C) (techcheck_tests src) of
        Inl e \<Rightarrow> Inl e
      | Inr tests \<Rightarrow> Inr
          (PollMsg_Techcheck (wrap_string_to_corba_string (techcheck_handle src))
             (map wrap_string_to_corba_string (techcheck_fqdns src)) tests, polltype_techcheck))"

text \<open>The end of the period is the last second of it.\<close>

definition wrap_low_request_fee_info_event_into_poll_message ::
  "('x) corba_poll_scheme \<Rightarrow> RequestFeeInfoEvent \<Rightarrow> exn + CorbaPollMessage" where
  "wrap_low_request_fee_info_event_into_poll_message C src =
     (case wrap_int (greatest_fee_count C) (unat (fee_free_count src)) of
        Inl e \<Rightarrow> Inl e
      | Inr free_count \<Rightarrow>
          (case wrap_int (greatest_fee_count C) (unat (fee_used_count src)) of
             Inl e \<Rightarrow> Inl e
           | Inr used_count \<Rightarrow> Inr
               (PollMsg_RequestFeeInfo
                  (wrap_string_to_corba_string (convert_time_to_local_rfc3339 C (fee_from src)))
                  (wrap_string_to_corba_string
                     (convert_time_to_local_rfc3339 C (fee_to src - 1000000)))
                  free_count used_count (wrap_string_to_corba_string (get_string_2f C (fee_price src))),
                polltype_request_fee_info)))"

definition wrap_update_data ::
  "('x) corba_poll_scheme \<Rightarrow> u64 \<Rightarrow> u64 \<Rightarrow> PollType \<Rightarrow> exn + CorbaPollMessage" where
  "wrap_update_data C transaction_id poll_id type =
     (case wrap_int (greatest_poll_id C) (unat poll_id) of
        Inl e \<Rightarrow> Inl e
      | Inr n \<Rightarrow> Inr (PollMsg_Update (wrap_string_to_corba_string (make_svtrid C transaction_id)) n, type))"

primrec wrap_update_info_event_into_poll_message ::
  "('x) corba_poll_scheme \<Rightarrow> UpdateInfoEvent \<Rightarrow> exn + CorbaPollMessage" where
  "wrap_update_info_event_into_poll_message C (UpdateContact transaction_id poll_id) =
     wrap_update_data C transaction_id poll_id polltype_update_contact"
| "wrap_update_info_event_into_poll_message C (UpdateDomain transaction_id poll_id) =
     wrap_update_data C transaction_id poll_id polltype_update_domain"
| "wrap_update_info_event_into_poll_message C (UpdateNsset transaction_id poll_id) =
     wrap_update_data C transaction_id poll_id polltype_update_nsset"
| "wrap_update_info_event_into_poll_message C (UpdateKeyset transaction_id poll_id) =
     wrap_update_data C transaction_id poll_id polltype_update_keyset"

primrec wrap_into_poll_message :: "('x) corba_poll_scheme \<Rightarrow> PollMessage \<Rightarrow> exn + CorbaPollMessage" where
  "wrap_into_poll_message C (Message_TransferEvent e) = Inr (wrap_transfer_event_into_poll_message C e)"
| "wrap_into_poll_message C (Message_MessageEvent e) = Inr (wrap_message_event_into_poll_message C e)"
| "wrap_into_poll_message C (Message_LowCreditEvent e) = Inr (wrap_low_credit_event_into_poll_message C e)"
| "wrap_into_poll_message C (Message_TechCheckEvent e) = wrap_tech_check_event_into_poll_message C e"
| "wrap_into_poll_message C (Message_RequestFeeInfoEvent e) = wrap_low_request_fee_info_event_into_poll_message C e"
| "wrap_into_poll_message C (Message_UpdateInfoEvent e) = wrap_update_info_event_into_poll_message C e"

section \<open>Polling and acknowledging\<close>

text \<open>
  \<^verbatim>\<open>CORBA::ULongLong\<close> has the width of the number of messages. The commands get the identification
  of the registrar and the language, not the session data.
\<close>

definition no_messages :: "('x) corba_poll_scheme \<Rightarrow> SessionLang \<Rightarrow> string \<Rightarrow> servant_exception" where
  "no_messages C l svtrid =
     (let code = success_value command_completed_successfully_no_messages in
      NoMessagesThrown code (GetErrorMessage C code l) svtrid)"

definition PollAcknowledgement ::
  "('c) corba_poll_scheme \<Rightarrow> ('x poll_db_scheme, 'e) outside_scheme \<Rightarrow> ('x poll_db_scheme, 'y) poll_queries_scheme \<Rightarrow>
     ('x poll_db_scheme, 'z) database_scheme \<Rightarrow> (string \<Rightarrow> u64 option) \<Rightarrow> cstring \<Rightarrow> EppParams \<Rightarrow>
     ('x poll_db_scheme server, servant_exception, Response \<times> u64 \<times> string) op" where
  "PollAcknowledgement C E P D lexical_cast message params = epp_request C params (\<lambda>p svtrid.
     bindE (on_sessions (get_registrar_session_data E (session_id p))) (\<lambda>d.
     bindE (converted (unwrap_string_from_const_char_ptr message)) (\<lambda>message_id.
     bindE (on_db (poll_acknowledgement_localized P D lexical_cast message_id
              (session_registrar_id d) (session_language d))) (\<lambda>(response, number, oldest).
     throw_if (number = 0) (no_messages C (session_language d) svtrid) (
     bindE (converted (wrap_Epp_EppResponseSuccessLocalized C response svtrid)) (\<lambda>return_value.
     returnE (return_value, number, wrap_string_to_corba_string oldest)))))))"

definition PollRequest ::
  "('c) corba_poll_scheme \<Rightarrow> ('x poll_db_scheme, 'e) outside_scheme \<Rightarrow> ('x poll_db_scheme, 'y) poll_queries_scheme \<Rightarrow>
     ('x poll_db_scheme, 'z) database_scheme \<Rightarrow> EppParams \<Rightarrow>
     ('x poll_db_scheme server, servant_exception,
      Response \<times> string \<times> u64 \<times> string \<times> CorbaPollMessage) op" where
  "PollRequest C E P D params = epp_request C params (\<lambda>p svtrid.
     bindE (on_sessions (get_registrar_session_data E (session_id p))) (\<lambda>d.
     bindE (on_db (poll_request_localized P D (session_registrar_id d) (session_language d)))
       (\<lambda>(response, data).
     case (number_of_unseen_messages data = 0, polled data) of
       (False, Some (message_id, creation_time, message)) \<Rightarrow>
         bindE (converted (wrap_into_poll_message C message)) (\<lambda>message_and_type.
         let create_time = wrap_string_to_corba_string (convert_time_to_local_rfc3339 C creation_time);
             msg_id = wrap_string_to_corba_string (digits (unat message_id)) in
         bindE (converted (wrap_Epp_EppResponseSuccessLocalized C response svtrid)) (\<lambda>return_value.
         returnE (return_value, msg_id, number_of_unseen_messages data, create_time, message_and_type)))
     | _ \<Rightarrow> throwE (no_messages C (session_language d) svtrid))))"

section \<open>Credit\<close>

text \<open>A decimal number as text is that of the decimal library, a parameter.\<close>

record ZoneCredit_str =
  credit_zone_fqdn :: string
  credit_price :: string

definition wrap_ZoneCredit :: "('m \<Rightarrow> string) \<Rightarrow> 'm ZoneCredit \<Rightarrow> exn + ZoneCredit_str" where
  "wrap_ZoneCredit get_string src =
     (if has_credit src
      then (case get_credit src of
              Inl e \<Rightarrow> Inl e
            | Inr c \<Rightarrow> Inr \<lparr>credit_zone_fqdn = wrap_string_to_corba_string (zone_fqdn src),
                            credit_price = wrap_string_to_corba_string (get_string c)\<rparr>)
      else Inr \<lparr>credit_zone_fqdn = wrap_string_to_corba_string (zone_fqdn src),
                credit_price = wrap_string_to_corba_string ''0''\<rparr>)"

definition wrap_ClientCreditOutputData :: "('m \<Rightarrow> string) \<Rightarrow> 'm ZoneCredit list \<Rightarrow> exn + ZoneCredit_str list" where
  "wrap_ClientCreditOutputData get_string src = unwrap_sequence (wrap_ZoneCredit get_string) src"

definition ClientCredit ::
  "('c) corba_scheme \<Rightarrow> ('db, 'e) outside_scheme \<Rightarrow> ('db, 'm, 'x) libfred_credit_scheme \<Rightarrow>
     ('db, 'y) database_scheme \<Rightarrow> ('m \<Rightarrow> string) \<Rightarrow> EppParams \<Rightarrow>
     ('db server, servant_exception, Response \<times> ZoneCredit_str list) op" where
  "ClientCredit C E L D get_string params = epp_request C params (\<lambda>p svtrid.
     bindE (session_data E p svtrid) (\<lambda>session.
     bindE (on_db (client_credit_localized L D session)) (\<lambda>(response, data).
     bindE (converted (wrap_ClientCreditOutputData get_string data)) (\<lambda>zone_credit.
     bindE (converted (wrap_Epp_EppResponseSuccessLocalized C response svtrid)) (\<lambda>return_value.
     returnE (return_value, zone_credit))))))"

section \<open>Authorization information\<close>

definition contactSendAuthInfo ::
  "('c) corba_scheme \<Rightarrow> ('db, 'e) outside_scheme \<Rightarrow> ('db, 'x) libfred_request_scheme \<Rightarrow>
     ('db, 'y) database_scheme \<Rightarrow> cstring \<Rightarrow> EppParams \<Rightarrow> ('db server, servant_exception, Response) op" where
  "contactSendAuthInfo C E L D h params = epp_request C params (\<lambda>p svtrid.
     bindE (session_data_with E p svtrid (log_request_id p)) (\<lambda>session.
     bindE (on_db (authinfo_contact_localized L D (unwrap_string h) session)) (\<lambda>response.
     converted (wrap_Epp_EppResponseSuccessLocalized C response svtrid))))"

definition nssetSendAuthInfo ::
  "('c) corba_scheme \<Rightarrow> ('db, 'e) outside_scheme \<Rightarrow> ('db, 'x) libfred_request_scheme \<Rightarrow>
     ('db, 'y) database_scheme \<Rightarrow> cstring \<Rightarrow> EppParams \<Rightarrow> ('db server, servant_exception, Response) op" where
  "nssetSendAuthInfo C E L D h params = epp_request C params (\<lambda>p svtrid.
     bindE (session_data_with E p svtrid (log_request_id p)) (\<lambda>session.
     bindE (on_db (authinfo_nsset_localized L D (unwrap_string h) session)) (\<lambda>response.
     converted (wrap_Epp_EppResponseSuccessLocalized C response svtrid))))"

definition domainSendAuthInfo ::
  "('c) corba_scheme \<Rightarrow> ('db, 'e) outside_scheme \<Rightarrow> ('db, 'x) libfred_request_scheme \<Rightarrow>
     ('db, 'y) database_scheme \<Rightarrow> cstring \<Rightarrow> EppParams \<Rightarrow> ('db server, servant_exception, Response) op" where
  "domainSendAuthInfo C E L D fqdn params = epp_request C params (\<lambda>p svtrid.
     bindE (session_data_with E p svtrid (log_request_id p)) (\<lambda>session.
     bindE (on_db (authinfo_domain_localized L D (unwrap_string fqdn) session)) (\<lambda>response.
     converted (wrap_Epp_EppResponseSuccessLocalized C response svtrid))))"

definition keysetSendAuthInfo ::
  "('c) corba_scheme \<Rightarrow> ('db, 'e) outside_scheme \<Rightarrow> ('db, 'x) libfred_request_scheme \<Rightarrow>
     ('db, 'y) database_scheme \<Rightarrow> cstring \<Rightarrow> EppParams \<Rightarrow> ('db server, servant_exception, Response) op" where
  "keysetSendAuthInfo C E L D h params = epp_request C params (\<lambda>p svtrid.
     bindE (session_data_with E p svtrid (log_request_id p)) (\<lambda>session.
     bindE (on_db (authinfo_keyset_localized L D (unwrap_string h) session)) (\<lambda>response.
     converted (wrap_Epp_EppResponseSuccessLocalized C response svtrid))))"

end
