(* ===== verification/Epp_Poll_Details.thy ===== *)
theory Epp_Poll_Details
  imports Epp_Poll Contact_Localized Keyset_Localized Nsset_Commands Domain_Localized
begin

text \<open>
  The two states of an object a message about its update tells of:
  \<^verbatim>\<open>poll/poll_request_get_update_*_details.cc\<close> and their localized entry points. The history
  before the update and the one it started are found by a statement over the tables of messages and
  histories, which are part of the state; reading an object as it was in a history is LibFred's.
\<close>

section \<open>Tables and queries\<close>

text \<open>
  \<open>poll_eppaction\<close> has the pairs \<^verbatim>\<open>msgid\<close>, \<^verbatim>\<open>objid\<close>, the tables of the object types their
  \<^verbatim>\<open>historyid\<close>, and \<open>history\<close> the pairs \<^verbatim>\<open>id\<close>, \<^verbatim>\<open>next\<close>.
\<close>

record update_tables = poll_db +
  poll_eppaction :: "(u64 \<times> u64) list"
  contact_history :: "u64 list"
  domain_history :: "u64 list"
  nsset_history :: "u64 list"
  keyset_history :: "u64 list"
  history_table :: "(u64 \<times> u64 option) list"

text \<open>The joins, in the order they are written; the registrar the message is for is not compared.\<close>

definition update_history_rows ::
  "u64 list \<Rightarrow> MessageType \<Rightarrow> u64 \<Rightarrow> 'x update_tables_scheme \<Rightarrow> (u64 \<times> u64) list" where
  "update_history_rows object_history message_type message_id db =
     [(h1_id, objid).
        (msgid, objid) \<leftarrow> poll_eppaction db, msgid = message_id,
        historyid \<leftarrow> object_history, historyid = objid,
        (h1_id, h1_next) \<leftarrow> history_table db, h1_next = Some objid,
        m \<leftarrow> message_table db, msg_id m = msgid,
        (mt_id, mt_name) \<leftarrow> messagetype_table db,
        mt_id = msg_type m \<and> mt_name = message_type_to_db_handle message_type]"

text \<open>The history before the update and the one after it.\<close>

definition update_histories ::
  "('x update_tables_scheme, 'y) poll_queries_scheme \<Rightarrow> ('x update_tables_scheme \<Rightarrow> u64 list) \<Rightarrow> MessageType \<Rightarrow>
     u64 \<Rightarrow> ('x update_tables_scheme, exn, u64 \<times> u64) op" where
  "update_histories P object_history message_type message_id =
     bindE (liftE (param_bigint P message_id)) (\<lambda>msgid.
     bindE (query (\<lambda>db. update_history_rows (object_history db) message_type msgid db)) (\<lambda>rows.
     bindE (liftE (single_event_row rows)) (\<lambda>(h1_id, h1_next).
     bindE (liftE (value_to_ull P (Some h1_id))) (\<lambda>old_history_id.
     bindE (liftE (value_to_ull P (Some h1_next))) (\<lambda>new_history_id.
     returnE (old_history_id, new_history_id))))))"

section \<open>Objects as they were\<close>

text \<open>The states of an object when a history began and when it ended, and the object in a history.\<close>

record 'db libfred_history =
  GetObjectStatesByHistoryId :: "u64 \<Rightarrow> ('db, exn, ObjectStateData list \<times> ObjectStateData list) op"
  InfoContactHistoryByHistoryid :: "u64 \<Rightarrow> ('db, exn, InfoContactData) op"
  InfoDomainHistoryByHistoryid :: "u64 \<Rightarrow> ('db, exn, InfoDomainData) op"
  InfoNssetHistoryByHistoryid :: "u64 \<Rightarrow> ('db, exn, InfoNssetData) op"
  InfoKeysetHistoryByHistoryid :: "u64 \<Rightarrow> ('db, exn, InfoKeysetData) op"

record 'd HistoryData =
  old_data :: 'd
  new_data :: 'd

text \<open>What the four functions \<^verbatim>\<open>get_history_*_data\<close> share.\<close>

definition get_history_data ::
  "('db, 'y) libfred_history_scheme \<Rightarrow> (u64 \<Rightarrow> ('db, exn, 'i) op) \<Rightarrow>
     ('i \<Rightarrow> ObjectStateData list \<Rightarrow> exn + 'd) \<Rightarrow> u64 \<Rightarrow> u64 \<Rightarrow> ('db, exn, 'd HistoryData) op" where
  "get_history_data H info get_output old_history_id new_history_id =
     bindE (info old_history_id) (\<lambda>old_history_data.
     bindE (GetObjectStatesByHistoryId H old_history_id) (\<lambda>(_, old_at_end).
     bindE (info new_history_id) (\<lambda>new_history_data.
     bindE (GetObjectStatesByHistoryId H new_history_id) (\<lambda>(new_at_begin, _).
     bindE (liftE (get_output old_history_data old_at_end)) (\<lambda>old.
     bindE (liftE (get_output new_history_data new_at_begin)) (\<lambda>new.
     returnE \<lparr>old_data = old, new_data = new\<rparr>))))))"

text \<open>
  The registrar is looked up, but for a contact its handle only tells whether to include a password,
  which the output no longer has, and for a domain it is not used. The policy on private data is not
  applied.
\<close>

definition get_history_contact_data ::
  "('db, 'x) libfred_contact_scheme \<Rightarrow> ('db, 'y) libfred_history_scheme \<Rightarrow> u64 \<Rightarrow> u64 \<Rightarrow> u64 \<Rightarrow>
     ('db, exn, InfoContactOutputData HistoryData) op" where
  "get_history_contact_data L H registrar old_history_id new_history_id =
     bindE (InfoRegistrarById L registrar) (\<lambda>_.
     get_history_data H (InfoContactHistoryByHistoryid H) (get_info_contact_output L)
       old_history_id new_history_id)"

definition get_history_domain_data ::
  "('db, 'x) libfred_domain_scheme \<Rightarrow> ('db, 'y) libfred_history_scheme \<Rightarrow> u64 \<Rightarrow> u64 \<Rightarrow> u64 \<Rightarrow>
     ('db, exn, InfoDomainOutputData HistoryData) op" where
  "get_history_domain_data L H registrar old_history_id new_history_id =
     bindE (InfoRegistrarById L registrar) (\<lambda>_.
     get_history_data H (InfoDomainHistoryByHistoryid H) (get_info_domain_output (object_state_from_db_handle L))
       old_history_id new_history_id)"

definition get_history_nsset_data ::
  "('db, 'x) libfred_nsset_scheme \<Rightarrow> ('db, 'y) libfred_history_scheme \<Rightarrow> u64 \<Rightarrow> u64 \<Rightarrow>
     ('db, exn, InfoNssetOutputData HistoryData) op" where
  "get_history_nsset_data L H old_history_id new_history_id =
     get_history_data H (InfoNssetHistoryByHistoryid H) (get_info_nsset_output (object_state_from_db_handle L))
       old_history_id new_history_id"

definition get_history_keyset_data ::
  "('db, 'x) libfred_keyset_scheme \<Rightarrow> ('db, 'y) libfred_history_scheme \<Rightarrow> u64 \<Rightarrow> u64 \<Rightarrow>
     ('db, exn, InfoKeysetOutputData HistoryData) op" where
  "get_history_keyset_data L H old_history_id new_history_id =
     get_history_data H (InfoKeysetHistoryByHistoryid H) (get_info_keyset_output (object_state_from_db_handle L))
       old_history_id new_history_id"

section \<open>The details of an update\<close>

text \<open>The two handlers: exceptions of the reading of histories and of LibFred's operations.\<close>

definition translate_history_exception :: "exn \<Rightarrow> ('db, exn, 'a) op" where
  "translate_history_exception e =
     (case e of LibfredException _ \<Rightarrow> throwE (fail_with command_failed) | _ \<Rightarrow> throwE e)"

definition poll_request_get_update_contact_details ::
  "('x update_tables_scheme, 'y) poll_queries_scheme \<Rightarrow> ('x update_tables_scheme, 'z) libfred_contact_scheme \<Rightarrow>
     ('x update_tables_scheme, 'h) libfred_history_scheme \<Rightarrow> u64 \<Rightarrow> u64 \<Rightarrow>
     ('x update_tables_scheme, exn, InfoContactOutputData HistoryData) op" where
  "poll_request_get_update_contact_details P L H message_id registrar =
     throw_if (registrar = 0) (fail_with authentication_error_server_closing_connection) (
     bindE (update_histories P contact_history MessageType_update_contact message_id) (\<lambda>(old_id, new_id).
     catchE (get_history_contact_data L H registrar old_id new_id) translate_history_exception))"

definition poll_request_get_update_domain_details ::
  "('x update_tables_scheme, 'y) poll_queries_scheme \<Rightarrow> ('x update_tables_scheme, 'z) libfred_domain_scheme \<Rightarrow>
     ('x update_tables_scheme, 'h) libfred_history_scheme \<Rightarrow> u64 \<Rightarrow> u64 \<Rightarrow>
     ('x update_tables_scheme, exn, InfoDomainOutputData HistoryData) op" where
  "poll_request_get_update_domain_details P L H message_id registrar =
     throw_if (registrar = 0) (fail_with authentication_error_server_closing_connection) (
     bindE (update_histories P domain_history MessageType_update_domain message_id) (\<lambda>(old_id, new_id).
     catchE (get_history_domain_data L H registrar old_id new_id) translate_history_exception))"

definition poll_request_get_update_nsset_details ::
  "('x update_tables_scheme, 'y) poll_queries_scheme \<Rightarrow> ('x update_tables_scheme, 'z) libfred_nsset_scheme \<Rightarrow>
     ('x update_tables_scheme, 'h) libfred_history_scheme \<Rightarrow> u64 \<Rightarrow> u64 \<Rightarrow>
     ('x update_tables_scheme, exn, InfoNssetOutputData HistoryData) op" where
  "poll_request_get_update_nsset_details P L H message_id registrar =
     throw_if (registrar = 0) (fail_with authentication_error_server_closing_connection) (
     bindE (update_histories P nsset_history MessageType_update_nsset message_id) (\<lambda>(old_id, new_id).
     catchE (get_history_nsset_data L H old_id new_id) translate_history_exception))"

definition poll_request_get_update_keyset_details ::
  "('x update_tables_scheme, 'y) poll_queries_scheme \<Rightarrow> ('x update_tables_scheme, 'z) libfred_keyset_scheme \<Rightarrow>
     ('x update_tables_scheme, 'h) libfred_history_scheme \<Rightarrow> u64 \<Rightarrow> u64 \<Rightarrow>
     ('x update_tables_scheme, exn, InfoKeysetOutputData HistoryData) op" where
  "poll_request_get_update_keyset_details P L H message_id registrar =
     throw_if (registrar = 0) (fail_with authentication_error_server_closing_connection) (
     bindE (update_histories P keyset_history MessageType_update_keyset message_id) (\<lambda>(old_id, new_id).
     catchE (get_history_keyset_data L H old_id new_id) translate_history_exception))"

section \<open>In the language of the session\<close>

definition localize_history_contact ::
  "('db, 'y) database_scheme \<Rightarrow> SessionLang \<Rightarrow> InfoContactOutputData \<Rightarrow>
     ('db, exn, InfoContactLocalizedOutputData) op" where
  "localize_history_contact D l src =
     bindE (localize_object_states D contact_status_to_object_state
              (filter (\<lambda>v. v \<in> icon_states src) contact_status_values) l) (\<lambda>states.
     bindE (liftE (make_with_the_same_privacy (icon_address src)
              (to_localized_address (hideable_value (icon_address src))))) (\<lambda>address.
     returnE \<lparr>
       lcon_handle = icon_handle src,
       lcon_roid = icon_roid src,
       lcon_sponsoring_registrar_handle = icon_sponsoring_registrar_handle src,
       lcon_creating_registrar_handle = icon_creating_registrar_handle src,
       lcon_last_update_registrar_handle = icon_last_update_registrar_handle src,
       lcon_localized_external_states = states,
       lcon_crdate = icon_crdate src,
       lcon_last_update = icon_last_update src,
       lcon_last_transfer = icon_last_transfer src,
       lcon_name = icon_name src,
       lcon_organization = icon_organization src,
       lcon_address = address,
       lcon_mailing_address = icon_mailing_address src,
       lcon_telephone = icon_telephone src,
       lcon_fax = icon_fax src,
       lcon_email = icon_email src,
       lcon_notify_email = icon_notify_email src,
       lcon_vat = icon_vat src,
       lcon_ident = icon_personal_id src\<rparr>))"

definition localize_history_domain ::
  "('db, 'y) database_scheme \<Rightarrow> SessionLang \<Rightarrow> InfoDomainOutputData \<Rightarrow>
     ('db, exn, InfoDomainLocalizedOutputData) op" where
  "localize_history_domain D l data =
     bindE (localize_object_states D domain_status_to_object_state
              (filter (\<lambda>v. v \<in> domout_states data) domain_status_values) l) (\<lambda>states.
     returnE \<lparr>
       domloc_roid = domout_roid data,
       domloc_fqdn = domout_fqdn data,
       domloc_registrant = domout_registrant data,
       domloc_nsset = domout_nsset data,
       domloc_keyset = domout_keyset data,
       domain_localized_external_states = states,
       domloc_sponsoring_registrar_handle = domout_sponsoring_registrar_handle data,
       domloc_creating_registrar_handle = domout_creating_registrar_handle data,
       domloc_last_update_registrar_handle = domout_last_update_registrar_handle data,
       domloc_crdate = domout_crdate data,
       domloc_last_update = domout_last_update data,
       domloc_last_transfer = domout_last_transfer data,
       domloc_exdate = domout_exdate data,
       domloc_admin = domout_admin data,
       domloc_ext_enum_domain_validation = domout_ext_enum_domain_validation data,
       domloc_tmpcontact = domout_tmpcontact data\<rparr>)"

definition localize_history_nsset ::
  "('db, 'y) database_scheme \<Rightarrow> SessionLang \<Rightarrow> InfoNssetOutputData \<Rightarrow>
     ('db, exn, InfoNssetLocalizedOutputData) op" where
  "localize_history_nsset D l data =
     bindE (localize_object_states D nsset_status_to_object_state
              (filter (\<lambda>v. v \<in> nsout_states data) nsset_status_values) l) (\<lambda>states.
     returnE \<lparr>
       nsloc_handle = nsout_handle data,
       nsloc_roid = nsout_roid data,
       nsloc_sponsoring_registrar_handle = nsout_sponsoring_registrar_handle data,
       nsloc_creating_registrar_handle = nsout_creating_registrar_handle data,
       nsloc_last_update_registrar_handle = nsout_last_update_registrar_handle data,
       nsset_localized_external_states = states,
       nsloc_crdate = nsout_crdate data,
       nsloc_last_update = nsout_last_update data,
       nsloc_last_transfer = nsout_last_transfer data,
       nsloc_dns_hosts = nsout_dns_hosts data,
       nsloc_tech_contacts = nsout_tech_contacts data,
       nsloc_tech_check_level = nsout_tech_check_level data\<rparr>)"

definition localize_history_keyset ::
  "('db, 'y) database_scheme \<Rightarrow> SessionLang \<Rightarrow> InfoKeysetOutputData \<Rightarrow>
     ('db, exn, InfoKeysetLocalizedOutputData) op" where
  "localize_history_keyset D l data =
     bindE (localize_object_states D keyset_status_to_object_state
              (filter (\<lambda>v. v \<in> out_states data) keyset_status_values) l) (\<lambda>states.
     returnE \<lparr>
       loc_handle = out_handle data,
       loc_roid = out_roid data,
       loc_sponsoring_registrar_handle = out_sponsoring_registrar_handle data,
       loc_creating_registrar_handle = out_creating_registrar_handle data,
       loc_last_update_registrar_handle = out_last_update_registrar_handle data,
       localized_external_states = states,
       loc_crdate = out_crdate data,
       loc_last_update = out_last_update data,
       loc_last_transfer = out_last_transfer data,
       loc_ds_records = out_ds_records data,
       loc_dns_keys = out_dns_keys data,
       loc_tech_contacts = out_tech_contacts data\<rparr>)"

text \<open>
  The frame the four entry points share; which of the two states is localized first is left open by
  the language, and neither changes anything. Nothing is committed.
\<close>

definition update_details_localized ::
  "('db, 'y) database_scheme \<Rightarrow> ('db, exn, 'd HistoryData) op \<Rightarrow>
     (SessionLang \<Rightarrow> 'd \<Rightarrow> ('db, exn, 'l) op) \<Rightarrow> SessionData \<Rightarrow>
     ('db, thrown, EppResponseSuccessLocalized \<times> 'l HistoryData) op" where
  "update_details_localized D details localize session =
     try_localized D (lang session) (with_context D (
       bindE (on_working details) (\<lambda>output_data.
       bindE (on_working (localize (lang session) (old_data output_data))) (\<lambda>old.
       bindE (on_working (localize (lang session) (new_data output_data))) (\<lambda>new.
       bindE (on_working (response_success_localized D command_completed_successfully (lang session)))
         (\<lambda>response.
       returnE (response, \<lparr>old_data = old, new_data = new\<rparr>)))))))"

definition poll_request_get_update_contact_details_localized ::
  "('x update_tables_scheme, 'y) poll_queries_scheme \<Rightarrow> ('x update_tables_scheme, 'z) libfred_contact_scheme \<Rightarrow>
     ('x update_tables_scheme, 'h) libfred_history_scheme \<Rightarrow> ('x update_tables_scheme, 'd) database_scheme \<Rightarrow>
     u64 \<Rightarrow> SessionData \<Rightarrow>
     ('x update_tables_scheme, thrown,
      EppResponseSuccessLocalized \<times> InfoContactLocalizedOutputData HistoryData) op" where
  "poll_request_get_update_contact_details_localized P L H D message_id session =
     update_details_localized D
       (poll_request_get_update_contact_details P L H message_id (registrar_id session))
       (localize_history_contact D) session"

definition poll_request_get_update_domain_details_localized ::
  "('x update_tables_scheme, 'y) poll_queries_scheme \<Rightarrow> ('x update_tables_scheme, 'z) libfred_domain_scheme \<Rightarrow>
     ('x update_tables_scheme, 'h) libfred_history_scheme \<Rightarrow> ('x update_tables_scheme, 'd) database_scheme \<Rightarrow>
     u64 \<Rightarrow> SessionData \<Rightarrow>
     ('x update_tables_scheme, thrown,
      EppResponseSuccessLocalized \<times> InfoDomainLocalizedOutputData HistoryData) op" where
  "poll_request_get_update_domain_details_localized P L H D message_id session =
     update_details_localized D
       (poll_request_get_update_domain_details P L H message_id (registrar_id session))
       (localize_history_domain D) session"

definition poll_request_get_update_nsset_details_localized ::
  "('x update_tables_scheme, 'y) poll_queries_scheme \<Rightarrow> ('x update_tables_scheme, 'z) libfred_nsset_scheme \<Rightarrow>
     ('x update_tables_scheme, 'h) libfred_history_scheme \<Rightarrow> ('x update_tables_scheme, 'd) database_scheme \<Rightarrow>
     u64 \<Rightarrow> SessionData \<Rightarrow>
     ('x update_tables_scheme, thrown,
      EppResponseSuccessLocalized \<times> InfoNssetLocalizedOutputData HistoryData) op" where
  "poll_request_get_update_nsset_details_localized P L H D message_id session =
     update_details_localized D
       (poll_request_get_update_nsset_details P L H message_id (registrar_id session))
       (localize_history_nsset D) session"

definition poll_request_get_update_keyset_details_localized ::
  "('x update_tables_scheme, 'y) poll_queries_scheme \<Rightarrow> ('x update_tables_scheme, 'z) libfred_keyset_scheme \<Rightarrow>
     ('x update_tables_scheme, 'h) libfred_history_scheme \<Rightarrow> ('x update_tables_scheme, 'd) database_scheme \<Rightarrow>
     u64 \<Rightarrow> SessionData \<Rightarrow>
     ('x update_tables_scheme, thrown,
      EppResponseSuccessLocalized \<times> InfoKeysetLocalizedOutputData HistoryData) op" where
  "poll_request_get_update_keyset_details_localized P L H D message_id session =
     update_details_localized D
       (poll_request_get_update_keyset_details P L H message_id (registrar_id session))
       (localize_history_keyset D) session"

section \<open>What is answered\<close>

text \<open>Nobody without a registrar is answered.\<close>

lemma update_details_refuse:
  "poll_request_get_update_contact_details P LC H n 0 db =
     (Inl (fail_with authentication_error_server_closing_connection), db)"
  "poll_request_get_update_domain_details P LD H n 0 db =
     (Inl (fail_with authentication_error_server_closing_connection), db)"
  "poll_request_get_update_nsset_details P LN H n 0 db =
     (Inl (fail_with authentication_error_server_closing_connection), db)"
  "poll_request_get_update_keyset_details P LK H n 0 db =
     (Inl (fail_with authentication_error_server_closing_connection), db)"
  by (simp_all add: poll_request_get_update_contact_details_def poll_request_get_update_domain_details_def
      poll_request_get_update_nsset_details_def poll_request_get_update_keyset_details_def op_simps)

text \<open>
  Two registrars LibFred knows are answered the same: who asks does not matter, only the number of
  the message does.
\<close>

lemma update_contact_details_for_anybody:
  assumes "r1 \<noteq> 0" and "r2 \<noteq> 0" and "reads (InfoRegistrarById L r1) db d1" and "reads (InfoRegistrarById L r2) db d2"
  shows "poll_request_get_update_contact_details P L H n r1 db =
    poll_request_get_update_contact_details P L H n r2 db"
proof -
  have state: "snd (update_histories P contact_history MessageType_update_contact n db) = db"
    by (simp add: update_histories_def op_simps bindE_def liftE_def query_def split: sum.split prod.split)
  have "get_history_contact_data L H r1 old_id new_id db = get_history_contact_data L H r2 old_id new_id db"
    for old_id new_id
    by (simp add: get_history_contact_data_def bindE_reads [OF assms(3)] bindE_reads [OF assms(4)])
  then show ?thesis
    using assms(1,2) state unfolding poll_request_get_update_contact_details_def throw_if_def
    by (auto simp: bindE_def catchE_def split: sum.split prod.split)
qed

end
