(* ===== verification/Corba_Poll_Details.thy ===== *)
theory Corba_Poll_Details
  imports Corba_Contact Corba_Keyset Corba_Nsset Corba_Domain Epp_Poll_Details
begin

text \<open>
  The methods of the servant for the details of an update
  (\<^verbatim>\<open>PollRequestGetUpdate*Details\<close> of \<^verbatim>\<open>epp_impl.cc\<close>). They return the two states of
  the object in their output parameters and drop the response.
\<close>

definition PollRequestGetUpdateContactDetails ::
  "('c) corba_scheme \<Rightarrow> ('x update_tables_scheme, 'e) outside_scheme \<Rightarrow>
     ('x update_tables_scheme, 'y) poll_queries_scheme \<Rightarrow> ('x update_tables_scheme, 'z) libfred_contact_scheme \<Rightarrow>
     ('x update_tables_scheme, 'h) libfred_history_scheme \<Rightarrow> ('x update_tables_scheme, 'd) database_scheme \<Rightarrow>
     u64 \<Rightarrow> EppParams \<Rightarrow> ('x update_tables_scheme server, servant_exception, CorbaContact \<times> CorbaContact) op" where
  "PollRequestGetUpdateContactDetails C E P L H D message_id params = epp_request C params (\<lambda>p svtrid.
     bindE (session_data E p svtrid) (\<lambda>session.
     bindE (on_db (poll_request_get_update_contact_details_localized P L H D message_id session)) (\<lambda>(_, data).
     bindE (converted (wrap_InfoContactLocalizedOutputData C (old_data data))) (\<lambda>old.
     bindE (converted (wrap_InfoContactLocalizedOutputData C (new_data data))) (\<lambda>new.
     returnE (old, new))))))"

definition PollRequestGetUpdateDomainDetails ::
  "('c) domain_corba_scheme \<Rightarrow> ('x update_tables_scheme, 'e) outside_scheme \<Rightarrow>
     ('x update_tables_scheme, 'y) poll_queries_scheme \<Rightarrow> ('x update_tables_scheme, 'z) libfred_domain_scheme \<Rightarrow>
     ('x update_tables_scheme, 'h) libfred_history_scheme \<Rightarrow> ('x update_tables_scheme, 'd) database_scheme \<Rightarrow>
     u64 \<Rightarrow> EppParams \<Rightarrow> ('x update_tables_scheme server, servant_exception, CorbaDomain \<times> CorbaDomain) op" where
  "PollRequestGetUpdateDomainDetails C E P L H D message_id params = epp_request C params (\<lambda>p svtrid.
     bindE (session_data E p svtrid) (\<lambda>session.
     bindE (on_db (poll_request_get_update_domain_details_localized P L H D message_id session)) (\<lambda>(_, data).
     returnE (wrap_Epp_Domain_InfoDomainLocalizedOutputData C (old_data data),
              wrap_Epp_Domain_InfoDomainLocalizedOutputData C (new_data data)))))"

definition PollRequestGetUpdateNSSetDetails ::
  "('c) nsset_corba_scheme \<Rightarrow> ('x update_tables_scheme, 'e) outside_scheme \<Rightarrow>
     ('x update_tables_scheme, 'y) poll_queries_scheme \<Rightarrow> ('x update_tables_scheme, 'z) libfred_nsset_scheme \<Rightarrow>
     ('x update_tables_scheme, 'h) libfred_history_scheme \<Rightarrow> ('x update_tables_scheme, 'd) database_scheme \<Rightarrow>
     u64 \<Rightarrow> EppParams \<Rightarrow> ('x update_tables_scheme server, servant_exception, CorbaNSSet \<times> CorbaNSSet) op" where
  "PollRequestGetUpdateNSSetDetails C E P L H D message_id params = epp_request C params (\<lambda>p svtrid.
     bindE (session_data E p svtrid) (\<lambda>session.
     bindE (on_db (poll_request_get_update_nsset_details_localized P L H D message_id session)) (\<lambda>(_, data).
     bindE (converted (wrap_localized_info_nsset C (old_data data))) (\<lambda>old.
     bindE (converted (wrap_localized_info_nsset C (new_data data))) (\<lambda>new.
     returnE (old, new))))))"

definition PollRequestGetUpdateKeySetDetails ::
  "('c) corba_scheme \<Rightarrow> ('x update_tables_scheme, 'e) outside_scheme \<Rightarrow>
     ('x update_tables_scheme, 'y) poll_queries_scheme \<Rightarrow> ('x update_tables_scheme, 'z) libfred_keyset_scheme \<Rightarrow>
     ('x update_tables_scheme, 'h) libfred_history_scheme \<Rightarrow> ('x update_tables_scheme, 'd) database_scheme \<Rightarrow>
     u64 \<Rightarrow> EppParams \<Rightarrow> ('x update_tables_scheme server, servant_exception, CorbaKeySet \<times> CorbaKeySet) op" where
  "PollRequestGetUpdateKeySetDetails C E P L H D message_id params = epp_request C params (\<lambda>p svtrid.
     bindE (session_data E p svtrid) (\<lambda>session.
     bindE (on_db (poll_request_get_update_keyset_details_localized P L H D message_id session)) (\<lambda>(_, data).
     returnE (wrap_InfoKeysetLocalizedOutputData C (old_data data),
              wrap_InfoKeysetLocalizedOutputData C (new_data data)))))"

end
