(* ===== verification/Session_Registry.thy ===== *)
theory Session_Registry
  imports Session_Container
begin

text \<open>
  The container of sessions as a state machine: the calls of its methods, interleaved with whatever
  happens outside, and what the rest of the server relies on: a map from the numbers handed out to
  the registrars that logged in. The lemmas here lead to the properties of the container.
\<close>

section \<open>The calls\<close>

datatype session_event =
    LoggedIn u64 u32 u32
  | LoginRefused session_error
  | LoggedOut u64
  | RegistrarDestroyed u64
  | RegistrarAsked u64 u32
  | LanguageAsked u64 u32
  | InternalError session_error
  | OutsideStep

inductive session_step ::
  "('w, 'x) outside_scheme \<Rightarrow> EppSessionContainer \<times> 'w \<Rightarrow> session_event \<Rightarrow> EppSessionContainer \<times> 'w \<Rightarrow> bool"
  for E where
  login: "login_session E regId lng (c, w) = Some (Inr loginId, st') \<Longrightarrow>
    session_step E (c, w) (LoggedIn loginId regId lng) st'"
| login_refused: "login_session E regId lng (c, w) = Some (Inl e, st') \<Longrightarrow>
    session_step E (c, w) (LoginRefused e) st'"
| logout: "logout_session loginId c = (Inr (), c') \<Longrightarrow>
    session_step E (c, w) (LoggedOut loginId) (c', w)"
| logout_error: "logout_session loginId c = (Inl e, c') \<Longrightarrow>
    session_step E (c, w) (InternalError e) (c', w)"
| destroy: "destroy_all_registrar_sessions reg c = Some (Inr (), c') \<Longrightarrow>
    session_step E (c, w) (RegistrarDestroyed reg) (c', w)"
| destroy_error: "destroy_all_registrar_sessions reg c = Some (Inl e, c') \<Longrightarrow>
    session_step E (c, w) (InternalError e) (c', w)"
| ask_registrar: "get_registrar_id E loginId (c, w) = (Inr regId, st') \<Longrightarrow>
    session_step E (c, w) (RegistrarAsked loginId regId) st'"
| ask_registrar_error: "get_registrar_id E loginId (c, w) = (Inl e, st') \<Longrightarrow>
    session_step E (c, w) (InternalError e) st'"
| ask_language: "get_registrar_lang loginId c = lng \<Longrightarrow>
    session_step E (c, w) (LanguageAsked loginId lng) (c, w)"
| outside: "session_step E (c, w) OutsideStep (c, w')"

inductive session_run ::
  "('w, 'x) outside_scheme \<Rightarrow> EppSessionContainer \<times> 'w \<Rightarrow> session_event list \<Rightarrow> EppSessionContainer \<times> 'w \<Rightarrow> bool"
  for E where
  start: "session_run E st [] st"
| further: "session_run E st evs st' \<Longrightarrow> session_step E st' ev st'' \<Longrightarrow> session_run E st (evs @ [ev]) st''"

inductive_cases session_run_snoc: "session_run E st (evs @ [ev]) st''"

section \<open>The specification: who is logged in\<close>

type_synonym registry = "u64 \<rightharpoonup> u32 \<times> u32"

text \<open>
  A login gives out a number not in use and may forget sessions, which have expired; a logout and
  the removal of a registrar forget exactly their sessions; the questions are answered from the map.
\<close>

inductive registry_step :: "registry \<Rightarrow> session_event \<Rightarrow> registry \<Rightarrow> bool" where
  "opened' \<subseteq>\<^sub>m opened \<Longrightarrow> opened' loginId = None \<Longrightarrow>
   registry_step opened (LoggedIn loginId regId lng) (opened'(loginId \<mapsto> (regId, lng)))"
| "opened' \<subseteq>\<^sub>m opened \<Longrightarrow> registry_step opened (LoginRefused e) opened'"
| "registry_step opened (LoggedOut loginId) (opened(loginId := None))"
| "registry_step opened (RegistrarDestroyed reg)
     (\<lambda>k. case opened k of Some (r, l) \<Rightarrow> if scast r = reg then None else Some (r, l) | None \<Rightarrow> None)"
| "regId = (case opened loginId of Some (r, l) \<Rightarrow> r | None \<Rightarrow> 0) \<Longrightarrow>
   registry_step opened (RegistrarAsked loginId regId) opened"
| "lng = (case opened loginId of Some (r, l) \<Rightarrow> l | None \<Rightarrow> 0) \<Longrightarrow>
   registry_step opened (LanguageAsked loginId lng) opened"
| "registry_step opened OutsideStep opened"

inductive_cases registry_login: "registry_step opened (LoggedIn loginId regId lng) opened'"
inductive_cases registry_refused: "registry_step opened (LoginRefused e) opened'"
inductive_cases registry_logout: "registry_step opened (LoggedOut loginId) opened'"
inductive_cases registry_destroyed: "registry_step opened (RegistrarDestroyed reg) opened'"
inductive_cases registry_asked: "registry_step opened (RegistrarAsked loginId regId) opened'"
inductive_cases registry_language: "registry_step opened (LanguageAsked loginId lng) opened'"
inductive_cases registry_error: "registry_step opened (InternalError e) opened'"
inductive_cases registry_outside: "registry_step opened OutsideStep opened'"

definition registry_of :: "EppSessionContainer \<Rightarrow> registry" where
  "registry_of c = (\<lambda>k. map_option (\<lambda>s. (registrarID s, language s)) (find_session k c))"

section \<open>Every call implements its specification\<close>

lemma registry_filter:
  assumes "sorted_sessions c" "sessions c' = filter P (sessions c)"
  shows "registry_of c' k = (case find_session k c of None \<Rightarrow> None
    | Some s \<Rightarrow> if P (k, s) then Some (registrarID s, language s) else None)"
  using find_filter [of "sessions c" k P] assms
  by (simp add: registry_of_def sorted_sessions_def split: option.splits)

lemma registry_filter_le:
  "sorted_sessions c \<Longrightarrow> sessions c' = filter P (sessions c) \<Longrightarrow> registry_of c' \<subseteq>\<^sub>m registry_of c"
  unfolding map_le_def
  by (auto simp: registry_filter dom_def split: option.splits if_splits) (simp_all add: registry_of_def)

lemma assign_middle:
  "sorted_wrt u64_less (map fst (pre @ (k, s) # suf)) \<Longrightarrow>
   map_assign u64_less k v (pre @ (k, s) # suf) = pre @ (k, v) # suf"
proof (induction pre)
  case (Cons p pre)
  obtain k' s' where p: "p = (k', s')" by (cases p)
  have "u64_less k' k" using Cons.prems by (simp add: p)
  then have "\<not> u64_less k k'" by (simp add: u64_less_def)
  with Cons \<open>u64_less k' k\<close> show ?case by (simp add: p)
qed (simp add: u64_less.less_irrefl)

lemma ucast_scast_int: "ucast (scast (r :: u32) :: u64) = r"
  by (rule bit_word_eqI) (auto simp: bit_simps bit_word_scast_iff)

lemma ask_run:
  "get_registrar_id E loginId (c, w) =
     (case find_session loginId c of
        None \<Rightarrow> (Inr 0, c, w)
      | Some s \<Rightarrow> (Inr (registrarID s),
          c\<lparr>sessions := map_assign u64_less loginId (s\<lparr>timestamp := fst (time_now E w)\<rparr>) (sessions c)\<rparr>,
          snd (time_now E w)))"
  by (auto simp: get_registrar_id_def update_timestamp_def bindE_def returnE_def ucast_scast_int
      split: option.splits prod.splits)

lemma ask_fields:
  assumes "find_session loginId c = Some s"
    and "c' = c\<lparr>sessions := map_assign u64_less loginId (s\<lparr>timestamp := now\<rparr>) (sessions c)\<rparr>"
  shows "registry_of c' = registry_of c" "container_inv c \<Longrightarrow> container_inv c'"
proof -
  have "registry_of c' k = registry_of c k" for k
    using assms(1)
    by (simp add: assms(2) registry_of_def u64_less.map_find_assign u64_less.equivalent_key)
  then show "registry_of c' = registry_of c" by blast
  show "container_inv c'" if inv: "container_inv c"
  proof -
    have sorted: "sorted_sessions c"
      using inv by (simp add: container_inv_def)
    obtain pre suf where here: "sessions c = pre @ (loginId, s) # suf"
      using find_session_split [OF sorted assms(1)] by blast
    have there: "sessions c' = pre @ (loginId, s\<lparr>timestamp := now\<rparr>) # suf"
      using assign_middle [of pre loginId s suf] sorted by (simp add: assms(2) here sorted_sessions_def)
    have "sessions_of c' r = sessions_of c r" for r
      by (simp add: sessions_of_def here there)
    moreover have "length (sessions c') = length (sessions c)"
      by (simp add: here there)
    moreover have "reg_sessions_count c' r = reg_sessions_count c r" for r
      by (simp add: reg_sessions_count_def assms(2))
    moreover have "sorted_sessions c'"
      using inv by (simp add: container_inv_def sorted_sessions_def here there)
    moreover have "same_limits c c'"
      by (simp add: same_limits_def assms(2))
    ultimately show ?thesis
      using inv by (simp add: container_inv_def counted_def limits_kept_def same_limits_def)
  qed
qed

lemma ask_outcome:
  assumes "container_inv c" "get_registrar_id E loginId (c, w) = (r, c', w')"
  shows "r = Inr (case registry_of c loginId of Some (reg, _) \<Rightarrow> reg | None \<Rightarrow> 0) \<and>
    registry_of c' = registry_of c \<and> container_inv c' \<and> same_limits c c'"
proof (cases "find_session loginId c")
  case None
  with assms show ?thesis by (auto simp: ask_run registry_of_def)
next
  case (Some s)
  note fields = ask_fields [OF Some refl, of "fst (time_now E w)"]
  show ?thesis
    using assms fields Some by (auto simp: ask_run registry_of_def [of c] same_limits_def)
qed

lemma u64_order: "u64_less = (\<lambda>k k'. unat k < unat k')"
  by (intro ext) (simp add: u64_less_def word_less_nat_alt)

lemma same_registrar: "(scast (r :: u32) :: u64) \<noteq> reg \<longleftrightarrow> sint r \<noteq> sint reg"
proof -
  have "sint (scast r :: u64) = sint r" by (simp add: sint_up_scast is_up)
  then show ?thesis by (metis word_eq_iff_signed)
qed

lemma registry_None: "registry_of c k = None \<longleftrightarrow> find_session k c = None"
  by (simp add: registry_of_def)

lemma new_session_registry:
  "registry_of (with_new_session loginId regId lng now c) = (registry_of c)(loginId \<mapsto> (regId, lng))"
  by (rule ext)
    (simp add: registry_of_def with_new_session_def u64_less.map_find_assign u64_less.equivalent_key)

lemma login_simulated:
  assumes inv: "container_inv c" and run: "login_session E regId lng (c, w) = Some (r, c', w')"
  shows "container_inv c' \<and> same_limits c c' \<and>
    (case r of Inr loginId \<Rightarrow> registry_step (registry_of c) (LoggedIn loginId regId lng) (registry_of c')
     | Inl e \<Rightarrow> registry_step (registry_of c) (LoginRefused e) (registry_of c'))"
proof -
  obtain now w1 where now: "time_now E w = (now, w1)" by fastforce
  obtain c1 where c1: "container_inv c1" "same_limits c c1"
      "sessions c1 = filter (\<lambda>(_, s). \<not> session_expired (session_timeout_sec c) now s) (sessions c)"
      "login_session E regId lng (c, w) = Some (login_outcome E regId lng (c1, w1))"
    using login_run [OF inv now] by blast
  have outcome: "login_outcome E regId lng (c1, w1) = (r, c', w')"
    using c1(4) run by simp
  have le: "registry_of c1 \<subseteq>\<^sub>m registry_of c"
    using registry_filter_le [OF _ c1(3)] inv by (simp add: container_inv_def)
  have "case r of Inr loginId \<Rightarrow> registry_step (registry_of c) (LoggedIn loginId regId lng) (registry_of c')
     | Inl e \<Rightarrow> registry_step (registry_of c) (LoginRefused e) (registry_of c')"
    using outcome le
    by (auto simp: login_outcome_def new_session_registry registry_None split: if_splits prod.splits sum.splits
        intro!: registry_step.intros)
  then show ?thesis
    using login_outcome_inv [OF c1(1) outcome] c1(2) same_limits_trans by blast
qed

lemma logout_simulated:
  assumes inv: "container_inv c" and run: "logout_session loginId c = (r, c')"
  shows "container_inv c' \<and> same_limits c c' \<and> r = Inr () \<and>
    registry_step (registry_of c) (LoggedOut loginId) (registry_of c')"
proof -
  have sorted: "sorted_sessions c" and counted: "counted c"
    using inv by (simp_all add: container_inv_def)
  have c': "r = Inr ()" "sorted_sessions c'" "counted c'" "same_limits c c'"
      "sessions c' = filter (\<lambda>(k', _). k' \<noteq> loginId) (sessions c)"
    using worker_run [OF sorted counted, of loginId] run by (auto simp: logout_session_def)
  have "registry_of c' = (registry_of c)(loginId := None)"
    by (rule ext) (auto simp: registry_filter [OF sorted c'(5)] registry_of_def [of c] split: option.splits)
  then show ?thesis
    using inv_fewer [OF inv c'(2-5)] c' by (simp add: registry_step.intros)
qed

lemma destroy_simulated:
  assumes inv: "container_inv c" and run: "destroy_all_registrar_sessions reg c = Some (r, c')"
  shows "container_inv c' \<and> same_limits c c' \<and> r = Inr () \<and>
    registry_step (registry_of c) (RegistrarDestroyed reg) (registry_of c')"
proof -
  have sorted: "sorted_sessions c" and counted: "counted c"
    using inv by (simp_all add: container_inv_def)
  have c': "r = Inr ()" "sorted_sessions c'" "counted c'" "same_limits c c'"
      "sessions c' = filter (\<lambda>(_, s). scast (registrarID s) \<noteq> reg) (sessions c)"
    using destroy_run [OF sorted, of reg] counted run by auto
  have "registry_of c' = (\<lambda>k. case registry_of c k of Some (r, l) \<Rightarrow> if scast r = reg then None else Some (r, l)
      | None \<Rightarrow> None)"
    by (rule ext) (simp add: registry_filter [OF sorted c'(5)] registry_of_def [of c] split: option.splits)
  then show ?thesis
    using inv_fewer [OF inv c'(2-5)] c' by (simp add: registry_step.intros)
qed

lemma language_answer:
  "get_registrar_lang loginId c = (case registry_of c loginId of Some (_, l) \<Rightarrow> l | None \<Rightarrow> 0)"
  by (simp add: get_registrar_lang_def registry_of_def split: option.splits)

lemma step_simulated:
  assumes "session_step E (c, w) ev (c', w')" "container_inv c"
  shows "container_inv c' \<and> same_limits c c' \<and> registry_step (registry_of c) ev (registry_of c')"
  using assms(1)
proof (cases rule: session_step.cases)
  case login
  then show ?thesis using login_simulated [OF assms(2)] by fastforce
next
  case login_refused
  then show ?thesis using login_simulated [OF assms(2)] by fastforce
next
  case logout
  then show ?thesis using logout_simulated [OF assms(2)] by blast
next
  case logout_error
  then show ?thesis using logout_simulated [OF assms(2)] by blast
next
  case destroy
  then show ?thesis using destroy_simulated [OF assms(2)] by blast
next
  case destroy_error
  then show ?thesis using destroy_simulated [OF assms(2)] by blast
next
  case ask_registrar
  then show ?thesis
    using ask_outcome [OF assms(2) ask_registrar(2)] by (auto intro: registry_step.intros)
next
  case ask_registrar_error
  then show ?thesis using ask_outcome [OF assms(2) ask_registrar_error(2)] by simp
next
  case ask_language
  then show ?thesis using assms(2) by (auto simp: language_answer intro: registry_step.intros)
next
  case outside
  then show ?thesis using assms(2) by (auto intro: registry_step.intros)
qed

lemma run_inv:
  "session_run E st evs st' \<Longrightarrow> container_inv (fst st) \<Longrightarrow>
   container_inv (fst st') \<and> same_limits (fst st) (fst st')"
proof (induction rule: session_run.induct)
  case (further st evs st' ev st'')
  then show ?case
    using step_simulated [of E "fst st'" "snd st'" ev "fst st''" "snd st''"] same_limits_trans
    by simp blast
qed simp

lemma new_container_inv: "container_inv (new_container total_limit reg_limit wait)"
  by (simp add: container_inv_def new_container_def sorted_sessions_def counted_def limits_kept_def
      sessions_of_def reg_sessions_count_def)

lemma run_from_start:
  assumes "session_run E (new_container total_limit reg_limit wait, w) evs (c, w')"
  shows "container_inv c" "max_total_sessions c = total_limit" "max_reg_sessions c = reg_limit"
  using run_inv [OF assms] new_container_inv
  by (simp_all add: same_limits_def new_container_def)

text \<open>A number known to the map was given out by a login and not taken back since.\<close>

definition logged_in :: "u64 \<Rightarrow> u32 \<Rightarrow> u32 \<Rightarrow> session_event list \<Rightarrow> bool" where
  "logged_in loginId r l evs \<longleftrightarrow> (\<exists>before after. evs = before @ LoggedIn loginId r l # after \<and>
     LoggedOut loginId \<notin> set after \<and> RegistrarDestroyed (scast r) \<notin> set after)"

lemma logged_in_snoc:
  "logged_in loginId r l evs \<Longrightarrow> ev \<noteq> LoggedOut loginId \<Longrightarrow> ev \<noteq> RegistrarDestroyed (scast r) \<Longrightarrow>
   logged_in loginId r l (evs @ [ev])"
proof -
  assume "logged_in loginId r l evs" and ev: "ev \<noteq> LoggedOut loginId" "ev \<noteq> RegistrarDestroyed (scast r)"
  then obtain before after where "evs = before @ LoggedIn loginId r l # after"
      "LoggedOut loginId \<notin> set after" "RegistrarDestroyed (scast r) \<notin> set after"
    by (auto simp: logged_in_def)
  then show ?thesis
    using ev unfolding logged_in_def by (intro exI [of _ before] exI [of _ "after @ [ev]"]) simp
qed

lemma registry_step_known:
  assumes "registry_step opened ev opened'" "opened' loginId = Some (r, l)"
  shows "ev = LoggedIn loginId r l \<or>
    opened loginId = Some (r, l) \<and> ev \<noteq> LoggedOut loginId \<and> ev \<noteq> RegistrarDestroyed (scast r)"
  using assms
  by (cases rule: registry_step.cases) (auto simp: map_le_def dom_def split: if_splits option.splits)

lemma run_known:
  "session_run E st evs st' \<Longrightarrow> container_inv (fst st) \<Longrightarrow> sessions (fst st) = [] \<Longrightarrow>
   registry_of (fst st') loginId = Some (r, l) \<Longrightarrow> logged_in loginId r l evs"
proof (induction rule: session_run.induct)
  case (start st)
  then show ?case by (simp add: registry_of_def)
next
  case (further st evs st' ev st'')
  have "registry_step (registry_of (fst st')) ev (registry_of (fst st''))"
    using step_simulated [of E "fst st'" "snd st'" ev "fst st''" "snd st''"] further.hyps
      run_inv further.prems(1) by fastforce
  then consider "ev = LoggedIn loginId r l" | "registry_of (fst st') loginId = Some (r, l)"
      "ev \<noteq> LoggedOut loginId" "ev \<noteq> RegistrarDestroyed (scast r)"
    using registry_step_known further.prems(3) by blast
  then show ?case
  proof cases
    case 1
    then show ?thesis
      unfolding logged_in_def by (intro exI [of _ evs] exI [of _ "[]"]) simp
  next
    case 2
    then show ?thesis using further.IH further.prems logged_in_snoc by blast
  qed
qed

lemma run_no_error:
  "session_run E st evs st' \<Longrightarrow> container_inv (fst st) \<Longrightarrow> InternalError e \<notin> set evs"
proof (induction rule: session_run.induct)
  case (further st evs st' ev st'')
  have "registry_step (registry_of (fst st')) ev (registry_of (fst st''))"
    using step_simulated [of E "fst st'" "snd st'" ev "fst st''" "snd st''"] further.hyps
      run_inv further.prems by fastforce
  then have "ev \<noteq> InternalError e"
    by (auto elim: registry_error)
  then show ?case using further by simp
qed simp

section \<open>A small world\<close>

text \<open>A clock that ticks when it is read, and a sequence of numbers.\<close>

definition sample_outside :: "(u64 \<times> u64) outside" where
  "sample_outside = \<lparr>time_now = (\<lambda>(t, n). (t, t + 1, n)), next_login_id = (\<lambda>(t, n). (Inr (n + 1), t, n + 1))\<rparr>"

definition sample_container :: EppSessionContainer where
  "sample_container =
     \<lparr>session_timeout_sec = 300, max_total_sessions = 2, max_reg_sessions = 1,
      sessions = [(1, \<lparr>registrarID = 7, language = 1, timestamp = 1001\<rparr>)], registrar_session_count = [(7, 1)]\<rparr>"

lemmas container_run = login_session_def garbage_session_internal_def session_loop.simps map_begin_def
  open_session_def reg_sessions_count_def logout_session_worker_def

lemma sample_login:
  "login_session sample_outside 7 1 (new_container 2 1 300, 1000, 0) = Some (Inr 1, sample_container, 1002, 1)"
  by (simp add: container_run new_container_def sample_outside_def sample_container_def)

lemma sample_run:
  "session_run sample_outside (new_container 2 1 300, 1000, 0) [LoggedIn 1 7 1] (sample_container, 1002, 1)"
  using session_run.further [OF session_run.start session_step.login [OF sample_login]] by simp

lemma sample_asked:
  "get_registrar_id sample_outside 1 (sample_container, 1002, 1) =
     (Inr 7, sample_container\<lparr>sessions := [(1, \<lparr>registrarID = 7, language = 1, timestamp = 1002\<rparr>)]\<rparr>, 1003, 1)"
  by (simp add: ask_run sample_container_def sample_outside_def u64_less_def equivalent_def)

lemma sample_container_inv: "container_inv sample_container"
  using run_from_start(1) [OF sample_run] .

section \<open>Properties\<close>

text \<open>C28: the sessions never exceed the limits.

  Whatever calls are made in whatever order, the sessions are sorted by their number, no number
  twice; there are never more sessions than the total limit and no registrar has more than its limit;
  the counter of every registrar is the number of its sessions, so that the error about inconsistent
  counters never occurs.
\<close>

theorem session_limits:
  assumes "session_run E (new_container total_limit reg_limit wait, w) evs (c, w')"
  shows "sorted_wrt (\<lambda>k k'. unat k < unat k') (map fst (sessions c)) \<and>
    length (sessions c) \<le> unat total_limit \<and> sessions_of c r \<le> unat reg_limit \<and>
    unat (reg_sessions_count c r) = sessions_of c r \<and> InternalError e \<notin> set evs"
  using run_from_start [OF assms] run_no_error [OF assms] new_container_inv
  by (simp add: container_inv_def limits_kept_def counted_def sorted_sessions_def u64_order)

theorem session_limits_witness:
  "sorted_wrt (\<lambda>k k'. unat k < unat k') (map fst (sessions sample_container)) \<and>
    length (sessions sample_container) \<le> unat (2 :: u32) \<and> sessions_of sample_container 7 \<le> unat (1 :: u32) \<and>
    unat (reg_sessions_count sample_container 7) = sessions_of sample_container 7 \<and>
    InternalError (SessionError []) \<notin> set [LoggedIn 1 7 1]"
  by (rule session_limits [OF sample_run])

text \<open>C29: the loops that log sessions out return, and log out the right ones.

  The removal of the expired sessions, that of all sessions of a registrar and the login erase
  elements of the map they go through: in every state of the container, with whatever counters, the
  loop ends and never uses an iterator of an element that is gone. In a container whose counters are
  right it ends without an exception, the counters stay right, and exactly those sessions are left
  that have not expired, or that belong to other registrars; a login goes on to open the session
  among those that have not expired.
\<close>

theorem session_loops_return:
  fixes E :: "('w, 'x) outside_scheme"
  assumes "sorted_sessions c"
  shows "(\<exists>r c'. garbage_session_internal now c = Some (r, c')) \<and>
    (\<exists>r c'. destroy_all_registrar_sessions reg c = Some (r, c')) \<and>
    (\<exists>r c' w'. login_session E regId lng (c, w) = Some (r, c', w')) \<and>
    (counted c \<longrightarrow>
      (\<exists>c'. garbage_session_internal now c = Some (Inr (), c') \<and> counted c' \<and> same_limits c c' \<and>
        sessions c' = filter (\<lambda>(_, s). \<not> sint (timestamp s + ucast (session_timeout_sec c)) < sint now) (sessions c)) \<and>
      (\<exists>c'. destroy_all_registrar_sessions reg c = Some (Inr (), c') \<and> counted c' \<and> same_limits c c' \<and>
        sessions c' = filter (\<lambda>(_, s). sint (registrarID s) \<noteq> sint reg) (sessions c)) \<and>
      (\<exists>c'. login_session E regId lng (c, w) = Some (open_session E regId lng (c', snd (time_now E w))) \<and>
        counted c' \<and> same_limits c c' \<and>
        sessions c' = filter (\<lambda>(_, s). \<not> sint (timestamp s + ucast (session_timeout_sec c)) <
          sint (fst (time_now E w))) (sessions c)))"
proof -
  obtain now' w1 where now: "time_now E w = (now', w1)" by fastforce
  obtain r c1 where loop: "garbage_session_internal now' c = Some (r, c1)" "counted c \<longrightarrow> r = Inr () \<and> counted c1 \<and>
      sessions c1 = filter (\<lambda>(_, s). \<not> session_expired (session_timeout_sec c) now' s) (sessions c)" "same_limits c c1"
    using garbage_run [OF assms] by blast
  obtain r' c' w' where "open_session E regId lng (c1, w1) = (r', c', w')"
    using prod_cases3 by blast
  with loop now have "\<exists>r c' w'. login_session E regId lng (c, w) = Some (r, c', w')"
    by (cases r) (simp_all add: login_session_def)
  moreover have "login_session E regId lng (c, w) = Some (open_session E regId lng (c1, snd (time_now E w)))" if "counted c"
    using loop now that by (simp add: login_session_def)
  ultimately show ?thesis
    using garbage_run [OF assms, of now, unfolded session_expired_def] destroy_run [OF assms, of reg]
      loop(2,3) [unfolded session_expired_def] now
    by (simp only: same_registrar fst_conv) blast
qed

theorem session_loops_return_witness:
  "(\<exists>c'. garbage_session_internal 2000 sample_container = Some (Inr (), c') \<and> sessions c' = []) \<and>
    (\<exists>c'. destroy_all_registrar_sessions 8 sample_container = Some (Inr (), c') \<and>
      sessions c' = sessions sample_container) \<and>
    (\<exists>r c' w'. login_session sample_outside 8 0 (sample_container, 1002, 1) = Some (r, c', w'))"
proof -
  have "sorted_sessions sample_container" "counted sample_container"
    using sample_container_inv by (simp_all add: container_inv_def)
  then show ?thesis
    using session_loops_return [of sample_container 2000 8 sample_outside 8 0 "(1002, 1)"]
    by (auto simp: sample_container_def)
qed

text \<open>What a login does.

  First exactly the sessions not used for the time allowed are removed. Then the login is refused
  when the number of all sessions, or the number of sessions of the registrar, has reached its
  limit, when the database gives no number or one in use; otherwise the session is entered under
  the number, with the registrar, the language and the time.
\<close>

lemma login_session_outcome:
  assumes "container_inv c" "time_now E w = (now, w1)"
  shows "\<exists>c1. container_inv c1 \<and> same_limits c c1 \<and>
    sessions c1 = filter (\<lambda>(_, s). \<not> session_expired (session_timeout_sec c) now s) (sessions c) \<and>
    login_session E regId lng (c, w) = Some (login_outcome E regId lng (c1, w1))"
  using login_run [OF assms] by blast

text \<open>C30: the container implements a map from session numbers to registrars.

  In every state that can be reached, every call does to the map of those logged in what its
  specification says: a login enters a number that is not in use and forgets expired sessions at
  most, a logout and the removal of a registrar forget exactly their sessions, and the questions for
  the registrar and the language of a session are answered from the map.
\<close>

theorem container_refines_registry:
  assumes "session_run E (new_container total_limit reg_limit wait, w) evs (c, w')"
    and "session_step E (c, w') ev (c', w'')"
  shows "registry_step (registry_of c) ev (registry_of c')"
  using step_simulated [OF assms(2)] run_from_start(1) [OF assms(1)] by blast

theorem container_refines_registry_witness:
  "registry_step (registry_of sample_container) (RegistrarAsked 1 7)
    (registry_of (sample_container\<lparr>sessions := [(1, \<lparr>registrarID = 7, language = 1, timestamp = 1002\<rparr>)]\<rparr>))"
  by (rule container_refines_registry [OF sample_run session_step.ask_registrar [OF sample_asked]])

text \<open>C31: a request acts for the registrar that logged in.

  When the question for the registrar of a session is answered with a registrar, then this session
  number was given out by a login of that registrar, and since then neither the session was logged
  out nor were the sessions of the registrar removed.
\<close>

theorem session_identity:
  assumes "session_run E (new_container total_limit reg_limit wait, w) evs (c, w')"
    and "get_registrar_id E loginId (c, w') = (Inr r, st)" "r \<noteq> 0"
  shows "\<exists>before after lng. evs = before @ LoggedIn loginId r lng # after \<and>
    LoggedOut loginId \<notin> set after \<and> RegistrarDestroyed (scast r) \<notin> set after"
proof -
  obtain c' w'' where st: "st = (c', w'')" by (cases st)
  have "(case registry_of c loginId of Some (reg, _) \<Rightarrow> reg | None \<Rightarrow> 0) = r"
    using ask_outcome [OF run_from_start(1) [OF assms(1)] assms(2) [unfolded st]] by simp
  then obtain lng where "registry_of c loginId = Some (r, lng)"
    using assms(3) by (auto split: option.splits)
  then have "logged_in loginId r lng evs"
    using run_known [OF assms(1), of loginId r lng] new_container_inv by (simp add: new_container_def)
  then show ?thesis
    unfolding logged_in_def by blast
qed

theorem session_identity_witness:
  "\<exists>before after lng. [LoggedIn 1 7 1] = before @ LoggedIn 1 7 lng # after \<and>
    LoggedOut 1 \<notin> set after \<and> RegistrarDestroyed (scast (7 :: u32)) \<notin> set after"
  by (rule session_identity [OF sample_run sample_asked]) simp

end
