(* ===== verification/Corba_Properties.thy ===== *)
theory Corba_Properties
  imports Corba_Contact Corba_Keyset Corba_Nsset Corba_Domain Corba_Poll Corba_Poll_Details Session_Registry
    Keyset_Sample
begin

text \<open>
  The servant as a whole: what a request under a number that is not a session gets, on whose behalf
  a request is carried out, and what the conversions between the interface and the commands keep.
\<close>

section \<open>Requests that are refused\<close>

definition refused :: "('s, 'e, 'a) op \<Rightarrow> 's \<Rightarrow> bool" where
  "refused m s \<longleftrightarrow> (\<exists>e. m s = (Inl e, s))"

definition fails :: "('s, 'e, 'a) op \<Rightarrow> 's \<Rightarrow> bool" where
  "fails m s \<longleftrightarrow> (\<exists>e s'. m s = (Inl e, s'))"

named_theorems refusals "how the parts of a request pass on a refusal"

lemma request_refused [refusals]:
  "(\<And>svtrid. refused (body (unwrap_EppParams params) svtrid) s) \<Longrightarrow> refused (epp_request C params body) s"
proof -
  assume body: "\<And>svtrid. refused (body (unwrap_EppParams params) svtrid) s"
  let ?svtrid = "get_server_transaction_handle C (unwrap_EppParams params)"
  obtain e where e: "body (unwrap_EppParams params) ?svtrid s = (Inl e, s)"
    using body unfolding refused_def by blast
  show ?thesis
  proof (cases e)
    case (FailureThrown failure)
    with e show ?thesis
      by (cases "wrap_Epp_EppResponseFailureLocalized C failure ?svtrid")
        (auto simp: refused_def epp_request_def Let_def catchE_def converted_def bindE_def throwE_def returnE_def)
  qed (use e in \<open>auto simp: refused_def epp_request_def Let_def catchE_def throwE_def\<close>)
qed

lemma converted_refused [refusals]:
  "(\<And>x. refused (f x) s) \<Longrightarrow> refused (bindE (converted r) f) s"
  by (cases r) (auto simp: refused_def converted_def bindE_def throwE_def returnE_def)

lemma on_db_refused [refusals]:
  "refused m db \<Longrightarrow> refused (bindE (on_db m) f) (c, db)"
  by (auto simp: refused_def on_db_def bindE_def split: thrown.split)

lemma let_refused [refusals]: "refused (f v) s \<Longrightarrow> refused (let x = v in f x) s"
  by simp

lemma localized_refused:
  fixes core :: "('db, exn, 'r) op" and k :: "'r \<Rightarrow> ('db operation_context, exn, 'a) op"
  assumes "fails core db"
  shows "refused (try_localized D l (with_context D (bindE (on_working core) k))) db"
proof -
  obtain e where "with_context D (bindE (on_working core) k) db = (Inl e, db)"
    using assms unfolding fails_def
    by (cases "OperationContextCreator D db") (auto simp: with_context_def op_simps)
  moreover obtain t where "(throw_localized D l e :: ('db, thrown, 'a) op) db = (Inl t, db)"
    by (metis throw_localized_stored)
  ultimately show ?thesis
    by (simp add: refused_def try_localized_def)
qed

text \<open>The number of a request that is not one of the open sessions.\<close>

definition not_a_session :: "EppSessionContainer \<Rightarrow> EppParams \<Rightarrow> bool" where
  "not_a_session c params \<longleftrightarrow> find_session (loginID params) c = None"

abbreviation nobody :: "string \<Rightarrow> u64 option \<Rightarrow> SessionData" where
  "nobody svtrid log_id \<equiv> \<lparr>registrar_id = 0, lang = SessionLang_en, server_transaction_handle = svtrid,
     logd_request_id = log_id\<rparr>"

lemma nobody_asks:
  "find_session k c = None \<Longrightarrow>
   get_registrar_session_data E k (c, db) =
     (Inr \<lparr>session_registrar_id = 0, session_language = SessionLang_en\<rparr>, c, db)"
  by (simp add: get_registrar_session_data_def legacy_get_registrar_id_def legacy_get_lang_def ask_run
      get_registrar_lang_def bindE_def returnE_def)

lemma no_session_data [refusals]:
  assumes "find_session (loginID params) c = None" and "\<And>log_id. refused (f (nobody svtrid log_id)) (c, db)"
  shows "refused (bindE (session_data E (unwrap_EppParams params) svtrid) f) (c, db)"
    "refused (bindE (session_data_with E (unwrap_EppParams params) svtrid log_id) f) (c, db)"
  using assms
  by (simp_all add: refused_def session_data_def session_data_with_def on_sessions_def bindE_def nobody_asks
      returnE_def unwrap_EppParams_def)

lemma no_registrar_data [refusals]:
  assumes "find_session (loginID params) c = None"
    and "refused (f \<lparr>session_registrar_id = 0, session_language = SessionLang_en\<rparr>) (c, db)"
  shows "refused (bindE (on_sessions (get_registrar_session_data E (session_id (unwrap_EppParams params)))) f)
    (c, db)"
  using assms by (simp add: refused_def on_sessions_def bindE_def nobody_asks unwrap_EppParams_def)

lemma nobody_invalid [simp]: "\<not> is_session_registrar_valid (nobody svtrid log_id)"
  by (simp add: is_session_registrar_valid_def)

lemma renew_domain_fails:
  "\<not> is_session_registrar_valid session \<Longrightarrow> fails (renew_domain L B data charging session) db"
  by (cases "current_utc_time L db")
    (auto simp: fails_def renew_domain_def bindE_def with_session_refuses split: sum.split)

lemmas fails_when_refuses = fails_def [THEN iffD2, OF exI, OF exI]

lemma keyset_refused [refusals]:
  "refused (create_keyset_localized L D kc (nobody t n) nd) db"
  "refused (update_keyset_localized L D ku (nobody t n) nd) db"
  "refused (delete_keyset_localized L D h (nobody t n) nd) db"
  "refused (transfer_keyset_localized L D h pw (nobody t n) nd) db"
  "refused (info_keyset_localized L D h ipw (nobody t n)) db"
  "refused (check_keyset_localized L D hs (nobody t n)) db"
  unfolding create_keyset_localized_def update_keyset_localized_def delete_keyset_localized_def
    transfer_keyset_localized_def info_keyset_localized_def check_keyset_localized_def
  by (rule localized_refused, rule fails_when_refuses, rule create_keyset.refuses update_keyset.refuses
      delete_keyset.refuses transfer_keyset.refuses info_keyset.refuses check_keyset.refuses, simp)+

lemma nsset_refused [refusals]:
  "refused (create_nsset_localized L D nc cfg (nobody t n) nd) db"
  "refused (update_nsset_localized L D nu ucfg (nobody t n) nd) db"
  "refused (delete_nsset_localized L D h (nobody t n) nd) db"
  "refused (transfer_nsset_localized L D h pw (nobody t n) nd) db"
  "refused (info_nsset_localized L D h ipw (nobody t n)) db"
  "refused (check_nsset_localized L D hs (nobody t n)) db"
  unfolding create_nsset_localized_def update_nsset_localized_def delete_nsset_localized_def
    transfer_nsset_localized_def info_nsset_localized_def check_nsset_localized_def
  by (rule localized_refused, rule fails_when_refuses, rule create_nsset.refuses update_nsset.refuses
      delete_nsset.refuses transfer_nsset.refuses info_nsset.refuses check_nsset.refuses, simp)+

lemma domain_refused [refusals]:
  "refused (create_domain_localized L D B dc charging (nobody t n) nd) db"
  "refused (renew_domain_localized L D B dr charging (nobody t n) nd) db"
  "refused (update_domain_localized L D du ucfg (nobody t n) nd) db"
  "refused (delete_domain_localized L D h (nobody t n) nd) db"
  "refused (transfer_domain_localized L D h pw (nobody t n) nd) db"
  "refused (info_domain_localized L D h ipw (nobody t n)) db"
  "refused (check_domain_localized L D hs (nobody t n)) db"
  unfolding create_domain_localized_def renew_domain_localized_def update_domain_localized_def
    delete_domain_localized_def transfer_domain_localized_def info_domain_localized_def check_domain_localized_def
  by (rule localized_refused, (rule fails_when_refuses, rule create_domain.refuses update_domain.refuses
      delete_domain.refuses transfer_domain.refuses info_domain.refuses check_domain.refuses |
      rule renew_domain_fails), simp)+

lemma update_contact_with_hooks_fails:
  "\<not> is_session_registrar_valid session \<Longrightarrow>
   fails (update_contact_with_hooks L h chg data_filter checks session) db"
  by (simp add: fails_def update_contact_with_hooks_def bindE_def update_contact.refuses)

lemma contact_refused [refusals]:
  "refused (create_contact_localized L D h cd cf (nobody t n) nd) db"
  "refused (update_contact_localized LU D h cu uf checks (nobody t n) nd) db"
  "refused (delete_contact_localized L D h (nobody t n) nd) db"
  "refused (transfer_contact_localized L D h pw (nobody t n) nd) db"
  "refused (info_contact_localized L D h rel ipw (nobody t n)) db"
  "refused (check_contact_localized L D hs (nobody t n)) db"
  unfolding create_contact_localized_def update_contact_localized_def delete_contact_localized_def
    transfer_contact_localized_def info_contact_localized_def check_contact_localized_def
  by (rule localized_refused, (rule fails_when_refuses, rule create_contact.refuses delete_contact.refuses
      transfer_contact.refuses info_contact.refuses check_contact.refuses |
      rule update_contact_with_hooks_fails), simp)+

lemma poll_and_credit_refused [refusals]:
  "refused (poll_request_localized P D 0 l) messages"
  "refused (poll_acknowledgement_localized P D lexical_cast h 0 l) messages"
  "refused (client_credit_localized LC D' (nobody t n)) db"
proof -
  have "fails (poll_acknowledgement_by_text P lexical_cast h 0) messages"
    by (simp add: fails_def poll_acknowledgement_by_text_def poll_acknowledgement_def op_simps split: option.split)
  then show "refused (poll_acknowledgement_localized P D lexical_cast h 0 l) messages"
    unfolding poll_acknowledgement_localized_def by (rule localized_refused)
qed (unfold poll_request_localized_def client_credit_localized_def,
  (rule localized_refused, simp add: fails_def poll_request_def client_credit_def op_simps)+)

lemma contact_methods_refuse:
  assumes "not_a_session c params"
  shows "refused (ContactCheck C E L D handles params) (c, db)"
    "refused (ContactInfo C E L D SC h pw params) (c, db)"
    "refused (ContactDelete C E L D S h params) (c, db)"
    "refused (ContactUpdate C E LU D SC h chg params) (c, db)"
    "refused (ContactCreate C E L D SC h new params) (c, db)"
    "refused (ContactTransfer C E L D S h pw params) (c, db)"
  unfolding ContactCheck_def ContactInfo_def ContactDelete_def ContactUpdate_def ContactCreate_def
    ContactTransfer_def
  by (intro refusals assms [unfolded not_a_session_def])+

lemma keyset_methods_refuse:
  assumes "not_a_session c params"
  shows "refused (KeySetCheck C E L D handles params) (c, db)"
    "refused (KeySetInfo C E L D h pw params) (c, db)"
    "refused (KeySetDelete C E L D S h params) (c, db)"
    "refused (KeySetTransfer C E L D S h pw params) (c, db)"
    "refused (KeySetCreate C E L D S h contacts records keys params) (c, db)"
    "refused (KeySetUpdate C E L D S h pw contacts2 records2 keys2 params) (c, db)"
  unfolding KeySetCheck_def KeySetInfo_def KeySetDelete_def KeySetTransfer_def KeySetCreate_def KeySetUpdate_def
  by (intro refusals assms [unfolded not_a_session_def])+

lemma nsset_methods_refuse:
  assumes "not_a_session c params"
  shows "refused (NSSetCheck C E L D handles params) (c, db)"
    "refused (NSSetInfo CN E L D h pw params) (c, db)"
    "refused (NSSetDelete C E L D S h params) (c, db)"
    "refused (NSSetTransfer C E L D S h pw params) (c, db)"
    "refused (NSSetCreate CN E L D SN h contacts hosts level params) (c, db)"
    "refused (NSSetUpdate CN E L D SN h pw hosts2 contacts2 level params) (c, db)"
  unfolding NSSetCheck_def NSSetInfo_def NSSetDelete_def NSSetTransfer_def NSSetCreate_def NSSetUpdate_def
  by (intro refusals assms [unfolded not_a_session_def])+

lemma domain_methods_refuse:
  assumes "not_a_session c params"
  shows "refused (DomainCheck C E L D handles params) (c, db)"
    "refused (DomainInfo CD E L D h pw params) (c, db)"
    "refused (DomainDelete C E L D S h params) (c, db)"
    "refused (DomainTransfer C E L D S h pw params) (c, db)"
    "refused (DomainUpdate CD E L D SD h registrant upw ns ks contacts params ext) (c, db)"
    "refused (DomainCreate CD E L D B S h registrant cns cks period admins params ext) (c, db)"
    "refused (DomainRenew CD E L D B S h exdate period params ext) (c, db)"
  unfolding DomainCheck_def DomainInfo_def DomainDelete_def DomainTransfer_def DomainUpdate_def
    DomainCreate_def DomainRenew_def
  by (intro refusals assms [unfolded not_a_session_def])+

lemma poll_and_credit_methods_refuse:
  assumes "not_a_session c params"
  shows "refused (PollRequest CP EM P DM params) (c, messages)"
    "refused (PollAcknowledgement CP EM P DM lexical_cast message params) (c, messages)"
    "refused (ClientCredit C E LC D get_string params) (c, db)"
  unfolding PollRequest_def PollAcknowledgement_def ClientCredit_def
  by (intro refusals assms [unfolded not_a_session_def] | simp)+

lemma update_details_refused [refusals]:
  "refused (poll_request_get_update_contact_details_localized PU LCU HU DU message_id (nobody t n)) tables"
  "refused (poll_request_get_update_domain_details_localized PU LDU HU DU message_id (nobody t n)) tables"
  "refused (poll_request_get_update_nsset_details_localized PU LNU HU DU message_id (nobody t n)) tables"
  "refused (poll_request_get_update_keyset_details_localized PU LKU HU DU message_id (nobody t n)) tables"
  unfolding poll_request_get_update_contact_details_localized_def
    poll_request_get_update_domain_details_localized_def poll_request_get_update_nsset_details_localized_def
    poll_request_get_update_keyset_details_localized_def update_details_localized_def
  by (rule localized_refused, simp add: fails_def update_details_refuse)+

lemma update_details_methods_refuse:
  assumes "not_a_session c params"
  shows "refused (PollRequestGetUpdateContactDetails C EU PU LCU HU DU message_id params) (c, tables)"
    "refused (PollRequestGetUpdateDomainDetails CD EU PU LDU HU DU message_id params) (c, tables)"
    "refused (PollRequestGetUpdateNSSetDetails CN EU PU LNU HU DU message_id params) (c, tables)"
    "refused (PollRequestGetUpdateKeySetDetails C EU PU LKU HU DU message_id params) (c, tables)"
  unfolding PollRequestGetUpdateContactDetails_def PollRequestGetUpdateDomainDetails_def
    PollRequestGetUpdateNSSetDetails_def PollRequestGetUpdateKeySetDetails_def
  by (intro refusals assms [unfolded not_a_session_def] | simp)+

section \<open>Requests that are carried out\<close>

lemma request_Inr [op_inv]:
  "epp_request C params body s = (Inr x, s') \<longleftrightarrow>
     body (unwrap_EppParams params) (get_server_transaction_handle C (unwrap_EppParams params)) s = (Inr x, s')"
proof -
  let ?svtrid = "get_server_transaction_handle C (unwrap_EppParams params)"
  obtain r s1 where run: "body (unwrap_EppParams params) ?svtrid s = (r, s1)" by (rule prod.exhaust)
  show ?thesis
  proof (cases r)
    case (Inl e)
    with run show ?thesis
      by (cases e) (auto simp: epp_request_def Let_def catchE_def throwE_def bindE_def converted_def returnE_def
          split: sum.splits)
  qed (use run in \<open>simp add: epp_request_def Let_def catchE_def\<close>)
qed

lemma converted_Inr [op_inv]: "converted r s = (Inr x, s') \<longleftrightarrow> r = Inr x \<and> s' = s"
  by (cases r) (auto simp: converted_def throwE_def returnE_def)

lemma on_db_Inr [op_inv]: "on_db m s = (Inr x, s') \<longleftrightarrow> (\<exists>db'. m (snd s) = (Inr x, db') \<and> s' = (fst s, db'))"
  by (cases s) (auto simp: on_db_def split: prod.splits sum.splits thrown.splits)

text \<open>The session data of a request are those of an open session, unless they name no registrar.\<close>

lemma scast_int_zero: "(scast (r :: u32) :: u64) = 0 \<longleftrightarrow> r = 0"
  by (metis scast_0 ucast_0 ucast_scast_int)

lemma session_data_of_session:
  assumes "session_data E (unwrap_EppParams params) svtrid (c, db) = (Inr session, s')"
    and "registrar_id session \<noteq> 0"
  shows "\<exists>reg lng. registry_of c (loginID params) = Some (reg, lng) \<and> reg \<noteq> 0 \<and>
    registrar_id session = scast reg \<and> lang session = (if lng = 1 then SessionLang_cs else SessionLang_en) \<and>
    snd s' = snd (time_now E db)"
proof (cases "find_session (loginID params) c")
  case None
  with assms show ?thesis
    by (simp add: session_data_def session_data_with_def on_sessions_def bindE_def nobody_asks returnE_def
        unwrap_EppParams_def)
      auto
next
  case (Some s)
  let ?c = "c\<lparr>sessions := map_assign u64_less (loginID params) (s\<lparr>timestamp := fst (time_now E db)\<rparr>) (sessions c)\<rparr>"
  have here: "registry_of ?c = registry_of c"
    by (rule ask_fields(1) [OF Some refl])
  have "registry_of c (loginID params) = Some (registrarID s, language s)"
    by (simp add: registry_of_def Some)
  moreover have "get_registrar_lang (loginID params) ?c = language s"
    by (simp add: get_registrar_lang_def u64_less.map_find_assign u64_less.equivalent_key)
  then have "get_registrar_session_data E (loginID params) (c, db) =
      (Inr \<lparr>session_registrar_id = scast (registrarID s),
            session_language = (if language s = 1 then SessionLang_cs else SessionLang_en)\<rparr>,
       ?c, snd (time_now E db))"
    by (simp add: get_registrar_session_data_def legacy_get_registrar_id_def legacy_get_lang_def ask_run Some
        bindE_def returnE_def)
  ultimately show ?thesis
    using assms
    by (auto simp: session_data_def session_data_with_def on_sessions_def bindE_def returnE_def
        unwrap_EppParams_def scast_int_zero)
qed

lemma attributed:
  assumes "session_run E (new_container total_limit reg_limit wait, w) evs (c, db)"
    and "session_data E (unwrap_EppParams params) svtrid (c, db) = (Inr session, s')"
    and "registrar_id session \<noteq> 0"
  shows "\<exists>reg lng. logged_in (loginID params) reg lng evs \<and> registrar_id session = scast reg \<and>
    snd s' = snd (time_now E db)"
  using session_data_of_session [OF assms(2,3)] run_known [OF assms(1)] new_container_inv
  by (fastforce simp: new_container_def)

lemma delete_keyset_attributed:
  assumes "session_run E (new_container total_limit reg_limit wait, w) evs (c, db)"
    and "KeySetDelete C E L D S h params (c, db) = (Inr response, st)"
  shows "\<exists>reg lng d r w0 w1 w2. logged_in (loginID params) reg lng evs \<and>
    InfoKeysetByHandle L True (unwrap_string h) w0 = (Inr d, w1) \<and> w0 = snd (time_now E db) \<and>
    InfoRegistrarById L (scast reg) w1 = (Inr r, w2) \<and>
    (is_system r \<or> ks_sponsoring_registrar_handle d = registrar_handle r)"
proof -
  obtain session s1 nd q db1 hd where
    run: "session_data E (unwrap_EppParams params) (get_server_transaction_handle C (unwrap_EppParams params)) (c, db) =
        (Inr session, s1)" "unwrap_string_from_const_char_ptr h = Inr hd"
      "delete_keyset_localized L D hd session nd (snd s1) = (Inr q, db1)"
    using assms(2) unfolding KeySetDelete_def by (auto simp: op_inv)
  obtain hist w1 where core: "delete_keyset L hd session (snd s1) = (Inr hist, w1)"
    using delete_keyset_localized.success_stored [OF run(3)] by blast
  obtain reg lng where who: "logged_in (loginID params) reg lng evs" "registrar_id session = scast reg"
      "snd s1 = snd (time_now E db)"
    using attributed [OF assms(1) run(1) delete_keyset.success_has_session [OF core]] by blast
  have "unwrap_string h = hd"
    using run(2) by (auto simp: unwrap_string_def unwrap_string_from_const_char_ptr_def split: option.splits)
  then show ?thesis
    using delete_keyset_returns [OF core] who unfolding delete_permitted_def by fastforce
qed

lemma delete_contact_attributed:
  assumes "session_run E (new_container total_limit reg_limit wait, w) evs (c, db)"
    and "ContactDelete C E L D S h params (c, db) = (Inr response, st)"
  shows "\<exists>reg lng d r w0 w1 w2. logged_in (loginID params) reg lng evs \<and>
    InfoContactByHandle L True (unwrap_string h) w0 = (Inr d, w1) \<and> w0 = snd (time_now E db) \<and>
    InfoRegistrarById L (scast reg) w1 = (Inr r, w2) \<and>
    (is_system r \<or> con_sponsoring_registrar_handle d = registrar_handle r)"
proof -
  obtain session s1 nd q db1 hd where
    run: "session_data E (unwrap_EppParams params) (get_server_transaction_handle C (unwrap_EppParams params)) (c, db) =
        (Inr session, s1)" "unwrap_string_from_const_char_ptr h = Inr hd"
      "delete_contact_localized L D hd session nd (snd s1) = (Inr q, db1)"
    using assms(2) unfolding ContactDelete_def by (auto simp: op_inv)
  obtain hist w1 where core: "delete_contact L hd session (snd s1) = (Inr hist, w1)"
    using delete_contact_localized.success_stored [OF run(3)] by blast
  obtain reg lng where who: "logged_in (loginID params) reg lng evs" "registrar_id session = scast reg"
      "snd s1 = snd (time_now E db)"
    using attributed [OF assms(1) run(1) delete_contact.success_has_session [OF core]] by blast
  have "unwrap_string h = hd"
    using run(2) by (auto simp: unwrap_string_def unwrap_string_from_const_char_ptr_def split: option.splits)
  then show ?thesis
    using delete_contact_returns [OF core] who by fastforce
qed

lemma delete_nsset_attributed:
  assumes "session_run E (new_container total_limit reg_limit wait, w) evs (c, db)"
    and "NSSetDelete C E L D S h params (c, db) = (Inr response, st)"
  shows "\<exists>reg lng d r w0 w1 w2. logged_in (loginID params) reg lng evs \<and>
    delete_nsset_info L (unwrap_string h) w0 = (Inr d, w1) \<and> w0 = snd (time_now E db) \<and>
    InfoRegistrarById L (scast reg) w1 = (Inr r, w2) \<and>
    (is_system r \<or> ns_sponsoring_registrar_handle d = registrar_handle r)"
proof -
  obtain session s1 nd q db1 hd where
    run: "session_data E (unwrap_EppParams params) (get_server_transaction_handle C (unwrap_EppParams params)) (c, db) =
        (Inr session, s1)" "unwrap_string h = hd"
      "delete_nsset_localized L D hd session nd (snd s1) = (Inr q, db1)"
    using assms(2) unfolding NSSetDelete_def by (auto simp: op_inv)
  obtain hist w1 where core: "delete_nsset L hd session (snd s1) = (Inr hist, w1)"
    using delete_nsset_localized.success_stored [OF run(3)] by blast
  obtain reg lng where who: "logged_in (loginID params) reg lng evs" "registrar_id session = scast reg"
      "snd s1 = snd (time_now E db)"
    using attributed [OF assms(1) run(1) delete_nsset.success_has_session [OF core]] by blast
  show ?thesis
    using run(2) delete_nsset_returns [OF core] who unfolding nsset_delete_permitted_def by fastforce
qed

lemma delete_domain_attributed:
  assumes "session_run E (new_container total_limit reg_limit wait, w) evs (c, db)"
    and "DomainDelete C E L D S h params (c, db) = (Inr response, st)"
  shows "\<exists>reg lng d r w0 w1 w2. logged_in (loginID params) reg lng evs \<and>
    InfoDomainByFqdn L True (unwrap_string h) w0 = (Inr d, w1) \<and>
    InfoRegistrarById L (scast reg) w1 = (Inr r, w2) \<and>
    (is_system r \<or> dom_sponsoring_registrar_handle d = registrar_handle r)"
proof -
  obtain session s1 nd q db1 hd where
    run: "session_data E (unwrap_EppParams params) (get_server_transaction_handle C (unwrap_EppParams params)) (c, db) =
        (Inr session, s1)" "unwrap_string_from_const_char_ptr h = Inr hd"
      "delete_domain_localized L D hd session nd (snd s1) = (Inr q, db1)"
    using assms(2) unfolding DomainDelete_def by (auto simp: op_inv)
  obtain hist w1 where core: "delete_domain L hd session (snd s1) = (Inr hist, w1)"
    using delete_domain_localized.success_stored [OF run(3)] by blast
  obtain reg lng where who: "logged_in (loginID params) reg lng evs" "registrar_id session = scast reg"
      "snd s1 = snd (time_now E db)"
    using attributed [OF assms(1) run(1) delete_domain.success_has_session [OF core]] by blast
  have "unwrap_string h = hd"
    using run(2) by (auto simp: unwrap_string_def unwrap_string_from_const_char_ptr_def split: option.splits)
  then show ?thesis
    using delete_domain_returns [OF core] who by auto blast+
qed

section \<open>A small world\<close>

definition sample_clock :: "'w outside" where
  "sample_clock = \<lparr>time_now = (\<lambda>w. (1000, w)), next_login_id = (\<lambda>w. (Inr 1, w))\<rparr>"

definition sample_corba :: corba where
  "sample_corba =
     \<lparr>make_svtrid = (\<lambda>n. ''svtr''), convert_time_to_local_rfc3339 = (\<lambda>t. ''2020-01-01T00:00:00+01:00''),
      greatest_code = 32767, greatest_position = 32767\<rparr>"

definition sample_servant :: servant where
  "sample_servant =
     \<lparr>servant_operations_charging = True, disable_epp_notifier = False,
      disable_epp_notifier_cltrid_prefix = ''auto''\<rparr>"

definition sample_params :: EppParams where
  "sample_params = \<lparr>loginID = 1, clTRID = ''cltr'', requestID = 7\<rparr>"

definition sample_sessions :: EppSessionContainer where
  "sample_sessions =
     \<lparr>session_timeout_sec = 300, max_total_sessions = 2, max_reg_sessions = 1,
      sessions = [(1, \<lparr>registrarID = 2, language = 0, timestamp = 1000\<rparr>)], registrar_session_count = [(2, 1)]\<rparr>"

lemma sample_sessions_run:
  "session_run sample_clock (new_container 2 1 300, db) [LoggedIn 1 2 0] (sample_sessions, db)"
proof -
  have "login_session sample_clock 2 0 (new_container 2 1 300, db) = Some (Inr 1, sample_sessions, db)"
    by (simp add: container_run new_container_def sample_clock_def sample_sessions_def)
  from session_run.further [OF session_run.start session_step.login [OF this]] show ?thesis by simp
qed

lemma sample_session_data:
  "session_data sample_clock (unwrap_EppParams sample_params) ''svtr'' (sample_sessions, db) =
     (Inr \<lparr>registrar_id = 2, lang = SessionLang_en, server_transaction_handle = ''svtr'', logd_request_id = Some 7\<rparr>,
      sample_sessions, db)"
  by (simp add: session_data_def session_data_with_def on_sessions_def get_registrar_session_data_def
      legacy_get_registrar_id_def legacy_get_lang_def ask_run get_registrar_lang_def bindE_def returnE_def
      unwrap_EppParams_def sample_params_def sample_sessions_def sample_clock_def u64_less_def equivalent_def)

lemma sample_keyset_deleted:
  "\<exists>response st. KeySetDelete sample_corba sample_clock (sample []) sample_database sample_servant (Some ''KEY1'')
     sample_params (sample_sessions, []) = (Inr response, st)"
proof -
  let ?session = "\<lparr>registrar_id = 2, lang = SessionLang_en, server_transaction_handle = ''svtr'', logd_request_id = Some 7\<rparr>"
  let ?nd = "notification_data sample_servant (unwrap_EppParams sample_params)"
  have core: "delete_keyset (sample []) ''KEY1'' ?session [] = (Inr 70, [''delete KEY1''])"
    by (simp add: delete_keyset_def sample_run)
  obtain db' where "delete_keyset_localized (sample []) sample_database ''KEY1'' ?session ?nd [] =
      (Inr \<lparr>success_code = command_completed_successfully, success_description = ''status''\<rparr>, db')"
    using delete_keyset_localized.committed_succeeds [OF _ core, of sample_database "()"]
    by (fastforce simp: sample_database_def response_success_localized_def op_simps single_row_def
      get_epp_result_description_localized_def get_result_description_localized_column_name_def Let_def)
  then show ?thesis
    by (simp add: KeySetDelete_def request_Inr bindE_def sample_session_data on_db_def converted_def returnE_def
      unwrap_string_from_const_char_ptr_def wrap_Epp_EppResponseSuccessLocalized_def wrap_int_def sample_corba_def
      get_server_transaction_handle_def)
qed

section \<open>Properties\<close>

text \<open>C32: a request under a number that is not an open session is refused by every method that calls a
  command with the data of the session, the methods that send authorization information excepted: it
  ends with an exception and changes neither the sessions nor the database. These are the methods for
  contacts, keysets, nssets and domains, those for messages, the details of updates among them, and the
  one for credit. The commands that send authorization information do not look at the registrar; the
  older methods (login, logout, listings, technical tests) call no such command.\<close>

theorem unknown_session_refused:
  assumes "not_a_session c params"
  shows "refused (ContactCheck C E L D handles params) (c, db) \<and>
    refused (ContactInfo C E L D SC h pw params) (c, db) \<and>
    refused (ContactDelete C E L D S h params) (c, db) \<and>
    refused (ContactUpdate C E LU D SC h chg params) (c, db) \<and>
    refused (ContactCreate C E L D SC h new params) (c, db) \<and>
    refused (ContactTransfer C E L D S h pw params) (c, db) \<and>
    refused (KeySetCheck C E LK D handles params) (c, db) \<and>
    refused (KeySetInfo C E LK D h pw params) (c, db) \<and>
    refused (KeySetDelete C E LK D S h params) (c, db) \<and>
    refused (KeySetTransfer C E LK D S h pw params) (c, db) \<and>
    refused (KeySetCreate C E LK D S h contacts records keys params) (c, db) \<and>
    refused (KeySetUpdate C E LK D S h pw contacts2 records2 keys2 params) (c, db) \<and>
    refused (NSSetCheck C E LN D handles params) (c, db) \<and>
    refused (NSSetInfo CN E LN D h pw params) (c, db) \<and>
    refused (NSSetDelete C E LN D S h params) (c, db) \<and>
    refused (NSSetTransfer C E LN D S h pw params) (c, db) \<and>
    refused (NSSetCreate CN E LN D SN h contacts hosts level params) (c, db) \<and>
    refused (NSSetUpdate CN E LN D SN h pw hosts2 contacts2 level params) (c, db) \<and>
    refused (DomainCheck C E LD D handles params) (c, db) \<and>
    refused (DomainInfo CD E LD D h pw params) (c, db) \<and>
    refused (DomainDelete C E LD D S h params) (c, db) \<and>
    refused (DomainTransfer C E LD D S h pw params) (c, db) \<and>
    refused (DomainUpdate CD E LD D SD h registrant upw ns ks contacts3 params ext) (c, db) \<and>
    refused (DomainCreate CD E LD D B S h registrant ns ks period contacts params ext) (c, db) \<and>
    refused (DomainRenew CD E LD D B S h exdate period params ext) (c, db) \<and>
    refused (PollRequest CP EM P DM params) (c, messages) \<and>
    refused (PollAcknowledgement CP EM P DM lexical_cast h params) (c, messages) \<and>
    refused (ClientCredit C E LC D get_string params) (c, db) \<and>
    refused (PollRequestGetUpdateContactDetails C EU PU LCU HU DU message_id params) (c, tables) \<and>
    refused (PollRequestGetUpdateDomainDetails CD EU PU LDU HU DU message_id params) (c, tables) \<and>
    refused (PollRequestGetUpdateNSSetDetails CN EU PU LNU HU DU message_id params) (c, tables) \<and>
    refused (PollRequestGetUpdateKeySetDetails C EU PU LKU HU DU message_id params) (c, tables)"
  by (intro conjI contact_methods_refuse [OF assms] keyset_methods_refuse [OF assms]
      nsset_methods_refuse [OF assms] domain_methods_refuse [OF assms] poll_and_credit_methods_refuse [OF assms]
      update_details_methods_refuse [OF assms])

theorem unknown_session_refused_witness:
  "refused (KeySetDelete sample_corba sample_clock (sample []) sample_database sample_servant (Some ''KEY1'')
     sample_params) (new_container 2 1 300, [])"
proof -
  have "not_a_session (new_container 2 1 300) sample_params"
    by (simp add: not_a_session_def new_container_def)
  note refused = unknown_session_refused [OF this, where C = sample_corba and E = sample_clock and LK = "sample []"
      and D = sample_database and h = "Some ''KEY1''" and db = "[]"]
  show ?thesis by (simp only: refused simp_thms)
qed

text \<open>C33: an object is deleted through the servant only on behalf of a registrar that logged in under the
  number of the request and has neither logged out nor been disconnected since, and only when this
  registrar is a system registrar or the one the object is recorded with. (For an nsset what
  \<open>delete_nsset_info\<close> returns is compared, which may be default data.)\<close>

theorem deletions_attributed:
  assumes "session_run E (new_container total_limit reg_limit wait, w) evs (c, db)"
  shows "(ContactDelete C E L D S h params (c, db) = (Inr response, st) \<longrightarrow>
      (\<exists>reg lng d r w0 w1 w2. logged_in (loginID params) reg lng evs \<and>
        InfoContactByHandle L True (unwrap_string h) w0 = (Inr d, w1) \<and> w0 = snd (time_now E db) \<and>
        InfoRegistrarById L (scast reg) w1 = (Inr r, w2) \<and>
        (is_system r \<or> con_sponsoring_registrar_handle d = registrar_handle r))) \<and>
    (KeySetDelete C E LK D S h params (c, db) = (Inr response, st) \<longrightarrow>
      (\<exists>reg lng d r w0 w1 w2. logged_in (loginID params) reg lng evs \<and>
        InfoKeysetByHandle LK True (unwrap_string h) w0 = (Inr d, w1) \<and> w0 = snd (time_now E db) \<and>
        InfoRegistrarById LK (scast reg) w1 = (Inr r, w2) \<and>
        (is_system r \<or> ks_sponsoring_registrar_handle d = registrar_handle r))) \<and>
    (NSSetDelete C E LN D S h params (c, db) = (Inr response, st) \<longrightarrow>
      (\<exists>reg lng d r w0 w1 w2. logged_in (loginID params) reg lng evs \<and>
        delete_nsset_info LN (unwrap_string h) w0 = (Inr d, w1) \<and> w0 = snd (time_now E db) \<and>
        InfoRegistrarById LN (scast reg) w1 = (Inr r, w2) \<and>
        (is_system r \<or> ns_sponsoring_registrar_handle d = registrar_handle r))) \<and>
    (DomainDelete C E LD D S h params (c, db) = (Inr response, st) \<longrightarrow>
      (\<exists>reg lng d r w0 w1 w2. logged_in (loginID params) reg lng evs \<and>
        InfoDomainByFqdn LD True (unwrap_string h) w0 = (Inr d, w1) \<and>
        InfoRegistrarById LD (scast reg) w1 = (Inr r, w2) \<and>
        (is_system r \<or> dom_sponsoring_registrar_handle d = registrar_handle r)))"
  by (intro conjI impI)
    (rule delete_contact_attributed [OF assms] delete_keyset_attributed [OF assms]
      delete_nsset_attributed [OF assms] delete_domain_attributed [OF assms], assumption)+

theorem deletions_attributed_witness:
  "\<exists>reg lng d r. logged_in 1 reg lng [LoggedIn 1 2 0] \<and>
     InfoKeysetByHandle (sample []) True ''KEY1'' [] = (Inr d, []) \<and>
     InfoRegistrarById (sample []) (scast reg) [] = (Inr r, []) \<and>
     (is_system r \<or> ks_sponsoring_registrar_handle d = registrar_handle r)"
proof -
  obtain response st where "KeySetDelete sample_corba sample_clock (sample []) sample_database sample_servant
      (Some ''KEY1'') sample_params (sample_sessions, []) = (Inr response, st)"
    using sample_keyset_deleted by blast
  from deletions_attributed [OF sample_sessions_run, THEN conjunct2, THEN conjunct1, rule_format, OF this]
  show ?thesis
    by (auto simp: sample_params_def sample_clock_def unwrap_string_def sample_def op_simps)
qed

end
