(* ===== verification/Corba_Data_Properties.thy ===== *)
theory Corba_Data_Properties
  imports Corba_Properties Contact_Update_Spec Contact_Sample
begin

text \<open>
  What the conversions between the interface and the data of the commands keep: the conventions of
  changes, the order of answers, and that data read can be sent back unchanged.
\<close>

section \<open>Texts, keys and privacy\<close>

lemma unwrap_sequence_maps:
  "(\<And>x. x \<in> set xs \<Longrightarrow> f (g x) = Inr (h x)) \<Longrightarrow> unwrap_sequence f (map g xs) = Inr (map h xs)"
  by (induction xs) simp_all

lemma wrap_string_plain: "CHR 0x00 \<notin> set s \<Longrightarrow> wrap_string_to_corba_string s = s"
  by (auto simp: wrap_string_to_corba_string_def takeWhile_eq_all_conv)

lemma unwrap_ushort_uint [simp]: "unwrap_ushort (uint w) = Inr w"
  using uint_bounded [of w] by (simp add: unwrap_ushort_def)

text \<open>A text the interface can carry: a present one is not empty and has no character 0.\<close>

definition readable :: "string option \<Rightarrow> bool" where
  "readable s \<longleftrightarrow> (\<forall>t. s = Some t \<longrightarrow> t \<noteq> [] \<and> CHR 0x00 \<notin> set t)"

definition ident_readable :: "ContactIdent option \<Rightarrow> bool" where
  "ident_readable i \<longleftrightarrow> (\<forall>v. CHR 0x00 \<in> set v \<longrightarrow>
     i \<notin> Some ` {Ident_Op v, Ident_Pass v, Ident_Ico v, Ident_Mpsv v, Ident_Birthday v})"

lemma optional_string_roundtrip: "readable s \<Longrightarrow> unwrap_contact_create_string (wrap_optional_string s) = s"
  by (cases s) (auto simp: readable_def wrap_optional_string_def wrap_string_plain
      unwrap_contact_create_string_def does_contact_create_string_mean_not_to_present_def)

lemma ident_roundtrip:
  "ident_readable i \<Longrightarrow> (case wrap_ident i of (t, v) \<Rightarrow> make_optional_contact_ident t v) = i"
  by (auto simp: ident_readable_def wrap_ident_def make_optional_contact_ident_def image_iff
      split: option.split ContactIdent.split intro!: wrap_string_plain)

lemma privacy_roundtrip:
  "wrap_privacy_policy v = Inr policy \<Longrightarrow> make_hideable (hideable_value v) policy = v"
  by (cases v) (auto simp: wrap_privacy_policy_def make_hideable_def make_public_data_def make_private_data_def
      make_data_with_unspecified_privacy_def is_publishability_specified_def hideable_is_public_def
      hideable_is_private_def split: if_splits)

lemma privacy_wrapped: "\<exists>policy. wrap_privacy_policy v = Inr policy"
  by (cases "publishability v"; cases "the (publishability v)")
    (auto simp: wrap_privacy_policy_def is_publishability_specified_def hideable_is_public_def hideable_is_private_def)

lemma dns_key_roundtrip:
  "CHR 0x00 \<notin> set key \<Longrightarrow>
   unwrap_ccReg_DNSKey_str \<lparr>dnsk_flags = uint flags, dnsk_protocol = uint protocol, dnsk_alg = uint alg,
     dnsk_key = wrap_string_to_corba_string key\<rparr> = Inr (DnsKey_of flags protocol alg key)"
  by (simp add: unwrap_ccReg_DNSKey_str_def wrap_string_plain)

lemma dns_keys_roundtrip:
  assumes "finite keys" and "\<forall>k \<in> keys. CHR 0x00 \<notin> set (get_key k) \<and> remove_spaces (get_key k) = get_key k"
  shows "\<exists>ks. unwrap_dns_keys (wrap_Epp_InfoKeysetOutputData_DnsKeys keys) = Inr ks \<and> set ks = keys \<and>
    sorted_wrt dns_key_less ks"
proof -
  let ?fields = "sorted_list_of_set (dns_key_fields ` keys)"
  let ?key = "\<lambda>(flags, protocol, alg, key). DnsKey_of flags protocol alg key"
  have members: "set ?fields = dns_key_fields ` keys"
    using assms(1) by simp
  have same: "?key (dns_key_fields k) = k" if "k \<in> keys" for k
    using assms(2) that by (simp add: dns_key_fields_def DnsKey_of_def)
  have fields: "dns_key_fields (?key t) = t \<and> ?key t \<in> keys" if t: "t \<in> set ?fields" for t
  proof -
    obtain k where "k \<in> keys" "t = dns_key_fields k" using members t by auto
    then show ?thesis using same by simp
  qed
  have "unwrap_dns_keys (wrap_Epp_InfoKeysetOutputData_DnsKeys keys) = Inr (map ?key ?fields)"
    unfolding unwrap_dns_keys_def wrap_Epp_InfoKeysetOutputData_DnsKeys_def
  proof (rule unwrap_sequence_maps)
    fix t assume "t \<in> set ?fields"
    then obtain k where "k \<in> keys" "t = dns_key_fields k" using members by auto
    with assms(2) show "unwrap_ccReg_DNSKey_str (case t of (flags, protocol, alg, key) \<Rightarrow>
        \<lparr>dnsk_flags = uint flags, dnsk_protocol = uint protocol, dnsk_alg = uint alg,
         dnsk_key = wrap_string_to_corba_string key\<rparr>) = Inr (?key t)"
      by (simp add: dns_key_fields_def dns_key_roundtrip)
  qed
  moreover have "set (map ?key ?fields) = keys"
    using same by (simp add: members image_image cong: image_cong)
  moreover have "sorted_wrt dns_key_less (map ?key ?fields)"
    unfolding sorted_wrt_map
  proof (rule sorted_wrt_mono_rel [of _ "(<)"])
    show "dns_key_less (?key t) (?key u)" if "t \<in> set ?fields" "u \<in> set ?fields" "t < u" for t u
      using fields that by (simp add: dns_key.less_key)
  qed (simp add: strict_sorted_list_of_set)
  ultimately show ?thesis by blast
qed

lemma make_deletable_string_cases:
  "make_deletable_string s =
     (if s = [] then Op_no_operation else if hd s = CHR 0x08 then Op_delete_value else Op_set_value s)"
  by (simp add: make_deletable_string_def does_contact_change_string_mean_to_delete_def
      does_contact_change_string_mean_not_to_touch_def)

text \<open>
  A contact the interface can carry, and what a client sends that creates a contact with the data it
  has received: it copies them field by field.
\<close>

definition contact_readable :: "InfoContactLocalizedOutputData \<Rightarrow> bool" where
  "contact_readable d \<longleftrightarrow>
     (\<forall>v \<in> {lcon_name d, lcon_organization d, lcon_telephone d, lcon_fax d, lcon_email d, lcon_notify_email d,
        lcon_vat d}. readable (hideable_value v)) \<and>
     (\<forall>a \<in> insert (hideable_value (lcon_address d)) (set_option (lcon_mailing_address d)).
        \<forall>t \<in> {row0 (street a), row1 (street a), row2 (street a), city a, state_or_province a, postal_code a,
          country_code a}. readable t) \<and>
     ident_readable (hideable_value (lcon_ident d))"

definition sent_back :: "CorbaContact \<Rightarrow> CorbaContactData" where
  "sent_back c =
     \<lparr>new_Name = info_Name c, new_Organization = info_Organization c, new_Streets = info_Streets c,
      new_City = info_City c, new_StateOrProvince = info_StateOrProvince c, new_PostalCode = info_PostalCode c,
      new_CC = info_CountryCode c,
      new_MailingAddress = (case info_MailingAddress c of Some a \<Rightarrow> (True, a)
        | None \<Rightarrow> (False, \<lparr>Street1 = [], Street2 = [], Street3 = [], City = [], StateOrProvince = [], PostalCode = [],
            CountryCode = []\<rparr>)),
      new_Telephone = info_Telephone c, new_Fax = info_Fax c, new_Email = info_Email c,
      new_NotifyEmail = info_NotifyEmail c, new_VAT = info_VAT c, new_identtype = info_identtype c,
      new_identvalue = info_ident c, new_DiscloseFlags = info_DiscloseFlags c\<rparr>"

lemma unwrap_optional_string: "unwrap_contact_create_string s = (if s = [] then None else Some s)"
  by (simp add: unwrap_contact_create_string_def does_contact_create_string_mean_not_to_present_def)

lemma hideable_roundtrip:
  assumes "readable (hideable_value v)" and "wrap_privacy_policy v = Inr policy"
  shows "make_hideable_optional_string (wrap_optional_string (hideable_value v)) policy = v"
  using optional_string_roundtrip [OF assms(1)] privacy_roundtrip [OF assms(2)]
  by (simp add: make_hideable_optional_string_def unwrap_contact_create_string_def)

lemma hideable_ident_roundtrip:
  assumes "ident_readable (hideable_value i)" and "wrap_privacy_policy i = Inr policy"
  shows "make_hideable_optional_contact_ident (fst (wrap_ident (hideable_value i))) (snd (wrap_ident (hideable_value i)))
    policy = i"
  using ident_roundtrip [OF assms(1)] privacy_roundtrip [OF assms(2)]
  by (simp add: make_hideable_optional_contact_ident_def split: prod.splits)

lemma mailing_address_roundtrip:
  assumes "\<forall>t \<in> {row0 (street a), row1 (street a), row2 (street a), city a, state_or_province a, postal_code a,
    country_code a}. readable t"
  shows "\<exists>b. wrap_OptionalAddressData (Some a) = Some b \<and> unwrap_contact_address b = a"
  using assms
  by (cases a; cases "street a") (simp add: wrap_OptionalAddressData_def unwrap_contact_address_def optional_string_roundtrip)

text \<open>The rows of the street that are not sent are empty, and those sent come back at their place.\<close>

lemma streets_roundtrip:
  assumes "readable (row0 s)" "readable (row1 s)" "readable (row2 s)"
  shows "(if 0 < length (wrap_streets s) then unwrap_contact_create_string (wrap_streets s ! 0) else None) = row0 s"
    "(if 1 < length (wrap_streets s) then unwrap_contact_create_string (wrap_streets s ! 1) else None) = row1 s"
    "(if 2 < length (wrap_streets s) then unwrap_contact_create_string (wrap_streets s ! 2) else None) = row2 s"
proof -
  have none: "\<not> does_present r \<longleftrightarrow> r = None" if "readable r" for r
    using that by (auto simp: does_present_def readable_def)
  note texts = assms [THEN optional_string_roundtrip]
  show "(if 0 < length (wrap_streets s) then unwrap_contact_create_string (wrap_streets s ! 0) else None) = row0 s"
    "(if 1 < length (wrap_streets s) then unwrap_contact_create_string (wrap_streets s ! 1) else None) = row1 s"
    "(if 2 < length (wrap_streets s) then unwrap_contact_create_string (wrap_streets s ! 2) else None) = row2 s"
    using assms [THEN none] texts by (auto simp: wrap_streets_def number_of_streets_def)
qed

lemma address_parts:
  "\<lparr>street = Rows (row0 (street a)) (row1 (street a)) (row2 (street a)), city = city a,
    state_or_province = state_or_province a, postal_code = postal_code a, country_code = country_code a\<rparr> = a"
  "(row0 (street a) \<noteq> None \<or> row1 (street a) \<noteq> None \<or> row2 (street a) \<noteq> None \<or> city a \<noteq> None \<or>
    state_or_province a \<noteq> None \<or> postal_code a \<noteq> None \<or> country_code a \<noteq> None) \<longleftrightarrow> a \<noteq> to_localized_address None"
  by (cases a, cases "street a", simp) (cases a, cases "street a", auto simp: to_localized_address_def)

lemma main_address_roundtrip:
  assumes "\<forall>t \<in> {row0 (street a), row1 (street a), row2 (street a), city a, state_or_province a, postal_code a,
    country_code a}. readable t"
  shows "make_hideable_optional_contact_data_address (wrap_streets (street a)) (wrap_optional_string (city a))
      (wrap_optional_string (state_or_province a)) (wrap_optional_string (postal_code a))
      (wrap_optional_string (country_code a)) policy =
    make_hideable (if a = to_localized_address None then None else Some a) policy"
proof -
  have readable: "readable (row0 (street a))" "readable (row1 (street a))" "readable (row2 (street a))"
    "readable (city a)" "readable (state_or_province a)" "readable (postal_code a)" "readable (country_code a)"
    using assms by simp_all
  have whole: "\<lparr>street = Rows (row0 (street a)) (row1 (street a)) (row2 (street a)), city = city a,
    state_or_province = state_or_province a, postal_code = postal_code a, country_code = country_code a\<rparr> = a"
    by (rule address_parts(1))
  show ?thesis
    unfolding make_hideable_optional_contact_data_address_def Let_def streets_roundtrip [OF readable(1-3)]
      readable(4-7) [THEN optional_string_roundtrip] whole address_parts(2)
    by (cases "a = to_localized_address None") simp_all
qed

section \<open>Answers of the availability checks\<close>

lemma wrap_check_info_answers:
  "wrap_check_info f hs results = Inr answers \<Longrightarrow> length answers = length hs \<and>
   (\<forall>i < length hs. \<exists>r. map_find string_less (hs ! i) results = Some r \<and> avail (answers ! i) = f r)"
proof (induction hs arbitrary: answers)
  case (Cons h hs)
  then obtain r rest where r: "map_find string_less h results = Some r" "wrap_check_info f hs results = Inr rest"
      "length answers = Suc (length rest)" "avail (hd answers) = f r" "tl answers = rest"
    by (auto split: option.splits sum.splits)
  show ?case
  proof (intro conjI allI impI)
    fix i assume "i < length (h # hs)"
    with r Cons.IH [OF r(2)] show "\<exists>r. map_find string_less ((h # hs) ! i) results = Some r \<and> avail (answers ! i) = f r"
      by (cases i; cases answers) auto
  qed (use r Cons.IH [OF r(2)] in simp)
qed simp

lemma map_find_insert_sorted:
  "sorted_wrt string_less (map fst m) \<Longrightarrow> map_find string_less k (map_insert string_less h v m) =
    (if k = h \<and> map_find string_less h m = None then Some v else map_find string_less k m)"
  using plain_string.map_find_insert_same [of h m v] plain_string.map_find_insert_other [of k h v m]
    plain_string.map_insert_present [of m h v] by (auto simp: plain_string.equivalent_key)

lemma decorated_results:
  "decorate_results ds results acc = Inr out \<Longrightarrow> sorted_wrt string_less (map fst acc) \<Longrightarrow>
   map_option (map_option fst) (map_find string_less h out) =
     (case map_find string_less h acc of Some r \<Rightarrow> Some (map_option fst r) | None \<Rightarrow> map_find string_less h results)"
proof (induction ds results acc rule: decorate_results.induct)
  case (2 ds k r results acc)
  have sorted: "sorted_wrt string_less (map fst (map_insert string_less k v acc))" for v
    using 2(4) by (rule plain_string.sorted_map_insert)
  show ?case
    using 2 sorted by (cases "k = h")
      (auto simp: map_find_insert_sorted plain_string.equivalent_key split: option.splits)
qed (simp split: option.split)

lemma localized_results:
  assumes "localize_check_results D to_reason from_reason results l db = (Inr out, db')"
  shows "map_option (map_option fst) (map_find string_less h out) = map_find string_less h results"
  using assms decorated_results [of _ results "[]" out h]
  by (auto simp: localize_check_results_def op_inv)

lemma unwrap_sequence_nth:
  "unwrap_sequence f xs = Inr ys \<Longrightarrow> length ys = length xs \<and> (\<forall>i < length xs. f (xs ! i) = Inr (ys ! i))"
proof (induction xs arbitrary: ys)
  case (Cons x xs)
  then obtain y rest where y: "f x = Inr y" "unwrap_sequence f xs = Inr rest" "ys = y # rest"
    by (auto split: sum.splits)
  show ?case
    using y Cons.IH [OF y(2)] by (auto simp: nth_Cons split: nat.split)
qed simp

lemma handles_unwrapped:
  assumes "unwrap_handle_sequence_to_string_vector handles = Inr hs"
  shows "length hs = length handles" "i < length handles \<Longrightarrow> handles ! i = Some (hs ! i)"
  using unwrap_sequence_nth [OF assms [unfolded unwrap_handle_sequence_to_string_vector_def]]
  by (auto simp: unwrap_string_from_const_char_ptr_def split: option.splits)

lemma requested_members: "set (fold (set_insert string_less) hs []) = set hs"
  using plain_string.fold_insert_keys [of hs "[]"] by simp

lemma localized_check_returns:
  assumes "try_localized D l (with_context D (
      bindE (on_working core) (\<lambda>results.
      bindE (on_working (response_success_localized D code l)) (\<lambda>response.
      bindE (on_working (localize_check_results D to_reason from_reason results l)) (\<lambda>localized.
      returnE (response, localized)))))) db = (Inr (response, localized), db')"
  shows "\<exists>results w. core db = (Inr results, w) \<and>
    (\<forall>h. map_option (map_option fst) (map_find string_less h localized) = map_find string_less h results)"
  using assms unfolding try_localized_Inr by (auto simp: op_inv intro: localized_results)

lemma session_data_run:
  assumes "session_data E (unwrap_EppParams params) svtrid (c, db) = (Inr session, s')"
  shows "snd s' = snd (time_now E db) \<or> registrar_id session = 0"
  using session_data_of_session [OF assms] by blast

definition contact_avail :: "SyntaxValidity \<Rightarrow> Registrability \<Rightarrow> CheckAvail" where
  "contact_avail validity registrability =
     (case registrability of
        registered \<Rightarrow> Exist
      | in_protection_period \<Rightarrow> DelPeriod
      | available \<Rightarrow> (case validity of syntax_invalid \<Rightarrow> BadFormat | syntax_valid \<Rightarrow> NotExist))"

section \<open>Samples\<close>

definition sample_corba_change :: CorbaContactChange where
  "sample_corba_change =
     \<lparr>chg_Name = ''Jan'', chg_Organization = [CHR 0x08], chg_Streets = [], chg_City = ''Brno'',
      chg_StateOrProvince = [], chg_PostalCode = [], chg_CC = [],
      chg_MailingAddress = (Address_no_change,
        \<lparr>Street1 = [], Street2 = [], Street3 = [], City = [], StateOrProvince = [], PostalCode = [], CountryCode = []\<rparr>),
      chg_Telephone = [], chg_Fax = [], chg_Email = [], chg_NotifyEmail = [], chg_VAT = [],
      chg_identtype = identtyp_OP, chg_identvalue = [], chg_AuthInfoPw = [],
      chg_DiscloseFlags = (False,
        \<lparr>flag_Name = public_data, flag_Organization = public_data, flag_Address = public_data,
         flag_Telephone = public_data, flag_Fax = public_data, flag_Email = public_data, flag_VAT = public_data,
         flag_Ident = public_data, flag_NotifyEmail = public_data\<rparr>)\<rparr>"

lemma sample_contact_check_localized:
  "check_contact_localized (csample [] sample_contact) sample_database [''CON1'', ''NEW'']
     \<lparr>registrar_id = 2, lang = SessionLang_en, server_transaction_handle = ''svtr'', logd_request_id = Some 7\<rparr> [] =
   (Inr (\<lparr>success_code = command_completed_successfully, success_description = ''status''\<rparr>,
      [(''CON1'', Some (Contact_registered_handle, ''reason'')), (''NEW'', None)]), [])"
  by code_simp

lemma sample_contact_check_answers:
  "wrap_check_info wrap_contact_handle_check_result [''NEW'', ''CON1'', ''NEW'']
     [(''CON1'', Some (Contact_registered_handle, ''reason'')), (''NEW'', None)] =
   Inr [\<lparr>avail = NotExist, reason = []\<rparr>, \<lparr>avail = Exist, reason = ''reason''\<rparr>, \<lparr>avail = NotExist, reason = []\<rparr>]"
  "fold (set_insert string_less) [''NEW'', ''CON1'', ''NEW''] [] = [''CON1'', ''NEW'']"
  by code_simp+

lemma sample_contact_check:
  "ContactCheck sample_corba sample_clock (csample [] sample_contact) sample_database
     [Some ''NEW'', Some ''CON1'', Some ''NEW''] sample_params (sample_sessions, []) =
   (Inr (\<lparr>response_code = 1000, response_svTRID = ''svtr'', response_msg = ''status''\<rparr>,
      [\<lparr>avail = NotExist, reason = []\<rparr>, \<lparr>avail = Exist, reason = ''reason''\<rparr>, \<lparr>avail = NotExist, reason = []\<rparr>]),
    sample_sessions, [])"
proof -
  let ?st = "(sample_sessions, [] :: changes)"
  let ?svtrid = "get_server_transaction_handle sample_corba (unwrap_EppParams sample_params)"
  have svtrid: "?svtrid = ''svtr''"
    by (simp add: get_server_transaction_handle_def sample_corba_def)
  have "unwrap_handle_sequence_to_string_vector [Some ''NEW'', Some ''CON1'', Some ''NEW''] = Inr [''NEW'', ''CON1'', ''NEW'']"
    by (simp add: unwrap_handle_sequence_to_string_vector_def unwrap_string_from_const_char_ptr_def)
  then have r1: "reads (converted (unwrap_handle_sequence_to_string_vector [Some ''NEW'', Some ''CON1'', Some ''NEW'']))
      ?st [''NEW'', ''CON1'', ''NEW'']"
    by (simp add: reads_def converted_def returnE_def)
  note r2 = sample_session_data [of "[]", folded reads_def]
  have r3: "reads (on_db (check_contact_localized (csample [] sample_contact) sample_database [''CON1'', ''NEW'']
      \<lparr>registrar_id = 2, lang = SessionLang_en, server_transaction_handle = ''svtr'', logd_request_id = Some 7\<rparr>)) ?st
      (\<lparr>success_code = command_completed_successfully, success_description = ''status''\<rparr>,
       [(''CON1'', Some (Contact_registered_handle, ''reason'')), (''NEW'', None)])"
    by (simp add: reads_def on_db_def sample_contact_check_localized)
  have r4: "reads (converted (wrap_Epp_EppResponseSuccessLocalized sample_corba
      \<lparr>success_code = command_completed_successfully, success_description = ''status''\<rparr> ''svtr'')) ?st
      \<lparr>response_code = 1000, response_svTRID = ''svtr'', response_msg = ''status''\<rparr>"
    by (simp add: reads_def converted_def returnE_def wrap_Epp_EppResponseSuccessLocalized_def wrap_int_def
        sample_corba_def wrap_string_to_corba_string_def)
  have converted_value: "converted (Inr x) = returnE x" for x :: "CheckAnswer list"
    by (simp add: converted_def)
  show ?thesis
    unfolding ContactCheck_def request_Inr svtrid
    by (simp only: bindE_reads [OF r1] bindE_reads [OF r2] sample_contact_check_answers bindE_reads [OF r3]
        bindE_reads [OF r4] prod.case converted_value bindE_returnE)
      (simp add: returnE_def)
qed

section \<open>Properties\<close>

text \<open>C34: what a client sends as a change of a contact. An empty text leaves the value, a leading backspace
  deletes it, anything else becomes the new value; the country cannot be deleted, a backspace is its
  new value. The rows of the street are set when there are any, and deleted when there are none but
  another part of the address changes. Every operation but the one on the identity document is
  specified. That one is left unspecified exactly when a type comes without a number, or a number
  that is not a deletion comes without a type.\<close>

theorem contact_change_conventions:
  defines "meant \<equiv> (\<lambda>received :: string. if received = [] then Op_no_operation
    else if hd received = CHR 0x08 then Op_delete_value else Op_set_value received)"
  shows "well_formed_change (unwrap_ContactChange src) \<and>
   (fully_specified (unwrap_ContactChange src) \<longleftrightarrow>
      \<not> (chg_identvalue src = [] \<and> chg_identtype src \<noteq> identtyp_EMPTY \<or>
         chg_identvalue src \<noteq> [] \<and> hd (chg_identvalue src) \<noteq> CHR 0x08 \<and> chg_identtype src = identtyp_EMPTY)) \<and>
   (\<forall>(received, operation) \<in> {(chg_Name src, chg_name (unwrap_ContactChange src)),
        (chg_Organization src, chg_organization (unwrap_ContactChange src)),
        (chg_City src, city (chg_address (unwrap_ContactChange src))),
        (chg_StateOrProvince src, state_or_province (chg_address (unwrap_ContactChange src))),
        (chg_PostalCode src, postal_code (chg_address (unwrap_ContactChange src))),
        (chg_Telephone src, chg_telephone (unwrap_ContactChange src)),
        (chg_Fax src, chg_fax (unwrap_ContactChange src)), (chg_Email src, chg_email (unwrap_ContactChange src)),
        (chg_NotifyEmail src, chg_notify_email (unwrap_ContactChange src)),
        (chg_VAT src, chg_vat (unwrap_ContactChange src)),
        (chg_AuthInfoPw src, chg_authinfopw (unwrap_ContactChange src))}. operation = meant received) \<and>
   country_code (chg_address (unwrap_ContactChange src)) =
     (if chg_CC src = [] then Op_no_operation else Op_set_value (chg_CC src)) \<and>
   (\<forall>(i, row) \<in> {(0, row0), (1, row1), (2, row2)}. row (street (chg_address (unwrap_ContactChange src))) =
     (if i < length (chg_Streets src) then Op_set_value (chg_Streets src ! i)
      else if chg_Streets src \<noteq> [] \<or> chg_City src = [] \<and> chg_StateOrProvince src = [] \<and> chg_PostalCode src = [] \<and>
        chg_CC src = [] then Op_no_operation else Op_delete_value))"
proof -
  have op: "specified (make_deletable_string s)" "specified (make_updateable_string s)"
      "make_updateable_string s \<noteq> Op_delete_value" for s
    by (simp_all add: make_deletable_string_cases make_updateable_string_def specified_def Let_def)
  have address: "address_specified (chg_address (unwrap_ContactChange src))"
      "country_code (chg_address (unwrap_ContactChange src)) \<noteq> Op_delete_value"
    by (auto simp: unwrap_ContactChange_def make_contact_change_main_address_def address_specified_def Let_def op)
      (simp_all add: specified_def)
  have mailing: "specified (make_deletable_contact_change_address a)" for a
    by (simp add: make_deletable_contact_change_address_def specified_def split: AddressAction.split)
  have well: "well_formed_change (unwrap_ContactChange src)"
    using address by (simp add: well_formed_change_def change_specified_def unwrap_ContactChange_def op mailing)
  have "specified (chg_ident (unwrap_ContactChange src)) \<longleftrightarrow>
      \<not> (chg_identvalue src = [] \<and> chg_identtype src \<noteq> identtyp_EMPTY \<or>
         chg_identvalue src \<noteq> [] \<and> hd (chg_identvalue src) \<noteq> CHR 0x08 \<and> chg_identtype src = identtyp_EMPTY)"
    by (cases "chg_identvalue src"; cases "chg_identtype src")
      (auto simp: unwrap_ContactChange_def make_deletable_contact_ident_def specified_def
        does_contact_change_string_mean_to_delete_def does_contact_change_string_mean_not_to_touch_def)
  moreover have "fully_specified (unwrap_ContactChange src) \<longleftrightarrow> specified (chg_ident (unwrap_ContactChange src))"
    using well by (auto simp: fully_specified_def well_formed_change_def unwrap_ContactChange_def op
        make_updateable_publishability_def) (simp_all add: specified_def)
  moreover have "is_no_operation (make_deletable_string s) \<longleftrightarrow> s = []"
      "is_no_operation (make_updateable_string s) \<longleftrightarrow> s = []" for s
    by (simp_all add: is_no_operation_def make_deletable_string_cases make_updateable_string_def
        does_contact_change_string_mean_not_to_touch_def)
  ultimately show ?thesis
    using well unfolding meant_def
    by (simp add: unwrap_ContactChange_def make_deletable_string_cases make_contact_change_main_address_def Let_def)
      (auto simp: make_updateable_string_def does_contact_change_string_mean_not_to_touch_def)
qed

theorem contact_change_conventions_witness:
  "well_formed_change (unwrap_ContactChange sample_corba_change) \<and>
   \<not> fully_specified (unwrap_ContactChange sample_corba_change) \<and>
   chg_name (unwrap_ContactChange sample_corba_change) = Op_set_value ''Jan'' \<and>
   chg_organization (unwrap_ContactChange sample_corba_change) = Op_delete_value \<and>
   row0 (street (chg_address (unwrap_ContactChange sample_corba_change))) = Op_delete_value \<and>
   chg_fax (unwrap_ContactChange sample_corba_change) = Op_no_operation"
  using contact_change_conventions [of sample_corba_change] by (simp add: sample_corba_change_def)

text \<open>C35: what the servant answers can be sent back. The keys of a keyset are received as the same keys in
  the order of their set. A contact that is created with the fields of an answer is created with
  exactly the data that were answered, each with its privacy: name, organization, the address with
  all its rows, the mailing address, telephone, fax, both e-mails, VAT number and identity document;
  an address that has no part is received as none. Texts must not be empty and hold no character 0,
  and keys no white space, which the constructor of a key removes.\<close>

theorem servant_roundtrip:
  assumes "finite keys" and "\<forall>k \<in> keys. CHR 0x00 \<notin> set (get_key k) \<and> remove_spaces (get_key k) = get_key k"
    and "contact_readable d"
  shows "(\<exists>ks. unwrap_dns_keys (wrap_Epp_InfoKeysetOutputData_DnsKeys keys) = Inr ks \<and> set ks = keys \<and>
      sorted_wrt dns_key_less ks) \<and>
    (\<exists>c. wrap_InfoContactLocalizedOutputData C d = Inr c \<and>
      unwrap_ContactData (sent_back c) =
        \<lparr>data_name = lcon_name d, data_organization = lcon_organization d,
         data_address = \<lparr>hideable_value = (if hideable_value (lcon_address d) = to_localized_address None then None
             else Some (hideable_value (lcon_address d))), publishability = publishability (lcon_address d)\<rparr>,
         data_mailing_address = lcon_mailing_address d, data_telephone = lcon_telephone d, data_fax = lcon_fax d,
         data_email = lcon_email d, data_notify_email = lcon_notify_email d, data_vat = lcon_vat d,
         data_ident = lcon_ident d\<rparr>)"
proof
  show "\<exists>ks. unwrap_dns_keys (wrap_Epp_InfoKeysetOutputData_DnsKeys keys) = Inr ks \<and> set ks = keys \<and>
      sorted_wrt dns_key_less ks"
    by (rule dns_keys_roundtrip [OF assms(1,2)])
  note readable = assms(3) [unfolded contact_readable_def]
  obtain n org a t f e v i ne where p:
    "wrap_privacy_policy (lcon_name d) = Inr n" "wrap_privacy_policy (lcon_organization d) = Inr org"
    "wrap_privacy_policy (lcon_address d) = Inr a" "wrap_privacy_policy (lcon_telephone d) = Inr t"
    "wrap_privacy_policy (lcon_fax d) = Inr f" "wrap_privacy_policy (lcon_email d) = Inr e"
    "wrap_privacy_policy (lcon_vat d) = Inr v" "wrap_privacy_policy (lcon_ident d) = Inr i"
    "wrap_privacy_policy (lcon_notify_email d) = Inr ne"
    using privacy_wrapped by metis
  have flags: "wrap_disclose_flags d = Inr \<lparr>flag_Name = n, flag_Organization = org, flag_Address = a,
      flag_Telephone = t, flag_Fax = f, flag_Email = e, flag_VAT = v, flag_Ident = i, flag_NotifyEmail = ne\<rparr>"
    by (simp add: wrap_disclose_flags_def p)
  have address: "make_hideable x a = \<lparr>hideable_value = x, publishability = publishability (lcon_address d)\<rparr>"
    for x :: "string option Address option"
    using privacy_roundtrip [OF p(3)] by (cases a) (auto simp: make_hideable_def make_public_data_def
        make_private_data_def make_data_with_unspecified_privacy_def dest: arg_cong [of _ _ publishability])
  have mailing: "unwrap_optional_contact_data_address
      (case wrap_OptionalAddressData (lcon_mailing_address d) of Some b \<Rightarrow> (True, b) | None \<Rightarrow> (False, x)) =
      lcon_mailing_address d" for x
  proof (cases "lcon_mailing_address d")
    case (Some m)
    then show ?thesis
      using mailing_address_roundtrip [of m] readable by (auto simp: unwrap_optional_contact_data_address_def)
  qed (simp add: wrap_OptionalAddressData_def unwrap_optional_contact_data_address_def)
  show "\<exists>c. wrap_InfoContactLocalizedOutputData C d = Inr c \<and> unwrap_ContactData (sent_back c) =
      \<lparr>data_name = lcon_name d, data_organization = lcon_organization d,
       data_address = \<lparr>hideable_value = (if hideable_value (lcon_address d) = to_localized_address None then None
           else Some (hideable_value (lcon_address d))), publishability = publishability (lcon_address d)\<rparr>,
       data_mailing_address = lcon_mailing_address d, data_telephone = lcon_telephone d, data_fax = lcon_fax d,
       data_email = lcon_email d, data_notify_email = lcon_notify_email d, data_vat = lcon_vat d,
       data_ident = lcon_ident d\<rparr>"
    using readable
    by (simp add: wrap_InfoContactLocalizedOutputData_def flags Let_def sent_back_def unwrap_ContactData_def
        hideable_roundtrip p hideable_ident_roundtrip main_address_roundtrip address mailing)
qed

definition sample_localized_contact :: InfoContactLocalizedOutputData where
  "sample_localized_contact =
     \<lparr>lcon_handle = ''CON1'', lcon_roid = ''C5'', lcon_sponsoring_registrar_handle = ''REG-A'',
      lcon_creating_registrar_handle = ''REG-A'', lcon_last_update_registrar_handle = None,
      lcon_localized_external_states = \<lparr>descriptions = Map.empty, success_state_localized_description = []\<rparr>, lcon_crdate = 0,
      lcon_last_update = None, lcon_last_transfer = None, lcon_name = make_public_data (Some ''Jan''),
      lcon_organization = make_public_data None,
      lcon_address = make_private_data \<lparr>street = Rows (Some ''Dum'') None (Some ''patro''), city = Some ''Praha'',
        state_or_province = None, postal_code = Some ''13000'', country_code = Some ''CZ''\<rparr>,
      lcon_mailing_address = None, lcon_telephone = make_private_data (Some ''+420.1''),
      lcon_fax = make_private_data None, lcon_email = make_public_data (Some ''jan@a.cz''),
      lcon_notify_email = make_private_data None, lcon_vat = make_private_data None,
      lcon_ident = make_private_data (Some (Ident_Op ''123''))\<rparr>"

theorem servant_roundtrip_witness:
  "(\<exists>ks. unwrap_dns_keys (wrap_Epp_InfoKeysetOutputData_DnsKeys
      {DnsKey_of 257 3 7 ''BBBB'', DnsKey_of 256 3 5 ''AAAA''}) = Inr ks \<and>
    set ks = {DnsKey_of 257 3 7 ''BBBB'', DnsKey_of 256 3 5 ''AAAA''} \<and> sorted_wrt dns_key_less ks) \<and>
   (\<exists>c. wrap_InfoContactLocalizedOutputData sample_corba sample_localized_contact = Inr c \<and>
     data_telephone (unwrap_ContactData (sent_back c)) = make_private_data (Some ''+420.1'') \<and>
     map_option street (hideable_value (data_address (unwrap_ContactData (sent_back c)))) =
       Some (Rows (Some ''Dum'') None (Some ''patro'')))"
proof -
  have contact: "contact_readable sample_localized_contact"
    by (simp add: contact_readable_def sample_localized_contact_def readable_def ident_readable_def
        make_public_data_def make_private_data_def image_iff) auto
  have keys: "finite {DnsKey_of 257 3 7 ''BBBB'', DnsKey_of 256 3 5 ''AAAA''}"
    "\<forall>k \<in> {DnsKey_of 257 3 7 ''BBBB'', DnsKey_of 256 3 5 ''AAAA''}.
      CHR 0x00 \<notin> set (get_key k) \<and> remove_spaces (get_key k) = get_key k"
    by (simp_all add: DnsKey_of_def remove_spaces_def)
  note both = servant_roundtrip [OF keys contact, of sample_corba]
  from both [THEN conjunct2] obtain c where
    "wrap_InfoContactLocalizedOutputData sample_corba sample_localized_contact = Inr c"
    "data_telephone (unwrap_ContactData (sent_back c)) = make_private_data (Some ''+420.1'')"
    "map_option street (hideable_value (data_address (unwrap_ContactData (sent_back c)))) =
       Some (Rows (Some ''Dum'') None (Some ''patro''))"
    by (auto simp: sample_localized_contact_def make_private_data_def to_localized_address_def)
  with both [THEN conjunct1] show ?thesis by blast
qed

text \<open>\<^verbatim>\<open>ContactCheck\<close> answers in the order of the question, a handle asked for twice twice, with what
  LibFred says of each handle: registered, in protection period, of wrong syntax, or available.\<close>

lemma contact_check_answers:
  assumes "contact_queries L (snd (time_now E db)) syntax contacts countries"
    and "ContactCheck C E L D handles params (c, db) = (Inr (response, answers), st)"
  shows "length answers = length handles \<and>
    (\<forall>i < length handles. \<exists>h. handles ! i = Some h \<and> avail (answers ! i) = contact_avail (syntax h) (contacts h))"
proof -
  obtain hs session s1 localized db' resp where
    run: "unwrap_handle_sequence_to_string_vector handles = Inr hs"
      "session_data E (unwrap_EppParams params) (get_server_transaction_handle C (unwrap_EppParams params)) (c, db) =
        (Inr session, s1)"
      "check_contact_localized L D (fold (set_insert string_less) hs []) session (snd s1) = (Inr (resp, localized), db')"
      "wrap_check_info wrap_contact_handle_check_result hs localized = Inr answers"
    using assms(2) unfolding ContactCheck_def by (auto simp: op_inv)
  obtain results w where
    core: "check_contact L (fold (set_insert string_less) hs []) session (snd s1) = (Inr results, w)"
      "\<And>h. map_option (map_option fst) (map_find string_less h localized) = map_find string_less h results"
    using localized_check_returns [OF run(3) [unfolded check_contact_localized_def]] by blast
  have session: "is_session_registrar_valid session"
    using check_contact.success_has_session [OF core(1)] by (simp add: is_session_registrar_valid_def)
  then have "snd s1 = snd (time_now E db)"
    using session_data_run [OF run(2)] by (simp add: is_session_registrar_valid_def)
  then have found: "map_find string_less h results =
      (if h \<in> set hs then Some (contact_handle_state_to_check_result (syntax h) (contacts h)) else None)" for h
    using check_contact_run [OF assms(1) session, of "fold (set_insert string_less) hs []"] core(1)
    by (auto simp: requested_members)
  have "avail (answers ! i) = contact_avail (syntax (hs ! i)) (contacts (hs ! i))" if i: "i < length hs" for i
  proof -
    obtain r where r: "map_find string_less (hs ! i) localized = Some r"
        "avail (answers ! i) = wrap_contact_handle_check_result r"
      using wrap_check_info_answers [OF run(4)] i by blast
    have "map_option fst r = contact_handle_state_to_check_result (syntax (hs ! i)) (contacts (hs ! i))"
      using core(2) [of "hs ! i"] found [of "hs ! i"] r(1) i by simp
    then show ?thesis
      using r(2) by (cases r) (auto simp: wrap_contact_handle_check_result_def contact_avail_def
          contact_handle_state_to_check_result_def split: Registrability.splits SyntaxValidity.splits)
  qed
  then show ?thesis
    using wrap_check_info_answers [OF run(4)] handles_unwrapped [OF run(1)] by auto
qed

end
