(* ===== verification/Object_Lists.thy ===== *)
theory Object_Lists
  imports Epp_Session
begin

text \<open>
  The lists of contacts, nssets, domains and keysets of the deprecated library
  (\<^verbatim>\<open>src/deprecated/libfred/common_impl.cc\<close>, \<^verbatim>\<open>object_impl.cc\<close> and
  \<^verbatim>\<open>registrable_object/\<close>): the filters of a list, the query made from them by
  \<^verbatim>\<open>makeQuery\<close>, and the filling of the temporary table. The tables of the registry are lists of
  rows; a query is the list of the identifiers it selects. Tables joined with commas are conditions
  that a row exists: every such table is tied to the object, and the identifiers are selected
  \<^verbatim>\<open>DISTINCT\<close>.
\<close>

section \<open>Tables\<close>

record registry_row =
  obr_id :: u64
  obr_name :: string
  obr_type :: nat
  obr_crid :: u64
  obr_crdate :: ptime

record object_row =
  o_id :: u64
  o_clid :: u64
  o_upid :: "u64 option"
  o_update :: "ptime option"
  o_trdate :: "ptime option"

record contact_row =
  contact_id :: u64
  col_name :: "string option"
  col_ssn :: "string option"
  col_email :: "string option"
  col_organization :: "string option"
  col_vat :: "string option"

record domain_row =
  domain_id :: u64
  col_registrant :: u64
  col_nsset :: "u64 option"
  col_keyset :: "u64 option"
  col_exdate :: ptime

text \<open>The pairs and triples are (domainid, contactid, role), (nssetid, contactid) and so on.\<close>

record registry_tables =
  object_registry :: "registry_row list"
  object_table :: "object_row list"
  registrar_table :: "(u64 \<times> string) list"
  contact_table :: "contact_row list"
  nsset_table :: "u64 list"
  keyset_table :: "u64 list"
  domain_table :: "domain_row list"
  domain_contact_map :: "(u64 \<times> u64 \<times> nat) list"
  nsset_contact_map :: "(u64 \<times> u64) list"
  keyset_contact_map :: "(u64 \<times> u64) list"
  host_table :: "(u64 \<times> string) list"
  host_ipaddr_map :: "(u64 \<times> string) list"
  enumval_table :: "(u64 \<times> ptime) list"

text \<open>
  Of SQL, the function \<^verbatim>\<open>UPPER\<close>, the operator \<^verbatim>\<open>ILIKE\<close> with the text first and the
  pattern second, and the order of texts, given by a key whose characters are compared, are
  parameters.
\<close>

record sql =
  sql_upper :: "string \<Rightarrow> string"
  sql_ilike :: "string \<Rightarrow> string \<Rightarrow> bool"
  sql_collation :: "string \<Rightarrow> string"

section \<open>Filters\<close>

text \<open>
  The ends of a \<^verbatim>\<open>time_period\<close>, \<open>None\<close> for an infinite one. The temporary table is private to
  the connection and made empty by the first filling, so that it is part of the list here.
\<close>

type_synonym time_period = "ptime option \<times> ptime option"

abbreviation any_time :: time_period where
  "any_time \<equiv> (None, None)"

record object_list =
  add_rows :: bool
  wcheck :: bool
  load_limit :: nat
  temp_table :: "u64 list"
  idFilter :: u64
  registrarFilter :: u64
  registrarHandleFilter :: string
  createRegistrarFilter :: u64
  createRegistrarHandleFilter :: string
  updateRegistrarFilter :: u64
  updateRegistrarHandleFilter :: string
  crDateIntervalFilter :: time_period
  updateIntervalFilter :: time_period
  trDateIntervalFilter :: time_period
  nonHandleFilterSet :: bool

definition new_object_list :: object_list where
  "new_object_list =
     \<lparr>add_rows = False, wcheck = True, load_limit = 1000, temp_table = [], idFilter = 0,
      registrarFilter = 0, registrarHandleFilter = [], createRegistrarFilter = 0,
      createRegistrarHandleFilter = [], updateRegistrarFilter = 0, updateRegistrarHandleFilter = [],
      crDateIntervalFilter = any_time, updateIntervalFilter = any_time,
      trDateIntervalFilter = any_time, nonHandleFilterSet = False\<rparr>"

definition setRegistrarFilter :: "u64 \<Rightarrow> 'x object_list_scheme \<Rightarrow> 'x object_list_scheme" where
  "setRegistrarFilter registrarId l = l\<lparr>registrarFilter := registrarId, nonHandleFilterSet := True\<rparr>"

definition setWildcardExpansion :: "bool \<Rightarrow> 'x object_list_scheme \<Rightarrow> 'x object_list_scheme" where
  "setWildcardExpansion w l = l\<lparr>wcheck := w\<rparr>"

section \<open>Conditions\<close>

definition TIME_FILTER_SET :: "time_period \<Rightarrow> bool" where
  "TIME_FILTER_SET f \<longleftrightarrow> fst f \<noteq> None \<or> snd f \<noteq> None"

text \<open>The days of the ends count: from the start of the first to the last second of the last one.\<close>

definition day_length :: int where
  "day_length = 24 * 60 * 60 * 1000000"

definition SQL_DATE_FILTER :: "ptime option \<Rightarrow> time_period \<Rightarrow> bool" where
  "SQL_DATE_FILTER col f \<longleftrightarrow>
     (case fst f of None \<Rightarrow> True
      | Some b \<Rightarrow> (case col of None \<Rightarrow> False | Some t \<Rightarrow> b div day_length * day_length \<le> t)) \<and>
     (case snd f of None \<Rightarrow> True
      | Some e \<Rightarrow> (case col of None \<Rightarrow> False
                  | Some t \<Rightarrow> t \<le> e div day_length * day_length + (24 * 60 * 60 - 1) * 1000000))"

definition SQL_ID_FILTER :: "u64 option \<Rightarrow> u64 \<Rightarrow> bool" where
  "SQL_ID_FILTER col member \<longleftrightarrow> (member \<noteq> 0 \<longrightarrow> col = Some member)"

text \<open>\<^verbatim>\<open>TRANSLATE(pattern, '*?', '%_')\<close>\<close>

definition translate_wildcards :: "string \<Rightarrow> string" where
  "translate_wildcards s = map (\<lambda>c. if c = CHR ''*'' then CHR ''%'' else if c = CHR ''?'' then CHR ''_'' else c) s"

definition SQL_WILDCARD_FILTER_FILL :: "'s sql_scheme \<Rightarrow> string option \<Rightarrow> string \<Rightarrow> bool" where
  "SQL_WILDCARD_FILTER_FILL S col member \<longleftrightarrow>
     (case col of None \<Rightarrow> False | Some t \<Rightarrow> sql_ilike S t (translate_wildcards member))"

definition SQL_HANDLE_FILTER :: "'s sql_scheme \<Rightarrow> string option \<Rightarrow> string \<Rightarrow> bool" where
  "SQL_HANDLE_FILTER S col member \<longleftrightarrow> (member \<noteq> [] \<longrightarrow> SQL_WILDCARD_FILTER_FILL S col member)"

definition SQL_HANDLE_WILDCHECK_FILTER ::
  "'s sql_scheme \<Rightarrow> string option \<Rightarrow> string \<Rightarrow> bool \<Rightarrow> bool \<Rightarrow> bool" where
  "SQL_HANDLE_WILDCHECK_FILTER S col member w u \<longleftrightarrow>
     (member \<noteq> [] \<longrightarrow>
       (if w \<and> (CHR ''*'' \<in> set member \<or> CHR ''?'' \<in> set member)
        then SQL_WILDCARD_FILTER_FILL S col member
        else (case col of None \<Rightarrow> False
              | Some t \<Rightarrow> if u then sql_upper S t = sql_upper S member else t = member)))"

text \<open>A registrar with the identifier and a matching handle.\<close>

definition registrar_matches ::
  "'s sql_scheme \<Rightarrow> 'x registry_tables_scheme \<Rightarrow> u64 option \<Rightarrow> string \<Rightarrow> bool \<Rightarrow> bool" where
  "registrar_matches S t registrar member w \<longleftrightarrow>
     (member \<noteq> [] \<longrightarrow>
       (\<exists>(i, h) \<in> set (registrar_table t).
          registrar = Some i \<and> SQL_HANDLE_WILDCHECK_FILTER S (Some h) member w False))"

text \<open>The conditions on the row of the table \<^verbatim>\<open>object\<close>, the same in the four lists.\<close>

definition object_filter_set :: "'x object_list_scheme \<Rightarrow> bool" where
  "object_filter_set l \<longleftrightarrow>
     registrarFilter l \<noteq> 0 \<or> registrarHandleFilter l \<noteq> [] \<or> updateRegistrarFilter l \<noteq> 0 \<or>
     updateRegistrarHandleFilter l \<noteq> [] \<or> TIME_FILTER_SET (updateIntervalFilter l) \<or>
     TIME_FILTER_SET (trDateIntervalFilter l)"

definition object_where ::
  "'s sql_scheme \<Rightarrow> 'x registry_tables_scheme \<Rightarrow> 'l object_list_scheme \<Rightarrow> u64 \<Rightarrow> bool" where
  "object_where S t l i \<longleftrightarrow>
     (object_filter_set l \<longrightarrow>
       (\<exists>r \<in> set (object_table t).
          i = o_id r \<and>
          SQL_ID_FILTER (Some (o_clid r)) (registrarFilter l) \<and>
          SQL_ID_FILTER (o_upid r) (updateRegistrarFilter l) \<and>
          SQL_DATE_FILTER (o_update r) (updateIntervalFilter l) \<and>
          SQL_DATE_FILTER (o_trdate r) (trDateIntervalFilter l) \<and>
          registrar_matches S t (Some (o_clid r)) (registrarHandleFilter l) (wcheck l) \<and>
          registrar_matches S t (o_upid r) (updateRegistrarHandleFilter l) (wcheck l)))"

text \<open>The conditions on the row of the table \<^verbatim>\<open>object_registry\<close>.\<close>

definition registry_where ::
  "'s sql_scheme \<Rightarrow> 'x registry_tables_scheme \<Rightarrow> 'l object_list_scheme \<Rightarrow> nat \<Rightarrow> string \<Rightarrow> bool \<Rightarrow> u64 \<Rightarrow> bool" where
  "registry_where S t l type handle u i \<longleftrightarrow>
     (createRegistrarFilter l \<noteq> 0 \<or> createRegistrarHandleFilter l \<noteq> [] \<or>
      TIME_FILTER_SET (crDateIntervalFilter l) \<or> handle \<noteq> [] \<longrightarrow>
       (\<exists>r \<in> set (object_registry t).
          obr_id r = i \<and> obr_type r = type \<and>
          SQL_ID_FILTER (Some (obr_crid r)) (createRegistrarFilter l) \<and>
          SQL_DATE_FILTER (Some (obr_crdate r)) (crDateIntervalFilter l) \<and>
          SQL_HANDLE_WILDCHECK_FILTER S (Some (obr_name r)) handle (wcheck l) u \<and>
          registrar_matches S t (Some (obr_crid r)) (createRegistrarHandleFilter l) (wcheck l)))"

text \<open>The object of the type is registered under a matching handle.\<close>

definition registered_under ::
  "'s sql_scheme \<Rightarrow> 'x registry_tables_scheme \<Rightarrow> nat \<Rightarrow> bool \<Rightarrow> string \<Rightarrow> u64 \<Rightarrow> bool" where
  "registered_under S t type w handle i \<longleftrightarrow>
     (\<exists>r \<in> set (object_registry t).
        obr_id r = i \<and> obr_type r = type \<and>
        SQL_HANDLE_WILDCHECK_FILTER S (Some (obr_name r)) handle w True)"

text \<open>\<^verbatim>\<open>SELECT DISTINCT id ... ORDER BY id ASC LIMIT ...\<close>\<close>

definition select_ids :: "(u64 \<Rightarrow> bool) \<Rightarrow> nat option \<Rightarrow> u64 list \<Rightarrow> u64 list" where
  "select_ids P limit ids =
     (let selected = sorted_list_of_set (set (filter P ids)) in
      case limit of None \<Rightarrow> selected | Some n \<Rightarrow> take n selected)"

section \<open>Lists of contacts\<close>

record contact_list = object_list +
  cl_handle :: string
  cl_name :: string
  cl_ident :: string
  cl_email :: string
  cl_org :: string
  cl_vat :: string

definition new_contact_list :: contact_list where
  "new_contact_list =
     object_list.extend new_object_list
       \<lparr>cl_handle = [], cl_name = [], cl_ident = [], cl_email = [], cl_org = [], cl_vat = []\<rparr>"

definition contact_where ::
  "'s sql_scheme \<Rightarrow> 'x registry_tables_scheme \<Rightarrow> contact_list \<Rightarrow> contact_row \<Rightarrow> bool" where
  "contact_where S t l c \<longleftrightarrow>
     SQL_ID_FILTER (Some (contact_id c)) (idFilter l) \<and>
     SQL_HANDLE_FILTER S (col_name c) (cl_name l) \<and>
     SQL_HANDLE_FILTER S (col_ssn c) (cl_ident l) \<and>
     SQL_HANDLE_FILTER S (col_email c) (cl_email l) \<and>
     SQL_HANDLE_FILTER S (col_organization c) (cl_org l) \<and>
     SQL_HANDLE_FILTER S (col_vat c) (cl_vat l) \<and>
     object_where S t l (contact_id c) \<and>
     registry_where S t l 1 (cl_handle l) True (contact_id c)"

definition contact_query ::
  "'s sql_scheme \<Rightarrow> 'x registry_tables_scheme \<Rightarrow> bool \<Rightarrow> contact_list \<Rightarrow> exn + u64 list" where
  "contact_query S t limit l =
     Inr (select_ids (\<lambda>i. \<exists>c \<in> set (contact_table t). contact_id c = i \<and> contact_where S t l c)
            (if limit then Some (load_limit l) else None) (map contact_id (contact_table t)))"

section \<open>Lists of nssets\<close>

record nsset_list = object_list +
  nl_handle :: string
  nl_hostname :: string
  nl_ip :: string
  nl_admin :: string

definition new_nsset_list :: nsset_list where
  "new_nsset_list =
     object_list.extend new_object_list \<lparr>nl_handle = [], nl_hostname = [], nl_ip = [], nl_admin = []\<rparr>"

definition setNssetAdminFilter :: "string \<Rightarrow> nsset_list \<Rightarrow> nsset_list" where
  "setNssetAdminFilter h l = l\<lparr>nl_admin := h, nonHandleFilterSet := True\<rparr>"

definition setHostNameFilter :: "string \<Rightarrow> nsset_list \<Rightarrow> nsset_list" where
  "setHostNameFilter h l = l\<lparr>nl_hostname := h, nonHandleFilterSet := True\<rparr>"

definition nsset_where :: "'s sql_scheme \<Rightarrow> 'x registry_tables_scheme \<Rightarrow> nsset_list \<Rightarrow> u64 \<Rightarrow> bool" where
  "nsset_where S t l n \<longleftrightarrow>
     SQL_ID_FILTER (Some n) (idFilter l) \<and>
     object_where S t l n \<and>
     registry_where S t l 2 (nl_handle l) True n \<and>
     (nl_admin l \<noteq> [] \<longrightarrow>
       (\<exists>(nssetid, contactid) \<in> set (nsset_contact_map t).
          n = nssetid \<and> registered_under S t 1 (wcheck l) (nl_admin l) contactid)) \<and>
     (nl_hostname l \<noteq> [] \<longrightarrow>
       (\<exists>(nssetid, fqdn) \<in> set (host_table t). n = nssetid \<and> SQL_HANDLE_FILTER S (Some fqdn) (nl_hostname l))) \<and>
     (nl_ip l \<noteq> [] \<longrightarrow>
       (\<exists>(nssetid, ipaddr) \<in> set (host_ipaddr_map t). n = nssetid \<and> SQL_HANDLE_FILTER S (Some ipaddr) (nl_ip l)))"

definition nsset_query ::
  "'s sql_scheme \<Rightarrow> 'x registry_tables_scheme \<Rightarrow> bool \<Rightarrow> nsset_list \<Rightarrow> exn + u64 list" where
  "nsset_query S t limit l =
     Inr (select_ids (nsset_where S t l) (if limit then Some (load_limit l) else None) (nsset_table t))"

section \<open>Lists of domains\<close>

text \<open>
  The filters of the zone, of a contact and of the state in the zone are kept too, but no query uses
  them.
\<close>

record domain_list = object_list +
  registrantFilter :: u64
  registrantHandleFilter :: string
  dl_nsset :: u64
  dl_nssetHandle :: string
  dl_keyset :: u64
  dl_keysetHandle :: string
  dl_admin :: u64
  dl_adminHandle :: string
  dl_temp :: u64
  dl_tempHandle :: string
  dl_fqdn :: string
  dl_exDate :: time_period
  dl_valExDate :: time_period
  dl_techAdmin :: string
  dl_hostIP :: string

definition new_domain_list :: domain_list where
  "new_domain_list =
     object_list.extend new_object_list
       \<lparr>registrantFilter = 0, registrantHandleFilter = [], dl_nsset = 0, dl_nssetHandle = [],
        dl_keyset = 0, dl_keysetHandle = [], dl_admin = 0, dl_adminHandle = [], dl_temp = 0,
        dl_tempHandle = [], dl_fqdn = [], dl_exDate = any_time, dl_valExDate = any_time,
        dl_techAdmin = [], dl_hostIP = []\<rparr>"

definition setRegistrantHandleFilter :: "string \<Rightarrow> domain_list \<Rightarrow> domain_list" where
  "setRegistrantHandleFilter h l = l\<lparr>registrantHandleFilter := h, nonHandleFilterSet := True\<rparr>"

definition setNssetHandleFilter :: "string \<Rightarrow> domain_list \<Rightarrow> domain_list" where
  "setNssetHandleFilter h l = l\<lparr>dl_nssetHandle := h, nonHandleFilterSet := True\<rparr>"

definition setKeysetHandleFilter :: "string \<Rightarrow> domain_list \<Rightarrow> domain_list" where
  "setKeysetHandleFilter h l = l\<lparr>dl_keysetHandle := h, nonHandleFilterSet := True\<rparr>"

definition setAdminHandleFilter :: "string \<Rightarrow> domain_list \<Rightarrow> domain_list" where
  "setAdminHandleFilter h l = l\<lparr>dl_adminHandle := h, nonHandleFilterSet := True\<rparr>"

definition setTempHandleFilter :: "string \<Rightarrow> domain_list \<Rightarrow> domain_list" where
  "setTempHandleFilter h l = l\<lparr>dl_tempHandle := h, nonHandleFilterSet := True\<rparr>"

text \<open>A contact of the domain in the role, given by its identifier or its handle.\<close>

definition domain_contact_where ::
  "'s sql_scheme \<Rightarrow> 'x registry_tables_scheme \<Rightarrow> bool \<Rightarrow> nat \<Rightarrow> u64 \<Rightarrow> string \<Rightarrow> u64 \<Rightarrow> bool" where
  "domain_contact_where S t w role contact handle d \<longleftrightarrow>
     (contact \<noteq> 0 \<or> handle \<noteq> [] \<longrightarrow>
       (\<exists>(domainid, contactid, r) \<in> set (domain_contact_map t).
          d = domainid \<and> r = role \<and> SQL_ID_FILTER (Some contactid) contact \<and>
          (handle \<noteq> [] \<longrightarrow> registered_under S t 1 w handle contactid)))"

definition domain_where ::
  "'s sql_scheme \<Rightarrow> 'x registry_tables_scheme \<Rightarrow> domain_list \<Rightarrow> domain_row \<Rightarrow> bool" where
  "domain_where S t l d \<longleftrightarrow>
     SQL_ID_FILTER (Some (domain_id d)) (idFilter l) \<and>
     SQL_DATE_FILTER (Some (col_exdate d)) (dl_exDate l) \<and>
     SQL_ID_FILTER (col_nsset d) (dl_nsset l) \<and>
     SQL_ID_FILTER (col_keyset d) (dl_keyset l) \<and>
     SQL_ID_FILTER (Some (col_registrant d)) (registrantFilter l) \<and>
     object_where S t l (domain_id d) \<and>
     registry_where S t l 3 (dl_fqdn l) False (domain_id d) \<and>
     (TIME_FILTER_SET (dl_valExDate l) \<longrightarrow>
       (\<exists>(domainid, exdate) \<in> set (enumval_table t).
          domain_id d = domainid \<and> SQL_DATE_FILTER (Some exdate) (dl_valExDate l))) \<and>
     (registrantHandleFilter l \<noteq> [] \<longrightarrow>
       registered_under S t 1 (wcheck l) (registrantHandleFilter l) (col_registrant d)) \<and>
     domain_contact_where S t (wcheck l) 1 (dl_admin l) (dl_adminHandle l) (domain_id d) \<and>
     domain_contact_where S t (wcheck l) 2 (dl_temp l) (dl_tempHandle l) (domain_id d) \<and>
     (dl_nssetHandle l \<noteq> [] \<longrightarrow>
       (case col_nsset d of None \<Rightarrow> False
        | Some n \<Rightarrow> registered_under S t 2 (wcheck l) (dl_nssetHandle l) n)) \<and>
     (dl_keysetHandle l \<noteq> [] \<longrightarrow>
       (case col_keyset d of None \<Rightarrow> False
        | Some k \<Rightarrow> registered_under S t 4 (wcheck l) (dl_keysetHandle l) k)) \<and>
     (dl_techAdmin l \<noteq> [] \<longrightarrow>
       (\<exists>(nssetid, contactid) \<in> set (nsset_contact_map t).
          col_nsset d = Some nssetid \<and> registered_under S t 1 (wcheck l) (dl_techAdmin l) contactid)) \<and>
     (dl_hostIP l \<noteq> [] \<longrightarrow>
       (\<exists>(nssetid, ipaddr) \<in> set (host_ipaddr_map t).
          col_nsset d = Some nssetid \<and> SQL_HANDLE_FILTER S (Some ipaddr) (dl_hostIP l)))"

definition domain_query ::
  "'s sql_scheme \<Rightarrow> 'x registry_tables_scheme \<Rightarrow> bool \<Rightarrow> domain_list \<Rightarrow> exn + u64 list" where
  "domain_query S t limit l =
     Inr (select_ids
            (\<lambda>i. (\<exists>d \<in> set (domain_table t). domain_id d = i \<and> domain_where S t l d) \<and>
                 (add_rows l \<longrightarrow> i \<notin> set (temp_table l)))
            (if limit then Some (load_limit l) else None) (map domain_id (domain_table t)))"

section \<open>Lists of keysets\<close>

record keyset_list = object_list +
  kl_handle :: string
  kl_admin :: string

definition new_keyset_list :: keyset_list where
  "new_keyset_list = object_list.extend new_object_list \<lparr>kl_handle = [], kl_admin = []\<rparr>"

definition setKeysetAdminFilter :: "string \<Rightarrow> keyset_list \<Rightarrow> keyset_list" where
  "setKeysetAdminFilter h l = l\<lparr>kl_admin := h\<rparr>"

definition keyset_where :: "'s sql_scheme \<Rightarrow> 'x registry_tables_scheme \<Rightarrow> keyset_list \<Rightarrow> u64 \<Rightarrow> bool" where
  "keyset_where S t l k \<longleftrightarrow>
     SQL_ID_FILTER (Some k) (idFilter l) \<and>
     object_where S t l k \<and>
     registry_where S t l 4 (kl_handle l) True k \<and>
     (kl_admin l \<noteq> [] \<longrightarrow>
       (\<exists>(keysetid, contactid) \<in> set (keyset_contact_map t).
          k = keysetid \<and> registered_under S t 1 (wcheck l) (kl_admin l) contactid))"

text \<open>
  The columns \<^verbatim>\<open>upData\<close> and \<^verbatim>\<open>trData\<close> this query names do not exist: the statement fails
  whenever it restricts the time of the last update or transfer.
\<close>

definition keyset_query ::
  "'s sql_scheme \<Rightarrow> 'x registry_tables_scheme \<Rightarrow> bool \<Rightarrow> keyset_list \<Rightarrow> exn + u64 list" where
  "keyset_query S t limit l =
     (if TIME_FILTER_SET (updateIntervalFilter l) \<or> TIME_FILTER_SET (trDateIntervalFilter l)
      then Inl (StdException ''SQL ERROR'')
      else Inr (select_ids (keyset_where S t l) (if limit then Some (load_limit l) else None) (keyset_table t)))"

section \<open>Filling the temporary table\<close>

text \<open>The statements may fail for reasons outside of this model; then \<open>works\<close> is false.\<close>

definition fillTempTable ::
  "bool \<Rightarrow> (bool \<Rightarrow> 'x object_list_scheme \<Rightarrow> exn + u64 list) \<Rightarrow> bool \<Rightarrow>
     ('x object_list_scheme, exn, unit) op" where
  "fillTempTable works query limit = (\<lambda>l.
     if \<not> works then (Inl (StdException ''SQL ERROR''), l)
     else
       let l1 = (if add_rows l then l else l\<lparr>temp_table := []\<rparr>) in
       case query limit l1 of
         Inl e \<Rightarrow> (Inl e, l1)
       | Inr ids \<Rightarrow> (Inr (), l1\<lparr>temp_table := temp_table l1 @ ids, add_rows := True\<rparr>))"

definition modify_list :: "('l \<Rightarrow> 'l) \<Rightarrow> ('l, exn, unit) op" where
  "modify_list f = (\<lambda>l. (Inr (), f l))"

end
