(* ===== verification/Info_Buffer.thy ===== *)
theory Info_Buffer
  imports Object_Lists
begin

text \<open>
  The buffer in which the result of a listing is kept for a registrar until it is read in chunks
  (\<^verbatim>\<open>src/deprecated/libfred/info_buffer.cc\<close>). The two tables of the buffer are part of the
  state. A statement may fail for reasons outside of this model: the parameter \<open>works\<close> says which
  statements are carried out.
\<close>

section \<open>Tables\<close>

record info_tables = registry_tables +
  epp_info_buffer :: "(u64 \<times> u64 option) list"
  epp_info_buffer_content :: "(nat \<times> u64 \<times> u64) list"

datatype statement =
    Select_registrar | Fill_temporary_table | Insert_buffer | Reset_current | Delete_content
  | Create_sequence | Insert_content | Count_content | Select_position | Update_current | Select_names

definition SQL_ERROR :: exn where
  "SQL_ERROR = StdException ''SQL ERROR''"

definition INVALID_REGISTRAR :: exn where
  "INVALID_REGISTRAR = StdException ''InfoBuffer INVALID_REGISTRAR''"

definition statement :: "(statement \<Rightarrow> bool) \<Rightarrow> statement \<Rightarrow> ('t \<Rightarrow> 't) \<Rightarrow> ('t, exn, unit) op" where
  "statement works s f = (\<lambda>t. if works s then (Inr (), f t) else (Inl SQL_ERROR, t))"

definition question :: "(statement \<Rightarrow> bool) \<Rightarrow> statement \<Rightarrow> ('t \<Rightarrow> 'a) \<Rightarrow> ('t, exn, 'a) op" where
  "question works s f = (\<lambda>t. if works s then (Inr (f t), t) else (Inl SQL_ERROR, t))"

section \<open>The objects asked for\<close>

datatype InfoType =
    T_LIST_CONTACTS | T_LIST_DOMAINS | T_LIST_NSSETS | T_LIST_KEYSETS | T_DOMAINS_BY_NSSET
  | T_DOMAINS_BY_CONTACT | T_DOMAINS_BY_KEYSET | T_NSSETS_BY_CONTACT | T_NSSETS_BY_NS
  | T_KEYSETS_BY_CONTACT

definition filled :: "('x object_list_scheme, exn, unit) op \<Rightarrow> 'x object_list_scheme \<Rightarrow> exn + u64 list" where
  "filled m l = (case m l of (Inl e, _) \<Rightarrow> Inl e | (Inr _, l') \<Rightarrow> Inr (temp_table l'))"

text \<open>\<^verbatim>\<open>list->setWildcardExpansion(false); list->fillTempTable(false);\<close>\<close>

definition fill_exactly ::
  "(statement \<Rightarrow> bool) \<Rightarrow> (bool \<Rightarrow> 'x object_list_scheme \<Rightarrow> exn + u64 list) \<Rightarrow>
     ('x object_list_scheme, exn, unit) op" where
  "fill_exactly works query =
     bindE (modify_list (setWildcardExpansion False)) (\<lambda>_.
       fillTempTable (works Fill_temporary_table) query False)"

definition domains_by_contact ::
  "'s sql_scheme \<Rightarrow> (statement \<Rightarrow> bool) \<Rightarrow> 'x registry_tables_scheme \<Rightarrow> string \<Rightarrow> (domain_list, exn, unit) op" where
  "domains_by_contact S works t request =
     (let fill = fillTempTable (works Fill_temporary_table) (domain_query S t) False in
      bindE (modify_list (setRegistrantHandleFilter request \<circ> setWildcardExpansion False)) (\<lambda>_.
      bindE fill (\<lambda>_.
      bindE (modify_list (setAdminHandleFilter request \<circ> setRegistrantHandleFilter [])) (\<lambda>_.
      bindE fill (\<lambda>_.
      bindE (modify_list (setTempHandleFilter request \<circ> setAdminHandleFilter [])) (\<lambda>_.
      fill_exactly works (domain_query S t)))))))"

primrec selected_objects ::
  "'s sql_scheme \<Rightarrow> (statement \<Rightarrow> bool) \<Rightarrow> 'x registry_tables_scheme \<Rightarrow> u64 \<Rightarrow> string \<Rightarrow> InfoType \<Rightarrow> exn + u64 list" where
  "selected_objects S works t registrar request T_LIST_DOMAINS =
     filled (fill_exactly works (domain_query S t)) (setRegistrarFilter registrar new_domain_list)"
| "selected_objects S works t registrar request T_DOMAINS_BY_NSSET =
     filled (fill_exactly works (domain_query S t)) (setNssetHandleFilter request new_domain_list)"
| "selected_objects S works t registrar request T_DOMAINS_BY_CONTACT =
     filled (domains_by_contact S works t request) new_domain_list"
| "selected_objects S works t registrar request T_DOMAINS_BY_KEYSET =
     filled (fill_exactly works (domain_query S t)) (setKeysetHandleFilter request new_domain_list)"
| "selected_objects S works t registrar request T_LIST_NSSETS =
     filled (fill_exactly works (nsset_query S t)) (setRegistrarFilter registrar new_nsset_list)"
| "selected_objects S works t registrar request T_LIST_KEYSETS =
     filled (fill_exactly works (keyset_query S t)) (setRegistrarFilter registrar new_keyset_list)"
| "selected_objects S works t registrar request T_NSSETS_BY_CONTACT =
     filled (fill_exactly works (nsset_query S t)) (setNssetAdminFilter request new_nsset_list)"
| "selected_objects S works t registrar request T_KEYSETS_BY_CONTACT =
     filled (fill_exactly works (keyset_query S t)) (setKeysetAdminFilter request new_keyset_list)"
| "selected_objects S works t registrar request T_NSSETS_BY_NS =
     filled (fill_exactly works (nsset_query S t)) (setHostNameFilter request new_nsset_list)"
| "selected_objects S works t registrar request T_LIST_CONTACTS =
     filled (fill_exactly works (contact_query S t)) (setRegistrarFilter registrar new_contact_list)"

section \<open>Filling the buffer\<close>

definition ensure_buffer :: "u64 \<Rightarrow> 'x info_tables_scheme \<Rightarrow> 'x info_tables_scheme" where
  "ensure_buffer registrar t =
     t\<lparr>epp_info_buffer := epp_info_buffer t @
        map (\<lambda>(i, _). (i, None))
          (filter (\<lambda>(i, _). i \<notin> fst ` set (epp_info_buffer t) \<and> i = registrar) (registrar_table t))\<rparr>"

definition set_current :: "u64 \<Rightarrow> u64 option \<Rightarrow> 'x info_tables_scheme \<Rightarrow> 'x info_tables_scheme" where
  "set_current registrar c t =
     t\<lparr>epp_info_buffer := map (\<lambda>(r, c'). (r, if r = registrar then c else c')) (epp_info_buffer t)\<rparr>"

definition delete_content :: "u64 \<Rightarrow> 'x info_tables_scheme \<Rightarrow> 'x info_tables_scheme" where
  "delete_content registrar t =
     t\<lparr>epp_info_buffer_content := filter (\<lambda>(_, r, _). r \<noteq> registrar) (epp_info_buffer_content t)\<rparr>"

text \<open>The rows of the temporary table joined with those of the registry, in the order of names.\<close>

definition names_of :: "'x registry_tables_scheme \<Rightarrow> u64 \<Rightarrow> string list" where
  "names_of t i = map obr_name (filter (\<lambda>r. obr_id r = i) (object_registry t))"

definition in_order_of_names :: "'s sql_scheme \<Rightarrow> 'x registry_tables_scheme \<Rightarrow> u64 list \<Rightarrow> u64 list" where
  "in_order_of_names S t ids =
     map fst (sort_key (\<lambda>(_, n). sql_collation S n) (concat (map (\<lambda>i. map (Pair i) (names_of t i)) ids)))"

text \<open>The rows are numbered from 1 by the temporary sequence.\<close>

definition insert_content :: "'s sql_scheme \<Rightarrow> u64 \<Rightarrow> u64 list \<Rightarrow> 'x info_tables_scheme \<Rightarrow> 'x info_tables_scheme" where
  "insert_content S registrar ids t =
     t\<lparr>epp_info_buffer_content := epp_info_buffer_content t @
        map (\<lambda>(n, i). (n, registrar, i)) (List.enumerate 1 (in_order_of_names S t ids))\<rparr>"

definition buffer_rows :: "u64 \<Rightarrow> 'x info_tables_scheme \<Rightarrow> (nat \<times> u64 \<times> u64) list" where
  "buffer_rows registrar t = filter (\<lambda>(_, r, _). r = registrar) (epp_info_buffer_content t)"

definition info ::
  "'s sql_scheme \<Rightarrow> (statement \<Rightarrow> bool) \<Rightarrow> u64 \<Rightarrow> InfoType \<Rightarrow> string \<Rightarrow> ('x info_tables_scheme, exn, u64) op" where
  "info S works registrar infotype request =
     throw_if (registrar = 0) INVALID_REGISTRAR
       (bindE (\<lambda>t. (selected_objects S works t registrar request infotype, t)) (\<lambda>ids.
        bindE (statement works Insert_buffer (ensure_buffer registrar)) (\<lambda>_.
        bindE (statement works Reset_current (set_current registrar None)) (\<lambda>_.
        bindE (statement works Delete_content (delete_content registrar)) (\<lambda>_.
        bindE (statement works Create_sequence (\<lambda>t. t)) (\<lambda>_.
        bindE (statement works Insert_content (insert_content S registrar ids)) (\<lambda>_.
        question works Count_content (\<lambda>t. of_nat (length (buffer_rows registrar t))))))))))"

text \<open>
  The number of the registrar with a handle, as both functions for handles find it: \<^verbatim>\<open>atoi\<close> makes an
  \<^verbatim>\<open>int\<close> of it.
\<close>

definition buffer_registrar :: "(statement \<Rightarrow> bool) \<Rightarrow> string \<Rightarrow> ('x registry_tables_scheme, exn, u64) op" where
  "buffer_registrar works registrar =
     bindE (question works Select_registrar (\<lambda>t. filter (\<lambda>(_, h). h = registrar) (registrar_table t))) (\<lambda>rows.
       case rows of [(i, _)] \<Rightarrow> returnE (scast (ucast i :: u32)) | _ \<Rightarrow> throwE INVALID_REGISTRAR)"

definition info_by_handle ::
  "'s sql_scheme \<Rightarrow> (statement \<Rightarrow> bool) \<Rightarrow> string \<Rightarrow> InfoType \<Rightarrow> string \<Rightarrow> ('x info_tables_scheme, exn, u64) op" where
  "info_by_handle S works registrar infotype request =
     bindE (buffer_registrar works registrar) (\<lambda>i. info S works i infotype request)"

section \<open>Reading the buffer\<close>

record Chunk =
  chunkSize :: u64
  rest :: "string list"

text \<open>
  The number of the rows and the position: the tables joined, the greatest position that is not
  null; no row at all when the registrar has no content.
\<close>

definition buffer_position :: "u64 \<Rightarrow> 'x info_tables_scheme \<Rightarrow> u64 \<times> u64" where
  "buffer_position registrar t =
     (let buffers = filter (\<lambda>(r, _). r = registrar) (epp_info_buffer t);
          ids = map fst (buffer_rows registrar t);
          currents = List.map_filter snd buffers in
      if buffers = [] \<or> ids = [] then (0, 0)
      else (of_nat (length (remdups ids)), if currents = [] then 0 else Max (set currents)))"

definition names_between :: "u64 \<Rightarrow> u64 \<Rightarrow> u64 \<Rightarrow> 'x info_tables_scheme \<Rightarrow> string list" where
  "names_between registrar a b t =
     concat (map (\<lambda>(_, _, i). names_of t i)
       (sort_key fst (filter (\<lambda>(n, _, _). unat a < n \<and> n \<le> unat b) (buffer_rows registrar t))))"

definition new_chunk :: "(statement \<Rightarrow> bool) \<Rightarrow> u64 \<Rightarrow> u32 \<Rightarrow> ('x info_tables_scheme, exn, Chunk) op" where
  "new_chunk works registrar chunk_limit =
     bindE (question works Select_position (buffer_position registrar)) (\<lambda>(count, current).
     let chunk_number = (if count - current < ucast chunk_limit then count - current else ucast chunk_limit) in
     if chunk_number = 0 then returnE \<lparr>chunkSize = 0, rest = []\<rparr>
     else
       bindE (statement works Update_current (set_current registrar (Some (current + chunk_number)))) (\<lambda>_.
       bindE (question works Select_names (names_between registrar current (current + chunk_number))) (\<lambda>names.
       returnE \<lparr>chunkSize = chunk_number, rest = names\<rparr>)))"

definition getChunk :: "(statement \<Rightarrow> bool) \<Rightarrow> u64 \<Rightarrow> u32 \<Rightarrow> ('x info_tables_scheme, exn, Chunk) op" where
  "getChunk works registrar chunk_limit = throw_if (registrar = 0) INVALID_REGISTRAR (new_chunk works registrar chunk_limit)"

definition getChunk_by_handle ::
  "(statement \<Rightarrow> bool) \<Rightarrow> string \<Rightarrow> u32 \<Rightarrow> ('x info_tables_scheme, exn, Chunk) op" where
  "getChunk_by_handle works registrar chunk_limit =
     bindE (buffer_registrar works registrar) (\<lambda>i. getChunk works i chunk_limit)"

definition getCount :: "Chunk \<Rightarrow> u64" where
  "getCount c = chunkSize c"

definition getNext :: "Chunk \<Rightarrow> string \<times> Chunk" where
  "getNext c = (case rest c of [] \<Rightarrow> ([], c) | x # xs \<Rightarrow> (x, c\<lparr>rest := xs\<rparr>))"

text \<open>The loop that takes so many records out of a chunk.\<close>

fun next_records :: "nat \<Rightarrow> Chunk \<Rightarrow> string list" where
  "next_records 0 c = []"
| "next_records (Suc n) c = (case getNext c of (x, c') \<Rightarrow> x # next_records n c')"

end
