(* ===== verification/Info_Reader.thy ===== *)
theory Info_Reader
  imports Info_Buffer Std_Containers
begin

text \<open>
  What the buffer of listings promises: it is, for every registrar, a list of names that is filled by
  a listing and read from its front in chunks.
\<close>

section \<open>Rows numbered from one\<close>

lemma filter_enumerate:
  "filter (\<lambda>(n, _). a < n \<and> n \<le> b) (List.enumerate k xs) =
     take (b - max a (k - 1)) (drop (a + 1 - k) (List.enumerate k xs))" if "0 < k"
  using that
proof (induction xs arbitrary: k)
  case (Cons x xs)
  show ?case
    using Cons.IH [of "Suc k"] Cons.prems
    by (cases "a < k") (auto simp: Suc_diff_le max_def take_Cons' diff_Suc split: nat.splits)
qed simp

corollary filter_numbered:
  "filter (\<lambda>(n, _). a < n \<and> n \<le> b) (List.enumerate 1 xs) = take (b - a) (drop a (List.enumerate 1 xs))"
  using filter_enumerate [of 1 a b xs] by simp

lemma length_enumerate: "length (List.enumerate n xs) = length xs"
  by (simp add: enumerate_eq_zip)

lemma distinct_enumerate: "distinct (map fst (List.enumerate n xs))"
  by (simp add: enumerate_eq_zip)

lemma filter_map_pair: "filter (\<lambda>(n, _, _). P n) (map (\<lambda>(n, i). (n, R, i)) xs) =
    map (\<lambda>(n, i). (n, R, i)) (filter (\<lambda>(n, _). P n) xs)"
  by (induction xs) auto

lemma unat_of_nat_sum: "a + b < 2 ^ 64 \<Longrightarrow> unat (of_nat a + of_nat b :: u64) = a + b"
  by (simp only: of_nat_add [symmetric] unat_of_nat take_bit_nat_eq_self_iff len_bit0 len_num1)
    (simp add: take_bit_nat_eq_self_iff)

section \<open>A contract for reading in chunks\<close>

locale chunk_reader =
  fixes inv :: "'s \<Rightarrow> bool" and waiting :: "'s \<Rightarrow> 'a list" and chunk :: "'s \<Rightarrow> 'a list \<times> 's"
    and limit :: nat
  assumes chunk_taken: "inv s \<Longrightarrow> fst (chunk s) = take limit (waiting s)"
    and chunk_left: "inv s \<Longrightarrow> waiting (snd (chunk s)) = drop limit (waiting s)"
    and chunk_inv: "inv s \<Longrightarrow> inv (snd (chunk s))"
    and limit_positive: "0 < limit"
begin

text \<open>The chunks read one after another.\<close>

primrec chunks :: "nat \<Rightarrow> 's \<Rightarrow> 'a list list" where
  "chunks 0 s = []"
| "chunks (Suc k) s = fst (chunk s) # chunks k (snd (chunk s))"

lemma chunks_concat: "inv s \<Longrightarrow> concat (chunks k s) = take (k * limit) (waiting s)"
  by (induction k arbitrary: s) (simp_all add: chunk_taken chunk_left chunk_inv take_add)

lemma chunks_all: "inv s \<Longrightarrow> length (waiting s) \<le> k * limit \<Longrightarrow> concat (chunks k s) = waiting s"
  by (simp add: chunks_concat)

lemma chunks_enough: "inv s \<Longrightarrow> length (waiting s) \<le> k \<Longrightarrow> concat (chunks k s) = waiting s"
proof -
  assume "inv s" "length (waiting s) \<le> k"
  moreover from this limit_positive have "length (waiting s) \<le> k * limit"
    by (metis Suc_leI le_trans mult_le_mono2 mult.right_neutral One_nat_def)
  ultimately show "concat (chunks k s) = waiting s"
    by (simp add: chunks_concat)
qed

end

section \<open>The buffer of a registrar\<close>

definition position_of :: "u64 \<Rightarrow> 'x info_tables_scheme \<Rightarrow> nat" where
  "position_of registrar t =
     (case List.map_filter snd (filter (\<lambda>(r, _). r = registrar) (epp_info_buffer t)) of
        [] \<Rightarrow> 0
      | c # _ \<Rightarrow> unat c)"

definition kept_objects :: "u64 \<Rightarrow> 'x info_tables_scheme \<Rightarrow> u64 list" where
  "kept_objects registrar t = map (\<lambda>(_, _, i). i) (buffer_rows registrar t)"

definition waiting_names :: "u64 \<Rightarrow> 'x info_tables_scheme \<Rightarrow> string list" where
  "waiting_names registrar t =
     drop (position_of registrar t) (concat (map (names_of t) (kept_objects registrar t)))"

text \<open>
  The rows are numbered from one, every object has one name, and there is one position, not beyond
  the rows; without a row for the position there are no rows.
\<close>

definition buffer_inv :: "u64 \<Rightarrow> 'x info_tables_scheme \<Rightarrow> bool" where
  "buffer_inv registrar t \<longleftrightarrow>
     buffer_rows registrar t =
       map (\<lambda>(n, i). (n, registrar, i)) (List.enumerate 1 (kept_objects registrar t)) \<and>
     length (kept_objects registrar t) < 2 ^ 64 \<and>
     (\<forall>i \<in> set (kept_objects registrar t). length (names_of t i) = 1) \<and>
     length (filter (\<lambda>(r, _). r = registrar) (epp_info_buffer t)) \<le> 1 \<and>
     (kept_objects registrar t \<noteq> [] \<longrightarrow> registrar \<in> fst ` set (epp_info_buffer t)) \<and>
     position_of registrar t \<le> length (kept_objects registrar t)"

lemma buffer_inv_rows:
  "buffer_inv R t \<Longrightarrow>
     buffer_rows R t = map (\<lambda>(n, i). (n, R, i)) (List.enumerate 1 (kept_objects R t))"
  by (simp only: buffer_inv_def)

lemma one_name: "\<forall>i \<in> set is. length (names_of t i) = 1 \<Longrightarrow>
    concat (map (names_of t) is) = map (\<lambda>i. hd (names_of t i)) is"
proof (induction "is")
  case (Cons i "is")
  then show ?case by (cases "names_of t i") auto
qed simp

lemma waiting_one_name:
  "buffer_inv R t \<Longrightarrow>
     waiting_names R t = map (\<lambda>i. hd (names_of t i)) (drop (position_of R t) (kept_objects R t))"
  by (simp add: waiting_names_def buffer_inv_def one_name drop_map)

lemma slice_one_name:
  assumes "buffer_inv R t"
  shows "concat (map (names_of t) (take m (drop k (kept_objects R t)))) =
    map (\<lambda>i. hd (names_of t i)) (take m (drop k (kept_objects R t)))"
proof (rule one_name)
  show "\<forall>i \<in> set (take m (drop k (kept_objects R t))). length (names_of t i) = 1"
    using assms unfolding buffer_inv_def by (meson in_set_dropD in_set_takeD)
qed

lemma waiting_small: "buffer_inv R t \<Longrightarrow> length (waiting_names R t) < 2 ^ 64"
  by (simp add: waiting_one_name) (simp add: buffer_inv_def less_imp_diff_less)

lemma single_buffer:
  assumes "length (filter (\<lambda>(r, _). r = R) b) \<le> 1" "R \<in> fst ` set b"
  obtains c where "filter (\<lambda>(r, _). r = R) b = [(R, c)]"
proof -
  let ?b = "filter (\<lambda>(r, _). r = R) b"
  have "?b \<noteq> []" using assms(2) by (force simp: filter_empty_conv)
  with assms(1) obtain p where p: "?b = [p]"
    by (cases ?b) auto
  moreover have "fst p = R"
    using p by (metis (mono_tags, lifting) case_prod_unfold filter_eq_ConsD)
  ultimately show ?thesis using that by (cases p) auto
qed

lemma set_current_tables [simp]:
  "epp_info_buffer_content (set_current R c t) = epp_info_buffer_content t"
  "buffer_rows R' (set_current R c t) = buffer_rows R' t"
  "kept_objects R' (set_current R c t) = kept_objects R' t"
  "names_of (set_current R c t) = names_of t"
  "fst ` set (epp_info_buffer (set_current R c t)) = fst ` set (epp_info_buffer t)"
  by (auto simp: set_current_def buffer_rows_def kept_objects_def names_of_def fun_eq_iff image_image case_prod_unfold)

lemma set_current_filter:
  "filter (\<lambda>(r, _). r = R') (epp_info_buffer (set_current R c t)) =
     map (\<lambda>(r, c'). (r, if r = R then c else c')) (filter (\<lambda>(r, _). r = R') (epp_info_buffer t))"
  by (simp add: set_current_def filter_map comp_def case_prod_unfold)

lemma position_set_current:
  assumes "filter (\<lambda>(r, _). r = R) (epp_info_buffer t) = [(R, c)]"
  shows "position_of R (set_current R c' t) = (case c' of None \<Rightarrow> 0 | Some n \<Rightarrow> unat n)"
  using assms by (simp add: position_of_def set_current_filter List.map_filter_simps split: option.splits)

lemma position_set_current_other:
  "R' \<noteq> R \<Longrightarrow> position_of R' (set_current R c t) = position_of R' t"
proof -
  assume "R' \<noteq> R"
  then have "filter (\<lambda>(r, _). r = R') (epp_info_buffer (set_current R c t)) =
      filter (\<lambda>(r, _). r = R') (epp_info_buffer t)"
    by (auto simp: set_current_filter intro!: map_idI split: prod.splits)
  then show ?thesis by (simp add: position_of_def)
qed

lemma set_current_other:
  assumes "R' \<noteq> R"
  shows "buffer_inv R' (set_current R c t) = buffer_inv R' t"
    and "waiting_names R' (set_current R c t) = waiting_names R' t"
  using assms by (simp_all add: buffer_inv_def waiting_names_def position_set_current_other set_current_filter)

text \<open>The number of rows and the position, as the statement finds them.\<close>

lemma buffer_position_inv:
  assumes "buffer_inv R t"
  shows "buffer_position R t = (of_nat (length (kept_objects R t)), of_nat (position_of R t))"
proof (cases "kept_objects R t = []")
  case True
  with assms show ?thesis
    by (simp add: buffer_inv_def buffer_position_def Let_def)
next
  case False
  have rows: "buffer_rows R t = map (\<lambda>(n, i). (n, R, i)) (List.enumerate 1 (kept_objects R t))"
    using assms by (simp add: buffer_inv_def)
  have ids: "map fst (buffer_rows R t) = map fst (List.enumerate 1 (kept_objects R t))"
    by (subst rows) (simp add: comp_def case_prod_unfold)
  obtain c where c: "filter (\<lambda>(r, _). r = R) (epp_info_buffer t) = [(R, c)]"
    by (rule single_buffer [of R "epp_info_buffer t"]) (use assms False in \<open>simp_all add: buffer_inv_def\<close>)
  have "length (remdups (map fst (List.enumerate 1 (kept_objects R t)))) = length (kept_objects R t)"
    by (simp only: distinct_remdups_id [OF distinct_enumerate] length_map length_enumerate)
  moreover have "map fst (List.enumerate 1 (kept_objects R t)) \<noteq> []"
    using False by (cases "kept_objects R t") auto
  ultimately show ?thesis
    unfolding buffer_position_def Let_def ids c position_of_def
    by (cases c) (simp_all add: List.map_filter_simps)
qed

lemma names_between_set_current [simp]:
  "names_between R' a b (set_current R c t) = names_between R' a b t"
  by (simp add: names_between_def)

text \<open>The slice of the rows between two positions.\<close>

lemma names_between_inv:
  assumes "buffer_inv R t"
  shows "names_between R a b t =
    concat (map (names_of t) (take (unat b - unat a) (drop (unat a) (kept_objects R t))))"
proof -
  let ?rows = "List.enumerate 1 (kept_objects R t)"
  have "filter (\<lambda>(n, _, _). unat a < n \<and> n \<le> unat b) (buffer_rows R t) =
      map (\<lambda>(n, i). (n, R, i)) (filter (\<lambda>(n, _). unat a < n \<and> n \<le> unat b) ?rows)"
    using assms by (subst buffer_inv_rows) (simp_all only: filter_map_pair)
  also have "\<dots> = map (\<lambda>(n, i). (n, R, i)) (take (unat b - unat a) (drop (unat a) ?rows))"
    by (simp only: filter_numbered)
  finally have rows: "filter (\<lambda>(n, _, _). unat a < n \<and> n \<le> unat b) (buffer_rows R t) =
      map (\<lambda>(n, i). (n, R, i)) (take (unat b - unat a) (drop (unat a) ?rows))" .
  have "sorted (map fst (take m (drop k ?rows)))" for m k
    by (simp add: take_map [symmetric] drop_map [symmetric] sorted_wrt_take sorted_wrt_drop del: upt_Suc)
  then have "sort_key fst (map (\<lambda>(n, i). (n, R, i)) (take m (drop k ?rows))) =
      map (\<lambda>(n, i). (n, R, i)) (take m (drop k ?rows))" for m k
    by (intro sort_key_id_if_sorted) (simp add: comp_def case_prod_unfold)
  then have "names_between R a b t =
      concat (map (\<lambda>(_, _, i). names_of t i)
        (map (\<lambda>(n, i). (n, R, i)) (take (unat b - unat a) (drop (unat a) ?rows))))"
    unfolding names_between_def rows by simp
  also have "\<dots> = concat (map (names_of t) (map snd (take (unat b - unat a) (drop (unat a) ?rows))))"
    by (simp add: comp_def case_prod_unfold)
  also have "map snd (take m (drop k ?rows)) = take m (drop k (kept_objects R t))" for m k
    by (simp add: take_map [symmetric] drop_map [symmetric] del: upt_Suc)
  finally show ?thesis .
qed

section \<open>Reading\<close>

text \<open>The records of a chunk, taken out one after another.\<close>

definition read_chunk :: "u64 \<Rightarrow> u32 \<Rightarrow> 'x info_tables_scheme \<Rightarrow> string list \<times> 'x info_tables_scheme" where
  "read_chunk registrar limit t =
     (case getChunk (\<lambda>_. True) registrar limit t of
        (Inl e, t') \<Rightarrow> ([], t')
      | (Inr c, t') \<Rightarrow> (next_records (unat (getCount c)) c, t'))"

lemma next_records_all: "next_records (length (rest c)) c = rest c"
proof (induction "rest c" arbitrary: c)
  case (Cons x xs)
  have "rest (c\<lparr>rest := xs\<rparr>) = xs" by simp
  with Cons.hyps(1) [of "c\<lparr>rest := xs\<rparr>"] Cons.hyps(2) show ?case
    by (simp add: getNext_def Cons.hyps(2) [symmetric])
qed (simp add: getNext_def)

lemma chunk_run:
  fixes limit :: u32
  assumes "buffer_inv R t" "R \<noteq> 0"
  defines "n \<equiv> min (length (waiting_names R t)) (unat limit)"
  shows "getChunk (\<lambda>_. True) R limit t =
    (Inr \<lparr>chunkSize = of_nat n, rest = take (unat limit) (waiting_names R t)\<rparr>,
     if n = 0 then t else set_current R (Some (of_nat (position_of R t + n))) t)"
proof -
  let ?len = "length (kept_objects R t)" and ?pos = "position_of R t"
  have small: "?len < 2 ^ 64" "?pos \<le> ?len"
    using assms(1) by (simp_all add: buffer_inv_def)
  have len: "length (waiting_names R t) = ?len - ?pos"
    using assms(1) by (simp add: waiting_one_name)
  have n: "n \<le> ?len - ?pos" "n \<le> unat limit"
    by (simp_all add: n_def len)
  have sub: "(of_nat ?len :: u64) - of_nat ?pos = of_nat (?len - ?pos)"
    using small by simp
  have u: "unat (of_nat k :: u64) = k" if "k \<le> ?len" for k
    using that small by (simp add: unat_of_nat take_bit_nat_eq_self_iff)
  have limit: "unat (ucast limit :: u64) = unat limit"
    by transfer simp
  have "unat (if (of_nat (?len - ?pos) :: u64) < ucast limit then of_nat (?len - ?pos)
        else (ucast limit :: u64)) = (if ?len - ?pos < unat limit then ?len - ?pos else unat limit)"
    by (cases "?len - ?pos < unat limit") (simp_all only: word_less_nat_alt u [OF diff_le_self] limit if_True if_False)
  also have "\<dots> = unat (of_nat n :: u64)"
    using n u [of n] by (simp add: n_def len min_def)
  finally have size: "(if (of_nat ?len :: u64) - of_nat ?pos < ucast limit then of_nat ?len - of_nat ?pos
      else (ucast limit :: u64)) = of_nat n"
    unfolding sub by (rule word_unat_eq_iff [THEN iffD2])
  have zero: "(of_nat n :: u64) = 0 \<longleftrightarrow> n = 0"
  proof -
    have "unat (of_nat n :: u64) = n"
      using n(1) by (intro u) simp
    then show ?thesis
      by (simp only: unat_0_iff [symmetric])
  qed
  have to: "unat (of_nat ?pos + of_nat n :: u64) = ?pos + n"
    using n(1) small by (intro unat_of_nat_sum) simp
  have "take n xs = take (unat limit) xs" if "length xs = ?len - ?pos" for xs :: "u64 list"
    using that by (simp add: n_def len min_def)
  then have "names_between R (of_nat ?pos) (of_nat ?pos + of_nat n) (set_current R c t) =
      take (unat limit) (waiting_names R t)" for c
    using small
    by (simp add: names_between_inv [OF assms(1)] to u slice_one_name [OF assms(1)] waiting_one_name [OF assms(1)]
      take_map)
  moreover have "take (unat limit) (waiting_names R t) = []" if "n = 0"
    using that by (auto simp: n_def min_def split: if_splits)
  ultimately show ?thesis
    using assms(2)
    by (simp add: getChunk_def new_chunk_def buffer_position_inv [OF assms(1)] question_def statement_def
      Let_def size zero op_simps bindE_def returnE_def)
qed

lemma chunk_state:
  fixes limit :: u32
  assumes "buffer_inv R t" "R \<noteq> 0"
  defines "t' \<equiv> snd (getChunk (\<lambda>_. True) R limit t)"
  shows "waiting_names R t' = drop (unat limit) (waiting_names R t)" and "buffer_inv R t'"
    and "\<And>R'. R' \<noteq> R \<Longrightarrow> waiting_names R' t' = waiting_names R' t \<and> buffer_inv R' t' = buffer_inv R' t"
proof -
  let ?len = "length (kept_objects R t)" and ?pos = "position_of R t"
  define n where "n = min (length (waiting_names R t)) (unat limit)"
  have len: "length (waiting_names R t) = ?len - ?pos" "?pos \<le> ?len" "?len < 2 ^ 64"
    using assms(1) by (simp_all add: waiting_one_name buffer_inv_def)
  have t': "t' = (if n = 0 then t else set_current R (Some (of_nat (?pos + n))) t)"
    unfolding t'_def n_def by (simp only: chunk_run [OF assms(1,2)] snd_conv)
  have "waiting_names R t' = drop (unat limit) (waiting_names R t) \<and> buffer_inv R t'"
  proof (cases "n = 0")
    case True
    then have "drop (unat limit) (waiting_names R t) = waiting_names R t"
      by (auto simp: n_def min_def split: if_splits)
    with True t' assms(1) show ?thesis by simp
  next
    case False
    then have "kept_objects R t \<noteq> []"
      using len by (auto simp: n_def)
    then obtain c where c: "filter (\<lambda>(r, _). r = R) (epp_info_buffer t) = [(R, c)]"
      by (elim single_buffer [of R "epp_info_buffer t", rotated 2])
        (use assms(1) in \<open>simp_all add: buffer_inv_def\<close>)
    have "?pos + n \<le> ?len"
      using len by (simp add: n_def)
    moreover then have pos: "position_of R t' = ?pos + n"
      using len(3) False by (simp add: t' position_set_current [OF c] unat_of_nat_sum)
    ultimately have "buffer_inv R t'"
      using assms(1) False by (simp add: buffer_inv_def t' set_current_filter c)
    moreover have "drop (?pos + n) xs = drop (unat limit) (drop ?pos xs)" if "length xs = ?len" for xs :: "u64 list"
      using that len by (simp add: n_def min_def add.commute)
    ultimately show ?thesis
      using False pos by (simp add: waiting_one_name assms(1) t' drop_map [symmetric])
  qed
  then show "waiting_names R t' = drop (unat limit) (waiting_names R t)" and "buffer_inv R t'"
    by simp_all
  show "\<And>R'. R' \<noteq> R \<Longrightarrow> waiting_names R' t' = waiting_names R' t \<and> buffer_inv R' t' = buffer_inv R' t"
    by (simp add: t' set_current_other)
qed

lemma read_chunk_run:
  assumes "buffer_inv R t" "R \<noteq> 0"
  shows "read_chunk R limit t =
    (take (unat limit) (waiting_names R t), snd (getChunk (\<lambda>_. True) R limit t))"
proof -
  let ?n = "min (length (waiting_names R t)) (unat limit)"
  have "length (waiting_names R t) < 2 ^ 64"
    by (rule waiting_small [OF assms(1)])
  then have "unat (of_nat ?n :: u64) = ?n"
    by (simp add: unat_of_nat take_bit_nat_eq_self_iff)
  then show ?thesis
    using next_records_all [of "\<lparr>chunkSize = of_nat ?n, rest = take (unat limit) (waiting_names R t)\<rparr>"]
    by (simp add: read_chunk_def chunk_run [OF assms] getCount_def del: next_records.simps)
qed

text \<open>The servant reads chunks of a thousand records.\<close>

interpretation servant_chunks: chunk_reader
  "\<lambda>t. buffer_inv R t \<and> R \<noteq> 0" "waiting_names R" "read_chunk R 1000" 1000 for R
  by unfold_locales (simp_all add: read_chunk_run chunk_state)

text \<open>What a registrar gets that asks so many times.\<close>

primrec read_chunks :: "nat \<Rightarrow> u64 \<Rightarrow> 'x info_tables_scheme \<Rightarrow> string list list" where
  "read_chunks 0 registrar t = []"
| "read_chunks (Suc k) registrar t =
     (case read_chunk registrar 1000 t of (names, t') \<Rightarrow> names # read_chunks k registrar t')"

lemma read_chunks_reader: "read_chunks k R t = servant_chunks.chunks R k t"
  by (induction k arbitrary: t) (simp_all add: case_prod_unfold)

end
