(* ===== verification/Info_Listing.thy ===== *)
theory Info_Listing
  imports Info_Reader
begin

text \<open>
  What the listings select: the objects of a registrar, those connected with a contact, an nsset, a
  keyset or a host, and what the buffer holds after a listing.
\<close>

section \<open>Selected identifiers\<close>

lemma select_all: "select_ids P None ids = sorted_list_of_set {i \<in> set ids. P i}"
  by (simp add: select_ids_def set_filter)

lemmas list_defaults = new_domain_list_def new_contact_list_def new_nsset_list_def new_keyset_list_def
  new_object_list_def object_list.extend_def domain_list.extend_def

lemmas list_setters = setRegistrarFilter_def setWildcardExpansion_def setRegistrantHandleFilter_def
  setNssetHandleFilter_def setKeysetHandleFilter_def setAdminHandleFilter_def setTempHandleFilter_def
  setNssetAdminFilter_def setHostNameFilter_def setKeysetAdminFilter_def

lemmas sql_filters = SQL_ID_FILTER_def SQL_DATE_FILTER_def SQL_HANDLE_FILTER_def TIME_FILTER_SET_def
  object_filter_set_def object_where_def registry_where_def registrar_matches_def domain_contact_where_def

lemma fill_exactly_first:
  "filled (fill_exactly (\<lambda>_. True) query) l =
     query False (l\<lparr>wcheck := False, temp_table := []\<rparr>)" if "\<not> add_rows l"
  using that
  by (simp add: filled_def fill_exactly_def modify_list_def setWildcardExpansion_def fillTempTable_def bindE_def
      Let_def split: sum.splits)

text \<open>The objects a registrar sponsors.\<close>

definition sponsored :: "'x registry_tables_scheme \<Rightarrow> u64 \<Rightarrow> u64 \<Rightarrow> bool" where
  "sponsored t registrar i \<longleftrightarrow> (\<exists>r \<in> set (object_table t). o_id r = i \<and> o_clid r = registrar)"

lemma listed_keysets:
  "R \<noteq> 0 \<Longrightarrow> selected_objects S (\<lambda>_. True) t R request T_LIST_KEYSETS =
     Inr (sorted_list_of_set {i \<in> set (keyset_table t). sponsored t R i})"
  by (simp add: fill_exactly_first list_defaults list_setters keyset_query_def select_all keyset_where_def
      sql_filters sponsored_def)
    (rule arg_cong [of _ _ sorted_list_of_set], auto)

lemma listed_nssets:
  "R \<noteq> 0 \<Longrightarrow> selected_objects S (\<lambda>_. True) t R request T_LIST_NSSETS =
     Inr (sorted_list_of_set {i \<in> set (nsset_table t). sponsored t R i})"
  by (simp add: fill_exactly_first list_defaults list_setters nsset_query_def select_all nsset_where_def
      sql_filters sponsored_def)
    (rule arg_cong [of _ _ sorted_list_of_set], auto)

lemma listed_domains:
  "R \<noteq> 0 \<Longrightarrow> selected_objects S (\<lambda>_. True) t R request T_LIST_DOMAINS =
     Inr (sorted_list_of_set {i \<in> domain_id ` set (domain_table t). sponsored t R i})"
  by (simp add: fill_exactly_first list_defaults list_setters domain_query_def select_all domain_where_def
      sql_filters sponsored_def)
    (rule arg_cong [of _ _ sorted_list_of_set], auto, metis)

lemma listed_contacts:
  "R \<noteq> 0 \<Longrightarrow> selected_objects S (\<lambda>_. True) t R request T_LIST_CONTACTS =
     Inr (sorted_list_of_set {i \<in> contact_id ` set (contact_table t). sponsored t R i})"
  by (simp add: fill_exactly_first list_defaults list_setters contact_query_def select_all contact_where_def
      sql_filters sponsored_def)
    (rule arg_cong [of _ _ sorted_list_of_set], auto, metis)

section \<open>Domains connected with a contact\<close>

text \<open>The registered contact whose handle is the given one up to the case of its letters.\<close>

definition contact_called :: "'s sql_scheme \<Rightarrow> 'x registry_tables_scheme \<Rightarrow> string \<Rightarrow> u64 \<Rightarrow> bool" where
  "contact_called S t handle i \<longleftrightarrow>
     (\<exists>r \<in> set (object_registry t). obr_id r = i \<and> obr_type r = 1 \<and> sql_upper S (obr_name r) = sql_upper S handle)"

definition registrant_called :: "'s sql_scheme \<Rightarrow> 'x registry_tables_scheme \<Rightarrow> string \<Rightarrow> u64 \<Rightarrow> bool" where
  "registrant_called S t handle i \<longleftrightarrow>
     (\<exists>d \<in> set (domain_table t). domain_id d = i \<and> contact_called S t handle (col_registrant d))"

definition role_called :: "'s sql_scheme \<Rightarrow> 'x registry_tables_scheme \<Rightarrow> nat \<Rightarrow> string \<Rightarrow> u64 \<Rightarrow> bool" where
  "role_called S t role handle i \<longleftrightarrow> i \<in> domain_id ` set (domain_table t) \<and>
     (\<exists>contactid. (i, contactid, role) \<in> set (domain_contact_map t) \<and> contact_called S t handle contactid)"

lemma registered_contact_called:
  "handle \<noteq> [] \<Longrightarrow> registered_under S t (Suc 0) False handle i = contact_called S t handle i"
  by (simp add: registered_under_def contact_called_def SQL_HANDLE_WILDCHECK_FILTER_def)

text \<open>A list with no filter but the handles of contacts.\<close>

definition only_contacts :: "domain_list \<Rightarrow> bool" where
  "only_contacts l \<longleftrightarrow> \<not> wcheck l \<and> idFilter l = 0 \<and> \<not> object_filter_set l \<and> createRegistrarFilter l = 0 \<and>
     createRegistrarHandleFilter l = [] \<and> \<not> TIME_FILTER_SET (crDateIntervalFilter l) \<and> dl_fqdn l = [] \<and>
     registrantFilter l = 0 \<and> dl_nsset l = 0 \<and> dl_nssetHandle l = [] \<and> dl_keyset l = 0 \<and>
     dl_keysetHandle l = [] \<and> dl_admin l = 0 \<and> dl_temp l = 0 \<and> dl_exDate l = any_time \<and>
     dl_valExDate l = any_time \<and> dl_techAdmin l = [] \<and> dl_hostIP l = []"

lemma domain_where_contacts:
  "only_contacts l \<Longrightarrow> domain_where S t l d \<longleftrightarrow>
     (registrantHandleFilter l \<noteq> [] \<longrightarrow> contact_called S t (registrantHandleFilter l) (col_registrant d)) \<and>
     domain_contact_where S t False 1 0 (dl_adminHandle l) (domain_id d) \<and>
     domain_contact_where S t False 2 0 (dl_tempHandle l) (domain_id d)"
  by (auto simp: only_contacts_def domain_where_def object_where_def registry_where_def SQL_ID_FILTER_def
      SQL_DATE_FILTER_def TIME_FILTER_SET_def registered_contact_called)

lemma domain_contact_where_handle:
  "domain_contact_where S t False role 0 handle i \<longleftrightarrow>
     (handle \<noteq> [] \<longrightarrow> (\<exists>c. (i, c, role) \<in> set (domain_contact_map t) \<and> contact_called S t handle c))"
  by (cases "handle = []") (auto simp: domain_contact_where_def SQL_ID_FILTER_def registered_contact_called)

definition domains_where :: "'s sql_scheme \<Rightarrow> 'x registry_tables_scheme \<Rightarrow> domain_list \<Rightarrow> u64 set" where
  "domains_where S t l = {i \<in> domain_id ` set (domain_table t).
     \<exists>d \<in> set (domain_table t). domain_id d = i \<and> domain_where S t l d}"

lemma domain_fill:
  "fillTempTable True (domain_query S t) False l =
     (let old = (if add_rows l then temp_table l else []) in
      (Inr (), l\<lparr>temp_table := old @ sorted_list_of_set (domains_where S t (l\<lparr>temp_table := old\<rparr>) - set old),
        add_rows := True\<rparr>))"
  by (cases "add_rows l")
    (auto simp: fillTempTable_def domain_query_def select_all Let_def domains_where_def set_diff_eq conj_assoc)

lemma finite_domains_where: "finite (domains_where S t l)"
  by (simp add: domains_where_def)

lemma domains_where_contacts:
  assumes "only_contacts l" "request \<noteq> []"
  shows "registrantHandleFilter l = request \<Longrightarrow> dl_adminHandle l = [] \<Longrightarrow> dl_tempHandle l = [] \<Longrightarrow>
      domains_where S t l = {i. registrant_called S t request i}"
    and "registrantHandleFilter l = [] \<Longrightarrow> dl_adminHandle l = request \<Longrightarrow> dl_tempHandle l = [] \<Longrightarrow>
      domains_where S t l = {i. role_called S t 1 request i}"
    and "registrantHandleFilter l = [] \<Longrightarrow> dl_adminHandle l = [] \<Longrightarrow> dl_tempHandle l = request \<Longrightarrow>
      domains_where S t l = {i. role_called S t 2 request i}"
  using assms
  by (auto simp: domains_where_def domain_where_contacts domain_contact_where_handle registrant_called_def
      role_called_def)

lemma finite_called: "finite {i. registrant_called S t request i}" "finite {i. role_called S t role request i}"
  by (rule finite_subset [of _ "domain_id ` set (domain_table t)"]; force simp: registrant_called_def role_called_def)+

lemma only_contacts_updates [simp]:
  "only_contacts (l\<lparr>temp_table := x\<rparr>) = only_contacts l"
  "only_contacts (l\<lparr>add_rows := b\<rparr>) = only_contacts l"
  "only_contacts (l\<lparr>registrantHandleFilter := h\<rparr>) = only_contacts l"
  "only_contacts (l\<lparr>dl_adminHandle := h\<rparr>) = only_contacts l"
  "only_contacts (l\<lparr>dl_tempHandle := h\<rparr>) = only_contacts l"
  "only_contacts (l\<lparr>nonHandleFilterSet := b\<rparr>) = only_contacts l"
  "only_contacts l \<Longrightarrow> only_contacts (l\<lparr>wcheck := False\<rparr>)"
  by (simp_all add: only_contacts_def object_filter_set_def)

lemma domains_by_contact_run:
  fixes t :: "'x registry_tables_scheme" and S :: "'s sql_scheme"
  assumes "request \<noteq> []"
  defines "A \<equiv> {i. registrant_called S t request i}" and "B \<equiv> {i. role_called S t 1 request i}"
    and "C \<equiv> {i. role_called S t 2 request i}"
  shows "selected_objects S (\<lambda>_. True) t R request T_DOMAINS_BY_CONTACT =
    Inr (sorted_list_of_set A @ sorted_list_of_set (B - A) @ sorted_list_of_set (C - (A \<union> B)))"
proof -
  have fin: "finite A" "finite B" "finite C"
    by (simp_all add: A_def B_def C_def finite_called)
  let ?l = "new_domain_list\<lparr>wcheck := False\<rparr>"
  have l: "only_contacts ?l" "\<not> add_rows ?l" "registrantHandleFilter ?l = []" "dl_adminHandle ?l = []"
      "dl_tempHandle ?l = []"
    by (simp_all add: list_defaults only_contacts_def object_filter_set_def TIME_FILTER_SET_def)
  have run: "filled (domains_by_contact S (\<lambda>_. True) t request) l =
      Inr (sorted_list_of_set A @ sorted_list_of_set (B - A) @ sorted_list_of_set (C - (A \<union> B)))"
    if "only_contacts l" "\<not> add_rows l" "registrantHandleFilter l = []" "dl_adminHandle l = []"
      "dl_tempHandle l = []" for l
    using that fin
    by (simp add: domains_by_contact_def filled_def fill_exactly_def modify_list_def bindE_def Let_def list_setters
      domain_fill domains_where_contacts [OF _ assms(1)] A_def [symmetric] B_def C_def [symmetric] Un_def)
      (rule arg_cong [of _ _ sorted_list_of_set], blast)
  have "filled (domains_by_contact S (\<lambda>_. True) t request) new_domain_list =
      filled (domains_by_contact S (\<lambda>_. True) t request) ?l"
    by (simp add: filled_def domains_by_contact_def modify_list_def bindE_def setWildcardExpansion_def Let_def)
  also note run [OF l]
  finally show ?thesis by simp
qed

lemma domains_by_contact_set:
  assumes "request \<noteq> []"
  shows "\<exists>ids. selected_objects S (\<lambda>_. True) t R request T_DOMAINS_BY_CONTACT = Inr ids \<and> distinct ids \<and>
    (\<forall>i. i \<in> set ids \<longleftrightarrow> registrant_called S t request i \<or> role_called S t 1 request i \<or> role_called S t 2 request i)"
  unfolding domains_by_contact_run [OF assms] by (auto simp: finite_called)

section \<open>Handles left empty\<close>

text \<open>An empty handle or host is no filter: everything in the registry is selected.\<close>

definition all_objects :: "'x registry_tables_scheme \<Rightarrow> InfoType \<Rightarrow> u64 set" where
  "all_objects t infotype =
     (if infotype \<in> {T_NSSETS_BY_CONTACT, T_NSSETS_BY_NS} then set (nsset_table t)
      else if infotype = T_KEYSETS_BY_CONTACT then set (keyset_table t)
      else domain_id ` set (domain_table t))"

lemma empty_handle_run:
  assumes "infotype \<in> {T_DOMAINS_BY_NSSET, T_DOMAINS_BY_CONTACT, T_DOMAINS_BY_KEYSET, T_NSSETS_BY_CONTACT,
    T_NSSETS_BY_NS, T_KEYSETS_BY_CONTACT}"
  shows "selected_objects S (\<lambda>_. True) t R [] infotype = Inr (sorted_list_of_set (all_objects t infotype))"
proof -
  have dom: "domains_where S t l = domain_id ` set (domain_table t)"
    if "only_contacts l" "registrantHandleFilter l = []" "dl_adminHandle l = []" "dl_tempHandle l = []" for l
    using that by (auto simp: domains_where_def domain_where_contacts domain_contact_where_handle)
  have sel: "{i \<in> domain_id ` set (domain_table t). \<exists>d \<in> set (domain_table t). domain_id d = i} =
      domain_id ` set (domain_table t)"
    by auto
  let ?l = "new_domain_list\<lparr>wcheck := False\<rparr>"
  have l: "only_contacts ?l" "\<not> add_rows ?l" "registrantHandleFilter ?l = []" "dl_adminHandle ?l = []"
      "dl_tempHandle ?l = []"
    by (simp_all add: list_defaults only_contacts_def object_filter_set_def TIME_FILTER_SET_def)
  have run: "filled (domains_by_contact S (\<lambda>_. True) t []) l =
      Inr (sorted_list_of_set (domain_id ` set (domain_table t)))"
    if "only_contacts l" "\<not> add_rows l" "registrantHandleFilter l = []" "dl_adminHandle l = []"
      "dl_tempHandle l = []" for l
    using that
    by (simp add: domains_by_contact_def filled_def fill_exactly_def modify_list_def bindE_def Let_def list_setters
      domain_fill dom)
  have "filled (domains_by_contact S (\<lambda>_. True) t []) new_domain_list =
      filled (domains_by_contact S (\<lambda>_. True) t []) ?l"
    by (simp add: filled_def domains_by_contact_def modify_list_def bindE_def setWildcardExpansion_def Let_def)
  also note run [OF l]
  finally have contact: "filled (domains_by_contact S (\<lambda>_. True) t []) new_domain_list =
      Inr (sorted_list_of_set (domain_id ` set (domain_table t)))" .
  show ?thesis
  proof (cases "infotype = T_DOMAINS_BY_CONTACT")
    case True
    then show ?thesis by (simp add: contact all_objects_def)
  next
    case False
    then show ?thesis
      using assms
      by (auto simp: all_objects_def fill_exactly_first list_defaults list_setters domain_query_def nsset_query_def
        keyset_query_def select_all domain_where_def nsset_where_def keyset_where_def sql_filters sel
        intro!: arg_cong [of _ _ sorted_list_of_set])
  qed
qed

section \<open>The buffer after a listing\<close>

text \<open>Identifiers are unique in the registry and in the table of registrars.\<close>

definition tables_ok :: "'x registry_tables_scheme \<Rightarrow> bool" where
  "tables_ok t \<longleftrightarrow> distinct (map obr_id (object_registry t)) \<and> distinct (map fst (registrar_table t))"

text \<open>The registered ones of the identifiers with their names, in the order of the names.\<close>

definition named :: "'x registry_tables_scheme \<Rightarrow> u64 list \<Rightarrow> (u64 \<times> string) list" where
  "named t ids = concat (map (\<lambda>i. map (Pair i) (names_of t i)) ids)"

definition listing :: "'s sql_scheme \<Rightarrow> 'x registry_tables_scheme \<Rightarrow> u64 list \<Rightarrow> (u64 \<times> string) list" where
  "listing S t ids = sort_key (\<lambda>(_, n). sql_collation S n) (named t ids)"

lemma names_unique:
  "distinct (map obr_id rs) \<Longrightarrow> n \<in> set (map obr_name (filter (\<lambda>r. obr_id r = i) rs)) \<Longrightarrow>
     map obr_name (filter (\<lambda>r. obr_id r = i) rs) = [n]"
  by (induction rs) (auto simp: filter_empty_conv image_iff split: if_splits)

lemma named_member: "tables_ok t \<Longrightarrow> (i, n) \<in> set (named t ids) \<Longrightarrow> names_of t i = [n]"
  by (auto simp: named_def names_of_def tables_ok_def intro!: names_unique)

lemma listing_names:
  assumes "tables_ok t"
  shows "concat (map (names_of t) (map fst (listing S t ids))) = map snd (listing S t ids)"
    and "\<forall>i \<in> set (map fst (listing S t ids)). length (names_of t i) = 1"
proof -
  have one: "names_of t i = [n]" if "(i, n) \<in> set (listing S t ids)" for i n
    using named_member [OF assms] that by (simp add: listing_def)
  have "concat (map (names_of t) (map fst ps)) = map snd ps"
    if "\<And>i n. (i, n) \<in> set ps \<Longrightarrow> names_of t i = [n]" for ps
    using that by (induction ps) auto
  with one show "concat (map (names_of t) (map fst (listing S t ids))) = map snd (listing S t ids)"
    by blast
  show "\<forall>i \<in> set (map fst (listing S t ids)). length (names_of t i) = 1"
    using one by fastforce
qed

lemma ensure_buffer_tables [simp]:
  "epp_info_buffer_content (ensure_buffer R t) = epp_info_buffer_content t"
  "names_of (ensure_buffer R t) = names_of t" "object_registry (ensure_buffer R t) = object_registry t"
  by (simp_all add: ensure_buffer_def names_of_def fun_eq_iff)

lemma ensure_buffer_filter:
  "R' \<noteq> R \<Longrightarrow> filter (\<lambda>(r, _). r = R') (epp_info_buffer (ensure_buffer R t)) =
     filter (\<lambda>(r, _). r = R') (epp_info_buffer t)"
  by (auto simp: ensure_buffer_def filter_empty_conv)

lemma filter_distinct_key:
  "distinct (map fst rs) \<Longrightarrow> (k, v) \<in> set rs \<Longrightarrow> filter (\<lambda>(i, _). i = k) rs = [(k, v)]"
  by (induction rs) (auto simp: filter_empty_conv image_iff)

lemma ensured:
  assumes "distinct (map fst (registrar_table t))" "R \<in> fst ` set (registrar_table t)"
    "length (filter (\<lambda>(r, _). r = R) (epp_info_buffer t)) \<le> 1"
  obtains c where "filter (\<lambda>(r, _). r = R) (epp_info_buffer (ensure_buffer R t)) = [(R, c)]"
proof (cases "R \<in> fst ` set (epp_info_buffer t)")
  case True
  then have "filter (\<lambda>(i, _). i \<notin> fst ` set (epp_info_buffer t) \<and> i = R) (registrar_table t) = []"
    by (auto simp: filter_empty_conv)
  with that single_buffer [OF assms(3) True] show ?thesis
    by (auto simp: ensure_buffer_def)
next
  case False
  obtain h where "(R, h) \<in> set (registrar_table t)"
    using assms(2) by auto
  then have "filter (\<lambda>(i, _). i = R) (registrar_table t) = [(R, h)]"
    by (rule filter_distinct_key [OF assms(1)])
  moreover have "filter (\<lambda>(i, _). i \<notin> fst ` set (epp_info_buffer t) \<and> i = R) (registrar_table t) =
      filter (\<lambda>(i, _). i = R) (registrar_table t)"
    using False by (auto intro: filter_cong)
  moreover have "filter (\<lambda>(r, _). r = R) (epp_info_buffer t) = []"
    using False by (force simp: filter_empty_conv)
  ultimately show ?thesis
    using that by (simp add: ensure_buffer_def)
qed

lemma buffered_iff: "R \<in> fst ` set b \<longleftrightarrow> filter (\<lambda>(r, _). r = R) b \<noteq> []"
  by (induction b) auto

text \<open>The tables after a listing.\<close>

definition after_listing :: "'s sql_scheme \<Rightarrow> u64 \<Rightarrow> u64 list \<Rightarrow> 'x info_tables_scheme \<Rightarrow> 'x info_tables_scheme" where
  "after_listing S R ids t =
     insert_content S R ids (delete_content R (set_current R None (ensure_buffer R t)))"

lemma in_order_listing: "in_order_of_names S t ids = map fst (listing S t ids)"
  by (simp add: in_order_of_names_def listing_def named_def)

lemma after_listing_registry [simp]:
  "names_of (after_listing S R ids t) = names_of t"
  "object_registry (after_listing S R ids t) = object_registry t"
  by (simp_all add: after_listing_def insert_content_def delete_content_def set_current_def ensure_buffer_def
      names_of_def fun_eq_iff)

lemma after_listing_buffer [simp]:
  "epp_info_buffer (after_listing S R ids t) = epp_info_buffer (set_current R None (ensure_buffer R t))"
  by (simp add: after_listing_def insert_content_def delete_content_def)

lemma after_listing_rows:
  "buffer_rows R (after_listing S R ids t) =
     map (\<lambda>(n, i). (n, R, i)) (List.enumerate 1 (map fst (listing S t ids)))"
  "R' \<noteq> R \<Longrightarrow> buffer_rows R' (after_listing S R ids t) = buffer_rows R' t"
proof -
  have "names_of (delete_content R (set_current R None (ensure_buffer R t))) = names_of t"
    by (simp add: delete_content_def set_current_def ensure_buffer_def names_of_def fun_eq_iff)
  then have order: "in_order_of_names S (delete_content R (set_current R None (ensure_buffer R t))) ids =
      map fst (listing S t ids)"
    by (simp add: in_order_of_names_def listing_def named_def)
  have "filter (\<lambda>(_, r, _). r = R') (map (\<lambda>(n, i). (n, R, i)) xs) =
      (if R = R' then map (\<lambda>(n, i). (n, R, i)) xs else [])" for R' and xs :: "(nat \<times> u64) list"
    by (auto simp: filter_map comp_def case_prod_unfold)
  moreover have "epp_info_buffer_content (after_listing S R ids t) =
      filter (\<lambda>(_, r, _). r \<noteq> R) (epp_info_buffer_content t) @
      map (\<lambda>(n, i). (n, R, i)) (List.enumerate 1 (map fst (listing S t ids)))"
    by (simp add: after_listing_def insert_content_def order) (simp add: delete_content_def)
  ultimately show "buffer_rows R (after_listing S R ids t) =
      map (\<lambda>(n, i). (n, R, i)) (List.enumerate 1 (map fst (listing S t ids)))"
    "R' \<noteq> R \<Longrightarrow> buffer_rows R' (after_listing S R ids t) = buffer_rows R' t"
    by (auto simp: buffer_rows_def case_prod_unfold intro: filter_cong)
qed

lemma after_listing_inv:
  assumes "tables_ok t" "R \<in> fst ` set (registrar_table t)"
    "length (filter (\<lambda>(r, _). r = R) (epp_info_buffer t)) \<le> 1" "length (listing S t ids) < 2 ^ 64"
  shows "buffer_inv R (after_listing S R ids t)"
    and "waiting_names R (after_listing S R ids t) = map snd (listing S t ids)"
proof -
  let ?t = "after_listing S R ids t"
  have kept: "kept_objects R ?t = map fst (listing S t ids)"
    unfolding kept_objects_def after_listing_rows(1) by (simp add: comp_def case_prod_unfold)
  obtain c where c: "filter (\<lambda>(r, _). r = R) (epp_info_buffer (ensure_buffer R t)) = [(R, c)]"
    using ensured [OF _ assms(2,3)] assms(1) unfolding tables_ok_def by blast
  then have cur: "filter (\<lambda>(r, _). r = R) (epp_info_buffer ?t) = [(R, None)]"
    by (simp add: set_current_filter)
  have present: "R \<in> fst ` set (epp_info_buffer ?t)"
    unfolding buffered_iff cur by simp
  have pos: "position_of R ?t = 0"
    by (simp only: position_of_def cur) (simp add: List.map_filter_simps)
  show "buffer_inv R ?t"
    unfolding buffer_inv_def kept after_listing_rows(1) pos cur
    using present assms(4) listing_names(2) [OF assms(1), of S ids] by simp
  show "waiting_names R ?t = map snd (listing S t ids)"
    using listing_names(1) [OF assms(1), of S ids] by (simp add: waiting_names_def pos kept)
qed

lemma after_listing_other:
  assumes "R' \<noteq> R"
  shows "waiting_names R' (after_listing S R ids t) = waiting_names R' t"
    and "buffer_inv R' (after_listing S R ids t) = buffer_inv R' t"
proof -
  have "filter (\<lambda>(r, _). r = R') (epp_info_buffer (after_listing S R ids t)) =
      filter (\<lambda>(r, _). r = R') (epp_info_buffer t)"
    using assms by (auto simp: set_current_filter ensure_buffer_filter intro!: map_idI)
  moreover from this have "R' \<in> fst ` set (epp_info_buffer (after_listing S R ids t)) \<longleftrightarrow>
      R' \<in> fst ` set (epp_info_buffer t)"
    by (simp only: buffered_iff)
  ultimately show "waiting_names R' (after_listing S R ids t) = waiting_names R' t"
    "buffer_inv R' (after_listing S R ids t) = buffer_inv R' t"
    by (simp_all add: buffer_inv_def waiting_names_def position_of_def kept_objects_def
        after_listing_rows(2) [OF assms] del: after_listing_buffer)
qed

lemma info_run:
  assumes "R \<noteq> 0" "selected_objects S (\<lambda>_. True) t R request infotype = Inr ids"
  shows "info S (\<lambda>_. True) R infotype request t =
    (Inr (of_nat (length (listing S t ids))), after_listing S R ids t)"
proof -
  have "length (buffer_rows R (after_listing S R ids t)) = length (listing S t ids)"
    by (simp add: after_listing_rows(1))
  then show ?thesis
    using assms
    by (simp add: info_def op_simps bindE_def statement_def question_def after_listing_def [symmetric])
qed

end
