(* ===== verification/Info_Properties.thy ===== *)
theory Info_Properties
  imports Info_Listing
begin

text \<open>The properties of the listings and of their buffer, with a small registry as witness.\<close>

section \<open>A small registry\<close>

definition sample_sql :: sql where
  "sample_sql = \<lparr>sql_upper = (\<lambda>s. s), sql_ilike = (\<lambda>s p. s = p), sql_collation = (\<lambda>s. s)\<rparr>"

text \<open>
  Registrars 1 and 2, the contact 5, the nsset 6, and the domains 7, 8 and 9; the contact is the
  registrant of 7 and 8, and the administrator of 7; the nsset serves the domain 9.
\<close>

definition sample_info_tables :: info_tables where
  "sample_info_tables =
     \<lparr>object_registry =
        [\<lparr>obr_id = 5, obr_name = ''CON'', obr_type = 1, obr_crid = 1, obr_crdate = 0\<rparr>,
         \<lparr>obr_id = 6, obr_name = ''NS'', obr_type = 2, obr_crid = 1, obr_crdate = 0\<rparr>,
         \<lparr>obr_id = 7, obr_name = ''z.cz'', obr_type = 3, obr_crid = 1, obr_crdate = 0\<rparr>,
         \<lparr>obr_id = 8, obr_name = ''a.cz'', obr_type = 3, obr_crid = 1, obr_crdate = 0\<rparr>,
         \<lparr>obr_id = 9, obr_name = ''b.cz'', obr_type = 3, obr_crid = 2, obr_crdate = 0\<rparr>],
      object_table =
        [\<lparr>o_id = 7, o_clid = 1, o_upid = None, o_update = None, o_trdate = None\<rparr>,
         \<lparr>o_id = 8, o_clid = 1, o_upid = None, o_update = None, o_trdate = None\<rparr>,
         \<lparr>o_id = 9, o_clid = 2, o_upid = None, o_update = None, o_trdate = None\<rparr>],
      registrar_table = [(1, ''REG-A''), (2, ''REG-B'')],
      contact_table = [\<lparr>contact_id = 5, col_name = None, col_ssn = None, col_email = None,
        col_organization = None, col_vat = None\<rparr>],
      nsset_table = [6],
      keyset_table = [],
      domain_table =
        [\<lparr>domain_id = 7, col_registrant = 5, col_nsset = None, col_keyset = None, col_exdate = 0\<rparr>,
         \<lparr>domain_id = 8, col_registrant = 5, col_nsset = None, col_keyset = None, col_exdate = 0\<rparr>,
         \<lparr>domain_id = 9, col_registrant = 4, col_nsset = Some 6, col_keyset = None, col_exdate = 0\<rparr>],
      domain_contact_map = [(7, 5, 1)],
      nsset_contact_map = [], keyset_contact_map = [], host_table = [], host_ipaddr_map = [],
      enumval_table = [],
      epp_info_buffer = [(2, Some 1)],
      epp_info_buffer_content = [(1, 2, 9)]\<rparr>"

lemma sample_selected:
  "selected_objects sample_sql (\<lambda>_. True) sample_info_tables 1 [] T_LIST_DOMAINS = Inr [7, 8]"
proof -
  have "{i \<in> domain_id ` set (domain_table sample_info_tables). sponsored sample_info_tables 1 i} = {7, 8}"
    by (auto simp: sponsored_def sample_info_tables_def)
  then show ?thesis
    by (simp add: listed_domains del: selected_objects.simps)
qed

lemma sample_listing:
  "listing sample_sql sample_info_tables [7, 8] = [(8, ''a.cz''), (7, ''z.cz'')]"
  by (simp add: listing_def named_def names_of_def sample_info_tables_def sample_sql_def)

lemma sample_tables_ok: "tables_ok sample_info_tables"
  by (simp add: tables_ok_def sample_info_tables_def)

lemma sample_registrar:
  "(1 :: u64) \<in> fst ` set (registrar_table sample_info_tables)"
  "filter (\<lambda>(r, _). r = 1) (epp_info_buffer sample_info_tables) = []"
  by (simp_all add: sample_info_tables_def)

section \<open>Properties\<close>

text \<open>C36: a listing is read back complete and in order.

  After a listing for a registrar the number answered is that of the names selected, and asking for
  results often enough, a thousand at a time, yields all of these names, each exactly once and in the
  order of names, whatever was left of an earlier listing; the buffers of the other registrars stay
  as they are.
\<close>

theorem listing_read_back:
  assumes "tables_ok t" "R \<in> fst ` set (registrar_table t)" "R \<noteq> 0"
    and "length (filter (\<lambda>(r, _). r = R) (epp_info_buffer t)) \<le> 1"
    and "selected_objects S (\<lambda>_. True) t R request infotype = Inr ids"
    and "length (listing S t ids) \<le> k * 1000" "length (listing S t ids) < 2 ^ 64"
  shows "\<exists>t'. info S (\<lambda>_. True) R infotype request t = (Inr (of_nat (length (listing S t ids))), t') \<and>
    concat (read_chunks k R t') = map snd (listing S t ids) \<and>
    (\<forall>R'. R' \<noteq> R \<longrightarrow> waiting_names R' t' = waiting_names R' t)"
proof -
  let ?t = "after_listing S R ids t"
  have "buffer_inv R ?t" "waiting_names R ?t = map snd (listing S t ids)"
    using after_listing_inv [OF assms(1,2,4,7)] by blast+
  then have "concat (read_chunks k R ?t) = map snd (listing S t ids)"
    using servant_chunks.chunks_all [of R ?t k] assms(3,6) by (simp add: read_chunks_reader)
  then show ?thesis
    using info_run [OF assms(3,5)] after_listing_other(1) by blast
qed

theorem listing_read_back_witness:
  "\<exists>t'. info sample_sql (\<lambda>_. True) 1 T_LIST_DOMAINS [] sample_info_tables = (Inr 2, t') \<and>
    concat (read_chunks 1 1 t') = [''a.cz'', ''z.cz''] \<and>
    waiting_names 2 t' = waiting_names 2 sample_info_tables"
proof -
  have "\<exists>t'. info sample_sql (\<lambda>_. True) 1 T_LIST_DOMAINS [] sample_info_tables =
      (Inr (of_nat (length (listing sample_sql sample_info_tables [7, 8]))), t') \<and>
    concat (read_chunks 1 1 t') = map snd (listing sample_sql sample_info_tables [7, 8]) \<and>
    (\<forall>R'. R' \<noteq> 1 \<longrightarrow> waiting_names R' t' = waiting_names R' sample_info_tables)"
    by (rule listing_read_back [OF sample_tables_ok sample_registrar(1) _ _ sample_selected])
      (simp_all add: sample_listing sample_registrar(2))
  then show ?thesis
    by (auto simp: sample_listing)
qed

text \<open>C37: reading takes from the front of the own buffer only.

  Whatever was listed and read before, a chunk consists of the first names still waiting for the
  registrar, as many as asked for or all there are, and its count is their number. Afterwards the
  rest is waiting, and nothing has changed for the other registrars.
\<close>

theorem chunk_refines_queue:
  assumes "buffer_inv R t" "R \<noteq> 0" "getChunk (\<lambda>_. True) R limit t = (Inr c, t')"
  shows "rest c = take (unat limit) (waiting_names R t) \<and> unat (getCount c) = length (rest c) \<and>
    waiting_names R t' = drop (unat limit) (waiting_names R t) \<and> buffer_inv R t' \<and>
    (\<forall>R'. R' \<noteq> R \<longrightarrow> waiting_names R' t' = waiting_names R' t)"
proof -
  let ?n = "min (length (waiting_names R t)) (unat limit)"
  have "unat (of_nat ?n :: u64) = ?n"
    using waiting_small [OF assms(1)] by (simp add: unat_of_nat take_bit_nat_eq_self_iff)
  moreover have "c = \<lparr>chunkSize = of_nat ?n, rest = take (unat limit) (waiting_names R t)\<rparr>"
    using assms(3) unfolding chunk_run [OF assms(1,2)] by simp
  moreover have "t' = snd (getChunk (\<lambda>_. True) R limit t)"
    using assms(3) by simp
  ultimately show ?thesis
    using chunk_state [OF assms(1,2), where limit = limit] by (simp add: getCount_def)
qed

theorem chunk_refines_queue_witness:
  "\<exists>c t'. getChunk (\<lambda>_. True) 1 1 (after_listing sample_sql 1 [7, 8] sample_info_tables) = (Inr c, t') \<and>
    rest c = [''a.cz''] \<and> waiting_names 1 t' = [''z.cz'']"
proof -
  let ?t = "after_listing sample_sql 1 [7, 8] sample_info_tables"
  have inv: "buffer_inv 1 ?t" and names: "waiting_names 1 ?t = [''a.cz'', ''z.cz'']"
    using after_listing_inv [OF sample_tables_ok sample_registrar(1), of sample_sql "[7, 8]"]
    by (simp_all add: sample_listing sample_registrar(2))
  obtain c t' where run: "getChunk (\<lambda>_. True) 1 1 ?t = (Inr c, t')"
    using chunk_run [OF inv, where limit = 1] by auto
  from chunk_refines_queue [OF inv _ run] run show ?thesis
    by (auto simp: names)
qed

text \<open>C38: the domains of a contact are listed once each.

  The domains listed for the handle of a contact are exactly those whose registrant, administrative
  contact or temporary contact is a registered contact with this handle up to the case of letters;
  none is listed twice although it may be connected with the contact in more than one way.
\<close>

theorem domains_by_contact_listed:
  assumes "request \<noteq> []"
  shows "\<exists>ids. selected_objects S (\<lambda>_. True) t R request T_DOMAINS_BY_CONTACT = Inr ids \<and> distinct ids \<and>
    (\<forall>i. i \<in> set ids \<longleftrightarrow> registrant_called S t request i \<or> role_called S t 1 request i \<or> role_called S t 2 request i)"
  by (rule domains_by_contact_set [OF assms])

theorem domains_by_contact_listed_witness:
  "\<exists>ids. selected_objects sample_sql (\<lambda>_. True) sample_info_tables 1 ''CON'' T_DOMAINS_BY_CONTACT = Inr ids \<and>
    distinct ids \<and> set ids = {7, 8}"
proof -
  have "registrant_called sample_sql sample_info_tables ''CON'' i \<or>
      role_called sample_sql sample_info_tables 1 ''CON'' i \<or>
      role_called sample_sql sample_info_tables 2 ''CON'' i \<longleftrightarrow> i = 7 \<or> i = 8" for i
    by (auto simp: registrant_called_def role_called_def contact_called_def sample_info_tables_def sample_sql_def)
  moreover obtain ids where
    "selected_objects sample_sql (\<lambda>_. True) sample_info_tables 1 ''CON'' T_DOMAINS_BY_CONTACT = Inr ids"
    "distinct ids"
    "\<forall>i. i \<in> set ids \<longleftrightarrow> registrant_called sample_sql sample_info_tables ''CON'' i \<or>
      role_called sample_sql sample_info_tables 1 ''CON'' i \<or> role_called sample_sql sample_info_tables 2 ''CON'' i"
    using domains_by_contact_listed [of "''CON''" sample_sql sample_info_tables 1] by auto
  ultimately show ?thesis by blast
qed

text \<open>C39: an empty handle lists the objects of all registrars.

  The listings by contact, nsset, keyset and name server take an empty text as the absence of a
  filter. A request for the domains of the contact with the empty handle, say, answers with every
  domain of the registry, whoever sponsors it.
\<close>

theorem empty_handle_lists_everything:
  assumes "infotype \<in> {T_DOMAINS_BY_NSSET, T_DOMAINS_BY_CONTACT, T_DOMAINS_BY_KEYSET, T_NSSETS_BY_CONTACT,
    T_NSSETS_BY_NS, T_KEYSETS_BY_CONTACT}"
  shows "selected_objects S (\<lambda>_. True) t R [] infotype = Inr (sorted_list_of_set (all_objects t infotype))"
  by (rule empty_handle_run [OF assms])

theorem empty_handle_lists_everything_witness:
  "selected_objects sample_sql (\<lambda>_. True) sample_info_tables 1 [] T_DOMAINS_BY_CONTACT = Inr [7, 8, 9]"
proof -
  have "all_objects sample_info_tables T_DOMAINS_BY_CONTACT = {7, 8, 9}"
    by (auto simp: all_objects_def sample_info_tables_def)
  then show ?thesis
    using empty_handle_lists_everything [of T_DOMAINS_BY_CONTACT sample_sql sample_info_tables 1]
    by (simp del: selected_objects.simps)
qed

end
