(* ===== verification/Corba_Action.thy ===== *)
theory Corba_Action
  imports Corba_Base Info_Buffer
begin

text \<open>
  The older methods of the servant (\<^verbatim>\<open>epp_impl.cc\<close>), which do not call a command of the back end: the
  messages in memory (\<^verbatim>\<open>messages.cc\<close>), the frame of these methods (class \<^verbatim>\<open>EPPAction\<close>), logout, the
  end of a session, and the listings. The state is that of the container of sessions, of the world
  it is used with, and of the tables of the database.
\<close>

section \<open>Messages\<close>

record Mesg =
  m_errMsg :: "string list"
  m_errMsg_cs :: "string list"
  m_errID :: "u32 list"

definition new_Mesg :: Mesg where
  "new_Mesg = \<lparr>m_errMsg = [], m_errMsg_cs = [], m_errID = []\<rparr>"

definition AddMesg :: "u32 \<Rightarrow> string \<Rightarrow> string \<Rightarrow> Mesg \<Rightarrow> Mesg" where
  "AddMesg i msg msg_cs m =
     \<lparr>m_errMsg = m_errMsg m @ [msg], m_errMsg_cs = m_errMsg_cs m @ [msg_cs], m_errID = m_errID m @ [i]\<rparr>"

definition GetMesg :: "u32 \<Rightarrow> Mesg \<Rightarrow> string" where
  "GetMesg i m =
     (case List.find (\<lambda>k. i = m_errID m ! k) [0..<length (m_errID m)] of
        None \<Rightarrow> []
      | Some k \<Rightarrow> m_errMsg m ! k)"

definition GetMesg_CS :: "u32 \<Rightarrow> Mesg \<Rightarrow> string" where
  "GetMesg_CS i m =
     (case List.find (\<lambda>k. i = m_errID m ! k) [0..<length (m_errID m)] of
        None \<Rightarrow> []
      | Some k \<Rightarrow> m_errMsg_cs m ! k)"

text \<open>
  The rows of the table of messages, in the order of their identifiers, or \<open>None\<close> when they cannot be
  read; the number of the rows is returned, and the server does not start unless it is positive.
\<close>

definition load_messages :: "(u32 \<times> string \<times> string) list option \<Rightarrow> Mesg option \<times> nat" where
  "load_messages rows =
     (case rows of
        None \<Rightarrow> (None, 0)
      | Some rs \<Rightarrow> (Some (foldl (\<lambda>m (i, msg, msg_cs). AddMesg i msg msg_cs m) new_Mesg rs), length rs))"

record messages =
  ErrorMsg :: Mesg
  ReasonMsg :: Mesg

definition LANG_CS :: u32 where
  "LANG_CS = 1"

definition message_in :: "Mesg \<Rightarrow> nat \<Rightarrow> u32 \<Rightarrow> string" where
  "message_in m err lng =
     wrap_string_to_corba_string (if lng = LANG_CS then GetMesg_CS (of_nat err) m else GetMesg (of_nat err) m)"

definition error_message :: "messages \<Rightarrow> nat \<Rightarrow> u32 \<Rightarrow> string" where
  "error_message M err lng = message_in (ErrorMsg M) err lng"

definition reason_message :: "messages \<Rightarrow> nat \<Rightarrow> u32 \<Rightarrow> string" where
  "reason_message M err lng = message_in (ReasonMsg M) err lng"

section \<open>Codes and failures\<close>

definition COMMAND_OK :: nat where "COMMAND_OK = 1000"
definition COMMAND_LOGOUT :: nat where "COMMAND_LOGOUT = 1500"
definition COMMAND_FAILED :: nat where "COMMAND_FAILED = 2400"
definition COMMAND_EXCEPTION :: nat where "COMMAND_EXCEPTION = 2000"
definition COMMAND_AUTH_ERROR :: nat where "COMMAND_AUTH_ERROR = 2501"
definition COMMAND_AUTOR_ERROR :: nat where "COMMAND_AUTOR_ERROR = 2201"
definition COMMAND_MAX_SESSION_LIMIT :: nat where "COMMAND_MAX_SESSION_LIMIT = 2502"

lemmas command_codes = COMMAND_OK_def COMMAND_LOGOUT_def COMMAND_FAILED_def COMMAND_EXCEPTION_def
  COMMAND_AUTH_ERROR_def COMMAND_AUTOR_ERROR_def COMMAND_MAX_SESSION_LIMIT_def

definition is_command_successfully_done :: "nat \<Rightarrow> bool" where
  "is_command_successfully_done result \<longleftrightarrow> result < 2000"

definition epp_error :: "nat \<Rightarrow> string \<Rightarrow> string \<Rightarrow> servant_exception" where
  "epp_error code msg svtrid =
     EppErrorThrown \<lparr>errCode = code, errMsg = msg, svTRID = svtrid, errorList = []\<rparr>"

definition server_internal_error :: "string \<Rightarrow> servant_exception" where
  "server_internal_error svtrid = epp_error COMMAND_FAILED [] svtrid"

definition dummy_svtrid :: string where
  "dummy_svtrid = ''DUMMY-SVTRID''"

text \<open>The transaction handle is kept in a buffer of 64 characters.\<close>

definition begin_action :: "'x corba_scheme \<Rightarrow> u64 \<Rightarrow> string" where
  "begin_action C requestId = take 63 (wrap_string_to_corba_string (make_svtrid C requestId))"

section \<open>The frame of a method\<close>

type_synonym ('w, 'd) servant_state = "EppSessionContainer \<times> 'w \<times> 'd"

text \<open>The language is asked for when the response is made.\<close>

definition get_ret :: "messages \<Rightarrow> u64 \<Rightarrow> EppSessionContainer \<Rightarrow> nat \<Rightarrow> string \<Rightarrow> Response" where
  "get_ret M clientID c code svtrid =
     \<lparr>response_code = code, response_svTRID = svtrid,
      response_msg = error_message M code (get_registrar_lang clientID c)\<rparr>"

text \<open>
  The constructor, a body, and the destructor. The body is given the registrar and the transaction
  handle, and returns the code with a result, or with an exception. The destructor commits under a
  successful code and otherwise rolls back; an exception of the commit is caught there, so that it
  changes what is stored and nothing else.
\<close>

definition epp_action ::
  "('w, 'y) outside_scheme \<Rightarrow> 'x corba_scheme \<Rightarrow> messages \<Rightarrow> ('d \<Rightarrow> bool) \<Rightarrow> EppParams \<Rightarrow>
     (u32 \<Rightarrow> string \<Rightarrow> (('w, 'd) servant_state, nat \<times> servant_exception, nat \<times> 'a) op) \<Rightarrow>
     (('w, 'd) servant_state, servant_exception, Response \<times> 'a) op" where
  "epp_action E C M commits params body = (\<lambda>(c, w, d).
     case get_registrar_id E (loginID params) (c, w) of
       (Inl e, c1, w1) \<Rightarrow> (Inl (SessionThrown e), c1, w1, d)
     | (Inr regID, c1, w1) \<Rightarrow>
         let svtrid = begin_action C (requestID params) in
         if regID = 0
         then
           let r = get_ret M (loginID params) c1 COMMAND_MAX_SESSION_LIMIT svtrid in
           (Inl (epp_error (response_code r) (response_msg r) (response_svTRID r)), c1, w1, d)
         else
           (case body regID svtrid (c1, w1, d) of
              (r, c2, w2, d2) \<Rightarrow>
                let code = (case r of Inl (k, _) \<Rightarrow> k | Inr (k, _) \<Rightarrow> k);
                    stored = (if is_command_successfully_done code \<and> commits d2 then d2 else d) in
                (case r of
                   Inl (_, e) \<Rightarrow> (Inl e, c2, w2, stored)
                 | Inr (k, x) \<Rightarrow> (Inr (get_ret M (loginID params) c2 k svtrid, x), c2, w2, stored))))"

definition failedInternal :: "string \<Rightarrow> ('s, nat \<times> servant_exception, 'a) op" where
  "failedInternal svtrid = throwE (COMMAND_FAILED, server_internal_error svtrid)"

text \<open>A body that works on the tables only; \<^verbatim>\<open>catch (...) { failedInternal(...); }\<close>.\<close>

definition on_tables ::
  "string \<Rightarrow> ('d, exn, 'a) op \<Rightarrow> (('w, 'd) servant_state, nat \<times> servant_exception, nat \<times> 'a) op" where
  "on_tables svtrid m = (\<lambda>(c, w, d).
     case m d of
       (Inl _, d') \<Rightarrow> failedInternal svtrid (c, w, d')
     | (Inr x, d') \<Rightarrow> (Inr (COMMAND_OK, x), c, w, d'))"

section \<open>The end of a session\<close>

definition logout_body ::
  "u64 \<Rightarrow> (('w, 'd) servant_state, nat \<times> servant_exception, nat \<times> unit) op" where
  "logout_body client = (\<lambda>(c, w, d).
     case logout_session client c of
       (Inl e, c') \<Rightarrow> (Inl (COMMAND_OK, SessionThrown e), c', w, d)
     | (Inr _, c') \<Rightarrow> (Inr (COMMAND_LOGOUT, ()), c', w, d))"

definition ClientLogout ::
  "('w, 'y) outside_scheme \<Rightarrow> 'x corba_scheme \<Rightarrow> messages \<Rightarrow> ('d \<Rightarrow> bool) \<Rightarrow> EppParams \<Rightarrow>
     (('w, 'd) servant_state, servant_exception, Response \<times> unit) op" where
  "ClientLogout E C M commits params =
     epp_action E C M commits params (\<lambda>_ _. logout_body (loginID params))"

definition sessionClosed :: "u64 \<Rightarrow> (('w, 'd) servant_state, servant_exception, unit) op" where
  "sessionClosed clientID = (\<lambda>(c, w, d).
     case logout_session clientID c of
       (Inl e, c') \<Rightarrow> (Inl (SessionThrown e), c', w, d)
     | (Inr _, c') \<Rightarrow> (Inr (), c', w, d))"

text \<open>\<open>None\<close> when the loop does not return.\<close>

definition destroyAllRegistrarSessions ::
  "u32 \<Rightarrow> ('w, 'd) servant_state \<Rightarrow> ((servant_exception + unit) \<times> ('w, 'd) servant_state) option" where
  "destroyAllRegistrarSessions reg_id = (\<lambda>(c, w, d).
     case destroy_all_registrar_sessions (scast reg_id) c of
       None \<Rightarrow> None
     | Some (Inl e, c') \<Rightarrow> Some (Inl (SessionThrown e), c', w, d)
     | Some (Inr _, c') \<Rightarrow> Some (Inr (), c', w, d))"

section \<open>Requests refused by the front end\<close>

datatype XmlError = poll_msgID_missing | contact_identtype_missing | transfer_op | xml_not_valid | other_xml_error

definition error_string :: "messages \<Rightarrow> u32 \<Rightarrow> XmlError \<Rightarrow> string" where
  "error_string M lng e =
     (case e of
        poll_msgID_missing \<Rightarrow> reason_message M 35 lng
      | contact_identtype_missing \<Rightarrow> reason_message M 34 lng
      | transfer_op \<Rightarrow> reason_message M 33 lng
      | xml_not_valid \<Rightarrow> reason_message M 37 lng
      | other_xml_error \<Rightarrow> ''not specified error'')"

definition GetTransaction ::
  "'x corba_scheme \<Rightarrow> messages \<Rightarrow> u16 \<Rightarrow> u64 \<Rightarrow> u64 \<Rightarrow> XmlError list \<Rightarrow>
     (('w, 'd) servant_state, servant_exception, Response \<times> string list) op" where
  "GetTransaction C M code clientID requestId errorCodes = (\<lambda>(c, w, d).
     let lng = get_registrar_lang clientID c in
     if 0 < sint code
     then (Inr (get_ret M clientID c (unat code) (begin_action C requestId),
                map (error_string M lng) errorCodes), c, w, d)
     else (Inl (server_internal_error dummy_svtrid), c, w, d))"

section \<open>Listings\<close>

text \<open>
  The names of all objects of the registrar of one type; the order is that of the tables, the
  statement asks for none.
\<close>

datatype ListKind = EPP_ListContact | EPP_ListNsset | EPP_ListDomain | EPP_ListKeyset

primrec list_type :: "ListKind \<Rightarrow> nat" where
  "list_type EPP_ListContact = 1"
| "list_type EPP_ListNsset = 2"
| "list_type EPP_ListDomain = 3"
| "list_type EPP_ListKeyset = 4"

definition names_of_registrar :: "'t registry_tables_scheme \<Rightarrow> u32 \<Rightarrow> nat \<Rightarrow> string list" where
  "names_of_registrar t regID type =
     concat (map (\<lambda>r. map (\<lambda>_. obr_name r)
       (filter (\<lambda>o'. obr_id r = o_id o' \<and> o_clid o' = scast regID \<and> obr_type r = type) (object_table t)))
       (object_registry t))"

definition FullList ::
  "('w, 'y) outside_scheme \<Rightarrow> 'x corba_scheme \<Rightarrow> messages \<Rightarrow> ('t registry_tables_scheme \<Rightarrow> bool) \<Rightarrow>
     (statement \<Rightarrow> bool) \<Rightarrow> ListKind \<Rightarrow> EppParams \<Rightarrow>
     (('w, 't registry_tables_scheme) servant_state, servant_exception, Response \<times> string list) op" where
  "FullList E C M commits works act params =
     epp_action E C M commits params (\<lambda>regID svtrid.
       on_tables svtrid (bindE (question works Select_names (\<lambda>t. names_of_registrar t regID (list_type act)))
         (\<lambda>names. returnE (map wrap_string_to_corba_string names))))"

definition ContactList ::
  "('w, 'y) outside_scheme \<Rightarrow> 'x corba_scheme \<Rightarrow> messages \<Rightarrow> ('t registry_tables_scheme \<Rightarrow> bool) \<Rightarrow>
     (statement \<Rightarrow> bool) \<Rightarrow> EppParams \<Rightarrow>
     (('w, 't registry_tables_scheme) servant_state, servant_exception, Response \<times> string list) op" where
  "ContactList E C M commits works = FullList E C M commits works EPP_ListContact"

definition NSSetList ::
  "('w, 'y) outside_scheme \<Rightarrow> 'x corba_scheme \<Rightarrow> messages \<Rightarrow> ('t registry_tables_scheme \<Rightarrow> bool) \<Rightarrow>
     (statement \<Rightarrow> bool) \<Rightarrow> EppParams \<Rightarrow>
     (('w, 't registry_tables_scheme) servant_state, servant_exception, Response \<times> string list) op" where
  "NSSetList E C M commits works = FullList E C M commits works EPP_ListNsset"

definition DomainList ::
  "('w, 'y) outside_scheme \<Rightarrow> 'x corba_scheme \<Rightarrow> messages \<Rightarrow> ('t registry_tables_scheme \<Rightarrow> bool) \<Rightarrow>
     (statement \<Rightarrow> bool) \<Rightarrow> EppParams \<Rightarrow>
     (('w, 't registry_tables_scheme) servant_state, servant_exception, Response \<times> string list) op" where
  "DomainList E C M commits works = FullList E C M commits works EPP_ListDomain"

definition KeySetList ::
  "('w, 'y) outside_scheme \<Rightarrow> 'x corba_scheme \<Rightarrow> messages \<Rightarrow> ('t registry_tables_scheme \<Rightarrow> bool) \<Rightarrow>
     (statement \<Rightarrow> bool) \<Rightarrow> EppParams \<Rightarrow>
     (('w, 't registry_tables_scheme) servant_state, servant_exception, Response \<times> string list) op" where
  "KeySetList E C M commits works = FullList E C M commits works EPP_ListKeyset"


datatype CorbaInfoType =
    IT_LIST_CONTACTS | IT_LIST_DOMAINS | IT_LIST_NSSETS | IT_LIST_KEYSETS | IT_DOMAINS_BY_NSSET
  | IT_DOMAINS_BY_CONTACT | IT_NSSETS_BY_CONTACT | IT_NSSETS_BY_NS | IT_DOMAINS_BY_KEYSET
  | IT_KEYSETS_BY_CONTACT

primrec info_type :: "CorbaInfoType \<Rightarrow> InfoType" where
  "info_type IT_LIST_CONTACTS = T_LIST_CONTACTS"
| "info_type IT_LIST_DOMAINS = T_LIST_DOMAINS"
| "info_type IT_LIST_NSSETS = T_LIST_NSSETS"
| "info_type IT_LIST_KEYSETS = T_LIST_KEYSETS"
| "info_type IT_DOMAINS_BY_NSSET = T_DOMAINS_BY_NSSET"
| "info_type IT_DOMAINS_BY_CONTACT = T_DOMAINS_BY_CONTACT"
| "info_type IT_NSSETS_BY_CONTACT = T_NSSETS_BY_CONTACT"
| "info_type IT_NSSETS_BY_NS = T_NSSETS_BY_NS"
| "info_type IT_DOMAINS_BY_KEYSET = T_DOMAINS_BY_KEYSET"
| "info_type IT_KEYSETS_BY_CONTACT = T_KEYSETS_BY_CONTACT"

text \<open>The count is handed over as a \<^verbatim>\<open>long\<close> of 32 bits.\<close>

definition servant_info ::
  "('w, 'y) outside_scheme \<Rightarrow> 'x corba_scheme \<Rightarrow> messages \<Rightarrow> ('t info_tables_scheme \<Rightarrow> bool) \<Rightarrow>
     's sql_scheme \<Rightarrow> (statement \<Rightarrow> bool) \<Rightarrow> CorbaInfoType \<Rightarrow> string \<Rightarrow> EppParams \<Rightarrow>
     (('w, 't info_tables_scheme) servant_state, servant_exception, Response \<times> u32) op" where
  "servant_info E C M commits S works type handle params =
     epp_action E C M commits params (\<lambda>regID svtrid.
       on_tables svtrid (bindE (info S works (scast regID) (info_type type) handle)
         (\<lambda>count. returnE (ucast count))))"

definition getInfoResults ::
  "('w, 'y) outside_scheme \<Rightarrow> 'x corba_scheme \<Rightarrow> messages \<Rightarrow> ('t info_tables_scheme \<Rightarrow> bool) \<Rightarrow>
     (statement \<Rightarrow> bool) \<Rightarrow> EppParams \<Rightarrow>
     (('w, 't info_tables_scheme) servant_state, servant_exception, Response \<times> string list) op" where
  "getInfoResults E C M commits works params =
     epp_action E C M commits params (\<lambda>regID svtrid.
       on_tables svtrid (bindE (getChunk works (scast regID) 1000)
         (\<lambda>c. returnE (map wrap_string_to_corba_string (next_records (unat (getCount c)) c)))))"

end
