(* ===== verification/Corba_Login.thy ===== *)
theory Corba_Login
  imports Corba_Action
begin

text \<open>
  The login of a registrar: \<^verbatim>\<open>ccReg_EPP_i::ClientLogin\<close> (\<^verbatim>\<open>epp_impl.cc\<close>), the authentication by
  certificate and password (\<^verbatim>\<open>src/backend/epp/impl/registraracl/authentic_registrar.cc\<close>), and the
  questions whether the registrar exists and is blocked (\<^verbatim>\<open>src/deprecated/util/dbsql.cc\<close>,
  \<^verbatim>\<open>src/deprecated/libfred/registrar.cc\<close>). The tables these read and write are the state. How
  passwords are encrypted and compared is not part of the repository and a parameter.
\<close>

section \<open>Tables and parameters\<close>

record disconnect_row =
  disconnect_registrarid :: u64
  blocked_from :: ptime
  blocked_to :: "ptime option"

record acl_row =
  acl_id :: u64
  acl_registrarid :: u64
  acl_cert :: string
  acl_password :: string

record login_tables =
  registrars :: "(u64 \<times> string) list"
  registrar_disconnect :: "disconnect_row list"
  registraracl :: "acl_row list"

datatype login_statement = Registrar_by_handle | Select_disconnect | Select_acl | Update_acl

datatype password_check = CorrectPassword | IncorrectPassword | CheckFailed exn

text \<open>
  \<open>encrypt\<close> may consume random data of the world. \<open>database_time\<close> is the time of the transaction.
\<close>

record 'w login_environment = "'w outside" +
  check_password :: "string \<Rightarrow> string \<Rightarrow> password_check"
  encrypt_password_by_preferred_method :: "string \<Rightarrow> ('w, exn, string) op"
  is_encrypted_by_preferred_method :: "string \<Rightarrow> bool"
  database_time :: "'w \<Rightarrow> ptime"
  login_statement_works :: "login_statement \<Rightarrow> bool"

datatype login_exception = AuthenticationFailed | LoginException session_error

abbreviation sql_failed :: login_exception where
  "sql_failed \<equiv> LoginException (OutsideError (StdException ''database exception''))"

section \<open>The registrar\<close>

text \<open>Zero when the statement fails and when there is not exactly one such registrar.\<close>

definition GetNumericFromTable :: "('w, 'y) login_environment_scheme \<Rightarrow> 't login_tables_scheme \<Rightarrow> string \<Rightarrow> u32" where
  "GetNumericFromTable E t handle =
     (if \<not> login_statement_works E Registrar_by_handle then 0
      else (case filter (\<lambda>(_, h). h = handle) (registrars t) of [(i, _)] \<Rightarrow> ucast i | _ \<Rightarrow> 0))"

definition blocked_row :: "ptime \<Rightarrow> u64 \<Rightarrow> disconnect_row \<Rightarrow> bool" where
  "blocked_row now regId r \<longleftrightarrow>
     blocked_from r \<le> now \<and> (case blocked_to r of None \<Rightarrow> True | Some b \<Rightarrow> now < b) \<and>
     disconnect_registrarid r = regId"

type_synonym ('w, 't) login_state = "('w, 't login_tables_scheme) servant_state"

definition isRegistrarBlocked ::
  "('w, 'y) login_environment_scheme \<Rightarrow> u64 \<Rightarrow> (('w, 't) login_state, login_exception, bool) op" where
  "isRegistrarBlocked E regId = (\<lambda>(c, w, t).
     if \<not> login_statement_works E Select_disconnect then (Inl sql_failed, c, w, t)
     else (Inr (filter (blocked_row (database_time E w) regId) (registrar_disconnect t) \<noteq> []), c, w, t))"

section \<open>Authentication\<close>

record AuthenticRegistrar =
  auth_registrar_id :: u64
  auth_certificate_fingerprint :: string
  auth_registrar_acl_id :: u64

definition updated_row :: "AuthenticRegistrar \<Rightarrow> acl_row \<Rightarrow> bool" where
  "updated_row a r \<longleftrightarrow>
     acl_id r = auth_registrar_acl_id a \<and> acl_registrarid r = auth_registrar_id a \<and>
     acl_cert r = auth_certificate_fingerprint a"

definition set_password ::
  "('w, 'y) login_environment_scheme \<Rightarrow> AuthenticRegistrar \<Rightarrow> string \<Rightarrow>
     (('w, 't) login_state, login_exception, unit) op" where
  "set_password E a plaintext_password = (\<lambda>(c, w, t).
     case encrypt_password_by_preferred_method E plaintext_password w of
       (Inl e, w1) \<Rightarrow> (Inl (LoginException (OutsideError e)), c, w1, t)
     | (Inr encrypted, w1) \<Rightarrow>
         if \<not> login_statement_works E Update_acl then (Inl sql_failed, c, w1, t)
         else
           let t1 = t\<lparr>registraracl :=
             map (\<lambda>r. if updated_row a r then r\<lparr>acl_password := encrypted\<rparr> else r) (registraracl t)\<rparr> in
           if length (filter (updated_row a) (registraracl t)) \<noteq> 1
           then (Inl (LoginException (OutsideError (StdException
             ''unexpected number of updated records in registraracl table''))), c, w1, t1)
           else (Inr (), c, w1, t1))"

definition selected_acl :: "u64 \<Rightarrow> string \<Rightarrow> 't login_tables_scheme \<Rightarrow> acl_row list" where
  "selected_acl regId cert t = filter (\<lambda>r. acl_registrarid r = regId \<and> acl_cert r = cert) (registraracl t)"

definition authenticate ::
  "('w, 'y) login_environment_scheme \<Rightarrow> u64 \<Rightarrow> string \<Rightarrow> string \<Rightarrow>
     (('w, 't) login_state, login_exception, AuthenticRegistrar) op" where
  "authenticate E regId cert passwd = (\<lambda>(c, w, t).
     if \<not> login_statement_works E Select_acl then (Inl sql_failed, c, w, t)
     else
       (case selected_acl regId cert t of
          [] \<Rightarrow> (Inl AuthenticationFailed, c, w, t)
        | [row] \<Rightarrow>
            (case check_password E passwd (acl_password row) of
               IncorrectPassword \<Rightarrow> (Inl AuthenticationFailed, c, w, t)
             | CheckFailed e \<Rightarrow> (Inl (LoginException (OutsideError e)), c, w, t)
             | CorrectPassword \<Rightarrow>
                 let a = \<lparr>auth_registrar_id = regId, auth_certificate_fingerprint = cert,
                          auth_registrar_acl_id = acl_id row\<rparr> in
                 bindE (whenE (\<not> is_encrypted_by_preferred_method E (acl_password row)) (set_password E a passwd))
                   (\<lambda>_. returnE a) (c, w, t))
        | _ \<Rightarrow> (Inl (LoginException (OutsideError (StdException
                 ''too many rows selected from registraracl''))), c, w, t)))"

section \<open>Login\<close>

datatype Languages = CS | EN

definition language_to_int :: "Languages \<Rightarrow> u32" where
  "language_to_int l = (case l of CS \<Rightarrow> 1 | EN \<Rightarrow> 0)"

text \<open>
  What happens inside the \<^verbatim>\<open>try\<close> block: the code of the response and the number of the session, or
  the exception. The result is \<open>None\<close> when the loop over the sessions does not return.
\<close>

definition login_checked ::
  "('w, 'y) login_environment_scheme \<Rightarrow> u32 \<Rightarrow> Languages \<Rightarrow> ('w, 't) login_state \<Rightarrow>
     ((login_exception + nat \<times> u64) \<times> ('w, 't) login_state) option" where
  "login_checked E regID lng = (\<lambda>(c, w, t).
     case login_session E regID (language_to_int lng) (c, w) of
       None \<Rightarrow> None
     | Some (Inr clientID, c1, w1) \<Rightarrow> Some (Inr (COMMAND_OK, clientID), c1, w1, t)
     | Some (Inl (NumberSessionLimit _), c1, w1) \<Rightarrow> Some (Inr (COMMAND_MAX_SESSION_LIMIT, 0), c1, w1, t)
     | Some (Inl e, c1, w1) \<Rightarrow> Some (Inl (LoginException e), c1, w1, t))"

definition authenticated ::
  "('w, 'y) login_environment_scheme \<Rightarrow> u32 \<Rightarrow> string \<Rightarrow> string \<Rightarrow> cstring \<Rightarrow>
     (('w, 't) login_state, login_exception, unit) op" where
  "authenticated E regID cert passwd newpass =
     bindE (authenticate E (scast regID) cert passwd) (\<lambda>a.
       case newpass of
         None \<Rightarrow> returnE ()
       | Some p \<Rightarrow> whenE (p \<noteq> []) (set_password E a p))"

definition login_attempt ::
  "('w, 'y) login_environment_scheme \<Rightarrow> string \<Rightarrow> string \<Rightarrow> cstring \<Rightarrow> string \<Rightarrow> Languages \<Rightarrow> ('w, 't) login_state \<Rightarrow>
     ((login_exception + nat \<times> u64) \<times> ('w, 't) login_state) option" where
  "login_attempt E ClID passwd newpass cert lng = (\<lambda>(c, w, t).
     let regID = GetNumericFromTable E t ClID in
     if regID = 0 then Some (Inr (COMMAND_AUTH_ERROR, 0), c, w, t)
     else
       (case isRegistrarBlocked E (scast regID) (c, w, t) of
          (Inl e, s) \<Rightarrow> Some (Inl e, s)
        | (Inr True, s) \<Rightarrow> Some (Inr (COMMAND_AUTOR_ERROR, 0), s)
        | (Inr False, s) \<Rightarrow>
            (case authenticated E regID cert passwd newpass s of
               (Inl e, s1) \<Rightarrow> Some (Inl e, s1)
             | (Inr _, s1) \<Rightarrow> login_checked E regID lng s1)))"

text \<open>
  The handlers: a failed authentication and every exception that is a \<^verbatim>\<open>std::exception\<close> have a code;
  after any other the code stays zero.
\<close>

definition handled :: "login_exception + nat \<times> u64 \<Rightarrow> nat \<times> u64" where
  "handled r =
     (case r of
        Inr x \<Rightarrow> x
      | Inl AuthenticationFailed \<Rightarrow> (COMMAND_AUTH_ERROR, 0)
      | Inl (LoginException (OutsideError NonStdException)) \<Rightarrow> (0, 0)
      | Inl (LoginException _) \<Rightarrow> (COMMAND_FAILED, 0))"

definition ClientLogin ::
  "('w, 'y) login_environment_scheme \<Rightarrow> 'x corba_scheme \<Rightarrow> messages \<Rightarrow> ('t login_tables_scheme \<Rightarrow> bool) \<Rightarrow>
     string \<Rightarrow> string \<Rightarrow> cstring \<Rightarrow> u64 \<Rightarrow> string \<Rightarrow> Languages \<Rightarrow> ('w, 't) login_state \<Rightarrow>
     ((servant_exception + Response \<times> u64) \<times> ('w, 't) login_state) option" where
  "ClientLogin E C M commits ClID passwd newpass requestId certID lng = (\<lambda>(c, w, t).
     case login_attempt E ClID passwd newpass certID lng (c, w, t) of
       None \<Rightarrow> None
     | Some (r, c1, w1, t1) \<Rightarrow>
         (case handled r of
            (code, clientID) \<Rightarrow>
              if code = 0 then Some (Inl (server_internal_error dummy_svtrid), c1, w1, t)
              else
                let ret = get_ret M clientID c1 code (begin_action C requestId) in
                if is_command_successfully_done code \<and> \<not> commits t1
                then Some (Inl (OtherThrown (StdException ''commit failed'')), c1, w1, t)
                else
                  let stored = (if is_command_successfully_done code then t1 else t) in
                  if COMMAND_EXCEPTION < code
                  then Some (Inl (epp_error code (response_msg ret) (response_svTRID ret)), c1, w1, stored)
                  else Some (Inr (ret, clientID), c1, w1, stored)))"

end
