(* ===== verification/Corba_Login_Properties.thy ===== *)
theory Corba_Login_Properties
  imports Corba_Login Session_Registry
begin

text \<open>
  What login and logout promise: who is let in, what a refusal leaves behind, which password is valid
  afterwards, and that a session that was logged out is gone.
\<close>

section \<open>Authentication\<close>

lemma set_password_container: "set_password E a p (c, w, t) = (r, c', w', t') \<Longrightarrow> c' = c"
  by (auto simp: set_password_def Let_def split: prod.splits sum.splits if_splits)

lemma set_password_Inr:
  "set_password E a p (c, w, t) = (Inr x, c', w', t') \<Longrightarrow>
     \<exists>enc. encrypt_password_by_preferred_method E p w = (Inr enc, w') \<and>
       t' = t\<lparr>registraracl := map (\<lambda>r. if updated_row a r then r\<lparr>acl_password := enc\<rparr> else r) (registraracl t)\<rparr>"
  by (auto simp: set_password_def Let_def split: prod.splits sum.splits if_splits)

lemma authenticate_container: "authenticate E R cert p (c, w, t) = (r, c', w', t') \<Longrightarrow> c' = c"
  by (auto simp: authenticate_def Let_def bindE_def whenE_def returnE_def
      dest: set_password_container split: prod.splits sum.splits if_splits list.splits password_check.splits)

lemma authenticate_Inr:
  assumes "authenticate E R cert p (c, w, t) = (Inr a, c', w', t')"
  obtains row where "selected_acl R cert t = [row]" "check_password E p (acl_password row) = CorrectPassword"
    "a = \<lparr>auth_registrar_id = R, auth_certificate_fingerprint = cert, auth_registrar_acl_id = acl_id row\<rparr>"
    "(w', t') = (w, t) \<or> set_password E a p (c, w, t) = (Inr (), c', w', t')"
  using assms
  by (auto simp: authenticate_def Let_def bindE_def whenE_def returnE_def
      split: prod.splits sum.splits if_splits list.splits password_check.splits)

lemma updated_only_selected:
  assumes "selected_acl R cert t = [row]"
    "a = \<lparr>auth_registrar_id = R, auth_certificate_fingerprint = cert, auth_registrar_acl_id = acl_id row\<rparr>"
    "r \<in> set (registraracl t)"
  shows "updated_row a r \<longleftrightarrow> acl_registrarid r = R \<and> acl_cert r = cert"
proof -
  have "r = row" if "acl_registrarid r = R" "acl_cert r = cert"
  proof -
    have "r \<in> set (selected_acl R cert t)"
      using that assms(3) by (simp add: selected_acl_def)
    then show ?thesis by (simp add: assms(1))
  qed
  then show ?thesis
    by (auto simp: updated_row_def assms(2))
qed

text \<open>The tables with another password for a certificate of a registrar.\<close>

definition with_password :: "u64 \<Rightarrow> string \<Rightarrow> string \<Rightarrow> 't login_tables_scheme \<Rightarrow> 't login_tables_scheme" where
  "with_password R cert enc t =
     t\<lparr>registraracl := map (\<lambda>r. if acl_registrarid r = R \<and> acl_cert r = cert then r\<lparr>acl_password := enc\<rparr> else r)
       (registraracl t)\<rparr>"

lemma with_password_selected:
  "selected_acl R cert t = rows \<Longrightarrow>
     selected_acl R cert (with_password R cert enc t) = map (\<lambda>r. r\<lparr>acl_password := enc\<rparr>) rows"
proof -
  have "filter (\<lambda>r. acl_registrarid r = R \<and> acl_cert r = cert)
      (map (\<lambda>r. if acl_registrarid r = R \<and> acl_cert r = cert then r\<lparr>acl_password := enc\<rparr> else r) rs) =
      map (\<lambda>r. r\<lparr>acl_password := enc\<rparr>) (filter (\<lambda>r. acl_registrarid r = R \<and> acl_cert r = cert) rs)" for rs
    by (induction rs) auto
  then show "selected_acl R cert t = rows \<Longrightarrow> ?thesis"
    by (auto simp: selected_acl_def with_password_def)
qed

lemma with_password_twice [simp]: "with_password R cert enc (with_password R cert enc' t) = with_password R cert enc t"
  by (simp add: with_password_def comp_def)

lemma set_password_selected:
  assumes "selected_acl R cert t = [row]" "set_password E a p (c, w, t) = (Inr x, c', w', t')"
    "a = \<lparr>auth_registrar_id = R, auth_certificate_fingerprint = cert, auth_registrar_acl_id = acl_id row\<rparr>"
  obtains enc where "encrypt_password_by_preferred_method E p w = (Inr enc, w')" "t' = with_password R cert enc t"
proof -
  obtain enc where enc: "encrypt_password_by_preferred_method E p w = (Inr enc, w')"
    and t': "t' = t\<lparr>registraracl := map (\<lambda>r. if updated_row a r then r\<lparr>acl_password := enc\<rparr> else r) (registraracl t)\<rparr>"
    using set_password_Inr [OF assms(2)] by blast
  have "map (\<lambda>r. if updated_row a r then r\<lparr>acl_password := enc\<rparr> else r) (registraracl t) =
      map (\<lambda>r. if acl_registrarid r = R \<and> acl_cert r = cert then r\<lparr>acl_password := enc\<rparr> else r) (registraracl t)"
    using updated_only_selected [OF assms(1,3)] by (intro map_cong) auto
  then show ?thesis
    using that enc by (simp add: t' with_password_def)
qed

text \<open>Which password is stored after the authentication.\<close>

definition stored_password ::
  "('w, 'y) login_environment_scheme \<Rightarrow> u64 \<Rightarrow> string \<Rightarrow> string \<Rightarrow> 't login_tables_scheme \<Rightarrow> 't login_tables_scheme \<Rightarrow> bool" where
  "stored_password E R cert p t t' \<longleftrightarrow>
     (\<exists>enc w0 w1. encrypt_password_by_preferred_method E p w0 = (Inr enc, w1) \<and> t' = with_password R cert enc t)"

lemma authenticated_Inr:
  assumes "authenticated E regID cert p newpass (c, w, t) = (Inr x, c', w', t')"
  shows "c' = c \<and> (\<exists>row. selected_acl (scast regID) cert t = [row] \<and>
    check_password E p (acl_password row) = CorrectPassword) \<and>
    (case newpass of
       Some (ch # np) \<Rightarrow> stored_password E (scast regID) cert (ch # np) t t'
     | _ \<Rightarrow> t' = t \<or> stored_password E (scast regID) cert p t t')"
proof -
  let ?R = "scast regID :: u64"
  obtain a c1 w1 t1 where auth: "authenticate E ?R cert p (c, w, t) = (Inr a, c1, w1, t1)"
    and rest: "(case newpass of None \<Rightarrow> returnE () | Some p \<Rightarrow> whenE (p \<noteq> []) (set_password E a p)) (c1, w1, t1) =
      (Inr x, c', w', t')"
    using assms by (auto simp: authenticated_def bindE_def split: prod.splits sum.splits)
  have c1: "c1 = c"
    using authenticate_container [OF auth] .
  obtain row where row: "selected_acl ?R cert t = [row]" "check_password E p (acl_password row) = CorrectPassword"
      "a = \<lparr>auth_registrar_id = ?R, auth_certificate_fingerprint = cert, auth_registrar_acl_id = acl_id row\<rparr>"
      "(w1, t1) = (w, t) \<or> set_password E a p (c, w, t) = (Inr (), c1, w1, t1)"
    using authenticate_Inr [OF auth] by metis
  have t1: "t1 = t \<or> stored_password E ?R cert p t t1"
    using row(4) set_password_selected [OF row(1) _ row(3)] unfolding stored_password_def by (metis prod.inject)
  obtain row1 where row1: "selected_acl ?R cert t1 = [row1]" "acl_id row1 = acl_id row"
      "\<And>enc. with_password ?R cert enc t1 = with_password ?R cert enc t"
    using t1 row(1) with_password_selected [OF row(1)] by (auto simp: stored_password_def)
  show ?thesis
  proof (cases "newpass = None \<or> newpass = Some []")
    case True
    then have "(c', w', t') = (c1, w1, t1)"
      using rest by (auto simp: returnE_def whenE_def)
    with True c1 t1 row(1,2) show ?thesis by auto
  next
    case False
    then obtain ch np where np: "newpass = Some (ch # np)"
      by (metis neq_Nil_conv option.exhaust)
    then have set: "set_password E a (ch # np) (c1, w1, t1) = (Inr x, c', w', t')"
      using rest by (simp add: whenE_def)
    have "stored_password E ?R cert (ch # np) t t'"
      using set_password_selected [OF row1(1) set] row(3) row1(2,3) unfolding stored_password_def by metis
    with np set_password_container [OF set] c1 row(1,2) show ?thesis by simp
  qed
qed

lemma authenticated_container:
  "authenticated E regID cert p newpass (c, w, t) = (r, c', w', t') \<Longrightarrow> c' = c"
  by (auto simp: authenticated_def bindE_def whenE_def returnE_def
      dest: set_password_container authenticate_container split: prod.splits sum.splits option.splits if_splits)

section \<open>Outcomes of a login\<close>

lemma blocked_run:
  "isRegistrarBlocked E R s = (if \<not> login_statement_works E Select_disconnect then (Inl sql_failed, s)
     else (Inr (\<exists>d \<in> set (registrar_disconnect (snd (snd s))). blocked_row (database_time E (fst (snd s))) R d), s))"
  by (cases s) (auto simp: isRegistrarBlocked_def filter_empty_conv)

lemma checked_Inr:
  "login_checked E regID lng (c, w, t) = Some (Inr (code, client), c', w', t') \<Longrightarrow>
     t' = t \<and> (code = COMMAND_OK \<and> login_session E regID (language_to_int lng) (c, w) = Some (Inr client, c', w') \<or>
       code = COMMAND_MAX_SESSION_LIMIT \<and> (\<exists>e. login_session E regID (language_to_int lng) (c, w) = Some (Inl e, c', w')))"
  by (auto simp: login_checked_def split: option.splits prod.splits sum.splits session_error.splits)

lemma checked_Inl:
  "login_checked E regID lng (c, w, t) = Some (Inl x, c', w', t') \<Longrightarrow>
     \<exists>e. login_session E regID (language_to_int lng) (c, w) = Some (Inl e, c', w')"
  by (auto simp: login_checked_def split: option.splits prod.splits sum.splits session_error.splits)

text \<open>Every way through the attempt: it is refused before the sessions are touched, or the session is asked for.\<close>

lemma attempt_cases:
  assumes "login_attempt E ClID passwd newpass cert lng (c, w, t) = Some (r, c', w', t')"
  defines "regID \<equiv> GetNumericFromTable E t ClID"
  obtains (early) "c' = c" "(\<exists>x. r = Inl x) \<or> r = Inr (COMMAND_AUTH_ERROR, 0) \<or> r = Inr (COMMAND_AUTOR_ERROR, 0)"
  | (asked) w1 t1 where "regID \<noteq> 0"
      "\<not> (\<exists>d \<in> set (registrar_disconnect t). blocked_row (database_time E w) (scast regID) d)"
      "authenticated E regID cert passwd newpass (c, w, t) = (Inr (), c, w1, t1)"
      "login_checked E regID lng (c, w1, t1) = Some (r, c', w', t')"
proof (cases "regID = 0")
  case True
  then show ?thesis
    using assms early by (auto simp: login_attempt_def Let_def)
next
  case False
  consider (failed) "\<not> login_statement_works E Select_disconnect"
    | (blocked) "login_statement_works E Select_disconnect"
        "\<exists>d \<in> set (registrar_disconnect t). blocked_row (database_time E w) (scast regID) d"
    | (free) "login_statement_works E Select_disconnect"
        "\<not> (\<exists>d \<in> set (registrar_disconnect t). blocked_row (database_time E w) (scast regID) d)"
    by blast
  then show ?thesis
  proof cases
    case failed
    then show ?thesis
      using assms False early by (auto simp: login_attempt_def Let_def blocked_run)
  next
    case blocked
    then show ?thesis
      using assms False early by (auto simp: login_attempt_def Let_def blocked_run)
  next
    case free
    have attempt: "(case authenticated E regID cert passwd newpass (c, w, t) of
        (Inl e, s1) \<Rightarrow> Some (Inl e, s1)
      | (Inr _, s1) \<Rightarrow> login_checked E regID lng s1) = Some (r, c', w', t')"
      using assms(1) False free unfolding regID_def by (simp add: login_attempt_def Let_def blocked_run del: bex_simps)
    obtain x c1 w1 t1 where auth: "authenticated E regID cert passwd newpass (c, w, t) = (x, c1, w1, t1)"
      by (metis prod_cases4)
    have "c1 = c"
      by (rule authenticated_container [OF auth])
    with auth attempt free False early asked show ?thesis
      by (cases x) auto
  qed
qed

lemma login_success:
  assumes "ClientLogin E C M commits ClID passwd newpass requestId cert lng (c, w, t) =
    Some (Inr (ret, client), c', w', t')"
  defines "regID \<equiv> GetNumericFromTable E t ClID"
  shows "regID \<noteq> 0 \<and>
    \<not> (\<exists>d \<in> set (registrar_disconnect t). blocked_row (database_time E w) (scast regID) d) \<and>
    (\<exists>w1. authenticated E regID cert passwd newpass (c, w, t) = (Inr (), c, w1, t') \<and>
      login_session E regID (language_to_int lng) (c, w1) = Some (Inr client, c', w')) \<and>
    response_code ret = COMMAND_OK"
proof -
  obtain r t1 where attempt: "login_attempt E ClID passwd newpass cert lng (c, w, t) = Some (r, c', w', t1)"
    and handled: "\<exists>code. handled r = (code, client) \<and> code \<noteq> 0 \<and> \<not> COMMAND_EXCEPTION < code \<and>
      response_code ret = code \<and> t' = (if is_command_successfully_done code then t1 else t)"
    using assms(1)
    by (auto simp: ClientLogin_def Let_def get_ret_def split: option.splits prod.splits if_splits)
  from attempt show ?thesis
  proof (cases rule: attempt_cases)
    case early
    with handled show ?thesis
      by (auto simp: handled_def command_codes split: login_exception.splits session_error.splits exn.splits)
  next
    case (asked w1 t2)
    with handled show ?thesis
      using checked_Inr [of E regID lng c w1 t2] unfolding regID_def
      by (cases r)
        (auto simp: handled_def command_codes is_command_successfully_done_def
          split: login_exception.splits session_error.splits exn.splits)
  qed
qed

lemma login_run_registry:
  assumes "container_inv c" "login_session E regID lng (c, w) = Some (r, c', w')"
  shows "container_inv c'" "r = Inr loginId \<Longrightarrow> registry_of c' loginId = Some (regID, lng)"
    "r = Inl e \<Longrightarrow> registry_of c' \<subseteq>\<^sub>m registry_of c"
  using login_simulated [OF assms] by (auto elim!: registry_refused registry_login)

text \<open>What a refusal may look like.\<close>

lemma login_refused:
  assumes "ClientLogin E C M commits ClID passwd newpass requestId cert lng (c, w, t) = Some (Inl e, c', w', t')"
  shows "t' = t" and "container_inv c \<Longrightarrow> (\<And>x. commits x) \<Longrightarrow>
    container_inv c' \<and> registry_of c' \<subseteq>\<^sub>m registry_of c \<and>
    (\<exists>code \<in> {COMMAND_AUTH_ERROR, COMMAND_AUTOR_ERROR, COMMAND_FAILED, COMMAND_MAX_SESSION_LIMIT}.
      \<exists>msg svtrid. e = epp_error code msg svtrid)"
proof -
  obtain r t1 where attempt: "login_attempt E ClID passwd newpass cert lng (c, w, t) = Some (r, c', w', t1)"
    and rest: "(case handled r of (code, clientID) \<Rightarrow>
        if code = 0 then (Inl (server_internal_error dummy_svtrid), t)
        else if is_command_successfully_done code \<and> \<not> commits t1 then (Inl (OtherThrown (StdException ''commit failed'')), t)
        else (let ret = get_ret M clientID c' code (begin_action C requestId);
                  stored = (if is_command_successfully_done code then t1 else t) in
          if COMMAND_EXCEPTION < code then (Inl (epp_error code (response_msg ret) (response_svTRID ret)), stored)
          else (Inr (ret, clientID), stored))) = (Inl e, t')"
    using assms
    by (auto simp: ClientLogin_def Let_def split: option.splits prod.splits if_splits)
  show "t' = t"
    using rest
    by (auto simp: Let_def is_command_successfully_done_def COMMAND_EXCEPTION_def split: prod.splits if_splits)
  have codes: "\<exists>code \<in> {COMMAND_AUTH_ERROR, COMMAND_AUTOR_ERROR, COMMAND_FAILED, COMMAND_MAX_SESSION_LIMIT}.
      \<exists>msg svtrid. e = epp_error code msg svtrid"
    if "\<And>x. commits x" "(\<exists>x. r = Inl x) \<or>
      (\<exists>code \<in> {COMMAND_AUTH_ERROR, COMMAND_AUTOR_ERROR, COMMAND_MAX_SESSION_LIMIT}. r = Inr (code, 0))"
  proof -
    have "\<exists>code cl. handled r = (code, cl) \<and>
        code \<in> {0, COMMAND_AUTH_ERROR, COMMAND_AUTOR_ERROR, COMMAND_FAILED, COMMAND_MAX_SESSION_LIMIT}"
      using that(2) by (auto simp: handled_def split: login_exception.splits session_error.splits exn.splits)
    then obtain code cl where h: "handled r = (code, cl)"
      and code: "code \<in> {0, COMMAND_AUTH_ERROR, COMMAND_AUTOR_ERROR, COMMAND_FAILED, COMMAND_MAX_SESSION_LIMIT}"
      by blast
    show ?thesis
    proof (cases "code = 0")
      case True
      then have "e = epp_error COMMAND_FAILED [] dummy_svtrid"
        using rest h by (simp add: server_internal_error_def)
      then show ?thesis by blast
    next
      case False
      then have "COMMAND_EXCEPTION < code" "\<not> is_command_successfully_done code"
        using code by (auto simp: command_codes is_command_successfully_done_def)
      then have "\<exists>msg svtrid. e = epp_error code msg svtrid"
        using rest h False by (auto simp: Let_def)
      then show ?thesis using False code by blast
    qed
  qed
  show "container_inv c' \<and> registry_of c' \<subseteq>\<^sub>m registry_of c \<and>
    (\<exists>code \<in> {COMMAND_AUTH_ERROR, COMMAND_AUTOR_ERROR, COMMAND_FAILED, COMMAND_MAX_SESSION_LIMIT}.
      \<exists>msg svtrid. e = epp_error code msg svtrid)" if inv: "container_inv c" and commits: "\<And>x. commits x"
    using attempt
  proof (cases rule: attempt_cases)
    case early
    then show ?thesis
      using codes [OF commits] inv by auto
  next
    case (asked w1 t2)
    have "r \<noteq> Inr (COMMAND_OK, client)" for client
      using rest commits
      by (auto simp: handled_def Let_def command_codes is_command_successfully_done_def)
    then consider x where "r = Inl x" | client where "r = Inr (COMMAND_MAX_SESSION_LIMIT, client)" "client = 0"
      using asked(4)
      by (auto simp: login_checked_def split: option.splits prod.splits sum.splits session_error.splits)
    then show ?thesis
    proof cases
      case 1
      then obtain e' where "login_session E (GetNumericFromTable E t ClID) (language_to_int lng) (c, w1) = Some (Inl e', c', w')"
        using checked_Inl [OF asked(4) [unfolded 1]] by blast
      with 1 codes [OF commits] login_run_registry [OF inv this] show ?thesis by blast
    next
      case 2
      then obtain e' where "login_session E (GetNumericFromTable E t ClID) (language_to_int lng) (c, w1) = Some (Inl e', c', w')"
        using checked_Inr [OF asked(4) [unfolded 2(1)]] by (auto simp: command_codes)
      with 2 codes [OF commits] login_run_registry [OF inv this] show ?thesis by blast
    qed
  qed
qed

text \<open>Storing a password touches the rows of the certificate of the registrar only.\<close>

lemma with_password_others:
  "filter (\<lambda>r. \<not> (acl_registrarid r = R \<and> acl_cert r = cert)) (registraracl (with_password R cert enc t)) =
     filter (\<lambda>r. \<not> (acl_registrarid r = R \<and> acl_cert r = cert)) (registraracl t)"
  "registrars (with_password R cert enc t) = registrars t"
  "registrar_disconnect (with_password R cert enc t) = registrar_disconnect t"
proof -
  have "filter (\<lambda>r. \<not> (acl_registrarid r = R \<and> acl_cert r = cert))
      (map (\<lambda>r. if acl_registrarid r = R \<and> acl_cert r = cert then r\<lparr>acl_password := enc\<rparr> else r) rs) =
      filter (\<lambda>r. \<not> (acl_registrarid r = R \<and> acl_cert r = cert)) rs" for rs
    by (induction rs) auto
  then show "filter (\<lambda>r. \<not> (acl_registrarid r = R \<and> acl_cert r = cert)) (registraracl (with_password R cert enc t)) =
     filter (\<lambda>r. \<not> (acl_registrarid r = R \<and> acl_cert r = cert)) (registraracl t)"
    by (simp add: with_password_def)
qed (simp_all add: with_password_def)

section \<open>Logout\<close>

lemma logout_run:
  assumes "container_inv c" "registry_of c (loginID params) = Some (R, lng)" "R \<noteq> 0"
  shows "\<exists>c' w'. ClientLogout E C M commits params (c, w, d) =
      (Inr (\<lparr>response_code = COMMAND_LOGOUT, response_svTRID = begin_action C (requestID params),
             response_msg = error_message M COMMAND_LOGOUT 0\<rparr>, ()), c', w', d) \<and>
    container_inv c' \<and> registry_of c' = (registry_of c)(loginID params := None)"
proof -
  obtain r c1 w1 where ask: "get_registrar_id E (loginID params) (c, w) = (r, c1, w1)"
    by (metis prod_cases3)
  then have r: "r = Inr R" and c1: "container_inv c1" "registry_of c1 = registry_of c"
    using ask_outcome [OF assms(1) ask] assms(2) by auto
  obtain r2 c2 where out: "logout_session (loginID params) c1 = (r2, c2)"
    by fastforce
  have r2: "r2 = Inr ()" and c2: "container_inv c2" "registry_of c2 = (registry_of c)(loginID params := None)"
    using logout_simulated [OF c1(1) out] c1(2) by (auto elim: registry_logout)
  have "get_registrar_lang (loginID params) c2 = 0"
    by (simp add: language_answer c2(2))
  then show ?thesis
    using c2 assms(3)
    by (simp add: ClientLogout_def epp_action_def ask r logout_body_def out r2 Let_def get_ret_def)
qed

lemma logout_unknown:
  assumes "find_session (loginID params) c = None"
  shows "ClientLogout E C M commits params (c, w, d) =
    (Inl (epp_error COMMAND_MAX_SESSION_LIMIT (error_message M COMMAND_MAX_SESSION_LIMIT 0)
       (begin_action C (requestID params))), c, w, d)"
  using assms
  by (simp add: ClientLogout_def epp_action_def ask_run Let_def get_ret_def get_registrar_lang_def)

section \<open>A small registry\<close>

definition sample_login_environment :: "(u64 \<times> u64) login_environment" where
  "sample_login_environment =
     \<lparr>time_now = (\<lambda>(t, n). (t, t + 1, n)), next_login_id = (\<lambda>(t, n). (Inr (n + 1), t, n + 1)),
      check_password = (\<lambda>p enc. if enc = CHR ''x'' # p then CorrectPassword else IncorrectPassword),
      encrypt_password_by_preferred_method = (\<lambda>p w. (Inr (CHR ''x'' # p), w)),
      is_encrypted_by_preferred_method = (\<lambda>_. True), database_time = (\<lambda>_. 0),
      login_statement_works = (\<lambda>_. True)\<rparr>"

definition sample_login_corba :: corba where
  "sample_login_corba = \<lparr>make_svtrid = (\<lambda>_. ''svtr''), convert_time_to_local_rfc3339 = (\<lambda>_. []),
     greatest_code = 9999, greatest_position = 100\<rparr>"

definition sample_messages :: messages where
  "sample_messages = \<lparr>ErrorMsg = AddMesg 1500 ''bye'' ''nashle'' (AddMesg 1000 ''done'' ''hotovo'' new_Mesg), ReasonMsg = new_Mesg\<rparr>"

text \<open>Registrar 1 with a certificate and the password \<open>old\<close>, registrar 2 blocked.\<close>

definition sample_login_tables :: "string \<Rightarrow> login_tables" where
  "sample_login_tables enc =
     \<lparr>registrars = [(1, ''REG-A''), (2, ''REG-B'')],
      registrar_disconnect = [\<lparr>disconnect_registrarid = 2, blocked_from = 0, blocked_to = None\<rparr>],
      registraracl = [\<lparr>acl_id = 10, acl_registrarid = 1, acl_cert = ''cert'', acl_password = enc\<rparr>]\<rparr>"

lemmas login_sample = sample_login_environment_def sample_login_tables_def sample_login_corba_def sample_messages_def

definition sample_logged_in :: EppSessionContainer where
  "sample_logged_in =
     \<lparr>session_timeout_sec = 300, max_total_sessions = 2, max_reg_sessions = 1,
      sessions = [(1, \<lparr>registrarID = 1, language = 1, timestamp = 1001\<rparr>)], registrar_session_count = [(1, 1)]\<rparr>"

lemma sample_login_step:
  "login_session sample_login_environment 1 1 (new_container 2 1 300, 1000, 0) = Some (Inr 1, sample_logged_in, 1002, 1)"
  by (simp add: container_run new_container_def sample_login_environment_def sample_logged_in_def)

lemma sample_client_login:
  "\<exists>ret. ClientLogin sample_login_environment sample_login_corba sample_messages (\<lambda>_. True) ''REG-A'' ''old'' (Some ''new'')
      7 ''cert'' CS (new_container 2 1 300, (1000, 0), sample_login_tables ''xold'') =
    Some (Inr (ret, 1), sample_logged_in, (1002, 1), sample_login_tables ''xnew'')"
proof -
  have "authenticated sample_login_environment 1 ''cert'' ''old'' (Some ''new'')
      (new_container 2 1 300, (1000, 0), sample_login_tables ''xold'') =
      (Inr (), new_container 2 1 300, (1000, 0), sample_login_tables ''xnew'')"
    by (simp add: authenticated_def authenticate_def selected_acl_def set_password_def updated_row_def login_sample
        bindE_def whenE_def returnE_def)
  moreover have "GetNumericFromTable sample_login_environment (sample_login_tables ''xold'') ''REG-A'' = 1"
    "login_statement_works sample_login_environment Select_disconnect"
    "\<forall>d \<in> set (registrar_disconnect (sample_login_tables ''xold'')). \<not> blocked_row 0 1 d"
    "database_time sample_login_environment (1000, 0) = 0"
    by (simp_all add: GetNumericFromTable_def login_sample blocked_row_def)
  moreover have "login_checked sample_login_environment 1 CS (new_container 2 1 300, (1000, 0), sample_login_tables ''xnew'') =
      Some (Inr (COMMAND_OK, 1), sample_logged_in, (1002, 1), sample_login_tables ''xnew'')"
    by (simp add: login_checked_def language_to_int_def sample_login_step)
  ultimately have "login_attempt sample_login_environment ''REG-A'' ''old'' (Some ''new'') ''cert'' CS
      (new_container 2 1 300, (1000, 0), sample_login_tables ''xold'') =
      Some (Inr (COMMAND_OK, 1), sample_logged_in, (1002, 1), sample_login_tables ''xnew'')"
    by (simp add: login_attempt_def blocked_run Let_def)
  then show ?thesis
    by (simp add: ClientLogin_def Let_def handled_def command_codes is_command_successfully_done_def)
qed

lemma sample_logged_in_inv: "container_inv sample_logged_in"
  using login_simulated [OF new_container_inv sample_login_step] by simp

section \<open>Properties\<close>

text \<open>C24: only an authentic registrar gets a session.

  When a login returns a number, there is exactly one registrar with the handle, it is not blocked,
  exactly one password is recorded for it and the certificate presented, and the password given
  matches it. The number is then that of a session of this registrar in the language asked for, and
  the response says that the command completed.
\<close>

theorem login_is_authentic:
  assumes "ClientLogin E C M commits ClID passwd newpass requestId cert lng (c, w, t) =
      Some (Inr (ret, client), c', w', t')"
    and "container_inv c"
  shows "\<exists>i row. filter (\<lambda>(_, h). h = ClID) (registrars t) = [(i, ClID)] \<and> (ucast i :: u32) \<noteq> 0 \<and>
    (\<exists>d \<in> set (registrar_disconnect t). blocked_row (database_time E w) (scast (ucast i :: u32)) d) = False \<and>
    selected_acl (scast (ucast i :: u32)) cert t = [row] \<and>
    check_password E passwd (acl_password row) = CorrectPassword \<and>
    registry_of c' client = Some (ucast i, language_to_int lng) \<and> response_code ret = COMMAND_OK"
proof -
  let ?regID = "GetNumericFromTable E t ClID"
  note success = login_success [OF assms(1)]
  obtain i where i: "filter (\<lambda>(_, h). h = ClID) (registrars t) = [(i, ClID)]" "?regID = ucast i"
  proof -
    have "?regID \<noteq> 0" using success by blast
    then obtain i h where one: "filter (\<lambda>(_, h). h = ClID) (registrars t) = [(i, h)]" "?regID = ucast i"
      by (auto simp: GetNumericFromTable_def split: list.splits if_splits)
    moreover have "(i, h) \<in> set (filter (\<lambda>(_, h). h = ClID) (registrars t))"
      by (simp only: one(1) list.set_intros)
    then have "h = ClID" by simp
    ultimately show thesis using that by blast
  qed
  obtain w1 where w1: "authenticated E ?regID cert passwd newpass (c, w, t) = (Inr (), c, w1, t')"
      "login_session E ?regID (language_to_int lng) (c, w1) = Some (Inr client, c', w')"
    using success by blast
  then have "registry_of c' client = Some (?regID, language_to_int lng)"
    using login_run_registry(2) [OF assms(2) w1(2)] by blast
  then show ?thesis
    using success authenticated_Inr [OF w1(1)] i by auto
qed

theorem login_is_authentic_witness:
  "\<exists>i row. filter (\<lambda>(_, h). h = ''REG-A'') (registrars (sample_login_tables ''xold'')) = [(i, ''REG-A'')] \<and>
    selected_acl (scast (ucast i :: u32)) ''cert'' (sample_login_tables ''xold'') = [row] \<and>
    registry_of sample_logged_in 1 = Some (ucast i, 1)"
proof -
  obtain ret where "ClientLogin sample_login_environment sample_login_corba sample_messages (\<lambda>_. True) ''REG-A'' ''old''
      (Some ''new'') 7 ''cert'' CS (new_container 2 1 300, (1000, 0), sample_login_tables ''xold'') =
    Some (Inr (ret, 1), sample_logged_in, (1002, 1), sample_login_tables ''xnew'')"
    using sample_client_login by blast
  from login_is_authentic [OF this new_container_inv] show ?thesis
    by (simp add: language_to_int_def) blast
qed

text \<open>C25: a login that is refused leaves nothing behind.

  When a login ends with an exception that is not the one of a failing commit, the tables are as they
  were: a password given along is not changed and none is encrypted anew. The exception carries one of
  the codes for a failed authentication, a blocked registrar, too many sessions and an internal
  failure, and no session was added.
\<close>

theorem refused_login_leaves_nothing:
  assumes "ClientLogin E C M (\<lambda>_. True) ClID passwd newpass requestId cert lng (c, w, t) = Some (Inl e, c', w', t')"
    and "container_inv c"
  shows "t' = t \<and> container_inv c' \<and> registry_of c' \<subseteq>\<^sub>m registry_of c \<and>
    (\<exists>code msg svtrid. e = epp_error code msg svtrid \<and> code \<in> {2201, 2400, 2501, 2502})"
  using login_refused(1) [OF assms(1)] login_refused(2) [OF assms]
  by (auto simp: command_codes)

theorem refused_login_leaves_nothing_witness:
  "\<exists>e. ClientLogin sample_login_environment sample_login_corba sample_messages (\<lambda>_. True) ''REG-B'' ''old'' None 7 ''cert'' EN
      (sample_logged_in, (1002, 1), sample_login_tables ''xold'') =
    Some (Inl e, sample_logged_in, (1002, 1), sample_login_tables ''xold'') \<and>
    (\<exists>code msg svtrid. e = epp_error code msg svtrid \<and> code \<in> {2201, 2400, 2501, 2502})"
proof -
  have "GetNumericFromTable sample_login_environment (sample_login_tables ''xold'') ''REG-B'' = 2"
    "login_statement_works sample_login_environment Select_disconnect"
    "\<exists>d \<in> set (registrar_disconnect (sample_login_tables ''xold'')). blocked_row 0 2 d"
    "database_time sample_login_environment (1002, 1) = 0"
    by (simp_all add: GetNumericFromTable_def login_sample blocked_row_def)
  then have "\<exists>e. ClientLogin sample_login_environment sample_login_corba sample_messages (\<lambda>_. True) ''REG-B'' ''old'' None 7
      ''cert'' EN (sample_logged_in, (1002, 1), sample_login_tables ''xold'') =
    Some (Inl e, sample_logged_in, (1002, 1), sample_login_tables ''xold'')"
    by (simp add: ClientLogin_def login_attempt_def blocked_run Let_def handled_def command_codes
      is_command_successfully_done_def)
  then obtain e where e: "ClientLogin sample_login_environment sample_login_corba sample_messages (\<lambda>_. True) ''REG-B'' ''old''
      None 7 ''cert'' EN (sample_logged_in, (1002, 1), sample_login_tables ''xold'') =
    Some (Inl e, sample_logged_in, (1002, 1), sample_login_tables ''xold'')"
    by (rule exE)
  have "\<exists>code msg svtrid. e = epp_error code msg svtrid \<and> code \<in> {2201, 2400, 2501, 2502}"
    using refused_login_leaves_nothing [OF e sample_logged_in_inv] by (elim conjE)
  with e show ?thesis
    by (intro exI [of _ e] conjI)
qed

lemma sample_encryption:
  "encrypt_password_by_preferred_method sample_login_environment p u = (Inr enc, u') \<Longrightarrow>
    check_password sample_login_environment p enc = CorrectPassword"
  by (auto simp: sample_login_environment_def)

text \<open>C26: after a login the password given is the valid one.

  Provided that what is encrypted is accepted by the comparison, after a login the one row for the
  registrar and the certificate accepts the new password when there is one that is not empty, and
  otherwise the password of the login; the rows of other registrars and certificates are the same.
\<close>

theorem valid_password_after_login:
  assumes "ClientLogin E C M commits ClID passwd newpass requestId cert lng (c, w, t) =
      Some (Inr (ret, client), c', w', t')"
    and "\<And>p u enc u'. encrypt_password_by_preferred_method E p u = (Inr enc, u') \<Longrightarrow> check_password E p enc = CorrectPassword"
  defines "R \<equiv> scast (GetNumericFromTable E t ClID) :: u64"
    and "valid \<equiv> (case newpass of Some (ch # np) \<Rightarrow> ch # np | _ \<Rightarrow> passwd)"
  shows "\<exists>row. selected_acl R cert t' = [row] \<and> check_password E valid (acl_password row) = CorrectPassword \<and>
    filter (\<lambda>r. \<not> (acl_registrarid r = R \<and> acl_cert r = cert)) (registraracl t') =
      filter (\<lambda>r. \<not> (acl_registrarid r = R \<and> acl_cert r = cert)) (registraracl t) \<and>
    registrars t' = registrars t \<and> registrar_disconnect t' = registrar_disconnect t"
proof -
  obtain w1 where w1: "authenticated E (GetNumericFromTable E t ClID) cert passwd newpass (c, w, t) = (Inr (), c, w1, t')"
    using login_success [OF assms(1)] by blast
  then obtain row where row: "selected_acl R cert t = [row]" "check_password E passwd (acl_password row) = CorrectPassword"
    using authenticated_Inr [OF w1] unfolding R_def by blast
  have "t' = t \<and> valid = passwd \<or> stored_password E R cert valid t t'"
    using authenticated_Inr [OF w1] unfolding R_def valid_def by (auto split: option.splits list.splits)
  then show ?thesis
    using row assms(2) with_password_selected [OF row(1)]
    by (auto simp: stored_password_def with_password_others [simplified])
qed

theorem valid_password_after_login_witness:
  "\<exists>row. selected_acl (scast (GetNumericFromTable sample_login_environment (sample_login_tables ''xold'') ''REG-A'') :: u64)
      ''cert'' (sample_login_tables ''xnew'') = [row] \<and>
    check_password sample_login_environment ''new'' (acl_password row) = CorrectPassword"
proof -
  obtain ret where "ClientLogin sample_login_environment sample_login_corba sample_messages (\<lambda>_. True) ''REG-A'' ''old''
      (Some ''new'') 7 ''cert'' CS (new_container 2 1 300, (1000, 0), sample_login_tables ''xold'') =
    Some (Inr (ret, 1), sample_logged_in, (1002, 1), sample_login_tables ''xnew'')"
    using sample_client_login by blast
  then show ?thesis
  proof (rule exE [OF valid_password_after_login])
    show "encrypt_password_by_preferred_method sample_login_environment p u = (Inr enc, u') \<Longrightarrow>
        check_password sample_login_environment p enc = CorrectPassword" for p u enc u'
      by (rule sample_encryption)
  qed simp
qed

text \<open>C27: a logout ends exactly the session.

  The logout of a session is answered with the code for it, the session is gone, and every other
  session stays. The message of the answer is always the English one, whatever the language of the
  session: the language is asked for after the session has been removed.
\<close>

theorem logout_ends_session:
  assumes "container_inv c" "registry_of c (loginID params) = Some (R, lng)" "R \<noteq> 0"
  shows "\<exists>c' w'. ClientLogout E C M commits params (c, w, d) =
      (Inr (\<lparr>response_code = COMMAND_LOGOUT, response_svTRID = begin_action C (requestID params),
             response_msg = error_message M COMMAND_LOGOUT 0\<rparr>, ()), c', w', d) \<and>
    container_inv c' \<and> registry_of c' = (registry_of c)(loginID params := None)"
  by (rule logout_run [OF assms])

theorem logout_ends_session_witness:
  "\<exists>ret c' w'. ClientLogout sample_login_environment sample_login_corba sample_messages (\<lambda>_. True)
      \<lparr>loginID = 1, clTRID = ''cl'', requestID = 8\<rparr> (sample_logged_in, (1002, 1), sample_login_tables ''xnew'') =
      (Inr (ret, ()), c', w', sample_login_tables ''xnew'') \<and>
    response_msg ret = ''bye'' \<and> registry_of c' = Map.empty"
proof -
  have reg: "registry_of sample_logged_in = [1 \<mapsto> (1, 1)]"
    by (rule ext) (simp add: registry_of_def sample_logged_in_def u64_less.equivalent_key)
  have "error_message sample_messages COMMAND_LOGOUT 0 = ''bye''"
    by (simp add: error_message_def message_in_def GetMesg_def AddMesg_def new_Mesg_def sample_messages_def LANG_CS_def
        COMMAND_LOGOUT_def wrap_string_to_corba_string_def)
  then show ?thesis
    using logout_ends_session [OF sample_logged_in_inv, of "\<lparr>loginID = 1, clTRID = ''cl'', requestID = 8\<rparr>" 1 1
        sample_login_environment sample_login_corba sample_messages "\<lambda>_. True" "(1002, 1)" "sample_login_tables ''xnew''"]
    by (auto simp: reg)
qed

end
