(* ===== verification/Spec2Isabelle.thy ===== *)
theory Spec2Isabelle
  imports Keyset_Properties Nsset_Properties Domain_Properties Contact_Properties Contact_Update_Properties
    Epp_Authinfo Epp_Poll Epp_Credit Corba_Properties Corba_Data_Properties
    Info_Properties Corba_Login_Properties
begin

text \<open>
  The EPP backend of the FRED registry server: a model of \<^verbatim>\<open>src/src/backend/epp\<close>, of the CORBA
  servant in front of it (\<^verbatim>\<open>src/src/bin/corba/epp\<close>), and of the properties that make its commands
  correct. File names below are relative to the first directory unless they begin with \<^verbatim>\<open>src\<close>.

  \<^bold>\<open>The program.\<close> FRED registers domains, contacts, sets of name servers (nssets) and sets of DNSSEC
  keys (keysets). Registrars work with it by EPP commands; the CORBA front end turns each into a
  call of one of the functions of this directory. Every command comes in two layers. The inner
  function (\<^verbatim>\<open>create_domain\<close>, ...) works inside a transaction, given as an operation context: it
  checks the session, reads what it needs through the library LibFred, throws an
  \<^verbatim>\<open>EppResponseFailure\<close> with the collected errors or calls the operation of LibFred that makes the
  change. The outer function (\<^verbatim>\<open>create_domain_localized\<close>, ...) opens the transaction, runs the inner
  one, describes the result in the language of the session, commits, queues a notification, and
  turns every exception into a localized failure.

  \<^bold>\<open>How it is modelled.\<close> An operation is a function from a database state to an exception or a
  result, and the new state (\<open>Fred_Prelude\<close>: \<open>bindE\<close>, \<open>throwE\<close>, \<open>catchE\<close>, the loop
  \<open>for_vector\<close> with its 16-bit index). The state is arbitrary: LibFred, the database, the decimal
  numbers and boost are not part of the repository and are records of operations
  (\<open>libfred\<close>, \<open>libfred_keyset\<close>, \<open>libfred_nsset\<close>, \<open>libfred_domain\<close>,
  \<open>libfred_contact\<close>, \<open>libfred_contact_update\<close>,
  \<open>libfred_request\<close>, \<open>libfred_credit\<close>, \<open>poll_queries\<close>, \<open>database\<close>, \<open>billing\<close>), arguments of the commands. What a theorem needs of them it assumes by name: that
  queries answer without changing the state (\<open>reads\<close>, \<open>nsset_queries\<close>, \<open>domain_queries\<close>,
  \<open>contact_queries\<close>, \<open>contact_relations\<close>, \<open>update_contact_access\<close>,
  \<open>object_queries\<close>, \<open>authinfo_queries\<close>, \<open>poll_ready\<close>). Where the code itself says in SQL what
  is read and changed, the table is part of the state (\<open>poll_db\<close>, \<open>update_tables\<close>). \<open>Sample_Base\<close> and the theories \<open>*_Sample\<close> hold an instance that meets
  the assumptions, on which the witnesses run the commands. Machine integers keep their width; the
  positions reported in errors are 16 bits wide, and where the code converts with
  \<^verbatim>\<open>boost::numeric_cast\<close> theorems that depend on it ask for lists of at most \<open>2 ^ 16\<close> elements.
  All loops but one run over lists, so that their definitions are total and need no fuel; the loop
  over the sessions that erases what it iterates over is a \<^verbatim>\<open>partial_function\<close>, and is proved to
  return.

  \<^bold>\<open>The theories.\<close>
  \<^item> \<open>Fred_Prelude\<close>, \<open>Std_Containers\<close>: effects, strings, the ordered containers of C++ over a
    comparison (locale \<open>keyed_order\<close>).
  \<^item> \<open>Epp_Result\<close>: result codes, parameters, reasons, extended errors, the failures that collect
    them (\<^verbatim>\<open>epp_result_failure.cc\<close>, \<^verbatim>\<open>epp_extended_error.cc\<close>, \<^verbatim>\<open>reason.hh\<close>, ...).
  \<^item> \<open>Epp_Session\<close>: session, exceptions, the shared part of LibFred, authorization by password; the
    locale \<open>session_guarded\<close> is the contract every command satisfies: no registrar, no work.
  \<^item> \<open>Epp_Localized\<close>: descriptions, localized responses, notifications, and the locale
    \<open>localized_update\<close>: a localized command stores everything or nothing
    (\<^verbatim>\<open>localization.cc\<close>, \<^verbatim>\<open>impl/conditionally_enqueue_notification.cc\<close>).
  \<^item> \<open>Unique_Scan\<close>, \<open>Indexed_Check\<close>, \<open>Availability\<close>: the three kinds of loop the commands go
    through their lists with, as locales: what one turn does determines what the loop does.
  \<^item> \<open>Keyset_Key\<close>, \<open>Keyset_Base\<close>, \<open>Keyset_Create\<close>, \<open>Keyset_Update\<close>, \<open>Keyset_Update_Spec\<close>,
    \<open>Keyset_Commands\<close>, \<open>Keyset_Localized\<close>: \<^verbatim>\<open>keyset/\<close>.
  \<^item> \<open>Nsset_Base\<close>, \<open>Nsset_Create\<close>, \<open>Nsset_Update\<close>, \<open>Nsset_Commands\<close>: \<^verbatim>\<open>nsset/\<close>.
  \<^item> \<open>Domain_Base\<close>, \<open>Domain_Billing\<close>, \<open>Domain_Create\<close>, \<open>Domain_Create_Spec\<close>,
    \<open>Domain_Renew\<close>, \<open>Domain_Update\<close>, \<open>Domain_Commands\<close>, \<open>Domain_Localized\<close>: \<^verbatim>\<open>domain/\<close>,
    charging included (\<^verbatim>\<open>impl/domain_billing.cc\<close>).
  \<^item> \<open>Contact_Base\<close>, \<open>Contact_Create\<close>, \<open>Contact_Commands\<close>, \<open>Contact_Info\<close>,
    \<open>Contact_Localized\<close>, \<open>Contact_Change\<close>, \<open>Contact_Filter\<close>, \<open>Contact_Update\<close>,
    \<open>Contact_Hooks\<close>, \<open>Contact_Update_Spec\<close>: \<^verbatim>\<open>contact/\<close> and \<^verbatim>\<open>update_operation/\<close>, with the filters that
    decide what is disclosed, the policy that decides who is shown it, and the checks of
    \<^verbatim>\<open>src/src/backend/admin/contact/verification\<close> that an update sets off.
  \<^item> \<open>Epp_Authinfo\<close>: the commands \<^verbatim>\<open>authinfo_*\<close> of the four kinds of objects, their public request
    and its recipients (\<^verbatim>\<open>public_request/\<close>, \<^verbatim>\<open>src/src/backend/public_request\<close>); \<open>Epp_Poll\<close>: messages
    to registrars (\<^verbatim>\<open>poll/\<close>); \<open>Epp_Credit\<close>: \<^verbatim>\<open>credit/\<close>. Each holds its properties and sample.
    \<open>Epp_Poll_Details\<close>: the two states of an object that a message about its update tells of
    (\<^verbatim>\<open>poll/poll_request_get_update_*\<close>); the tables of histories are part of the state, the objects
    as they were are LibFred's (\<open>libfred_history\<close>).
  \<^item> \<open>Session_Container\<close>, \<open>Session_Registry\<close>: the open sessions
    (\<^verbatim>\<open>src/src/bin/corba/epp/epp_session.cc\<close>), the histories of logins, requests and logouts, and the
    registry the container implements.
  \<^item> \<open>Corba_Base\<close>, \<open>Corba_Contact\<close>, \<open>Corba_Keyset\<close>, \<open>Corba_Nsset\<close>, \<open>Corba_Domain\<close>,
    \<open>Corba_Poll\<close>, \<open>Corba_Poll_Details\<close>: the methods of the servant (\<^verbatim>\<open>src/src/bin/corba/epp/epp_impl.cc\<close>) with the
    conversions of their data: what the client sends becomes the arguments of the commands, and
    their results and localized failures become what it receives.
  \<^item> \<open>Corba_Properties\<close>, \<open>Corba_Data_Properties\<close>: what the servant promises.
  \<^item> \<open>Object_Lists\<close>, \<open>Info_Buffer\<close>, \<open>Info_Reader\<close>, \<open>Info_Listing\<close>, \<open>Info_Properties\<close>: the
    listings of objects. The deprecated library (\<^verbatim>\<open>src/src/deprecated/libfred\<close>) makes a query from
    the filters of a list (\<^verbatim>\<open>registrable_object/\<close>), keeps its result in two tables and hands it out in
    chunks (\<^verbatim>\<open>info_buffer.cc\<close>); the tables are the state, and the locale \<open>chunk_reader\<close> is the
    contract of reading in chunks.
  \<^item> \<open>Corba_Action\<close>, \<open>Corba_Login\<close>, \<open>Corba_Login_Properties\<close>: the older methods of the servant, which
    work on the database by themselves: the messages in memory (\<^verbatim>\<open>messages.cc\<close>), the frame of these
    methods (class \<^verbatim>\<open>EPPAction\<close>), login, logout, the end of sessions, requests refused by the front
    end and listings; and the authentication by certificate and password
    (\<^verbatim>\<open>impl/registraracl/authentic_registrar.cc\<close>), whose tables are the state and whose encryption is
    a parameter.
  \<^item> \<open>Keyset_Properties\<close>, \<open>Nsset_Properties\<close>, \<open>Domain_Properties\<close>, \<open>Contact_Properties\<close>,
    \<open>Contact_Update_Properties\<close> and this theory: the properties.

  \<^bold>\<open>What is shown.\<close> For each command that creates or changes an object its verdict is defined as a
  function of the answers of LibFred, and the command is proved to follow it exactly: it throws the
  failure of the verdict, errors and their positions included, or does the change. From this follow
  the conditions under which an object is created, updated, renewed, deleted and transferred, the
  limits on numbers of contacts, keys, hosts and months, what is charged, the agreement of the
  availability checks with the creations, what information is given to whom (for contacts as a
  refinement of a policy of relationships and as a noninterference property), when the address of a
  contact may be private and what identity LibFred is given with it, that the data of a contact come back as they were given, that a registrar
  reads each of its messages once and in order, and that a failed command leaves no trace. Where the code does not do what it means to, the property says what it
  does (the names \<open>*_details_lost\<close>, \<open>contact_case_divergence\<close>, \<open>update_nsset_negative_level\<close>,
  \<open>delete_nsset_swallows_exception\<close>, \<open>renewal_charged_by_full_years\<close>,
  \<open>partial_address_change_divergence\<close>, \<open>update_contact_details_for_anybody\<close>).

  Where the servant calls the commands it is shown that the open sessions are bookkept as they
  should: the limits hold, the loops that remove sessions return and remove the right ones, the container implements an
  abstract registry, and who a request is attributed to has logged in (\<open>Session_Registry\<close>). A
  request under a number that is no session is refused by every method whose command looks at the
  registrar, and an object is deleted
  only on behalf of a registrar that logged in and is entitled to it; changes arrive as the
  commands expect them, availability is answered in the order of the question, and the keys of a keyset and the data of a
  contact that are answered can be sent back (\<open>Corba_Properties\<close>, \<open>Corba_Data_Properties\<close>). A listing is read back complete
  and in order whatever the chunks, and the listing of the domains of a contact has each once; a
  listing for an empty handle has everything there is (\<open>Info_Properties\<close>). Only a registrar that
  exists, is not blocked and has the password recorded for its certificate gets a session; a login
  that is refused leaves no trace, after one that succeeds the new password is the valid one, and a
  logout ends exactly its session (\<open>Corba_Login_Properties\<close>).

  \<^bold>\<open>Not modelled.\<close> Logging, because nothing depends on it. The reading of the options that choose
  the filters of contacts. Of the servant: technical tests, the functions on zones and the
  version, the start of a transaction that fails (an exception of the connection, before a method
  has done anything), and the formatting of local times, which depends on the host. The other CORBA
  servants, the command line, the record statements, the web services and the deprecated libraries
  outside this directory: conversions of types, configuration, or SQL whose meaning is that of the
  database.
\<close>

section \<open>Properties of all commands\<close>

abbreviation no_registrar :: exn where
  "no_registrar \<equiv> fail_with authentication_error_server_closing_connection"

text \<open>Without a registrar in the session every command on contacts, keysets, nssets and domains, polling
  and the question for the credit refuse with \<open>authentication_error_server_closing_connection\<close> and
  do not touch the database; \<^verbatim>\<open>renew_domain\<close>, which asks for the time first, provided that this
  succeeds.\<close>

lemma commands_need_session:
  assumes "registrar_id session = 0" and "reads (current_utc_time LD) db now"
  shows "create_keyset LK kc session db = (Inl no_registrar, db) \<and>
    update_keyset LK ku session db = (Inl no_registrar, db) \<and>
    delete_keyset LK h session db = (Inl no_registrar, db) \<and>
    transfer_keyset LK h pw session db = (Inl no_registrar, db) \<and>
    info_keyset LK h ipw session db = (Inl no_registrar, db) \<and>
    check_keyset LK hs session db = (Inl no_registrar, db) \<and>
    create_nsset LN nc ncc session db = (Inl no_registrar, db) \<and>
    update_nsset LN nu nuc session db = (Inl no_registrar, db) \<and>
    delete_nsset LN h session db = (Inl no_registrar, db) \<and>
    transfer_nsset LN h pw session db = (Inl no_registrar, db) \<and>
    info_nsset LN h ipw session db = (Inl no_registrar, db) \<and>
    check_nsset LN hs session db = (Inl no_registrar, db) \<and>
    create_domain LD B dc charging session db = (Inl no_registrar, db) \<and>
    renew_domain LD B dr charging session db = (Inl no_registrar, db) \<and>
    update_domain LD du duc session db = (Inl no_registrar, db) \<and>
    delete_domain LD h session db = (Inl no_registrar, db) \<and>
    transfer_domain LD h pw session db = (Inl no_registrar, db) \<and>
    info_domain LD h ipw session db = (Inl no_registrar, db) \<and>
    check_domain LD hs session db = (Inl no_registrar, db) \<and>
    create_contact LO h cd cf session db = (Inl no_registrar, db) \<and>
    update_contact LU h cu uf session db = (Inl no_registrar, db) \<and>
    delete_contact LO h session db = (Inl no_registrar, db) \<and>
    transfer_contact LO h pw session db = (Inl no_registrar, db) \<and>
    info_contact LO h rel ipw session db = (Inl no_registrar, db) \<and>
    check_contact LO hs session db = (Inl no_registrar, db) \<and>
    poll_request P (registrar_id session) messages = (Inl no_registrar, messages) \<and>
    poll_acknowledgement P i (registrar_id session) messages = (Inl no_registrar, messages) \<and>
    client_credit LC (registrar_id session) db = (Inl no_registrar, db)"
proof -
  have s: "\<not> is_session_registrar_valid session" using assms(1) by (simp add: is_session_registrar_valid_def)
  moreover have "renew_domain LD B dr charging session db = (Inl no_registrar, db)"
    using assms(2) with_session_refuses [OF s] by (simp add: renew_domain_def op_simps)
  moreover have "poll_request P (registrar_id session) messages = (Inl no_registrar, messages)"
    "poll_acknowledgement P i (registrar_id session) messages = (Inl no_registrar, messages)"
    "client_credit LC (registrar_id session) db = (Inl no_registrar, db)"
    using assms(1) by (simp_all add: poll_request_def poll_acknowledgement_def client_credit_def op_simps)
  ultimately show ?thesis
    by (simp add: create_keyset.refuses update_keyset.refuses delete_keyset.refuses
        transfer_keyset.refuses info_keyset.refuses check_keyset.refuses
        create_nsset.refuses update_nsset.refuses delete_nsset.refuses
        transfer_nsset.refuses info_nsset.refuses check_nsset.refuses
        create_domain.refuses update_domain.refuses delete_domain.refuses
        transfer_domain.refuses info_domain.refuses check_domain.refuses
        create_contact.refuses update_contact.refuses delete_contact.refuses
        transfer_contact.refuses info_contact.refuses check_contact.refuses)
qed

text \<open>C40: a localized command that is to change a contact, a keyset, an nsset or a domain, to create a public
  request or to mark a message and fails, for whatever reason and at whatever moment, leaves the
  stored database as it was.\<close>

theorem failures_rolled_back:
  "(create_keyset_localized LK D kc session nd db = (Inl t, db') \<longrightarrow> db' = db) \<and>
   (update_keyset_localized LK D ku session nd db = (Inl t, db') \<longrightarrow> db' = db) \<and>
   (delete_keyset_localized LK D h session nd db = (Inl t, db') \<longrightarrow> db' = db) \<and>
   (transfer_keyset_localized LK D h pw session nd db = (Inl t, db') \<longrightarrow> db' = db) \<and>
   (create_nsset_localized LN D nc ncc session nd db = (Inl t, db') \<longrightarrow> db' = db) \<and>
   (update_nsset_localized LN D nu nuc session nd db = (Inl t, db') \<longrightarrow> db' = db) \<and>
   (delete_nsset_localized LN D h session nd db = (Inl t, db') \<longrightarrow> db' = db) \<and>
   (transfer_nsset_localized LN D h pw session nd db = (Inl t, db') \<longrightarrow> db' = db) \<and>
   (create_domain_localized LD D B dc charging session nd db = (Inl t, db') \<longrightarrow> db' = db) \<and>
   (renew_domain_localized LD D B dr charging session nd db = (Inl t, db') \<longrightarrow> db' = db) \<and>
   (update_domain_localized LD D du duc session nd db = (Inl t, db') \<longrightarrow> db' = db) \<and>
   (delete_domain_localized LD D h session nd db = (Inl t, db') \<longrightarrow> db' = db) \<and>
   (transfer_domain_localized LD D h pw session nd db = (Inl t, db') \<longrightarrow> db' = db) \<and>
   (create_contact_localized LO D h cd cf session nd db = (Inl t, db') \<longrightarrow> db' = db) \<and>
   (update_contact_localized LU D h cu uf checks session nd db = (Inl t, db') \<longrightarrow> db' = db) \<and>
   (delete_contact_localized LO D h session nd db = (Inl t, db') \<longrightarrow> db' = db) \<and>
   (transfer_contact_localized LO D h pw session nd db = (Inl t, db') \<longrightarrow> db' = db) \<and>
   (authinfo_contact_localized LR D h session db = (Inl t, db') \<longrightarrow> db' = db) \<and>
   (authinfo_nsset_localized LR D h session db = (Inl t, db') \<longrightarrow> db' = db) \<and>
   (authinfo_domain_localized LR D h session db = (Inl t, db') \<longrightarrow> db' = db) \<and>
   (authinfo_keyset_localized LR D h session db = (Inl t, db') \<longrightarrow> db' = db) \<and>
   (poll_acknowledgement_localized P DM lexical_cast h registrar l messages = (Inl t, messages') \<longrightarrow>
      messages' = messages)"
  unfolding authinfo_contact_localized_def authinfo_nsset_localized_def authinfo_domain_localized_def
    authinfo_keyset_localized_def
  using create_keyset_localized.failure_rolled_back update_keyset_localized.failure_rolled_back
    delete_keyset_localized.failure_rolled_back transfer_keyset_localized.failure_rolled_back
    create_nsset_localized.failure_rolled_back update_nsset_localized.failure_rolled_back
    delete_nsset_localized.failure_rolled_back transfer_nsset_localized.failure_rolled_back
    create_domain_localized.failure_rolled_back renew_domain_localized.failure_rolled_back
    update_domain_localized.failure_rolled_back delete_domain_localized.failure_rolled_back
    transfer_domain_localized.failure_rolled_back create_contact_localized.failure_rolled_back
    update_contact_localized.failure_rolled_back delete_contact_localized.failure_rolled_back
    transfer_contact_localized.failure_rolled_back authinfo_localized.failure_rolled_back
    poll_acknowledgement_localized.failure_rolled_back
  by metis

theorem failures_rolled_back_witness:
  "\<exists>t db'. transfer_domain_localized (dsample []) sample_database ''a.cz'' ''wrong'' (sample_session 3)
     sample_notification [''before''] = (Inl t, db') \<and> db' = [''before'']"
proof -
  obtain t db' where run: "transfer_domain_localized (dsample []) sample_database ''a.cz'' ''wrong''
      (sample_session 3) sample_notification [''before''] = (Inl t, db')"
    using transfer_domain_localized.failure_reported [OF _ sample_domain_transfer_refused, of sample_database
        "[''before'']" "()"] sample_failure_localized
    by (auto simp: sample_session_def sample_database_def)
  have "db' = [''before'']"
    by (rule failures_rolled_back [THEN conjunct2, THEN conjunct2, THEN conjunct2, THEN conjunct2, THEN conjunct2,
          THEN conjunct2, THEN conjunct2, THEN conjunct2, THEN conjunct2, THEN conjunct2, THEN conjunct2,
          THEN conjunct2, THEN conjunct1, THEN mp, OF run])
  with run show ?thesis by blast
qed

end
